(* ===== verification/Vz_Prelude.thy ===== *)
theory Vz_Prelude imports Main begin

text \<open>
  The prelude of the development: what Go itself contributes to the model (outcomes of a call,
  error values, unbounded \<open>for\<close> loops, slice loops with an early exit, maps built by a loop),
  the result type of a controller (\<open>pkg/controller/requeue_utils.go\<close>), and the
  interface every state machine of the operator satisfies.

  A Go call returns, panics, or never returns; \<open>res\<close> has one constructor for each.
  Logging is not part of the model.
\<close>

section \<open>Outcomes of a Go call\<close>

datatype 'a res = Ret 'a | Panic string | Spin

fun res_bind :: "'a res \<Rightarrow> ('a \<Rightarrow> 'b res) \<Rightarrow> 'b res" where
  "res_bind (Ret a) f = f a"
| "res_bind (Panic m) f = Panic m"
| "res_bind Spin f = Spin"

fun returns :: "'a res \<Rightarrow> bool" where
  "returns (Ret a) = True"
| "returns (Panic m) = False"
| "returns Spin = False"

lemma returns_iff: "returns r \<longleftrightarrow> (\<exists>a. r = Ret a)"
  by (cases r) auto

lemma res_bind_Ret_iff: "res_bind r f = Ret b \<longleftrightarrow> (\<exists>a. r = Ret a \<and> f a = Ret b)"
  by (cases r) auto

lemma res_bind_Panic_iff:
  "res_bind r f = Panic m \<longleftrightarrow> r = Panic m \<or> (\<exists>a. r = Ret a \<and> f a = Panic m)"
  by (cases r) auto

lemma res_bind_Spin_iff: "res_bind r f = Spin \<longleftrightarrow> r = Spin \<or> (\<exists>a. r = Ret a \<and> f a = Spin)"
  by (cases r) auto

lemma res_bind_returns:
  "returns r \<Longrightarrow> (\<And>a. r = Ret a \<Longrightarrow> returns (f a)) \<Longrightarrow> returns (res_bind r f)"
  by (cases r) auto

section \<open>Error values\<close>

text \<open>
  The errors the code tells apart: the Kubernetes API classes it asks about (\<open>IsNotFound\<close>,
  \<open>IsConflict\<close>, \<open>IsNoMatchError\<close>, \<open>IsForbidden\<close>, \<open>IsUnauthorized\<close>), the operator's own \<open>RetryableError\<close>, and the rest.
\<close>

datatype go_error =
    NotFoundErr string
  | ConflictErr string
  | NoMatchErr string
  | ForbiddenErr string
  | UnauthorizedErr string
  | RetryableErr string
  | PlainErr string

definition IsNotFound :: "go_error \<Rightarrow> bool" where
  "IsNotFound e = (case e of NotFoundErr _ \<Rightarrow> True | _ \<Rightarrow> False)"

definition IsConflict :: "go_error \<Rightarrow> bool" where
  "IsConflict e = (case e of ConflictErr _ \<Rightarrow> True | _ \<Rightarrow> False)"

definition IsNoMatchError :: "go_error \<Rightarrow> bool" where
  "IsNoMatchError e = (case e of NoMatchErr _ \<Rightarrow> True | _ \<Rightarrow> False)"

definition IsForbidden :: "go_error \<Rightarrow> bool" where
  "IsForbidden e = (case e of ForbiddenErr _ \<Rightarrow> True | _ \<Rightarrow> False)"

definition IsUnauthorized :: "go_error \<Rightarrow> bool" where
  "IsUnauthorized e = (case e of UnauthorizedErr _ \<Rightarrow> True | _ \<Rightarrow> False)"

text \<open>The text of an error.\<close>

fun Error :: "go_error \<Rightarrow> string" where
  "Error (NotFoundErr m) = m"
| "Error (ConflictErr m) = m"
| "Error (NoMatchErr m) = m"
| "Error (ForbiddenErr m) = m"
| "Error (UnauthorizedErr m) = m"
| "Error (RetryableErr m) = m"
| "Error (PlainErr m) = m"

section \<open>The result a controller returns\<close>

record ctrl_result =
  Requeue :: bool
  RequeueAfter :: int

definition no_requeue :: ctrl_result where
  "no_requeue = \<lparr>Requeue = False, RequeueAfter = 0\<rparr>"

definition requeue_now :: ctrl_result where
  "requeue_now = \<lparr>Requeue = True, RequeueAfter = 0\<rparr>"

text \<open>
  \<open>rand.IntnRange\<close> is library code: \<open>rnd lo hi\<close> is the number it draws, documented to lie in
  the half-open interval from \<open>lo\<close> to \<open>hi\<close>.
\<close>

definition NewRequeueWithDelay :: "(int \<Rightarrow> int \<Rightarrow> int) \<Rightarrow> int \<Rightarrow> int \<Rightarrow> int \<Rightarrow> ctrl_result" where
  "NewRequeueWithDelay rnd lo hi units = \<lparr>Requeue = True, RequeueAfter = rnd lo hi * units\<rparr>"

definition ShouldRequeue :: "ctrl_result \<Rightarrow> bool" where
  "ShouldRequeue r \<longleftrightarrow> Requeue r \<or> RequeueAfter r > 0"

definition IsZero :: "ctrl_result \<Rightarrow> bool" where
  "IsZero r \<longleftrightarrow> r = no_requeue"

definition nano_second :: int where
  "nano_second = 1000000000"

definition newRequeueWithDelay :: "(int \<Rightarrow> int \<Rightarrow> int) \<Rightarrow> ctrl_result" where
  "newRequeueWithDelay rnd = NewRequeueWithDelay rnd 2 3 nano_second"

named_theorems requeue_simps \<open>evaluation of controller results\<close>

lemma requeue_fields [simp, requeue_simps]:
  "Requeue no_requeue = False" "RequeueAfter no_requeue = 0"
  "Requeue requeue_now = True" "RequeueAfter requeue_now = 0"
  "Requeue (newRequeueWithDelay rnd) = True"
  "Requeue (NewRequeueWithDelay rnd a b u) = True"
  by (simp_all add: no_requeue_def requeue_now_def newRequeueWithDelay_def NewRequeueWithDelay_def)

lemma ShouldRequeue_simps [simp, requeue_simps]:
  "\<not> ShouldRequeue no_requeue" "ShouldRequeue requeue_now"
  "ShouldRequeue (newRequeueWithDelay rnd)" "ShouldRequeue (NewRequeueWithDelay rnd a b u)"
  by (simp_all add: ShouldRequeue_def)

lemma IsZero_no_requeue [simp, requeue_simps]: "IsZero no_requeue"
  by (simp add: IsZero_def)

section \<open>Loops\<close>

text \<open>
  An unbounded \<open>for\<close> loop around a \<open>switch\<close>: one iteration either falls through to the next
  one (\<open>Inl\<close> with the new state) or leaves the loop (\<open>Inr\<close> with what the function returns).
  A loop that never leaves is \<open>None\<close>.
\<close>

partial_function (option) go_loop :: "('s \<Rightarrow> 's + 'r) \<Rightarrow> 's \<Rightarrow> 'r option" where
  "go_loop step s = (case step s of Inl s' \<Rightarrow> go_loop step s' | Inr r \<Rightarrow> Some r)"

declare go_loop.simps [code]

definition loop_res :: "('s \<Rightarrow> 's + 'r res) \<Rightarrow> 's \<Rightarrow> 'r res" where
  "loop_res step s = (case go_loop step s of None \<Rightarrow> Spin | Some r \<Rightarrow> r)"

lemma loop_res_Inl: "step s = Inl s' \<Longrightarrow> loop_res step s = loop_res step s'"
  by (simp add: loop_res_def go_loop.simps [of step s])

lemma loop_res_Inr: "step s = Inr r \<Longrightarrow> loop_res step s = r"
  by (simp add: loop_res_def go_loop.simps [of step s])

lemma loop_res_unfold:
  "loop_res step s = (case step s of Inl s' \<Rightarrow> loop_res step s' | Inr r \<Rightarrow> r)"
  by (cases "step s") (simp_all add: loop_res_Inl loop_res_Inr)

text \<open>A loop over a slice whose body may panic.\<close>

fun range_loop :: "('x \<Rightarrow> 's \<Rightarrow> 's res) \<Rightarrow> 'x list \<Rightarrow> 's \<Rightarrow> 's res" where
  "range_loop f [] s = Ret s"
| "range_loop f (x # xs) s = res_bind (f x s) (range_loop f xs)"

lemma range_loop_append:
  "range_loop f (xs @ ys) s = res_bind (range_loop f xs s) (range_loop f ys)"
proof (induction xs arbitrary: s)
  case Nil
  then show ?case by simp
next
  case (Cons x xs)
  then show ?case by (cases "f x s") auto
qed

lemma range_loop_inv:
  assumes "range_loop f xs s = Ret t" and "I s"
    and "\<And>x s t. x \<in> set xs \<Longrightarrow> I s \<Longrightarrow> f x s = Ret t \<Longrightarrow> I t"
  shows "I t"
  using assms
proof (induction xs arbitrary: s)
  case Nil
  then show ?case by simp
next
  case (Cons x xs)
  from Cons.prems(1) obtain u where u: "f x s = Ret u" "range_loop f xs u = Ret t"
    by (auto simp: res_bind_Ret_iff)
  have "I u" by (rule Cons.prems(3) [OF _ Cons.prems(2) u(1)]) simp
  with u(2) Cons.prems(3) show ?case by (auto intro: Cons.IH)
qed

lemma range_loop_returns:
  assumes "I s"
    and "\<And>x s. x \<in> set xs \<Longrightarrow> I s \<Longrightarrow> returns (f x s)"
    and "\<And>x s t. x \<in> set xs \<Longrightarrow> I s \<Longrightarrow> f x s = Ret t \<Longrightarrow> I t"
  shows "returns (range_loop f xs s)"
  using assms
proof (induction xs arbitrary: s)
  case Nil
  then show ?case by simp
next
  case (Cons x xs)
  from Cons.prems(1,2) obtain u where u: "f x s = Ret u"
    by (auto simp: returns_iff)
  have "I u" by (rule Cons.prems(3) [OF _ Cons.prems(1) u]) simp
  then have "returns (range_loop f xs u)"
    by (rule Cons.IH) (simp_all add: Cons.prems(2) Cons.prems(3) [OF list.set_intros(2)])
  with u show ?case by simp
qed

section \<open>The interface of a tracked state machine\<close>

text \<open>
  Every flow of the operator (install, upgrade and uninstall of one component, and the same
  three flows of the whole product) is a \<open>for\<close> loop over a \<open>switch\<close> on a tracker's state.
  What the flows promise is that each iteration which does not return moves the tracker
  forward: \<open>good\<close> states stay good and \<open>rank\<close> gets smaller. From that the clients get
  termination and a Hoare-style rule, once for all six flows.
\<close>

locale ranked_loop =
  fixes step :: "'s \<Rightarrow> 's + 'r"
    and rank :: "'s \<Rightarrow> nat"
    and good :: "'s \<Rightarrow> bool"
  assumes step_good: "good s \<Longrightarrow> step s = Inl s' \<Longrightarrow> good s'"
    and step_rank: "good s \<Longrightarrow> step s = Inl s' \<Longrightarrow> rank s' < rank s"
begin

lemma loop_induct [consumes 1, case_names step]:
  assumes "good s"
    and "\<And>s. good s \<Longrightarrow> (\<And>s'. step s = Inl s' \<Longrightarrow> P s') \<Longrightarrow> P s"
  shows "P s"
  using assms(1)
proof (induction "rank s" arbitrary: s rule: less_induct)
  case less
  show ?case
    by (rule assms(2) [OF less.prems]) (use less step_good step_rank in blast)
qed

lemma loop_returns: "good s \<Longrightarrow> \<exists>r. go_loop step s = Some r"
proof (induction rule: loop_induct)
  case (step s)
  then show ?case by (cases "step s") (auto simp: go_loop.simps [of step s] dest: step_good)
qed

lemma loop_rule:
  assumes "good s" and "I s" and "go_loop step s = Some r"
    and "\<And>s s'. good s \<Longrightarrow> I s \<Longrightarrow> step s = Inl s' \<Longrightarrow> I s'"
    and "\<And>s r. good s \<Longrightarrow> I s \<Longrightarrow> step s = Inr r \<Longrightarrow> Q r"
  shows "Q r"
  using assms(1,2,3)
proof (induction rule: loop_induct)
  case (step s)
  show ?case
  proof (cases "step s")
    case (Inl s')
    with step assms(4) show ?thesis by (auto simp: go_loop.simps [of step s] dest: step_good)
  next
    case (Inr r')
    with step assms(5) show ?thesis by (auto simp: go_loop.simps [of step s])
  qed
qed

end

text \<open>The same for a loop whose iterations may panic: what it returns is a \<open>res\<close>.\<close>

locale ranked_res_loop = ranked_loop step rank good
  for step :: "'s \<Rightarrow> 's + 'r res" and rank :: "'s \<Rightarrow> nat" and good :: "'s \<Rightarrow> bool" +
  assumes step_no_spin: "good s \<Longrightarrow> step s \<noteq> Inr Spin"
begin

lemma loop_res_rule:
  assumes "good s" and "I s"
    and "\<And>s s'. good s \<Longrightarrow> I s \<Longrightarrow> step s = Inl s' \<Longrightarrow> I s'"
    and "\<And>s r. good s \<Longrightarrow> I s \<Longrightarrow> step s = Inr r \<Longrightarrow> Q r"
  shows "Q (loop_res step s)"
proof -
  from loop_returns [OF assms(1)] obtain r where r: "go_loop step s = Some r" by blast
  have "Q r" using assms(1,2) r assms(3,4) by (rule loop_rule)
  with r show ?thesis by (simp add: loop_res_def)
qed

lemma loop_never_spins: "good s \<Longrightarrow> loop_res step s \<noteq> Spin"
  by (rule loop_res_rule [where I = good]) (auto simp: step_good dest: step_no_spin)

end

section \<open>Calls that give a value or an error\<close>

fun err_bind :: "go_error + 'a \<Rightarrow> ('a \<Rightarrow> go_error + 'b) \<Rightarrow> go_error + 'b" where
  "err_bind (Inl e) f = Inl e"
| "err_bind (Inr a) f = f a"

lemma err_bind_Inr_iff: "err_bind r f = Inr b \<longleftrightarrow> (\<exists>a. r = Inr a \<and> f a = Inr b)"
  by (cases r) auto

text \<open>
  The same for calls that reach the world \<open>'w\<close>: the second runs in the world the first left, an
  error ends the sequence.  \<open>io_unit\<close> is a call that gives only an error, \<open>io_pure\<close> a value that
  needs no call.
\<close>

definition io_bind :: "('w \<Rightarrow> (go_error + 'a) \<times> 'w) \<Rightarrow> ('a \<Rightarrow> 'w \<Rightarrow> (go_error + 'b) \<times> 'w) \<Rightarrow> 'w \<Rightarrow> (go_error + 'b) \<times> 'w" where
  "io_bind m f w = (case m w of (Inl e, w1) \<Rightarrow> (Inl e, w1) | (Inr a, w1) \<Rightarrow> f a w1)"

definition io_pure :: "go_error + 'a \<Rightarrow> 'w \<Rightarrow> (go_error + 'a) \<times> 'w" where
  "io_pure r w = (r, w)"

definition io_unit :: "('w \<Rightarrow> go_error option \<times> 'w) \<Rightarrow> 'w \<Rightarrow> (go_error + unit) \<times> 'w" where
  "io_unit m w = (case m w of (None, w1) \<Rightarrow> (Inr (), w1) | (Some e, w1) \<Rightarrow> (Inl e, w1))"

lemma io_bind_Inr_iff:
  "io_bind m f w = (Inr b, w2) \<longleftrightarrow> (\<exists>a w1. m w = (Inr a, w1) \<and> f a w1 = (Inr b, w2))"
  by (auto simp: io_bind_def split: prod.splits sum.splits)

lemma io_pure_Inr_iff [simp]: "io_pure r w = (x, w1) \<longleftrightarrow> r = x \<and> w1 = w"
  by (auto simp: io_pure_def)

lemma io_bind_step:
  "m w = (Inr a, w1) \<Longrightarrow> io_bind m f w = f a w1" "m w = (Inl e, w1) \<Longrightarrow> io_bind m f w = (Inl e, w1)"
  by (simp_all add: io_bind_def)

lemma io_unit_Inr_iff: "io_unit m w = (Inr u, w1) \<longleftrightarrow> m w = (None, w1)"
  by (auto simp: io_unit_def split: prod.splits option.splits)

text \<open>What the returned error says, to a caller that wants nothing else.\<close>

definition io_error :: "('w \<Rightarrow> (go_error + 'a) \<times> 'w) \<Rightarrow> 'w \<Rightarrow> go_error option \<times> 'w" where
  "io_error m w = (case m w of (Inl e, w1) \<Rightarrow> (Some e, w1) | (Inr a, w1) \<Rightarrow> (None, w1))"


section \<open>Calls that may panic\<close>

text \<open>A call that reaches the world, may panic, and otherwise gives a value or an error.\<close>

type_synonym ('w, 'a) call = "'w \<Rightarrow> ((go_error + 'a) \<times> 'w) res"

definition call_bind :: "('w, 'a) call \<Rightarrow> ('a \<Rightarrow> ('w, 'b) call) \<Rightarrow> ('w, 'b) call" where
  "call_bind m f w = res_bind (m w) (\<lambda>(r, w1). case r of Inl e \<Rightarrow> Ret (Inl e, w1) | Inr a \<Rightarrow> f a w1)"

definition call_ret :: "'a \<Rightarrow> ('w, 'a) call" where
  "call_ret a w = Ret (Inr a, w)"

definition call_fail :: "go_error \<Rightarrow> ('w, 'a) call" where
  "call_fail e w = Ret (Inl e, w)"

definition call_io :: "('w \<Rightarrow> (go_error + 'a) \<times> 'w) \<Rightarrow> ('w, 'a) call" where
  "call_io m w = Ret (m w)"

text \<open>Running a call and going on with what it gave, an error included.\<close>

definition call_try :: "('w, 'a) call \<Rightarrow> (go_error + 'a \<Rightarrow> ('w, 'b) call) \<Rightarrow> ('w, 'b) call" where
  "call_try m f w = res_bind (m w) (\<lambda>(r, w1). f r w1)"

lemma call_bind_Ret_Inr_iff:
  "call_bind m f w = Ret (Inr b, w2) \<longleftrightarrow> (\<exists>a w1. m w = Ret (Inr a, w1) \<and> f a w1 = Ret (Inr b, w2))"
proof -
  have "(\<exists>x. m w = Ret x \<and> (case x of (Inl e, w1) \<Rightarrow> Ret (Inl e, w1) | (Inr a, w1) \<Rightarrow> f a w1) = Ret (Inr b, w2)) \<longleftrightarrow>
      (\<exists>a w1. m w = Ret (Inr a, w1) \<and> f a w1 = Ret (Inr b, w2))"
    by (auto split: sum.splits prod.splits) (metis Inr_not_Inl Pair_inject res.inject sum.exhaust)
  then show ?thesis by (simp add: call_bind_def res_bind_Ret_iff split_def)
qed

lemma call_try_Ret_iff:
  "call_try m f w = Ret r \<longleftrightarrow> (\<exists>x w1. m w = Ret (x, w1) \<and> f x w1 = Ret r)"
  by (auto simp: call_try_def res_bind_Ret_iff)

lemma call_simps [simp]:
  "call_ret a w = Ret (r, w1) \<longleftrightarrow> r = Inr a \<and> w1 = w"
  "call_fail e w = Ret (r, w1) \<longleftrightarrow> r = Inl e \<and> w1 = w"
  "call_io m w = Ret p \<longleftrightarrow> m w = p"
  "call_bind (call_ret a) f = f a" "call_bind (call_fail e) f = call_fail e"
  by (auto simp: call_ret_def call_fail_def call_io_def call_bind_def fun_eq_iff)

end
