(* ===== verification/Go_Strings.thy ===== *)
theory Go_Strings imports Vz_Prelude "HOL-Library.Multiset" "HOL-Library.Char_ord" "HOL-Library.List_Lexorder" begin

text \<open>
  String slices and comma separated lists: \<open>pkg/string/slice.go\<close> and
  \<open>pkg/string/comma_separated.go\<close>, over the operations of Go's \<open>strings\<close> package they use.
  A Go string is its list of bytes.  A Go map is an association list with distinct keys, in the
  order one \<open>range\<close> happens to visit them; the lemmas about a \<open>range\<close> hold for every order.
\<close>

section \<open>The strings package\<close>

text \<open>\<open>strings.Split(s, sep)\<close> for a separator of one byte.\<close>

fun split_on :: "char \<Rightarrow> string \<Rightarrow> string list" where
  "split_on c [] = [[]]"
| "split_on c (x # xs) =
     (if x = c then [] # split_on c xs
      else (case split_on c xs of [] \<Rightarrow> [[x]] | y # ys \<Rightarrow> (x # y) # ys))"

text \<open>\<open>strings.Join(xs, sep)\<close>.\<close>

fun str_join :: "string \<Rightarrow> string list \<Rightarrow> string" where
  "str_join sep [] = []"
| "str_join sep [x] = x"
| "str_join sep (x # y # ys) = x @ sep @ str_join sep (y # ys)"

lemma split_on_not_Nil [simp]: "split_on c s \<noteq> []"
  by (cases s) (auto split: list.splits)

lemma split_on_pieces: "x \<in> set (split_on c s) \<Longrightarrow> c \<notin> set x"
  by (induction s arbitrary: x) (auto split: if_splits list.splits)

lemma str_join_Cons: "xs \<noteq> [] \<Longrightarrow> str_join sep (x # xs) = x @ sep @ str_join sep xs"
  by (cases xs) auto

lemma join_split [simp]: "str_join [c] (split_on c s) = s"
proof (induction s)
  case Nil
  then show ?case by simp
next
  case (Cons x s)
  obtain y ys where s: "split_on c s = y # ys"
    by (cases "split_on c s") auto
  with Cons show ?case by (cases ys) auto
qed

lemma split_on_no_sep: "c \<notin> set s \<Longrightarrow> split_on c s = [s]"
  by (induction s) auto

lemma split_on_append: "c \<notin> set x \<Longrightarrow> split_on c (x @ c # s) = x # split_on c s"
  by (induction x) auto

lemma split_join:
  "xs \<noteq> [] \<Longrightarrow> (\<forall>x\<in>set xs. c \<notin> set x) \<Longrightarrow> split_on c (str_join [c] xs) = xs"
  by (induction "[c]" xs rule: str_join.induct) (auto simp: split_on_no_sep split_on_append)

text \<open>\<open>strings.TrimSpace\<close> on ASCII text.\<close>

definition is_space :: "char \<Rightarrow> bool" where
  "is_space c \<longleftrightarrow> c \<in> set [CHR 0x09, CHR 0x0A, CHR 0x0B, CHR 0x0C, CHR 0x0D, CHR 0x20]"

definition TrimSpace :: "string \<Rightarrow> string" where
  "TrimSpace s = rev (dropWhile is_space (rev (dropWhile is_space s)))"

lemma TrimSpace_edges: "TrimSpace s = [] \<or> \<not> is_space (hd (TrimSpace s)) \<and> \<not> is_space (last (TrimSpace s))"
proof (cases "TrimSpace s = []")
  case False
  let ?d = "dropWhile is_space s"
  have t: "TrimSpace s = rev (dropWhile is_space (rev ?d))" by (simp add: TrimSpace_def)
  with False have ne: "dropWhile is_space (rev ?d) \<noteq> []" by auto
  then have "\<not> is_space (hd (dropWhile is_space (rev ?d)))" by (rule hd_dropWhile)
  with t ne have l: "\<not> is_space (last (TrimSpace s))" by (simp add: last_rev)
  have d: "?d \<noteq> []" using ne by (metis dropWhile.simps(1) rev.simps(1))
  then have "\<not> is_space (hd ?d)" by (rule hd_dropWhile)
  moreover have "hd (TrimSpace s) = hd ?d"
  proof -
    obtain ws where "rev ?d = ws @ dropWhile is_space (rev ?d)" by (metis takeWhile_dropWhile_id)
    then have "?d = TrimSpace s @ rev ws" using t by (metis rev_append rev_rev_ident)
    with False show ?thesis by (metis hd_append2)
  qed
  ultimately show ?thesis using l by simp
qed simp

lemma TrimSpace_idem [simp]: "TrimSpace (TrimSpace s) = TrimSpace s"
proof (cases "TrimSpace s = []")
  case True
  show ?thesis unfolding True by (simp add: TrimSpace_def)
next
  case False
  with TrimSpace_edges [of s] obtain a r b q where "TrimSpace s = a # r" "\<not> is_space a"
    "rev (TrimSpace s) = b # q" "\<not> is_space b"
    by (metis hd_rev last_rev neq_Nil_conv list.sel(1) rev_is_Nil_conv)
  then have "dropWhile is_space (TrimSpace s) = TrimSpace s" "dropWhile is_space (rev (TrimSpace s)) = rev (TrimSpace s)"
    by simp_all
  then show ?thesis by (subst TrimSpace_def) simp
qed

text \<open>\<open>strings.TrimRight(s, cutset)\<close> for a cutset of one byte and \<open>strings.Contains(s, sub)\<close>.\<close>

definition TrimRight :: "char \<Rightarrow> string \<Rightarrow> string" where
  "TrimRight c s = rev (dropWhile (\<lambda>x. x = c) (rev s))"

fun Contains :: "string \<Rightarrow> string \<Rightarrow> bool" where
  "Contains [] sub \<longleftrightarrow> sub = []"
| "Contains (c # s) sub \<longleftrightarrow> take (length sub) (c # s) = sub \<or> Contains s sub"

text \<open>\<open>strings.Replace(s, old, new, -1)\<close> for a non-empty \<open>old\<close>: the matches from the left.\<close>

function ReplaceAll :: "string \<Rightarrow> string \<Rightarrow> string \<Rightarrow> string" where
  "ReplaceAll old new [] = []"
| "ReplaceAll old new (c # s) =
     (if old \<noteq> [] \<and> take (length old) (c # s) = old then new @ ReplaceAll old new (drop (length old) (c # s))
      else c # ReplaceAll old new s)"
  by pat_completeness auto
termination by (relation "measure (\<lambda>(old, new, s). length s)") auto

section \<open>Slices\<close>

fun SliceContainsString :: "string list \<Rightarrow> string \<Rightarrow> bool" where
  "SliceContainsString [] s = False"
| "SliceContainsString (item # slice) s = (if item = s then True else SliceContainsString slice s)"

fun RemoveStringFromSlice :: "string list \<Rightarrow> string \<Rightarrow> string list" where
  "RemoveStringFromSlice [] s = []"
| "RemoveStringFromSlice (item # slice) s =
     (if item = s then RemoveStringFromSlice slice s else item # RemoveStringFromSlice slice s)"

definition UnorderedEqual :: "(string \<times> bool) list \<Rightarrow> string list \<Rightarrow> bool" where
  "UnorderedEqual mapBool arrayStr =
     (if length mapBool \<noteq> length arrayStr then False
      else list_all (\<lambda>(element, _). SliceContainsString arrayStr element) mapBool)"

fun SliceToSet :: "string list \<Rightarrow> (string \<Rightarrow> bool option)" where
  "SliceToSet list = foldl (\<lambda>outSet f. outSet(f \<mapsto> True)) Map.empty list"

definition SliceAddString :: "string list \<Rightarrow> string \<Rightarrow> string list \<times> bool" where
  "SliceAddString slice s =
     (if \<not> SliceContainsString slice s then (slice @ [s], True) else (slice, False))"

fun same_elements :: "string list \<Rightarrow> string list \<Rightarrow> bool" where
  "same_elements (v # s1) (w # s2) = (if v \<noteq> w then False else same_elements s1 s2)"
| "same_elements _ _ = True"

definition AreSlicesEqualWithoutOrder :: "string list \<Rightarrow> string list \<Rightarrow> bool" where
  "AreSlicesEqualWithoutOrder slice1 slice2 =
     (if length slice1 \<noteq> length slice2 then False
      else same_elements (sort slice1) (sort slice2))"

lemma SliceContainsString_iff [simp]: "SliceContainsString slice s \<longleftrightarrow> s \<in> set slice"
  by (induction slice) auto

lemma RemoveStringFromSlice_filter: "RemoveStringFromSlice slice s = filter (\<lambda>x. x \<noteq> s) slice"
  by (induction slice) auto

lemma SliceToSet_lookup: "SliceToSet xs s = (if s \<in> set xs then Some True else None)"
proof -
  have "foldl (\<lambda>m f. m(f \<mapsto> True)) m xs s = (if s \<in> set xs then Some True else m s)" for m
    by (induction xs arbitrary: m) auto
  then show ?thesis by simp
qed

lemma same_elements_iff: "length xs = length ys \<Longrightarrow> same_elements xs ys \<longleftrightarrow> xs = ys"
  by (induction xs ys rule: list_induct2) auto

lemma UnorderedEqual_iff:
  assumes "distinct (map fst m)"
  shows "UnorderedEqual m xs \<longleftrightarrow> distinct xs \<and> set xs = fst ` set m"
proof
  assume u: "UnorderedEqual m xs"
  then have len: "length m = length xs" and sub: "fst ` set m \<subseteq> set xs"
    by (auto simp: UnorderedEqual_def list_all_iff split: if_splits)
  have card: "card (fst ` set m) = length xs"
    using assms len by (metis distinct_card length_map set_map)
  have eq: "fst ` set m = set xs"
    using sub card by (metis List.finite_set card_length card_seteq)
  with card have "distinct xs" by (metis card_distinct)
  with eq show "distinct xs \<and> set xs = fst ` set m" by simp
next
  assume r: "distinct xs \<and> set xs = fst ` set m"
  then have "length xs = length m"
    using assms by (metis distinct_card length_map set_map)
  with r show "UnorderedEqual m xs" by (force simp: UnorderedEqual_def list_all_iff)
qed

section \<open>Comma separated strings\<close>

definition CommaSeparatedStringContains :: "string \<Rightarrow> string \<Rightarrow> bool" where
  "CommaSeparatedStringContains commaSeparated s =
     list_ex (\<lambda>ac. ac = s) (split_on CHR '','' commaSeparated)"

definition AppendToCommaSeparatedString :: "string \<Rightarrow> string \<Rightarrow> string" where
  "AppendToCommaSeparatedString commaSeparated s =
     (if commaSeparated = [] then s
      else if CommaSeparatedStringContains commaSeparated s then commaSeparated
      else str_join '','' (split_on CHR '','' commaSeparated @ [s]))"

definition RemoveFromCommaSeparatedString :: "string \<Rightarrow> string \<Rightarrow> string" where
  "RemoveFromCommaSeparatedString commaSeparated s =
     (if commaSeparated = [] then commaSeparated
      else if \<not> CommaSeparatedStringContains commaSeparated s then commaSeparated
      else str_join '','' (RemoveStringFromSlice (split_on CHR '','' commaSeparated) s))"

lemma CommaSeparatedStringContains_iff:
  "CommaSeparatedStringContains l s \<longleftrightarrow> s \<in> set (split_on CHR '','' l)"
  by (auto simp: CommaSeparatedStringContains_def list_ex_iff)

lemma split_Append:
  assumes "CHR '','' \<notin> set s" and "l \<noteq> []"
  shows "split_on CHR '','' (AppendToCommaSeparatedString l s) =
    fst (SliceAddString (split_on CHR '','' l) s)"
proof -
  have "split_on CHR '','' (str_join '','' (split_on CHR '','' l @ [s])) = split_on CHR '','' l @ [s]"
    by (rule split_join) (use assms split_on_pieces in auto)
  with assms(2) show ?thesis
    by (auto simp: AppendToCommaSeparatedString_def SliceAddString_def
        CommaSeparatedStringContains_iff)
qed

lemma split_Remove:
  assumes "RemoveStringFromSlice (split_on CHR '','' l) s \<noteq> []"
  shows "split_on CHR '','' (RemoveFromCommaSeparatedString l s) =
    RemoveStringFromSlice (split_on CHR '','' l) s"
proof -
  let ?r = "RemoveStringFromSlice (split_on CHR '','' l) s"
  have "split_on CHR '','' (str_join '','' ?r) = ?r"
    by (rule split_join) (use assms split_on_pieces in \<open>auto simp: RemoveStringFromSlice_filter\<close>)
  moreover have "s \<notin> set (split_on CHR '','' l) \<Longrightarrow> ?r = split_on CHR '','' l"
    unfolding RemoveStringFromSlice_filter by (rule filter_True) auto
  ultimately show ?thesis
    by (auto simp: RemoveFromCommaSeparatedString_def CommaSeparatedStringContains_iff)
qed

text \<open>
  What was removed is gone, unless it is the empty string (the empty
  comma separated string splits into one empty entry).
\<close>

lemma Remove_removes:
  assumes "s \<noteq> []"
  shows "\<not> CommaSeparatedStringContains (RemoveFromCommaSeparatedString l s) s"
proof (cases "RemoveStringFromSlice (split_on CHR '','' l) s = []")
  case True
  then have "s \<in> set (split_on CHR '','' l)"
    by (cases "split_on CHR '','' l") (auto simp: RemoveStringFromSlice_filter split: if_splits)
  with True assms show ?thesis
    by (auto simp: RemoveFromCommaSeparatedString_def CommaSeparatedStringContains_iff)
next
  case False
  then show ?thesis
    by (simp add: CommaSeparatedStringContains_iff split_Remove RemoveStringFromSlice_filter)
qed

section \<open>Properties\<close>

text \<open>The list a comma separated string stands for; the empty string is the empty list.\<close>

definition entries :: "string \<Rightarrow> string list" where
  "entries l = (if l = [] then [] else split_on CHR '','' l)"

lemma entries_no_comma: "x \<in> set (entries l) \<Longrightarrow> CHR '','' \<notin> set x"
  by (auto simp: entries_def split_on_pieces split: if_splits)

lemma str_join_Nil_iff: "[] \<notin> set xs \<Longrightarrow> str_join sep xs = [] \<longleftrightarrow> xs = []"
  by (induction sep xs rule: str_join.induct) auto

lemma entries_join:
  assumes "[] \<notin> set xs" and "\<forall>x \<in> set xs. CHR '','' \<notin> set x"
  shows "entries (str_join '','' xs) = xs"
  using assms by (cases "xs = []") (simp_all add: entries_def str_join_Nil_iff split_join)

lemma contains_entries: "s \<noteq> [] \<Longrightarrow> CommaSeparatedStringContains l s \<longleftrightarrow> s \<in> set (entries l)"
  by (simp add: CommaSeparatedStringContains_iff entries_def)

lemma append_entries:
  assumes "[] \<notin> set (entries l)" and "CHR '','' \<notin> set s" and "s \<noteq> []"
  shows "entries (AppendToCommaSeparatedString l s) = fst (SliceAddString (entries l) s)"
proof (cases "l = []")
  case True
  with assms show ?thesis
    by (simp add: AppendToCommaSeparatedString_def entries_def SliceAddString_def split_on_no_sep)
next
  case False
  then have "entries (str_join '','' (split_on CHR '','' l @ [s])) = split_on CHR '','' l @ [s]"
    using assms by (intro entries_join) (auto simp: entries_def split_on_pieces)
  with False show ?thesis
    by (auto simp: AppendToCommaSeparatedString_def SliceAddString_def CommaSeparatedStringContains_iff entries_def)
qed

lemma remove_entries:
  assumes "[] \<notin> set (entries l)"
  shows "entries (RemoveFromCommaSeparatedString l s) = RemoveStringFromSlice (entries l) s"
proof (cases "l = []")
  case True
  then show ?thesis by (simp add: RemoveFromCommaSeparatedString_def entries_def)
next
  case False
  let ?xs = "split_on CHR '','' l"
  have "entries (str_join '','' (RemoveStringFromSlice ?xs s)) = RemoveStringFromSlice ?xs s"
    using False assms by (intro entries_join) (auto simp: entries_def RemoveStringFromSlice_filter split_on_pieces)
  moreover have "s \<notin> set ?xs \<Longrightarrow> RemoveStringFromSlice ?xs s = ?xs"
    unfolding RemoveStringFromSlice_filter by (rule filter_True) auto
  ultimately show ?thesis
    using False by (auto simp: RemoveFromCommaSeparatedString_def CommaSeparatedStringContains_iff entries_def)
qed

text \<open>A comma separated string implements a list without empty entries: searching, adding and
  removing an entry on the string do to the list it stands for what searching, adding and removing
  do on a list, and the result again has no empty entry.\<close>

lemma comma_list_refines:
  assumes "[] \<notin> set (entries l)" and "CHR '','' \<notin> set s" and "s \<noteq> []"
  shows "CommaSeparatedStringContains l s = SliceContainsString (entries l) s
    \<and> entries (AppendToCommaSeparatedString l s) = fst (SliceAddString (entries l) s)
    \<and> entries (RemoveFromCommaSeparatedString l s) = RemoveStringFromSlice (entries l) s
    \<and> [] \<notin> set (entries (AppendToCommaSeparatedString l s)) \<union> set (entries (RemoveFromCommaSeparatedString l s))"
  using assms contains_entries [OF assms(3)] append_entries [OF assms] remove_entries [OF assms(1)]
  by (simp add: RemoveStringFromSlice_filter SliceAddString_def)

lemma comma_list_refines_witness:
  "entries (RemoveFromCommaSeparatedString ''a,b,a'' ''a'') = [''b'']"
proof -
  have "[] \<notin> set (entries ''a,b,a'')" by code_simp
  moreover have "RemoveStringFromSlice (entries ''a,b,a'') ''a'' = [''b'']" by code_simp
  ultimately show ?thesis using comma_list_refines [of "''a,b,a''" "''a''"] by simp
qed

text \<open>Two slices compared without their order are compared as multisets.\<close>

lemma AreSlicesEqualWithoutOrder_iff: "AreSlicesEqualWithoutOrder xs ys \<longleftrightarrow> mset xs = mset ys"
proof -
  have "length xs = length ys" if "mset xs = mset ys" using that by (rule mset_eq_length)
  moreover have "sort xs = sort ys \<longleftrightarrow> mset xs = mset ys" by (metis mset_sort sorted_list_of_multiset_mset)
  ultimately show ?thesis
    using same_elements_iff [of "sort xs" "sort ys"] by (auto simp: AreSlicesEqualWithoutOrder_def)
qed

end
