(* ===== verification/Semver.thy ===== *)
theory Semver imports Go_Strings "HOL-Library.Product_Lexorder" begin

text \<open>
  Semantic versions: \<open>pkg/semver/semver.go\<close>.  The parser's regular expression is translated to a
  matcher: each of its repetitions is followed by a character it cannot match, so the leftmost
  greedy match RE2 finds is the one \<open>semver_submatch\<close> computes.  \<open>int64\<close> fields are integers; the
  bound of \<open>strconv.ParseInt\<close> is where the width shows.
\<close>

record sem_version =
  Major :: int
  Minor :: int
  Patch :: int
  Prerelease :: string
  Build :: string

section \<open>Characters and decimal numbers\<close>

definition is_digit :: "char \<Rightarrow> bool" where
  "is_digit c \<longleftrightarrow> 48 \<le> (of_char c :: nat) \<and> (of_char c :: nat) \<le> 57"

definition is_ident_char :: "char \<Rightarrow> bool" where
  "is_ident_char c \<longleftrightarrow> is_digit c
     \<or> (65 \<le> (of_char c :: nat) \<and> (of_char c :: nat) \<le> 90)
     \<or> (97 \<le> (of_char c :: nat) \<and> (of_char c :: nat) \<le> 122) \<or> c = CHR ''-''"

definition digit_char :: "nat \<Rightarrow> char" where
  "digit_char n = char_of (48 + n)"

fun show_nat :: "nat \<Rightarrow> string" where
  "show_nat n = (if n < 10 then [digit_char n] else show_nat (n div 10) @ [digit_char (n mod 10)])"

definition show_int :: "int \<Rightarrow> string" where
  "show_int i = (if i < 0 then CHR ''-'' # show_nat (nat (- i)) else show_nat (nat i))"

definition digit_val :: "char \<Rightarrow> int" where
  "digit_val c = of_char c - 48"

definition digits_val :: "string \<Rightarrow> int" where
  "digits_val = foldl (\<lambda>n c. n * 10 + digit_val c) 0"

definition max_int64 :: int where
  "max_int64 = 9223372036854775807"

text \<open>\<open>strconv.ParseInt(s, 10, 64)\<close> on the strings the matcher passes it, which are digits only.\<close>

definition ParseInt :: "string \<Rightarrow> go_error + int" where
  "ParseInt s =
     (if digits_val s \<le> max_int64 then Inr (digits_val s)
      else Inl (PlainErr (''strconv.ParseInt: parsing '' @ s @ '': value out of range'')))"

section \<open>The regular expression\<close>

text \<open>\<open>(0|[1-9]\d*)\<close>\<close>

definition is_numeric :: "string \<Rightarrow> bool" where
  "is_numeric s \<longleftrightarrow> s \<noteq> [] \<and> list_all is_digit s \<and> (hd s \<noteq> CHR ''0'' \<or> s = ''0'')"

text \<open>\<open>0|[1-9]\d*|\d*[a-zA-Z-][0-9a-zA-Z-]*\<close>\<close>

definition is_pre_ident :: "string \<Rightarrow> bool" where
  "is_pre_ident s \<longleftrightarrow>
     is_numeric s \<or> (list_all is_ident_char s \<and> list_ex (\<lambda>c. \<not> is_digit c) s)"

text \<open>\<open>[0-9a-zA-Z-]+\<close>\<close>

definition is_build_ident :: "string \<Rightarrow> bool" where
  "is_build_ident s \<longleftrightarrow> s \<noteq> [] \<and> list_all is_ident_char s"

definition is_prerelease :: "string \<Rightarrow> bool" where
  "is_prerelease s \<longleftrightarrow> list_all is_pre_ident (split_on CHR ''.'' s)"

definition is_build :: "string \<Rightarrow> bool" where
  "is_build s \<longleftrightarrow> list_all is_build_ident (split_on CHR ''.'' s)"

text \<open>A number followed by a dot.\<close>

definition match_num_dot :: "string \<Rightarrow> (string \<times> string) option" where
  "match_num_dot s =
     (let n = takeWhile is_digit s; r = dropWhile is_digit s in
      (if is_numeric n then (case r of CHR ''.'' # r' \<Rightarrow> Some (n, r') | _ \<Rightarrow> None) else None))"

text \<open>The two optional groups and the end anchor.\<close>

definition match_tail :: "string \<Rightarrow> (string \<times> string) option" where
  "match_tail s =
     (case s of
        [] \<Rightarrow> Some ([], [])
      | c # r \<Rightarrow>
          (if c = CHR ''+'' then (if is_build r then Some ([], r) else None)
           else if c = CHR ''-'' then
             (let pre = takeWhile (\<lambda>c. c \<noteq> CHR ''+'') r; rest = dropWhile (\<lambda>c. c \<noteq> CHR ''+'') r in
              if \<not> is_prerelease pre then None
              else (case rest of
                      [] \<Rightarrow> Some (pre, [])
                    | _ # b \<Rightarrow> if is_build b then Some (pre, b) else None))
           else None))"

definition semver_submatch :: "string \<Rightarrow> string list option" where
  "semver_submatch version =
     (case version of
        [] \<Rightarrow> None
      | c # r \<Rightarrow>
          (if c = CHR ''v'' \<or> c = CHR ''|'' \<or> c = CHR ''V'' then
             (case match_num_dot r of
                None \<Rightarrow> None
              | Some (major, r1) \<Rightarrow>
                  (case match_num_dot r1 of
                     None \<Rightarrow> None
                   | Some (minor, r2) \<Rightarrow>
                       (let patch = takeWhile is_digit r2 in
                        if \<not> is_numeric patch then None
                        else (case match_tail (dropWhile is_digit r2) of
                                None \<Rightarrow> None
                              | Some (pre, build) \<Rightarrow>
                                  Some [version, major, minor, patch, pre, build]))))
           else None))"

section \<open>Parsing, printing and comparing versions\<close>

definition invalidVersionError :: "string \<Rightarrow> go_error" where
  "invalidVersionError version =
     PlainErr (''Invalid version string: '' @ version @ '' (valid format is vn.n.n or n.n.n)'')"

definition semver_components :: "string list \<Rightarrow> string \<Rightarrow> go_error + sem_version" where
  "semver_components versionComponents savedVersion =
     (let numComponents = length versionComponents in
      if numComponents < 3 then Inl (invalidVersionError savedVersion)
      else case ParseInt (versionComponents ! 1) of
        Inl e \<Rightarrow> Inl e
      | Inr majorVer \<Rightarrow>
          (case ParseInt (versionComponents ! 2) of
             Inl e \<Rightarrow> Inl e
           | Inr minorVer \<Rightarrow>
               (case (if numComponents > 3 then ParseInt (versionComponents ! 3) else Inr 0) of
                  Inl e \<Rightarrow> Inl e
                | Inr patchVer \<Rightarrow>
                    Inr \<lparr>Major = majorVer, Minor = minorVer, Patch = patchVer,
                         Prerelease = (if numComponents > 4 then versionComponents ! 4 else []),
                         Build = (if numComponents > 5 then versionComponents ! 5 else [])\<rparr>)))"

definition NewSemVersion :: "string \<Rightarrow> go_error + sem_version" where
  "NewSemVersion version =
     (if version = [] then Inl (PlainErr ''SemVersion string cannot be empty'')
      else if hd version \<noteq> CHR ''v'' \<and> hd version \<noteq> CHR ''V'' \<and> \<not> is_digit (hd version)
      then Inl (invalidVersionError version)
      else
        (let v = (if hd version \<noteq> CHR ''v'' \<and> hd version \<noteq> CHR ''V''
                  then CHR ''v'' # version else version) in
         case semver_submatch v of
           None \<Rightarrow> Inl (invalidVersionError version)
         | Some versionComponents \<Rightarrow> semver_components versionComponents version))"

definition compareVersion :: "int \<Rightarrow> int \<Rightarrow> int" where
  "compareVersion v1 v2 = (if v1 < v2 then 1 else if v1 > v2 then -1 else 0)"

definition compareVersionSubstring :: "string \<Rightarrow> string \<Rightarrow> int" where
  "compareVersionSubstring v1 v2 = (if v1 = v2 then 0 else 1)"

definition CompareTo :: "sem_version \<Rightarrow> sem_version \<Rightarrow> int" where
  "CompareTo v from =
     (let r1 = compareVersion (Major from) (Major v) in
      if r1 \<noteq> 0 then r1
      else let r2 = compareVersion (Minor from) (Minor v) in
      if r2 \<noteq> 0 then r2
      else let r3 = compareVersion (Patch from) (Patch v) in
      if r3 \<noteq> 0 then r3
      else let r4 = compareVersionSubstring (Prerelease from) (Prerelease v) in
      if r4 \<noteq> 0 then r4
      else compareVersionSubstring (Build from) (Build v))"

definition IsEqualTo :: "sem_version \<Rightarrow> sem_version \<Rightarrow> bool" where
  "IsEqualTo v from \<longleftrightarrow> CompareTo v from = 0"

definition IsGreatherThan :: "sem_version \<Rightarrow> sem_version \<Rightarrow> bool" where
  "IsGreatherThan v from \<longleftrightarrow> CompareTo v from > 0"

definition IsLessThan :: "sem_version \<Rightarrow> sem_version \<Rightarrow> bool" where
  "IsLessThan v from \<longleftrightarrow> CompareTo v from < 0"

definition IsGreaterThanOrEqualTo :: "sem_version \<Rightarrow> sem_version \<Rightarrow> bool" where
  "IsGreaterThanOrEqualTo v from \<longleftrightarrow> IsGreatherThan v from \<or> IsEqualTo v from"

definition IsEqualToOrPatchVersionOf :: "sem_version \<Rightarrow> sem_version \<Rightarrow> bool" where
  "IsEqualToOrPatchVersionOf v from \<longleftrightarrow>
     IsEqualTo v from \<or> (Patch from = 0 \<and> Major v = Major from \<and> Minor v = Minor from)"

definition ToString :: "sem_version \<Rightarrow> string" where
  "ToString v =
     (let core = show_int (Major v) @ ''.'' @ show_int (Minor v) @ ''.'' @ show_int (Patch v) in
      if Build v \<noteq> [] \<and> Prerelease v \<noteq> [] then core @ ''-'' @ Prerelease v @ ''+'' @ Build v
      else if Build v = [] \<and> Prerelease v \<noteq> [] then core @ ''-'' @ Prerelease v
      else if Build v \<noteq> [] \<and> Prerelease v = [] then core @ ''+'' @ Build v
      else core)"

section \<open>Decimal numbers read back\<close>

declare show_nat.simps [simp del]

lemma digit_char_facts:
  assumes "n < 10"
  shows "is_digit (digit_char n)" "digit_val (digit_char n) = int n"
    "digit_char n = CHR ''0'' \<longleftrightarrow> n = 0"
proof -
  have c: "of_char (digit_char n) = (48 + n :: nat)"
    using assms by (simp add: digit_char_def of_char_of)
  then show "is_digit (digit_char n)"
    using assms by (simp add: is_digit_def)
  have "of_char (digit_char n) = int (of_char (digit_char n) :: nat)"
    by (simp add: of_nat_of_char)
  with c show "digit_val (digit_char n) = int n" by (simp add: digit_val_def)
  show "digit_char n = CHR ''0'' \<longleftrightarrow> n = 0"
  proof
    assume "digit_char n = CHR ''0''"
    with c show "n = 0" by simp
  next
    assume "n = 0"
    then show "digit_char n = CHR ''0''" by (simp add: digit_char_def) code_simp
  qed
qed

lemma digits_val_snoc: "digits_val (s @ [c]) = digits_val s * 10 + digit_val c"
  by (simp add: digits_val_def)

lemma show_nat_digits: "list_all is_digit (show_nat n)"
proof (induction n rule: show_nat.induct)
  case (1 n)
  then show ?case by (subst show_nat.simps) (simp add: digit_char_facts)
qed

lemma show_nat_not_Nil [simp]: "show_nat n \<noteq> []"
  by (subst show_nat.simps) simp

lemma digits_val_show_nat: "digits_val (show_nat n) = int n"
proof (induction n rule: show_nat.induct)
  case (1 n)
  show ?case
  proof (cases "n < 10")
    case True
    then show ?thesis by (subst show_nat.simps) (simp add: digit_char_facts digits_val_def)
  next
    case False
    then show ?thesis
      using 1 by (subst show_nat.simps)
        (simp add: digits_val_snoc digit_char_facts zdiv_int zmod_int)
  qed
qed

lemma hd_show_nat: "hd (show_nat n) = CHR ''0'' \<longleftrightarrow> n = 0"
proof (induction n rule: show_nat.induct)
  case (1 n)
  show ?case
  proof (cases "n < 10")
    case True
    then show ?thesis by (subst show_nat.simps) (simp add: digit_char_facts)
  next
    case False
    then show ?thesis using 1 by (subst show_nat.simps) simp
  qed
qed

lemma is_numeric_show_nat: "is_numeric (show_nat n)"
proof -
  have "n = 0 \<Longrightarrow> show_nat n = ''0''"
    by (subst show_nat.simps) (simp add: digit_char_facts)
  then show ?thesis
    using hd_show_nat [of n] show_nat_digits [of n] by (auto simp: is_numeric_def)
qed

section \<open>Well-formed versions\<close>

definition wf_number :: "int \<Rightarrow> bool" where
  "wf_number n \<longleftrightarrow> 0 \<le> n \<and> n \<le> max_int64"

definition wf_version :: "sem_version \<Rightarrow> bool" where
  "wf_version v \<longleftrightarrow> wf_number (Major v) \<and> wf_number (Minor v) \<and> wf_number (Patch v)
     \<and> (Prerelease v = [] \<or> is_prerelease (Prerelease v)) \<and> (Build v = [] \<or> is_build (Build v))"

lemma set_split_on: "set s \<subseteq> insert c (\<Union> (set ` set (split_on c s)))"
proof (induction s)
  case Nil
  then show ?case by simp
next
  case (Cons x s)
  obtain y ys where "split_on c s = y # ys"
    by (cases "split_on c s") auto
  with Cons show ?case by auto
qed

lemma plus_not_ident: "\<not> is_ident_char CHR ''+''" "\<not> is_digit CHR ''+''"
    "\<not> is_digit CHR ''-''" "\<not> is_digit CHR ''.''"
  by code_simp+

lemma is_pre_ident_chars: "is_pre_ident s \<Longrightarrow> list_all is_ident_char s"
  by (auto simp: is_pre_ident_def is_numeric_def is_ident_char_def list_all_iff)

lemma prerelease_no_plus: "is_prerelease s \<Longrightarrow> CHR ''+'' \<notin> set s"
proof
  assume s: "is_prerelease s" "CHR ''+'' \<in> set s"
  then obtain x where "x \<in> set (split_on CHR ''.'' s)" "CHR ''+'' \<in> set x"
    using set_split_on [of s "CHR ''.''"] by auto
  with s(1) plus_not_ident(1) show False
    by (auto simp: is_prerelease_def list_all_iff dest!: is_pre_ident_chars bspec)
qed

lemma is_prerelease_not_Nil: "is_prerelease s \<Longrightarrow> s \<noteq> []"
  by (auto simp: is_prerelease_def is_pre_ident_def is_numeric_def)

lemma is_build_not_Nil: "is_build s \<Longrightarrow> s \<noteq> []"
  by (auto simp: is_build_def is_build_ident_def)

lemma takeWhile_show_nat:
  assumes "r = [] \<or> \<not> is_digit (hd r)"
  shows "takeWhile is_digit (show_nat n @ r) = show_nat n"
    "dropWhile is_digit (show_nat n @ r) = r"
  using assms show_nat_digits [of n] unfolding list_all_iff
  by (cases r; simp add: takeWhile_append2 dropWhile_append2)+

lemma match_num_dot_show: "match_num_dot (show_nat n @ CHR ''.'' # r) = Some (show_nat n, r)"
  using takeWhile_show_nat [of "CHR ''.'' # r" n]
  by (simp add: match_num_dot_def plus_not_ident is_numeric_show_nat)

definition version_tail :: "sem_version \<Rightarrow> string" where
  "version_tail v = (if Prerelease v \<noteq> [] then CHR ''-'' # Prerelease v else [])
     @ (if Build v \<noteq> [] then CHR ''+'' # Build v else [])"

lemma takeWhile_until: "c \<notin> set xs \<Longrightarrow> takeWhile (\<lambda>d. d \<noteq> c) (xs @ c # ys) = xs"
  by (induction xs) auto

lemma dropWhile_until: "c \<notin> set xs \<Longrightarrow> dropWhile (\<lambda>d. d \<noteq> c) (xs @ c # ys) = c # ys"
  by (induction xs) auto

lemma match_tail_version_tail:
  assumes "wf_version v"
  shows "match_tail (version_tail v) = Some (Prerelease v, Build v)"
proof (cases "Prerelease v = []")
  case True
  with assms show ?thesis
    by (auto simp: version_tail_def match_tail_def wf_version_def)
next
  case False
  with assms have pre: "is_prerelease (Prerelease v)" by (simp add: wf_version_def)
  have tw: "takeWhile (\<lambda>c. c \<noteq> CHR ''+'') (Prerelease v) = Prerelease v"
    "dropWhile (\<lambda>c. c \<noteq> CHR ''+'') (Prerelease v) = []"
    "takeWhile (\<lambda>c. c \<noteq> CHR ''+'') (Prerelease v @ CHR ''+'' # b) = Prerelease v"
    "dropWhile (\<lambda>c. c \<noteq> CHR ''+'') (Prerelease v @ CHR ''+'' # b) = CHR ''+'' # b" for b
    using prerelease_no_plus [OF pre] by (auto intro: takeWhile_until dropWhile_until)
  from False pre assms show ?thesis
    by (auto simp: version_tail_def match_tail_def wf_version_def tw)
qed

lemma version_tail_hd: "version_tail v = [] \<or> \<not> is_digit (hd (version_tail v))"
  by (simp add: version_tail_def plus_not_ident)

lemma ToString_form:
  assumes "wf_version v"
  shows "ToString v = show_nat (nat (Major v)) @ CHR ''.'' # show_nat (nat (Minor v)) @ CHR ''.''
    # show_nat (nat (Patch v)) @ version_tail v"
  using assms by (auto simp: ToString_def version_tail_def show_int_def wf_version_def wf_number_def)

lemma ParseInt_show_nat: "wf_number n \<Longrightarrow> ParseInt (show_nat (nat n)) = Inr n"
  by (simp add: ParseInt_def digits_val_show_nat wf_number_def)

lemma hd_show_nat_digit: "is_digit (hd (show_nat n))"
  using show_nat_digits [of n] by (cases "show_nat n") auto

lemma NewSemVersion_ToString:
  assumes "wf_version v"
  shows "NewSemVersion (ToString v) = Inr v"
proof -
  let ?s = "ToString v"
  have s: "?s = show_nat (nat (Major v)) @ CHR ''.'' # show_nat (nat (Minor v)) @ CHR ''.''
      # show_nat (nat (Patch v)) @ version_tail v"
    by (rule ToString_form) (rule assms)
  have hd: "hd ?s = hd (show_nat (nat (Major v)))" "?s \<noteq> []"
    by (simp_all add: s)
  have digit: "is_digit (hd ?s)" unfolding hd(1) by (rule hd_show_nat_digit)
  have "\<not> is_digit CHR ''v''" "\<not> is_digit CHR ''V''" by code_simp+
  with digit have notv: "hd ?s \<noteq> CHR ''v''" "hd ?s \<noteq> CHR ''V''" by metis+
  have sub: "semver_submatch (CHR ''v'' # ?s) = Some [CHR ''v'' # ?s, show_nat (nat (Major v)),
      show_nat (nat (Minor v)), show_nat (nat (Patch v)), Prerelease v, Build v]"
    unfolding semver_submatch_def
    by (simp add: Let_def s match_num_dot_show takeWhile_show_nat [OF version_tail_hd]
        is_numeric_show_nat match_tail_version_tail [OF assms])
  have "semver_components [CHR ''v'' # ?s, show_nat (nat (Major v)), show_nat (nat (Minor v)),
      show_nat (nat (Patch v)), Prerelease v, Build v] ?s = Inr v"
    using assms by (simp add: semver_components_def ParseInt_show_nat wf_version_def)
  with sub hd(2) digit notv show ?thesis
    by (simp add: NewSemVersion_def)
qed

text \<open>What the parser accepts is well-formed.\<close>

lemma digits_val_nonneg: "list_all is_digit s \<Longrightarrow> 0 \<le> digits_val s"
proof (induction s rule: rev_induct)
  case Nil
  then show ?case by (simp add: digits_val_def)
next
  case (snoc c s)
  have "(48::int) \<le> of_char c" if "is_digit c"
    using that of_nat_of_char [of c, where 'a = int] unfolding is_digit_def by linarith
  with snoc show ?case by (simp add: digits_val_snoc digit_val_def)
qed

lemma ParseInt_wf: "list_all is_digit s \<Longrightarrow> ParseInt s = Inr n \<Longrightarrow> wf_number n"
  by (auto simp: ParseInt_def wf_number_def digits_val_nonneg split: if_splits)

lemma match_num_dot_digits: "match_num_dot s = Some (n, r) \<Longrightarrow> list_all is_digit n"
  by (auto simp: match_num_dot_def Let_def is_numeric_def
      split: if_splits list.splits char.splits bool.splits)

lemma match_tail_wf:
  "match_tail s = Some (pre, build) \<Longrightarrow>
    (pre = [] \<or> is_prerelease pre) \<and> (build = [] \<or> is_build build)"
  by (auto simp: match_tail_def Let_def split: if_splits list.splits)

lemma semver_submatch_shape:
  assumes "semver_submatch s = Some cs"
  obtains a b c pre build where "cs = [s, a, b, c, pre, build]"
    and "list_all is_digit a" "list_all is_digit b" "list_all is_digit c"
    and "pre = [] \<or> is_prerelease pre" "build = [] \<or> is_build build"
proof -
  from assms obtain x y r where s: "s = x # y" and
    r: "(case match_num_dot y of None \<Rightarrow> None | Some (major, r1) \<Rightarrow>
      (case match_num_dot r1 of None \<Rightarrow> None | Some (minor, r2) \<Rightarrow>
       (let patch = takeWhile is_digit r2 in
        if \<not> is_numeric patch then None
        else (case match_tail (dropWhile is_digit r2) of None \<Rightarrow> None
              | Some (pre, build) \<Rightarrow> Some [s, major, minor, patch, pre, build])))) = Some cs"
    by (cases s) (auto simp: semver_submatch_def split: if_splits)
  then obtain major r1 minor r2 pre build where
    m: "match_num_dot y = Some (major, r1)" "match_num_dot r1 = Some (minor, r2)"
      "is_numeric (takeWhile is_digit r2)" "match_tail (dropWhile is_digit r2) = Some (pre, build)"
      "cs = [s, major, minor, takeWhile is_digit r2, pre, build]"
    by (auto simp: Let_def split: option.splits prod.splits if_splits)
  show thesis
    by (rule that [OF m(5)])
      (use m match_num_dot_digits match_tail_wf in \<open>auto simp: is_numeric_def\<close>)
qed

lemma semver_components_wf:
  assumes "semver_components [s, a, b, c, pre, build] t = Inr v"
    and "list_all is_digit a" "list_all is_digit b" "list_all is_digit c"
    and "pre = [] \<or> is_prerelease pre" "build = [] \<or> is_build build"
  shows "wf_version v"
  using assms
  by (auto simp: semver_components_def wf_version_def Let_def dest: ParseInt_wf
      split: sum.splits)

lemma NewSemVersion_wf:
  assumes "NewSemVersion s = Inr v"
  shows "wf_version v"
proof -
  from assms obtain t cs where "semver_submatch t = Some cs" "semver_components cs s = Inr v"
    by (auto simp: NewSemVersion_def Let_def split: if_splits option.splits)
  then show ?thesis
    by (elim semver_submatch_shape) (auto intro: semver_components_wf)
qed

section \<open>The order CompareTo computes\<close>

definition version_core :: "sem_version \<Rightarrow> int \<times> int \<times> int" where
  "version_core v = (Major v, Minor v, Patch v)"

lemma CompareTo_cases:
  "CompareTo v w =
    (if version_core v < version_core w then -1
     else if version_core w < version_core v then 1
     else if v = w then 0 else 1)"
  by (cases v; cases w)
    (auto simp: CompareTo_def Let_def compareVersion_def compareVersionSubstring_def version_core_def)

lemma wf_number_bounds: "wf_number n \<Longrightarrow> 0 \<le> n \<and> n < 2 ^ 63"
  by (simp add: wf_number_def max_int64_def)

lemma CompareTo_refl [simp]: "CompareTo v v = 0"
  by (simp add: CompareTo_cases)

lemma CompareTo_values: "CompareTo v w \<in> {-1, 0, 1}"
  by (simp add: CompareTo_cases)

section \<open>Properties\<close>

text \<open>C37. Parsing and printing a version are inverse: whatever text the parser accepts (with or without
  the leading v), the version it makes has numbers in the range of int64, prints as a text that is
  accepted and read back as the same version, and compares as equal to what is read back.\<close>

theorem version_roundtrip:
  assumes "NewSemVersion s = Inr v"
  shows "NewSemVersion (ToString v) = Inr v \<and> IsEqualTo v v
     \<and> (\<forall>n \<in> {Major v, Minor v, Patch v}. 0 \<le> n \<and> n < 2 ^ 63)"
proof -
  have wf: "wf_version v" by (rule NewSemVersion_wf [OF assms])
  then have "wf_number (Major v)" "wf_number (Minor v)" "wf_number (Patch v)"
    by (simp_all add: wf_version_def)
  then show ?thesis
    using NewSemVersion_ToString [OF wf] by (auto simp: IsEqualTo_def dest!: wf_number_bounds)
qed

lemma version_sample: "case NewSemVersion ''v1.20.3-rc.1+x'' of Inr v \<Rightarrow> ToString v = ''1.20.3-rc.1+x'' | Inl _ \<Rightarrow> False"
  by code_simp

theorem version_roundtrip_witness:
  "\<exists>v. NewSemVersion ''v1.20.3-rc.1+x'' = Inr v \<and> NewSemVersion ''1.20.3-rc.1+x'' = Inr v"
proof -
  obtain v where v: "NewSemVersion ''v1.20.3-rc.1+x'' = Inr v" "ToString v = ''1.20.3-rc.1+x''"
    using version_sample by (auto split: sum.splits)
  from version_roundtrip [OF v(1)] v show ?thesis by simp
qed

text \<open>What the comparison computes: the order of major, minor and patch, first difference first, and
  equality of whole versions as 0.  Two versions that differ only in what follows the patch number
  (a release and its release candidate, or two builds) are not ordered: each is greater than the
  other and neither is less.\<close>

lemma compare_versions_order:
  "IsEqualTo v w = (v = w)
   \<and> (version_core v \<noteq> version_core w \<longrightarrow>
        IsLessThan v w = (version_core v < version_core w) \<and> IsGreatherThan v w = IsLessThan w v)
   \<and> (version_core v = version_core w \<and> v \<noteq> w \<longrightarrow>
        IsGreatherThan v w \<and> IsGreatherThan w v \<and> \<not> IsLessThan v w \<and> \<not> IsLessThan w v)"
proof -
  have "IsLessThan a b = (version_core a < version_core b)" for a b
    by (auto simp: IsLessThan_def CompareTo_cases)
  moreover have "IsGreatherThan a b = (version_core b \<le> version_core a \<and> a \<noteq> b)" for a b
    by (auto simp: IsGreatherThan_def CompareTo_cases)
  moreover have "IsEqualTo v w = (v = w)" by (auto simp: IsEqualTo_def CompareTo_cases)
  ultimately show ?thesis by auto
qed

lemma compare_versions_order_witness:
  "case (NewSemVersion ''1.6.0'', NewSemVersion ''1.6.0-rc'') of
     (Inr a, Inr b) \<Rightarrow> IsGreatherThan b a \<and> IsGreatherThan a b | _ \<Rightarrow> False"
proof -
  have p: "case (NewSemVersion ''1.6.0'', NewSemVersion ''1.6.0-rc'') of
     (Inr a, Inr b) \<Rightarrow> version_core a = version_core b \<and> Prerelease a \<noteq> Prerelease b | _ \<Rightarrow> False"
    by code_simp
  then obtain a b where ab: "NewSemVersion ''1.6.0'' = Inr a" "NewSemVersion ''1.6.0-rc'' = Inr b"
    "version_core a = version_core b" "a \<noteq> b"
    by (auto split: sum.splits)
  from compare_versions_order [of a b] ab show ?thesis by simp
qed

end
