(* ===== verification/Vz_Api.thy ===== *)
theory Vz_Api imports Vz_Prelude begin

text \<open>
  The Verrazzano custom resource: \<open>platform-operator/apis/verrazzano/v1alpha1/verrazzano_types.go\<close>
  and its \<open>v1beta1\<close> counterpart.  A pointer is an option, a map is a partial function, a slice a
  list; \<open>int64\<close> generations are integers.  The component sections the two API versions share are
  one record, which the record of each version extends by the sections that were renamed; its
  type parameters are the four sections that have more fields in \<open>v1alpha1\<close>.  A field that
  \<open>v1beta1\<close> only renamed keeps one name.  Values of types of other modules, which the code copies
  or hands to a library, are opaque: \<open>foreign\<close> is their serialised form.
\<close>

section \<open>Enumerations\<close>

datatype condition_type =
    CondPreInstall | CondInstallStarted | CondInstallComplete | CondInstallFailed
  | CondUninstallStarted | CondUninstallComplete | CondUninstallFailed
  | CondUpgradeStarted | CondUpgradePaused | CondUpgradeFailed | CondUpgradeComplete

datatype condition_status = ConditionTrue | ConditionFalse | ConditionUnknown

datatype component_availability = ComponentAvailable | ComponentUnavailable

text \<open>The state types are strings; \<open>VzStateEmpty\<close> and \<open>CompStateEmpty\<close> are the empty string.\<close>

datatype vz_state =
    VzStateEmpty | VzStateUninstalling | VzStateUpgrading | VzStatePaused
  | VzStateReady | VzStateFailed | VzStateReconciling

datatype comp_state =
    CompStateEmpty | CompStateDisabled | CompStatePreInstalling | CompStateInstalling
  | CompStateUninstalling | CompStateUninstalled | CompStateUpgrading | CompStateError
  | CompStateReady | CompStateFailed

section \<open>Status\<close>

record condition =
  LastTransitionTime :: string
  Message :: string
  CondStatus :: condition_status
  CondType :: condition_type

record instance_info =
  ArgoCDURL :: "string option"
  ConsoleURL :: "string option"
  ElasticURL :: "string option"
  GrafanaURL :: "string option"
  JaegerURL :: "string option"
  KeyCloakURL :: "string option"
  KialiURL :: "string option"
  KibanaURL :: "string option"
  PrometheusURL :: "string option"
  RancherURL :: "string option"
  ThanosQueryURL :: "string option"

record comp_status =
  csAvailable :: "component_availability option"
  csConditions :: "condition list"
  LastReconciledGeneration :: int
  csName :: string
  ReconcilingGeneration :: int
  csState :: comp_state
  csVersion :: string

record vz_status =
  vzAvailable :: "string option"
  vzComponents :: "string \<Rightarrow> comp_status option"
  vzConditions :: "condition list"
  vzState :: vz_state
  VerrazzanoInstance :: "instance_info option"
  vzVersion :: string

section \<open>Component sections of the spec\<close>

record key_selector =
  selName :: string
  selKey :: string
  selOptional :: "bool option"

text \<open>\<open>Values\<close> is raw JSON, kept as its bytes.\<close>

record overrides =
  ConfigMapRef :: "key_selector option"
  SecretRef :: "key_selector option"
  Values :: "string option"

record enabled_component =
  Enabled :: "bool option"

record helm_component = enabled_component +
  MonitorChanges :: "bool option"
  ValueOverrides :: "overrides list"

type_synonym foreign = string

text \<open>The \<open>v1alpha1\<close> sections with install arguments and deployment settings.\<close>

record install_args =
  argName :: string
  argValue :: string
  argSetString :: bool
  argValueList :: "string list"

record common_kubernetes =
  Replicas :: nat
  Affinity :: "foreign option"

record authproxy_component = helm_component +
  Kubernetes :: "common_kubernetes option"

record verrazzano_component = helm_component +
  InstallArgs :: "install_args list"

record istio_component = helm_component +
  InjectionEnabled :: "bool option"

record istio_ingress =
  istioIngressType :: string
  istioIngressPorts :: "foreign list"
  istioIngressKubernetes :: "common_kubernetes option"

record istio_egress =
  istioEgressKubernetes :: "common_kubernetes option"

record alpha_istio_component = istio_component +
  istioEgress :: "istio_egress option"
  istioIngress :: "istio_ingress option"
  IstioInstallArgs :: "install_args list"

record ingress_component = helm_component +
  IngressClassName :: "string option"
  Ports :: "foreign list"
  IngressType :: string

record alpha_ingress_component = ingress_component +
  NGINXInstallArgs :: "install_args list"

record database_info =
  dbHost :: string
  dbName :: string

record grafana_component = enabled_component +
  Database :: "database_info option"
  grafanaReplicas :: "int option"
  SMTP :: "foreign option"

record dashboards_component = enabled_component +
  dashboardsReplicas :: "int option"
  dashboardsPlugins :: foreign

record rancher_component = helm_component +
  KeycloakAuthEnabled :: "bool option"

record volume_mount =
  Destination :: string
  ReadOnly :: "bool option"
  Source :: string

record acme =
  acmeEmailAddress :: string
  acmeEnvironment :: string
  acmeProvider :: string

record ca_certificate =
  caClusterResourceNamespace :: string
  caSecretName :: string

record certificate =
  certAcme :: acme
  certCA :: ca_certificate

record oci_logging =
  APISecret :: string
  DefaultAppLogID :: string
  SystemLogID :: string

record fluentd_component = helm_component +
  fluentdSecret :: string
  fluentdURL :: string
  ExtraVolumeMounts :: "volume_mount list"
  fluentdOCI :: "oci_logging option"

record certmanager_component = helm_component +
  Certificate :: certificate

record keycloak_component = helm_component +
  MySQLMonitorChanges :: "bool option"
  MySQLValueOverrides :: "overrides list"
  MySQLVolumeSource :: "foreign option"

record alpha_keycloak_component = keycloak_component +
  KeycloakInstallArgs :: "install_args list"
  MySQLInstallArgs :: "install_args list"

record opensearch_node =
  nodeName :: string
  nodeReplicas :: "int option"
  nodeResources :: "foreign option"
  nodeRoles :: "string list"
  nodeStorage :: "string option"
  nodeJavaOpts :: string

record opensearch_component = enabled_component +
  Nodes :: "opensearch_node list"
  Policies :: "foreign list"
  Plugins :: foreign
  DisableDefaultPolicy :: bool

record elasticsearch_component = opensearch_component +
  ESInstallArgs :: "install_args list"

record lets_encrypt_issuer =
  EmailAddress :: string
  Environment :: string

record ca_issuer =
  SecretName :: string

record cluster_issuer_component = enabled_component +
  ClusterResourceNamespace :: string
  LetsEncrypt :: "lets_encrypt_issuer option"
  CA :: "ca_issuer option"

record oci_dns =
  DNSScope :: string
  DNSZoneCompartmentOCID :: string
  DNSZoneOCID :: string
  DNSZoneName :: string
  OCIConfigSecret :: string

record dns_component =
  dnsExternalSuffix :: "string option"
  dnsMonitorChanges :: "bool option"
  dnsValueOverrides :: "overrides list"
  OCI :: "oci_dns option"
  dnsWildcardDomain :: "string option"

record ('auth, 'istio, 'keycloak, 'vz) shared_components =
  ApplicationOperator :: "helm_component option"
  ArgoCD :: "helm_component option"
  AuthProxy :: "'auth option"
  ClusterAPI :: "helm_component option"
  ClusterAgent :: "helm_component option"
  ClusterIssuer :: "cluster_issuer_component option"
  CertManager :: "certmanager_component option"
  CertManagerWebhookOCI :: "helm_component option"
  ClusterOperator :: "helm_component option"
  CoherenceOperator :: "helm_component option"
  Console :: "helm_component option"
  DNS :: "dns_component option"
  Fluentd :: "fluentd_component option"
  FluentOperator :: "helm_component option"
  FluentbitOpensearchOutput :: "helm_component option"
  Grafana :: "grafana_component option"
  Istio :: "'istio option"
  JaegerOperator :: "helm_component option"
  Keycloak :: "'keycloak option"
  Kiali :: "helm_component option"
  KubeStateMetrics :: "helm_component option"
  MySQLOperator :: "helm_component option"
  OAM :: "helm_component option"
  Prometheus :: "enabled_component option"
  PrometheusAdapter :: "helm_component option"
  PrometheusNodeExporter :: "helm_component option"
  PrometheusOperator :: "helm_component option"
  PrometheusPushgateway :: "helm_component option"
  Rancher :: "rancher_component option"
  RancherBackup :: "helm_component option"
  Thanos :: "helm_component option"
  Velero :: "helm_component option"
  Verrazzano :: "'vz option"
  WebLogicOperator :: "helm_component option"

record alpha_components =
  "(authproxy_component, alpha_istio_component, alpha_keycloak_component, verrazzano_component) shared_components" +
  Elasticsearch :: "elasticsearch_component option"
  Kibana :: "dashboards_component option"
  Ingress :: "alpha_ingress_component option"

record beta_components = "(helm_component, istio_component, keycloak_component, helm_component) shared_components" +
  OpenSearch :: "opensearch_component option"
  OpenSearchDashboards :: "dashboards_component option"
  IngressNGINX :: "ingress_component option"

record volume_claim_template =
  vctMetadata :: foreign
  vctSpec :: foreign

record security_spec =
  AdminSubjects :: "foreign list"
  MonitorSubjects :: "foreign list"

section \<open>The resource\<close>

record 'c verrazzano_cr =
  vzName :: string
  vzNamespace :: string
  UID :: string
  Generation :: int
  DeletionTimestamp :: "string option"
  Finalizers :: "string list"
  Annotations :: "string \<Rightarrow> string option"
  Profile :: string
  SpecVersion :: string
  EnvironmentName :: string
  DefaultVolumeSource :: "foreign option"
  VolumeClaimSpecTemplates :: "volume_claim_template list"
  Security :: security_spec
  Components :: 'c
  Status :: vz_status

type_synonym verrazzano = "alpha_components verrazzano_cr"
type_synonym verrazzano_v1beta1 = "beta_components verrazzano_cr"

text \<open>The zero values of Go's structs, which concrete examples start from.\<close>

definition zero_shared :: "'x \<Rightarrow> ('auth, 'istio, 'keycloak, 'vz, 'x) shared_components_scheme" where
  "zero_shared ext = \<lparr>ApplicationOperator = None, ArgoCD = None, AuthProxy = None, ClusterAPI = None,
     ClusterAgent = None, ClusterIssuer = None, CertManager = None, CertManagerWebhookOCI = None,
     ClusterOperator = None, CoherenceOperator = None, Console = None, DNS = None, Fluentd = None,
     FluentOperator = None, FluentbitOpensearchOutput = None, Grafana = None, Istio = None,
     JaegerOperator = None, Keycloak = None, Kiali = None, KubeStateMetrics = None,
     MySQLOperator = None, OAM = None, Prometheus = None, PrometheusAdapter = None,
     PrometheusNodeExporter = None, PrometheusOperator = None, PrometheusPushgateway = None,
     Rancher = None, RancherBackup = None, Thanos = None, Velero = None, Verrazzano = None,
     WebLogicOperator = None, \<dots> = ext\<rparr>"

definition zero_alpha :: alpha_components where
  "zero_alpha = zero_shared \<lparr>Elasticsearch = None, Kibana = None, Ingress = None\<rparr>"

definition zero_beta :: beta_components where
  "zero_beta = zero_shared \<lparr>OpenSearch = None, OpenSearchDashboards = None, IngressNGINX = None\<rparr>"

definition zero_comp_status :: comp_status where
  "zero_comp_status = \<lparr>csAvailable = None, csConditions = [], LastReconciledGeneration = 0,
     csName = [], ReconcilingGeneration = 0, csState = CompStateEmpty, csVersion = []\<rparr>"

definition zero_status :: vz_status where
  "zero_status = \<lparr>vzAvailable = None, vzComponents = Map.empty, vzConditions = [],
     vzState = VzStateEmpty, VerrazzanoInstance = None, vzVersion = []\<rparr>"

definition zero_cr :: "'c \<Rightarrow> 'c verrazzano_cr" where
  "zero_cr cs = \<lparr>vzName = [], vzNamespace = [], UID = [], Generation = 0, DeletionTimestamp = None,
     Finalizers = [], Annotations = Map.empty, Profile = [], SpecVersion = [], EnvironmentName = [],
     DefaultVolumeSource = None, VolumeClaimSpecTemplates = [],
     Security = \<lparr>AdminSubjects = [], MonitorSubjects = []\<rparr>, Components = cs, Status = zero_status\<rparr>"

end
