(* ===== verification/Enabled.thy ===== *)
theory Enabled imports Vz_Api begin

text \<open>
  Which components a resource turns on: \<open>pkg/vzcr/enabled.go\<close>, and the issuer
  classification it uses (\<open>issuer_utils.go\<close> of both API versions). The functions take a
  \<open>runtime.Object\<close>, an interface value: a typed pointer to either version of the resource,
  which may itself be nil, the nil interface, or some other object.
\<close>

section \<open>Interface values\<close>

datatype runtime_object =
    V1alpha1 "verrazzano option"
  | V1beta1 "verrazzano_v1beta1 option"
  | NilObject
  | OtherObject

text \<open>
  The body nearly every check shares: the section's \<open>Enabled\<close> flag where the section and
  the flag are there, and otherwise what the function returns at its end.
\<close>

definition flag_or :: "bool \<Rightarrow> 'x enabled_component_scheme option \<Rightarrow> bool" where
  "flag_or d sec = (case sec of None \<Rightarrow> d | Some c \<Rightarrow> (case Enabled c of None \<Rightarrow> d | Some b \<Rightarrow> b))"

definition enabled_or ::
  "bool \<Rightarrow> (alpha_components \<Rightarrow> 'x enabled_component_scheme option)
    \<Rightarrow> (beta_components \<Rightarrow> 'y enabled_component_scheme option) \<Rightarrow> runtime_object \<Rightarrow> bool" where
  "enabled_or d fa fb cr = (case cr of
       V1alpha1 (Some vz) \<Rightarrow> flag_or d (fa (Components vz))
     | V1beta1 (Some vz) \<Rightarrow> flag_or d (fb (Components vz))
     | _ \<Rightarrow> d)"

section \<open>The issuer\<close>

definition CertManagerNamespace :: string where
  "CertManagerNamespace = ''cert-manager''"

definition DefaultVerrazzanoCASecretName :: string where
  "DefaultVerrazzanoCASecretName = ''verrazzano-ca-certificate-secret''"

definition NewDefaultClusterIssuer :: cluster_issuer_component where
  "NewDefaultClusterIssuer = \<lparr>Enabled = None, ClusterResourceNamespace = CertManagerNamespace,
     LetsEncrypt = None, CA = Some \<lparr>SecretName = DefaultVerrazzanoCASecretName\<rparr>\<rparr>"

definition IsCAIssuer :: "cluster_issuer_component \<Rightarrow> bool \<times> go_error option" where
  "IsCAIssuer c =
     (if CA c = None \<and> LetsEncrypt c = None then
        (False, Some (PlainErr ''Illegal state, either CAIssuer or LetsEncrypt issuer must be configured''))
      else if CA c \<noteq> None \<and> LetsEncrypt c \<noteq> None then
        (False, Some (PlainErr ''Illegal state, can not configure CAIssuer and LetsEncrypt issuer simultaneously''))
      else (CA c \<noteq> None, None))"

definition IsLetsEncryptIssuer :: "cluster_issuer_component \<Rightarrow> bool \<times> go_error option" where
  "IsLetsEncryptIssuer c = (case IsCAIssuer c of
       (_, Some err) \<Rightarrow> (False, Some err)
     | (isCAIssuer, None) \<Rightarrow> (\<not> isCAIssuer, None))"

definition IsDefaultIssuer :: "cluster_issuer_component \<Rightarrow> bool \<times> go_error option" where
  "IsDefaultIssuer c = (case IsCAIssuer c of
       (_, Some err) \<Rightarrow> (False, Some err)
     | (isCAIssuer, None) \<Rightarrow>
         (isCAIssuer \<and> ClusterResourceNamespace c = CertManagerNamespace
          \<and> (case CA c of Some ca \<Rightarrow> SecretName ca = DefaultVerrazzanoCASecretName | None \<Rightarrow> False),
          None))"

section \<open>The checks\<close>

definition IsPrometheusEnabled :: "runtime_object \<Rightarrow> bool" where
  "IsPrometheusEnabled = enabled_or True Prometheus Prometheus"

definition IsOpenSearchDashboardsEnabled :: "runtime_object \<Rightarrow> bool" where
  "IsOpenSearchDashboardsEnabled = enabled_or True Kibana OpenSearchDashboards"

definition IsNGINXEnabled :: "runtime_object \<Rightarrow> bool" where
  "IsNGINXEnabled = enabled_or True Ingress IngressNGINX"

definition IsIstioEnabled :: "runtime_object \<Rightarrow> bool" where
  "IsIstioEnabled = enabled_or True Istio Istio"

definition injection_flag :: "'x istio_component_scheme option \<Rightarrow> bool" where
  "injection_flag sec = (case sec of
       None \<Rightarrow> True
     | Some c \<Rightarrow> (case Enabled c of
           None \<Rightarrow> True
         | Some b \<Rightarrow> b \<and> (case InjectionEnabled c of None \<Rightarrow> True | Some i \<Rightarrow> i)))"

definition IsIstioInjectionEnabled :: "runtime_object \<Rightarrow> bool" where
  "IsIstioInjectionEnabled cr = (case cr of
       V1alpha1 (Some vz) \<Rightarrow> injection_flag (Istio (Components vz))
     | V1beta1 (Some vz) \<Rightarrow> injection_flag (Istio (Components vz))
     | _ \<Rightarrow> True)"

definition IsClusterAPIEnabled :: "runtime_object \<Rightarrow> bool" where
  "IsClusterAPIEnabled = enabled_or True ClusterAPI ClusterAPI"

definition IsCertManagerEnabled :: "runtime_object \<Rightarrow> bool" where
  "IsCertManagerEnabled = enabled_or True CertManager CertManager"

definition IsClusterIssuerEnabled :: "runtime_object \<Rightarrow> bool" where
  "IsClusterIssuerEnabled = enabled_or True ClusterIssuer ClusterIssuer"

definition IsCertManagerWebhookOCIEnabled :: "runtime_object \<Rightarrow> bool" where
  "IsCertManagerWebhookOCIEnabled = enabled_or False CertManagerWebhookOCI CertManagerWebhookOCI"

text \<open>
  The two issuer checks dereference the typed pointer without looking at it: a nil pointer
  in a non-nil interface panics.
\<close>

definition nil_deref :: string where
  "nil_deref = ''invalid memory address or nil pointer dereference''"

definition IsLetsEncryptConfig :: "runtime_object \<Rightarrow> (bool \<times> go_error option) res" where
  "IsLetsEncryptConfig cr = (case cr of
       NilObject \<Rightarrow> Ret (False, Some (PlainErr ''Nil CR passed in''))
     | V1alpha1 None \<Rightarrow> Panic nil_deref
     | V1beta1 None \<Rightarrow> Panic nil_deref
     | V1alpha1 (Some vz) \<Rightarrow> (case ClusterIssuer (Components vz) of
           None \<Rightarrow> Ret (False, None) | Some c \<Rightarrow> Ret (IsLetsEncryptIssuer c))
     | V1beta1 (Some vz) \<Rightarrow> (case ClusterIssuer (Components vz) of
           None \<Rightarrow> Ret (False, None) | Some c \<Rightarrow> Ret (IsLetsEncryptIssuer c))
     | OtherObject \<Rightarrow> Ret (False, Some (PlainErr
         ''Illegal configuration state, unable to resolve ClusterIssuerComponent type'')))"

definition IsCAConfig :: "runtime_object \<Rightarrow> (bool \<times> go_error option) res" where
  "IsCAConfig cr = (case cr of
       NilObject \<Rightarrow> Ret (False, Some (PlainErr ''Nil CR passed in''))
     | V1alpha1 None \<Rightarrow> Panic nil_deref
     | V1beta1 None \<Rightarrow> Panic nil_deref
     | V1alpha1 (Some vz) \<Rightarrow> (case ClusterIssuer (Components vz) of
           None \<Rightarrow> Ret (True, None) | Some c \<Rightarrow> Ret (IsCAIssuer c))
     | V1beta1 (Some vz) \<Rightarrow> (case ClusterIssuer (Components vz) of
           None \<Rightarrow> Ret (True, None) | Some c \<Rightarrow> Ret (IsCAIssuer c))
     | OtherObject \<Rightarrow> Ret (False, Some (PlainErr
         ''Illegal configuration state, unable to resolve ClusterIssuerComponent type'')))"

definition IsKialiEnabled :: "runtime_object \<Rightarrow> bool" where
  "IsKialiEnabled = enabled_or True Kiali Kiali"

definition IsOpenSearchEnabled :: "runtime_object \<Rightarrow> bool" where
  "IsOpenSearchEnabled = enabled_or True Elasticsearch OpenSearch"

definition IsGrafanaEnabled :: "runtime_object \<Rightarrow> bool" where
  "IsGrafanaEnabled = enabled_or True Grafana Grafana"

definition IsFluentdEnabled :: "runtime_object \<Rightarrow> bool" where
  "IsFluentdEnabled = enabled_or True Fluentd Fluentd"

definition IsFluentOperatorEnabled :: "runtime_object \<Rightarrow> bool" where
  "IsFluentOperatorEnabled = enabled_or False FluentOperator FluentOperator"

definition IsFluentbitOpensearchOutputEnabled :: "runtime_object \<Rightarrow> bool" where
  "IsFluentbitOpensearchOutputEnabled = enabled_or False FluentbitOpensearchOutput FluentbitOpensearchOutput"

definition IsConsoleEnabled :: "runtime_object \<Rightarrow> bool" where
  "IsConsoleEnabled = enabled_or True Console Console"

definition IsKeycloakEnabled :: "runtime_object \<Rightarrow> bool" where
  "IsKeycloakEnabled = enabled_or True Keycloak Keycloak"

definition IsRancherEnabled :: "runtime_object \<Rightarrow> bool" where
  "IsRancherEnabled = enabled_or True Rancher Rancher"

definition oci_configured :: "dns_component option \<Rightarrow> bool" where
  "oci_configured sec = (case sec of None \<Rightarrow> False | Some d \<Rightarrow> OCI d \<noteq> None)"

definition IsOCIDNSEnabled :: "runtime_object \<Rightarrow> bool" where
  "IsOCIDNSEnabled cr = (case cr of
       V1alpha1 (Some vz) \<Rightarrow> oci_configured (DNS (Components vz))
     | V1beta1 (Some vz) \<Rightarrow> oci_configured (DNS (Components vz))
     | _ \<Rightarrow> False)"

definition IsVMOEnabled :: "runtime_object \<Rightarrow> bool" where
  "IsVMOEnabled vz \<longleftrightarrow> IsOpenSearchDashboardsEnabled vz \<or> IsOpenSearchEnabled vz \<or> IsGrafanaEnabled vz"

definition IsPrometheusOperatorEnabled :: "runtime_object \<Rightarrow> bool" where
  "IsPrometheusOperatorEnabled = enabled_or True PrometheusOperator PrometheusOperator"

definition IsPrometheusAdapterEnabled :: "runtime_object \<Rightarrow> bool" where
  "IsPrometheusAdapterEnabled = enabled_or False PrometheusAdapter PrometheusAdapter"

text \<open>The \<open>v1beta1\<close> branch of this one dereferences the section and its flag unguarded.\<close>

definition IsKubeStateMetricsEnabled :: "runtime_object \<Rightarrow> bool res" where
  "IsKubeStateMetricsEnabled cr = (case cr of
       V1alpha1 (Some vz) \<Rightarrow> Ret (flag_or False (KubeStateMetrics (Components vz)))
     | V1beta1 None \<Rightarrow> Panic nil_deref
     | V1beta1 (Some vz) \<Rightarrow> (case KubeStateMetrics (Components vz) of
           None \<Rightarrow> Panic nil_deref
         | Some c \<Rightarrow> (case Enabled c of None \<Rightarrow> Panic nil_deref | Some b \<Rightarrow> Ret b))
     | _ \<Rightarrow> Ret False)"

definition IsPrometheusPushgatewayEnabled :: "runtime_object \<Rightarrow> bool" where
  "IsPrometheusPushgatewayEnabled = enabled_or False PrometheusPushgateway PrometheusPushgateway"

definition IsPrometheusNodeExporterEnabled :: "runtime_object \<Rightarrow> bool" where
  "IsPrometheusNodeExporterEnabled = enabled_or True PrometheusNodeExporter PrometheusNodeExporter"

definition IsJaegerOperatorEnabled :: "runtime_object \<Rightarrow> bool" where
  "IsJaegerOperatorEnabled = enabled_or False JaegerOperator JaegerOperator"

definition IsAuthProxyEnabled :: "runtime_object \<Rightarrow> bool" where
  "IsAuthProxyEnabled = enabled_or True AuthProxy AuthProxy"

definition IsApplicationOperatorEnabled :: "runtime_object \<Rightarrow> bool" where
  "IsApplicationOperatorEnabled = enabled_or True ApplicationOperator ApplicationOperator"

definition IsVeleroEnabled :: "runtime_object \<Rightarrow> bool" where
  "IsVeleroEnabled = enabled_or False Velero Velero"

definition IsMySQLOperatorEnabled :: "runtime_object \<Rightarrow> bool" where
  "IsMySQLOperatorEnabled = enabled_or True MySQLOperator MySQLOperator"

definition IsOAMEnabled :: "runtime_object \<Rightarrow> bool" where
  "IsOAMEnabled = enabled_or True OAM OAM"

definition IsVerrazzanoComponentEnabled :: "runtime_object \<Rightarrow> bool" where
  "IsVerrazzanoComponentEnabled = enabled_or True Verrazzano Verrazzano"

definition IsClusterOperatorEnabled :: "runtime_object \<Rightarrow> bool" where
  "IsClusterOperatorEnabled = enabled_or True ClusterOperator ClusterOperator"

definition IsWebLogicOperatorEnabled :: "runtime_object \<Rightarrow> bool" where
  "IsWebLogicOperatorEnabled = enabled_or True WebLogicOperator WebLogicOperator"

definition IsCoherenceOperatorEnabled :: "runtime_object \<Rightarrow> bool" where
  "IsCoherenceOperatorEnabled = enabled_or True CoherenceOperator CoherenceOperator"

definition IsNodeExporterEnabled :: "runtime_object \<Rightarrow> bool" where
  "IsNodeExporterEnabled cr =
     enabled_or (IsPrometheusEnabled cr) PrometheusNodeExporter PrometheusNodeExporter cr"

definition IsRancherBackupEnabled :: "runtime_object \<Rightarrow> bool" where
  "IsRancherBackupEnabled = enabled_or False RancherBackup RancherBackup"

definition IsArgoCDEnabled :: "runtime_object \<Rightarrow> bool" where
  "IsArgoCDEnabled = enabled_or False ArgoCD ArgoCD"

definition IsThanosEnabled :: "runtime_object \<Rightarrow> bool" where
  "IsThanosEnabled = enabled_or False Thanos Thanos"

definition IsClusterAgentEnabled :: "runtime_object \<Rightarrow> bool" where
  "IsClusterAgentEnabled = enabled_or True ClusterAgent ClusterAgent"

definition status_enabled :: "comp_status option \<Rightarrow> bool" where
  "status_enabled cs = (case cs of
       None \<Rightarrow> False
     | Some c \<Rightarrow> \<not> (csState c = CompStateDisabled \<or> csState c = CompStateUninstalled
                   \<or> csState c = CompStateUninstalling))"

definition IsComponentStatusEnabled :: "runtime_object \<Rightarrow> string \<Rightarrow> bool" where
  "IsComponentStatusEnabled cr componentName = (case cr of
       V1alpha1 (Some vz) \<Rightarrow> status_enabled (vzComponents (Status vz) componentName)
     | V1beta1 (Some vz) \<Rightarrow> status_enabled (vzComponents (Status vz) componentName)
     | _ \<Rightarrow> False)"

definition IsExternalDNSEnabled :: "runtime_object \<Rightarrow> bool" where
  "IsExternalDNSEnabled cr = IsOCIDNSEnabled cr"

definition IsCertManagerWebhookOCIRequired :: "runtime_object \<Rightarrow> bool res" where
  "IsCertManagerWebhookOCIRequired cr = res_bind (IsLetsEncryptConfig cr)
     (\<lambda>(isLetsEncryptConfig, _). Ret (IsCertManagerWebhookOCIEnabled cr
        \<or> IsOCIDNSEnabled cr \<and> isLetsEncryptConfig \<and> IsClusterIssuerEnabled cr))"

section \<open>What the checks read\<close>

text \<open>
  \<open>same_flags a b\<close>: every section the checks read is in both resources or in none, with the same
  flags; the three renamed sections are compared with their counterparts.
\<close>

definition same_flag :: "'x enabled_component_scheme option \<Rightarrow> 'y enabled_component_scheme option \<Rightarrow> bool" where
  "same_flag a b \<longleftrightarrow> map_option Enabled a = map_option Enabled b"

definition same_flags :: "verrazzano \<Rightarrow> verrazzano_v1beta1 \<Rightarrow> bool" where
  "same_flags a b \<longleftrightarrow> (let x = Components a; y = Components b in
     same_flag (Prometheus x) (Prometheus y) \<and> same_flag (Kibana x) (OpenSearchDashboards y)
     \<and> same_flag (Ingress x) (IngressNGINX y) \<and> same_flag (Istio x) (Istio y)
     \<and> map_option InjectionEnabled (Istio x) = map_option InjectionEnabled (Istio y)
     \<and> same_flag (ClusterAPI x) (ClusterAPI y) \<and> same_flag (CertManager x) (CertManager y)
     \<and> same_flag (ClusterIssuer x) (ClusterIssuer y) \<and> same_flag (CertManagerWebhookOCI x) (CertManagerWebhookOCI y)
     \<and> same_flag (Kiali x) (Kiali y) \<and> same_flag (Elasticsearch x) (OpenSearch y)
     \<and> same_flag (Grafana x) (Grafana y) \<and> same_flag (Fluentd x) (Fluentd y)
     \<and> same_flag (FluentOperator x) (FluentOperator y)
     \<and> same_flag (FluentbitOpensearchOutput x) (FluentbitOpensearchOutput y) \<and> same_flag (Console x) (Console y)
     \<and> same_flag (Keycloak x) (Keycloak y) \<and> same_flag (Rancher x) (Rancher y)
     \<and> DNS x = DNS y \<and> same_flag (PrometheusOperator x) (PrometheusOperator y)
     \<and> same_flag (PrometheusAdapter x) (PrometheusAdapter y)
     \<and> same_flag (PrometheusPushgateway x) (PrometheusPushgateway y)
     \<and> same_flag (PrometheusNodeExporter x) (PrometheusNodeExporter y)
     \<and> same_flag (JaegerOperator x) (JaegerOperator y) \<and> same_flag (AuthProxy x) (AuthProxy y)
     \<and> same_flag (ApplicationOperator x) (ApplicationOperator y) \<and> same_flag (Velero x) (Velero y)
     \<and> same_flag (MySQLOperator x) (MySQLOperator y) \<and> same_flag (OAM x) (OAM y)
     \<and> same_flag (Verrazzano x) (Verrazzano y) \<and> same_flag (ClusterOperator x) (ClusterOperator y)
     \<and> same_flag (WebLogicOperator x) (WebLogicOperator y) \<and> same_flag (CoherenceOperator x) (CoherenceOperator y)
     \<and> same_flag (RancherBackup x) (RancherBackup y) \<and> same_flag (ArgoCD x) (ArgoCD y)
     \<and> same_flag (Thanos x) (Thanos y) \<and> same_flag (ClusterAgent x) (ClusterAgent y))"

definition enabled_checks :: "(runtime_object \<Rightarrow> bool) list" where
  "enabled_checks =
    [IsPrometheusEnabled,
     IsOpenSearchDashboardsEnabled,
     IsNGINXEnabled,
     IsIstioEnabled,
     IsIstioInjectionEnabled,
     IsClusterAPIEnabled,
     IsCertManagerEnabled,
     IsClusterIssuerEnabled,
     IsCertManagerWebhookOCIEnabled,
     IsKialiEnabled,
     IsOpenSearchEnabled,
     IsGrafanaEnabled,
     IsFluentdEnabled,
     IsFluentOperatorEnabled,
     IsFluentbitOpensearchOutputEnabled,
     IsConsoleEnabled,
     IsKeycloakEnabled,
     IsRancherEnabled,
     IsExternalDNSEnabled,
     IsOCIDNSEnabled,
     IsVMOEnabled,
     IsPrometheusOperatorEnabled,
     IsPrometheusAdapterEnabled,
     IsPrometheusPushgatewayEnabled,
     IsPrometheusNodeExporterEnabled,
     IsJaegerOperatorEnabled,
     IsAuthProxyEnabled,
     IsApplicationOperatorEnabled,
     IsVeleroEnabled,
     IsMySQLOperatorEnabled,
     IsOAMEnabled,
     IsVerrazzanoComponentEnabled,
     IsClusterOperatorEnabled,
     IsWebLogicOperatorEnabled,
     IsCoherenceOperatorEnabled,
     IsNodeExporterEnabled,
     IsRancherBackupEnabled,
     IsArgoCDEnabled,
     IsThanosEnabled,
     IsClusterAgentEnabled]"

lemmas enabled_defs = IsPrometheusEnabled_def IsOpenSearchDashboardsEnabled_def IsNGINXEnabled_def IsIstioEnabled_def
  IsIstioInjectionEnabled_def IsClusterAPIEnabled_def IsCertManagerEnabled_def
  IsClusterIssuerEnabled_def IsCertManagerWebhookOCIEnabled_def IsKialiEnabled_def
  IsOpenSearchEnabled_def IsGrafanaEnabled_def IsFluentdEnabled_def IsFluentOperatorEnabled_def
  IsFluentbitOpensearchOutputEnabled_def IsConsoleEnabled_def IsKeycloakEnabled_def
  IsRancherEnabled_def IsExternalDNSEnabled_def IsOCIDNSEnabled_def IsVMOEnabled_def
  IsPrometheusOperatorEnabled_def IsPrometheusAdapterEnabled_def
  IsPrometheusPushgatewayEnabled_def IsPrometheusNodeExporterEnabled_def
  IsJaegerOperatorEnabled_def IsAuthProxyEnabled_def IsApplicationOperatorEnabled_def
  IsVeleroEnabled_def IsMySQLOperatorEnabled_def IsOAMEnabled_def
  IsVerrazzanoComponentEnabled_def IsClusterOperatorEnabled_def IsWebLogicOperatorEnabled_def
  IsCoherenceOperatorEnabled_def IsNodeExporterEnabled_def IsRancherBackupEnabled_def
  IsArgoCDEnabled_def IsThanosEnabled_def IsClusterAgentEnabled_def

text \<open>The checks as functions of the flags alone.\<close>

definition flag_value :: "bool \<Rightarrow> bool option option \<Rightarrow> bool" where
  "flag_value d e = (case e of Some (Some b) \<Rightarrow> b | _ \<Rightarrow> d)"

definition injection_value :: "bool option option \<Rightarrow> bool option option \<Rightarrow> bool" where
  "injection_value e i = (case (e, i) of (Some (Some b), Some (Some j)) \<Rightarrow> b \<and> j | (Some (Some b), _) \<Rightarrow> b | _ \<Rightarrow> True)"

lemma flag_or_value: "flag_or d sec = flag_value d (map_option Enabled sec)"
  by (simp add: flag_or_def flag_value_def split: option.split)

lemma injection_flag_value: "injection_flag sec = injection_value (map_option Enabled sec) (map_option InjectionEnabled sec)"
  by (simp add: injection_flag_def injection_value_def split: option.split)

lemma checks_read_flags:
  assumes "same_flags a b" and "f \<in> set enabled_checks"
  shows "f (V1alpha1 (Some a)) = f (V1beta1 (Some b))"
proof -
  have "\<forall>f \<in> set enabled_checks. f (V1alpha1 (Some a)) = f (V1beta1 (Some b))"
    using assms(1) unfolding enabled_checks_def same_flags_def same_flag_def Let_def
    by (simp add: enabled_defs enabled_or_def flag_or_value injection_flag_value)
  with assms(2) show ?thesis by blast
qed

text \<open>Kube State Metrics is the exception: on the \<open>v1alpha1\<close> resource the check always
  returns, and on a \<open>v1beta1\<close> resource with the same flag it returns the same answer when the
  flag is there and panics on a nil pointer exactly when the section or its flag is absent.\<close>

lemma kube_state_metrics_check:
  assumes "same_flag (KubeStateMetrics (Components a)) (KubeStateMetrics (Components b))"
  shows "IsKubeStateMetricsEnabled (V1beta1 (Some b)) =
     (if \<exists>c e. KubeStateMetrics (Components a) = Some c \<and> Enabled c = Some e
      then IsKubeStateMetricsEnabled (V1alpha1 (Some a)) else Panic nil_deref)"
  using assms by (auto simp: IsKubeStateMetricsEnabled_def flag_or_def same_flag_def map_option_case split: option.splits)

lemma kube_state_metrics_check_witness:
  "IsKubeStateMetricsEnabled (V1beta1 (Some (zero_cr zero_beta))) = Panic nil_deref
   \<and> IsKubeStateMetricsEnabled (V1alpha1 (Some (zero_cr zero_alpha))) = Ret False"
proof
  have "same_flag (KubeStateMetrics (Components (zero_cr zero_alpha))) (KubeStateMetrics (Components (zero_cr zero_beta)))"
    by (simp add: same_flag_def zero_cr_def zero_alpha_def zero_beta_def zero_shared_def)
  from kube_state_metrics_check [OF this]
  show "IsKubeStateMetricsEnabled (V1beta1 (Some (zero_cr zero_beta))) = Panic nil_deref"
    by (simp add: zero_cr_def zero_alpha_def zero_shared_def)
  show "IsKubeStateMetricsEnabled (V1alpha1 (Some (zero_cr zero_alpha))) = Ret False"
    by (simp add: IsKubeStateMetricsEnabled_def flag_or_def zero_cr_def zero_alpha_def zero_shared_def)
qed

text \<open>The issuer checks classify every configuration: on a resource that is there,
  exactly one of "CA" and "Let's Encrypt" is reported, or both report the same error, and
  they report an error exactly when the section is there and configures none or both of the
  two issuers; no section counts as CA.\<close>

lemma issuer_classification:
  "(case (IsCAConfig (V1alpha1 (Some vz)), IsLetsEncryptConfig (V1alpha1 (Some vz))) of
      (Ret (ca, None), Ret (le, None)) \<Rightarrow>
        le = (\<not> ca)
        \<and> (case ClusterIssuer (Components vz) of None \<Rightarrow> ca
           | Some c \<Rightarrow> (CA c \<noteq> None) = ca \<and> (LetsEncrypt c \<noteq> None) = le)
    | (Ret (False, Some e), Ret (False, Some e')) \<Rightarrow>
        e = e' \<and> (\<exists>c. ClusterIssuer (Components vz) = Some c \<and> (CA c = None) = (LetsEncrypt c = None))
    | _ \<Rightarrow> False)"
  by (auto simp: IsCAConfig_def IsLetsEncryptConfig_def IsLetsEncryptIssuer_def IsCAIssuer_def
      split: option.splits)

end
