(* ===== verification/Profiles.thy ===== *)
theory Profiles imports Enabled Go_Strings begin

text \<open>
  The effective resource: \<open>pkg/profiles/merge.go\<close>, \<open>pkg/yaml/strategic_merge.go\<close>,
  \<open>transform/merge.go\<close> and \<open>transform/convert_certificate.go\<close>.  The YAML and JSON
  codecs, the strategic merge patch of a single overlay and the file system are libraries:
  the fields of \<open>yaml_lib\<close> and \<open>profile_lib\<close>.  A fallible call returns a sum, errors left.
\<close>

section \<open>Strategic merge\<close>

record yaml_lib =
  YAMLToJSON :: "string \<Rightarrow> go_error + string"
  JSONToYAML :: "string \<Rightarrow> go_error + string"
  StrategicMergePatch :: "string \<Rightarrow> string \<Rightarrow> go_error + string"

text \<open>The loop of \<open>StrategicMerge\<close>; the accumulator is \<open>mergedJSON\<close>, empty at first.\<close>

fun merge_layers :: "yaml_lib \<Rightarrow> string list \<Rightarrow> string \<Rightarrow> go_error + string" where
  "merge_layers Y [] mergedJSON = Inr mergedJSON"
| "merge_layers Y (yam # yams) mergedJSON = err_bind (YAMLToJSON Y (TrimSpace yam)) (\<lambda>overlayJSON.
     if mergedJSON = [] then merge_layers Y yams overlayJSON
     else err_bind (StrategicMergePatch Y mergedJSON overlayJSON) (merge_layers Y yams))"

definition StrategicMerge :: "yaml_lib \<Rightarrow> string list \<Rightarrow> go_error + string" where
  "StrategicMerge Y yamls =
     (if length yamls = 0 then Inl (PlainErr ''At least 1 YAML file is required'')
      else if length yamls = 1 then Inr (hd yamls)
      else err_bind (merge_layers Y yamls []) (\<lambda>mergedJSON.
        err_bind (JSONToYAML Y mergedJSON) (\<lambda>mergedYaml. Inr (TrimSpace mergedYaml))))"

section \<open>Overrides\<close>

definition mergeOverrides :: "overrides list \<Rightarrow> overrides list \<Rightarrow> overrides list" where
  "mergeOverrides actual profile = actual @ profile"

definition append_helm ::
  "'x helm_component_scheme option \<Rightarrow> 'x helm_component_scheme option \<Rightarrow> 'x helm_component_scheme option" where
  "append_helm actual profile = (case (actual, profile) of
       (Some a, Some p) \<Rightarrow> Some (a\<lparr>ValueOverrides := mergeOverrides (ValueOverrides a) (ValueOverrides p)\<rparr>)
     | _ \<Rightarrow> actual)"

definition append_dns :: "dns_component option \<Rightarrow> dns_component option \<Rightarrow> dns_component option" where
  "append_dns actual profile = (case (actual, profile) of
       (Some a, Some p) \<Rightarrow>
         Some (a\<lparr>dnsValueOverrides := mergeOverrides (dnsValueOverrides a) (dnsValueOverrides p)\<rparr>)
     | _ \<Rightarrow> actual)"

definition append_keycloak ::
  "'x keycloak_component_scheme option \<Rightarrow> 'x keycloak_component_scheme option \<Rightarrow> 'x keycloak_component_scheme option" where
  "append_keycloak actual profile = (case (actual, profile) of
       (Some a, Some p) \<Rightarrow> Some (a\<lparr>
         ValueOverrides := mergeOverrides (ValueOverrides a) (ValueOverrides p),
         MySQLValueOverrides := mergeOverrides (MySQLValueOverrides a) (MySQLValueOverrides p)\<rparr>)
     | _ \<Rightarrow> actual)"

definition AppendComponentOverrides :: "verrazzano \<Rightarrow> verrazzano \<Rightarrow> verrazzano" where
  "AppendComponentOverrides actual profile =
    (let a = Components actual; p = Components profile in
     actual\<lparr>Components := a\<lparr>
        KubeStateMetrics := append_helm (KubeStateMetrics a) (KubeStateMetrics p),
        PrometheusAdapter := append_helm (PrometheusAdapter a) (PrometheusAdapter p),
        PrometheusNodeExporter := append_helm (PrometheusNodeExporter a) (PrometheusNodeExporter p),
        PrometheusOperator := append_helm (PrometheusOperator a) (PrometheusOperator p),
        PrometheusPushgateway := append_helm (PrometheusPushgateway a) (PrometheusPushgateway p),
        CertManager := append_helm (CertManager a) (CertManager p),
        CertManagerWebhookOCI := append_helm (CertManagerWebhookOCI a) (CertManagerWebhookOCI p),
        CoherenceOperator := append_helm (CoherenceOperator a) (CoherenceOperator p),
        ApplicationOperator := append_helm (ApplicationOperator a) (ApplicationOperator p),
        AuthProxy := append_helm (AuthProxy a) (AuthProxy p),
        OAM := append_helm (OAM a) (OAM p),
        Verrazzano := append_helm (Verrazzano a) (Verrazzano p),
        Kiali := append_helm (Kiali a) (Kiali p),
        Console := append_helm (Console a) (Console p),
        DNS := append_dns (DNS a) (DNS p),
        Ingress := append_helm (Ingress a) (Ingress p),
        Istio := append_helm (Istio a) (Istio p),
        JaegerOperator := append_helm (JaegerOperator a) (JaegerOperator p),
        Keycloak := append_keycloak (Keycloak a) (Keycloak p),
        Rancher := append_helm (Rancher a) (Rancher p),
        Fluentd := append_helm (Fluentd a) (Fluentd p),
        WebLogicOperator := append_helm (WebLogicOperator a) (WebLogicOperator p),
        Velero := append_helm (Velero a) (Velero p)\<rparr>\<rparr>)"

definition AppendComponentOverridesV1beta1 ::
  "verrazzano_v1beta1 \<Rightarrow> verrazzano_v1beta1 \<Rightarrow> verrazzano_v1beta1" where
  "AppendComponentOverridesV1beta1 actual profile =
    (let a = Components actual; p = Components profile in
     actual\<lparr>Components := a\<lparr>
        KubeStateMetrics := append_helm (KubeStateMetrics a) (KubeStateMetrics p),
        PrometheusAdapter := append_helm (PrometheusAdapter a) (PrometheusAdapter p),
        PrometheusNodeExporter := append_helm (PrometheusNodeExporter a) (PrometheusNodeExporter p),
        PrometheusOperator := append_helm (PrometheusOperator a) (PrometheusOperator p),
        PrometheusPushgateway := append_helm (PrometheusPushgateway a) (PrometheusPushgateway p),
        CertManager := append_helm (CertManager a) (CertManager p),
        CoherenceOperator := append_helm (CoherenceOperator a) (CoherenceOperator p),
        ApplicationOperator := append_helm (ApplicationOperator a) (ApplicationOperator p),
        AuthProxy := append_helm (AuthProxy a) (AuthProxy p),
        OAM := append_helm (OAM a) (OAM p),
        Verrazzano := append_helm (Verrazzano a) (Verrazzano p),
        Kiali := append_helm (Kiali a) (Kiali p),
        Console := append_helm (Console a) (Console p),
        DNS := append_dns (DNS a) (DNS p),
        IngressNGINX := append_helm (IngressNGINX a) (IngressNGINX p),
        Istio := append_helm (Istio a) (Istio p),
        JaegerOperator := append_helm (JaegerOperator a) (JaegerOperator p),
        Keycloak := append_keycloak (Keycloak a) (Keycloak p),
        Rancher := append_helm (Rancher a) (Rancher p),
        Fluentd := append_helm (Fluentd a) (Fluentd p),
        WebLogicOperator := append_helm (WebLogicOperator a) (WebLogicOperator p),
        Velero := append_helm (Velero a) (Velero p)\<rparr>\<rparr>)"

definition zero_replicas :: "opensearch_node \<Rightarrow> opensearch_node" where
  "zero_replicas n = (case nodeReplicas n of None \<Rightarrow> n\<lparr>nodeReplicas := Some 0\<rparr> | Some _ \<Rightarrow> n)"

definition setNilV1alpha1OSReplicasToZero :: "verrazzano \<Rightarrow> verrazzano" where
  "setNilV1alpha1OSReplicasToZero merged = (case Elasticsearch (Components merged) of
       None \<Rightarrow> merged
     | Some os \<Rightarrow> merged\<lparr>Components := (Components merged)
         \<lparr>Elasticsearch := Some (os\<lparr>Nodes := map zero_replicas (Nodes os)\<rparr>)\<rparr>\<rparr>)"

definition setNilV1beta1OSReplicasToZero :: "verrazzano_v1beta1 \<Rightarrow> verrazzano_v1beta1" where
  "setNilV1beta1OSReplicasToZero merged = (case OpenSearch (Components merged) of
       None \<Rightarrow> merged
     | Some os \<Rightarrow> merged\<lparr>Components := (Components merged)
         \<lparr>OpenSearch := Some (os\<lparr>Nodes := map zero_replicas (Nodes os)\<rparr>)\<rparr>\<rparr>)"

section \<open>Merging profiles\<close>

record 'cr profile_lib =
  ReadFile :: "string \<Rightarrow> go_error + string"
  Unmarshal :: "string \<Rightarrow> go_error + 'cr"
  Marshal :: "'cr option \<Rightarrow> go_error + string"

text \<open>
  The loop of \<open>appendProfileComponentOverrides\<close> runs over the files from the last to the
  first; its state is \<open>profileCR\<close> (nil at first) and \<open>profileStrings\<close>.
\<close>

fun append_profiles ::
  "'cr profile_lib \<Rightarrow> ('cr \<Rightarrow> 'cr \<Rightarrow> 'cr) \<Rightarrow> string list \<Rightarrow> 'cr option \<Rightarrow> string list
    \<Rightarrow> go_error + ('cr option \<times> string list)" where
  "append_profiles P app [] profileCR profileStrings = Inr (profileCR, profileStrings)"
| "append_profiles P app (profileFile # fs) profileCR profileStrings =
     err_bind (ReadFile P profileFile) (\<lambda>data. err_bind (Unmarshal P data) (\<lambda>cr.
       (case profileCR of
          None \<Rightarrow> append_profiles P app fs (Some cr) profileStrings
        | Some pcr \<Rightarrow> append_profiles P app fs (Some (app pcr cr)) (profileStrings @ [data]))))"

definition profile_layers ::
  "'cr profile_lib \<Rightarrow> ('cr \<Rightarrow> 'cr \<Rightarrow> 'cr) \<Rightarrow> string list \<Rightarrow> go_error + string list" where
  "profile_layers P app profileFiles =
     err_bind (append_profiles P app (rev profileFiles) None []) (\<lambda>(profileCR, profileStrings).
       err_bind (Marshal P profileCR) (\<lambda>data. Inr (profileStrings @ [data])))"

definition appendProfileComponentOverrides ::
  "verrazzano profile_lib \<Rightarrow> string list \<Rightarrow> go_error + string list" where
  "appendProfileComponentOverrides P = profile_layers P AppendComponentOverrides"

definition appendProfileComponentOverridesV1beta1 ::
  "verrazzano_v1beta1 profile_lib \<Rightarrow> string list \<Rightarrow> go_error + string list" where
  "appendProfileComponentOverridesV1beta1 P = profile_layers P AppendComponentOverridesV1beta1"

definition MergeProfiles ::
  "yaml_lib \<Rightarrow> verrazzano profile_lib \<Rightarrow> verrazzano \<Rightarrow> string list \<Rightarrow> go_error + verrazzano" where
  "MergeProfiles Y P actualCR profileFiles =
     err_bind (appendProfileComponentOverrides P profileFiles) (\<lambda>profileStrings.
     err_bind (StrategicMerge Y profileStrings) (\<lambda>merged.
     err_bind (Unmarshal P merged) (\<lambda>profileVerrazzano.
     err_bind (Marshal P (Some (AppendComponentOverrides actualCR profileVerrazzano))) (\<lambda>crYAML.
     err_bind (StrategicMerge Y [merged, crYAML]) (\<lambda>merged'.
     err_bind (Unmarshal P merged') (\<lambda>newCR.
       Inr (setNilV1alpha1OSReplicasToZero newCR)))))))"

definition MergeProfilesForV1beta1 ::
  "yaml_lib \<Rightarrow> verrazzano_v1beta1 profile_lib \<Rightarrow> verrazzano_v1beta1 \<Rightarrow> string list
    \<Rightarrow> go_error + verrazzano_v1beta1" where
  "MergeProfilesForV1beta1 Y P actualCR profileFiles =
     err_bind (appendProfileComponentOverridesV1beta1 P profileFiles) (\<lambda>profileStrings.
     err_bind (StrategicMerge Y profileStrings) (\<lambda>merged.
     err_bind (Unmarshal P merged) (\<lambda>profileVerrazzano.
     err_bind (Marshal P (Some (AppendComponentOverridesV1beta1 actualCR profileVerrazzano))) (\<lambda>crYAML.
     err_bind (StrategicMerge Y [merged, crYAML]) (\<lambda>merged'.
     err_bind (Unmarshal P merged') (\<lambda>newCR.
       Inr (setNilV1beta1OSReplicasToZero newCR)))))))"

section \<open>The deprecated certificate section\<close>

definition empty_acme :: acme where
  "empty_acme = \<lparr>acmeEmailAddress = [], acmeEnvironment = [], acmeProvider = []\<rparr>"

definition empty_ca :: ca_certificate where
  "empty_ca = \<lparr>caClusterResourceNamespace = [], caSecretName = []\<rparr>"

definition emptyCertConfig :: certificate where
  "emptyCertConfig = \<lparr>certAcme = empty_acme, certCA = empty_ca\<rparr>"

definition defaultCertConfig :: certificate where
  "defaultCertConfig = \<lparr>certAcme = empty_acme, certCA = \<lparr>caClusterResourceNamespace = CertManagerNamespace,
     caSecretName = DefaultVerrazzanoCASecretName\<rparr>\<rparr>"

definition isDefaultCertificateConfig :: "certificate \<Rightarrow> bool" where
  "isDefaultCertificateConfig c \<longleftrightarrow> c = defaultCertConfig"

definition isEmptyCertificateConfig :: "certificate \<Rightarrow> bool" where
  "isEmptyCertificateConfig c \<longleftrightarrow> c = emptyCertConfig"

definition isNotDefaultCANamespace :: "certificate \<Rightarrow> bool" where
  "isNotDefaultCANamespace c \<longleftrightarrow> length (caClusterResourceNamespace (certCA c)) > 0
     \<and> caClusterResourceNamespace (certCA c) \<noteq> CertManagerNamespace"

definition isCAConfig :: "certificate \<Rightarrow> go_error + bool" where
  "isCAConfig c = (let caNotEmpty = certCA c \<noteq> empty_ca; acmeNotEmpty = certAcme c \<noteq> empty_acme in
     if caNotEmpty \<and> acmeNotEmpty then
       Inl (PlainErr ''certificate object Acme and CA cannot be simultaneously populated'')
     else if \<not> caNotEmpty \<and> \<not> acmeNotEmpty then
       Inl (PlainErr ''Either Acme or CA certificate authorities must be configured'')
     else Inr caNotEmpty)"

definition doConversion :: "certificate \<Rightarrow> cluster_issuer_component \<Rightarrow> bool \<Rightarrow> cluster_issuer_component" where
  "doConversion cert issuer isCA =
     (let issuer1 = (if isCA
            then issuer\<lparr>CA := Some \<lparr>SecretName = caSecretName (certCA cert)\<rparr>, LetsEncrypt := None\<rparr>
            else issuer\<lparr>CA := None, LetsEncrypt := Some \<lparr>EmailAddress = acmeEmailAddress (certAcme cert),
                   Environment = acmeEnvironment (certAcme cert)\<rparr>\<rparr>)
      in if isNotDefaultCANamespace cert
         then issuer1\<lparr>ClusterResourceNamespace := caClusterResourceNamespace (certCA cert)\<rparr>
         else issuer1)"

text \<open>The issuer is changed in place: what it is afterwards, and the error returned.\<close>

definition convertCertificateConfiguration ::
  "certificate \<Rightarrow> cluster_issuer_component \<Rightarrow> bool \<Rightarrow> cluster_issuer_component \<times> go_error option" where
  "convertCertificateConfiguration cert issuer isDefaultIssuer =
     (if \<not> isDefaultCertificateConfig cert \<and> \<not> isDefaultIssuer then
        (issuer, Some (PlainErr ''update conflict, can not configure Verrazzano ClusterIssuer''))
      else if \<not> isDefaultIssuer then (issuer, None)
      else (case isCAConfig cert of
          Inl err \<Rightarrow> (issuer, None)
        | Inr isCA \<Rightarrow> if isEmptyCertificateConfig cert then (issuer, None)
                      else (doConversion cert issuer isCA, None)))"

definition align_issuer ::
  "('auth, 'istio, 'keycloak, 'vz, 'x) shared_components_scheme
    \<Rightarrow> ('auth, 'istio, 'keycloak, 'vz, 'x) shared_components_scheme \<times> go_error option" where
  "align_issuer cs =
    (let cm = (case CertManager cs of
           None \<Rightarrow> \<lparr>Enabled = None, MonitorChanges = None, ValueOverrides = [], Certificate = emptyCertConfig\<rparr>
         | Some c \<Rightarrow> c);
         cm1 = (if isEmptyCertificateConfig (Certificate cm) then cm\<lparr>Certificate := defaultCertConfig\<rparr> else cm);
         ci = (case ClusterIssuer cs of None \<Rightarrow> NewDefaultClusterIssuer | Some c \<Rightarrow> c);
         ci1 = (if CA ci = None \<and> LetsEncrypt ci = None then ci\<lparr>CA := CA NewDefaultClusterIssuer\<rparr> else ci)
     in case IsDefaultIssuer ci1 of
          (_, Some err) \<Rightarrow> (cs\<lparr>CertManager := Some cm1, ClusterIssuer := Some ci1\<rparr>, Some err)
        | (isDefaultIssuer, None) \<Rightarrow>
            (let (ci2, err) = convertCertificateConfiguration (Certificate cm1) ci1 isDefaultIssuer
             in (cs\<lparr>CertManager := Some cm1, ClusterIssuer := Some ci2\<rparr>, err)))"

definition convertCertificateToClusterIssuerV1Alpha1 :: "verrazzano \<Rightarrow> verrazzano \<times> go_error option" where
  "convertCertificateToClusterIssuerV1Alpha1 effectiveCR =
     (let (cs, err) = align_issuer (Components effectiveCR) in (effectiveCR\<lparr>Components := cs\<rparr>, err))"

definition convertCertificateToClusterIssuerV1Beta1 ::
  "verrazzano_v1beta1 \<Rightarrow> verrazzano_v1beta1 \<times> go_error option" where
  "convertCertificateToClusterIssuerV1Beta1 effectiveCR =
     (let (cs, err) = align_issuer (Components effectiveCR) in (effectiveCR\<lparr>Components := cs\<rparr>, err))"

section \<open>The effective resource\<close>

definition declared_profiles :: "string \<Rightarrow> string list" where
  "declared_profiles prof = (if length prof > 0 then [''base''] @ split_on (CHR '','') prof
     else [''base'', ''prod''])"

definition GetEffectiveCR ::
  "yaml_lib \<Rightarrow> verrazzano profile_lib \<Rightarrow> (string \<Rightarrow> string) \<Rightarrow> verrazzano option
    \<Rightarrow> go_error + verrazzano option" where
  "GetEffectiveCR Y P GetProfile actualCR = (case actualCR of
       None \<Rightarrow> Inr None
     | Some cr \<Rightarrow>
        err_bind (MergeProfiles Y P cr (map GetProfile (declared_profiles (Profile cr)))) (\<lambda>effectiveCR.
          (case convertCertificateToClusterIssuerV1Alpha1 (effectiveCR\<lparr>Status := zero_status\<rparr>) of
             (_, Some err) \<Rightarrow> Inl err
           | (newCR, None) \<Rightarrow> Inr (Some newCR))))"

definition GetEffectiveV1beta1CR ::
  "yaml_lib \<Rightarrow> verrazzano_v1beta1 profile_lib \<Rightarrow> (string \<Rightarrow> string) \<Rightarrow> verrazzano_v1beta1 option
    \<Rightarrow> go_error + verrazzano_v1beta1 option" where
  "GetEffectiveV1beta1CR Y P GetProfile actualCR = (case actualCR of
       None \<Rightarrow> Inr None
     | Some cr \<Rightarrow>
        err_bind (MergeProfilesForV1beta1 Y P cr (map GetProfile (declared_profiles (Profile cr)))) (\<lambda>effectiveCR.
          (case convertCertificateToClusterIssuerV1Beta1 (effectiveCR\<lparr>Status := zero_status\<rparr>) of
             (_, Some err) \<Rightarrow> Inl err
           | (newCR, None) \<Rightarrow> Inr (Some newCR))))"

section \<open>Properties\<close>

text \<open>The override lists of the sections: those the merge appends to, and those it passes over.\<close>

definition merged_sections :: "(alpha_components \<Rightarrow> overrides list option) list" where
  "merged_sections =
    [map_option ValueOverrides \<circ> KubeStateMetrics,
     map_option ValueOverrides \<circ> PrometheusAdapter,
     map_option ValueOverrides \<circ> PrometheusNodeExporter,
     map_option ValueOverrides \<circ> PrometheusOperator,
     map_option ValueOverrides \<circ> PrometheusPushgateway,
     map_option ValueOverrides \<circ> CertManager,
     map_option ValueOverrides \<circ> CertManagerWebhookOCI,
     map_option ValueOverrides \<circ> CoherenceOperator,
     map_option ValueOverrides \<circ> ApplicationOperator,
     map_option ValueOverrides \<circ> AuthProxy,
     map_option ValueOverrides \<circ> OAM,
     map_option ValueOverrides \<circ> Verrazzano,
     map_option ValueOverrides \<circ> Kiali,
     map_option ValueOverrides \<circ> Console,
     map_option dnsValueOverrides \<circ> DNS,
     map_option ValueOverrides \<circ> Ingress,
     map_option ValueOverrides \<circ> Istio,
     map_option ValueOverrides \<circ> JaegerOperator,
     map_option ValueOverrides \<circ> Keycloak,
     map_option ValueOverrides \<circ> Rancher,
     map_option ValueOverrides \<circ> Fluentd,
     map_option ValueOverrides \<circ> WebLogicOperator,
     map_option ValueOverrides \<circ> Velero,
     map_option MySQLValueOverrides \<circ> Keycloak]"

definition passed_over_sections :: "(alpha_components \<Rightarrow> overrides list option) list" where
  "passed_over_sections =
    [map_option ValueOverrides \<circ> ArgoCD,
     map_option ValueOverrides \<circ> ClusterAPI,
     map_option ValueOverrides \<circ> ClusterAgent,
     map_option ValueOverrides \<circ> ClusterOperator,
     map_option ValueOverrides \<circ> FluentOperator,
     map_option ValueOverrides \<circ> FluentbitOpensearchOutput,
     map_option ValueOverrides \<circ> MySQLOperator,
     map_option ValueOverrides \<circ> RancherBackup,
     map_option ValueOverrides \<circ> Thanos]"

lemma append_helm_view [simp]:
  "map_option ValueOverrides (append_helm a p) =
     (case (map_option ValueOverrides a, map_option ValueOverrides p) of
        (Some x, Some y) \<Rightarrow> Some (x @ y) | _ \<Rightarrow> map_option ValueOverrides a)"
  by (simp add: append_helm_def mergeOverrides_def split: option.splits)

lemma append_dns_view [simp]:
  "map_option dnsValueOverrides (append_dns a p) =
     (case (map_option dnsValueOverrides a, map_option dnsValueOverrides p) of
        (Some x, Some y) \<Rightarrow> Some (x @ y) | _ \<Rightarrow> map_option dnsValueOverrides a)"
  by (simp add: append_dns_def mergeOverrides_def split: option.splits)

lemma append_keycloak_view [simp]:
  "map_option ValueOverrides (append_keycloak a p) =
     (case (map_option ValueOverrides a, map_option ValueOverrides p) of
        (Some x, Some y) \<Rightarrow> Some (x @ y) | _ \<Rightarrow> map_option ValueOverrides a)"
  "map_option MySQLValueOverrides (append_keycloak a p) =
     (case (map_option MySQLValueOverrides a, map_option MySQLValueOverrides p) of
        (Some x, Some y) \<Rightarrow> Some (x @ y) | _ \<Rightarrow> map_option MySQLValueOverrides a)"
  by (simp_all add: append_keycloak_def mergeOverrides_def split: option.splits)

lemma AppendComponentOverrides_merged:
  "g \<in> set merged_sections \<Longrightarrow> g (Components (AppendComponentOverrides a p)) =
     (case (g (Components a), g (Components p)) of (Some x, Some y) \<Rightarrow> Some (x @ y)
      | _ \<Rightarrow> g (Components a))"
  unfolding merged_sections_def AppendComponentOverrides_def Let_def
  by (simp only: list.set insert_iff empty_iff, elim disjE; simp only: comp_def; simp)

lemma AppendComponentOverrides_passed_over:
  "g \<in> set passed_over_sections \<Longrightarrow>
     g (Components (AppendComponentOverrides a p)) = g (Components a)"
  unfolding passed_over_sections_def AppendComponentOverrides_def Let_def
  by (simp only: list.set insert_iff empty_iff, elim disjE; simp)

lemma fold_append_overrides:
  assumes "g \<in> set merged_sections" and "g (Components c) = Some x"
    and "\<And>d. d \<in> set ds \<Longrightarrow> g (Components d) = Some (ov d)"
  shows "g (Components (foldl AppendComponentOverrides c ds)) = Some (x @ concat (map ov ds))"
  using assms(2,3)
proof (induction ds arbitrary: c x)
  case Nil
  then show ?case by simp
next
  case (Cons d ds)
  have "g (Components (AppendComponentOverrides c d)) = Some (x @ ov d)"
    by (simp add: AppendComponentOverrides_merged [OF assms(1)] Cons.prems)
  from Cons.IH [OF this] Cons.prems(2) show ?case by simp
qed

lemma append_profiles_Some:
  assumes "\<And>f. f \<in> set fs \<Longrightarrow> ReadFile P f = Inr (data f) \<and> Unmarshal P (data f) = Inr (cr f)"
  shows "append_profiles P app fs (Some c) strs = Inr (Some (foldl app c (map cr fs)), strs @ map data fs)"
  using assms by (induction fs arbitrary: c strs) auto

lemma profile_layers_snoc:
  assumes "\<And>f. f \<in> set (fs @ [l]) \<Longrightarrow> ReadFile P f = Inr (data f) \<and> Unmarshal P (data f) = Inr (cr f)"
  shows "profile_layers P app (fs @ [l]) =
    err_bind (Marshal P (Some (foldl app (cr l) (map cr (rev fs)))))
      (\<lambda>d. Inr (map data (rev fs) @ [d]))"
proof -
  have "append_profiles P app (rev fs) (Some (cr l)) [] =
      Inr (Some (foldl app (cr l) (map cr (rev fs))), map data (rev fs))"
    using append_profiles_Some [of "rev fs" P data cr app "cr l" "[]"] assms by simp
  with assms [of l] show ?thesis by (simp add: profile_layers_def)
qed

text \<open>Profile overrides keep their precedence: when every declared profile file reads and
  parses, the profile strings are the raw files before the last one, in reverse order,
  followed by the last profile's resource; in that resource each merged section that all
  profiles have carries the override lists of the profiles from the last declared to the
  first, and the sections the merge passes over carry the last profile's list alone.\<close>

lemma profile_strings_order:
  assumes "\<And>f. f \<in> set (fs @ [l]) \<Longrightarrow> ReadFile P f = Inr (data f) \<and> Unmarshal P (data f) = Inr (cr f)"
    and "g \<in> set merged_sections" and "\<And>f. f \<in> set (fs @ [l]) \<Longrightarrow> g (Components (cr f)) = Some (ov f)"
    and "h \<in> set passed_over_sections"
  shows "\<exists>m. appendProfileComponentOverrides P (fs @ [l]) =
      err_bind (Marshal P (Some m)) (\<lambda>d. Inr (map data (rev fs) @ [d]))
    \<and> g (Components m) = Some (ov l @ concat (map ov (rev fs)))
    \<and> h (Components m) = h (Components (cr l))"
proof (intro exI conjI)
  let ?m = "foldl AppendComponentOverrides (cr l) (map cr (rev fs))"
  show "appendProfileComponentOverrides P (fs @ [l]) =
      err_bind (Marshal P (Some ?m)) (\<lambda>d. Inr (map data (rev fs) @ [d]))"
    unfolding appendProfileComponentOverrides_def by (rule profile_layers_snoc) (rule assms(1))
  have "g (Components (foldl AppendComponentOverrides (cr l) (map cr fs'))) = Some (ov l @ concat (map ov fs'))"
    if "set fs' \<subseteq> set fs" for fs'
    using that
  proof (induction fs' rule: rev_induct)
    case Nil
    then show ?case by (simp add: assms(3))
  next
    case (snoc f fs')
    then show ?case by (auto simp: AppendComponentOverrides_merged [OF assms(2)] assms(3))
  qed
  then show "g (Components ?m) = Some (ov l @ concat (map ov (rev fs)))" by simp
  have "h (Components (foldl AppendComponentOverrides c ds)) = h (Components c)" for c ds
    by (induction ds arbitrary: c) (simp_all add: AppendComponentOverrides_passed_over [OF assms(4)])
  then show "h (Components ?m) = h (Components (cr l))" .
qed

text \<open>
  Three profiles \<open>b\<close>, \<open>d\<close> and \<open>m\<close>, one override list each: the base profile's text comes
  after the middle one's in the layers, so it is the later overlay.
\<close>

definition sample_profile :: "string \<Rightarrow> verrazzano" where
  "sample_profile f = zero_cr (zero_alpha\<lparr>Rancher := Some \<lparr>Enabled = None, MonitorChanges = None,
     ValueOverrides = [\<lparr>ConfigMapRef = None, SecretRef = None, Values = Some f\<rparr>], KeycloakAuthEnabled = None\<rparr>\<rparr>)"

definition sample_lib :: "verrazzano profile_lib" where
  "sample_lib = \<lparr>ReadFile = Inr, Unmarshal = \<lambda>s. Inr (sample_profile s), Marshal = \<lambda>c. Inr ''merged''\<rparr>"

lemma profile_strings_order_witness:
  "appendProfileComponentOverrides sample_lib [''b'', ''d'', ''m''] = Inr [''d'', ''b'', ''merged'']"
proof -
  have "\<exists>m. appendProfileComponentOverrides sample_lib ([''b'', ''d''] @ [''m'']) =
      err_bind (Marshal sample_lib (Some m)) (\<lambda>d. Inr (map id (rev [''b'', ''d'']) @ [d]))
    \<and> (map_option ValueOverrides \<circ> Rancher) (Components m) =
        Some ((\<lambda>f. [\<lparr>ConfigMapRef = None, SecretRef = None, Values = Some f\<rparr>]) ''m''
          @ concat (map (\<lambda>f. [\<lparr>ConfigMapRef = None, SecretRef = None, Values = Some f\<rparr>]) (rev [''b'', ''d''])))
    \<and> (map_option ValueOverrides \<circ> ArgoCD) (Components m) =
        (map_option ValueOverrides \<circ> ArgoCD) (Components (sample_profile ''m''))"
    by (rule profile_strings_order)
       (simp_all add: sample_lib_def sample_profile_def zero_cr_def zero_alpha_def zero_shared_def
          merged_sections_def passed_over_sections_def comp_def)
  then show ?thesis by (auto simp: sample_lib_def)
qed

lemma IsCAIssuer_ok: "(\<exists>b. IsCAIssuer c = (b, None)) \<longleftrightarrow> (CA c = None) \<noteq> (LetsEncrypt c = None)"
  by (auto simp: IsCAIssuer_def)

lemma doConversion_ok: "(CA (doConversion cert ci b) = None) \<noteq> (LetsEncrypt (doConversion cert ci b) = None)"
  by (simp add: doConversion_def Let_def)

lemma IsDefaultIssuer_ok: "IsDefaultIssuer c = (b, None) \<Longrightarrow> (CA c = None) \<noteq> (LetsEncrypt c = None)"
  by (auto simp: IsDefaultIssuer_def IsCAIssuer_def split: if_splits)

lemma align_issuer_ok:
  assumes "align_issuer cs = (cs', None)"
  shows "\<exists>c. ClusterIssuer cs' = Some c \<and> (CA c = None) \<noteq> (LetsEncrypt c = None)"
  using assms
  by (auto simp: align_issuer_def Let_def convertCertificateConfiguration_def doConversion_ok
      split: prod.splits option.splits if_splits sum.splits
      dest: IsDefaultIssuer_ok)

lemma align_issuer_opensearch:
  "align_issuer cs = (cs', e) \<Longrightarrow> Elasticsearch cs' = Elasticsearch cs" for cs :: alpha_components
  by (auto simp: align_issuer_def Let_def split: prod.splits option.splits if_splits)

lemma setNil_opensearch:
  "Elasticsearch (Components (setNilV1alpha1OSReplicasToZero cr)) = Some os \<Longrightarrow> n \<in> set (Nodes os)
    \<Longrightarrow> nodeReplicas n \<noteq> None"
  by (auto simp: setNilV1alpha1OSReplicasToZero_def zero_replicas_def split: option.splits)

lemma MergeProfiles_nodes:
  assumes "MergeProfiles Y P cr fs = Inr e" "Elasticsearch (Components e) = Some os" "n \<in> set (Nodes os)"
  shows "nodeReplicas n \<noteq> None"
proof -
  from assms(1) obtain e' where "e = setNilV1alpha1OSReplicasToZero e'"
    by (auto simp: MergeProfiles_def err_bind_Inr_iff)
  with assms(2,3) setNil_opensearch show ?thesis by blast
qed

text \<open>C35. What the reconciler may assume of an effective resource, whatever the profiles say:
  the issuer checks succeed and agree on one issuer, every OpenSearch node has a replica
  count, and the status is empty.\<close>

theorem effective_cr_valid:
  assumes "GetEffectiveCR Y P GetProfile (Some cr) = Inr r"
  shows "\<exists>e ca. r = Some e
    \<and> IsCAConfig (V1alpha1 (Some e)) = Ret (ca, None)
    \<and> IsLetsEncryptConfig (V1alpha1 (Some e)) = Ret (\<not> ca, None)
    \<and> Status e = zero_status
    \<and> (\<forall>os n. Elasticsearch (Components e) = Some os \<longrightarrow> n \<in> set (Nodes os) \<longrightarrow> nodeReplicas n \<noteq> None)"
proof -
  from assms obtain m where m: "MergeProfiles Y P cr (map GetProfile (declared_profiles (Profile cr))) = Inr m"
    and k: "(case convertCertificateToClusterIssuerV1Alpha1 (m\<lparr>Status := zero_status\<rparr>) of
             (_, Some err) \<Rightarrow> Inl err | (newCR, None) \<Rightarrow> Inr (Some newCR)) = Inr r"
    unfolding GetEffectiveCR_def option.case err_bind_Inr_iff by blast
  obtain e err where c': "convertCertificateToClusterIssuerV1Alpha1 (m\<lparr>Status := zero_status\<rparr>) = (e, err)"
    by fastforce
  from k c' have c: "convertCertificateToClusterIssuerV1Alpha1 (m\<lparr>Status := zero_status\<rparr>) = (e, None)"
    and r: "r = Some e"
    by (cases err; simp)+
  from c obtain cs where cs: "align_issuer (Components m) = (cs, None)"
    and e: "e = m\<lparr>Status := zero_status, Components := cs\<rparr>"
    by (auto simp: convertCertificateToClusterIssuerV1Alpha1_def split: prod.splits)
  from align_issuer_ok [OF cs] obtain ci where ci: "ClusterIssuer cs = Some ci"
    and one: "(CA ci = None) \<noteq> (LetsEncrypt ci = None)" by blast
  from one obtain ca where "IsCAIssuer ci = (ca, None)" using IsCAIssuer_ok by blast
  with ci e have "IsCAConfig (V1alpha1 (Some e)) = Ret (ca, None)"
    "IsLetsEncryptConfig (V1alpha1 (Some e)) = Ret (\<not> ca, None)"
    by (simp_all add: IsCAConfig_def IsLetsEncryptConfig_def IsLetsEncryptIssuer_def)
  moreover have "nodeReplicas n \<noteq> None"
    if "Elasticsearch (Components e) = Some os" "n \<in> set (Nodes os)" for os n
    using that MergeProfiles_nodes [OF m] e align_issuer_opensearch [OF cs] by simp
  ultimately show ?thesis using r e by auto
qed

definition sample_yaml :: yaml_lib where
  "sample_yaml = \<lparr>YAMLToJSON = Inr, JSONToYAML = Inr, StrategicMergePatch = \<lambda>a b. Inr b\<rparr>"

theorem effective_cr_valid_witness:
  "\<exists>e. GetEffectiveCR sample_yaml sample_lib (\<lambda>p. p) (Some (sample_profile ''x'')) = Inr (Some e)
     \<and> Status e = zero_status"
proof -
  have "\<exists>r. GetEffectiveCR sample_yaml sample_lib (\<lambda>p. p) (Some (sample_profile ''x'')) = Inr r"
    by (simp add: GetEffectiveCR_def MergeProfiles_def appendProfileComponentOverrides_def
        profile_layers_def declared_profiles_def sample_lib_def sample_yaml_def StrategicMerge_def
        setNilV1alpha1OSReplicasToZero_def sample_profile_def zero_cr_def zero_alpha_def zero_shared_def
        convertCertificateToClusterIssuerV1Alpha1_def align_issuer_def Let_def emptyCertConfig_def
        isEmptyCertificateConfig_def IsDefaultIssuer_def IsCAIssuer_def NewDefaultClusterIssuer_def
        convertCertificateConfiguration_def isDefaultCertificateConfig_def defaultCertConfig_def
        isCAConfig_def empty_ca_def empty_acme_def CertManagerNamespace_def
        DefaultVerrazzanoCASecretName_def)
  then obtain r where r: "GetEffectiveCR sample_yaml sample_lib (\<lambda>p. p) (Some (sample_profile ''x'')) = Inr r"
    by blast
  from effective_cr_valid [OF r] r show ?thesis by blast
qed

end
