(* ===== verification/Component.thy ===== *)
theory Component imports Profiles Semver begin

text \<open>
  What the reconciler works on: the component interface (\<open>component/spi/component.go\<close>), the
  context handed to its methods (\<open>component_context.go\<close>), the in-memory state of the operator
  process, and the calls it makes to code outside the reconciler.  The cluster is a value of
  the type parameter \<open>'w\<close>; every call that reaches it is a function from the cluster before to
  a result and the cluster after, so a later call may see anything the earlier calls or the
  passing of time did to it.  A component method does not change the resource it is given.
\<close>

section \<open>Contexts and components\<close>

record ctx =
  ActualCR :: verrazzano
  EffectiveCR :: verrazzano

record 'w component =
  Name :: string
  Namespace :: string
  GetJSONName :: string
  ShouldInstallBeforeUpgrade :: bool
  GetDependencies :: "string list"
  GetMinVerrazzanoVersion :: string
  GetIngressNames :: "ctx \<Rightarrow> (string \<times> string) list"
  IsEnabled :: "verrazzano \<Rightarrow> bool"
  MonitorOverrides :: "ctx \<Rightarrow> bool"
  IsReady :: "ctx \<Rightarrow> 'w \<Rightarrow> bool \<times> 'w"
  IsAvailable :: "ctx \<Rightarrow> 'w \<Rightarrow> (string \<times> component_availability) \<times> 'w"
  IsOperatorInstallSupported :: bool
  IsInstalled :: "ctx \<Rightarrow> 'w \<Rightarrow> (go_error + bool) \<times> 'w"
  PreInstall :: "ctx \<Rightarrow> 'w \<Rightarrow> go_error option \<times> 'w"
  Install :: "ctx \<Rightarrow> 'w \<Rightarrow> go_error option \<times> 'w"
  PostInstall :: "ctx \<Rightarrow> 'w \<Rightarrow> go_error option \<times> 'w"
  IsOperatorUninstallSupported :: bool
  PreUninstall :: "ctx \<Rightarrow> 'w \<Rightarrow> go_error option \<times> 'w"
  Uninstall :: "ctx \<Rightarrow> 'w \<Rightarrow> go_error option \<times> 'w"
  PostUninstall :: "ctx \<Rightarrow> 'w \<Rightarrow> go_error option \<times> 'w"
  PreUpgrade :: "ctx \<Rightarrow> 'w \<Rightarrow> go_error option \<times> 'w"
  Upgrade :: "ctx \<Rightarrow> 'w \<Rightarrow> go_error option \<times> 'w"
  PostUpgrade :: "ctx \<Rightarrow> 'w \<Rightarrow> go_error option \<times> 'w"
  ReconcileComp :: "ctx \<Rightarrow> 'w \<Rightarrow> go_error option \<times> 'w"

text \<open>An ingress: its namespace and name, and the hosts of its rules.\<close>

record ingress =
  ingNamespace :: string
  ingName :: string
  ingHosts :: "string list"

text \<open>A secret: its namespace, its name and its labels.\<close>

record secret =
  secNamespace :: string
  secName :: string
  secLabels :: "string \<Rightarrow> string option"

section \<open>Trackers\<close>

text \<open>
  The in-memory position of every flow.  The state types are strings in the code; the first
  constructor of each is the empty string, which a freshly allocated context holds in the
  fields its creator does not set.
\<close>

datatype componentInstallState =
    UnsetInstallState | compStateInstallInitDetermineComponentState | compStateInstallInitReady
  | compStateInstallInitDisabled | compStateWriteInstallStartedStatus | compStatePreInstall
  | compStateInstall | compStateInstallWaitReady | compStatePostInstall
  | compStateInstallComplete | compStateInstallEnd | compStateInstallUninstall

datatype componentUninstallState =
    UnsetUninstallState | compStateUninstallStart | compStatePreUninstall | compStateUninstall
  | compStateWaitUninstalled | compStateUninstalleDone | compStateUninstallEnd

datatype componentUpgradeState =
    UnsetUpgradeState | compStateUpgradeInit | compStatePreUpgrade | compStateUpgrade
  | compStateUpgradeWaitReady | compStatePostUpgrade | compStateUpgradeDone | compStateUpgradeEnd

record tracker_context =
  installState :: componentInstallState
  upgradeState :: componentUpgradeState
  uninstallState :: componentUninstallState

datatype reconcileState =
    vzStateReconcileWatchedComponents | vzStateDecideUpdateNeeded | vzStateSetGlobalInstallStatus
  | vzStateInstallComponents | vzStatePostInstall | vzStateReconcileEnd

datatype upgradeFlowState =
    vzStateStart | vzStateUpgradeComponents | vzStatePostUpgrade | vzStateWaitPostUpgradeDone
  | vzStateUpgradeDone | vzStateRestartApps | vzStateEnd

datatype uninstallFlowState =
    vzStateUninstallStart | vzStateUninstallRancherLocal | vzStateUninstallMC
  | vzStateUninstallComponents | vzStateUninstallCleanup | vzStateUninstallDone | vzStateUninstallEnd

record 'v tracker =
  vzFlow :: 'v
  gen :: int
  compMap :: "string \<Rightarrow> tracker_context option"

section \<open>Status update events\<close>

text \<open>\<open>AvailabilityStatus\<close>: its component map as an association list without duplicates.\<close>

record availability_status =
  avComponents :: "(string \<times> component_availability) list"
  avAvailable :: string
  avVerrazzano :: "verrazzano option"

record update_event =
  evVersion :: "string option"
  evState :: vz_state
  evConditions :: "condition list option"
  evAvailability :: "availability_status option"
  evInstanceInfo :: "instance_info option"
  evComponents :: "string \<Rightarrow> comp_status option"

definition zero_event :: update_event where
  "zero_event = \<lparr>evVersion = None, evState = VzStateEmpty, evConditions = None,
     evAvailability = None, evInstanceInfo = None, evComponents = Map.empty\<rparr>"

section \<open>The operator process\<close>

text \<open>
  \<open>CR\<close> is the resource the current call of the reconciler holds, which the code mutates in
  place; \<open>Sent\<close> are the events put on the status updater's channel, oldest first, each as it
  was when it was sent; \<open>Cache\<close> is \<open>getComponentsMap\<close>, \<open>Watched\<close> the reconciler's set of
  watched components, \<open>Initialized\<close> its \<open>initializedSet\<close>, the tracker maps are keyed by
  \<open>getTrackerKey\<close>, and \<open>systemNamespaceLabels\<close> is the package variable of that name, a Go map as
  an association list.
\<close>

record 'w sys =
  CR :: verrazzano
  Sent :: "update_event list"
  World :: 'w
  Cache :: "string \<Rightarrow> 'w component option"
  Watched :: "string \<Rightarrow> bool"
  Initialized :: "string \<Rightarrow> bool"
  installTrackerMap :: "string \<Rightarrow> reconcileState tracker option"
  upgradeTrackerMap :: "string \<Rightarrow> upgradeFlowState tracker option"
  UninstallTrackerMap :: "string \<Rightarrow> uninstallFlowState tracker option"
  systemNamespaceLabels :: "(string \<times> string) list"

text \<open>
  The process's surroundings: the registry's list, the profile files and codecs of
  \<open>Profiles\<close>, the bill of materials, the clock, the random numbers, and the operations on the
  cluster that belong to code outside the reconciler.
\<close>

record 'w env =
  RegisteredComponents :: "'w component list"
  Yaml :: yaml_lib
  ProfileLib :: "verrazzano profile_lib"
  ProfilePath :: "string \<Rightarrow> string"
  Now :: "'w \<Rightarrow> string"
  IntnRange :: "int \<Rightarrow> int \<Rightarrow> int"
  BomComponentVersion :: "string \<Rightarrow> string option"
  CurrentBomVersion :: "go_error + sem_version"
  ListIngresses :: "'w \<Rightarrow> (go_error + ingress list) \<times> 'w"
  IsClusterProvisionedByRancher :: "'w \<Rightarrow> (go_error + bool) \<times> 'w"
  ConfigureAuthProviders :: "ctx \<Rightarrow> 'w \<Rightarrow> go_error option \<times> 'w"
  ConfigureKeycloakOIDC :: "ctx \<Rightarrow> 'w \<Rightarrow> go_error option \<times> 'w"
  createRancherIngressAndCertCopies :: "ctx \<Rightarrow> 'w \<Rightarrow> 'w"
  ListSecrets :: "((string \<Rightarrow> string option) \<Rightarrow> bool) \<Rightarrow> 'w \<Rightarrow> (go_error + secret list) \<times> 'w"
  DeleteSecret :: "secret \<Rightarrow> 'w \<Rightarrow> go_error option \<times> 'w"
  RestartComponents :: "int \<Rightarrow> 'w \<Rightarrow> go_error option \<times> 'w"
  RestartApps :: "int \<Rightarrow> 'w \<Rightarrow> go_error option \<times> 'w"
  PostUpgradeCleanup :: "'w \<Rightarrow> go_error option \<times> 'w"

definition GetComponents :: "'w env \<Rightarrow> 'w component list" where
  "GetComponents E = RegisteredComponents E"

text \<open>\<open>spi.NewContext\<close> for a resource that is there: the effective resource, or the error.\<close>

definition NewContext :: "'w env \<Rightarrow> verrazzano \<Rightarrow> go_error + verrazzano" where
  "NewContext E actualCR =
     err_bind (GetEffectiveCR (Yaml E) (ProfileLib E) (ProfilePath E) (Some actualCR))
       (\<lambda>eff. case eff of Some e \<Rightarrow> Inr e | None \<Rightarrow> Inl (PlainErr ''nil''))"

text \<open>A call of a method that takes the context, and of one that takes the cluster only.\<close>

definition call_ctx :: "(ctx \<Rightarrow> 'w \<Rightarrow> 'r \<times> 'w) \<Rightarrow> verrazzano \<Rightarrow> 'w sys \<Rightarrow> 'r \<times> 'w sys" where
  "call_ctx f eff s = (let (r, w) = f \<lparr>ActualCR = CR s, EffectiveCR = eff\<rparr> (World s)
     in (r, s\<lparr>World := w\<rparr>))"

definition call_world :: "('w \<Rightarrow> 'r \<times> 'w) \<Rightarrow> 'w sys \<Rightarrow> 'r \<times> 'w sys" where
  "call_world f s = (let (r, w) = f (World s) in (r, s\<lparr>World := w\<rparr>))"

definition comp_status_of :: "'w sys \<Rightarrow> string \<Rightarrow> comp_status option" where
  "comp_status_of s n = vzComponents (Status (CR s)) n"

definition set_status :: "(vz_status \<Rightarrow> vz_status) \<Rightarrow> 'w sys \<Rightarrow> 'w sys" where
  "set_status f s = s\<lparr>CR := (CR s)\<lparr>Status := f (Status (CR s))\<rparr>\<rparr>"

definition set_comp_status :: "string \<Rightarrow> comp_status \<Rightarrow> 'w sys \<Rightarrow> 'w sys" where
  "set_comp_status n cs s =
     set_status (\<lambda>st. st\<lparr>vzComponents := (vzComponents st)(n \<mapsto> cs)\<rparr>) s"

text \<open>\<open>StatusUpdater.Update\<close> puts the event on the updater's channel.\<close>

definition send :: "update_event \<Rightarrow> 'w sys \<Rightarrow> 'w sys" where
  "send e s = s\<lparr>Sent := Sent s @ [e]\<rparr>"

named_theorems sys_simps \<open>evaluation of the process state\<close>

lemma call_ctx_frame [sys_simps]:
  assumes "call_ctx f eff s = (r, s')"
  shows "CR s' = CR s" "Sent s' = Sent s" "Cache s' = Cache s" "Watched s' = Watched s"
    "installTrackerMap s' = installTrackerMap s" "upgradeTrackerMap s' = upgradeTrackerMap s"
    "UninstallTrackerMap s' = UninstallTrackerMap s" "Initialized s' = Initialized s"
  using assms by (auto simp: call_ctx_def split: prod.splits)

lemma call_world_frame [sys_simps]:
  assumes "call_world f s = (r, s')"
  shows "CR s' = CR s" "Sent s' = Sent s" "Cache s' = Cache s" "Watched s' = Watched s"
    "installTrackerMap s' = installTrackerMap s" "upgradeTrackerMap s' = upgradeTrackerMap s"
    "UninstallTrackerMap s' = UninstallTrackerMap s" "Initialized s' = Initialized s"
  using assms by (auto simp: call_world_def split: prod.splits)

lemma comp_status_of_set [simp]:
  "comp_status_of (set_comp_status n cs s) m = (if m = n then Some cs else comp_status_of s m)"
  by (simp add: comp_status_of_def set_comp_status_def set_status_def)

lemma comp_status_of_send [simp]: "comp_status_of (send e s) n = comp_status_of s n"
  by (simp add: comp_status_of_def send_def)

lemma send_simps [simp]:
  "CR (send e s) = CR s" "Sent (send e s) = Sent s @ [e]" "World (send e s) = World s"
  "Cache (send e s) = Cache s" "installTrackerMap (send e s) = installTrackerMap s"
  "upgradeTrackerMap (send e s) = upgradeTrackerMap s"
  "UninstallTrackerMap (send e s) = UninstallTrackerMap s"
  "Watched (send e s) = Watched s" "Initialized (send e s) = Initialized s"
  by (simp_all add: send_def)

lemma set_comp_status_simps [simp]:
  "Sent (set_comp_status n cs s) = Sent s" "World (set_comp_status n cs s) = World s"
  "Cache (set_comp_status n cs s) = Cache s"
  "installTrackerMap (set_comp_status n cs s) = installTrackerMap s"
  "upgradeTrackerMap (set_comp_status n cs s) = upgradeTrackerMap s"
  "UninstallTrackerMap (set_comp_status n cs s) = UninstallTrackerMap s"
  "Generation (CR (set_comp_status n cs s)) = Generation (CR s)"
  by (simp_all add: set_comp_status_def set_status_def)

section \<open>Steps that may panic\<close>

type_synonym ('w, 'a) op = "'w sys \<Rightarrow> ('a \<times> 'w sys) res"

definition op_bind :: "('w, 'a) op \<Rightarrow> ('a \<Rightarrow> ('w, 'b) op) \<Rightarrow> ('w, 'b) op" where
  "op_bind m f s = res_bind (m s) (\<lambda>(a, s'). f a s')"

lemma op_bind_Ret_iff: "op_bind m f s = Ret r \<longleftrightarrow> (\<exists>a s'. m s = Ret (a, s') \<and> f a s' = Ret r)"
  by (auto simp: op_bind_def res_bind_Ret_iff)

lemma op_bind_Spin_iff: "op_bind m f s = Spin \<longleftrightarrow> m s = Spin \<or> (\<exists>a s'. m s = Ret (a, s') \<and> f a s' = Spin)"
  by (auto simp: op_bind_def res_bind_Spin_iff)

lemma op_bind_step [simp]: "m s = Ret (a, s') \<Longrightarrow> op_bind m f s = f a s'"
  by (simp add: op_bind_def)

text \<open>The same inside one iteration of a loop: a panic leaves the loop.\<close>

definition on_ret :: "('a \<times> 'w sys) res \<Rightarrow> ('a \<Rightarrow> 'w sys \<Rightarrow> 'x + 'r res) \<Rightarrow> 'x + 'r res" where
  "on_ret r f = (case r of Ret (a, s) \<Rightarrow> f a s | Panic m \<Rightarrow> Inr (Panic m) | Spin \<Rightarrow> Inr Spin)"

lemma on_ret_Inl_iff: "on_ret r f = Inl x \<longleftrightarrow> (\<exists>a s. r = Ret (a, s) \<and> f a s = Inl x)"
  by (auto simp: on_ret_def split: res.splits)

lemma on_ret_Inr_iff:
  "on_ret r f = Inr y \<longleftrightarrow> (\<exists>a s. r = Ret (a, s) \<and> f a s = Inr y) \<or> (\<exists>m. r = Panic m \<and> y = Panic m)
     \<or> (r = Spin \<and> y = Spin)"
  by (auto simp: on_ret_def split: res.splits)

lemma on_ret_Ret [simp]: "on_ret (Ret (a, s)) f = f a s"
  by (simp add: on_ret_def)

section \<open>A small concrete installation\<close>

text \<open>
  A component that writes what is done to it into a log, the cluster of the examples, and is
  ready and installed according to the log.
\<close>

definition note_op :: "string \<Rightarrow> ctx \<Rightarrow> string list \<Rightarrow> go_error option \<times> string list" where
  "note_op m x w = (None, w @ [m])"

definition sample_component :: "string \<Rightarrow> string list component" where
  "sample_component n = \<lparr>Name = n, Namespace = ''ns'', GetJSONName = n,
     ShouldInstallBeforeUpgrade = False, GetDependencies = [], GetMinVerrazzanoVersion = ''1.0.0'',
     GetIngressNames = \<lambda>x. [], IsEnabled = \<lambda>cr. True, MonitorOverrides = \<lambda>x. True,
     IsReady = \<lambda>x w. (True, w), IsAvailable = \<lambda>x w. (([], ComponentAvailable), w),
     IsOperatorInstallSupported = True,
     IsInstalled = \<lambda>x w. (Inr (list_ex (\<lambda>m. m = ''install'') w), w),
     PreInstall = note_op ''preinstall'', Install = note_op ''install'', PostInstall = note_op ''postinstall'',
     IsOperatorUninstallSupported = True,
     PreUninstall = note_op ''preuninstall'', Uninstall = (\<lambda>x w. (None, [''uninstall''])),
     PostUninstall = note_op ''postuninstall'',
     PreUpgrade = note_op ''preupgrade'', Upgrade = note_op ''upgrade'', PostUpgrade = note_op ''postupgrade'',
     ReconcileComp = note_op ''reconcile''\<rparr>"

definition plain_lib :: "verrazzano profile_lib" where
  "plain_lib = \<lparr>ReadFile = Inr, Unmarshal = \<lambda>s. Inr (zero_cr zero_alpha), Marshal = \<lambda>c. Inr ''cr''\<rparr>"

definition sample_env :: "string list component list \<Rightarrow> string list env" where
  "sample_env cs = \<lparr>RegisteredComponents = cs, Yaml = sample_yaml, ProfileLib = plain_lib,
     ProfilePath = \<lambda>p. p, Now = \<lambda>w. ''now'', IntnRange = \<lambda>lo hi. lo,
     BomComponentVersion = \<lambda>n. Some ''1.2.3'', CurrentBomVersion = Inl (PlainErr ''no bom''),
     ListIngresses = \<lambda>w. (Inr [], w),
     IsClusterProvisionedByRancher = \<lambda>w. (Inr False, w),
     ConfigureAuthProviders = note_op ''auth'', ConfigureKeycloakOIDC = note_op ''oidc'',
     createRancherIngressAndCertCopies = \<lambda>x w. w,
     ListSecrets = \<lambda>p w. (Inr [], w), DeleteSecret = \<lambda>x w. (None, w),
     RestartComponents = \<lambda>g w. (None, w @ [''restart components'']),
     RestartApps = \<lambda>g w. (None, w @ [''restart apps'']),
     PostUpgradeCleanup = \<lambda>w. (None, w @ [''cleanup''])\<rparr>"

definition sample_effective :: verrazzano where
  "sample_effective = fst (convertCertificateToClusterIssuerV1Alpha1 (zero_cr zero_alpha))"

definition sample_sys :: "verrazzano \<Rightarrow> string list sys" where
  "sample_sys cr = \<lparr>CR = cr, Sent = [], World = [], Cache = Map.empty, Watched = \<lambda>n. False,
     Initialized = \<lambda>n. False, installTrackerMap = Map.empty, upgradeTrackerMap = Map.empty,
     UninstallTrackerMap = Map.empty,
     systemNamespaceLabels = [(''istio-injection'', ''enabled''), (''verrazzano.io/namespace'', ''verrazzano-system'')]\<rparr>"

lemma merge_plain: "MergeProfiles sample_yaml plain_lib cr [a, b] = Inr (zero_cr zero_alpha)"
  by (simp add: MergeProfiles_def appendProfileComponentOverrides_def profile_layers_def
      sample_yaml_def plain_lib_def StrategicMerge_def setNilV1alpha1OSReplicasToZero_def
      zero_cr_def zero_alpha_def zero_shared_def)

lemma NewContext_sample: "Profile cr = [] \<Longrightarrow> NewContext (sample_env cs) cr = Inr sample_effective"
  by (simp add: NewContext_def GetEffectiveCR_def declared_profiles_def sample_env_def merge_plain)
     (simp add: sample_effective_def convertCertificateToClusterIssuerV1Alpha1_def
      zero_cr_def zero_alpha_def zero_shared_def align_issuer_def Let_def emptyCertConfig_def
      isEmptyCertificateConfig_def IsDefaultIssuer_def IsCAIssuer_def NewDefaultClusterIssuer_def
      convertCertificateConfiguration_def isDefaultCertificateConfig_def defaultCertConfig_def
      isCAConfig_def empty_ca_def empty_acme_def CertManagerNamespace_def DefaultVerrazzanoCASecretName_def)

end
