(* ===== verification/Registry.thy ===== *)
theory Registry imports Component begin

text \<open>
  The component registry (\<open>component/registry/registry.go\<close>): lookup by name through a cache,
  and the readiness check of a component's direct dependencies; and the instance information
  (\<open>vzinstance/verrazzano_instance.go\<close>), which reads the ingresses of registered components.
\<close>

section \<open>Lookup\<close>

definition FindComponent :: "'w env \<Rightarrow> string \<Rightarrow> 'w sys \<Rightarrow> 'w component option \<times> 'w sys" where
  "FindComponent E componentName s = (case Cache s componentName of
       Some existingComponent \<Rightarrow> (Some existingComponent, s)
     | None \<Rightarrow> (case find (\<lambda>c. Name c = componentName) (GetComponents E) of
           Some newComponent \<Rightarrow> (Some newComponent, s\<lparr>Cache := (Cache s)(componentName \<mapsto> newComponent)\<rparr>)
         | None \<Rightarrow> (None, s)))"

text \<open>
  What the clients of a lookup by name rely on: every lookup answers as a scan of the
  registered list would, and keeps whatever makes that so.
\<close>

locale lookup_service =
  fixes lookup :: "string \<Rightarrow> 's \<Rightarrow> 'c option \<times> 's"
    and key :: "'c \<Rightarrow> string"
    and registered :: "'c list"
    and inv :: "'s \<Rightarrow> bool"
  assumes lookup_scan: "inv s \<Longrightarrow> fst (lookup n s) = find (\<lambda>c. key c = n) registered"
    and lookup_inv: "inv s \<Longrightarrow> inv (snd (lookup n s))"
begin

lemma lookup_key: "inv s \<Longrightarrow> lookup n s = (Some c, s') \<Longrightarrow> key c = n \<and> c \<in> set registered"
  using lookup_scan [of s n] by (fastforce simp: find_Some_iff2 dest: sym [of "Some c"])

lemma lookup_missing: "inv s \<Longrightarrow> fst (lookup n s) = None \<longleftrightarrow> n \<notin> key ` set registered"
  by (auto simp: lookup_scan find_None_iff)

lemma lookup_again:
  "inv s \<Longrightarrow> fst (lookup n (snd (lookup m s))) = fst (lookup n s)"
  by (simp add: lookup_scan lookup_inv)

end

definition cache_ok :: "'w env \<Rightarrow> 'w sys \<Rightarrow> bool" where
  "cache_ok E s \<longleftrightarrow>
     (\<forall>n c. Cache s n = Some c \<longrightarrow> find (\<lambda>c. Name c = n) (GetComponents E) = Some c)"

interpretation reg: lookup_service "FindComponent E" Name "GetComponents E" "cache_ok E" for E
proof
  fix s n
  assume ok: "cache_ok E s"
  then show "fst (FindComponent E n s) = find (\<lambda>c. Name c = n) (GetComponents E)"
    by (auto simp: FindComponent_def cache_ok_def split: option.splits)
  from ok show "cache_ok E (snd (FindComponent E n s))"
    by (auto simp: FindComponent_def cache_ok_def split: option.splits)
qed

lemma FindComponent_frame [sys_simps]:
  assumes "FindComponent E n s = (r, s')"
  shows "CR s' = CR s" "Sent s' = Sent s" "World s' = World s" "Watched s' = Watched s"
    "installTrackerMap s' = installTrackerMap s" "upgradeTrackerMap s' = upgradeTrackerMap s"
    "UninstallTrackerMap s' = UninstallTrackerMap s" "Initialized s' = Initialized s"
  using assms by (auto simp: FindComponent_def split: option.splits)

lemma call_ctx_cache_ok [simp]: "call_ctx f eff s = (r, s') \<Longrightarrow> cache_ok E s' = cache_ok E s"
  by (simp add: cache_ok_def sys_simps)

section \<open>Dependencies\<close>

definition isInReadyState :: "'w sys \<Rightarrow> 'w component \<Rightarrow> bool" where
  "isInReadyState s cmp = (case comp_status_of s (Name cmp) of
       Some dependencyStatus \<Rightarrow> csState dependencyStatus = CompStateReady
     | None \<Rightarrow> False)"

definition isDependencyReady :: "'w component \<Rightarrow> verrazzano \<Rightarrow> 'w sys \<Rightarrow> bool \<times> 'w sys" where
  "isDependencyReady dependency eff s =
     (if \<not> IsEnabled dependency eff then (True, s)
      else if isInReadyState s dependency then (True, s)
      else call_ctx (IsReady dependency) eff s)"

text \<open>
  The loop of \<open>checkDirectDependenciesReady\<close> over the declared names; the state map is an
  association list.
\<close>

fun check_dependencies ::
  "'w env \<Rightarrow> 'w component \<Rightarrow> verrazzano \<Rightarrow> string list \<Rightarrow> (string \<times> bool) list \<Rightarrow> 'w sys
    \<Rightarrow> (go_error + (string \<times> bool) list) \<times> 'w sys" where
  "check_dependencies E c eff [] stateMap s = (Inr stateMap, s)"
| "check_dependencies E c eff (dependencyName # names) stateMap s =
     (if Name c = dependencyName then (Inl (PlainErr ''dependency cycle found''), s)
      else if map_of stateMap dependencyName \<noteq> None then check_dependencies E c eff names stateMap s
      else (case FindComponent E dependencyName s of
          (None, s1) \<Rightarrow> (Inl (PlainErr ''declared dependency not found''), s1)
        | (Some dependency, s1) \<Rightarrow>
            (let (ready, s2) = isDependencyReady dependency eff s1
             in check_dependencies E c eff names ((dependencyName, ready) # stateMap) s2)))"

definition checkDirectDependenciesReady ::
  "'w env \<Rightarrow> 'w component \<Rightarrow> verrazzano \<Rightarrow> 'w sys \<Rightarrow> (go_error + (string \<times> bool) list) \<times> 'w sys" where
  "checkDirectDependenciesReady E c eff s = check_dependencies E c eff (GetDependencies c) [] s"

definition ComponentDependenciesMet ::
  "'w env \<Rightarrow> 'w component \<Rightarrow> verrazzano \<Rightarrow> 'w sys \<Rightarrow> bool \<times> 'w sys" where
  "ComponentDependenciesMet E c eff s = (case checkDirectDependenciesReady E c eff s of
       (Inl err, s') \<Rightarrow> (False, s')
     | (Inr trace, s') \<Rightarrow>
         (if length trace = 0 then (True, s') else (list_all snd trace, s')))"

lemma isDependencyReady_frame:
  assumes "isDependencyReady d eff s = (r, s')"
  shows "CR s' = CR s \<and> Sent s' = Sent s \<and> Cache s' = Cache s \<and> installTrackerMap s' = installTrackerMap s"
  using assms by (auto simp: isDependencyReady_def sys_simps split: if_splits)

lemma check_dependencies_frame:
  "check_dependencies E c eff ns m s = (r, s') \<Longrightarrow> CR s' = CR s \<and> Sent s' = Sent s"
proof (induction ns arbitrary: m s)
  case Nil
  then show ?case by simp
next
  case (Cons d ns)
  then show ?case
    by (fastforce simp: Let_def split: if_splits prod.splits option.splits
        dest: FindComponent_frame(1,2) isDependencyReady_frame)
qed

lemma ComponentDependenciesMet_frame:
  "ComponentDependenciesMet E c eff s = (r, s') \<Longrightarrow> CR s' = CR s \<and> Sent s' = Sent s"
  by (auto simp: ComponentDependenciesMet_def checkDirectDependenciesReady_def
      split: prod.splits sum.splits if_splits dest: check_dependencies_frame)

text \<open>
  When asking for readiness does not itself change the cluster, the answer of one dependency
  is a function of the state.
\<close>

definition pure_probes :: "'w env \<Rightarrow> bool" where
  "pure_probes E \<longleftrightarrow> (\<forall>c \<in> set (GetComponents E). \<forall>x w. snd (IsReady c x w) = w)"

definition dependency_met :: "'w env \<Rightarrow> verrazzano \<Rightarrow> 'w sys \<Rightarrow> string \<Rightarrow> bool" where
  "dependency_met E eff s n = (case find (\<lambda>c. Name c = n) (GetComponents E) of
       None \<Rightarrow> False
     | Some d \<Rightarrow> \<not> IsEnabled d eff \<or> isInReadyState s d
         \<or> fst (IsReady d \<lparr>ActualCR = CR s, EffectiveCR = eff\<rparr> (World s)))"

lemma dependency_met_same:
  "CR s' = CR s \<Longrightarrow> World s' = World s \<Longrightarrow> dependency_met E eff s' n = dependency_met E eff s n"
  by (simp add: dependency_met_def isInReadyState_def comp_status_of_def split: option.splits)

lemma isDependencyReady_met:
  assumes "pure_probes E" and "find (\<lambda>c. Name c = n) (GetComponents E) = Some d"
    and "isDependencyReady d eff s = (r, s')"
  shows "r = dependency_met E eff s n \<and> World s' = World s"
proof -
  have "d \<in> set (GetComponents E)" using assms(2) by (auto simp: find_Some_iff)
  with assms(1) have "snd (IsReady d x w) = w" for x w by (simp add: pure_probes_def)
  then show ?thesis using assms(2,3)
    by (auto simp: isDependencyReady_def dependency_met_def call_ctx_def
        split: if_splits prod.splits) (metis snd_conv)+
qed

lemma check_dependencies_met:
  assumes "pure_probes E" and "cache_ok E s"
    and "\<And>k v. (k, v) \<in> set m \<Longrightarrow> Name c \<noteq> k \<and> v = dependency_met E eff s k"
  shows "(\<exists>e s'. check_dependencies E c eff ns m s = (Inl e, s')
            \<and> (\<exists>n \<in> set ns. n = Name c \<or> \<not> dependency_met E eff s n))
      \<or> (\<exists>m' s'. check_dependencies E c eff ns m s = (Inr m', s')
            \<and> fst ` set m' = fst ` set m \<union> set ns
            \<and> (\<forall>(k, v) \<in> set m'. Name c \<noteq> k \<and> v = dependency_met E eff s k))"
  using assms(2,3)
proof (induction ns arbitrary: m s)
  case Nil
  then show ?case by auto
next
  case (Cons d ns)
  show ?case
  proof (cases "Name c = d \<or> map_of m d \<noteq> None")
    case True
    then show ?thesis
    proof (cases "Name c = d")
      case False
      with True have "map_of m d \<noteq> None" by simp
      then have "d \<in> fst ` set m" by (simp add: map_of_eq_None_iff)
      with False \<open>map_of m d \<noteq> None\<close> Cons.IH [OF Cons.prems] show ?thesis
        by (auto simp: insert_absorb)
    qed auto
  next
    case False
    obtain f s1 where f: "FindComponent E d s = (f, s1)" by fastforce
    note fr = FindComponent_frame [OF f]
    have scan: "f = find (\<lambda>c. Name c = d) (GetComponents E)"
      using reg.lookup_scan [OF Cons.prems(1), of d] f by simp
    show ?thesis
    proof (cases f)
      case None
      with scan have "\<not> dependency_met E eff s d" by (simp add: dependency_met_def)
      with False None f show ?thesis by auto
    next
      case (Some dep)
      obtain r s2 where r: "isDependencyReady dep eff s1 = (r, s2)" by fastforce
      have ok1: "cache_ok E s1" using reg.lookup_inv [OF Cons.prems(1), of d] f by simp
      have w: "r = dependency_met E eff s1 d \<and> World s2 = World s1"
        by (rule isDependencyReady_met [OF assms(1) _ r]) (use scan Some in simp)
      have same: "dependency_met E eff s1 n = dependency_met E eff s n"
        "dependency_met E eff s2 n = dependency_met E eff s n" for n
        using fr w isDependencyReady_frame [OF r] by (simp_all add: dependency_met_same [of s1 s] dependency_met_same [of s2 s])
      have ok2: "cache_ok E s2" using ok1 isDependencyReady_frame [OF r] by (simp add: cache_ok_def)
      have step: "check_dependencies E c eff (d # ns) m s = check_dependencies E c eff ns ((d, r) # m) s2"
        using False f Some r by simp
      have "(\<exists>e s'. check_dependencies E c eff ns ((d, r) # m) s2 = (Inl e, s')
            \<and> (\<exists>n \<in> set ns. n = Name c \<or> \<not> dependency_met E eff s2 n))
        \<or> (\<exists>m' s'. check_dependencies E c eff ns ((d, r) # m) s2 = (Inr m', s')
            \<and> fst ` set m' = fst ` set ((d, r) # m) \<union> set ns
            \<and> (\<forall>(k, v) \<in> set m'. Name c \<noteq> k \<and> v = dependency_met E eff s2 k))"
        by (rule Cons.IH [OF ok2]) (use Cons.prems(2) False w same in auto)
      then show ?thesis unfolding step by (auto simp: same)
    qed
  qed
qed

lemma check_dependencies_world:
  assumes "pure_probes E" and "cache_ok E s" and "check_dependencies E c eff ns m s = (r, s')"
  shows "World s' = World s"
  using assms(2,3)
proof (induction ns arbitrary: m s)
  case Nil
  then show ?case by simp
next
  case (Cons d ns)
  show ?case
  proof (cases "Name c = d \<or> map_of m d \<noteq> None")
    case True
    with Cons show ?thesis by (auto split: if_splits)
  next
    case False
    obtain f s1 where f: "FindComponent E d s = (f, s1)" by fastforce
    have ok1: "cache_ok E s1" using reg.lookup_inv [OF Cons.prems(1), of d] f by simp
    have scan: "f = find (\<lambda>c. Name c = d) (GetComponents E)"
      using reg.lookup_scan [OF Cons.prems(1), of d] f by simp
    show ?thesis
    proof (cases f)
      case None
      with False f Cons.prems(2) show ?thesis by (auto simp: sys_simps)
    next
      case (Some dep)
      obtain q s2 where q: "isDependencyReady dep eff s1 = (q, s2)" by fastforce
      have w: "World s2 = World s1"
        using isDependencyReady_met [OF assms(1) _ q, of d] scan Some by simp
      have ok2: "cache_ok E s2" using ok1 isDependencyReady_frame [OF q] by (simp add: cache_ok_def)
      from Cons.prems(2) False f Some q have "check_dependencies E c eff ns ((d, q) # m) s2 = (r, s')" by simp
      from Cons.IH [OF ok2 this] w FindComponent_frame(3) [OF f] show ?thesis by simp
    qed
  qed
qed

lemma ComponentDependenciesMet_world:
  assumes "pure_probes E" and "cache_ok E s" and "ComponentDependenciesMet E c eff s = (r, s')"
  shows "World s' = World s"
proof -
  obtain m s1 where m: "check_dependencies E c eff (GetDependencies c) [] s = (m, s1)" by fastforce
  with assms(3) have "s' = s1"
    by (auto simp: ComponentDependenciesMet_def checkDirectDependenciesReady_def split: sum.splits if_splits)
  with check_dependencies_world [OF assms(1,2) m] show ?thesis by simp
qed

lemma dependency_check_iff:
  assumes "pure_probes E" and "cache_ok E s"
  shows "fst (ComponentDependenciesMet E c eff s) \<longleftrightarrow>
     Name c \<notin> set (GetDependencies c) \<and> (\<forall>d \<in> set (GetDependencies c). dependency_met E eff s d)"
proof -
  have "(\<exists>e s'. check_dependencies E c eff (GetDependencies c) [] s = (Inl e, s')
            \<and> (\<exists>n \<in> set (GetDependencies c). n = Name c \<or> \<not> dependency_met E eff s n))
      \<or> (\<exists>m' s'. check_dependencies E c eff (GetDependencies c) [] s = (Inr m', s')
            \<and> fst ` set m' = fst ` set [] \<union> set (GetDependencies c)
            \<and> (\<forall>(k, v) \<in> set m'. Name c \<noteq> k \<and> v = dependency_met E eff s k))"
    using check_dependencies_met [OF assms, of "[]" c eff "GetDependencies c"] by (simp only: list.set empty_iff) simp
  then show ?thesis
  proof (elim disjE exE conjE)
    fix e s' assume a: "check_dependencies E c eff (GetDependencies c) [] s = (Inl e, s')"
      and b: "\<exists>n \<in> set (GetDependencies c). n = Name c \<or> \<not> dependency_met E eff s n"
    from a have "fst (ComponentDependenciesMet E c eff s) = False"
      by (simp add: ComponentDependenciesMet_def checkDirectDependenciesReady_def)
    with b show ?thesis by auto
  next
    fix m' s' assume a: "check_dependencies E c eff (GetDependencies c) [] s = (Inr m', s')"
      and k: "fst ` set m' = fst ` set [] \<union> set (GetDependencies c)"
      and v: "\<forall>(k, v) \<in> set m'. Name c \<noteq> k \<and> v = dependency_met E eff s k"
    from a have m: "fst (ComponentDependenciesMet E c eff s) = list_all snd m'"
      by (simp add: ComponentDependenciesMet_def checkDirectDependenciesReady_def)
    from k have keys: "set (GetDependencies c) = fst ` set m'" by simp
    show ?thesis unfolding m keys list_all_iff using v by fastforce
  qed
qed

text \<open>C32. The dependency check decides exactly the declared condition, whatever the order of the
  declarations and the state of the lookup cache: no component depends on itself, every
  dependency is registered, and each enabled one has been reported Ready or answers Ready now.\<close>

theorem dependencies_met_iff:
  assumes "pure_probes E" and "cache_ok E s"
  shows "fst (ComponentDependenciesMet E c eff s) \<longleftrightarrow>
     Name c \<notin> set (GetDependencies c) \<and> (\<forall>d \<in> set (GetDependencies c). dependency_met E eff s d)"
  by (rule dependency_check_iff [OF assms])

theorem dependencies_met_iff_witness:
  "fst (ComponentDependenciesMet (sample_env [sample_component ''istio''])
      ((sample_component ''rancher'')\<lparr>GetDependencies := [''istio'']\<rparr>) sample_effective
      (sample_sys (zero_cr zero_alpha)))
   \<and> \<not> fst (ComponentDependenciesMet (sample_env [sample_component ''istio''])
      ((sample_component ''rancher'')\<lparr>GetDependencies := [''istio'', ''mysql'']\<rparr>) sample_effective
      (sample_sys (zero_cr zero_alpha)))"
proof -
  let ?E = "sample_env [sample_component ''istio'']"
  have "pure_probes ?E" "cache_ok ?E (sample_sys (zero_cr zero_alpha))"
    by (simp_all add: pure_probes_def cache_ok_def sample_sys_def sample_env_def GetComponents_def
        sample_component_def)
  note iff = dependencies_met_iff [OF this]
  show ?thesis
    by (simp add: iff) (simp add: dependency_met_def sample_component_def sample_env_def GetComponents_def)
qed

section \<open>Instance information\<close>

fun findIngress :: "ingress list \<Rightarrow> string \<Rightarrow> string \<Rightarrow> ingress option" where
  "findIngress [] ns n = None"
| "findIngress (i # is) ns n =
     (if ingName i = n \<and> ingNamespace i = ns then Some i else findIngress is ns n)"

text \<open>\<open>Rules[0]\<close> panics on an ingress without rules.\<close>

definition getSystemIngressURL :: "ingress list \<Rightarrow> string \<Rightarrow> string \<Rightarrow> string option res" where
  "getSystemIngressURL ingresses ns n = (case findIngress ingresses ns n of
       None \<Rightarrow> Ret None
     | Some i \<Rightarrow> (case ingHosts i of
           [] \<Rightarrow> Panic ''index out of range''
         | h # _ \<Rightarrow> Ret (Some (''https://'' @ h))))"

definition getComponentIngressURL ::
  "'w env \<Rightarrow> ingress list \<Rightarrow> verrazzano \<Rightarrow> string \<Rightarrow> string \<Rightarrow> ('w, string option) op" where
  "getComponentIngressURL E ingresses eff componentName ingressName s =
     (case FindComponent E componentName s of
        (None, s1) \<Rightarrow> Ret (None, s1)
      | (Some cmp, s1) \<Rightarrow>
          (case find (\<lambda>(ns, n). n = ingressName)
                 (GetIngressNames cmp \<lparr>ActualCR = CR s1, EffectiveCR = eff\<rparr>) of
             None \<Rightarrow> Ret (None, s1)
           | Some (ns, n) \<Rightarrow> res_bind (getSystemIngressURL ingresses ns n) (\<lambda>u. Ret (u, s1))))"

definition GetInstanceInfo :: "'w env \<Rightarrow> verrazzano \<Rightarrow> ('w, instance_info option) op" where
  "GetInstanceInfo E eff s =
     (case call_world (ListIngresses E) s of
        (Inl err, s1) \<Rightarrow> Ret (None, s1)
      | (Inr items, s1) \<Rightarrow>
         (if length items = 0 then Ret (None, s1)
          else op_bind (if IsConsoleEnabled (V1alpha1 (Some eff))
                        then getComponentIngressURL E items eff ''verrazzano-authproxy'' ''verrazzano-ingress''
                        else (\<lambda>s. Ret (None, s))) (\<lambda>consoleURL.
            op_bind (getComponentIngressURL E items eff ''rancher'' ''rancher'') (\<lambda>rancherURL.
            op_bind (getComponentIngressURL E items eff ''keycloak'' ''keycloak'') (\<lambda>keycloakURL.
            op_bind (getComponentIngressURL E items eff ''opensearch'' ''vmi-system-os-ingest'') (\<lambda>elasticURL.
            op_bind (getComponentIngressURL E items eff ''opensearch-dashboards'' ''vmi-system-osd'') (\<lambda>kibanaURL.
            op_bind (getComponentIngressURL E items eff ''grafana'' ''vmi-system-grafana'') (\<lambda>grafanaURL.
            op_bind (getComponentIngressURL E items eff ''prometheus-operator'' ''vmi-system-prometheus'') (\<lambda>prometheusURL.
            op_bind (getComponentIngressURL E items eff ''kiali-server'' ''vmi-system-kiali'') (\<lambda>kialiURL.
            op_bind (getComponentIngressURL E items eff ''jaeger-operator'' ''verrazzano-jaeger'') (\<lambda>jaegerURL.
            op_bind (getComponentIngressURL E items eff ''argocd'' ''argocd-server'') (\<lambda>argoCDURL.
            op_bind (getComponentIngressURL E items eff ''thanos'' ''thanos-query-frontend'') (\<lambda>thanosURL s.
              Ret (Some \<lparr>ArgoCDURL = argoCDURL, ConsoleURL = consoleURL, ElasticURL = elasticURL,
                GrafanaURL = grafanaURL, JaegerURL = jaegerURL, KeyCloakURL = keycloakURL,
                KialiURL = kialiURL, KibanaURL = kibanaURL, PrometheusURL = prometheusURL,
                RancherURL = rancherURL, ThanosQueryURL = thanosURL\<rparr>, s)))))))))))) s1))"

definition same_but_cache :: "'w sys \<Rightarrow> 'w sys \<Rightarrow> bool" where
  "same_but_cache s t \<longleftrightarrow> CR t = CR s \<and> Sent t = Sent s \<and> Watched t = Watched s \<and> Initialized t = Initialized s
     \<and> installTrackerMap t = installTrackerMap s \<and> upgradeTrackerMap t = upgradeTrackerMap s
     \<and> UninstallTrackerMap t = UninstallTrackerMap s"

lemma same_but_cache_refl [simp]: "same_but_cache s s"
  by (simp add: same_but_cache_def)

lemma same_but_cache_trans [trans]: "same_but_cache s t \<Longrightarrow> same_but_cache t u \<Longrightarrow> same_but_cache s u"
  by (simp add: same_but_cache_def)

lemma call_ctx_same: "call_ctx f eff s = (r, s') \<Longrightarrow> same_but_cache s s'"
  by (simp add: same_but_cache_def sys_simps)

lemma call_world_same: "call_world f s = (r, s') \<Longrightarrow> same_but_cache s s'"
  by (simp add: same_but_cache_def sys_simps)

lemma FindComponent_same: "FindComponent E n s = (r, s') \<Longrightarrow> same_but_cache s s'"
  by (simp add: same_but_cache_def sys_simps)

definition quiet_op :: "('w, 'a) op \<Rightarrow> bool" where
  "quiet_op m \<longleftrightarrow> (\<forall>s. m s \<noteq> Spin) \<and> (\<forall>s a s'. m s = Ret (a, s') \<longrightarrow> same_but_cache s s')"

lemma quiet_op_bind: "quiet_op m \<Longrightarrow> (\<And>a. quiet_op (f a)) \<Longrightarrow> quiet_op (op_bind m f)"
  unfolding quiet_op_def by (simp add: op_bind_Ret_iff op_bind_Spin_iff) (meson same_but_cache_trans)

lemma quiet_op_ret: "quiet_op (\<lambda>s. Ret (a, s))"
  by (simp add: quiet_op_def)

lemma quiet_getComponentIngressURL: "quiet_op (getComponentIngressURL E items eff n i)"
  by (auto simp: quiet_op_def getComponentIngressURL_def getSystemIngressURL_def res_bind_Ret_iff
      res_bind_Spin_iff split: prod.splits option.splits list.splits dest: FindComponent_same)

lemma quiet_GetInstanceInfo: "quiet_op (GetInstanceInfo E eff)"
proof -
  have *: "quiet_op m \<Longrightarrow> m s1 = Ret (a, s') \<Longrightarrow> call_world f s = (r, s1) \<Longrightarrow> same_but_cache s s'" for m s1 a s' f s r
    by (auto simp: quiet_op_def dest: call_world_same intro: same_but_cache_trans)
  have **: "quiet_op m \<Longrightarrow> m s \<noteq> Spin" for m s by (simp add: quiet_op_def)
  show ?thesis
    unfolding quiet_op_def GetInstanceInfo_def
    by (intro conjI allI impI)
       (auto split: prod.splits sum.splits if_splits dest: call_world_same
         elim!: * [rotated] notE [OF **, rotated]
         intro!: quiet_op_bind quiet_getComponentIngressURL quiet_op_ret)
qed

end
