(* ===== verification/Status_Ops.thy ===== *)
theory Status_Ops imports Registry begin

text \<open>
  The reconciler's status writes (\<open>reconcile/status.go\<close>).  A write does not touch the stored
  resource: it puts an event on the updater's channel.  The component details in the resource
  at hand are changed in place, which the rest of the call sees.  The package variable
  \<open>unitTesting\<close> is false outside the tests and its branches are left out.
\<close>

section \<open>Conditions and states\<close>

fun appendConditionIfNecessary :: "condition list \<Rightarrow> condition \<Rightarrow> condition list" where
  "appendConditionIfNecessary conditions newCondition =
     filter (\<lambda>existing. CondType existing \<noteq> CondType newCondition) conditions @ [newCondition]"

definition checkCondtitionType :: "condition_type \<Rightarrow> comp_state" where
  "checkCondtitionType currentCondition = (case currentCondition of
       CondPreInstall \<Rightarrow> CompStatePreInstalling
     | CondInstallStarted \<Rightarrow> CompStateInstalling
     | CondUninstallStarted \<Rightarrow> CompStateUninstalling
     | CondUpgradeStarted \<Rightarrow> CompStateUpgrading
     | CondUpgradePaused \<Rightarrow> CompStateUpgrading
     | CondUninstallComplete \<Rightarrow> CompStateUninstalled
     | CondInstallFailed \<Rightarrow> CompStateFailed
     | CondUpgradeFailed \<Rightarrow> CompStateFailed
     | CondUninstallFailed \<Rightarrow> CompStateFailed
     | _ \<Rightarrow> CompStateReady)"

definition conditionToVzState :: "condition_type \<Rightarrow> vz_state" where
  "conditionToVzState currentCondition = (case currentCondition of
       CondInstallStarted \<Rightarrow> VzStateReconciling
     | CondUninstallStarted \<Rightarrow> VzStateUninstalling
     | CondUpgradeStarted \<Rightarrow> VzStateUpgrading
     | CondUpgradePaused \<Rightarrow> VzStatePaused
     | CondUninstallComplete \<Rightarrow> VzStateReady
     | CondInstallFailed \<Rightarrow> VzStateFailed
     | CondUpgradeFailed \<Rightarrow> VzStateFailed
     | CondUninstallFailed \<Rightarrow> VzStateFailed
     | _ \<Rightarrow> VzStateReady)"

definition new_condition :: "'w env \<Rightarrow> 'w sys \<Rightarrow> string \<Rightarrow> condition_type \<Rightarrow> condition" where
  "new_condition E s message conditionType =
     \<lparr>LastTransitionTime = Now E (World s), Message = message, CondStatus = ConditionTrue,
      CondType = conditionType\<rparr>"

section \<open>Writes for the whole resource\<close>

text \<open>
  When the context cannot be built, the error branch calls a method of the nil context it
  just got: a panic.
\<close>

definition updateStatus ::
  "'w env \<Rightarrow> string \<Rightarrow> condition_type \<Rightarrow> string option \<Rightarrow> ('w, go_error option) op" where
  "updateStatus E message conditionType version s =
     (let conditions = appendConditionIfNecessary (vzConditions (Status (CR s)))
                         (new_condition E s message conditionType);
          event = zero_event\<lparr>evVersion := version, evState := conditionToVzState conditionType,
                             evConditions := Some conditions\<rparr>
      in if conditionType = CondInstallComplete
         then (case NewContext E (CR s) of
                 Inl err \<Rightarrow> Panic nil_deref
               | Inr eff \<Rightarrow> op_bind (GetInstanceInfo E eff)
                   (\<lambda>info s1. Ret (None, send (event\<lparr>evInstanceInfo := info\<rparr>) s1)) s)
         else Ret (None, send event s))"

definition updateVzState :: "vz_state \<Rightarrow> 'w sys \<Rightarrow> 'w sys" where
  "updateVzState state s = send (zero_event\<lparr>evState := state\<rparr>) s"

definition updateVzStatusAndState ::
  "'w env \<Rightarrow> string \<Rightarrow> condition_type \<Rightarrow> vz_state \<Rightarrow> ('w, go_error option) op" where
  "updateVzStatusAndState E message conditionType state s =
     (let conditions = appendConditionIfNecessary (vzConditions (Status (CR s)))
                         (new_condition E s message conditionType)
      in case NewContext E (CR s) of
           Inl err \<Rightarrow> Panic nil_deref
         | Inr eff \<Rightarrow> op_bind (GetInstanceInfo E eff)
             (\<lambda>info s1. Ret (None, send (zero_event\<lparr>evState := state, evConditions := Some conditions,
                evInstanceInfo := info\<rparr>) s1)) s)"

section \<open>Writes for one component\<close>

text \<open>
  \<open>generations ct g cs\<close>: the generation fields after a write of condition \<open>ct\<close> at resource
  generation \<open>g\<close>.
\<close>

definition generations :: "condition_type \<Rightarrow> int \<Rightarrow> comp_status \<Rightarrow> comp_status" where
  "generations conditionType g cs =
     (if conditionType = CondInstallComplete \<or> conditionType = CondUpgradeComplete then
        (if ReconcilingGeneration cs > 0
         then cs\<lparr>LastReconciledGeneration := ReconcilingGeneration cs, ReconcilingGeneration := 0\<rparr>
         else cs\<lparr>LastReconciledGeneration := g\<rparr>)
      else (if ReconcilingGeneration cs = 0 then cs\<lparr>ReconcilingGeneration := g\<rparr> else cs))"

definition new_comp_status ::
  "'w env \<Rightarrow> 'w sys \<Rightarrow> string \<Rightarrow> string \<Rightarrow> condition_type \<Rightarrow> comp_status \<Rightarrow> comp_status" where
  "new_comp_status E s name message conditionType cs =
     (let cs1 = generations conditionType (Generation (CR s)) cs
      in cs1\<lparr>csConditions := appendConditionIfNecessary (csConditions cs1)
                               (new_condition E s message conditionType),
             csState := checkCondtitionType conditionType\<rparr>)"

definition with_version :: "string option \<Rightarrow> comp_status \<Rightarrow> comp_status" where
  "with_version v cs = (case v of None \<Rightarrow> cs | Some ver \<Rightarrow> cs\<lparr>csVersion := ver\<rparr>)"

definition store_status :: "bool \<Rightarrow> string \<Rightarrow> comp_status \<Rightarrow> 'w sys \<Rightarrow> 'w sys" where
  "store_status inPlace name cs s = (if inPlace then set_comp_status name cs s else s)"

definition updateComponentStatus ::
  "'w env \<Rightarrow> verrazzano \<Rightarrow> string \<Rightarrow> string \<Rightarrow> condition_type \<Rightarrow> ('w, go_error option) op" where
  "updateComponentStatus E eff componentName message conditionType s =
     (let known = comp_status_of s componentName;
          cs0 = (case known of Some c \<Rightarrow> c | None \<Rightarrow> zero_comp_status\<lparr>csName := componentName\<rparr>);
          cs = new_comp_status E s componentName message conditionType cs0;
          s1 = store_status (known \<noteq> None) componentName cs s
      in if conditionType = CondInstallComplete \<or> conditionType = CondUpgradeComplete
         then op_bind (GetInstanceInfo E eff) (\<lambda>info s2.
           let csv = with_version (BomComponentVersion E componentName) cs;
               s3 = store_status (known \<noteq> None) componentName csv s2
           in Ret (None, send (zero_event\<lparr>evComponents := [componentName \<mapsto> csv], evInstanceInfo := info\<rparr>) s3)) s1
         else Ret (None, send (zero_event\<lparr>evComponents := [componentName \<mapsto> cs]\<rparr>) s1))"

section \<open>Completion checks\<close>

text \<open>
  The loop of \<open>checkComponentReadyState\<close>: it builds a context per component and reads the
  state of an enabled component's details without asking whether they are there.
\<close>

fun all_ready :: "'w env \<Rightarrow> verrazzano \<Rightarrow> 'w component list \<Rightarrow> (bool \<times> go_error option) res" where
  "all_ready E cr [] = Ret (True, None)"
| "all_ready E cr (c # cs) = (case NewContext E cr of
       Inl err \<Rightarrow> Ret (False, Some err)
     | Inr eff \<Rightarrow>
        if \<not> IsEnabled c eff then all_ready E cr cs
        else (case vzComponents (Status cr) (Name c) of
                None \<Rightarrow> Panic nil_deref
              | Some cs' \<Rightarrow> if csState cs' \<noteq> CompStateReady then Ret (False, None) else all_ready E cr cs))"

definition checkComponentReadyState :: "'w env \<Rightarrow> ('w, bool \<times> go_error option) op" where
  "checkComponentReadyState E s = res_bind (all_ready E (CR s) (GetComponents E)) (\<lambda>r. Ret (r, s))"

definition checkInstallComplete :: "'w env \<Rightarrow> ('w, bool \<times> go_error option) op" where
  "checkInstallComplete E s = op_bind (checkComponentReadyState E) (\<lambda>(ready, err) s1.
     if err \<noteq> None then Ret ((False, err), s1)
     else if \<not> ready then Ret ((False, None), s1)
     else op_bind (updateStatus E ''Verrazzano install completed successfully'' CondInstallComplete None)
            (\<lambda>err s2. Ret ((True, err), s2)) s1) s"

definition checkUpgradeComplete :: "'w env \<Rightarrow> ('w, bool \<times> go_error option) op" where
  "checkUpgradeComplete E s =
     (if vzState (Status (CR s)) \<noteq> VzStateUpgrading then Ret ((True, None), s)
      else op_bind (checkComponentReadyState E) (\<lambda>(ready, err) s1.
        if err \<noteq> None then Ret ((False, err), s1)
        else if \<not> ready then Ret ((False, None), s1)
        else op_bind (updateVzStatusAndState E ''Verrazzano upgrade completed successfully''
                        CondUpgradeComplete VzStateReady)
               (\<lambda>err s2. Ret ((True, err), s2)) s1) s)"

section \<open>Initialisation\<close>

text \<open>
  The loop of \<open>initializeComponentStatus\<close>: its accumulators are \<open>componentsToUpdate\<close> and
  \<open>statusUpdated\<close>; an error returns at once.
\<close>

fun init_components ::
  "'w env \<Rightarrow> verrazzano \<Rightarrow> 'w component list \<Rightarrow> (string \<Rightarrow> comp_status option) \<Rightarrow> bool \<Rightarrow> 'w sys
    \<Rightarrow> (go_error + ((string \<Rightarrow> comp_status option) \<times> bool)) \<times> 'w sys" where
  "init_components E eff [] upd statusUpdated s = (Inr (upd, statusUpdated), s)"
| "init_components E eff (c # cs) upd statusUpdated s =
     (case comp_status_of s (Name c) of
        Some status \<Rightarrow>
          (if LastReconciledGeneration status = 0
           then let status' = status\<lparr>LastReconciledGeneration := Generation (CR s)\<rparr>
                in init_components E eff cs (upd(Name c \<mapsto> status')) statusUpdated
                     (set_comp_status (Name c) status' s)
           else init_components E eff cs upd statusUpdated s)
      | None \<Rightarrow>
          (if IsOperatorInstallSupported c
           then (case call_ctx (IsInstalled c) eff s of
                   (Inl err, s1) \<Rightarrow> (Inl err, s1)
                 | (Inr installed, s1) \<Rightarrow>
                     init_components E eff cs (upd(Name c \<mapsto> zero_comp_status
                        \<lparr>csName := Name c,
                         csState := (if installed then CompStateReady else CompStateDisabled),
                         LastReconciledGeneration := (if installed then Generation (CR s1) else 0)\<rparr>))
                       True s1)
           else init_components E eff cs upd statusUpdated s))"

definition initializeComponentStatus :: "'w env \<Rightarrow> 'w sys \<Rightarrow> (ctrl_result \<times> go_error option) \<times> 'w sys" where
  "initializeComponentStatus E s = (case NewContext E (CR s) of
       Inl err \<Rightarrow> ((newRequeueWithDelay (IntnRange E), Some err), s)
     | Inr eff \<Rightarrow> (case init_components E eff (GetComponents E) Map.empty False s of
           (Inl err, s1) \<Rightarrow> ((newRequeueWithDelay (IntnRange E), Some err), s1)
         | (Inr (upd, statusUpdated), s1) \<Rightarrow>
             (if statusUpdated
              then ((newRequeueWithDelay (IntnRange E), None), send (zero_event\<lparr>evComponents := upd\<rparr>) s1)
              else ((no_requeue, None), s1))))"

definition setUninstallCondition :: "'w env \<Rightarrow> condition_type \<Rightarrow> string \<Rightarrow> ('w, go_error option) op" where
  "setUninstallCondition E newCondition msg s =
     (if list_ex (\<lambda>c. CondType c = newCondition) (vzConditions (Status (CR s))) then Ret (None, s)
      else updateStatus E msg newCondition None s)"

definition setInstallingState :: "'w env \<Rightarrow> ('w, go_error option) op" where
  "setInstallingState E s = (case CurrentBomVersion E of
       Inl err \<Rightarrow> Ret (Some err, s)
     | Inr bomSemVer \<Rightarrow> updateStatus E ''Verrazzano install in progress'' CondInstallStarted
                          (Some (ToString bomSemVer)) s)"

section \<open>What the writes keep\<close>

definition no_spin :: "('w, 'a) op \<Rightarrow> bool" where
  "no_spin m \<longleftrightarrow> (\<forall>s. m s \<noteq> Spin)"

lemma no_spin_GetInstanceInfo: "GetInstanceInfo E eff s \<noteq> Spin"
  using quiet_GetInstanceInfo by (auto simp: quiet_op_def)

lemma updateComponentStatus_no_spin: "updateComponentStatus E eff n m ct s \<noteq> Spin"
  by (simp add: updateComponentStatus_def Let_def op_bind_Spin_iff no_spin_GetInstanceInfo)

lemma updateStatus_no_spin: "updateStatus E m ct v s \<noteq> Spin"
  by (simp add: updateStatus_def Let_def op_bind_Spin_iff no_spin_GetInstanceInfo split: sum.splits)

lemma GetInstanceInfo_same: "GetInstanceInfo E eff s = Ret (a, s') \<Longrightarrow> same_but_cache s s'"
  using quiet_GetInstanceInfo [of E eff] unfolding quiet_op_def by blast

lemma store_status_simps [simp]:
  "Sent (store_status b n cs s) = Sent s"
  "comp_status_of (store_status b n cs s) m = (if b \<and> m = n then Some cs else comp_status_of s m)"
  "installTrackerMap (store_status b n cs s) = installTrackerMap s"
  "Generation (CR (store_status b n cs s)) = Generation (CR s)"
  by (simp_all add: store_status_def)

lemma store_status_rest [simp]:
  "upgradeTrackerMap (store_status b n cs s) = upgradeTrackerMap s"
  "UninstallTrackerMap (store_status b n cs s) = UninstallTrackerMap s"
  by (simp_all add: store_status_def)

definition cr_frame :: "verrazzano \<Rightarrow> verrazzano \<Rightarrow> bool" where
  "cr_frame cr cr' \<longleftrightarrow> (\<exists>f. cr' = cr\<lparr>Status := (Status cr)\<lparr>vzComponents := f\<rparr>\<rparr>)"

lemma cr_frame_refl [simp]: "cr_frame cr cr"
  unfolding cr_frame_def by (rule exI [of _ "vzComponents (Status cr)"]) simp

lemma cr_frame_fields:
  assumes "cr_frame cr cr'"
  shows "Generation cr' = Generation cr" "vzState (Status cr') = vzState (Status cr)"
    "vzConditions (Status cr') = vzConditions (Status cr)" "vzVersion (Status cr') = vzVersion (Status cr)"
    "vzName cr' = vzName cr" "vzNamespace cr' = vzNamespace cr" "UID cr' = UID cr"
    "DeletionTimestamp cr' = DeletionTimestamp cr" "Profile cr' = Profile cr"
    "Components cr' = Components cr" "SpecVersion cr' = SpecVersion cr"
  using assms by (auto simp: cr_frame_def)

lemma cr_frame_trans: "cr_frame a b \<Longrightarrow> cr_frame b c \<Longrightarrow> cr_frame a c"
  by (auto simp: cr_frame_def)

lemma store_status_cr_frame [simp]: "cr_frame (CR s) (CR (store_status b n cs s))"
  by (auto simp: cr_frame_def store_status_def set_comp_status_def set_status_def
      intro: exI [of _ "vzComponents (Status (CR s))"])

text \<open>The effect of one component write, as equations on what the rest of the call can see.\<close>

lemma updateComponentStatus_effect:
  assumes "updateComponentStatus E eff n msg ct s = Ret (e, s')"
  shows "e = None"
    and "\<exists>cs info. Sent s' = Sent s @ [zero_event\<lparr>evComponents := [n \<mapsto> cs], evInstanceInfo := info\<rparr>]
      \<and> cs = with_version (if ct = CondInstallComplete \<or> ct = CondUpgradeComplete
                           then BomComponentVersion E n else None)
               (new_comp_status E s n msg ct
                 (case comp_status_of s n of Some c \<Rightarrow> c | None \<Rightarrow> zero_comp_status\<lparr>csName := n\<rparr>))
      \<and> comp_status_of s' n = (if comp_status_of s n = None then None else Some cs)"
    and "\<And>m. m \<noteq> n \<Longrightarrow> comp_status_of s' m = comp_status_of s m"
    and "cr_frame (CR s) (CR s')"
    and "installTrackerMap s' = installTrackerMap s" "upgradeTrackerMap s' = upgradeTrackerMap s"
      "UninstallTrackerMap s' = UninstallTrackerMap s"
proof -
  let ?cs = "new_comp_status E s n msg ct
    (case comp_status_of s n of Some c \<Rightarrow> c | None \<Rightarrow> zero_comp_status\<lparr>csName := n\<rparr>)"
  let ?b = "comp_status_of s n \<noteq> None"
  let ?s1 = "store_status ?b n ?cs s"
  have all: "e = None \<and> (\<exists>cs info. Sent s' = Sent s @ [zero_event\<lparr>evComponents := [n \<mapsto> cs], evInstanceInfo := info\<rparr>]
      \<and> cs = with_version (if ct = CondInstallComplete \<or> ct = CondUpgradeComplete
                           then BomComponentVersion E n else None) ?cs
      \<and> comp_status_of s' n = (if comp_status_of s n = None then None else Some cs))
    \<and> (\<forall>m. m \<noteq> n \<longrightarrow> comp_status_of s' m = comp_status_of s m) \<and> cr_frame (CR s) (CR s')
    \<and> installTrackerMap s' = installTrackerMap s \<and> upgradeTrackerMap s' = upgradeTrackerMap s
    \<and> UninstallTrackerMap s' = UninstallTrackerMap s"
  proof (cases "ct = CondInstallComplete \<or> ct = CondUpgradeComplete")
    case False
    have "\<exists>info. zero_event\<lparr>evComponents := x\<rparr> = zero_event\<lparr>evComponents := x, evInstanceInfo := info\<rparr>" for x
      by (rule exI [of _ None]) (simp add: zero_event_def)
    with False assms show ?thesis
      by (auto simp: updateComponentStatus_def Let_def with_version_def)
  next
    case True
    let ?csv = "with_version (BomComponentVersion E n) ?cs"
    from True assms obtain info s2 where i: "GetInstanceInfo E eff ?s1 = Ret (info, s2)"
      and s': "s' = send (zero_event\<lparr>evComponents := [n \<mapsto> ?csv], evInstanceInfo := info\<rparr>) (store_status ?b n ?csv s2)"
      and e: "e = None"
      by (auto simp: updateComponentStatus_def Let_def op_bind_Ret_iff)
    from GetInstanceInfo_same [OF i] have q: "CR s2 = CR ?s1" "Sent s2 = Sent s"
      "installTrackerMap s2 = installTrackerMap s" "upgradeTrackerMap s2 = upgradeTrackerMap s"
      "UninstallTrackerMap s2 = UninstallTrackerMap s"
      by (simp_all add: same_but_cache_def)
    have c: "comp_status_of s2 m = comp_status_of ?s1 m" for m by (simp add: comp_status_of_def q)
    have "cr_frame (CR s) (CR s2)" by (simp add: q)
    then have "cr_frame (CR s) (CR s')"
      by (simp add: s') (meson cr_frame_trans store_status_cr_frame)
    with True show ?thesis by (auto simp: s' e q c)
  qed
  then show "e = None"
    and "\<exists>cs info. Sent s' = Sent s @ [zero_event\<lparr>evComponents := [n \<mapsto> cs], evInstanceInfo := info\<rparr>]
      \<and> cs = with_version (if ct = CondInstallComplete \<or> ct = CondUpgradeComplete
                           then BomComponentVersion E n else None) ?cs
      \<and> comp_status_of s' n = (if comp_status_of s n = None then None else Some cs)"
    and "\<And>m. m \<noteq> n \<Longrightarrow> comp_status_of s' m = comp_status_of s m"
    and "cr_frame (CR s) (CR s')"
    and "installTrackerMap s' = installTrackerMap s" "upgradeTrackerMap s' = upgradeTrackerMap s"
      "UninstallTrackerMap s' = UninstallTrackerMap s"
    by blast+
qed

section \<open>Properties\<close>

lemma appendCondition_other:
  "CondType c \<noteq> t \<Longrightarrow> filter (\<lambda>x. CondType x = t) (appendConditionIfNecessary cs c)
     = filter (\<lambda>x. CondType x = t) cs"
  by (auto intro: filter_cong)

lemma appendCondition_same:
  "filter (\<lambda>x. CondType x = CondType c) (appendConditionIfNecessary cs c) = [c]"
  by simp

declare appendConditionIfNecessary.simps [simp del]

text \<open>The condition history: after any sequence of writes to a condition list, legacy
  duplicates included, the list ends with the latest write, holds each written type exactly
  once, as its latest write, and leaves the entries of the other types as they were.\<close>

lemma condition_history:
  "let cs' = foldl appendConditionIfNecessary cs (ns @ [n]) in
     last cs' = n
     \<and> (\<forall>t. filter (\<lambda>x. CondType x = t) cs' =
           (case filter (\<lambda>x. CondType x = t) (rev (ns @ [n])) of
              [] \<Rightarrow> filter (\<lambda>x. CondType x = t) cs
            | c # _ \<Rightarrow> [c]))"
proof -
  have *: "filter (\<lambda>x. CondType x = t) (foldl appendConditionIfNecessary cs ms) =
      (case filter (\<lambda>x. CondType x = t) (rev ms) of
         [] \<Rightarrow> filter (\<lambda>x. CondType x = t) cs | c # _ \<Rightarrow> [c])" for t ms
  proof (induction ms rule: rev_induct)
    case Nil
    then show ?case by simp
  next
    case (snoc m ms)
    then show ?case
      by (cases "CondType m = t") (auto simp: appendCondition_same appendCondition_other)
  qed
  have "last (foldl appendConditionIfNecessary cs (ns @ [n])) = n"
    by (simp add: appendConditionIfNecessary.simps)
  with * [of _ "ns @ [n]"] show ?thesis unfolding Let_def by blast
qed

text \<open>A completed install or upgrade of a component: the details of a component already in
  the resource become Ready, they record as reconciled the generation that was being
  reconciled, or the resource's when none was, nothing is left being reconciled, the newest
  condition is the completion, and exactly these details are sent to the updater; no other
  component changes.\<close>

lemma component_completion_write:
  assumes "updateComponentStatus E eff n msg ct s = Ret (e, s')"
    and "ct = CondInstallComplete \<or> ct = CondUpgradeComplete"
    and "comp_status_of s n = Some cs" and "ReconcilingGeneration cs \<ge> 0"
  shows "\<exists>cs' ev. e = None \<and> comp_status_of s' n = Some cs'
     \<and> csState cs' = CompStateReady
     \<and> LastReconciledGeneration cs' =
         (if ReconcilingGeneration cs > 0 then ReconcilingGeneration cs else Generation (CR s))
     \<and> ReconcilingGeneration cs' = 0
     \<and> CondType (last (csConditions cs')) = ct
     \<and> Sent s' = Sent s @ [ev] \<and> evComponents ev = [n \<mapsto> cs'] \<and> evState ev = VzStateEmpty
     \<and> (\<forall>m. m \<noteq> n \<longrightarrow> comp_status_of s' m = comp_status_of s m)"
proof -
  from updateComponentStatus_effect(2) [OF assms(1)] assms(2,3) obtain cs' info where
    sent: "Sent s' = Sent s @ [zero_event\<lparr>evComponents := [n \<mapsto> cs'], evInstanceInfo := info\<rparr>]"
    and cs': "cs' = with_version (BomComponentVersion E n) (new_comp_status E s n msg ct cs)"
    and st: "comp_status_of s' n = Some cs'"
    by auto
  let ?c = "new_comp_status E s n msg ct cs"
  from assms(2,4) have c: "csState ?c = CompStateReady"
    "LastReconciledGeneration ?c =
       (if ReconcilingGeneration cs > 0 then ReconcilingGeneration cs else Generation (CR s))"
    "ReconcilingGeneration ?c = 0" "CondType (last (csConditions ?c)) = ct"
    by (auto simp: new_comp_status_def Let_def generations_def checkCondtitionType_def
        appendConditionIfNecessary.simps new_condition_def)
  have "csState cs' = CompStateReady
     \<and> LastReconciledGeneration cs' =
         (if ReconcilingGeneration cs > 0 then ReconcilingGeneration cs else Generation (CR s))
     \<and> ReconcilingGeneration cs' = 0 \<and> CondType (last (csConditions cs')) = ct"
    using c by (cases "BomComponentVersion E n") (simp_all add: cs' with_version_def)
  with sent st updateComponentStatus_effect(1,3) [OF assms(1)] show ?thesis
    by (intro exI [of _ cs'] exI [of _ "zero_event\<lparr>evComponents := [n \<mapsto> cs'], evInstanceInfo := info\<rparr>"])
       (auto simp: zero_event_def)
qed

definition sample_cr :: "(string \<Rightarrow> comp_status option) \<Rightarrow> verrazzano" where
  "sample_cr m = (zero_cr zero_alpha)\<lparr>Generation := 3,
     Status := zero_status\<lparr>vzComponents := m, vzState := VzStateReconciling\<rparr>\<rparr>"

lemma GetInstanceInfo_sample: "GetInstanceInfo (sample_env cs) eff s = Ret (None, s)"
  by (simp add: GetInstanceInfo_def sample_env_def call_world_def)

lemma component_completion_write_witness:
  "\<exists>e s' cs'. updateComponentStatus (sample_env []) sample_effective ''istio'' ''done'' CondInstallComplete
       (sample_sys (sample_cr [''istio'' \<mapsto> zero_comp_status\<lparr>ReconcilingGeneration := 2\<rparr>])) = Ret (e, s')
     \<and> comp_status_of s' ''istio'' = Some cs' \<and> LastReconciledGeneration cs' = 2"
proof -
  let ?s = "sample_sys (sample_cr [''istio'' \<mapsto> zero_comp_status\<lparr>ReconcilingGeneration := 2\<rparr>])"
  have "\<exists>e s'. updateComponentStatus (sample_env []) sample_effective ''istio'' ''done''
      CondInstallComplete ?s = Ret (e, s')"
    by (simp add: updateComponentStatus_def Let_def op_bind_def GetInstanceInfo_sample)
  then obtain e s' where r: "updateComponentStatus (sample_env []) sample_effective ''istio'' ''done''
      CondInstallComplete ?s = Ret (e, s')" by blast
  have k: "comp_status_of ?s ''istio'' = Some (zero_comp_status\<lparr>ReconcilingGeneration := 2\<rparr>)"
    by (simp add: comp_status_of_def sample_sys_def sample_cr_def)
  from component_completion_write [OF r _ k] r show ?thesis by auto
qed

lemma all_ready_find:
  assumes "NewContext E cr = Inr eff"
  shows "all_ready E cr cs =
     (case find (\<lambda>c. IsEnabled c eff
          \<and> map_option csState (vzComponents (Status cr) (Name c)) \<noteq> Some CompStateReady) cs of
        None \<Rightarrow> Ret (True, None)
      | Some c \<Rightarrow> if vzComponents (Status cr) (Name c) = None then Panic nil_deref else Ret (False, None))"
  using assms by (induction cs) (auto split: option.splits)

lemma checkInstallComplete_not_ready:
  "checkComponentReadyState E s = Ret ((False, err), s1) \<Longrightarrow>
     checkInstallComplete E s = Ret ((False, err), s1)"
  by (simp add: checkInstallComplete_def)

text \<open>The installation is announced complete only when it is: with a context and details for
  every enabled component, \<open>checkInstallComplete\<close> answers true exactly when every enabled
  component is Ready, and then it has sent one event that makes the resource Ready with
  Install Complete as its newest condition; otherwise nothing is sent.\<close>

lemma install_complete_announced:
  assumes "checkInstallComplete E s = Ret ((done, err), s')" and "NewContext E (CR s) = Inr eff"
  shows "(done \<longleftrightarrow> (\<forall>c \<in> set (GetComponents E). IsEnabled c eff \<longrightarrow>
             map_option csState (comp_status_of s (Name c)) = Some CompStateReady))
     \<and> err = None \<and> CR s' = CR s
     \<and> (if done then \<exists>ev conds. Sent s' = Sent s @ [ev] \<and> evState ev = VzStateReady
             \<and> evConditions ev = Some conds \<and> CondType (last conds) = CondInstallComplete
        else s' = s)"
proof -
  let ?P = "\<lambda>c. IsEnabled c eff \<and> map_option csState (vzComponents (Status (CR s)) (Name c)) \<noteq> Some CompStateReady"
  note find = all_ready_find [OF assms(2), of "GetComponents E"]
  show ?thesis
  proof (cases "find ?P (GetComponents E)")
    case None
    then have all: "\<forall>c \<in> set (GetComponents E). \<not> ?P c" by (auto simp: find_None_iff)
    from None find have "checkComponentReadyState E s = Ret ((True, None), s)"
      by (simp add: checkComponentReadyState_def)
    with assms obtain e2 where d: "done"
      and u: "updateStatus E ''Verrazzano install completed successfully'' CondInstallComplete None s = Ret (e2, s')"
      and e: "err = e2"
      by (auto simp: checkInstallComplete_def op_bind_Ret_iff)
    from u assms(2) obtain info s1 where i: "GetInstanceInfo E eff s = Ret (info, s1)"
      and s': "e2 = None" "s' = send (zero_event\<lparr>evVersion := None,
         evState := conditionToVzState CondInstallComplete,
         evConditions := Some (appendConditionIfNecessary (vzConditions (Status (CR s)))
           (new_condition E s ''Verrazzano install completed successfully'' CondInstallComplete)),
         evInstanceInfo := info\<rparr>) s1"
      by (auto simp: updateStatus_def Let_def op_bind_Ret_iff)
    from GetInstanceInfo_same [OF i] have "Sent s1 = Sent s" "CR s1 = CR s"
      by (simp_all add: same_but_cache_def)
    with all d e s' show ?thesis
      by (auto simp: comp_status_of_def conditionToVzState_def appendConditionIfNecessary.simps new_condition_def)
  next
    case (Some c)
    then have c: "c \<in> set (GetComponents E)" "?P c" by (auto simp: find_Some_iff)
    from Some find assms(1) have "vzComponents (Status (CR s)) (Name c) \<noteq> None"
      by (auto simp: checkInstallComplete_def checkComponentReadyState_def op_bind_def split: if_splits)
    with Some find have "checkComponentReadyState E s = Ret ((False, None), s)"
      by (simp add: checkComponentReadyState_def)
    with assms(1) have "\<not> done" "err = None" "s' = s"
      by (auto simp: checkInstallComplete_def)
    with c show ?thesis by (auto simp: comp_status_of_def)
  qed
qed

lemma install_complete_announced_witness:
  "\<exists>err s'. checkInstallComplete (sample_env [sample_component ''istio''])
      (sample_sys (sample_cr [''istio'' \<mapsto> zero_comp_status\<lparr>csState := CompStateReady\<rparr>])) = Ret ((True, err), s')
    \<and> (\<exists>ev. Sent s' = [ev] \<and> evState ev = VzStateReady)"
proof -
  let ?E = "sample_env [sample_component ''istio'']"
  let ?s = "sample_sys (sample_cr [''istio'' \<mapsto> zero_comp_status\<lparr>csState := CompStateReady\<rparr>])"
  have n: "NewContext ?E (CR ?s) = Inr sample_effective"
    by (rule NewContext_sample) (simp add: sample_sys_def sample_cr_def zero_cr_def)
  have g: "GetComponents ?E = [sample_component ''istio'']"
    by (simp add: GetComponents_def sample_env_def)
  have k: "vzComponents (Status (CR ?s)) ''istio'' = Some (zero_comp_status\<lparr>csState := CompStateReady\<rparr>)"
    "Name (sample_component ''istio'') = ''istio''"
    by (simp_all add: sample_sys_def sample_cr_def sample_component_def)
  have "checkComponentReadyState ?E ?s = Ret ((True, None), ?s)"
    using k by (simp add: checkComponentReadyState_def g n)
  then have "\<exists>err s'. checkInstallComplete ?E ?s = Ret ((True, err), s')"
    by (simp add: checkInstallComplete_def updateStatus_def Let_def n op_bind_def GetInstanceInfo_sample)
  then obtain err s' where r: "checkInstallComplete ?E ?s = Ret ((True, err), s')" by blast
  have "Sent ?s = []" by (simp add: sample_sys_def)
  with install_complete_announced [OF r n] r show ?thesis by auto
qed

end
