(* ===== verification/Health.thy ===== *)
theory Health imports Status_Ops begin

text \<open>
  The asynchronous side of the status (\<open>platform-operator/controllers/verrazzano/healthcheck\<close>):
  the updater that merges events into the stored resource (\<open>status_updater.go\<close>), and the
  availability checker that feeds it (\<open>availability.go\<close>, \<open>health_checker.go\<close>).  The API
  server is reached through \<open>kube\<close>: listing the resources and writing one's status.
\<close>

section \<open>Merging an event\<close>

definition merge_availability :: "availability_status \<Rightarrow> verrazzano \<Rightarrow> verrazzano" where
  "merge_availability a vz = vz\<lparr>Status := (Status vz)
     \<lparr>vzComponents := (\<lambda>c. case vzComponents (Status vz) c of
          None \<Rightarrow> None
        | Some cs \<Rightarrow> (case map_of (avComponents a) c of
              None \<Rightarrow> Some cs
            | Some available \<Rightarrow> Some (cs\<lparr>csAvailable := Some available\<rparr>))),
      vzAvailable := Some (avAvailable a)\<rparr>\<rparr>"

definition merge_status :: "update_event \<Rightarrow> vz_status \<Rightarrow> vz_status" where
  "merge_status u st = st
     \<lparr>vzVersion := (case evVersion u of Some v \<Rightarrow> v | None \<Rightarrow> vzVersion st),
      vzState := (if evState u \<noteq> VzStateEmpty then evState u else vzState st),
      vzConditions := (case evConditions u of Some cs \<Rightarrow> cs | None \<Rightarrow> vzConditions st),
      vzComponents := vzComponents st ++ evComponents u,
      VerrazzanoInstance := (case evInstanceInfo u of Some i \<Rightarrow> Some i | None \<Rightarrow> VerrazzanoInstance st)\<rparr>"

text \<open>\<open>UpdateEvent.merge\<close>; a nil resource is left alone.\<close>

definition merge_event :: "update_event \<Rightarrow> verrazzano \<Rightarrow> verrazzano" where
  "merge_event u vz =
     (let vz1 = vz\<lparr>Status := merge_status u (Status vz)\<rparr>
      in case evAvailability u of None \<Rightarrow> vz1 | Some a \<Rightarrow> merge_availability a vz1)"

definition merge_nil :: "update_event \<Rightarrow> verrazzano option \<Rightarrow> verrazzano option" where
  "merge_nil u vz = map_option (merge_event u) vz"

section \<open>The updater\<close>

record 'k kube =
  ListVerrazzanos :: "'k \<Rightarrow> (go_error + verrazzano list) \<times> 'k"
  StatusUpdate :: "verrazzano option \<Rightarrow> 'k \<Rightarrow> go_error option \<times> 'k"

definition getVerrazzanoResource :: "'k kube \<Rightarrow> 'k \<Rightarrow> (go_error + verrazzano option) \<times> 'k" where
  "getVerrazzanoResource K k = (case ListVerrazzanos K k of
       (Inl err, k') \<Rightarrow> (Inl err, k')
     | (Inr items, k') \<Rightarrow> (Inr (case items of [vz] \<Rightarrow> Some vz | _ \<Rightarrow> None), k'))"

text \<open>One iteration of \<open>doUpdate\<close>: a conflict goes round again.\<close>

definition doUpdate_step :: "'k kube \<Rightarrow> update_event \<Rightarrow> 'k \<Rightarrow> 'k + (go_error option \<times> 'k)" where
  "doUpdate_step K event k = (case getVerrazzanoResource K k of
       (Inl err, k1) \<Rightarrow> Inr (Some err, k1)
     | (Inr vz, k1) \<Rightarrow> (case StatusUpdate K (merge_nil event vz) k1 of
           (None, k2) \<Rightarrow> Inr (None, k2)
         | (Some err, k2) \<Rightarrow> if \<not> IsConflict err then Inr (Some err, k2) else Inl k2))"

definition doUpdate :: "'k kube \<Rightarrow> update_event \<Rightarrow> 'k \<Rightarrow> (go_error option \<times> 'k) option" where
  "doUpdate K event = go_loop (doUpdate_step K event)"

text \<open>The updater's goroutine on the events it takes off the channel, in order.\<close>

fun drain :: "'k kube \<Rightarrow> update_event list \<Rightarrow> 'k \<Rightarrow> 'k option" where
  "drain K [] k = Some k"
| "drain K (e # es) k = (case doUpdate K e k of None \<Rightarrow> None | Some (err, k') \<Rightarrow> drain K es k')"

section \<open>Availability\<close>

definition needsUpdate :: "availability_status \<Rightarrow> bool" where
  "needsUpdate a = (case avVerrazzano a of
       None \<Rightarrow> True
     | Some vz \<Rightarrow>
        list_ex (\<lambda>(component, _). case vzComponents (Status vz) component of
            None \<Rightarrow> False
          | Some cs \<Rightarrow> csAvailable cs \<noteq> Some (the (map_of (avComponents a) component))) (avComponents a)
        \<or> vzAvailable (Status vz) \<noteq> Some (avAvailable a))"

definition IsNonMetricComponent :: "string \<Rightarrow> bool" where
  "IsNonMetricComponent componentName \<longleftrightarrow>
     componentName \<in> set [''verrazzano-monitoring-operator'', ''verrazzano-network-policies'', ''verrazzano-grafana-dashboards'']"

text \<open>The metrics exporter is a parameter: whether setting a metric succeeds.\<close>

record metrics =
  SetComponentAvailabilityMetric :: "string \<Rightarrow> component_availability \<Rightarrow> bool \<Rightarrow> go_error option"
  AvailableGauge :: "go_error option"
  EnabledGauge :: "go_error option"

definition getComponentAvailability ::
  "'w component \<Rightarrow> comp_state \<Rightarrow> ctx \<Rightarrow> 'w \<Rightarrow> component_availability \<times> 'w" where
  "getComponentAvailability component componentState x w =
     (if componentState \<noteq> CompStateReady then (ComponentUnavailable, w)
      else (let ((reason, available), w') = IsAvailable component x w in (available, w')))"

definition put_availability ::
  "string \<Rightarrow> component_availability \<Rightarrow> (string \<times> component_availability) list
    \<Rightarrow> (string \<times> component_availability) list" where
  "put_availability n a m = (n, a) # filter (\<lambda>p. fst p \<noteq> n) m"

text \<open>
  The loop of \<open>newStatus\<close>: \<open>None\<close> is the nil status returned when the resource's details are
  not complete yet; otherwise the enabled and available counts and the component map.
\<close>

fun count_components ::
  "metrics \<Rightarrow> ctx \<Rightarrow> 'w component list \<Rightarrow> nat \<Rightarrow> nat \<Rightarrow> (string \<times> component_availability) list \<Rightarrow> 'w
    \<Rightarrow> (go_error + (nat \<times> nat \<times> (string \<times> component_availability) list) option) \<times> 'w" where
  "count_components M x [] enabled available m w = (Inr (Some (enabled, available, m)), w)"
| "count_components M x (c # cs) enabled available m w =
     (if IsNonMetricComponent (Name c) then count_components M x cs enabled available m w
      else case vzComponents (Status (ActualCR x)) (Name c) of
          None \<Rightarrow> (Inr None, w)
        | Some componentStatus \<Rightarrow>
           (if IsEnabled c (EffectiveCR x)
            then (let (a, w1) = getComponentAvailability c (csState componentStatus) x w;
                      m1 = put_availability (Name c) a m
                  in case SetComponentAvailabilityMetric M (GetJSONName c) a True of
                       Some err \<Rightarrow> (Inl err, w1)
                     | None \<Rightarrow> count_components M x cs (enabled + 1)
                         (if a = ComponentAvailable then available + 1 else available) m1 w1)
            else (let m1 = (if csState componentStatus = CompStateUninstalled
                            then put_availability (Name c) ComponentUnavailable m else m)
                  in case SetComponentAvailabilityMetric M (GetJSONName c) ComponentUnavailable False of
                       Some err \<Rightarrow> (Inl err, w)
                     | None \<Rightarrow> count_components M x cs enabled available m1 w)))"

definition newStatus ::
  "'w env \<Rightarrow> metrics \<Rightarrow> verrazzano \<Rightarrow> 'w component list \<Rightarrow> 'w \<Rightarrow> (go_error + availability_status option) \<times> 'w" where
  "newStatus E M vz components w = (case NewContext E vz of
       Inl err \<Rightarrow> (Inl err, w)
     | Inr eff \<Rightarrow> (case count_components M \<lparr>ActualCR = vz, EffectiveCR = eff\<rparr> components 0 0 [] w of
           (Inl err, w1) \<Rightarrow> (Inl err, w1)
         | (Inr None, w1) \<Rightarrow> (Inr None, w1)
         | (Inr (Some (enabled, available, m)), w1) \<Rightarrow>
             (case AvailableGauge M of
                Some err \<Rightarrow> (Inl err, w1)
              | None \<Rightarrow> (case EnabledGauge M of
                  Some err \<Rightarrow> (Inl err, w1)
                | None \<Rightarrow> (Inr (Some \<lparr>avComponents = m,
                    avAvailable = show_nat available @ ''/'' @ show_nat enabled,
                    avVerrazzano = Some vz\<rparr>), w1)))))"

text \<open>\<open>sendStatus\<close>: the events it puts on the channel.\<close>

definition sendStatus :: "availability_status option \<Rightarrow> update_event list" where
  "sendStatus status = (case status of
       None \<Rightarrow> []
     | Some a \<Rightarrow> if \<not> needsUpdate a then [] else [zero_event\<lparr>evAvailability := Some a\<rparr>])"

definition updateAvailability ::
  "'w kube \<Rightarrow> 'w env \<Rightarrow> metrics \<Rightarrow> 'w component list \<Rightarrow> 'w \<Rightarrow> (go_error + update_event list) \<times> 'w" where
  "updateAvailability K E M components w = (case getVerrazzanoResource K w of
       (Inl err, w1) \<Rightarrow> (Inl err, w1)
     | (Inr None, w1) \<Rightarrow> (Inr [], w1)
     | (Inr (Some vz), w1) \<Rightarrow> (case newStatus E M vz components w1 of
           (Inl err, w2) \<Rightarrow> (Inl err, w2)
         | (Inr status, w2) \<Rightarrow> (Inr (sendStatus status), w2)))"

text \<open>
  Starting and pausing the checker: \<open>shutdown\<close> is the channel (nil when not running), and
  \<open>tickers\<close> the number of goroutines whose channel has not been closed.
\<close>

record checker =
  shutdown_open :: bool
  tickers :: nat

definition StartChecker :: "checker \<Rightarrow> checker" where
  "StartChecker p = (if shutdown_open p then p else p\<lparr>shutdown_open := True, tickers := tickers p + 1\<rparr>)"

definition PauseChecker :: "checker \<Rightarrow> checker" where
  "PauseChecker p = (if shutdown_open p then p\<lparr>shutdown_open := False, tickers := tickers p - 1\<rparr> else p)"

section \<open>Properties\<close>

lemma merge_availability_fix:
  "merge_availability a vz = vz \<longleftrightarrow>
     (\<forall>c cs v. vzComponents (Status vz) c = Some cs \<longrightarrow> map_of (avComponents a) c = Some v
        \<longrightarrow> csAvailable cs = Some v) \<and> vzAvailable (Status vz) = Some (avAvailable a)"
proof -
  let ?f = "\<lambda>c. case vzComponents (Status vz) c of None \<Rightarrow> None
      | Some cs \<Rightarrow> (case map_of (avComponents a) c of None \<Rightarrow> Some cs
          | Some v \<Rightarrow> Some (cs\<lparr>csAvailable := Some v\<rparr>))"
  have self: "cs\<lparr>csAvailable := y\<rparr> = cs \<longleftrightarrow> csAvailable cs = y" for cs :: comp_status and y
    by (cases cs) auto
  have "merge_availability a vz = vz \<longleftrightarrow>
      ?f = vzComponents (Status vz) \<and> vzAvailable (Status vz) = Some (avAvailable a)"
    by (cases vz, cases "Status vz") (auto simp: merge_availability_def)
  also have "?f = vzComponents (Status vz) \<longleftrightarrow>
      (\<forall>c cs v. vzComponents (Status vz) c = Some cs \<longrightarrow> map_of (avComponents a) c = Some v
        \<longrightarrow> csAvailable cs = Some v)"
    unfolding fun_eq_iff
  proof (intro iff_allI)
    fix c
    show "?f c = vzComponents (Status vz) c \<longleftrightarrow>
        (\<forall>cs v. vzComponents (Status vz) c = Some cs \<longrightarrow> map_of (avComponents a) c = Some v
          \<longrightarrow> csAvailable cs = Some v)"
      by (cases "vzComponents (Status vz) c"; cases "map_of (avComponents a) c") (auto simp: self)
  qed
  finally show ?thesis .
qed

text \<open>An availability update is sent exactly when it would change something: the checker
  stays silent if and only if merging its status into the resource it was computed from
  leaves that resource as it is.\<close>

lemma availability_sent_iff_change:
  "sendStatus (Some a) = [] \<longleftrightarrow> (\<exists>vz. avVerrazzano a = Some vz \<and> merge_availability a vz = vz)"
proof (cases "avVerrazzano a")
  case None
  then show ?thesis by (simp add: sendStatus_def needsUpdate_def)
next
  case (Some vz)
  have "list_ex (\<lambda>(component, v). case vzComponents (Status vz) component of
            None \<Rightarrow> False
          | Some cs \<Rightarrow> csAvailable cs \<noteq> Some (the (map_of (avComponents a) component))) (avComponents a)
      \<longleftrightarrow> (\<exists>c cs v. vzComponents (Status vz) c = Some cs \<and> map_of (avComponents a) c = Some v
             \<and> csAvailable cs \<noteq> Some v)" (is "?L \<longleftrightarrow> ?R")
  proof
    assume ?L
    then obtain c v cs where "(c, v) \<in> set (avComponents a)" and cs: "vzComponents (Status vz) c = Some cs"
      and ne: "csAvailable cs \<noteq> Some (the (map_of (avComponents a) c))"
      by (auto simp: list_ex_iff split: option.splits)
    from \<open>(c, v) \<in> set (avComponents a)\<close> have "c \<in> fst ` set (avComponents a)" by force
    then have "map_of (avComponents a) c \<noteq> None" by (simp add: map_of_eq_None_iff)
    then obtain y where "map_of (avComponents a) c = Some y" by blast
    with cs ne show ?R by (intro exI [of _ c] exI [of _ cs] exI [of _ y]) simp
  next
    assume ?R
    then obtain c cs v where c: "vzComponents (Status vz) c = Some cs" "map_of (avComponents a) c = Some v"
      "csAvailable cs \<noteq> Some v" by blast
    then show ?L unfolding list_ex_iff by (intro bexI [of _ "(c, v)"] map_of_SomeD) simp_all
  qed
  with Some show ?thesis
    by (auto simp: sendStatus_def needsUpdate_def merge_availability_fix)
qed

lemma put_availability_count:
  assumes "n \<notin> fst ` set m"
  shows "length (filter (\<lambda>p. snd p = ComponentAvailable) (put_availability n a m))
     = length (filter (\<lambda>p. snd p = ComponentAvailable) m) + (if a = ComponentAvailable then 1 else 0)"
proof -
  have "filter (\<lambda>p. fst p \<noteq> n) m = m" using assms by (intro filter_True) auto
  then show ?thesis by (simp add: put_availability_def)
qed

definition metric_enabled :: "verrazzano \<Rightarrow> 'w component \<Rightarrow> bool" where
  "metric_enabled eff c \<longleftrightarrow> \<not> IsNonMetricComponent (Name c) \<and> IsEnabled c eff"

lemma metric_enabled_Cons:
  "\<not> IsNonMetricComponent (Name c) \<Longrightarrow> IsEnabled c eff \<Longrightarrow> metric_enabled eff c"
  by (simp add: metric_enabled_def)

lemma count_components_spec:
  assumes "count_components M x cs e a m w = (Inr (Some (e', a', m')), w')"
    and "distinct (map Name cs)" and "fst ` set m \<inter> Name ` set cs = {}"
    and "length (filter (\<lambda>p. snd p = ComponentAvailable) m) = a" and "a \<le> e"
  shows "e' = e + length (filter (metric_enabled (EffectiveCR x)) cs)
    \<and> length (filter (\<lambda>p. snd p = ComponentAvailable) m') = a' \<and> a' \<le> e'
    \<and> (\<forall>n. (n, ComponentAvailable) \<in> set m' \<longrightarrow> (n, ComponentAvailable) \<in> set m \<or>
          map_option csState (vzComponents (Status (ActualCR x)) n) = Some CompStateReady)"
  using assms
proof (induction cs arbitrary: e a m w)
  case Nil
  then show ?case by auto
next
  case (Cons c cs)
  let ?st = "vzComponents (Status (ActualCR x)) (Name c)"
  show ?case
  proof (cases "IsNonMetricComponent (Name c)")
    case True
    with Cons.prems show ?thesis
      using Cons.IH [of e a m w] by (auto simp: metric_enabled_def)
  next
    case metric: False
    with Cons.prems(1) obtain st where st: "?st = Some st" by (auto split: option.splits)
    have fresh: "Name c \<notin> fst ` set m" using Cons.prems(3) by auto
    have dis: "fst ` set (put_availability (Name c) v m) \<inter> Name ` set cs = {}" for v
      using Cons.prems(2,3) by (auto simp: put_availability_def)
    have dis0: "fst ` set m \<inter> Name ` set cs = {}" and dn: "distinct (map Name cs)"
      using Cons.prems(2,3) by auto
    show ?thesis
    proof (cases "IsEnabled c (EffectiveCR x)")
      case True
      obtain v w1 where v: "getComponentAvailability c (csState st) x w = (v, w1)" by fastforce
      from Cons.prems(1) metric st True v have
        "count_components M x cs (e + 1) (if v = ComponentAvailable then a + 1 else a)
           (put_availability (Name c) v m) w1 = (Inr (Some (e', a', m')), w')"
        by (auto simp: Let_def split: option.splits)
      note step = this
      have cnt: "length (filter (\<lambda>p. snd p = ComponentAvailable) (put_availability (Name c) v m))
          = (if v = ComponentAvailable then a + 1 else a)"
        using Cons.prems(4) fresh by (simp add: put_availability_count)
      have le: "(if v = ComponentAvailable then a + 1 else a) \<le> e + 1" using Cons.prems(5) by simp
      from Cons.IH [OF step dn dis cnt le] metric_enabled_Cons [OF metric True]
      have ih: "e' = e + length (filter (metric_enabled (EffectiveCR x)) (c # cs))
         \<and> length (filter (\<lambda>p. snd p = ComponentAvailable) m') = a' \<and> a' \<le> e'
         \<and> (\<forall>n. (n, ComponentAvailable) \<in> set m' \<longrightarrow> (n, ComponentAvailable) \<in> set (put_availability (Name c) v m) \<or>
              map_option csState (vzComponents (Status (ActualCR x)) n) = Some CompStateReady)"
        by simp
      have "v = ComponentAvailable \<Longrightarrow> csState st = CompStateReady"
        using v by (auto simp: getComponentAvailability_def split: if_splits)
      with ih st show ?thesis by (auto simp: put_availability_def)
    next
      case False
      let ?m1 = "if csState st = CompStateUninstalled then put_availability (Name c) ComponentUnavailable m else m"
      from Cons.prems(1) metric st False have
        "count_components M x cs e a ?m1 w = (Inr (Some (e', a', m')), w')"
        by (auto simp: Let_def split: option.splits)
      note step = this
      have d1: "fst ` set ?m1 \<inter> Name ` set cs = {}" using dis dis0 by simp
      have cnt: "length (filter (\<lambda>p. snd p = ComponentAvailable) ?m1) = a"
        using Cons.prems(4) fresh by (simp add: put_availability_count)
      have sub: "(n, ComponentAvailable) \<in> set ?m1 \<Longrightarrow> (n, ComponentAvailable) \<in> set m" for n
        by (simp add: put_availability_def split: if_splits)
      have "filter (metric_enabled (EffectiveCR x)) (c # cs) = filter (metric_enabled (EffectiveCR x)) cs"
        using False by (simp add: metric_enabled_def)
      with Cons.IH [OF step dn d1 cnt Cons.prems(5)] sub show ?thesis by metis
    qed
  qed
qed

text \<open>The availability column is truthful: over components with distinct names, the status
  reports \<open>n/e\<close> where \<open>e\<close> is the number of enabled components with a metric, \<open>n\<close> the number
  of components it lists as available and at most \<open>e\<close>, and only components whose details say
  Ready are listed as available.\<close>

lemma availability_counts:
  assumes "newStatus E M vz components w = (Inr (Some a), w')"
    and "NewContext E vz = Inr eff" and "distinct (map Name components)"
  shows "\<exists>n. avAvailable a = show_nat n @ ''/'' @ show_nat (length (filter (metric_enabled eff) components))
    \<and> n = length (filter (\<lambda>p. snd p = ComponentAvailable) (avComponents a))
    \<and> n \<le> length (filter (metric_enabled eff) components)
    \<and> (\<forall>c. (c, ComponentAvailable) \<in> set (avComponents a) \<longrightarrow>
          map_option csState (vzComponents (Status vz) c) = Some CompStateReady)
    \<and> avVerrazzano a = Some vz"
proof -
  from assms(1,2) obtain e n m w1 where
    c: "count_components M \<lparr>ActualCR = vz, EffectiveCR = eff\<rparr> components 0 0 [] w = (Inr (Some (e, n, m)), w1)"
    and a: "a = \<lparr>avComponents = m, avAvailable = show_nat n @ ''/'' @ show_nat e, avVerrazzano = Some vz\<rparr>"
    by (auto simp: newStatus_def split: prod.splits sum.splits option.splits)
  from count_components_spec [OF c assms(3)] a show ?thesis by auto
qed

definition ok_metrics :: metrics where
  "ok_metrics = \<lparr>SetComponentAvailabilityMetric = \<lambda>n a b. None, AvailableGauge = None, EnabledGauge = None\<rparr>"

lemma availability_counts_witness:
  "\<exists>a w'. newStatus (sample_env []) ok_metrics
      (sample_cr [''istio'' \<mapsto> zero_comp_status\<lparr>csState := CompStateReady\<rparr>, ''oam'' \<mapsto> zero_comp_status])
      [sample_component ''istio'', sample_component ''oam''] [] = (Inr (Some a), w')
    \<and> avAvailable a = show_nat 1 @ ''/'' @ show_nat 2"
proof -
  let ?cr = "sample_cr [''istio'' \<mapsto> zero_comp_status\<lparr>csState := CompStateReady\<rparr>, ''oam'' \<mapsto> zero_comp_status]"
  let ?cs = "[sample_component ''istio'', sample_component ''oam'']"
  have n: "NewContext (sample_env []) ?cr = Inr sample_effective"
    by (rule NewContext_sample) (simp add: sample_cr_def zero_cr_def)
  have comp: "Name (sample_component c) = c" "IsEnabled (sample_component c) = (\<lambda>cr. True)"
    "IsAvailable (sample_component c) = (\<lambda>x w. (([], ComponentAvailable), w))" for c
    by (simp_all add: sample_component_def)
  have st: "vzComponents (Status ?cr) = [''istio'' \<mapsto> zero_comp_status\<lparr>csState := CompStateReady\<rparr>,
     ''oam'' \<mapsto> zero_comp_status]"
    by (simp add: sample_cr_def)
  have z: "csState zero_comp_status = CompStateEmpty" by (simp add: zero_comp_status_def)
  have count: "count_components ok_metrics \<lparr>ActualCR = ?cr, EffectiveCR = sample_effective\<rparr> ?cs 0 0 [] [] =
      (Inr (Some (2, 1, [(''oam'', ComponentUnavailable), (''istio'', ComponentAvailable)])), [])"
    by (simp add: comp st ok_metrics_def IsNonMetricComponent_def getComponentAvailability_def
        put_availability_def z)
  then obtain a where r: "newStatus (sample_env []) ok_metrics ?cr ?cs [] = (Inr (Some a), [])"
    and a: "avComponents a = [(''oam'', ComponentUnavailable), (''istio'', ComponentAvailable)]"
    by (simp add: newStatus_def n ok_metrics_def)
  have "length (filter (metric_enabled sample_effective) ?cs) = 2"
    by (simp add: metric_enabled_def comp IsNonMetricComponent_def)
  with availability_counts [OF r n] a r show ?thesis by (simp add: comp)
qed

text \<open>C33. Events lose nothing to each other: on an API server that stores one resource and accepts
  every write, draining the channel leaves the resource with each event merged in the order
  it was sent.\<close>

theorem drain_applies_events:
  assumes "\<And>k. ListVerrazzanos K k = (Inr [stored k], k)"
    and "\<And>k vz. fst (StatusUpdate K (Some vz) k) = None"
    and "\<And>k vz. stored (snd (StatusUpdate K (Some vz) k)) = vz"
  shows "\<exists>k'. drain K es k = Some k' \<and> stored k' = foldl (\<lambda>vz e. merge_event e vz) (stored k) es"
proof (induction es arbitrary: k)
  case Nil
  then show ?case by simp
next
  case (Cons e es)
  obtain k1 where k1: "StatusUpdate K (Some (merge_event e (stored k))) k = (None, k1)"
    using assms(2) [of "merge_event e (stored k)" k] by (cases "StatusUpdate K (Some (merge_event e (stored k))) k") simp
  then have "doUpdate_step K e k = Inr (None, k1)"
    by (simp add: doUpdate_step_def getVerrazzanoResource_def assms(1) merge_nil_def)
  then have "doUpdate K e k = Some (None, k1)"
    by (simp add: doUpdate_def go_loop.simps [of "doUpdate_step K e" k])
  with Cons.IH [of k1] assms(3) [of "merge_event e (stored k)" k] k1 show ?case by simp
qed

definition accepting_server :: "verrazzano kube" where
  "accepting_server = \<lparr>ListVerrazzanos = \<lambda>k. (Inr [k], k),
     StatusUpdate = \<lambda>vz k. (None, case vz of Some v \<Rightarrow> v | None \<Rightarrow> k)\<rparr>"

theorem drain_applies_events_witness:
  "\<exists>k'. drain accepting_server [zero_event\<lparr>evState := VzStateReady\<rparr>, zero_event\<lparr>evVersion := Some ''1''\<rparr>]
        (zero_cr zero_alpha) = Some k'
     \<and> vzState (Status k') = VzStateReady \<and> vzVersion (Status k') = ''1''"
proof -
  have "\<exists>k'. drain accepting_server [zero_event\<lparr>evState := VzStateReady\<rparr>, zero_event\<lparr>evVersion := Some ''1''\<rparr>]
        (zero_cr zero_alpha) = Some k'
     \<and> (\<lambda>k. k) k' = foldl (\<lambda>vz e. merge_event e vz) ((\<lambda>k. k) (zero_cr zero_alpha))
         [zero_event\<lparr>evState := VzStateReady\<rparr>, zero_event\<lparr>evVersion := Some ''1''\<rparr>]"
    by (rule drain_applies_events [where stored = "\<lambda>k. k"]) (simp_all add: accepting_server_def)
  then show ?thesis by (auto simp: merge_event_def merge_status_def zero_event_def)
qed

text \<open>
  What the server does, in its own terms: \<open>n\<close> times over, a resource is read and the write of the event
  merged into it is refused as a conflict.  The update itself is not part of it.
\<close>

fun after_conflicts :: "'k kube \<Rightarrow> update_event \<Rightarrow> nat \<Rightarrow> 'k \<Rightarrow> 'k option" where
  "after_conflicts K e 0 k = Some k"
| "after_conflicts K e (Suc n) k = (case ListVerrazzanos K k of
       (Inr [vz], k1) \<Rightarrow> (case StatusUpdate K (Some (merge_event e vz)) k1 of
           (Some (ConflictErr m), k2) \<Rightarrow> after_conflicts K e n k2
         | _ \<Rightarrow> None)
     | _ \<Rightarrow> None)"

lemma read_one: "ListVerrazzanos K k = (Inr [vz], k1) \<Longrightarrow> getVerrazzanoResource K k = (Inr (Some vz), k1)"
  by (simp add: getVerrazzanoResource_def)

lemma after_conflicts_loop:
  "after_conflicts K e n k = Some k1 \<Longrightarrow> go_loop (doUpdate_step K e) k = go_loop (doUpdate_step K e) k1"
proof (induction n arbitrary: k)
  case (Suc n)
  then obtain vz k2 m k3 where r: "ListVerrazzanos K k = (Inr [vz], k2)"
    "StatusUpdate K (Some (merge_event e vz)) k2 = (Some (ConflictErr m), k3)" "after_conflicts K e n k3 = Some k1"
    by (auto split: prod.splits sum.splits list.splits option.splits go_error.splits)
  have "doUpdate_step K e k = Inl k3" using read_one [OF r(1)] r(2) by (simp add: doUpdate_step_def merge_nil_def IsConflict_def)
  with Suc.IH [OF r(3)] show ?case by (simp add: go_loop.simps [of "doUpdate_step K e" k])
qed simp

lemma doUpdate_steps:
  "after_conflicts K e n k = Some k1 \<Longrightarrow> doUpdate_step K e k1 = Inr r \<Longrightarrow> doUpdate K e k = Some r"
  unfolding doUpdate_def by (simp add: after_conflicts_loop go_loop.simps [of "doUpdate_step K e" k1])

text \<open>C34. Conflicting writers delay an update but never make it overwrite theirs: however many times the
  server refuses a write as a conflict first, the update comes back, with the outcome of the first
  write that is not refused so, and that write is the event merged into the resource as the server
  had it after the last conflict.\<close>

theorem update_retries_conflicts:
  assumes "after_conflicts K e n k = Some k1"
    and "ListVerrazzanos K k1 = (Inr [vz], k2)"
    and "StatusUpdate K (Some (merge_event e vz)) k2 = (err, k3)"
    and "\<not> (\<exists>m. err = Some (ConflictErr m))"
  shows "doUpdate K e k = Some (err, k3)"
proof (rule doUpdate_steps [OF assms(1)])
  show "doUpdate_step K e k1 = Inr (err, k3)"
    using assms(3,4) read_one [OF assms(2)]
    by (auto simp: doUpdate_step_def merge_nil_def IsConflict_def split: option.splits go_error.splits)
qed

text \<open>A server on which another writer gets in twice: the counter is what is left to lose.\<close>

definition contended_server :: "(verrazzano \<times> nat) kube" where
  "contended_server = \<lparr>ListVerrazzanos = \<lambda>(vz, n). (Inr [vz], (vz, n)),
     StatusUpdate = \<lambda>v (vz, n). (case n of
         Suc m \<Rightarrow> (Some (ConflictErr ''modified''), (vz\<lparr>Generation := Generation vz + 1\<rparr>, m))
       | 0 \<Rightarrow> (None, (case v of Some x \<Rightarrow> x | None \<Rightarrow> vz, 0)))\<rparr>"

theorem update_retries_conflicts_witness:
  "\<exists>vz. doUpdate contended_server (zero_event\<lparr>evState := VzStateReady\<rparr>) (zero_cr zero_alpha, 2)
      = Some (None, (vz, 0)) \<and> Generation vz = 2 \<and> vzState (Status vz) = VzStateReady"
proof -
  let ?e = "zero_event\<lparr>evState := VzStateReady\<rparr>"
  let ?vz = "(zero_cr zero_alpha)\<lparr>Generation := 2\<rparr>"
  have a: "after_conflicts contended_server ?e (Suc (Suc 0)) (zero_cr zero_alpha, 2) = Some (?vz, 0)"
    by (simp add: doUpdate_step_def contended_server_def getVerrazzanoResource_def IsConflict_def
        zero_cr_def numeral_2_eq_2)
  have "doUpdate contended_server ?e (zero_cr zero_alpha, 2) = Some (None, (merge_event ?e ?vz, 0))"
    by (rule update_retries_conflicts [OF a, where ?k2.0 = "(?vz, 0)"])
       (simp_all add: contended_server_def getVerrazzanoResource_def)
  then show ?thesis by (simp add: merge_event_def merge_status_def zero_event_def)
qed

end
