(* ===== verification/Uninstall_Component.thy ===== *)
theory Uninstall_Component imports Status_Ops begin

text \<open>
  Uninstalling one component (\<open>reconcile/uninstall_component.go\<close>): the state machine of
  \<open>uninstallSingleComponent\<close> as the step of a loop over the tracker context and the process
  state, and \<open>uninstallComponents\<close>, which runs it for every registered component.
\<close>

section \<open>The state machine\<close>

type_synonym 'w flow_result = "((ctrl_result \<times> go_error option) \<times> tracker_context \<times> 'w sys) res"

definition leave ::
  "ctrl_result \<Rightarrow> go_error option \<Rightarrow> tracker_context \<Rightarrow> 'w sys \<Rightarrow> 'x + 'w flow_result" where
  "leave r err t s = Inr (Ret ((r, err), t, s))"

definition uninstall_step ::
  "'w env \<Rightarrow> verrazzano \<Rightarrow> 'w component \<Rightarrow> bool \<Rightarrow> tracker_context \<times> 'w sys
    \<Rightarrow> (tracker_context \<times> 'w sys) + 'w flow_result" where
  "uninstall_step E eff c rancherProvisioned ts = (case ts of (t, s) \<Rightarrow> (case uninstallState t of
       UnsetUninstallState \<Rightarrow> Inl (t, s)
     | compStateUninstallStart \<Rightarrow>
         (if \<not> IsOperatorUninstallSupported c then Inl (t\<lparr>uninstallState := compStateUninstallEnd\<rparr>, s)
          else if Name c = ''rancher'' \<and> rancherProvisioned
          then Inl (t\<lparr>uninstallState := compStateUninstallEnd\<rparr>, s)
          else (case call_ctx (IsInstalled c) eff s of
              (Inl err, s1) \<Rightarrow> leave no_requeue (Some err) t s1
            | (Inr installed, s1) \<Rightarrow>
                (if \<not> installed then Inl (t\<lparr>uninstallState := compStateUninstallEnd\<rparr>, s1)
                 else on_ret (updateComponentStatus E eff (Name c) ''Uninstall started'' CondUninstallStarted s1)
                   (\<lambda>err s2. case err of
                      Some e \<Rightarrow> leave requeue_now (Some e) t s2
                    | None \<Rightarrow> Inl (t\<lparr>uninstallState := compStatePreUninstall\<rparr>, s2)))))
     | compStatePreUninstall \<Rightarrow> (case call_ctx (PreUninstall c) eff s of
           (Some err, s1) \<Rightarrow> leave no_requeue (Some err) t s1
         | (None, s1) \<Rightarrow> Inl (t\<lparr>uninstallState := compStateUninstall\<rparr>, s1))
     | compStateUninstall \<Rightarrow> (case call_ctx (Uninstall c) eff s of
           (Some err, s1) \<Rightarrow> leave no_requeue (Some err) t s1
         | (None, s1) \<Rightarrow> Inl (t\<lparr>uninstallState := compStateWaitUninstalled\<rparr>, s1))
     | compStateWaitUninstalled \<Rightarrow> (case call_ctx (IsInstalled c) eff s of
           (Inl err, s1) \<Rightarrow> leave (newRequeueWithDelay (IntnRange E)) None t s1
         | (Inr installed, s1) \<Rightarrow>
             (if installed then leave (newRequeueWithDelay (IntnRange E)) None t s1
              else (case call_ctx (PostUninstall c) eff s1 of
                  (Some err, s2) \<Rightarrow> leave (newRequeueWithDelay (IntnRange E)) None t s2
                | (None, s2) \<Rightarrow> Inl (t\<lparr>uninstallState := compStateUninstalleDone\<rparr>, s2))))
     | compStateUninstalleDone \<Rightarrow>
         on_ret (updateComponentStatus E eff (Name c) ''Uninstall complete'' CondUninstallComplete s)
           (\<lambda>err s1. case err of
              Some e \<Rightarrow> leave requeue_now (Some e) t s1
            | None \<Rightarrow> Inl (t\<lparr>uninstallState := compStateUninstallEnd\<rparr>, s1))
     | compStateUninstallEnd \<Rightarrow> leave no_requeue None t s))"

definition uninstallSingleComponent ::
  "'w env \<Rightarrow> verrazzano \<Rightarrow> 'w component \<Rightarrow> tracker_context \<Rightarrow> 'w sys \<Rightarrow> 'w flow_result" where
  "uninstallSingleComponent E eff c t s = (case call_world (IsClusterProvisionedByRancher E) s of
       (Inl err, s1) \<Rightarrow> Ret ((no_requeue, Some err), t, s1)
     | (Inr rancherProvisioned, s1) \<Rightarrow> loop_res (uninstall_step E eff c rancherProvisioned) (t, s1))"

definition new_uninstall_context :: tracker_context where
  "new_uninstall_context = \<lparr>installState = UnsetInstallState, upgradeState = UnsetUpgradeState,
     uninstallState = compStateUninstallStart\<rparr>"

definition getComponentUninstallContext :: "'v tracker \<Rightarrow> string \<Rightarrow> tracker_context" where
  "getComponentUninstallContext vuc compName = (case compMap vuc compName of
       Some context \<Rightarrow> context | None \<Rightarrow> new_uninstall_context)"

text \<open>The tracker holds pointers: what the flow leaves in the context is stored back.\<close>

definition put_context :: "string \<Rightarrow> tracker_context \<Rightarrow> 'v tracker \<Rightarrow> 'v tracker" where
  "put_context n t vuc = vuc\<lparr>compMap := (compMap vuc)(n \<mapsto> t)\<rparr>"

fun uninstall_all ::
  "'w env \<Rightarrow> verrazzano \<Rightarrow> 'w component list \<Rightarrow> bool \<times> 'v tracker \<times> 'w sys \<Rightarrow> (bool \<times> 'v tracker \<times> 'w sys) res" where
  "uninstall_all E eff [] st = Ret st"
| "uninstall_all E eff (c # cs) (requeue, vuc, s) =
     res_bind (uninstallSingleComponent E eff c (getComponentUninstallContext vuc (Name c)) s)
       (\<lambda>((result, err), t, s1).
          uninstall_all E eff cs (requeue \<or> err \<noteq> None \<or> Requeue result, put_context (Name c) t vuc, s1))"

definition uninstallComponents ::
  "'w env \<Rightarrow> 'v tracker \<Rightarrow> 'w sys \<Rightarrow> ((ctrl_result \<times> go_error option) \<times> 'v tracker \<times> 'w sys) res" where
  "uninstallComponents E vuc s = (case NewContext E (CR s) of
       Inl err \<Rightarrow> Ret ((newRequeueWithDelay (IntnRange E), Some err), vuc, s)
     | Inr eff \<Rightarrow> res_bind (uninstall_all E eff (GetComponents E) (False, vuc, s)) (\<lambda>(requeue, vuc1, s1).
         Ret ((if requeue then newRequeueWithDelay (IntnRange E) else no_requeue, None), vuc1, s1)))"

section \<open>The machine as a ranked loop\<close>

fun uninstall_rank :: "componentUninstallState \<Rightarrow> nat" where
  "uninstall_rank UnsetUninstallState = 0"
| "uninstall_rank compStateUninstallEnd = 0"
| "uninstall_rank compStateUninstalleDone = 1"
| "uninstall_rank compStateWaitUninstalled = 2"
| "uninstall_rank compStateUninstall = 3"
| "uninstall_rank compStatePreUninstall = 4"
| "uninstall_rank compStateUninstallStart = 5"

lemma leave_simps [simp]:
  "leave r e t s \<noteq> Inl x" "leave r e t s = Inr y \<longleftrightarrow> y = Ret ((r, e), t, s)"
  by (auto simp: leave_def)

lemma uninstall_step_Inl:
  assumes "uninstall_step E eff c rp (t, s) = Inl (t', s')" "uninstallState t \<noteq> UnsetUninstallState"
  shows "uninstallState t' \<noteq> UnsetUninstallState \<and> uninstall_rank (uninstallState t') < uninstall_rank (uninstallState t)
    \<and> installState t' = installState t \<and> upgradeState t' = upgradeState t"
  using assms
  by (cases "uninstallState t")
     (auto simp: uninstall_step_def on_ret_Inl_iff split: if_splits prod.splits sum.splits option.splits)

interpretation uninst: ranked_res_loop "uninstall_step E eff c rp"
  "\<lambda>(t, s). uninstall_rank (uninstallState t)" "\<lambda>(t, s). uninstallState t \<noteq> UnsetUninstallState"
  for E eff c rp
proof
  fix ts ts' :: "tracker_context \<times> 'a sys"
  assume g: "case ts of (t, s) \<Rightarrow> uninstallState t \<noteq> UnsetUninstallState"
    and st: "uninstall_step E eff c rp ts = Inl ts'"
  from uninstall_step_Inl [of E eff c rp "fst ts" "snd ts" "fst ts'" "snd ts'"] g st
  show "case ts' of (t, s) \<Rightarrow> uninstallState t \<noteq> UnsetUninstallState"
    and "(case ts' of (t, s) \<Rightarrow> uninstall_rank (uninstallState t))
       < (case ts of (t, s) \<Rightarrow> uninstall_rank (uninstallState t))"
    by (auto split: prod.splits)
next
  fix ts :: "tracker_context \<times> 'a sys"
  assume g: "case ts of (t, s) \<Rightarrow> uninstallState t \<noteq> UnsetUninstallState"
  obtain t s where ts: "ts = (t, s)" by fastforce
  show "uninstall_step E eff c rp ts \<noteq> Inr Spin"
    using g unfolding ts uninstall_step_def
    by (cases "uninstallState t")
       (auto simp: on_ret_Inr_iff updateComponentStatus_no_spin split: if_splits prod.splits sum.splits option.splits)
qed

text \<open>What every iteration keeps.\<close>

lemma updateComponentStatus_frame:
  assumes "updateComponentStatus E eff n m ct s = Ret (e, s')"
  shows "cr_frame (CR s) (CR s') \<and> (\<forall>k. k \<noteq> n \<longrightarrow> comp_status_of s' k = comp_status_of s k)
    \<and> ((comp_status_of s' n = None) = (comp_status_of s n = None))"
  using updateComponentStatus_effect(2-4) [OF assms] by auto

lemma call_ctx_status [simp]: "call_ctx f eff s = (r, s') \<Longrightarrow> comp_status_of s' n = comp_status_of s n"
  by (simp add: comp_status_of_def sys_simps)

definition maps_same :: "'w sys \<Rightarrow> 'w sys \<Rightarrow> bool" where
  "maps_same s s' \<longleftrightarrow> installTrackerMap s' = installTrackerMap s
    \<and> upgradeTrackerMap s' = upgradeTrackerMap s \<and> UninstallTrackerMap s' = UninstallTrackerMap s"

definition flow_frame :: "string \<Rightarrow> 'w sys \<Rightarrow> 'w sys \<Rightarrow> bool" where
  "flow_frame n s s' \<longleftrightarrow> cr_frame (CR s) (CR s') \<and> (\<forall>k. k \<noteq> n \<longrightarrow> comp_status_of s' k = comp_status_of s k)
    \<and> ((comp_status_of s' n = None) = (comp_status_of s n = None)) \<and> maps_same s s'"

lemma maps_same_refl [simp]: "maps_same s s"
  by (simp add: maps_same_def)

lemma maps_same_trans: "maps_same a b \<Longrightarrow> maps_same b c \<Longrightarrow> maps_same a c"
  by (simp add: maps_same_def)

lemma flow_frame_refl [simp]: "flow_frame n s s"
  by (simp add: flow_frame_def)

lemma flow_frame_trans: "flow_frame n a b \<Longrightarrow> flow_frame n b c \<Longrightarrow> flow_frame n a c"
  by (auto simp: flow_frame_def intro: cr_frame_trans maps_same_trans)

lemma flow_frame_call: "call_ctx f eff s = (r, s') \<Longrightarrow> flow_frame n s s'"
  by (simp add: flow_frame_def comp_status_of_def maps_same_def sys_simps)

lemma flow_frame_world: "call_world f s = (r, s') \<Longrightarrow> flow_frame n s s'"
  by (simp add: flow_frame_def comp_status_of_def maps_same_def sys_simps)

lemma flow_frame_update: "updateComponentStatus E eff n m ct s = Ret (e, s') \<Longrightarrow> flow_frame n s s'"
  using updateComponentStatus_frame [of E eff n m ct s e s'] updateComponentStatus_effect(5-7) [of E eff n m ct s e s']
  by (simp add: flow_frame_def maps_same_def)

lemmas flow_frames = flow_frame_call flow_frame_update

lemma uninstall_step_frame:
  "uninstall_step E eff c rp (t, s) = Inl (t', s') \<Longrightarrow> flow_frame (Name c) s s'"
  "uninstall_step E eff c rp (t, s) = Inr (Ret (r, t', s')) \<Longrightarrow> flow_frame (Name c) s s'"
  by (cases "uninstallState t";
      auto simp: uninstall_step_def on_ret_Inl_iff on_ret_Inr_iff
        split: if_splits prod.splits sum.splits option.splits
        intro: flow_frames flow_frame_trans)+

section \<open>Properties\<close>

text \<open>
  What holds at every point of a run that entered the machine at its start: \<open>cs0\<close> is what the
  component's details were then.
\<close>

definition uninstall_inv :: "string \<Rightarrow> 'w sys \<Rightarrow> tracker_context \<times> 'w sys \<Rightarrow> bool" where
  "uninstall_inv n s0 ts = (case ts of (t, s) \<Rightarrow> flow_frame n s0 s \<and> (case uninstallState t of
       UnsetUninstallState \<Rightarrow> False
     | compStateUninstallStart \<Rightarrow> comp_status_of s n = comp_status_of s0 n
     | compStateUninstallEnd \<Rightarrow> comp_status_of s n = comp_status_of s0 n
         \<or> map_option csState (comp_status_of s n) = Some CompStateUninstalled
     | _ \<Rightarrow> True))"

lemma updateComponentStatus_state:
  assumes "updateComponentStatus E eff n m ct s = Ret (e, s')" and "comp_status_of s n \<noteq> None"
  shows "map_option csState (comp_status_of s' n) = Some (checkCondtitionType ct)"
proof -
  have v: "csState (with_version v cs) = csState cs" for v cs
    by (simp add: with_version_def split: option.splits)
  from updateComponentStatus_effect(2) [OF assms(1)] assms(2) show ?thesis
    by (auto simp: v new_comp_status_def Let_def)
qed

lemma uninstall_inv_step:
  assumes "uninstall_inv (Name c) s0 (t, s)" and "uninstall_step E eff c rp (t, s) = Inl (t', s')"
  shows "uninstall_inv (Name c) s0 (t', s')"
proof -
  have f: "flow_frame (Name c) s0 s'"
    using assms(1) uninstall_step_frame(1) [OF assms(2)] unfolding uninstall_inv_def
    by (blast intro: flow_frame_trans)
  show ?thesis
  proof (cases "uninstallState t")
    case compStateUninstallStart
    with assms f show ?thesis
      by (auto simp: uninstall_inv_def uninstall_step_def on_ret_Inl_iff
          split: if_splits prod.splits sum.splits option.splits)
  next
    case compStateUninstalleDone
    with assms(2) obtain e where u: "updateComponentStatus E eff (Name c) ''Uninstall complete''
        CondUninstallComplete s = Ret (e, s')" and t': "t' = t\<lparr>uninstallState := compStateUninstallEnd\<rparr>"
      by (auto simp: uninstall_step_def on_ret_Inl_iff split: option.splits)
    have "comp_status_of s' (Name c) = comp_status_of s0 (Name c)
        \<or> map_option csState (comp_status_of s' (Name c)) = Some CompStateUninstalled"
    proof (cases "comp_status_of s (Name c) = None")
      case True
      with u f assms(1) flow_frame_update [OF u] show ?thesis
        by (simp add: flow_frame_def uninstall_inv_def)
    next
      case False
      with updateComponentStatus_state [OF u] show ?thesis by (simp add: checkCondtitionType_def)
    qed
    with f t' show ?thesis by (simp add: uninstall_inv_def)
  qed (use assms f in \<open>auto simp: uninstall_inv_def uninstall_step_def on_ret_Inl_iff
          split: if_splits prod.splits sum.splits option.splits\<close>)
qed

definition uninstall_post :: "string \<Rightarrow> 'w sys \<Rightarrow> 'w flow_result \<Rightarrow> bool" where
  "uninstall_post n s0 res = (case res of
       Spin \<Rightarrow> False
     | Panic m \<Rightarrow> True
     | Ret ((r, err), t', s') \<Rightarrow>
         flow_frame n s0 s' \<and> (uninstallState t' = compStateUninstallEnd \<longleftrightarrow> err = None \<and> \<not> Requeue r)
         \<and> (uninstallState t' = compStateUninstallEnd \<longrightarrow> comp_status_of s' n = comp_status_of s0 n
              \<or> map_option csState (comp_status_of s' n) = Some CompStateUninstalled))"

lemma uninstall_leave:
  assumes "uninstall_inv (Name c) s0 (t, s)" and "uninstall_step E eff c rp (t, s) = Inr (Ret ((r, err), t', s'))"
  shows "t' = t \<and> (uninstallState t = compStateUninstallEnd \<longleftrightarrow> err = None \<and> \<not> Requeue r)
    \<and> (uninstallState t = compStateUninstallEnd \<longrightarrow> s' = s)"
  using assms
  by (cases "uninstallState t")
     (auto simp: uninstall_inv_def uninstall_step_def on_ret_Inr_iff
       split: if_splits prod.splits sum.splits option.splits)

lemma uninstall_inv_leave:
  assumes "uninstall_inv (Name c) s0 (t, s)" and "uninstall_step E eff c rp (t, s) = Inr res"
  shows "uninstall_post (Name c) s0 res"
proof (cases res)
  case (Ret x)
  obtain r err t' s' where x: "x = ((r, err), t', s')" by (cases x) auto
  from uninstall_leave [OF assms(1)] assms(2) Ret x
  have k: "t' = t" "uninstallState t = compStateUninstallEnd \<longleftrightarrow> err = None \<and> \<not> Requeue r"
    "uninstallState t = compStateUninstallEnd \<Longrightarrow> s' = s" by blast+
  have "flow_frame (Name c) s0 s'"
    using assms(1) uninstall_step_frame(2) [of E eff c rp t s "(r, err)"] assms(2) Ret x
    unfolding uninstall_inv_def by (blast intro: flow_frame_trans)
  with k Ret x assms(1) show ?thesis by (auto simp: uninstall_post_def uninstall_inv_def)
next
  case Spin
  have "uninstallState t \<noteq> UnsetUninstallState" using assms(1) by (auto simp: uninstall_inv_def)
  with assms(2) Spin uninst.step_no_spin [of "(t, s)" E eff c rp] show ?thesis by simp
qed (simp add: uninstall_post_def)

text \<open>Uninstalling one component: a call that starts the machine always comes back, with
  "nothing more to do" exactly when the machine has reached its end; at the end the
  component's details are either as they were (nothing was uninstalled) or say Uninstalled;
  and no other component's details and nothing else of the resource has changed.\<close>

lemma uninstall_single_component:
  assumes "uninstallState t = compStateUninstallStart"
  shows "uninstall_post (Name c) s (uninstallSingleComponent E eff c t s)"
proof (cases "call_world (IsClusterProvisionedByRancher E) s")
  case (Pair r s1)
  note fr = flow_frame_world [OF Pair, of "Name c"]
  show ?thesis
  proof (cases r)
    case (Inl err)
    with Pair fr assms show ?thesis by (simp add: uninstallSingleComponent_def uninstall_post_def)
  next
    case (Inr rp)
    have "comp_status_of s1 (Name c) = comp_status_of s (Name c)"
      using Pair by (simp add: comp_status_of_def sys_simps)
    with fr assms have "uninstall_inv (Name c) s (t, s1)" by (simp add: uninstall_inv_def)
    then have "uninstall_post (Name c) s (loop_res (uninstall_step E eff c rp) (t, s1))"
      by (rule uninst.loop_res_rule [where I = "uninstall_inv (Name c) s", rotated])
         (auto simp: assms intro: uninstall_inv_step uninstall_inv_leave)
    with Pair Inr show ?thesis by (simp add: uninstallSingleComponent_def)
  qed
qed

lemma uninstall_step_done:
  assumes "uninstall_step E eff c rp (t, s) = Inr (Ret ((r, err), t', s'))"
    and "uninstallState t \<noteq> UnsetUninstallState"
  shows "t' = t \<and> (err = None \<and> \<not> Requeue r \<longrightarrow> uninstallState t = compStateUninstallEnd)"
  using assms
  by (cases "uninstallState t")
     (auto simp: uninstall_step_def on_ret_Inr_iff split: if_splits prod.splits sum.splits option.splits)

definition uninstall_ran :: "'w flow_result \<Rightarrow> bool" where
  "uninstall_ran res = (case res of
       Spin \<Rightarrow> False
     | Panic m \<Rightarrow> True
     | Ret ((r, err), t', s') \<Rightarrow> uninstallState t' \<noteq> UnsetUninstallState
         \<and> (err = None \<and> \<not> Requeue r \<longrightarrow> uninstallState t' = compStateUninstallEnd))"

lemma uninstall_run:
  assumes "uninstallState t \<noteq> UnsetUninstallState"
  shows "uninstall_ran (uninstallSingleComponent E eff c t s)"
proof (cases "call_world (IsClusterProvisionedByRancher E) s")
  case (Pair r s1)
  show ?thesis
  proof (cases r)
    case (Inl err)
    with Pair assms show ?thesis by (simp add: uninstallSingleComponent_def uninstall_ran_def)
  next
    case (Inr rp)
    have "uninstall_ran (loop_res (uninstall_step E eff c rp) (t, s1))"
    proof (rule uninst.loop_res_rule [where I = "\<lambda>_. True"])
      fix ts :: "tracker_context \<times> 'a sys" and res
      assume g: "case ts of (t, s) \<Rightarrow> uninstallState t \<noteq> UnsetUninstallState"
        and st: "uninstall_step E eff c rp ts = Inr res"
      show "uninstall_ran res"
      proof (cases res)
        case (Ret x)
        obtain r err t' s' where x: "x = ((r, err), t', s')" by (cases x) auto
        obtain t2 s2 where ts: "ts = (t2, s2)" by fastforce
        from uninstall_step_done [of E eff c rp t2 s2 r err t' s'] st g Ret x ts show ?thesis
          by (simp add: uninstall_ran_def)
      next
        case Spin
        with st uninst.step_no_spin [OF g, of E eff c rp] show ?thesis by simp
      qed (simp add: uninstall_ran_def)
    qed (use assms in auto)
    with Pair Inr show ?thesis by (simp add: uninstallSingleComponent_def)
  qed
qed

lemma uninstall_single_frame:
  assumes "uninstallState t \<noteq> UnsetUninstallState"
    and "uninstallSingleComponent E eff c t s = Ret (r, t', s')"
  shows "flow_frame (Name c) s s'"
proof (cases "call_world (IsClusterProvisionedByRancher E) s")
  case (Pair rp s1)
  note f = flow_frame_world [OF Pair, of "Name c"]
  show ?thesis
  proof (cases rp)
    case (Inl err)
    with Pair f assms show ?thesis by (simp add: uninstallSingleComponent_def)
  next
    case (Inr b)
    have "\<forall>r t' s'. loop_res (uninstall_step E eff c b) (t, s1) = Ret (r, t', s') \<longrightarrow> flow_frame (Name c) s s'"
    proof (rule uninst.loop_res_rule [where I = "\<lambda>ts. flow_frame (Name c) s (snd ts)"])
      fix a x :: "tracker_context \<times> 'a sys"
      assume "flow_frame (Name c) s (snd a)" "uninstall_step E eff c b a = Inl x"
      then show "flow_frame (Name c) s (snd x)"
        using uninstall_step_frame(1) [of E eff c b "fst a" "snd a" "fst x" "snd x"]
        by (simp add: flow_frame_trans [of "Name c" s "snd a"])
    next
      fix a :: "tracker_context \<times> 'a sys" and res
      assume "flow_frame (Name c) s (snd a)" "uninstall_step E eff c b a = Inr res"
      then show "\<forall>r t' s'. res = Ret (r, t', s') \<longrightarrow> flow_frame (Name c) s s'"
        using uninstall_step_frame(2) [of E eff c b "fst a" "snd a"]
        by (auto intro: flow_frame_trans [of "Name c" s "snd a"])
    qed (use assms(1) f in auto)
    with Pair Inr assms(2) show ?thesis by (simp add: uninstallSingleComponent_def)
  qed
qed

lemma uninstall_keeps_install:
  assumes "uninstallState t \<noteq> UnsetUninstallState"
    and "uninstallSingleComponent E eff c t s = Ret (r, t', s')"
  shows "installState t' = installState t"
proof (cases "call_world (IsClusterProvisionedByRancher E) s")
  case (Pair rp s1)
  show ?thesis
  proof (cases rp)
    case (Inl err)
    with Pair assms show ?thesis by (simp add: uninstallSingleComponent_def)
  next
    case (Inr b)
    have "\<forall>r t' s'. loop_res (uninstall_step E eff c b) (t, s1) = Ret (r, t', s') \<longrightarrow> installState t' = installState t"
    proof (rule uninst.loop_res_rule [where I = "\<lambda>ts. installState (fst ts) = installState t"])
      fix a x :: "tracker_context \<times> 'a sys"
      assume "case a of (t, s) \<Rightarrow> uninstallState t \<noteq> UnsetUninstallState"
        "installState (fst a) = installState t" "uninstall_step E eff c b a = Inl x"
      then show "installState (fst x) = installState t"
        using uninstall_step_Inl [of E eff c b "fst a" "snd a" "fst x" "snd x"] by (simp split: prod.splits)
    next
      fix a :: "tracker_context \<times> 'a sys" and res
      assume "case a of (t, s) \<Rightarrow> uninstallState t \<noteq> UnsetUninstallState"
        "installState (fst a) = installState t" "uninstall_step E eff c b a = Inr res"
      then show "\<forall>r t' s'. res = Ret (r, t', s') \<longrightarrow> installState t' = installState t"
        using uninstall_step_done [of E eff c b "fst a" "snd a"] by (fastforce split: prod.splits)
    qed (use assms(1) in auto)
    with Pair Inr assms(2) show ?thesis by (simp add: uninstallSingleComponent_def)
  qed
qed

lemma put_context_simps [simp]:
  "compMap (put_context n t vuc) m = (if m = n then Some t else compMap vuc m)"
  "vzFlow (put_context n t vuc) = vzFlow vuc" "gen (put_context n t vuc) = gen vuc"
  by (simp_all add: put_context_def)

definition contexts_ok :: "'v tracker \<Rightarrow> bool" where
  "contexts_ok vuc \<longleftrightarrow> (\<forall>n t. compMap vuc n = Some t \<longrightarrow> uninstallState t \<noteq> UnsetUninstallState)"

lemma getComponentUninstallContext_ok:
  "contexts_ok vuc \<Longrightarrow> uninstallState (getComponentUninstallContext vuc n) \<noteq> UnsetUninstallState"
  by (auto simp: contexts_ok_def getComponentUninstallContext_def new_uninstall_context_def split: option.splits)

lemma uninstall_all_done:
  assumes "uninstall_all E eff cs (b, vuc, s) = Ret (b', vuc', s')" and "contexts_ok vuc"
    and "distinct (map Name cs)"
  shows "contexts_ok vuc' \<and> (b \<longrightarrow> b')
    \<and> (\<forall>n. n \<notin> Name ` set cs \<longrightarrow> compMap vuc' n = compMap vuc n)
    \<and> (\<forall>c \<in> set cs. compMap vuc' (Name c) \<noteq> None)
    \<and> (\<not> b' \<longrightarrow> (\<forall>c \<in> set cs. map_option uninstallState (compMap vuc' (Name c)) = Some compStateUninstallEnd))"
  using assms
proof (induction cs arbitrary: b vuc s)
  case Nil
  then show ?case by simp
next
  case (Cons c cs)
  let ?t = "getComponentUninstallContext vuc (Name c)"
  from Cons.prems(1) obtain r err t s1 where u: "uninstallSingleComponent E eff c ?t s = Ret ((r, err), t, s1)"
    and rest: "uninstall_all E eff cs (b \<or> err \<noteq> None \<or> Requeue r, put_context (Name c) t vuc, s1) = Ret (b', vuc', s')"
    by (auto simp: res_bind_Ret_iff)
  from uninstall_run [OF getComponentUninstallContext_ok [OF Cons.prems(2)], of E eff c "Name c" s] u
  have t: "uninstallState t \<noteq> UnsetUninstallState"
    "err = None \<and> \<not> Requeue r \<longrightarrow> uninstallState t = compStateUninstallEnd"
    by (simp_all add: uninstall_ran_def)
  have ok: "contexts_ok (put_context (Name c) t vuc)"
    using Cons.prems(2) t by (simp add: contexts_ok_def)
  have fresh: "Name c \<notin> Name ` set cs" and dn: "distinct (map Name cs)" using Cons.prems(3) by auto
  from Cons.IH [OF rest ok dn] t fresh show ?case by auto
qed

lemma uninstall_all_no_spin:
  "contexts_ok vuc \<Longrightarrow> uninstall_all E eff cs (b, vuc, s) \<noteq> Spin"
proof (induction cs arbitrary: b vuc s)
  case Nil
  then show ?case by simp
next
  case (Cons c cs)
  let ?t = "getComponentUninstallContext vuc (Name c)"
  from uninstall_run [OF getComponentUninstallContext_ok [OF Cons.prems], of E eff c "Name c" s]
  have ran: "uninstall_ran (uninstallSingleComponent E eff c ?t s)" .
  show ?case
  proof (cases "uninstallSingleComponent E eff c ?t s")
    case (Ret x)
    obtain r err t' s' where x: "x = ((r, err), t', s')" by (cases x) auto
    with ran Ret Cons.prems have "contexts_ok (put_context (Name c) t' vuc)"
      by (simp add: contexts_ok_def uninstall_ran_def)
    with Cons.IH Ret x show ?thesis by simp
  qed (use ran in \<open>auto simp: uninstall_ran_def\<close>)
qed

lemma uninstall_single_component_witness:
  "uninstall_post ''istio''
     (sample_sys (sample_cr [''istio'' \<mapsto> zero_comp_status\<lparr>csState := CompStateReady\<rparr>]))
     (uninstallSingleComponent (sample_env []) sample_effective (sample_component ''istio'')
        new_uninstall_context
        (sample_sys (sample_cr [''istio'' \<mapsto> zero_comp_status\<lparr>csState := CompStateReady\<rparr>])))"
proof -
  have n: "Name (sample_component ''istio'') = ''istio''" by (simp add: sample_component_def)
  show ?thesis
    using uninstall_single_component [of new_uninstall_context "sample_component ''istio''"
        "sample_sys (sample_cr [''istio'' \<mapsto> zero_comp_status\<lparr>csState := CompStateReady\<rparr>])"
        "sample_env []" sample_effective]
    by (simp add: n new_uninstall_context_def)
qed

text \<open>Uninstalling all components: no component waits for another, so after a pass over
  components with distinct names every one of them has been given its turn, and the pass asks
  for no requeue and reports no error only when every component's machine is at its end; a
  pass never hangs.\<close>

lemma uninstall_components_pass:
  assumes "contexts_ok vuc" and "distinct (map Name (GetComponents E))" and "NewContext E (CR s) = Inr eff"
  shows "case uninstallComponents E vuc s of
       Spin \<Rightarrow> False
     | Panic m \<Rightarrow> True
     | Ret ((r, err), vuc', s') \<Rightarrow> err = None
         \<and> (\<forall>c \<in> set (GetComponents E). compMap vuc' (Name c) \<noteq> None)
         \<and> (\<not> Requeue r \<longrightarrow> (\<forall>c \<in> set (GetComponents E).
              map_option uninstallState (compMap vuc' (Name c)) = Some compStateUninstallEnd))"
proof (cases "uninstall_all E eff (GetComponents E) (False, vuc, s)")
  case (Ret x)
  obtain b vuc' s' where x: "x = (b, vuc', s')" by (cases x) auto
  from uninstall_all_done [OF _ assms(1,2)] Ret x assms(3) show ?thesis
    by (fastforce simp: uninstallComponents_def)
next
  case Spin
  with uninstall_all_no_spin [OF assms(1)] show ?thesis by metis
qed (simp add: uninstallComponents_def assms(3))

definition empty_tracker :: "'v \<Rightarrow> 'v tracker" where
  "empty_tracker v = \<lparr>vzFlow = v, gen = 0, compMap = Map.empty\<rparr>"

lemma uninstall_components_pass_witness:
  "case uninstallComponents (sample_env [sample_component ''a'', sample_component ''b''])
       (empty_tracker vzStateUninstallStart) (sample_sys (sample_cr Map.empty)) of
     Spin \<Rightarrow> False
   | Panic m \<Rightarrow> True
   | Ret ((r, err), vuc', s') \<Rightarrow> err = None \<and> compMap vuc' ''a'' \<noteq> None \<and> compMap vuc' ''b'' \<noteq> None"
proof -
  let ?E = "sample_env [sample_component ''a'', sample_component ''b'']"
  let ?s = "sample_sys (sample_cr Map.empty)"
  have c: "contexts_ok (empty_tracker vzStateUninstallStart)"
    by (simp add: contexts_ok_def empty_tracker_def)
  have g: "GetComponents ?E = [sample_component ''a'', sample_component ''b'']"
    by (simp add: GetComponents_def sample_env_def)
  have nm: "Name (sample_component x) = x" for x by (simp add: sample_component_def)
  have d: "distinct (map Name (GetComponents ?E))" by (simp add: g nm)
  have n: "NewContext ?E (CR ?s) = Inr sample_effective"
    by (rule NewContext_sample) (simp add: sample_sys_def sample_cr_def zero_cr_def)
  from uninstall_components_pass [OF c d n] show ?thesis
    by (auto simp: g nm split: res.splits)
qed

end
