(* ===== verification/Install_Component.thy ===== *)
theory Install_Component imports Uninstall_Component begin

text \<open>
  Installing one component (\<open>reconcile/install_component.go\<close>): the state machine of
  \<open>installSingleComponent\<close>, which also reinstalls a component whose configuration changed and
  uninstalls one that was disabled, and \<open>installComponents\<close>, which runs it for every
  registered component.  The component details are read through a pointer that is nil when
  the resource has no entry for the component: each dereference of it is a panic then.
\<close>

section \<open>The decisions\<close>

definition checkConfigUpdated :: "'w sys \<Rightarrow> comp_status \<Rightarrow> bool" where
  "checkConfigUpdated s componentStatus =
     (if ReconcilingGeneration componentStatus > 0
      then Generation (CR s) > ReconcilingGeneration componentStatus
      else csState componentStatus = CompStateReady
           \<and> Generation (CR s) > LastReconciledGeneration componentStatus)"

definition isInstalled :: "vz_status \<Rightarrow> bool" where
  "isInstalled st = list_ex (\<lambda>cond. CondType cond = CondInstallComplete) (vzConditions st)"

definition isVersionOk :: "string \<Rightarrow> string \<Rightarrow> bool" where
  "isVersionOk compVersion vzVer =
     (if length vzVer = 0 then True
      else (case NewSemVersion vzVer of
          Inl err \<Rightarrow> False
        | Inr vzSemver \<Rightarrow> (case NewSemVersion compVersion of
              Inl err \<Rightarrow> False
            | Inr compSemver \<Rightarrow> \<not> IsLessThan vzSemver compSemver)))"

definition chooseCompState :: "comp_status \<Rightarrow> componentInstallState" where
  "chooseCompState componentStatus = (case csState componentStatus of
       CompStateDisabled \<Rightarrow> compStateInstallInitDisabled
     | CompStatePreInstalling \<Rightarrow> compStateWriteInstallStartedStatus
     | CompStateInstalling \<Rightarrow> compStateWriteInstallStartedStatus
     | _ \<Rightarrow> compStateInstallInitReady)"

text \<open>\<open>MonitorOverrides\<close> reads the context the resource is in at that moment.\<close>

definition monitors :: "'w component \<Rightarrow> verrazzano \<Rightarrow> 'w sys \<Rightarrow> bool" where
  "monitors c eff s = MonitorOverrides c \<lparr>ActualCR = CR s, EffectiveCR = eff\<rparr>"

definition restartComponentInstallFromEndState ::
  "verrazzano \<Rightarrow> 'w component \<Rightarrow> comp_status option \<Rightarrow> 'w sys \<Rightarrow> bool res" where
  "restartComponentInstallFromEndState eff c componentStatus s =
     (if vzState (Status (CR s)) = VzStateUpgrading \<or> vzState (Status (CR s)) = VzStatePaused then Ret False
      else (case componentStatus of
          None \<Rightarrow> Panic nil_deref
        | Some cs \<Rightarrow>
           if \<not> checkConfigUpdated s cs \<or> \<not> IsEnabled c eff then Ret False
           else if \<not> monitors c eff s then Ret False
           else Ret True))"

definition isCurrentlyInstalled :: "verrazzano \<Rightarrow> 'w component \<Rightarrow> 'w sys \<Rightarrow> bool \<times> 'w sys" where
  "isCurrentlyInstalled eff c s = (case call_ctx (IsInstalled c) eff s of
       (Inl err, s1) \<Rightarrow> (False, s1)
     | (Inr currentlyInstalled, s1) \<Rightarrow> (currentlyInstalled, s1))"

definition skipComponentFromDetermineComponentState ::
  "verrazzano \<Rightarrow> 'w component \<Rightarrow> bool \<Rightarrow> 'w sys \<Rightarrow> bool \<times> 'w sys" where
  "skipComponentFromDetermineComponentState eff c preUpgrade s =
     (if \<not> IsEnabled c eff
      then (let (installed, s1) = isCurrentlyInstalled eff c s in (\<not> installed, s1))
      else (preUpgrade \<and> \<not> ShouldInstallBeforeUpgrade c, s))"

definition skipComponentFromDisabledState :: "'w component \<Rightarrow> bool \<Rightarrow> 'w sys \<Rightarrow> bool" where
  "skipComponentFromDisabledState c preUpgrade s \<longleftrightarrow>
     \<not> preUpgrade \<and> \<not> isVersionOk (GetMinVerrazzanoVersion c) (vzVersion (Status (CR s)))"

definition skipComponentFromReadyState ::
  "verrazzano \<Rightarrow> 'w component \<Rightarrow> comp_status option \<Rightarrow> 'w sys \<Rightarrow> bool res" where
  "skipComponentFromReadyState eff c componentStatus s =
     (if \<not> isInstalled (Status (CR s)) then Ret True
      else (case componentStatus of
          None \<Rightarrow> Panic nil_deref
        | Some cs \<Rightarrow> if \<not> checkConfigUpdated s cs then Ret True
                     else if \<not> monitors c eff s then Ret True
                     else Ret False))"

text \<open>
  \<open>initComponentStatus\<close> sends details for a component that has none; the resource at hand
  does not get them.
\<close>

definition initComponentStatus :: "verrazzano \<Rightarrow> 'w component \<Rightarrow> 'w sys \<Rightarrow> go_error option \<times> 'w sys" where
  "initComponentStatus eff c s = (case call_ctx (IsInstalled c) eff s of
       (Inl err, s1) \<Rightarrow> (Some err, s1)
     | (Inr installed, s1) \<Rightarrow>
         (None, send (zero_event\<lparr>evComponents := [Name c \<mapsto> zero_comp_status
            \<lparr>csName := Name c,
             csState := (if installed then CompStateReady else CompStateDisabled),
             LastReconciledGeneration := (if installed then Generation (CR s1) else 0)\<rparr>]\<rparr>) s1))"

section \<open>The state machine\<close>

type_synonym 'w install_result = "(ctrl_result \<times> tracker_context \<times> 'w sys) res"

definition ileave :: "ctrl_result \<Rightarrow> tracker_context \<Rightarrow> 'w sys \<Rightarrow> 'x + 'w install_result" where
  "ileave r t s = Inr (Ret (r, t, s))"

abbreviation (input) goto :: "componentInstallState \<Rightarrow> tracker_context \<Rightarrow> 'w sys
    \<Rightarrow> (tracker_context \<times> 'w sys) + 'w install_result" where
  "goto st t s \<equiv> Inl (t\<lparr>installState := st\<rparr>, s)"

text \<open>A component operation that either fails, which is a requeue, or moves on.\<close>

definition run_op ::
  "(ctx \<Rightarrow> 'w \<Rightarrow> go_error option \<times> 'w) \<Rightarrow> verrazzano \<Rightarrow> componentInstallState \<Rightarrow> tracker_context
    \<Rightarrow> 'w sys \<Rightarrow> (tracker_context \<times> 'w sys) + 'w install_result" where
  "run_op f eff next_state t s = (case call_ctx f eff s of
       (Some err, s1) \<Rightarrow> ileave requeue_now t s1
     | (None, s1) \<Rightarrow> goto next_state t s1)"

text \<open>After the loop: start over when the configuration changed in the meantime.\<close>

definition install_finish ::
  "'w env \<Rightarrow> verrazzano \<Rightarrow> 'w component \<Rightarrow> tracker_context \<Rightarrow> 'w sys \<Rightarrow> 'w install_result" where
  "install_finish E eff c t s =
     res_bind (restartComponentInstallFromEndState eff c (comp_status_of s (Name c)) s) (\<lambda>restart.
       if restart
       then res_bind (updateComponentStatus E eff (Name c) ''PreInstall started'' CondPreInstall s)
              (\<lambda>(err, s1). Ret (requeue_now,
                 t\<lparr>installState := compStateInstallInitDetermineComponentState\<rparr>, s1))
       else Ret (no_requeue, t, s))"

definition reset_reconciling :: "string \<Rightarrow> comp_status \<Rightarrow> 'w sys \<Rightarrow> 'w sys" where
  "reset_reconciling n cs s = set_comp_status n (cs\<lparr>ReconcilingGeneration := 0\<rparr>) s"

definition install_step ::
  "'w env \<Rightarrow> verrazzano \<Rightarrow> 'w component \<Rightarrow> bool \<Rightarrow> tracker_context \<times> 'w sys
    \<Rightarrow> (tracker_context \<times> 'w sys) + 'w install_result" where
  "install_step E eff c preUpgrade ts = (case ts of (t, s) \<Rightarrow> (case installState t of
       UnsetInstallState \<Rightarrow> Inl (t, s)
     | compStateInstallInitDetermineComponentState \<Rightarrow>
         (let (skip, s1) = skipComponentFromDetermineComponentState eff c preUpgrade s in
          if skip then goto compStateInstallEnd t s1
          else (case comp_status_of s1 (Name c) of
              None \<Rightarrow> Inr (Panic nil_deref)
            | Some componentStatus \<Rightarrow> goto (chooseCompState componentStatus) t s1))
     | compStateInstallInitDisabled \<Rightarrow>
         (if skipComponentFromDisabledState c preUpgrade s then goto compStateInstallEnd t s
          else goto compStateWriteInstallStartedStatus t s)
     | compStateInstallInitReady \<Rightarrow>
         (case skipComponentFromReadyState eff c (comp_status_of s (Name c)) s of
            Panic m \<Rightarrow> Inr (Panic m)
          | Spin \<Rightarrow> Inr Spin
          | Ret skip \<Rightarrow>
             (if skip then goto compStateInstallEnd t s
              else if \<not> IsEnabled c eff then
                (let (installed, s1) = isCurrentlyInstalled eff c s in
                 if installed then goto compStateInstallUninstall t s1 else goto compStateInstallEnd t s1)
              else goto compStateWriteInstallStartedStatus t s))
     | compStateWriteInstallStartedStatus \<Rightarrow>
         (case comp_status_of s (Name c) of
            None \<Rightarrow> Inr (Panic nil_deref)
          | Some componentStatus \<Rightarrow>
              on_ret (updateComponentStatus E eff (Name c) ''Install started'' CondInstallStarted
                        (reset_reconciling (Name c) componentStatus s))
                (\<lambda>err s1. case err of
                   Some e \<Rightarrow> ileave requeue_now t s1
                 | None \<Rightarrow> goto compStatePreInstall t s1))
     | compStatePreInstall \<Rightarrow>
         (let (met, s1) = ComponentDependenciesMet E c eff s in
          if \<not> met then ileave requeue_now t s1
          else run_op (PreInstall c) eff compStateInstall t s1)
     | compStateInstall \<Rightarrow> run_op (Install c) eff compStateInstallWaitReady t s
     | compStateInstallWaitReady \<Rightarrow>
         (let (ready, s1) = call_ctx (IsReady c) eff s in
          if \<not> ready then ileave requeue_now t s1 else goto compStatePostInstall t s1)
     | compStatePostInstall \<Rightarrow> run_op (PostInstall c) eff compStateInstallComplete t s
     | compStateInstallComplete \<Rightarrow>
         on_ret (updateComponentStatus E eff (Name c) ''Install complete'' CondInstallComplete s)
           (\<lambda>err s1. case err of
              Some e \<Rightarrow> ileave requeue_now t s1
            | None \<Rightarrow> goto compStateInstallEnd t s1)
     | compStateInstallUninstall \<Rightarrow>
         (case uninstallSingleComponent E eff c t s of
            Panic m \<Rightarrow> Inr (Panic m)
          | Spin \<Rightarrow> Inr Spin
          | Ret ((result, err), t1, s1) \<Rightarrow>
              if err \<noteq> None \<or> Requeue result then ileave requeue_now t1 s1
              else goto compStateInstallEnd t1 s1)
     | compStateInstallEnd \<Rightarrow> Inr (install_finish E eff c t s)))"

definition installSingleComponent ::
  "'w env \<Rightarrow> verrazzano \<Rightarrow> tracker_context \<Rightarrow> 'w component \<Rightarrow> bool \<Rightarrow> 'w sys \<Rightarrow> 'w install_result" where
  "installSingleComponent E eff t c preUpgrade s =
     (if comp_status_of s (Name c) = None
      then (case initComponentStatus eff c s of
          (Some err, s1) \<Rightarrow> Ret (newRequeueWithDelay (IntnRange E), t, s1)
        | (None, s1) \<Rightarrow> loop_res (install_step E eff c preUpgrade) (t, s1))
      else loop_res (install_step E eff c preUpgrade) (t, s))"

definition new_install_context :: tracker_context where
  "new_install_context = \<lparr>installState = compStateInstallInitDetermineComponentState,
     upgradeState = UnsetUpgradeState, uninstallState = compStateUninstallStart\<rparr>"

definition getComponentInstallContext :: "'v tracker \<Rightarrow> string \<Rightarrow> tracker_context" where
  "getComponentInstallContext vuc compName = (case compMap vuc compName of
       Some context \<Rightarrow> context | None \<Rightarrow> new_install_context)"

fun install_all ::
  "'w env \<Rightarrow> verrazzano \<Rightarrow> bool \<Rightarrow> 'w component list \<Rightarrow> bool \<times> 'v tracker \<times> 'w sys
    \<Rightarrow> (bool \<times> 'v tracker \<times> 'w sys) res" where
  "install_all E eff preUpgrade [] st = Ret st"
| "install_all E eff preUpgrade (c # cs) (requeue, tr, s) =
     res_bind (installSingleComponent E eff (getComponentInstallContext tr (Name c)) c preUpgrade s)
       (\<lambda>(result, t, s1).
          install_all E eff preUpgrade cs (requeue \<or> Requeue result, put_context (Name c) t tr, s1))"

definition installComponents ::
  "'w env \<Rightarrow> verrazzano \<Rightarrow> 'v tracker \<Rightarrow> bool \<Rightarrow> 'w sys
    \<Rightarrow> ((ctrl_result \<times> go_error option) \<times> 'v tracker \<times> 'w sys) res" where
  "installComponents E eff tr preUpgrade s =
     res_bind (install_all E eff preUpgrade (GetComponents E) (False, tr, s)) (\<lambda>(requeue, tr1, s1).
       Ret ((if requeue then newRequeueWithDelay (IntnRange E) else no_requeue, None), tr1, s1))"

section \<open>The machine as a ranked loop\<close>

fun install_rank :: "componentInstallState \<Rightarrow> nat" where
  "install_rank UnsetInstallState = 0"
| "install_rank compStateInstallEnd = 0"
| "install_rank compStateInstallComplete = 1"
| "install_rank compStateInstallUninstall = 1"
| "install_rank compStatePostInstall = 2"
| "install_rank compStateInstallWaitReady = 3"
| "install_rank compStateInstall = 4"
| "install_rank compStatePreInstall = 5"
| "install_rank compStateWriteInstallStartedStatus = 6"
| "install_rank compStateInstallInitReady = 7"
| "install_rank compStateInstallInitDisabled = 7"
| "install_rank compStateInstallInitDetermineComponentState = 8"

definition install_good :: "tracker_context \<times> 'w sys \<Rightarrow> bool" where
  "install_good ts \<longleftrightarrow> installState (fst ts) \<noteq> UnsetInstallState \<and> uninstallState (fst ts) \<noteq> UnsetUninstallState"

lemma ileave_simps [simp]:
  "ileave r t s \<noteq> Inl x" "ileave r t s = Inr y \<longleftrightarrow> y = Ret (r, t, s)"
  by (auto simp: ileave_def)

lemma chooseCompState_simps [simp]:
  "chooseCompState cs \<noteq> UnsetInstallState" "install_rank (chooseCompState cs) < 8"
  by (simp_all add: chooseCompState_def split: comp_state.splits)

lemma run_op_Inl_iff:
  "run_op f eff st t s = Inl x \<longleftrightarrow> (\<exists>s1. call_ctx f eff s = (None, s1) \<and> x = (t\<lparr>installState := st\<rparr>, s1))"
  by (auto simp: run_op_def split: prod.splits option.splits)

lemma run_op_Inr_iff:
  "run_op f eff st t s = Inr y \<longleftrightarrow> (\<exists>e s1. call_ctx f eff s = (Some e, s1) \<and> y = Ret (requeue_now, t, s1))"
  by (auto simp: run_op_def split: prod.splits option.splits)

lemma skipReady_no_spin: "skipComponentFromReadyState eff c cs s \<noteq> Spin"
  by (simp add: skipComponentFromReadyState_def split: option.splits)

lemma restart_no_spin: "restartComponentInstallFromEndState eff c cs s \<noteq> Spin"
  by (simp add: restartComponentInstallFromEndState_def split: option.splits)

lemma install_finish_no_spin: "install_finish E eff c t s \<noteq> Spin"
  by (auto simp: install_finish_def res_bind_Spin_iff restart_no_spin updateComponentStatus_no_spin)

lemmas install_step_simps = install_step_def on_ret_Inl_iff on_ret_Inr_iff run_op_Inl_iff run_op_Inr_iff Let_def

lemma uninstall_ran_Ret:
  assumes "uninstallSingleComponent E eff c t s = Ret ((r, err), t1, s1)" "uninstallState t \<noteq> UnsetUninstallState"
  shows "uninstallState t1 \<noteq> UnsetUninstallState
    \<and> (err = None \<and> \<not> Requeue r \<longrightarrow> uninstallState t1 = compStateUninstallEnd)"
  using uninstall_run [OF assms(2), of E eff c s] assms(1) by (simp add: uninstall_ran_def)

lemma uninstall_no_spin:
  "uninstallState t \<noteq> UnsetUninstallState \<Longrightarrow> uninstallSingleComponent E eff c t s \<noteq> Spin"
  using uninstall_run [of t E eff c s] by (auto simp: uninstall_ran_def)

lemma install_step_Inl:
  assumes "install_step E eff c pre (t, s) = Inl (t', s')" "install_good (t, s)"
  shows "install_good (t', s') \<and> install_rank (installState t') < install_rank (installState t)"
  using assms
  by (cases "installState t")
     (auto simp: install_good_def install_step_simps split: if_splits prod.splits option.splits res.splits
        dest: uninstall_ran_Ret)

interpretation inst: ranked_res_loop "install_step E eff c pre"
  "\<lambda>ts. install_rank (installState (fst ts))" install_good for E eff c pre
proof
  fix ts ts' :: "tracker_context \<times> 'a sys"
  assume g: "install_good ts" and st: "install_step E eff c pre ts = Inl ts'"
  from install_step_Inl [of E eff c pre "fst ts" "snd ts" "fst ts'" "snd ts'"] g st
  show "install_good ts'" and "install_rank (installState (fst ts')) < install_rank (installState (fst ts))"
    by simp_all
next
  fix ts :: "tracker_context \<times> 'a sys"
  assume g: "install_good ts"
  obtain t s where ts: "ts = (t, s)" by fastforce
  show "install_step E eff c pre ts \<noteq> Inr Spin"
    using g uninstall_no_spin [of t E eff c s] unfolding ts
    by (cases "installState t")
       (auto simp: install_good_def install_step_simps updateComponentStatus_no_spin
          skipReady_no_spin install_finish_no_spin split: if_splits prod.splits option.splits res.splits)
qed

section \<open>Properties\<close>

text \<open>Installing a component never hangs: from any context the trackers create, whatever the
  component's operations answer, the call returns or panics.\<close>

lemma install_single_component_returns:
  assumes "installState t \<noteq> UnsetInstallState" and "uninstallState t \<noteq> UnsetUninstallState"
  shows "installSingleComponent E eff t c pre s \<noteq> Spin"
  using assms inst.loop_never_spins [of "(t, s1)" E eff c pre for s1]
  by (auto simp: installSingleComponent_def install_good_def split: prod.splits option.splits)

lemma install_single_component_returns_witness:
  "installSingleComponent (sample_env []) sample_effective new_install_context (sample_component ''istio'') False
     (sample_sys (sample_cr Map.empty)) \<noteq> Spin"
  by (rule install_single_component_returns) (simp_all add: new_install_context_def)

lemma set_comp_status_flow_frame:
  "comp_status_of s n \<noteq> None \<Longrightarrow> flow_frame n s (set_comp_status n cs s)"
  by (auto simp: flow_frame_def cr_frame_def set_comp_status_def set_status_def comp_status_of_def maps_same_def)

lemma isCurrentlyInstalled_frame:
  "isCurrentlyInstalled eff c s = (r, s') \<Longrightarrow> CR s' = CR s \<and> Sent s' = Sent s"
  by (auto simp: isCurrentlyInstalled_def sys_simps split: prod.splits sum.splits)

lemma CR_same_status: "CR s' = CR s \<Longrightarrow> comp_status_of s' n = comp_status_of s n"
  by (simp add: comp_status_of_def)

lemma skipDetermine_frame:
  "skipComponentFromDetermineComponentState eff c pre s = (r, s') \<Longrightarrow> CR s' = CR s \<and> Sent s' = Sent s"
  by (auto simp: skipComponentFromDetermineComponentState_def Let_def
      split: if_splits prod.splits dest: isCurrentlyInstalled_frame)

text \<open>
  What holds during a run that entered at the start with details \<open>cs0\<close> for an enabled
  component: nothing was written before the write of the started status; from then on the
  component is Installing for the current generation, until the completion write.
\<close>

definition installing :: "string \<Rightarrow> 'w sys \<Rightarrow> 'w sys \<Rightarrow> bool" where
  "installing n s0 s \<longleftrightarrow> (\<exists>cs. comp_status_of s n = Some cs \<and> csState cs = CompStateInstalling
     \<and> ReconcilingGeneration cs = Generation (CR s0))"

definition installed_for :: "string \<Rightarrow> int \<Rightarrow> 'w sys \<Rightarrow> bool" where
  "installed_for n g s \<longleftrightarrow> (\<exists>cs. comp_status_of s n = Some cs \<and> csState cs = CompStateReady
     \<and> ReconcilingGeneration cs = 0 \<and> LastReconciledGeneration cs = g
     \<and> CondType (last (csConditions cs)) = CondInstallComplete)"

definition skip_reason :: "verrazzano \<Rightarrow> 'w component \<Rightarrow> bool \<Rightarrow> 'w sys \<Rightarrow> bool" where
  "skip_reason eff c pre s \<longleftrightarrow> pre \<and> \<not> ShouldInstallBeforeUpgrade c
     \<or> (case comp_status_of s (Name c) of
          None \<Rightarrow> False
        | Some cs \<Rightarrow>
           chooseCompState cs = compStateInstallInitDisabled \<and> skipComponentFromDisabledState c pre s
           \<or> chooseCompState cs = compStateInstallInitReady
              \<and> (\<not> isInstalled (Status (CR s)) \<or> \<not> checkConfigUpdated s cs \<or> \<not> monitors c eff s))"

definition install_inv ::
  "verrazzano \<Rightarrow> 'w component \<Rightarrow> bool \<Rightarrow> 'w sys \<Rightarrow> tracker_context \<times> 'w sys \<Rightarrow> bool" where
  "install_inv eff c pre s0 ts = (case ts of (t, s) \<Rightarrow>
     Generation (CR s) = Generation (CR s0) \<and> comp_status_of s (Name c) \<noteq> None
     \<and> (\<forall>m. m \<noteq> Name c \<longrightarrow> comp_status_of s m = comp_status_of s0 m)
     \<and> (if installState t \<in> {compStateInstallInitDetermineComponentState, compStateInstallInitReady,
              compStateInstallInitDisabled, compStateWriteInstallStartedStatus}
        then CR s = CR s0 \<and> Sent s = Sent s0
          \<and> (installState t \<in> {compStateInstallInitReady, compStateInstallInitDisabled}
              \<longrightarrow> map_option chooseCompState (comp_status_of s0 (Name c)) = Some (installState t))
        else if installState t \<in> {compStatePreInstall, compStateInstall, compStateInstallWaitReady,
              compStatePostInstall, compStateInstallComplete} then installing (Name c) s0 s
        else if installState t = compStateInstallEnd
        then (CR s = CR s0 \<and> Sent s = Sent s0 \<and> skip_reason eff c pre s0)
             \<or> installed_for (Name c) (Generation (CR s0)) s
        else False))"

lemma cr_frame_Generation: "cr_frame (CR s) (CR s') \<Longrightarrow> Generation (CR s') = Generation (CR s)"
  by (rule cr_frame_fields(1))

lemma start_write:
  assumes "updateComponentStatus E eff n m CondInstallStarted (reset_reconciling n cs s) = Ret (e, s')"
  shows "installing n s s' \<and> Generation (CR s') = Generation (CR s) \<and> comp_status_of s' n \<noteq> None
    \<and> (\<forall>k. k \<noteq> n \<longrightarrow> comp_status_of s' k = comp_status_of s k)"
proof -
  let ?s = "reset_reconciling n cs s"
  have g: "Generation (CR ?s) = Generation (CR s)" by (simp add: reset_reconciling_def)
  from updateComponentStatus_effect [OF assms] g have
    "comp_status_of s' n = Some (new_comp_status E ?s n m CondInstallStarted (cs\<lparr>ReconcilingGeneration := 0\<rparr>))"
    "\<forall>k. k \<noteq> n \<longrightarrow> comp_status_of s' k = comp_status_of s k" "Generation (CR s') = Generation (CR s)"
    by (auto simp: reset_reconciling_def with_version_def dest: cr_frame_Generation)
  then show ?thesis
    by (auto simp: installing_def new_comp_status_def Let_def generations_def checkCondtitionType_def
        reset_reconciling_def)
qed

lemma complete_write:
  assumes "updateComponentStatus E eff n m CondInstallComplete s = Ret (e, s')" and "installing n s0 s"
    and "Generation (CR s) = Generation (CR s0)" and "Generation (CR s0) \<ge> 0"
  shows "installed_for n (Generation (CR s0)) s' \<and> Generation (CR s') = Generation (CR s0)
    \<and> comp_status_of s' n \<noteq> None \<and> (\<forall>k. k \<noteq> n \<longrightarrow> comp_status_of s' k = comp_status_of s k)"
proof -
  from assms(2) obtain cs where cs: "comp_status_of s n = Some cs"
    "ReconcilingGeneration cs = Generation (CR s0)" by (auto simp: installing_def)
  have v: "csState (with_version v x) = csState x" "ReconcilingGeneration (with_version v x) = ReconcilingGeneration x"
    "LastReconciledGeneration (with_version v x) = LastReconciledGeneration x"
    "csConditions (with_version v x) = csConditions x" for v x
    by (simp_all add: with_version_def split: option.splits)
  from updateComponentStatus_effect(2) [OF assms(1)] cs(1) have
    "comp_status_of s' n = Some (with_version (BomComponentVersion E n) (new_comp_status E s n m CondInstallComplete cs))"
    by auto
  with cs assms(3,4) have "installed_for n (Generation (CR s0)) s'"
    by (auto simp: installed_for_def v new_comp_status_def Let_def generations_def checkCondtitionType_def
        appendConditionIfNecessary.simps new_condition_def)
  with updateComponentStatus_effect(3,4) [OF assms(1)] assms(3) show ?thesis
    by (auto simp: installed_for_def dest: cr_frame_Generation)
qed

lemma decision_same:
  assumes "CR s' = CR s"
  shows "checkConfigUpdated s' cs = checkConfigUpdated s cs" "monitors c eff s' = monitors c eff s"
    "skipComponentFromDisabledState c pre s' = skipComponentFromDisabledState c pre s"
    "skipComponentFromReadyState eff c x s' = skipComponentFromReadyState eff c x s"
  using assms by (simp_all add: checkConfigUpdated_def monitors_def skipComponentFromDisabledState_def
      skipComponentFromReadyState_def split: option.splits)

lemma installing_same: "CR s' = CR s \<Longrightarrow> installing n s0 s' = installing n s0 s"
  by (simp add: installing_def comp_status_of_def)

lemma install_inv_mid:
  assumes "install_inv eff c pre s0 (t, s)" and "CR s' = CR s"
    and "installState t \<in> {compStatePreInstall, compStateInstall, compStateInstallWaitReady,
              compStatePostInstall, compStateInstallComplete}"
    and "st \<in> {compStatePreInstall, compStateInstall, compStateInstallWaitReady,
              compStatePostInstall, compStateInstallComplete}"
  shows "install_inv eff c pre s0 (t\<lparr>installState := st\<rparr>, s')"
proof -
  from assms(1,3) have "Generation (CR s) = Generation (CR s0)" "comp_status_of s (Name c) \<noteq> None"
    "\<forall>m. m \<noteq> Name c \<longrightarrow> comp_status_of s m = comp_status_of s0 m" "installing (Name c) s0 s"
    by (auto simp: install_inv_def)
  with assms(2,4) show ?thesis
    by (auto simp: install_inv_def installing_same [OF assms(2)] CR_same_status [OF assms(2)])
qed

lemma install_inv_step:
  assumes inv: "install_inv eff c pre s0 (t, s)" and en: "IsEnabled c eff" and g: "Generation (CR s0) \<ge> 0"
    and step: "install_step E eff c pre (t, s) = Inl (t', s')"
  shows "install_inv eff c pre s0 (t', s')"
proof (cases "installState t")
  case compStateInstallInitDetermineComponentState
  with inv step en show ?thesis
    by (auto simp: install_inv_def install_step_simps skipComponentFromDetermineComponentState_def
        skip_reason_def CR_same_status chooseCompState_def comp_status_of_def
        split: if_splits prod.splits option.splits comp_state.splits)
next
  case compStateInstallInitDisabled
  with inv step show ?thesis
    by (auto simp: install_inv_def install_step_simps skip_reason_def decision_same [of s s0]
        split: if_splits option.splits)
next
  case compStateInstallInitReady
  from inv compStateInstallInitReady have k: "CR s = CR s0" "Sent s = Sent s0"
    "map_option chooseCompState (comp_status_of s0 (Name c)) = Some compStateInstallInitReady"
    by (auto simp: install_inv_def)
  then obtain cs where cs: "comp_status_of s (Name c) = Some cs" "comp_status_of s0 (Name c) = Some cs"
    "chooseCompState cs = compStateInstallInitReady" by (auto simp: comp_status_of_def)
  from step compStateInstallInitReady en cs have
    "s' = s \<and> ((t' = t\<lparr>installState := compStateInstallEnd\<rparr> \<and>
        (\<not> isInstalled (Status (CR s)) \<or> \<not> checkConfigUpdated s cs \<or> \<not> monitors c eff s))
      \<or> t' = t\<lparr>installState := compStateWriteInstallStartedStatus\<rparr>)"
    by (auto simp: install_step_simps skipComponentFromReadyState_def split: if_splits res.splits)
  with inv k cs compStateInstallInitReady show ?thesis
    by (auto simp: install_inv_def skip_reason_def decision_same [of s s0])
next
  case compStateWriteInstallStartedStatus
  with inv step obtain cs e m where k: "CR s = CR s0"
    and u: "updateComponentStatus E eff (Name c) m CondInstallStarted (reset_reconciling (Name c) cs s) = Ret (e, s')"
    and t': "t' = t\<lparr>installState := compStatePreInstall\<rparr>"
    by (auto simp: install_inv_def install_step_simps split: option.splits)
  from start_write [OF u] inv k t' show ?thesis
    by (auto simp: install_inv_def installing_def)
next
  case compStatePreInstall
  with step obtain b s1 where d: "ComponentDependenciesMet E c eff s = (b, s1)"
    and r: "call_ctx (PreInstall c) eff s1 = (None, s')" and t': "t' = t\<lparr>installState := compStateInstall\<rparr>"
    by (auto simp: install_step_simps split: if_splits prod.splits)
  have "CR s' = CR s" using ComponentDependenciesMet_frame [OF d] r by (simp add: sys_simps)
  with inv show ?thesis unfolding t' by (rule install_inv_mid) (simp_all add: compStatePreInstall)
next
  case compStateInstall
  with step obtain r: "call_ctx (Install c) eff s = (None, s')" and t': "t' = t\<lparr>installState := compStateInstallWaitReady\<rparr>"
    by (auto simp: install_step_simps)
  from r have "CR s' = CR s" by (simp add: sys_simps)
  with inv show ?thesis unfolding t' by (rule install_inv_mid) (simp_all add: compStateInstall)
next
  case compStateInstallWaitReady
  with step obtain r where r: "call_ctx (IsReady c) eff s = (r, s')" and t': "t' = t\<lparr>installState := compStatePostInstall\<rparr>"
    by (auto simp: install_step_simps split: if_splits prod.splits)
  from r have "CR s' = CR s" by (simp add: sys_simps)
  with inv show ?thesis unfolding t' by (rule install_inv_mid) (simp_all add: compStateInstallWaitReady)
next
  case compStatePostInstall
  with step obtain r: "call_ctx (PostInstall c) eff s = (None, s')" and t': "t' = t\<lparr>installState := compStateInstallComplete\<rparr>"
    by (auto simp: install_step_simps)
  from r have "CR s' = CR s" by (simp add: sys_simps)
  with inv show ?thesis unfolding t' by (rule install_inv_mid) (simp_all add: compStatePostInstall)
next
  case compStateInstallComplete
  with inv step obtain e m where k: "installing (Name c) s0 s" "Generation (CR s) = Generation (CR s0)"
    and u: "updateComponentStatus E eff (Name c) m CondInstallComplete s = Ret (e, s')"
    and t': "t' = t\<lparr>installState := compStateInstallEnd\<rparr>"
    by (auto simp: install_inv_def install_step_simps split: option.splits)
  from complete_write [OF u k(1) k(2) g] inv t' show ?thesis by (auto simp: install_inv_def)
qed (use inv step in \<open>auto simp: install_inv_def install_step_simps\<close>)

definition install_post :: "verrazzano \<Rightarrow> 'w component \<Rightarrow> bool \<Rightarrow> 'w sys \<Rightarrow> 'w install_result \<Rightarrow> bool" where
  "install_post eff c pre s0 res = (case res of
       Ret (r, t', s') \<Rightarrow> \<not> Requeue r \<longrightarrow>
         installState t' = compStateInstallEnd
         \<and> (\<forall>m. m \<noteq> Name c \<longrightarrow> comp_status_of s' m = comp_status_of s0 m)
         \<and> ((CR s' = CR s0 \<and> Sent s' = Sent s0 \<and> skip_reason eff c pre s0)
            \<or> installed_for (Name c) (Generation (CR s0)) s')
     | Panic m \<Rightarrow> True
     | Spin \<Rightarrow> False)"

lemma install_inv_leave:
  assumes inv: "install_inv eff c pre s0 (t, s)" and good: "install_good (t, s)"
    and step: "install_step E eff c pre (t, s) = Inr res"
  shows "install_post eff c pre s0 res"
proof (cases res)
  case Spin
  with inst.step_no_spin [OF good] step show ?thesis by blast
next
  case (Ret x)
  obtain r t' s' where x: "x = (r, t', s')" by (cases x)
  show ?thesis
  proof (cases "installState t = compStateInstallEnd")
    case True
    with step Ret x have f: "install_finish E eff c t s = Ret (r, t', s')" by (simp add: install_step_simps)
    then have "Requeue r \<or> t' = t \<and> s' = s"
      by (auto simp: install_finish_def res_bind_Ret_iff split: if_splits)
    with inv True Ret x show ?thesis by (auto simp: install_post_def install_inv_def)
  next
    case False
    with inv step Ret x have "Requeue r"
      by (cases "installState t")
         (auto simp: install_inv_def install_step_simps split: if_splits prod.splits option.splits res.splits)
    with Ret x show ?thesis by (simp add: install_post_def)
  qed
qed (simp add: install_post_def)

lemma install_run_post:
  assumes "IsEnabled c eff" and "comp_status_of s (Name c) \<noteq> None" and "Generation (CR s) \<ge> 0"
    and "installState t = compStateInstallInitDetermineComponentState"
    and "uninstallState t \<noteq> UnsetUninstallState"
  shows "install_post eff c pre s (installSingleComponent E eff t c pre s)"
proof -
  have good: "install_good (t, s)" using assms(4,5) by (simp add: install_good_def)
  have inv: "install_inv eff c pre s (t, s)" using assms(2,4) by (simp add: install_inv_def)
  have "install_post eff c pre s (loop_res (install_step E eff c pre) (t, s))"
    using good inv
  proof (rule inst.loop_res_rule [where I = "install_inv eff c pre s"])
    fix a b :: "tracker_context \<times> 'a sys"
    assume "install_inv eff c pre s a" "install_step E eff c pre a = Inl b"
    then show "install_inv eff c pre s b"
      using install_inv_step [OF _ assms(1,3), of pre "fst a" "snd a" E "fst b" "snd b"] by simp
  next
    fix a :: "tracker_context \<times> 'a sys" and r
    assume "install_good a" "install_inv eff c pre s a" "install_step E eff c pre a = Inr r"
    then show "install_post eff c pre s r"
      using install_inv_leave [of eff c pre s "fst a" "snd a" E r] by simp
  qed
  with assms(2) show ?thesis by (auto simp: installSingleComponent_def)
qed

text \<open>C3. What a finished installation means: for an enabled component that has details in the
  resource, a run from the start that asks for no requeue has reached the end of the machine;
  either it wrote nothing, and then there was a reason to skip the component, or the component
  is now Ready with Install Complete as its newest condition, nothing is being reconciled, and
  the generation recorded as reconciled is the resource's; the details of every other
  component are as they were.\<close>

theorem install_run_result:
  assumes "IsEnabled c eff" and "comp_status_of s (Name c) \<noteq> None" and "Generation (CR s) \<ge> 0"
    and "installState t = compStateInstallInitDetermineComponentState"
    and "uninstallState t \<noteq> UnsetUninstallState"
  shows "install_post eff c pre s (installSingleComponent E eff t c pre s)"
  by (rule install_run_post [OF assms])

definition istio_installing :: "string list sys" where
  "istio_installing = sample_sys (sample_cr [''istio'' \<mapsto> zero_comp_status\<lparr>csState := CompStateInstalling\<rparr>])"

lemma istio_run:
  "case installSingleComponent (sample_env []) sample_effective new_install_context
       (sample_component ''istio'') False istio_installing of
     Ret (r, t', s') \<Rightarrow> \<not> Requeue r \<and> Sent s' \<noteq> [] \<and> World s' = [''preinstall'', ''install'', ''postinstall'']
   | _ \<Rightarrow> False"
  by code_simp

theorem install_run_result_witness:
  "\<exists>r t' s'. installSingleComponent (sample_env []) sample_effective new_install_context
       (sample_component ''istio'') False istio_installing = Ret (r, t', s') \<and> installed_for ''istio'' 3 s'"
proof -
  let ?run = "installSingleComponent (sample_env []) sample_effective new_install_context
       (sample_component ''istio'') False istio_installing"
  have h: "Name (sample_component ''istio'') = ''istio''" "IsEnabled (sample_component ''istio'') sample_effective"
    "comp_status_of istio_installing ''istio'' \<noteq> None" "Generation (CR istio_installing) = 3" "Sent istio_installing = []"
    by (simp_all add: sample_component_def istio_installing_def sample_sys_def sample_cr_def comp_status_of_def)
  have "install_post sample_effective (sample_component ''istio'') False istio_installing ?run"
    by (rule install_run_result) (use h in \<open>simp_all add: new_install_context_def\<close>)
  with istio_run h show ?thesis by (auto simp: install_post_def split: res.splits)
qed

text \<open>A component without details in the resource crashes the operator: although the code
  looks for the missing entry and sends initial details for it, the pointer it goes on with
  is still nil, and outside an upgrade a fresh run panics whether the component is to be
  installed, skipped or uninstalled.\<close>

lemma install_without_status_panics:
  assumes "comp_status_of s (Name c) = None"
    and "installState t = compStateInstallInitDetermineComponentState"
    and "vzState (Status (CR s)) \<noteq> VzStateUpgrading" and "vzState (Status (CR s)) \<noteq> VzStatePaused"
    and "fst (call_ctx (IsInstalled c) eff s) = Inr installed"
  shows "installSingleComponent E eff t c pre s = Panic nil_deref"
proof -
  obtain s0 where i: "call_ctx (IsInstalled c) eff s = (Inr installed, s0)"
    using assms(5) by (metis prod.collapse)
  then obtain s1 where s1: "initComponentStatus eff c s = (None, s1)" and c1: "CR s1 = CR s"
    by (simp add: initComponentStatus_def sys_simps)
  obtain skip s2 where sk: "skipComponentFromDetermineComponentState eff c pre s1 = (skip, s2)" by fastforce
  have c2: "CR s2 = CR s" using skipDetermine_frame [OF sk] c1 by simp
  have none: "comp_status_of s2 (Name c) = None" using assms(1) by (simp add: comp_status_of_def c2)
  have "loop_res (install_step E eff c pre) (t, s1) = Panic nil_deref"
  proof (cases skip)
    case True
    let ?t = "t\<lparr>installState := compStateInstallEnd\<rparr>"
    have "install_step E eff c pre (t, s1) = Inl (?t, s2)"
      using assms(2) sk True by (simp add: install_step_def)
    moreover have "install_step E eff c pre (?t, s2) = Inr (Panic nil_deref)"
      using assms(3,4) none
      by (simp add: install_step_def install_finish_def restartComponentInstallFromEndState_def c2)
    ultimately show ?thesis by (simp add: loop_res_Inl loop_res_Inr)
  next
    case False
    have "install_step E eff c pre (t, s1) = Inr (Panic nil_deref)"
      using assms(2) sk False none by (simp add: install_step_def)
    then show ?thesis by (simp add: loop_res_Inr)
  qed
  with assms(1) s1 show ?thesis by (simp add: installSingleComponent_def)
qed

lemma install_without_status_panics_witness:
  "installSingleComponent (sample_env []) sample_effective new_install_context (sample_component ''istio'') False
     (sample_sys (sample_cr Map.empty)) = Panic nil_deref"
  by (rule install_without_status_panics [where installed = False])
     (simp_all add: comp_status_of_def sample_sys_def sample_cr_def new_install_context_def
        call_ctx_def sample_component_def)

text \<open>C12. Dependencies gate the pre-installation: a component about to be pre-installed (in the state
  \<open>compStatePreInstall\<close>) with a dependency that is not met is put back on the queue at the same state, with
  nothing done to the cluster, the resource or the channel.  This is the only state that asks for
  the dependencies: a component that is past it, such as one whose \<open>Install\<close> failed and is tried again from
  \<open>compStateInstall\<close>, goes on to be installed and post-installed without asking again.\<close>

theorem install_waits_for_dependencies:
  assumes "pure_probes E" and "cache_ok E s" and "comp_status_of s (Name c) \<noteq> None"
    and "installState t = compStatePreInstall"
    and "d \<in> set (GetDependencies c)" and "\<not> dependency_met E eff s d"
  shows "\<exists>s'. installSingleComponent E eff t c pre s = Ret (requeue_now, t, s')
     \<and> World s' = World s \<and> CR s' = CR s \<and> Sent s' = Sent s"
proof -
  obtain b s' where d: "ComponentDependenciesMet E c eff s = (b, s')" by fastforce
  have "\<not> b" using dependency_check_iff [OF assms(1,2), of c eff] d assms(5,6) by auto
  with d assms(4) have "install_step E eff c pre (t, s) = Inr (Ret (requeue_now, t, s'))"
    by (simp add: install_step_def)
  with assms(3) ComponentDependenciesMet_frame [OF d] ComponentDependenciesMet_world [OF assms(1,2) d]
  show ?thesis by (auto simp: installSingleComponent_def loop_res_Inr)
qed

theorem install_waits_for_dependencies_witness:
  "\<exists>s'. installSingleComponent (sample_env []) sample_effective
       (new_install_context\<lparr>installState := compStatePreInstall\<rparr>)
       ((sample_component ''rancher'')\<lparr>GetDependencies := [''istio'']\<rparr>) False
       (sample_sys (sample_cr [''rancher'' \<mapsto> zero_comp_status])) =
     Ret (requeue_now, new_install_context\<lparr>installState := compStatePreInstall\<rparr>, s') \<and> World s' = []"
proof -
  let ?c = "(sample_component ''rancher'')\<lparr>GetDependencies := [''istio'']\<rparr>"
  let ?s = "sample_sys (sample_cr [''rancher'' \<mapsto> zero_comp_status])"
  have "pure_probes (sample_env [])" "cache_ok (sample_env []) ?s" "World ?s = []"
    "comp_status_of ?s (Name ?c) \<noteq> None" "''istio'' \<in> set (GetDependencies ?c)"
    "\<not> dependency_met (sample_env []) sample_effective ?s ''istio''"
    by (simp_all add: pure_probes_def GetComponents_def sample_env_def cache_ok_def sample_sys_def
        sample_cr_def comp_status_of_def sample_component_def dependency_met_def)
  from install_waits_for_dependencies [OF this(1,2,4) _ this(5,6),
      of "new_install_context\<lparr>installState := compStatePreInstall\<rparr>" False] this(3)
  show ?thesis by auto
qed

definition install_contexts_ok :: "'v tracker \<Rightarrow> bool" where
  "install_contexts_ok tr \<longleftrightarrow> (\<forall>n t. compMap tr n = Some t \<longrightarrow>
     installState t \<noteq> UnsetInstallState \<and> uninstallState t \<noteq> UnsetUninstallState)"

lemma getComponentInstallContext_ok:
  "install_contexts_ok tr \<Longrightarrow> install_good (getComponentInstallContext tr n, s)"
  by (auto simp: install_contexts_ok_def install_good_def getComponentInstallContext_def
      new_install_context_def split: option.splits)

lemma install_step_done:
  assumes "install_good (t, s)" and "install_step E eff c pre (t, s) = Inr (Ret (r, t', s'))"
  shows "install_good (t', s') \<and> (\<not> Requeue r \<longrightarrow> installState t' = compStateInstallEnd)"
  using assms
  by (cases "installState t")
     (auto simp: install_good_def install_step_simps install_finish_def res_bind_Ret_iff
       split: if_splits prod.splits option.splits res.splits dest: uninstall_ran_Ret uninstall_keeps_install)

lemma install_run_done:
  assumes "install_good (t, s)" and "installSingleComponent E eff t c pre s = Ret (r, t', s')"
  shows "install_good (t', s') \<and> (\<not> Requeue r \<longrightarrow> installState t' = compStateInstallEnd)"
proof -
  have *: "install_good (t', s') \<and> (\<not> Requeue r \<longrightarrow> installState t' = compStateInstallEnd)"
    if g: "install_good (t, u)" and run: "loop_res (install_step E eff c pre) (t, u) = Ret (r, t', s')" for u
  proof -
    have "\<forall>r t' s'. loop_res (install_step E eff c pre) (t, u) = Ret (r, t', s') \<longrightarrow>
        install_good (t', s') \<and> (\<not> Requeue r \<longrightarrow> installState t' = compStateInstallEnd)"
      by (rule inst.loop_res_rule [where I = "\<lambda>_. True", OF g])
         (auto dest: install_step_done)
    with run show ?thesis by blast
  qed
  have "install_good (t, u)" for u using assms(1) by (simp add: install_good_def)
  with assms * show ?thesis
    by (auto simp: installSingleComponent_def install_good_def split: if_splits prod.splits option.splits)
qed

lemma install_all_done:
  assumes "install_all E eff pre cs (b, tr, s) = Ret (b', tr', s')" and "install_contexts_ok tr"
    and "distinct (map Name cs)"
  shows "install_contexts_ok tr' \<and> (b \<longrightarrow> b') \<and> vzFlow tr' = vzFlow tr \<and> gen tr' = gen tr
    \<and> (\<forall>n. n \<notin> Name ` set cs \<longrightarrow> compMap tr' n = compMap tr n)
    \<and> (\<forall>c \<in> set cs. compMap tr' (Name c) \<noteq> None)
    \<and> (\<not> b' \<longrightarrow> (\<forall>c \<in> set cs. map_option installState (compMap tr' (Name c)) = Some compStateInstallEnd))"
  using assms
proof (induction cs arbitrary: b tr s)
  case Nil
  then show ?case by simp
next
  case (Cons c cs)
  let ?t = "getComponentInstallContext tr (Name c)"
  from Cons.prems(1) obtain r t s1 where u: "installSingleComponent E eff ?t c pre s = Ret (r, t, s1)"
    and rest: "install_all E eff pre cs (b \<or> Requeue r, put_context (Name c) t tr, s1) = Ret (b', tr', s')"
    by (auto simp: res_bind_Ret_iff)
  from install_run_done [OF getComponentInstallContext_ok [OF Cons.prems(2)] u]
  have t: "install_good (t, s1)" "\<not> Requeue r \<longrightarrow> installState t = compStateInstallEnd" by simp_all
  have ok: "install_contexts_ok (put_context (Name c) t tr)"
    using Cons.prems(2) t(1) by (simp add: install_contexts_ok_def install_good_def)
  have fresh: "Name c \<notin> Name ` set cs" and dn: "distinct (map Name cs)" using Cons.prems(3) by auto
  from Cons.IH [OF rest ok dn] t fresh show ?case by auto
qed

lemma install_all_no_spin:
  "install_contexts_ok tr \<Longrightarrow> install_all E eff pre cs (b, tr, s) \<noteq> Spin"
proof (induction cs arbitrary: b tr s)
  case Nil
  then show ?case by simp
next
  case (Cons c cs)
  let ?t = "getComponentInstallContext tr (Name c)"
  have g: "install_good (?t, s)" by (rule getComponentInstallContext_ok [OF Cons.prems])
  then have ns: "installSingleComponent E eff ?t c pre s \<noteq> Spin"
    using inst.loop_never_spins [of "(?t, u)" E eff c pre for u]
    by (auto simp: installSingleComponent_def install_good_def split: prod.splits option.splits)
  show ?case
  proof (cases "installSingleComponent E eff ?t c pre s")
    case (Ret x)
    obtain r t' s' where x: "x = (r, t', s')" by (cases x)
    from install_run_done [OF g] Ret x have "install_good (t', s')" by blast
    with Cons.prems have "install_contexts_ok (put_context (Name c) t' tr)"
      by (simp add: install_contexts_ok_def install_good_def)
    with Cons.IH Ret x show ?thesis by simp
  qed (use ns in auto)
qed

text \<open>Installing all components: one pass gives every component its turn whatever happens to
  the others, never hangs, and asks for no requeue only when the machine of every component
  is at its end.\<close>

lemma install_components_pass:
  assumes "install_contexts_ok tr" and "distinct (map Name (GetComponents E))"
  shows "case installComponents E eff tr pre s of
       Spin \<Rightarrow> False
     | Panic m \<Rightarrow> True
     | Ret ((r, err), tr', s') \<Rightarrow> err = None
         \<and> (\<forall>c \<in> set (GetComponents E). compMap tr' (Name c) \<noteq> None)
         \<and> (\<not> Requeue r \<longrightarrow> (\<forall>c \<in> set (GetComponents E).
              map_option installState (compMap tr' (Name c)) = Some compStateInstallEnd))"
proof (cases "install_all E eff pre (GetComponents E) (False, tr, s)")
  case (Ret x)
  obtain b tr' s' where x: "x = (b, tr', s')" by (cases x) auto
  from install_all_done [OF _ assms(1,2)] Ret x show ?thesis
    by (fastforce simp: installComponents_def)
next
  case Spin
  with install_all_no_spin [OF assms(1)] show ?thesis by metis
qed (simp add: installComponents_def)

lemma install_components_pass_witness:
  "case installComponents (sample_env [sample_component ''istio'']) sample_effective
       (empty_tracker vzStateInstallComponents) False istio_installing of
     Spin \<Rightarrow> False
   | Panic m \<Rightarrow> True
   | Ret ((r, err), tr', s') \<Rightarrow> err = None \<and> compMap tr' ''istio'' \<noteq> None"
proof -
  let ?E = "sample_env [sample_component ''istio'']"
  have c: "install_contexts_ok (empty_tracker vzStateInstallComponents)"
    by (simp add: install_contexts_ok_def empty_tracker_def)
  have g: "GetComponents ?E = [sample_component ''istio'']" "Name (sample_component ''istio'') = ''istio''"
    by (simp_all add: GetComponents_def sample_env_def sample_component_def)
  have d: "distinct (map Name (GetComponents ?E))" by (simp add: g)
  from install_components_pass [OF c d, of sample_effective False istio_installing] show ?thesis
    by (auto simp: g split: res.splits)
qed

section \<open>What a run leaves alone\<close>

lemma isDependencyReady_maps: "isDependencyReady d eff s = (r, s') \<Longrightarrow> flow_frame n s s'"
  by (auto simp: isDependencyReady_def split: if_splits intro: flow_frame_call)

lemma FindComponent_flow: "FindComponent E d s = (r, s') \<Longrightarrow> flow_frame n s s'"
  by (simp add: flow_frame_def comp_status_of_def maps_same_def sys_simps)

lemma check_dependencies_flow:
  "check_dependencies E c eff ns m s = (r, s') \<Longrightarrow> flow_frame n s s'"
proof (induction ns arbitrary: m s)
  case Nil
  then show ?case by simp
next
  case (Cons d ns)
  show ?case
  proof (cases "Name c = d \<or> map_of m d \<noteq> None")
    case True
    with Cons show ?thesis by (auto split: if_splits)
  next
    case False
    obtain f s1 where f: "FindComponent E d s = (f, s1)" by fastforce
    show ?thesis
    proof (cases f)
      case None
      with False f Cons.prems FindComponent_flow [OF f] show ?thesis by auto
    next
      case (Some dep)
      obtain q s2 where q: "isDependencyReady dep eff s1 = (q, s2)" by fastforce
      from Cons.prems False f Some q have "check_dependencies E c eff ns ((d, q) # m) s2 = (r, s')" by simp
      from Cons.IH [OF this] FindComponent_flow [OF f] isDependencyReady_maps [OF q] show ?thesis
        by (blast intro: flow_frame_trans)
    qed
  qed
qed

lemma ComponentDependenciesMet_flow: "ComponentDependenciesMet E c eff s = (r, s') \<Longrightarrow> flow_frame n s s'"
  by (auto simp: ComponentDependenciesMet_def checkDirectDependenciesReady_def
      split: prod.splits sum.splits if_splits intro: check_dependencies_flow)

lemma isCurrentlyInstalled_flow: "isCurrentlyInstalled eff c s = (r, s') \<Longrightarrow> flow_frame n s s'"
  by (auto simp: isCurrentlyInstalled_def split: prod.splits sum.splits intro: flow_frame_call)

lemma skipDetermine_flow:
  "skipComponentFromDetermineComponentState eff c pre s = (r, s') \<Longrightarrow> flow_frame n s s'"
  by (auto simp: skipComponentFromDetermineComponentState_def Let_def
      split: if_splits prod.splits intro: isCurrentlyInstalled_flow)

lemma start_write_flow:
  assumes "comp_status_of s n = Some cs"
    and "updateComponentStatus E eff n m ct (reset_reconciling n cs s) = Ret (e, s')"
  shows "flow_frame n s s'"
proof -
  have "flow_frame n s (reset_reconciling n cs s)"
    unfolding reset_reconciling_def by (rule set_comp_status_flow_frame) (simp add: assms(1))
  with flow_frame_update [OF assms(2)] show ?thesis by (rule flow_frame_trans [rotated])
qed

lemma install_finish_flow: "install_finish E eff c t s = Ret (r, t', s') \<Longrightarrow> flow_frame (Name c) s s'"
  by (auto simp: install_finish_def res_bind_Ret_iff split: if_splits intro: flow_frame_update)

lemmas install_flows = flow_frame_call flow_frame_update ComponentDependenciesMet_flow
  isCurrentlyInstalled_flow skipDetermine_flow start_write_flow install_finish_flow uninstall_single_frame

lemma run_op_frame:
  "run_op f eff st t s = Inl (t', s') \<Longrightarrow> flow_frame n s s'"
  "run_op f eff st t s = Inr (Ret (r, t', s')) \<Longrightarrow> flow_frame n s s'"
  by (auto simp: run_op_Inl_iff run_op_Inr_iff intro: flow_frame_call)

lemma pre_install_frame:
  assumes "ComponentDependenciesMet E c eff s = (b, s1)" and "flow_frame n s1 s2"
  shows "flow_frame n s s2"
  using assms ComponentDependenciesMet_flow by (blast intro: flow_frame_trans)

lemma install_step_frame:
  assumes "install_good (t, s)"
  shows "install_step E eff c pre (t, s) = Inl (t', s') \<Longrightarrow> flow_frame (Name c) s s'"
    and "install_step E eff c pre (t, s) = Inr (Ret (r, t', s')) \<Longrightarrow> flow_frame (Name c) s s'"
  using assms
  by (cases "installState t";
      auto simp: install_step_def on_ret_Inl_iff on_ret_Inr_iff Let_def install_good_def
        split: if_splits prod.splits option.splits res.splits
        intro: install_flows run_op_frame pre_install_frame)+

lemma install_run_frame:
  assumes "install_good (t, s)" and "installSingleComponent E eff t c pre s = Ret (r, t', s')"
  shows "flow_frame (Name c) s s'"
proof -
  have *: "flow_frame (Name c) s s'" if f: "flow_frame (Name c) s u"
    and run: "loop_res (install_step E eff c pre) (t, u) = Ret (r, t', s')" for u
  proof -
    have "\<forall>r t' s'. loop_res (install_step E eff c pre) (t, u) = Ret (r, t', s') \<longrightarrow> flow_frame (Name c) s s'"
    proof (rule inst.loop_res_rule [where I = "\<lambda>ts. flow_frame (Name c) s (snd ts)"])
      fix a x :: "tracker_context \<times> 'a sys"
      assume "install_good a" "flow_frame (Name c) s (snd a)" "install_step E eff c pre a = Inl x"
      then show "flow_frame (Name c) s (snd x)"
        using install_step_frame(1) [of "fst a" "snd a" E eff c pre "fst x" "snd x"]
        by (simp add: flow_frame_trans [of "Name c" s "snd a"])
    next
      fix a :: "tracker_context \<times> 'a sys" and res
      assume "install_good a" "flow_frame (Name c) s (snd a)" "install_step E eff c pre a = Inr res"
      then show "\<forall>r t' s'. res = Ret (r, t', s') \<longrightarrow> flow_frame (Name c) s s'"
        using install_step_frame(2) [of "fst a" "snd a" E eff c pre]
        by (auto intro: flow_frame_trans [of "Name c" s "snd a"])
    qed (use assms(1) f in \<open>auto simp: install_good_def\<close>)
    with run show ?thesis by blast
  qed
  have init: "flow_frame (Name c) s u" if "initComponentStatus eff c s = (e, u)" for e u
    using that by (auto simp: initComponentStatus_def flow_frame_def comp_status_of_def maps_same_def sys_simps
        split: prod.splits sum.splits)
  show ?thesis
  proof (cases "comp_status_of s (Name c) = None")
    case True
    with assms(2) * init show ?thesis
      by (auto simp: installSingleComponent_def split: prod.splits option.splits)
  next
    case False
    with assms(2) * [of s] show ?thesis by (auto simp: installSingleComponent_def)
  qed
qed

end
