(* ===== verification/Upgrade_Component.thy ===== *)
theory Upgrade_Component imports Uninstall_Component begin

text \<open>
  Upgrading one component (\<open>reconcile/upgrade_component.go\<close>): the state machine of
  \<open>upgradeSingleComponent\<close>, and \<open>upgradeComponents\<close>, which upgrades the registered components
  strictly one after the other; and \<open>resolvePendingUpgrades\<close> (\<open>reconcile/upgrade.go\<close>).
\<close>

section \<open>Pending Helm releases\<close>

text \<open>The label selector: Helm's release secrets of the component that are neither deployed nor superseded.\<close>

definition pending_selector :: "string \<Rightarrow> (string \<Rightarrow> string option) \<Rightarrow> bool" where
  "pending_selector compName labels \<longleftrightarrow> labels ''name'' = Some compName
     \<and> labels ''status'' \<noteq> Some ''deployed'' \<and> labels ''status'' \<noteq> Some ''superseded''"

fun delete_secrets :: "'w env \<Rightarrow> secret list \<Rightarrow> 'w sys \<Rightarrow> 'w sys" where
  "delete_secrets E [] s = s"
| "delete_secrets E (x # xs) s = delete_secrets E xs (snd (call_world (DeleteSecret E x) s))"

definition resolvePendingUpgrades :: "'w env \<Rightarrow> string \<Rightarrow> 'w sys \<Rightarrow> 'w sys" where
  "resolvePendingUpgrades E compName s =
     (case call_world (ListSecrets E (pending_selector compName)) s of
        (Inl err, s1) \<Rightarrow> s1
      | (Inr helmSecrets, s1) \<Rightarrow> delete_secrets E helmSecrets s1)"

section \<open>The state machine\<close>

definition upgrade_step ::
  "'w env \<Rightarrow> verrazzano \<Rightarrow> 'w component \<Rightarrow> tracker_context \<times> 'w sys
    \<Rightarrow> (tracker_context \<times> 'w sys) + 'w flow_result" where
  "upgrade_step E eff c ts = (case ts of (t, s) \<Rightarrow> (case upgradeState t of
       UnsetUpgradeState \<Rightarrow> Inl (t, s)
     | compStateUpgradeInit \<Rightarrow> (case call_ctx (IsInstalled c) eff s of
           (Inl err, s1) \<Rightarrow> leave no_requeue (Some err) t s1
         | (Inr installed, s1) \<Rightarrow>
             (if installed
              then on_ret (updateComponentStatus E eff (Name c) ''Upgrade started'' CondUpgradeStarted s1)
                (\<lambda>err s2. case err of
                   Some e \<Rightarrow> leave requeue_now (Some e) t s2
                 | None \<Rightarrow> Inl (t\<lparr>upgradeState := compStatePreUpgrade\<rparr>, s2))
              else Inl (t\<lparr>upgradeState := compStateUpgradeEnd\<rparr>, s1)))
     | compStatePreUpgrade \<Rightarrow> (case call_ctx (PreUpgrade c) eff s of
           (Some err, s1) \<Rightarrow> leave no_requeue (Some err) t s1
         | (None, s1) \<Rightarrow> Inl (t\<lparr>upgradeState := compStateUpgrade\<rparr>, s1))
     | compStateUpgrade \<Rightarrow> (case call_ctx (Upgrade c) eff s of
           (Some err, s1) \<Rightarrow> leave (NewRequeueWithDelay (IntnRange E) 30 60 nano_second) None t
                               (resolvePendingUpgrades E (Name c) s1)
         | (None, s1) \<Rightarrow> Inl (t\<lparr>upgradeState := compStateUpgradeWaitReady\<rparr>, s1))
     | compStateUpgradeWaitReady \<Rightarrow>
         (let (ready, s1) = call_ctx (IsReady c) eff s in
          if \<not> ready then leave (newRequeueWithDelay (IntnRange E)) None t s1
          else Inl (t\<lparr>upgradeState := compStatePostUpgrade\<rparr>, s1))
     | compStatePostUpgrade \<Rightarrow> (case call_ctx (PostUpgrade c) eff s of
           (Some err, s1) \<Rightarrow> leave no_requeue (Some err) t s1
         | (None, s1) \<Rightarrow> Inl (t\<lparr>upgradeState := compStateUpgradeDone\<rparr>, s1))
     | compStateUpgradeDone \<Rightarrow>
         on_ret (updateComponentStatus E eff (Name c) ''Upgrade complete'' CondUpgradeComplete s)
           (\<lambda>err s1. case err of
              Some e \<Rightarrow> leave requeue_now (Some e) t s1
            | None \<Rightarrow> Inl (t\<lparr>upgradeState := compStateUpgradeEnd\<rparr>, s1))
     | compStateUpgradeEnd \<Rightarrow> leave no_requeue None t s))"

definition upgradeSingleComponent ::
  "'w env \<Rightarrow> verrazzano \<Rightarrow> tracker_context \<Rightarrow> 'w component \<Rightarrow> 'w sys \<Rightarrow> 'w flow_result" where
  "upgradeSingleComponent E eff t c s = loop_res (upgrade_step E eff c) (t, s)"

definition new_upgrade_context :: tracker_context where
  "new_upgrade_context = \<lparr>installState = UnsetInstallState, upgradeState = compStateUpgradeInit,
     uninstallState = UnsetUninstallState\<rparr>"

definition getComponentUpgradeContext :: "'v tracker \<Rightarrow> string \<Rightarrow> tracker_context" where
  "getComponentUpgradeContext vuc compName = (case compMap vuc compName of
       Some context \<Rightarrow> context | None \<Rightarrow> new_upgrade_context)"

fun upgrade_all ::
  "'w env \<Rightarrow> verrazzano \<Rightarrow> 'w component list \<Rightarrow> 'v tracker \<times> 'w sys
    \<Rightarrow> ((ctrl_result \<times> go_error option) \<times> 'v tracker \<times> 'w sys) res" where
  "upgrade_all E eff [] (tr, s) = Ret ((no_requeue, None), tr, s)"
| "upgrade_all E eff (c # cs) (tr, s) =
     res_bind (upgradeSingleComponent E eff (getComponentUpgradeContext tr (Name c)) c s)
       (\<lambda>((result, err), t, s1).
          let tr1 = put_context (Name c) t tr in
          if err \<noteq> None \<or> Requeue result then Ret ((result, err), tr1, s1)
          else upgrade_all E eff cs (tr1, s1))"

definition upgradeComponents ::
  "'w env \<Rightarrow> 'v tracker \<Rightarrow> 'w sys \<Rightarrow> ((ctrl_result \<times> go_error option) \<times> 'v tracker \<times> 'w sys) res" where
  "upgradeComponents E tr s = (case NewContext E (CR s) of
       Inl err \<Rightarrow> Ret ((newRequeueWithDelay (IntnRange E), Some err), tr, s)
     | Inr eff \<Rightarrow> upgrade_all E eff (GetComponents E) (tr, s))"

section \<open>The machine as a ranked loop\<close>

fun upgrade_rank :: "componentUpgradeState \<Rightarrow> nat" where
  "upgrade_rank UnsetUpgradeState = 0"
| "upgrade_rank compStateUpgradeEnd = 0"
| "upgrade_rank compStateUpgradeDone = 1"
| "upgrade_rank compStatePostUpgrade = 2"
| "upgrade_rank compStateUpgradeWaitReady = 3"
| "upgrade_rank compStateUpgrade = 4"
| "upgrade_rank compStatePreUpgrade = 5"
| "upgrade_rank compStateUpgradeInit = 6"

lemmas upgrade_step_simps = upgrade_step_def on_ret_Inl_iff on_ret_Inr_iff Let_def

lemma upgrade_step_Inl:
  assumes "upgrade_step E eff c (t, s) = Inl (t', s')" "upgradeState t \<noteq> UnsetUpgradeState"
  shows "upgradeState t' \<noteq> UnsetUpgradeState \<and> upgrade_rank (upgradeState t') < upgrade_rank (upgradeState t)"
  using assms
  by (cases "upgradeState t")
     (auto simp: upgrade_step_simps split: if_splits prod.splits sum.splits option.splits)

interpretation upgr: ranked_res_loop "upgrade_step E eff c"
  "\<lambda>ts. upgrade_rank (upgradeState (fst ts))" "\<lambda>ts. upgradeState (fst ts) \<noteq> UnsetUpgradeState" for E eff c
proof
  fix ts ts' :: "tracker_context \<times> 'a sys"
  assume g: "upgradeState (fst ts) \<noteq> UnsetUpgradeState" and st: "upgrade_step E eff c ts = Inl ts'"
  from upgrade_step_Inl [of E eff c "fst ts" "snd ts" "fst ts'" "snd ts'"] g st
  show "upgradeState (fst ts') \<noteq> UnsetUpgradeState"
    and "upgrade_rank (upgradeState (fst ts')) < upgrade_rank (upgradeState (fst ts))"
    by simp_all
next
  fix ts :: "tracker_context \<times> 'a sys"
  assume g: "upgradeState (fst ts) \<noteq> UnsetUpgradeState"
  obtain t s where ts: "ts = (t, s)" by fastforce
  show "upgrade_step E eff c ts \<noteq> Inr Spin"
    using g unfolding ts
    by (cases "upgradeState t")
       (auto simp: upgrade_step_simps updateComponentStatus_no_spin split: if_splits prod.splits sum.splits option.splits)
qed

section \<open>Properties\<close>

lemma upgrade_step_done:
  assumes "upgrade_step E eff c (t, s) = Inr (Ret ((r, err), t', s'))" "upgradeState t \<noteq> UnsetUpgradeState"
  shows "t' = t \<and> (upgradeState t = compStateUpgradeEnd \<longleftrightarrow> err = None \<and> \<not> Requeue r)
    \<and> (upgradeState t = compStateUpgradeEnd \<longrightarrow> s' = s)"
  using assms
  by (cases "upgradeState t")
     (auto simp: upgrade_step_simps split: if_splits prod.splits sum.splits option.splits)

lemma call_world_upd_frame: "CR (snd (call_world f s)) = CR s"
  by (cases "call_world f s") (simp add: sys_simps)

lemma delete_secrets_CR [simp]: "CR (delete_secrets E xs s) = CR s"
  by (induction xs arbitrary: s) (simp_all add: call_world_upd_frame)

lemma resolvePendingUpgrades_CR [simp]: "CR (resolvePendingUpgrades E n s) = CR s"
  by (auto simp: resolvePendingUpgrades_def sys_simps split: prod.splits sum.splits)

text \<open>
  During a run from the start: \<open>cs0\<close> are the component's details then.  Once the upgrade has
  begun they say Upgrading, and at the end Ready, unless there was nothing to upgrade.
\<close>

definition upgrading :: "string \<Rightarrow> 'w sys \<Rightarrow> bool" where
  "upgrading n s \<longleftrightarrow> map_option csState (comp_status_of s n) = Some CompStateUpgrading"

definition upgrade_inv :: "string \<Rightarrow> 'w sys \<Rightarrow> tracker_context \<times> 'w sys \<Rightarrow> bool" where
  "upgrade_inv n s0 ts = (case ts of (t, s) \<Rightarrow> comp_status_of s n \<noteq> None \<and> (case upgradeState t of
       UnsetUpgradeState \<Rightarrow> False
     | compStateUpgradeInit \<Rightarrow> CR s = CR s0
     | compStateUpgradeEnd \<Rightarrow> CR s = CR s0 \<or> map_option csState (comp_status_of s n) = Some CompStateReady
     | _ \<Rightarrow> upgrading n s))"

lemma upgrading_same: "CR s' = CR s \<Longrightarrow> upgrading n s' = upgrading n s"
  by (simp add: upgrading_def comp_status_of_def)

lemma update_keeps_entry:
  "updateComponentStatus E eff n m ct s = Ret (e, s') \<Longrightarrow> (comp_status_of s' n = None) = (comp_status_of s n = None)"
  using updateComponentStatus_frame by blast

lemma upgrade_inv_step:
  assumes inv: "upgrade_inv (Name c) s0 (t, s)" and step: "upgrade_step E eff c (t, s) = Inl (t', s')"
  shows "upgrade_inv (Name c) s0 (t', s')"
proof (cases "upgradeState t")
  case compStateUpgradeInit
  with inv have k: "CR s = CR s0" "comp_status_of s (Name c) \<noteq> None" by (auto simp: upgrade_inv_def)
  from step compStateUpgradeInit obtain b s1 where i: "call_ctx (IsInstalled c) eff s = (Inr b, s1)"
    and d: "(\<not> b \<and> t' = t\<lparr>upgradeState := compStateUpgradeEnd\<rparr> \<and> s' = s1) \<or>
      (b \<and> t' = t\<lparr>upgradeState := compStatePreUpgrade\<rparr>
        \<and> updateComponentStatus E eff (Name c) ''Upgrade started'' CondUpgradeStarted s1 = Ret (None, s'))"
    by (auto simp: upgrade_step_simps split: if_splits prod.splits sum.splits option.splits)
  from i have c: "CR s1 = CR s" by (simp add: sys_simps)
  from d show ?thesis
  proof (elim disjE conjE)
    assume "t' = t\<lparr>upgradeState := compStateUpgradeEnd\<rparr>" "s' = s1"
    with k c show ?thesis by (simp add: upgrade_inv_def comp_status_of_def)
  next
    assume t': "t' = t\<lparr>upgradeState := compStatePreUpgrade\<rparr>"
      and u: "updateComponentStatus E eff (Name c) ''Upgrade started'' CondUpgradeStarted s1 = Ret (None, s')"
    from k c have "comp_status_of s1 (Name c) \<noteq> None" by (simp add: comp_status_of_def)
    with updateComponentStatus_state [OF u] t' update_keeps_entry [OF u] show ?thesis
      by (simp add: upgrade_inv_def upgrading_def checkCondtitionType_def)
  qed
next
  case compStateUpgradeDone
  with inv step obtain e where n: "comp_status_of s (Name c) \<noteq> None"
    and u: "updateComponentStatus E eff (Name c) ''Upgrade complete'' CondUpgradeComplete s = Ret (e, s')"
    and t': "t' = t\<lparr>upgradeState := compStateUpgradeEnd\<rparr>"
    by (auto simp: upgrade_inv_def upgrade_step_simps split: option.splits)
  from updateComponentStatus_state [OF u n] t' update_keeps_entry [OF u] n show ?thesis
    by (simp add: upgrade_inv_def checkCondtitionType_def)
qed (use inv step in \<open>auto simp: upgrade_inv_def upgrade_step_simps upgrading_def
        split: if_splits prod.splits sum.splits option.splits\<close>)

definition upgrade_post :: "string \<Rightarrow> 'w sys \<Rightarrow> 'w flow_result \<Rightarrow> bool" where
  "upgrade_post n s0 res = (case res of
       Spin \<Rightarrow> False
     | Panic m \<Rightarrow> True
     | Ret ((r, err), t', s') \<Rightarrow>
         (upgradeState t' = compStateUpgradeEnd \<longleftrightarrow> err = None \<and> \<not> Requeue r)
         \<and> (upgradeState t' = compStateUpgradeEnd \<longrightarrow>
              CR s' = CR s0 \<or> map_option csState (comp_status_of s' n) = Some CompStateReady))"

text \<open>Upgrading one component: a run from the start of a component with details always comes
  back; it reports "done" exactly when its machine is at the end, and then the component was
  not installed and nothing was written, or its details say Ready.\<close>

lemma upgrade_single_component:
  assumes "upgradeState t = compStateUpgradeInit" and "comp_status_of s (Name c) \<noteq> None"
  shows "upgrade_post (Name c) s (upgradeSingleComponent E eff t c s)"
  unfolding upgradeSingleComponent_def
proof (rule upgr.loop_res_rule [where I = "upgrade_inv (Name c) s"])
  show "upgradeState (fst (t, s)) \<noteq> UnsetUpgradeState" using assms(1) by simp
  show "upgrade_inv (Name c) s (t, s)" using assms by (simp add: upgrade_inv_def)
next
  fix a b :: "tracker_context \<times> 'a sys"
  assume "upgrade_inv (Name c) s a" "upgrade_step E eff c a = Inl b"
  then show "upgrade_inv (Name c) s b"
    using upgrade_inv_step [of c s "fst a" "snd a" E eff "fst b" "snd b"] by simp
next
  fix a :: "tracker_context \<times> 'a sys" and res
  assume g: "upgradeState (fst a) \<noteq> UnsetUpgradeState" and i: "upgrade_inv (Name c) s a"
    and st: "upgrade_step E eff c a = Inr res"
  show "upgrade_post (Name c) s res"
  proof (cases res)
    case (Ret x)
    obtain r err t' s' where x: "x = ((r, err), t', s')" by (cases x) auto
    from upgrade_step_done [of E eff c "fst a" "snd a" r err t' s'] g st Ret x
    have "t' = fst a \<and> (upgradeState t' = compStateUpgradeEnd \<longleftrightarrow> err = None \<and> \<not> Requeue r)
      \<and> (upgradeState t' = compStateUpgradeEnd \<longrightarrow> s' = snd a)" by simp
    with i Ret x show ?thesis by (auto simp: upgrade_post_def upgrade_inv_def split: prod.splits)
  next
    case Spin
    with st upgr.step_no_spin [OF g] show ?thesis by metis
  qed (simp add: upgrade_post_def)
qed

definition istio_ready :: "string list sys" where
  "istio_ready = (sample_sys (sample_cr [''istio'' \<mapsto> zero_comp_status\<lparr>csState := CompStateReady\<rparr>]))
     \<lparr>World := [''install'']\<rparr>"

lemma istio_upgrade:
  "case upgradeSingleComponent (sample_env []) sample_effective new_upgrade_context (sample_component ''istio'') istio_ready of
     Ret ((r, err), t', s') \<Rightarrow> \<not> Requeue r \<and> err = None \<and> World s' = [''install'', ''preupgrade'', ''upgrade'', ''postupgrade'']
   | _ \<Rightarrow> False"
  by code_simp

lemma upgrade_single_component_witness:
  "\<exists>r t' s'. upgradeSingleComponent (sample_env []) sample_effective new_upgrade_context
       (sample_component ''istio'') istio_ready = Ret ((r, None), t', s') \<and> upgradeState t' = compStateUpgradeEnd"
proof -
  have n: "Name (sample_component ''istio'') = ''istio''" by (simp add: sample_component_def)
  have "upgrade_post (Name (sample_component ''istio'')) istio_ready
     (upgradeSingleComponent (sample_env []) sample_effective new_upgrade_context (sample_component ''istio'') istio_ready)"
    by (rule upgrade_single_component)
       (simp_all add: new_upgrade_context_def n istio_ready_def sample_sys_def sample_cr_def comp_status_of_def)
  with istio_upgrade show ?thesis by (auto simp: upgrade_post_def split: res.splits)
qed

definition upgrade_contexts_ok :: "'v tracker \<Rightarrow> bool" where
  "upgrade_contexts_ok tr \<longleftrightarrow> (\<forall>n t. compMap tr n = Some t \<longrightarrow> upgradeState t \<noteq> UnsetUpgradeState)"

lemma upgrade_run_done:
  assumes "upgradeState t \<noteq> UnsetUpgradeState"
  shows "case upgradeSingleComponent E eff t c s of
       Spin \<Rightarrow> False | Panic m \<Rightarrow> True
     | Ret ((r, err), t', s') \<Rightarrow> upgradeState t' \<noteq> UnsetUpgradeState
         \<and> (upgradeState t' = compStateUpgradeEnd \<longleftrightarrow> err = None \<and> \<not> Requeue r)"
  unfolding upgradeSingleComponent_def
proof (rule upgr.loop_res_rule [where I = "\<lambda>_. True"])
  show "upgradeState (fst (t, s)) \<noteq> UnsetUpgradeState" using assms by simp
next
  fix a :: "tracker_context \<times> 'a sys" and res
  assume g: "upgradeState (fst a) \<noteq> UnsetUpgradeState" and st: "upgrade_step E eff c a = Inr res"
  show "case res of Spin \<Rightarrow> False | Panic m \<Rightarrow> True
     | Ret ((r, err), t', s') \<Rightarrow> upgradeState t' \<noteq> UnsetUpgradeState
         \<and> (upgradeState t' = compStateUpgradeEnd \<longleftrightarrow> err = None \<and> \<not> Requeue r)"
  proof (cases res)
    case (Ret x)
    obtain r err t' s' where x: "x = ((r, err), t', s')" by (cases x) auto
    with upgrade_step_done [of E eff c "fst a" "snd a" r err t' s'] g st Ret show ?thesis by simp
  next
    case Spin
    with st upgr.step_no_spin [OF g] show ?thesis by metis
  qed simp
qed simp_all

lemma getComponentUpgradeContext_ok:
  "upgrade_contexts_ok tr \<Longrightarrow> upgradeState (getComponentUpgradeContext tr n) \<noteq> UnsetUpgradeState"
  by (auto simp: upgrade_contexts_ok_def getComponentUpgradeContext_def new_upgrade_context_def split: option.splits)

definition upgrade_prefix ::
  "'w component list \<Rightarrow> 'v tracker \<Rightarrow> ctrl_result \<Rightarrow> go_error option \<Rightarrow> 'v tracker \<Rightarrow> bool" where
  "upgrade_prefix cs tr r err tr' \<longleftrightarrow>
     (\<exists>done rest. cs = done @ rest
       \<and> (\<forall>c \<in> set done. map_option upgradeState (compMap tr' (Name c)) = Some compStateUpgradeEnd)
       \<and> (if err = None \<and> \<not> Requeue r then rest = []
          else rest \<noteq> [] \<and> map_option upgradeState (compMap tr' (Name (hd rest))) \<noteq> Some compStateUpgradeEnd
             \<and> (\<forall>c \<in> set (tl rest). compMap tr' (Name c) = compMap tr (Name c))))"

lemma upgrade_all_prefix:
  assumes "upgrade_all E eff cs (tr, s) = Ret ((r, err), tr', s')" and "upgrade_contexts_ok tr"
    and "distinct (map Name cs)"
  shows "upgrade_prefix cs tr r err tr' \<and> upgrade_contexts_ok tr' \<and> vzFlow tr' = vzFlow tr \<and> gen tr' = gen tr
    \<and> (\<forall>n. n \<notin> Name ` set cs \<longrightarrow> compMap tr' n = compMap tr n)"
  using assms
proof (induction cs arbitrary: tr s)
  case Nil
  then show ?case by (simp add: upgrade_prefix_def)
next
  case (Cons c cs)
  let ?t = "getComponentUpgradeContext tr (Name c)"
  from Cons.prems(1) obtain q e t s1 where u: "upgradeSingleComponent E eff ?t c s = Ret ((q, e), t, s1)"
    and rest: "(if e \<noteq> None \<or> Requeue q then Ret ((q, e), put_context (Name c) t tr, s1)
       else upgrade_all E eff cs (put_context (Name c) t tr, s1)) = Ret ((r, err), tr', s')"
    by (auto simp: res_bind_Ret_iff Let_def)
  from upgrade_run_done [OF getComponentUpgradeContext_ok [OF Cons.prems(2)], of E eff "Name c" c s] u
  have t: "upgradeState t \<noteq> UnsetUpgradeState"
    "upgradeState t = compStateUpgradeEnd \<longleftrightarrow> e = None \<and> \<not> Requeue q" by simp_all
  have ok: "upgrade_contexts_ok (put_context (Name c) t tr)"
    using Cons.prems(2) t(1) by (simp add: upgrade_contexts_ok_def)
  have fresh: "Name c \<notin> Name ` set cs" and dn: "distinct (map Name cs)" using Cons.prems(3) by auto
  show ?case
  proof (cases "e \<noteq> None \<or> Requeue q")
    case True
    with rest have q: "tr' = put_context (Name c) t tr" "r = q" "err = e" by auto
    have "Name x \<noteq> Name c" if "x \<in> set cs" for x using fresh that by (metis imageI)
    with True t q have "upgrade_prefix (c # cs) tr r err tr'"
      unfolding upgrade_prefix_def by (intro exI [of _ "[]"] exI [of _ "c # cs"]) auto
    with q ok show ?thesis by auto
  next
    case False
    with rest have "upgrade_all E eff cs (put_context (Name c) t tr, s1) = Ret ((r, err), tr', s')" by simp
    note ih = Cons.IH [OF this ok dn]
    then obtain dn rs where split: "cs = dn @ rs"
      and d: "\<forall>c \<in> set dn. map_option upgradeState (compMap tr' (Name c)) = Some compStateUpgradeEnd"
      and rs: "if err = None \<and> \<not> Requeue r then rs = []
          else rs \<noteq> [] \<and> map_option upgradeState (compMap tr' (Name (hd rs))) \<noteq> Some compStateUpgradeEnd
             \<and> (\<forall>x \<in> set (tl rs). compMap tr' (Name x) = compMap (put_context (Name c) t tr) (Name x))"
      by (auto simp: upgrade_prefix_def)
    have c: "map_option upgradeState (compMap tr' (Name c)) = Some compStateUpgradeEnd"
      using ih fresh t False by simp
    have "\<forall>x \<in> set (tl rs). Name x \<noteq> Name c" if "rs \<noteq> []"
      using fresh split that by (metis Un_iff imageI list.set_sel(2) set_append)
    with rs have "if err = None \<and> \<not> Requeue r then rs = []
          else rs \<noteq> [] \<and> map_option upgradeState (compMap tr' (Name (hd rs))) \<noteq> Some compStateUpgradeEnd
             \<and> (\<forall>x \<in> set (tl rs). compMap tr' (Name x) = compMap tr (Name x))"
      by (auto split: if_splits)
    then have "upgrade_prefix (c # cs) tr r err tr'"
      unfolding upgrade_prefix_def
      by (intro exI [of _ "c # dn"] exI [of _ rs]) (use split d c in auto)
    with ih fresh show ?thesis by auto
  qed
qed

text \<open>C7. Components are upgraded one at a time, in registry order: after a pass over components
  with distinct names, either all machines are at their end and nothing is left to do, or
  there is a first component that is not done, every component before it is, and no component
  after it has been touched.\<close>

theorem upgrade_components_in_order:
  assumes "upgradeComponents E tr s = Ret ((r, err), tr', s')" and "NewContext E (CR s) = Inr eff"
    and "upgrade_contexts_ok tr" and "distinct (map Name (GetComponents E))"
  shows "upgrade_prefix (GetComponents E) tr r err tr'"
  using assms(1,2) upgrade_all_prefix [OF _ assms(3,4)] by (simp add: upgradeComponents_def)

definition stuck_component :: "string \<Rightarrow> string list component" where
  "stuck_component n = (sample_component n)\<lparr>Upgrade := \<lambda>x w. (Some (PlainErr ''helm''), w)\<rparr>"

lemma stuck_upgrade:
  "case upgrade_all (sample_env [sample_component ''a'', stuck_component ''b'', sample_component ''c'']) sample_effective
       [sample_component ''a'', stuck_component ''b'', sample_component ''c'']
       (empty_tracker vzStateUpgradeComponents, istio_ready) of
     Ret ((r, err), tr', s') \<Rightarrow> Requeue r \<and> err = None | _ \<Rightarrow> False"
  by code_simp

theorem upgrade_components_in_order_witness:
  "\<exists>r tr' s'. upgradeComponents (sample_env [sample_component ''a'', stuck_component ''b'', sample_component ''c''])
       (empty_tracker vzStateUpgradeComponents) istio_ready = Ret ((r, None), tr', s')
     \<and> Requeue r \<and> upgrade_prefix [sample_component ''a'', stuck_component ''b'', sample_component ''c'']
         (empty_tracker vzStateUpgradeComponents) r None tr'"
proof -
  let ?cs = "[sample_component ''a'', stuck_component ''b'', sample_component ''c'']"
  have n: "NewContext (sample_env ?cs) (CR istio_ready) = Inr sample_effective"
    by (rule NewContext_sample) (simp add: istio_ready_def sample_sys_def sample_cr_def zero_cr_def)
  have g: "GetComponents (sample_env ?cs) = ?cs" by (simp add: GetComponents_def sample_env_def)
  have nm: "distinct (map Name (GetComponents (sample_env ?cs)))"
    unfolding g by (simp add: stuck_component_def sample_component_def)
  have ok: "upgrade_contexts_ok (empty_tracker vzStateUpgradeComponents)"
    by (simp add: upgrade_contexts_ok_def empty_tracker_def)
  from stuck_upgrade obtain r tr' s' where
    "upgrade_all (sample_env ?cs) sample_effective ?cs (empty_tracker vzStateUpgradeComponents, istio_ready)
       = Ret ((r, None), tr', s')" and q: "Requeue r"
    by (auto split: res.splits)
  then have u: "upgradeComponents (sample_env ?cs) (empty_tracker vzStateUpgradeComponents) istio_ready
       = Ret ((r, None), tr', s')"
    by (simp add: upgradeComponents_def n g)
  from upgrade_components_in_order [OF u n ok nm] u q show ?thesis unfolding g by blast
qed

end
