(* ===== verification/Reconcile_Install.thy ===== *)
theory Reconcile_Install imports Install_Component begin

text \<open>
  The installation and update of the whole product (\<open>reconcile/install.go\<close>):
  \<open>reconcileComponents\<close> is a loop over the state of the install tracker of the resource, which
  lives in a map of the process from call to call and is replaced when the resource's
  generation moves on.  \<open>ConfigureAuthProviders\<close>, \<open>ConfigureKeycloakOIDC\<close> and the copies of
  Rancher's ingress are operations of the environment.
\<close>

section \<open>Trackers\<close>

definition getTrackerKey :: "verrazzano \<Rightarrow> string" where
  "getTrackerKey cr = vzNamespace cr @ ''-'' @ vzName cr @ ''-'' @ UID cr"

definition new_install_tracker :: "verrazzano \<Rightarrow> reconcileState tracker" where
  "new_install_tracker cr = \<lparr>vzFlow = vzStateReconcileWatchedComponents, gen = Generation cr, compMap = Map.empty\<rparr>"

definition getInstallTracker :: "'w sys \<Rightarrow> reconcileState tracker" where
  "getInstallTracker s = (case installTrackerMap s (getTrackerKey (CR s)) of
       None \<Rightarrow> new_install_tracker (CR s)
     | Some vuc \<Rightarrow> if gen vuc \<noteq> Generation (CR s) then new_install_tracker (CR s) else vuc)"

definition put_install_tracker :: "reconcileState tracker \<Rightarrow> 'w sys \<Rightarrow> 'w sys" where
  "put_install_tracker tr s = s\<lparr>installTrackerMap := (installTrackerMap s)(getTrackerKey (CR s) \<mapsto> tr)\<rparr>"

definition deleteInstallTracker :: "'w sys \<Rightarrow> 'w sys" where
  "deleteInstallTracker s = s\<lparr>installTrackerMap := (installTrackerMap s)(getTrackerKey (CR s) := None)\<rparr>"

section \<open>Watched components\<close>

definition IsWatchedComponent :: "'w sys \<Rightarrow> string \<Rightarrow> bool" where
  "IsWatchedComponent s compName = Watched s compName"

definition ClearWatch :: "string \<Rightarrow> 'w sys \<Rightarrow> 'w sys" where
  "ClearWatch name s = s\<lparr>Watched := (Watched s)(name := False)\<rparr>"

fun AddWatch :: "string list \<Rightarrow> 'w sys \<Rightarrow> 'w sys" where
  "AddWatch [] s = s"
| "AddWatch (name # names) s = AddWatch names (s\<lparr>Watched := (Watched s)(name := True)\<rparr>)"

fun reconcileWatchedComponents ::
  "verrazzano \<Rightarrow> 'w component list \<Rightarrow> 'w sys \<Rightarrow> go_error option \<times> 'w sys" where
  "reconcileWatchedComponents eff [] s = (None, s)"
| "reconcileWatchedComponents eff (c # cs) s =
     (if IsWatchedComponent s (GetJSONName c)
      then (case call_ctx (ReconcileComp c) eff s of
          (Some err, s1) \<Rightarrow> (Some err, s1)
        | (None, s1) \<Rightarrow> reconcileWatchedComponents eff cs (ClearWatch (GetJSONName c) s1))
      else reconcileWatchedComponents eff cs s)"

section \<open>The flow\<close>

fun generation_updated :: "verrazzano \<Rightarrow> 'w component list \<Rightarrow> 'w sys \<Rightarrow> bool" where
  "generation_updated eff [] s = False"
| "generation_updated eff (c # cs) s =
     (if IsEnabled c eff
      then (case comp_status_of s (Name c) of
          None \<Rightarrow> True
        | Some componentStatus \<Rightarrow>
            if checkConfigUpdated s componentStatus \<and> monitors c eff s then True
            else generation_updated eff cs s)
      else generation_updated eff cs s)"

definition checkGenerationUpdated :: "'w env \<Rightarrow> verrazzano \<Rightarrow> 'w sys \<Rightarrow> bool" where
  "checkGenerationUpdated E eff s = generation_updated eff (GetComponents E) s"

definition beforeInstallComponents :: "'w env \<Rightarrow> verrazzano \<Rightarrow> 'w sys \<Rightarrow> 'w sys" where
  "beforeInstallComponents E eff s =
     s\<lparr>World := createRancherIngressAndCertCopies E \<lparr>ActualCR = CR s, EffectiveCR = eff\<rparr> (World s)\<rparr>"

type_synonym 'w reconcile_result = "((ctrl_result \<times> go_error option) \<times> 'w sys) res"

definition install_leave ::
  "ctrl_result \<Rightarrow> go_error option \<Rightarrow> reconcileState tracker \<Rightarrow> 'w sys \<Rightarrow> 'x + 'w reconcile_result" where
  "install_leave r err tr s = Inr (Ret ((r, err), put_install_tracker tr s))"

definition install_flow_step ::
  "'w env \<Rightarrow> verrazzano \<Rightarrow> bool \<Rightarrow> reconcileState tracker \<times> 'w sys
    \<Rightarrow> (reconcileState tracker \<times> 'w sys) + 'w reconcile_result" where
  "install_flow_step E eff preUpgrade ts = (case ts of (tr, s) \<Rightarrow> (case vzFlow tr of
       vzStateReconcileWatchedComponents \<Rightarrow>
         (if vzState (Status (CR s)) \<noteq> VzStateUpgrading
          then (case reconcileWatchedComponents eff (GetComponents E) s of
              (Some err, s1) \<Rightarrow> install_leave requeue_now (Some err) tr s1
            | (None, s1) \<Rightarrow> Inl (tr\<lparr>vzFlow := vzStateDecideUpdateNeeded\<rparr>, s1))
          else Inl (tr\<lparr>vzFlow := vzStateDecideUpdateNeeded\<rparr>, s))
     | vzStateDecideUpdateNeeded \<Rightarrow>
         (if vzState (Status (CR s)) = VzStateReady
          then (if checkGenerationUpdated E eff s then Inl (tr\<lparr>vzFlow := vzStateSetGlobalInstallStatus\<rparr>, s)
                else Inl (tr\<lparr>vzFlow := vzStateReconcileEnd\<rparr>, s))
          else Inl (tr\<lparr>vzFlow := vzStateInstallComponents\<rparr>, beforeInstallComponents E eff s))
     | vzStateSetGlobalInstallStatus \<Rightarrow>
         on_ret (setInstallingState E s) (\<lambda>err s1. case err of
             Some e \<Rightarrow> install_leave requeue_now (Some e) tr s1
           | None \<Rightarrow> install_leave requeue_now None (tr\<lparr>vzFlow := vzStateInstallComponents\<rparr>)
                       (beforeInstallComponents E eff s1))
     | vzStateInstallComponents \<Rightarrow> (case installComponents E eff tr preUpgrade s of
           Panic m \<Rightarrow> Inr (Panic m)
         | Spin \<Rightarrow> Inr Spin
         | Ret ((result, err), tr1, s1) \<Rightarrow>
             if err \<noteq> None \<or> Requeue result then install_leave result err tr1 s1
             else Inl (tr1\<lparr>vzFlow := vzStatePostInstall\<rparr>, s1))
     | vzStatePostInstall \<Rightarrow>
         (if preUpgrade then Inl (tr\<lparr>vzFlow := vzStateReconcileEnd\<rparr>, s)
          else (case call_ctx (ConfigureAuthProviders E) eff s of
              (Some err, s1) \<Rightarrow> install_leave requeue_now (Some err) tr s1
            | (None, s1) \<Rightarrow> (case call_ctx (ConfigureKeycloakOIDC E) eff s1 of
                  (Some err, s2) \<Rightarrow> install_leave requeue_now (Some err) tr s2
                | (None, s2) \<Rightarrow> Inl (tr\<lparr>vzFlow := vzStateReconcileEnd\<rparr>, s2))))
     | vzStateReconcileEnd \<Rightarrow> Inr (Ret ((no_requeue, None), deleteInstallTracker s))))"

text \<open>When the context cannot be built, the nil context is asked for its logger: a panic.\<close>

definition reconcileComponents :: "'w env \<Rightarrow> bool \<Rightarrow> 'w sys \<Rightarrow> 'w reconcile_result" where
  "reconcileComponents E preUpgrade s = (case NewContext E (CR s) of
       Inl err \<Rightarrow> Panic nil_deref
     | Inr eff \<Rightarrow> loop_res (install_flow_step E eff preUpgrade) (getInstallTracker s, s))"

section \<open>The flow as a ranked loop\<close>

fun reconcile_rank :: "reconcileState \<Rightarrow> nat" where
  "reconcile_rank vzStateReconcileEnd = 0"
| "reconcile_rank vzStatePostInstall = 1"
| "reconcile_rank vzStateInstallComponents = 2"
| "reconcile_rank vzStateSetGlobalInstallStatus = 3"
| "reconcile_rank vzStateDecideUpdateNeeded = 4"
| "reconcile_rank vzStateReconcileWatchedComponents = 5"

lemma install_leave_simps [simp]:
  "install_leave r e tr s \<noteq> Inl x"
  "install_leave r e tr s = Inr y \<longleftrightarrow> y = Ret ((r, e), put_install_tracker tr s)"
  by (auto simp: install_leave_def)

lemma installComponents_ok:
  assumes "installComponents E eff tr pre s = Ret (r, tr', s')" and "install_contexts_ok tr"
  shows "install_contexts_ok tr'"
proof -
  have *: "install_all E eff pre cs (b, tr, s) = Ret (b', tr', s') \<Longrightarrow> install_contexts_ok tr
      \<Longrightarrow> install_contexts_ok tr'" for cs b b' tr s
  proof (induction cs arbitrary: b tr s)
    case Nil
    then show ?case by simp
  next
    case (Cons c cs)
    let ?t = "getComponentInstallContext tr (Name c)"
    from Cons.prems(1) obtain r t s1 where u: "installSingleComponent E eff ?t c pre s = Ret (r, t, s1)"
      and rest: "install_all E eff pre cs (b \<or> Requeue r, put_context (Name c) t tr, s1) = Ret (b', tr', s')"
      by (auto simp: res_bind_Ret_iff)
    from install_run_done [OF getComponentInstallContext_ok [OF Cons.prems(2)] u]
    have "install_contexts_ok (put_context (Name c) t tr)"
      using Cons.prems(2) by (simp add: install_contexts_ok_def install_good_def)
    with Cons.IH rest show ?case by blast
  qed
  from assms * show ?thesis by (auto simp: installComponents_def res_bind_Ret_iff)
qed

lemma installComponents_no_spin: "install_contexts_ok tr \<Longrightarrow> installComponents E eff tr pre s \<noteq> Spin"
  by (auto simp: installComponents_def res_bind_Spin_iff install_all_no_spin split: prod.splits)

lemma setInstallingState_no_spin: "setInstallingState E s \<noteq> Spin"
  by (simp add: setInstallingState_def updateStatus_no_spin split: sum.splits)

lemma contexts_ok_flow [simp]: "install_contexts_ok (tr\<lparr>vzFlow := v\<rparr>) = install_contexts_ok tr"
  by (simp add: install_contexts_ok_def)

lemmas install_flow_simps = install_flow_step_def on_ret_Inl_iff on_ret_Inr_iff

interpretation flow: ranked_res_loop "install_flow_step E eff pre"
  "\<lambda>ts. reconcile_rank (vzFlow (fst ts))" "\<lambda>ts. install_contexts_ok (fst ts)" for E eff pre
proof
  fix ts ts' :: "reconcileState tracker \<times> 'a sys"
  assume g: "install_contexts_ok (fst ts)" and st: "install_flow_step E eff pre ts = Inl ts'"
  obtain tr s where ts: "ts = (tr, s)" by fastforce
  from g st show "install_contexts_ok (fst ts')" unfolding ts
    by (cases "vzFlow tr")
       (auto simp: install_flow_simps split: if_splits prod.splits option.splits res.splits
         dest: installComponents_ok)
  from g st show "reconcile_rank (vzFlow (fst ts')) < reconcile_rank (vzFlow (fst ts))" unfolding ts
    by (cases "vzFlow tr")
       (auto simp: install_flow_simps split: if_splits prod.splits option.splits res.splits)
next
  fix ts :: "reconcileState tracker \<times> 'a sys"
  assume g: "install_contexts_ok (fst ts)"
  obtain tr s where ts: "ts = (tr, s)" by fastforce
  from g show "install_flow_step E eff pre ts \<noteq> Inr Spin" unfolding ts
    by (cases "vzFlow tr")
       (auto simp: install_flow_simps installComponents_no_spin setInstallingState_no_spin
         split: if_splits prod.splits option.splits res.splits)
qed

section \<open>Properties\<close>

lemma install_all_frame:
  assumes "install_all E eff pre cs (b, tr, s) = Ret (b', tr', s')" and "install_contexts_ok tr"
  shows "cr_frame (CR s) (CR s') \<and> maps_same s s'
    \<and> (\<forall>n. n \<notin> Name ` set cs \<longrightarrow> comp_status_of s' n = comp_status_of s n)"
  using assms
proof (induction cs arbitrary: b tr s)
  case Nil
  then show ?case by simp
next
  case (Cons c cs)
  let ?t = "getComponentInstallContext tr (Name c)"
  from Cons.prems(1) obtain r t s1 where u: "installSingleComponent E eff ?t c pre s = Ret (r, t, s1)"
    and rest: "install_all E eff pre cs (b \<or> Requeue r, put_context (Name c) t tr, s1) = Ret (b', tr', s')"
    by (auto simp: res_bind_Ret_iff)
  note good = getComponentInstallContext_ok [OF Cons.prems(2)]
  from install_run_done [OF good u] have "install_contexts_ok (put_context (Name c) t tr)"
    using Cons.prems(2) by (simp add: install_contexts_ok_def install_good_def)
  from Cons.IH [OF rest this] install_run_frame [OF good u] show ?case
    by (auto simp: flow_frame_def intro: cr_frame_trans maps_same_trans)
qed

lemma installComponents_frame:
  assumes "installComponents E eff tr pre s = Ret (r, tr', s')" and "install_contexts_ok tr"
  shows "cr_frame (CR s) (CR s') \<and> maps_same s s'"
  using assms install_all_frame by (fastforce simp: installComponents_def res_bind_Ret_iff)

lemma reconcileWatched_frame:
  "reconcileWatchedComponents eff cs s = (r, s') \<Longrightarrow> CR s' = CR s \<and> maps_same s s' \<and> Sent s' = Sent s"
proof (induction cs arbitrary: s)
  case Nil
  then show ?case by simp
next
  case (Cons c cs)
  have w: "CR (ClearWatch n u) = CR u \<and> maps_same u (ClearWatch n u) \<and> Sent (ClearWatch n u) = Sent u" for n u
    by (simp add: ClearWatch_def maps_same_def)
  show ?case
  proof (cases "IsWatchedComponent s (GetJSONName c)")
    case True
    obtain e s1 where r: "call_ctx (ReconcileComp c) eff s = (e, s1)" by fastforce
    then have f: "CR s1 = CR s \<and> maps_same s s1 \<and> Sent s1 = Sent s" by (simp add: maps_same_def sys_simps)
    show ?thesis
    proof (cases e)
      case None
      with True r Cons.prems have "reconcileWatchedComponents eff cs (ClearWatch (GetJSONName c) s1) = (r, s')" by simp
      from Cons.IH [OF this] w [of "GetJSONName c" s1] f show ?thesis by (auto simp: maps_same_def)
    next
      case (Some x)
      with True r Cons.prems f show ?thesis by simp
    qed
  next
    case False
    with Cons show ?thesis by simp
  qed
qed

lemma setInstallingState_effect:
  assumes "setInstallingState E s = Ret (e, s')"
  shows "case CurrentBomVersion E of
      Inl err \<Rightarrow> e = Some err \<and> s' = s
    | Inr v \<Rightarrow> e = None \<and> (\<exists>ev. s' = send ev s \<and> evVersion ev = Some (ToString v) \<and> evState ev = VzStateReconciling
        \<and> (\<exists>cs. evConditions ev = Some cs \<and> CondType (last cs) = CondInstallStarted))"
  using assms
  by (auto simp: setInstallingState_def updateStatus_def Let_def conditionToVzState_def
      appendConditionIfNecessary.simps new_condition_def split: sum.splits)

lemma setInstallingState_frame:
  "setInstallingState E s = Ret (e, s') \<Longrightarrow> CR s' = CR s \<and> maps_same s s'"
  using setInstallingState_effect [of E s e s'] by (auto simp: maps_same_def split: sum.splits)

lemma before_frame: "CR (beforeInstallComponents E eff s) = CR s" "maps_same s (beforeInstallComponents E eff s)"
  by (simp_all add: beforeInstallComponents_def maps_same_def)

definition trackers_ok :: "'w sys \<Rightarrow> bool" where
  "trackers_ok s \<longleftrightarrow> (\<forall>k tr. installTrackerMap s k = Some tr \<longrightarrow> install_contexts_ok tr)"

lemma getInstallTracker_ok: "trackers_ok s \<Longrightarrow> install_contexts_ok (getInstallTracker s)"
  by (auto simp: trackers_ok_def getInstallTracker_def new_install_tracker_def install_contexts_ok_def
      split: option.splits)

definition flow_inv :: "'w sys \<Rightarrow> reconcileState tracker \<times> 'w sys \<Rightarrow> bool" where
  "flow_inv s0 ts \<longleftrightarrow> cr_frame (CR s0) (CR (snd ts)) \<and> maps_same s0 (snd ts)"

lemma flow_inv_step:
  assumes "flow_inv s0 (tr, s)" and "install_contexts_ok tr"
    and "install_flow_step E eff pre (tr, s) = Inl (tr', s')"
  shows "flow_inv s0 (tr', s')"
proof -
  have "cr_frame (CR s) (CR s') \<and> maps_same s s'"
  proof (cases "vzFlow tr")
    case vzStateInstallComponents
    with assms(2,3) show ?thesis
      by (auto simp: install_flow_simps split: if_splits prod.splits res.splits dest: installComponents_frame)
  next
    case vzStateReconcileWatchedComponents
    with assms(3) show ?thesis
      by (auto simp: install_flow_simps split: if_splits prod.splits option.splits dest: reconcileWatched_frame)
  next
    case vzStatePostInstall
    with assms(3) show ?thesis
      by (auto simp: install_flow_simps maps_same_def sys_simps split: if_splits prod.splits option.splits)
  qed (use assms(3) in \<open>auto simp: install_flow_simps before_frame split: if_splits option.splits\<close>)
  with assms(1) show ?thesis by (auto simp: flow_inv_def intro: cr_frame_trans maps_same_trans)
qed

lemma flow_leave:
  assumes "install_contexts_ok tr" and "install_flow_step E eff pre (tr, s) = Inr (Ret ((r, err), s'))"
  shows "(\<exists>tr1 s1. install_contexts_ok tr1 \<and> cr_frame (CR s) (CR s1) \<and> maps_same s s1
            \<and> s' = put_install_tracker tr1 s1 \<and> (err \<noteq> None \<or> Requeue r))
    \<or> (s' = deleteInstallTracker s \<and> err = None \<and> \<not> Requeue r)"
proof (cases "vzFlow tr")
  case vzStateReconcileWatchedComponents
  with assms obtain e s1 where r: "reconcileWatchedComponents eff (GetComponents E) s = (Some e, s1)"
    "s' = put_install_tracker tr s1" "r = requeue_now"
    by (auto simp: install_flow_simps split: if_splits prod.splits option.splits)
  with reconcileWatched_frame [OF r(1)] assms(1) show ?thesis
    by (intro disjI1 exI [of _ tr] exI [of _ s1]) simp
next
  case vzStateSetGlobalInstallStatus
  with assms(2) obtain e s1 where st: "setInstallingState E s = Ret (e, s1)" and q: "r = requeue_now"
    and s': "s' = put_install_tracker tr s1 \<or>
      s' = put_install_tracker (tr\<lparr>vzFlow := vzStateInstallComponents\<rparr>) (beforeInstallComponents E eff s1)"
    by (auto simp: install_flow_simps split: option.splits)
  note f = setInstallingState_frame [OF st]
  from s' show ?thesis
  proof
    assume "s' = put_install_tracker tr s1"
    with f q assms(1) show ?thesis by (intro disjI1 exI [of _ tr] exI [of _ s1]) simp
  next
    assume "s' = put_install_tracker (tr\<lparr>vzFlow := vzStateInstallComponents\<rparr>) (beforeInstallComponents E eff s1)"
    with f q assms(1) before_frame(1) [of E eff s1] before_frame(2) [of s1 E eff] show ?thesis
      by (intro disjI1 exI [of _ "tr\<lparr>vzFlow := vzStateInstallComponents\<rparr>"]
            exI [of _ "beforeInstallComponents E eff s1"]) (auto intro: maps_same_trans)
  qed
next
  case vzStateInstallComponents
  with assms(2) obtain tr1 s1 where i: "installComponents E eff tr pre s = Ret ((r, err), tr1, s1)"
    and q: "err \<noteq> None \<or> Requeue r" and s': "s' = put_install_tracker tr1 s1"
    by (auto simp: install_flow_simps split: if_splits res.splits)
  from installComponents_ok [OF i assms(1)] installComponents_frame [OF i assms(1)] q s' show ?thesis
    by (intro disjI1 exI [of _ tr1] exI [of _ s1]) simp
next
  case vzStatePostInstall
  have keep: "call_ctx f eff u = (x, v) \<Longrightarrow> CR v = CR u \<and> maps_same u v" for f u v and x :: "go_error option"
    by (simp add: maps_same_def sys_simps)
  obtain e1 s1 where c1: "call_ctx (ConfigureAuthProviders E) eff s = (e1, s1)" by fastforce
  obtain e2 s2 where c2: "call_ctx (ConfigureKeycloakOIDC E) eff s1 = (e2, s2)" by fastforce
  have f: "CR s1 = CR s \<and> maps_same s s1 \<and> CR s2 = CR s \<and> maps_same s s2"
    using keep [OF c1] keep [OF c2] by (auto intro: maps_same_trans)
  from vzStatePostInstall assms(2) c1 c2
  have "r = requeue_now \<and> (s' = put_install_tracker tr s1 \<or> s' = put_install_tracker tr s2)"
    by (auto simp: install_flow_simps split: if_splits option.splits)
  with f assms(1) show ?thesis by (auto intro!: exI [of _ tr]) (metis cr_frame_refl)+
qed (use assms(2) in \<open>auto simp: install_flow_simps split: if_splits\<close>)

lemma tracker_key_frame: "cr_frame a b \<Longrightarrow> getTrackerKey b = getTrackerKey a"
  by (simp add: getTrackerKey_def cr_frame_fields)

definition reconcile_post :: "'w sys \<Rightarrow> 'w reconcile_result \<Rightarrow> bool" where
  "reconcile_post s res = (case res of
       Spin \<Rightarrow> False
     | Panic m \<Rightarrow> True
     | Ret ((r, err), s') \<Rightarrow> trackers_ok s' \<and> cr_frame (CR s) (CR s')
         \<and> (installTrackerMap s' (getTrackerKey (CR s)) = None \<longleftrightarrow> err = None \<and> \<not> Requeue r)
         \<and> (\<forall>k. k \<noteq> getTrackerKey (CR s) \<longrightarrow> installTrackerMap s' k = installTrackerMap s k))"

lemma reconcile_components_post:
  assumes "trackers_ok s"
  shows "reconcile_post s (reconcileComponents E pre s)"
proof (cases "NewContext E (CR s)")
  case (Inl err)
  then show ?thesis by (simp add: reconcileComponents_def reconcile_post_def)
next
  case (Inr eff)
  have "reconcile_post s (loop_res (install_flow_step E eff pre) (getInstallTracker s, s))"
  proof (rule flow.loop_res_rule [where I = "flow_inv s"])
    show "install_contexts_ok (fst (getInstallTracker s, s))"
      using getInstallTracker_ok [OF assms] by simp
    show "flow_inv s (getInstallTracker s, s)" by (simp add: flow_inv_def)
  next
    fix a b :: "reconcileState tracker \<times> 'a sys"
    assume "install_contexts_ok (fst a)" "flow_inv s a" "install_flow_step E eff pre a = Inl b"
    then show "flow_inv s b"
      using flow_inv_step [of s "fst a" "snd a" E eff pre "fst b" "snd b"] by simp
  next
    fix a :: "reconcileState tracker \<times> 'a sys" and res
    assume g: "install_contexts_ok (fst a)" and inv: "flow_inv s a" and st: "install_flow_step E eff pre a = Inr res"
    show "reconcile_post s res"
    proof (cases res)
      case (Ret x)
      obtain r err s' where x: "x = ((r, err), s')" by (cases x) auto
      from inv have f: "cr_frame (CR s) (CR (snd a))" "maps_same s (snd a)" by (simp_all add: flow_inv_def)
      from flow_leave [OF g, of E eff pre "snd a" r err s'] st Ret x
      consider tr1 s1 where "install_contexts_ok tr1" "cr_frame (CR (snd a)) (CR s1)" "maps_same (snd a) s1"
          "s' = put_install_tracker tr1 s1" "err \<noteq> None \<or> Requeue r"
        | "s' = deleteInstallTracker (snd a)" "err = None" "\<not> Requeue r"
        by auto
      then show ?thesis
      proof cases
        case 1
        have c: "cr_frame (CR s) (CR s1)" by (rule cr_frame_trans [OF f(1) 1(2)])
        have m: "installTrackerMap s1 = installTrackerMap s" using f(2) 1(3) by (simp add: maps_same_def)
        from 1 c m assms Ret x tracker_key_frame [OF c] show ?thesis
          by (auto simp: reconcile_post_def put_install_tracker_def trackers_ok_def)
      next
        case 2
        have m: "installTrackerMap (snd a) = installTrackerMap s" using f(2) by (simp add: maps_same_def)
        from 2 m f(1) assms Ret x tracker_key_frame [OF f(1)] show ?thesis
          by (auto simp: reconcile_post_def deleteInstallTracker_def trackers_ok_def)
      qed
    next
      case Spin
      with st flow.step_no_spin [OF g] show ?thesis by metis
    qed (simp add: reconcile_post_def)
  qed
  with Inr show ?thesis by (simp add: reconcileComponents_def)
qed

text \<open>C6. The install flow is a well-behaved participant of the work queue: whatever the trackers
  of earlier calls hold, a call comes back (or panics), keeps the trackers usable for the next
  call, changes nothing of the resource but component details, and forgets the resource's
  tracker exactly when it reports that nothing is left to do; other resources' trackers are
  not touched.\<close>

theorem reconcile_components_returns:
  assumes "trackers_ok s"
  shows "reconcile_post s (reconcileComponents E pre s)"
  by (rule reconcile_components_post [OF assms])

lemma NewContext_istio: "NewContext (sample_env cs) (CR (sample_sys (sample_cr m))) = Inr sample_effective"
  by (rule NewContext_sample) (simp add: sample_sys_def sample_cr_def zero_cr_def)

theorem reconcile_components_returns_witness:
  "reconcile_post istio_installing (reconcileComponents (sample_env [sample_component ''istio'']) False istio_installing)"
  by (rule reconcile_components_returns) (simp add: trackers_ok_def istio_installing_def sample_sys_def)

text \<open>The resource is settled: Ready, nothing to fix, and every enabled component Ready for its generation.\<close>

definition settled :: "'w env \<Rightarrow> verrazzano \<Rightarrow> 'w sys \<Rightarrow> bool" where
  "settled E eff s \<longleftrightarrow> vzState (Status (CR s)) = VzStateReady
     \<and> list_all (\<lambda>c. \<not> IsWatchedComponent s (GetJSONName c)) (GetComponents E)
     \<and> list_all (\<lambda>c. IsEnabled c eff \<longrightarrow> (case comp_status_of s (Name c) of
          None \<Rightarrow> False
        | Some cs \<Rightarrow> csState cs = CompStateReady \<and> ReconcilingGeneration cs = 0
            \<and> LastReconciledGeneration cs \<ge> Generation (CR s))) (GetComponents E)"

lemma reconcileWatched_none:
  "list_all (\<lambda>c. \<not> IsWatchedComponent s (GetJSONName c)) cs \<Longrightarrow> reconcileWatchedComponents eff cs s = (None, s)"
  by (induction cs) auto

lemma generation_updated_settled:
  "list_all (\<lambda>c. IsEnabled c eff \<longrightarrow> (case comp_status_of s (Name c) of
          None \<Rightarrow> False
        | Some cs \<Rightarrow> csState cs = CompStateReady \<and> ReconcilingGeneration cs = 0
            \<and> LastReconciledGeneration cs \<ge> Generation (CR s))) cs \<Longrightarrow> \<not> generation_updated eff cs s"
proof (induction cs)
  case Nil
  then show ?case by simp
next
  case (Cons c cs)
  then have rest: "\<not> generation_updated eff cs s" by simp
  show ?case
  proof (cases "IsEnabled c eff")
    case True
    with Cons.prems obtain st where "comp_status_of s (Name c) = Some st" "ReconcilingGeneration st = 0"
      "LastReconciledGeneration st \<ge> Generation (CR s)" by (auto split: option.splits)
    with rest True show ?thesis by (simp add: checkConfigUpdated_def)
  next
    case False
    with rest show ?thesis by simp
  qed
qed

text \<open>C16. Reconciling a settled resource does nothing: with no tracker left over, the call comes
  back at once with no requeue, no event, no operation on the cluster and the process as it
  was, for every list of components and every cluster.\<close>

theorem settled_is_quiet:
  assumes "settled E eff s" and "NewContext E (CR s) = Inr eff"
    and "installTrackerMap s (getTrackerKey (CR s)) = None"
  shows "reconcileComponents E pre s = Ret ((no_requeue, None), s)"
proof -
  let ?step = "install_flow_step E eff pre"
  let ?tr = "new_install_tracker (CR s)"
  from assms(1) have ready: "vzState (Status (CR s)) = VzStateReady" by (simp add: settled_def)
  have w: "reconcileWatchedComponents eff (GetComponents E) s = (None, s)"
    using assms(1) unfolding settled_def by (intro reconcileWatched_none) (elim conjE)
  have g: "\<not> checkGenerationUpdated E eff s"
    using assms(1) unfolding settled_def checkGenerationUpdated_def
    by (intro generation_updated_settled) (elim conjE)
  have d: "deleteInstallTracker s = s"
    using assms(3) by (simp add: deleteInstallTracker_def fun_upd_idem)
  have "?step (?tr, s) = Inl (?tr\<lparr>vzFlow := vzStateDecideUpdateNeeded\<rparr>, s)"
    using ready w by (simp add: install_flow_step_def new_install_tracker_def)
  moreover have "?step (?tr\<lparr>vzFlow := vzStateDecideUpdateNeeded\<rparr>, s)
      = Inl (?tr\<lparr>vzFlow := vzStateReconcileEnd\<rparr>, s)"
    using ready g by (simp add: install_flow_step_def)
  moreover have "?step (?tr\<lparr>vzFlow := vzStateReconcileEnd\<rparr>, s) = Inr (Ret ((no_requeue, None), s))"
    using d by (simp add: install_flow_step_def)
  ultimately have "loop_res ?step (?tr, s) = Ret ((no_requeue, None), s)"
    by (simp add: loop_res_Inl loop_res_Inr)
  with assms(2,3) show ?thesis by (simp add: reconcileComponents_def getInstallTracker_def)
qed

definition settled_sys :: "string list sys" where
  "settled_sys = sample_sys ((sample_cr [''istio'' \<mapsto> zero_comp_status
     \<lparr>csState := CompStateReady, LastReconciledGeneration := 3\<rparr>])
       \<lparr>Status := zero_status\<lparr>vzState := VzStateReady,
          vzComponents := [''istio'' \<mapsto> zero_comp_status\<lparr>csState := CompStateReady, LastReconciledGeneration := 3\<rparr>]\<rparr>\<rparr>)"

theorem settled_is_quiet_witness:
  "reconcileComponents (sample_env [sample_component ''istio'']) False settled_sys = Ret ((no_requeue, None), settled_sys)"
proof (rule settled_is_quiet)
  show "settled (sample_env [sample_component ''istio'']) sample_effective settled_sys"
    by (simp add: settled_def settled_sys_def sample_sys_def sample_cr_def sample_env_def GetComponents_def
        IsWatchedComponent_def sample_component_def comp_status_of_def zero_comp_status_def)
  show "NewContext (sample_env [sample_component ''istio'']) (CR settled_sys) = Inr sample_effective"
    by (rule NewContext_sample) (simp add: settled_sys_def sample_sys_def sample_cr_def zero_cr_def)
  show "installTrackerMap settled_sys (getTrackerKey (CR settled_sys)) = None"
    by (simp add: settled_sys_def sample_sys_def)
qed

lemma generation_updated_changed:
  "c \<in> set cs \<Longrightarrow> IsEnabled c eff \<Longrightarrow> comp_status_of s (Name c) = Some st \<Longrightarrow> checkConfigUpdated s st
     \<Longrightarrow> monitors c eff s \<Longrightarrow> generation_updated eff cs s"
  by (induction cs) (auto split: option.splits)

text \<open>C15. A changed configuration starts one installation: when the resource is Ready, nothing is
  watched, and an enabled component that follows changes has been overtaken by the resource's
  generation, the call announces the installation with exactly one event, which moves the
  resource to Reconciling at the version of the bill of materials with Install Started as its
  newest condition; it asks to be called again, remembers to go on with the components, and
  has run no operation of any component.\<close>

theorem change_starts_install:
  assumes "NewContext E (CR s) = Inr eff" and "CurrentBomVersion E = Inr v"
    and "installTrackerMap s (getTrackerKey (CR s)) = None"
    and "vzState (Status (CR s)) = VzStateReady"
    and "list_all (\<lambda>c. \<not> IsWatchedComponent s (GetJSONName c)) (GetComponents E)"
    and "c \<in> set (GetComponents E)" and "IsEnabled c eff" and "monitors c eff s"
    and "comp_status_of s (Name c) = Some st" and "checkConfigUpdated s st"
  shows "\<exists>s' ev tr. reconcileComponents E pre s = Ret ((requeue_now, None), s')
     \<and> CR s' = CR s \<and> Sent s' = Sent s @ [ev]
     \<and> evState ev = VzStateReconciling \<and> evVersion ev = Some (ToString v)
     \<and> (\<exists>conds. evConditions ev = Some conds \<and> CondType (last conds) = CondInstallStarted)
     \<and> installTrackerMap s' (getTrackerKey (CR s)) = Some tr \<and> vzFlow tr = vzStateInstallComponents
     \<and> compMap tr = Map.empty
     \<and> World s' = createRancherIngressAndCertCopies E \<lparr>ActualCR = CR s, EffectiveCR = eff\<rparr> (World s)"
proof -
  let ?step = "install_flow_step E eff pre"
  let ?tr = "new_install_tracker (CR s)"
  let ?tr2 = "?tr\<lparr>vzFlow := vzStateInstallComponents\<rparr>"
  have w: "reconcileWatchedComponents eff (GetComponents E) s = (None, s)"
    by (rule reconcileWatched_none [OF assms(5)])
  have g: "checkGenerationUpdated E eff s"
    unfolding checkGenerationUpdated_def by (rule generation_updated_changed [OF assms(6,7,9,10,8)])
  obtain e s1 where st: "setInstallingState E s = Ret (e, s1)"
    using assms(2) by (auto simp: setInstallingState_def updateStatus_def Let_def)
  from setInstallingState_effect [OF st] assms(2) obtain ev where e: "e = None" and s1: "s1 = send ev s"
    and ev: "evVersion ev = Some (ToString v)" "evState ev = VzStateReconciling"
      "\<exists>cs. evConditions ev = Some cs \<and> CondType (last cs) = CondInstallStarted"
    by auto
  let ?s2 = "put_install_tracker ?tr2 (beforeInstallComponents E eff s1)"
  have "?step (?tr, s) = Inl (?tr\<lparr>vzFlow := vzStateDecideUpdateNeeded\<rparr>, s)"
    using assms(4) w by (simp add: install_flow_step_def new_install_tracker_def)
  moreover have "?step (?tr\<lparr>vzFlow := vzStateDecideUpdateNeeded\<rparr>, s)
      = Inl (?tr\<lparr>vzFlow := vzStateSetGlobalInstallStatus\<rparr>, s)"
    using assms(4) g by (simp add: install_flow_step_def)
  moreover have "?step (?tr\<lparr>vzFlow := vzStateSetGlobalInstallStatus\<rparr>, s) = Inr (Ret ((requeue_now, None), ?s2))"
    using st e by (simp add: install_flow_step_def install_leave_def)
  ultimately have "loop_res ?step (?tr, s) = Ret ((requeue_now, None), ?s2)"
    by (simp add: loop_res_Inl loop_res_Inr)
  with assms(1,3) have "reconcileComponents E pre s = Ret ((requeue_now, None), ?s2)"
    by (simp add: reconcileComponents_def getInstallTracker_def)
  moreover have "CR ?s2 = CR s" "Sent ?s2 = Sent s @ [ev]"
    "installTrackerMap ?s2 (getTrackerKey (CR s)) = Some ?tr2"
    "World ?s2 = createRancherIngressAndCertCopies E \<lparr>ActualCR = CR s, EffectiveCR = eff\<rparr> (World s)"
    by (simp_all add: put_install_tracker_def beforeInstallComponents_def s1)
  moreover have "vzFlow ?tr2 = vzStateInstallComponents" "compMap ?tr2 = Map.empty"
    by (simp_all add: new_install_tracker_def)
  ultimately show ?thesis using ev by blast
qed

definition bom_env :: "string list env" where
  "bom_env = (sample_env [sample_component ''istio''])\<lparr>CurrentBomVersion := NewSemVersion ''1.6.0''\<rparr>"

definition outdated_sys :: "string list sys" where
  "outdated_sys = settled_sys\<lparr>CR := (CR settled_sys)\<lparr>Generation := 4\<rparr>\<rparr>"

lemma bom_version: "case NewSemVersion ''1.6.0'' of Inr v \<Rightarrow> ToString v = ''1.6.0'' | Inl e \<Rightarrow> False"
  by code_simp

theorem change_starts_install_witness:
  "\<exists>s' ev. reconcileComponents bom_env False outdated_sys = Ret ((requeue_now, None), s')
     \<and> Sent s' = [ev] \<and> evState ev = VzStateReconciling"
proof -
  obtain v where v: "NewSemVersion ''1.6.0'' = Inr v" using bom_version by (auto split: sum.splits)
  have "\<exists>s' ev tr. reconcileComponents bom_env False outdated_sys = Ret ((requeue_now, None), s')
     \<and> CR s' = CR outdated_sys \<and> Sent s' = Sent outdated_sys @ [ev]
     \<and> evState ev = VzStateReconciling \<and> evVersion ev = Some (ToString v)
     \<and> (\<exists>conds. evConditions ev = Some conds \<and> CondType (last conds) = CondInstallStarted)
     \<and> installTrackerMap s' (getTrackerKey (CR outdated_sys)) = Some tr \<and> vzFlow tr = vzStateInstallComponents
     \<and> compMap tr = Map.empty
     \<and> World s' = createRancherIngressAndCertCopies bom_env
         \<lparr>ActualCR = CR outdated_sys, EffectiveCR = sample_effective\<rparr> (World outdated_sys)"
  proof (rule change_starts_install [where c = "sample_component ''istio''"])
    have p: "Profile (CR outdated_sys) = []"
      by (simp add: outdated_sys_def settled_sys_def sample_sys_def sample_cr_def zero_cr_def)
    have "NewContext bom_env cr = NewContext (sample_env [sample_component ''istio'']) cr" for cr
      by (simp add: NewContext_def bom_env_def)
    with NewContext_sample [OF p] show "NewContext bom_env (CR outdated_sys) = Inr sample_effective" by simp
    show "CurrentBomVersion bom_env = Inr v" by (simp add: bom_env_def v)
    show "checkConfigUpdated outdated_sys (zero_comp_status\<lparr>csState := CompStateReady, LastReconciledGeneration := 3\<rparr>)"
      by (simp add: checkConfigUpdated_def outdated_sys_def zero_comp_status_def)
  qed (simp_all add: outdated_sys_def settled_sys_def sample_sys_def sample_cr_def bom_env_def sample_env_def
        GetComponents_def IsWatchedComponent_def sample_component_def comp_status_of_def monitors_def)
  then show ?thesis by (auto simp: outdated_sys_def settled_sys_def sample_sys_def)
qed

lemma install_all_installs:
  assumes "install_all E eff pre cs (b, tr, s) = Ret (False, tr', s')" and "install_contexts_ok tr"
    and "distinct (map Name cs)" and "Generation (CR s) \<ge> 0"
    and "\<forall>c \<in> set cs. compMap tr (Name c) = None"
    and "c \<in> set cs" and "IsEnabled c eff" and "comp_status_of s (Name c) \<noteq> None"
  shows "comp_status_of s' (Name c) = comp_status_of s (Name c) \<or> installed_for (Name c) (Generation (CR s)) s'"
  using assms
proof (induction cs arbitrary: b tr s)
  case Nil
  then show ?case by simp
next
  case (Cons d cs)
  let ?t = "getComponentInstallContext tr (Name d)"
  from Cons.prems(1) obtain r t s1 where u: "installSingleComponent E eff ?t d pre s = Ret (r, t, s1)"
    and rest: "install_all E eff pre cs (b \<or> Requeue r, put_context (Name d) t tr, s1) = Ret (False, tr', s')"
    by (auto simp: res_bind_Ret_iff)
  note good = getComponentInstallContext_ok [OF Cons.prems(2)]
  have ok: "install_contexts_ok (put_context (Name d) t tr)"
    using install_run_done [OF good u] Cons.prems(2) by (simp add: install_contexts_ok_def install_good_def)
  have dn: "distinct (map Name cs)" and fresh: "Name d \<notin> Name ` set cs" using Cons.prems(3) by auto
  note f = install_run_frame [OF good u]
  have gen: "Generation (CR s1) = Generation (CR s)" using f by (simp add: flow_frame_def cr_frame_fields)
  have "\<not> Requeue r" using install_all_done [OF rest ok dn] by blast
  show ?case
  proof (cases "c = d")
    case True
    have t0: "?t = new_install_context" using Cons.prems(5) by (simp add: getComponentInstallContext_def)
    have "install_post eff d pre s (installSingleComponent E eff ?t d pre s)"
      by (rule install_run_post) (use Cons.prems(4,7,8) True t0 in \<open>simp_all add: new_install_context_def\<close>)
    with u \<open>\<not> Requeue r\<close> have "CR s1 = CR s \<or> installed_for (Name d) (Generation (CR s)) s1"
      by (auto simp: install_post_def)
    moreover have "comp_status_of s' (Name d) = comp_status_of s1 (Name d)"
      using install_all_frame [OF rest ok] fresh by blast
    ultimately show ?thesis using True by (auto simp: installed_for_def comp_status_of_def)
  next
    case False
    with Cons.prems(6) have c: "c \<in> set cs" by simp
    with fresh have ne: "Name c \<noteq> Name d" by (metis imageI)
    have same: "comp_status_of s1 (Name c) = comp_status_of s (Name c)"
      using f ne by (simp add: flow_frame_def)
    have empty: "\<forall>x \<in> set cs. compMap (put_context (Name d) t tr) (Name x) = None"
      using Cons.prems(5) fresh by (auto simp: image_iff)
    have "comp_status_of s' (Name c) = comp_status_of s1 (Name c)
        \<or> installed_for (Name c) (Generation (CR s1)) s'"
      by (rule Cons.IH [OF rest ok dn]) (use Cons.prems(4,7,8) gen same empty c in simp_all)
    with same gen show ?thesis by simp
  qed
qed

text \<open>What a finished pass has achieved: when a pass with fresh contexts over components with
  distinct names asks for no requeue, every enabled component with details was left exactly as
  it was or is now installed for the resource's generation; later components never undo or
  disturb what earlier ones recorded.\<close>

lemma finished_pass_installed:
  assumes "installComponents E eff tr pre s = Ret ((r, err), tr', s')" and "\<not> Requeue r"
    and "compMap tr = Map.empty" and "distinct (map Name (GetComponents E))" and "Generation (CR s) \<ge> 0"
    and "c \<in> set (GetComponents E)" and "IsEnabled c eff" and "comp_status_of s (Name c) \<noteq> None"
  shows "comp_status_of s' (Name c) = comp_status_of s (Name c) \<or> installed_for (Name c) (Generation (CR s)) s'"
proof -
  from assms(1) obtain b where b: "install_all E eff pre (GetComponents E) (False, tr, s) = Ret (b, tr', s')"
    and r: "r = (if b then newRequeueWithDelay (IntnRange E) else no_requeue)"
    by (auto simp: installComponents_def res_bind_Ret_iff)
  from r assms(2) have "\<not> b" by auto
  with b have "install_all E eff pre (GetComponents E) (False, tr, s) = Ret (False, tr', s')" by simp
  then show ?thesis
    by (rule install_all_installs [OF _ _ assms(4,5) _ assms(6,7,8)])
       (simp_all add: install_contexts_ok_def assms(3))
qed

definition two_installing :: "string list sys" where
  "two_installing = sample_sys (sample_cr [''istio'' \<mapsto> zero_comp_status\<lparr>csState := CompStateInstalling\<rparr>,
     ''oam'' \<mapsto> zero_comp_status\<lparr>csState := CompStateInstalling\<rparr>])"

lemma two_run:
  "case install_all (sample_env [sample_component ''istio'', sample_component ''oam'']) sample_effective False
       [sample_component ''istio'', sample_component ''oam'']
       (False, empty_tracker vzStateInstallComponents, two_installing) of
     Ret (b, tr', s') \<Rightarrow> \<not> b \<and> map_option csState (comp_status_of s' ''istio'') = Some CompStateReady
   | _ \<Rightarrow> False"
  by code_simp

lemma finished_pass_installed_witness:
  "\<exists>r tr' s'. installComponents (sample_env [sample_component ''istio'', sample_component ''oam'']) sample_effective
       (empty_tracker vzStateInstallComponents) False two_installing = Ret ((r, None), tr', s')
     \<and> installed_for ''istio'' 3 s'"
proof -
  let ?cs = "[sample_component ''istio'', sample_component ''oam'']"
  have g: "GetComponents (sample_env ?cs) = ?cs" by (simp add: GetComponents_def sample_env_def)
  have nm: "Name (sample_component n) = n" "IsEnabled (sample_component n) = (\<lambda>cr. True)" for n
    by (simp_all add: sample_component_def)
  from two_run obtain tr' s' where i: "install_all (sample_env ?cs) sample_effective False ?cs
       (False, empty_tracker vzStateInstallComponents, two_installing) = Ret (False, tr', s')"
    and st: "map_option csState (comp_status_of s' ''istio'') = Some CompStateReady"
    by (auto split: res.splits)
  then have r: "installComponents (sample_env ?cs) sample_effective
       (empty_tracker vzStateInstallComponents) False two_installing = Ret ((no_requeue, None), tr', s')"
    by (simp add: installComponents_def g)
  have h: "distinct (map Name (GetComponents (sample_env ?cs)))" "sample_component ''istio'' \<in> set (GetComponents (sample_env ?cs))"
    unfolding g by (simp_all add: nm)
  have k: "map_option csState (comp_status_of two_installing ''istio'') = Some CompStateInstalling"
    "Generation (CR two_installing) = 3" "compMap (empty_tracker vzStateInstallComponents) = Map.empty"
    by (simp_all add: two_installing_def sample_sys_def sample_cr_def comp_status_of_def empty_tracker_def)
  from finished_pass_installed [OF r _ k(3) h(1) _ h(2)] k st r show ?thesis by (auto simp: nm)
qed

end
