(* ===== verification/Reconcile_Upgrade.thy ===== *)
theory Reconcile_Upgrade imports Upgrade_Component Reconcile_Install begin

text \<open>
  The upgrade of the whole product (\<open>reconcile/upgrade.go\<close>): \<open>reconcileUpgrade\<close> is a loop over
  the state of the upgrade tracker of the resource.  Restarting pods and applications and
  cleaning up after MySQL are operations of the environment.
\<close>

section \<open>Trackers and conditions\<close>

definition new_upgrade_tracker :: "verrazzano \<Rightarrow> upgradeFlowState tracker" where
  "new_upgrade_tracker cr = \<lparr>vzFlow = vzStateStart, gen = Generation cr, compMap = Map.empty\<rparr>"

definition getUpgradeTracker :: "'w sys \<Rightarrow> upgradeFlowState tracker" where
  "getUpgradeTracker s = (case upgradeTrackerMap s (getTrackerKey (CR s)) of
       None \<Rightarrow> new_upgrade_tracker (CR s)
     | Some vuc \<Rightarrow> if gen vuc \<noteq> Generation (CR s) then new_upgrade_tracker (CR s) else vuc)"

definition put_upgrade_tracker :: "upgradeFlowState tracker \<Rightarrow> 'w sys \<Rightarrow> 'w sys" where
  "put_upgrade_tracker tr s = s\<lparr>upgradeTrackerMap := (upgradeTrackerMap s)(getTrackerKey (CR s) \<mapsto> tr)\<rparr>"

definition deleteUpgradeTracker :: "'w sys \<Rightarrow> 'w sys" where
  "deleteUpgradeTracker s = s\<lparr>upgradeTrackerMap := (upgradeTrackerMap s)(getTrackerKey (CR s) := None)\<rparr>"

definition isLastCondition :: "vz_status \<Rightarrow> condition_type \<Rightarrow> bool" where
  "isLastCondition st conditionType =
     (let l = length (vzConditions st) in
      if l = 0 then False else CondType (vzConditions st ! (l - 1)) = conditionType)"

section \<open>The flow\<close>

definition postVerrazzanoUpgrade :: "'w env \<Rightarrow> verrazzano \<Rightarrow> 'w sys \<Rightarrow> go_error option \<times> 'w sys" where
  "postVerrazzanoUpgrade E eff s = (case call_ctx (ConfigureAuthProviders E) eff s of
       (Some err, s1) \<Rightarrow> (Some err, s1)
     | (None, s1) \<Rightarrow> (case call_world (RestartComponents E (Generation (CR s1))) s1 of
           (Some err, s2) \<Rightarrow> (Some err, s2)
         | (None, s2) \<Rightarrow> call_world (PostUpgradeCleanup E) s2))"

text \<open>
  The wait for every installed component: \<open>Inl\<close> with what to return when one is not ready or
  cannot be asked.
\<close>

fun wait_components ::
  "'w env \<Rightarrow> verrazzano \<Rightarrow> 'w component list \<Rightarrow> 'w sys
    \<Rightarrow> ((ctrl_result \<times> go_error option) + unit) \<times> 'w sys" where
  "wait_components E eff [] s = (Inr (), s)"
| "wait_components E eff (c # cs) s = (case call_ctx (IsInstalled c) eff s of
       (Inl err, s1) \<Rightarrow> (Inl (no_requeue, Some err), s1)
     | (Inr installed, s1) \<Rightarrow>
         (if installed
          then (let (ready, s2) = call_ctx (IsReady c) eff s1 in
                if \<not> ready then (Inl (newRequeueWithDelay (IntnRange E), None), s2)
                else wait_components E eff cs s2)
          else wait_components E eff cs s1))"

text \<open>
  The loop at the end: the details of every enabled component that has some are brought to
  the resource's generation, in place and in the map that is sent.
\<close>

fun update_generations ::
  "verrazzano option \<Rightarrow> 'w component list \<Rightarrow> (string \<Rightarrow> comp_status option) \<Rightarrow> 'w sys
    \<Rightarrow> (string \<Rightarrow> comp_status option) \<times> 'w sys" where
  "update_generations eff [] upd s = (upd, s)"
| "update_generations eff (c # cs) upd s = (case comp_status_of s (Name c) of
       Some componentStatus \<Rightarrow>
         (if (case eff of Some e \<Rightarrow> IsEnabled c e | None \<Rightarrow> False)
          then let st = componentStatus\<lparr>LastReconciledGeneration := Generation (CR s)\<rparr>
               in update_generations eff cs (upd(Name c \<mapsto> st)) (set_comp_status (Name c) st s)
          else update_generations eff cs upd s)
     | None \<Rightarrow> update_generations eff cs upd s)"

definition upgrade_leave ::
  "ctrl_result \<Rightarrow> go_error option \<Rightarrow> upgradeFlowState tracker \<Rightarrow> 'w sys \<Rightarrow> 'x + 'w reconcile_result" where
  "upgrade_leave r err tr s = Inr (Ret ((r, err), put_upgrade_tracker tr s))"

definition upgrade_flow_step ::
  "'w env \<Rightarrow> verrazzano \<Rightarrow> upgradeFlowState tracker \<times> 'w sys
    \<Rightarrow> (upgradeFlowState tracker \<times> 'w sys) + 'w reconcile_result" where
  "upgrade_flow_step E eff ts = (case ts of (tr, s) \<Rightarrow>
    (let delay = newRequeueWithDelay (IntnRange E) in
     case vzFlow tr of
       vzStateStart \<Rightarrow>
         (if \<not> isLastCondition (Status (CR s)) CondUpgradeStarted
          then on_ret (updateStatus E (''Verrazzano upgrade to version '' @ SpecVersion (CR s) @ '' in progress'')
                         CondUpgradeStarted None s)
                 (\<lambda>err s1. upgrade_leave delay err tr s1)
          else Inl (tr\<lparr>vzFlow := vzStateUpgradeComponents\<rparr>, s))
     | vzStateUpgradeComponents \<Rightarrow> (case upgradeComponents E tr s of
           Panic m \<Rightarrow> Inr (Panic m)
         | Spin \<Rightarrow> Inr Spin
         | Ret ((result, err), tr1, s1) \<Rightarrow>
             if err \<noteq> None \<or> Requeue result then upgrade_leave result err tr1 s1
             else Inl (tr1\<lparr>vzFlow := vzStatePostUpgrade\<rparr>, s1))
     | vzStatePostUpgrade \<Rightarrow> (case postVerrazzanoUpgrade E eff s of
           (Some err, s1) \<Rightarrow> upgrade_leave delay (Some err) tr s1
         | (None, s1) \<Rightarrow> Inl (tr\<lparr>vzFlow := vzStateWaitPostUpgradeDone\<rparr>, s1))
     | vzStateWaitPostUpgradeDone \<Rightarrow> (case wait_components E eff (GetComponents E) s of
           (Inl (r, err), s1) \<Rightarrow> upgrade_leave r err tr s1
         | (Inr _, s1) \<Rightarrow> Inl (tr\<lparr>vzFlow := vzStateRestartApps\<rparr>, s1))
     | vzStateRestartApps \<Rightarrow>
         (if IsApplicationOperatorEnabled (V1alpha1 (Some eff)) \<and> IsIstioEnabled (V1alpha1 (Some eff))
          then (case call_world (RestartApps E (Generation (CR s))) s of
              (Some err, s1) \<Rightarrow> upgrade_leave delay (Some err) tr s1
            | (None, s1) \<Rightarrow> Inl (tr\<lparr>vzFlow := vzStateUpgradeDone\<rparr>, s1))
          else Inl (tr\<lparr>vzFlow := vzStateUpgradeDone\<rparr>, s))
     | vzStateUpgradeDone \<Rightarrow>
         (let effectiveCR = (case NewContext E (CR s) of Inr e \<Rightarrow> Some e | Inl err \<Rightarrow> None);
              (upd, s1) = update_generations effectiveCR (GetComponents E) Map.empty s
          in upgrade_leave delay None (tr\<lparr>vzFlow := vzStateEnd\<rparr>)
               (send (zero_event\<lparr>evComponents := upd, evVersion := Some (SpecVersion (CR s))\<rparr>) s1))
     | vzStateEnd \<Rightarrow> Inr (Ret ((no_requeue, None), deleteUpgradeTracker s))))"

definition reconcileUpgrade :: "'w env \<Rightarrow> 'w sys \<Rightarrow> 'w reconcile_result" where
  "reconcileUpgrade E s = (case NewContext E (CR s) of
       Inl err \<Rightarrow> Ret ((newRequeueWithDelay (IntnRange E), Some err), s)
     | Inr eff \<Rightarrow> loop_res (upgrade_flow_step E eff) (getUpgradeTracker s, s))"

section \<open>The flow as a ranked loop\<close>

fun upgrade_flow_rank :: "upgradeFlowState \<Rightarrow> nat" where
  "upgrade_flow_rank vzStateEnd = 0"
| "upgrade_flow_rank vzStateUpgradeDone = 1"
| "upgrade_flow_rank vzStateRestartApps = 2"
| "upgrade_flow_rank vzStateWaitPostUpgradeDone = 3"
| "upgrade_flow_rank vzStatePostUpgrade = 4"
| "upgrade_flow_rank vzStateUpgradeComponents = 5"
| "upgrade_flow_rank vzStateStart = 6"

lemma upgrade_leave_simps [simp]:
  "upgrade_leave r e tr s \<noteq> Inl x"
  "upgrade_leave r e tr s = Inr y \<longleftrightarrow> y = Ret ((r, e), put_upgrade_tracker tr s)"
  by (auto simp: upgrade_leave_def)

lemma upgrade_contexts_flow [simp]: "upgrade_contexts_ok (tr\<lparr>vzFlow := v\<rparr>) = upgrade_contexts_ok tr"
  by (simp add: upgrade_contexts_ok_def)

lemma upgrade_all_run:
  assumes "upgrade_contexts_ok tr"
  shows "case upgrade_all E eff cs (tr, s) of Spin \<Rightarrow> False | Panic m \<Rightarrow> True
     | Ret (r, tr', s') \<Rightarrow> upgrade_contexts_ok tr'"
  using assms
proof (induction cs arbitrary: tr s)
  case Nil
  then show ?case by simp
next
  case (Cons c cs)
  let ?t = "getComponentUpgradeContext tr (Name c)"
  from upgrade_run_done [OF getComponentUpgradeContext_ok [OF Cons.prems], of E eff "Name c" c s]
  have run: "case upgradeSingleComponent E eff ?t c s of
       Spin \<Rightarrow> False | Panic m \<Rightarrow> True
     | Ret ((r, err), t', s') \<Rightarrow> upgradeState t' \<noteq> UnsetUpgradeState
         \<and> (upgradeState t' = compStateUpgradeEnd \<longleftrightarrow> err = None \<and> \<not> Requeue r)" .
  show ?case
  proof (cases "upgradeSingleComponent E eff ?t c s")
    case (Ret x)
    obtain r err t' s' where x: "x = ((r, err), t', s')" by (cases x) auto
    with run Ret Cons.prems have ok: "upgrade_contexts_ok (put_context (Name c) t' tr)"
      by (simp add: upgrade_contexts_ok_def)
    with Cons.IH [OF ok] Ret x show ?thesis by (simp add: Let_def)
  qed (use run in auto)
qed

lemma upgradeComponents_run:
  assumes "upgrade_contexts_ok tr"
  shows "case upgradeComponents E tr s of Spin \<Rightarrow> False | Panic m \<Rightarrow> True
     | Ret (r, tr', s') \<Rightarrow> upgrade_contexts_ok tr'"
proof (cases "NewContext E (CR s)")
  case (Inl err)
  with assms show ?thesis by (simp add: upgradeComponents_def)
next
  case (Inr eff)
  with upgrade_all_run [OF assms, of E eff "GetComponents E" s] show ?thesis by (simp add: upgradeComponents_def)
qed

lemma upgradeComponents_ok:
  "upgrade_contexts_ok tr \<Longrightarrow> upgradeComponents E tr s = Ret (r, tr', s') \<Longrightarrow> upgrade_contexts_ok tr'"
  using upgradeComponents_run [of tr E s] by simp

lemma upgradeComponents_no_spin: "upgrade_contexts_ok tr \<Longrightarrow> upgradeComponents E tr s \<noteq> Spin"
  using upgradeComponents_run [of tr E s] by auto

lemmas upgrade_flow_simps = upgrade_flow_step_def on_ret_Inl_iff on_ret_Inr_iff Let_def

interpretation uflow: ranked_res_loop "upgrade_flow_step E eff"
  "\<lambda>ts. upgrade_flow_rank (vzFlow (fst ts))" "\<lambda>ts. upgrade_contexts_ok (fst ts)" for E eff
proof
  fix ts ts' :: "upgradeFlowState tracker \<times> 'a sys"
  assume g: "upgrade_contexts_ok (fst ts)" and st: "upgrade_flow_step E eff ts = Inl ts'"
  obtain tr s where ts: "ts = (tr, s)" by fastforce
  from g st show "upgrade_contexts_ok (fst ts')" unfolding ts
    by (cases "vzFlow tr")
       (auto simp: upgrade_flow_simps split: if_splits prod.splits option.splits res.splits sum.splits
         dest: upgradeComponents_ok)
  from g st show "upgrade_flow_rank (vzFlow (fst ts')) < upgrade_flow_rank (vzFlow (fst ts))" unfolding ts
    by (cases "vzFlow tr")
       (auto simp: upgrade_flow_simps split: if_splits prod.splits option.splits res.splits sum.splits)
next
  fix ts :: "upgradeFlowState tracker \<times> 'a sys"
  assume g: "upgrade_contexts_ok (fst ts)"
  obtain tr s where ts: "ts = (tr, s)" by fastforce
  from g show "upgrade_flow_step E eff ts \<noteq> Inr Spin" unfolding ts
    by (cases "vzFlow tr")
       (auto simp: upgrade_flow_simps upgradeComponents_no_spin updateStatus_no_spin
         split: if_splits prod.splits option.splits res.splits sum.splits)
qed


section \<open>What a call may change\<close>

text \<open>Up to its last step the flow changes component details only, and announces no version.\<close>

definition upgrade_frame :: "'w sys \<Rightarrow> 'w sys \<Rightarrow> bool" where
  "upgrade_frame s s' \<longleftrightarrow> cr_frame (CR s) (CR s') \<and> maps_same s s'
     \<and> (\<exists>evs. Sent s' = Sent s @ evs \<and> (\<forall>ev \<in> set evs. evVersion ev = None))"

lemma upgrade_frame_refl [simp]: "upgrade_frame s s"
  by (simp add: upgrade_frame_def)

lemma upgrade_frame_trans: "upgrade_frame a b \<Longrightarrow> upgrade_frame b c \<Longrightarrow> upgrade_frame a c"
  unfolding upgrade_frame_def by (auto intro: cr_frame_trans maps_same_trans)

lemma upgrade_frame_call: "call_ctx f eff s = (r, s') \<Longrightarrow> upgrade_frame s s'"
  by (simp add: upgrade_frame_def maps_same_def sys_simps)

lemma upgrade_frame_world: "call_world f s = (r, s') \<Longrightarrow> upgrade_frame s s'"
  by (simp add: upgrade_frame_def maps_same_def sys_simps)

lemma upgrade_frame_update:
  assumes "updateComponentStatus E eff n m ct s = Ret (e, s')"
  shows "upgrade_frame s s'"
  using updateComponentStatus_effect(2,4-7) [OF assms]
  by (auto simp: upgrade_frame_def maps_same_def zero_event_def)

lemma upgrade_frame_delete: "upgrade_frame s (delete_secrets E xs s)"
proof (induction xs arbitrary: s)
  case Nil
  then show ?case by simp
next
  case (Cons x xs)
  have "upgrade_frame s (snd (call_world (DeleteSecret E x) s))"
    by (cases "call_world (DeleteSecret E x) s") (simp add: upgrade_frame_world)
  with Cons show ?case by (auto intro: upgrade_frame_trans)
qed

lemma upgrade_frame_pending: "upgrade_frame s (resolvePendingUpgrades E n s)"
  by (auto simp: resolvePendingUpgrades_def split: prod.splits sum.splits
      intro: upgrade_frame_world upgrade_frame_delete upgrade_frame_trans)

lemmas upgrade_frames = upgrade_frame_call upgrade_frame_world upgrade_frame_update upgrade_frame_pending

lemma upgrade_step_frame:
  "upgrade_step E eff c (t, s) = Inl (t', s') \<Longrightarrow> upgrade_frame s s'"
  "upgrade_step E eff c (t, s) = Inr (Ret (r, t', s')) \<Longrightarrow> upgrade_frame s s'"
  by (cases "upgradeState t";
      auto simp: upgrade_step_simps split: if_splits prod.splits sum.splits option.splits
        intro: upgrade_frames upgrade_frame_trans)+

lemma upgrade_run_frame:
  assumes "upgradeState t \<noteq> UnsetUpgradeState" and "upgradeSingleComponent E eff t c s = Ret (r, t', s')"
  shows "upgrade_frame s s'"
proof -
  have "\<forall>r t' s'. loop_res (upgrade_step E eff c) (t, s) = Ret (r, t', s') \<longrightarrow> upgrade_frame s s'"
  proof (rule upgr.loop_res_rule [where I = "\<lambda>ts. upgrade_frame s (snd ts)"])
    fix a x :: "tracker_context \<times> 'a sys"
    assume "upgrade_frame s (snd a)" "upgrade_step E eff c a = Inl x"
    then show "upgrade_frame s (snd x)"
      using upgrade_step_frame(1) [of E eff c "fst a" "snd a" "fst x" "snd x"]
      by (simp add: upgrade_frame_trans [of s "snd a"])
  next
    fix a :: "tracker_context \<times> 'a sys" and res
    assume "upgrade_frame s (snd a)" "upgrade_step E eff c a = Inr res"
    then show "\<forall>r t' s'. res = Ret (r, t', s') \<longrightarrow> upgrade_frame s s'"
      using upgrade_step_frame(2) [of E eff c "fst a" "snd a"]
      by (auto intro: upgrade_frame_trans [of s "snd a"])
  qed (use assms(1) in simp_all)
  with assms(2) show ?thesis by (simp add: upgradeSingleComponent_def)
qed

lemma upgrade_all_frame:
  assumes "upgrade_all E eff cs (tr, s) = Ret (r, tr', s')" and "upgrade_contexts_ok tr"
  shows "upgrade_frame s s'"
  using assms
proof (induction cs arbitrary: tr s)
  case Nil
  then show ?case by simp
next
  case (Cons c cs)
  let ?t = "getComponentUpgradeContext tr (Name c)"
  from Cons.prems(1) obtain q e t s1 where u: "upgradeSingleComponent E eff ?t c s = Ret ((q, e), t, s1)"
    and rest: "(if e \<noteq> None \<or> Requeue q then Ret ((q, e), put_context (Name c) t tr, s1)
       else upgrade_all E eff cs (put_context (Name c) t tr, s1)) = Ret (r, tr', s')"
    by (auto simp: res_bind_Ret_iff Let_def)
  note good = getComponentUpgradeContext_ok [OF Cons.prems(2)]
  from upgrade_run_done [OF good, of E eff "Name c" c s] u
  have ok: "upgrade_contexts_ok (put_context (Name c) t tr)"
    using Cons.prems(2) by (simp add: upgrade_contexts_ok_def)
  note f = upgrade_run_frame [OF good u]
  show ?case
  proof (cases "e \<noteq> None \<or> Requeue q")
    case True
    with rest f show ?thesis by auto
  next
    case False
    with rest have "upgrade_all E eff cs (put_context (Name c) t tr, s1) = Ret (r, tr', s')" by simp
    from Cons.IH [OF this ok] f show ?thesis by (auto intro: upgrade_frame_trans)
  qed
qed

lemma upgradeComponents_frame:
  assumes "upgradeComponents E tr s = Ret (r, tr', s')" and "upgrade_contexts_ok tr"
  shows "upgrade_frame s s'"
  using assms(1) upgrade_all_frame [OF _ assms(2)]
  by (cases r) (auto simp: upgradeComponents_def split: sum.splits)


lemma wait_components_frame: "wait_components E eff cs s = (r, s') \<Longrightarrow> upgrade_frame s s'"
proof (induction cs arbitrary: s)
  case Nil
  then show ?case by simp
next
  case (Cons c cs)
  obtain i s1 where i: "call_ctx (IsInstalled c) eff s = (i, s1)" by fastforce
  obtain b s2 where b: "call_ctx (IsReady c) eff s1 = (b, s2)" by fastforce
  note f = upgrade_frame_call [OF i] upgrade_frame_trans [OF upgrade_frame_call [OF i] upgrade_frame_call [OF b]]
  from Cons.prems i b f show ?case
    by (auto split: sum.splits if_splits dest!: Cons.IH intro: upgrade_frame_trans)
qed

lemma postVerrazzanoUpgrade_frame:
  assumes "postVerrazzanoUpgrade E eff s = (r, s')"
  shows "upgrade_frame s s'"
proof -
  obtain e1 s1 where 1: "call_ctx (ConfigureAuthProviders E) eff s = (e1, s1)" by fastforce
  obtain e2 s2 where 2: "call_world (RestartComponents E (Generation (CR s1))) s1 = (e2, s2)" by fastforce
  obtain e3 s3 where 3: "call_world (PostUpgradeCleanup E) s2 = (e3, s3)" by fastforce
  have f: "upgrade_frame s s1" "upgrade_frame s s2" "upgrade_frame s s3"
    using upgrade_frame_call [OF 1] upgrade_frame_world [OF 2] upgrade_frame_world [OF 3]
    by (blast intro: upgrade_frame_trans)+
  from assms 1 2 3 have "s' = s1 \<or> s' = s2 \<or> s' = s3"
    by (auto simp: postVerrazzanoUpgrade_def split: option.splits)
  with f show ?thesis by blast
qed

lemma updateStatus_upgrade_started:
  assumes "updateStatus E msg CondUpgradeStarted None s = Ret (e, s')"
  shows "upgrade_frame s s'"
  using assms by (auto simp: updateStatus_def Let_def upgrade_frame_def maps_same_def)

lemma update_generations_frame:
  assumes "update_generations eff cs upd s = (upd', s')"
    and "\<forall>n st. upd n = Some st \<longrightarrow> LastReconciledGeneration st = Generation (CR s) \<and> comp_status_of s n = Some st"
  shows "cr_frame (CR s) (CR s') \<and> maps_same s s' \<and> Sent s' = Sent s
    \<and> (\<forall>n st. upd' n = Some st \<longrightarrow> LastReconciledGeneration st = Generation (CR s) \<and> comp_status_of s' n = Some st)"
  using assms
proof (induction cs arbitrary: upd s)
  case Nil
  then show ?case by simp
next
  case (Cons c cs)
  let ?e = "case eff of Some e \<Rightarrow> IsEnabled c e | None \<Rightarrow> False"
  show ?case
  proof (cases "comp_status_of s (Name c) \<noteq> None \<and> ?e")
    case True
    then obtain st where st: "comp_status_of s (Name c) = Some st" by auto
    from True obtain e where e: "eff = Some e" "IsEnabled c e" by (cases eff) simp_all
    let ?st = "st\<lparr>LastReconciledGeneration := Generation (CR s)\<rparr>"
    let ?s1 = "set_comp_status (Name c) ?st s"
    have f: "cr_frame (CR s) (CR ?s1)" "maps_same s ?s1" "Sent ?s1 = Sent s"
      "Generation (CR ?s1) = Generation (CR s)"
      using store_status_cr_frame [of s True "Name c" ?st] by (simp_all add: store_status_def maps_same_def)
    from Cons.prems(1) st e have "update_generations eff cs (upd(Name c \<mapsto> ?st)) ?s1 = (upd', s')"
      by (simp add: Let_def)
    note ih = Cons.IH [OF this]
    have "\<forall>n st'. (upd(Name c \<mapsto> ?st)) n = Some st' \<longrightarrow>
        LastReconciledGeneration st' = Generation (CR ?s1) \<and> comp_status_of ?s1 n = Some st'"
      using Cons.prems(2) f(4) by simp
    from ih [OF this] f(1-4) show ?thesis
      using cr_frame_trans [OF f(1)] maps_same_trans [OF f(2)] by simp
  next
    case False
    with Cons.prems(1) have "update_generations eff cs upd s = (upd', s')"
      by (cases "comp_status_of s (Name c)") auto
    from Cons.IH [OF this Cons.prems(2)] show ?thesis .
  qed
qed

section \<open>The order of the flow\<close>

definition all_upgraded :: "'w env \<Rightarrow> 'v tracker \<Rightarrow> bool" where
  "all_upgraded E tr \<longleftrightarrow>
     list_all (\<lambda>c. map_option upgradeState (compMap tr (Name c)) = Some compStateUpgradeEnd) (GetComponents E)"

text \<open>A tracker past the components has the machine of every component at its end.\<close>

definition upgrade_tracker_ok :: "'w env \<Rightarrow> upgradeFlowState tracker \<Rightarrow> bool" where
  "upgrade_tracker_ok E tr \<longleftrightarrow> upgrade_contexts_ok tr
     \<and> (vzFlow tr \<noteq> vzStateStart \<and> vzFlow tr \<noteq> vzStateUpgradeComponents \<longrightarrow> all_upgraded E tr)"

definition upgrade_trackers_ok :: "'w env \<Rightarrow> 'w sys \<Rightarrow> bool" where
  "upgrade_trackers_ok E s \<longleftrightarrow> (\<forall>k tr. upgradeTrackerMap s k = Some tr \<longrightarrow> upgrade_tracker_ok E tr)"

lemma getUpgradeTracker_ok: "upgrade_trackers_ok E s \<Longrightarrow> upgrade_tracker_ok E (getUpgradeTracker s)"
  by (auto simp: upgrade_trackers_ok_def getUpgradeTracker_def new_upgrade_tracker_def upgrade_tracker_ok_def
      upgrade_contexts_ok_def split: option.splits)

lemma all_upgraded_flow [simp]: "all_upgraded E (tr\<lparr>vzFlow := v\<rparr>) = all_upgraded E tr"
  by (simp add: all_upgraded_def)

lemma upgradeComponents_tracker:
  assumes "upgradeComponents E tr s = Ret ((r, err), tr', s')" and "upgrade_contexts_ok tr"
    and "distinct (map Name (GetComponents E))"
  shows "upgrade_contexts_ok tr' \<and> vzFlow tr' = vzFlow tr \<and> (err = None \<and> \<not> Requeue r \<longrightarrow> all_upgraded E tr')"
proof (cases "NewContext E (CR s)")
  case (Inl e)
  with assms show ?thesis by (auto simp: upgradeComponents_def)
next
  case (Inr eff)
  with assms(1) have "upgrade_all E eff (GetComponents E) (tr, s) = Ret ((r, err), tr', s')"
    by (simp add: upgradeComponents_def)
  from upgrade_all_prefix [OF this assms(2,3)] show ?thesis
    by (auto simp: upgrade_prefix_def all_upgraded_def list_all_iff split: if_splits)
qed


lemma upgrade_flow_step_Inl:
  assumes "upgrade_tracker_ok E tr" and "distinct (map Name (GetComponents E))"
    and "upgrade_flow_step E eff (tr, s) = Inl (tr', s')"
  shows "upgrade_tracker_ok E tr' \<and> upgrade_frame s s'"
proof (cases "vzFlow tr")
  case vzStateUpgradeComponents
  with assms(3) obtain r tr1 where u: "upgradeComponents E tr s = Ret ((r, None), tr1, s')"
    and r: "\<not> Requeue r" and tr': "tr' = tr1\<lparr>vzFlow := vzStatePostUpgrade\<rparr>"
    by (auto simp: upgrade_flow_step_def Let_def split: res.splits if_splits)
  have ok: "upgrade_contexts_ok tr" using assms(1) by (simp add: upgrade_tracker_ok_def)
  from upgradeComponents_tracker [OF u ok assms(2)] upgradeComponents_frame [OF u ok] r tr'
  show ?thesis by (simp add: upgrade_tracker_ok_def)
next
  case vzStateStart
  with assms(1,3) show ?thesis
    by (auto simp: upgrade_flow_simps upgrade_tracker_ok_def split: if_splits)
next
  case vzStatePostUpgrade
  with assms(1,3) show ?thesis
    by (auto simp: upgrade_flow_simps upgrade_tracker_ok_def split: prod.splits option.splits
        intro: postVerrazzanoUpgrade_frame)
next
  case vzStateWaitPostUpgradeDone
  with assms(1,3) show ?thesis
    by (auto simp: upgrade_flow_simps upgrade_tracker_ok_def split: prod.splits sum.splits
        intro: wait_components_frame)
next
  case vzStateRestartApps
  with assms(1,3) show ?thesis
    by (auto simp: upgrade_flow_simps upgrade_tracker_ok_def split: prod.splits option.splits if_splits
        intro: upgrade_frame_world)
qed (use assms(3) in \<open>auto simp: upgrade_flow_simps split: prod.splits\<close>)

text \<open>How an iteration leaves the loop: early, announcing the new version, or at the end.\<close>

definition announces :: "'w sys \<Rightarrow> update_event \<Rightarrow> bool" where
  "announces s ev \<longleftrightarrow> evVersion ev = Some (SpecVersion (CR s))
     \<and> (\<forall>n st. evComponents ev n = Some st \<longrightarrow>
          LastReconciledGeneration st = Generation (CR s) \<and> comp_status_of s n = Some st)"

definition upgrade_left ::
  "'w env \<Rightarrow> 'w sys \<Rightarrow> ctrl_result \<Rightarrow> go_error option \<Rightarrow> 'w sys \<Rightarrow> bool" where
  "upgrade_left E s r err s' \<longleftrightarrow>
     (\<exists>tr s1. s' = put_upgrade_tracker tr s1 \<and> upgrade_tracker_ok E tr \<and> (err \<noteq> None \<or> Requeue r)
        \<and> upgrade_frame s s1)
   \<or> (\<exists>tr s1 ev. s' = put_upgrade_tracker tr (send ev s1) \<and> upgrade_tracker_ok E tr \<and> vzFlow tr = vzStateEnd
        \<and> err = None \<and> Requeue r \<and> upgrade_frame s s1 \<and> announces s1 ev)
   \<or> (s' = deleteUpgradeTracker s \<and> err = None \<and> \<not> Requeue r)"


lemma upgrade_flow_step_left:
  assumes "upgrade_tracker_ok E tr" and "distinct (map Name (GetComponents E))"
    and "upgrade_flow_step E eff (tr, s) = Inr (Ret ((r, err), s'))"
  shows "upgrade_left E s r err s'"
proof -
  have early: "upgrade_left E s r err s'"
    if "s' = put_upgrade_tracker tr1 s1" "upgrade_tracker_ok E tr1" "err \<noteq> None \<or> Requeue r" "upgrade_frame s s1"
    for tr1 s1 using that unfolding upgrade_left_def by blast
  show ?thesis
  proof (cases "vzFlow tr")
    case vzStateStart
    with assms(3) obtain e s1 where "updateStatus E (''Verrazzano upgrade to version '' @ SpecVersion (CR s) @ '' in progress'')
        CondUpgradeStarted None s = Ret (e, s1)" "s' = put_upgrade_tracker tr s1" "Requeue r"
      by (auto simp: upgrade_flow_simps split: if_splits)
    with assms(1) show ?thesis by (intro early [of tr s1]) (auto intro: updateStatus_upgrade_started)
  next
    case vzStateUpgradeComponents
    with assms(3) obtain tr1 s1 where u: "upgradeComponents E tr s = Ret ((r, err), tr1, s1)"
      and e: "err \<noteq> None \<or> Requeue r" and s': "s' = put_upgrade_tracker tr1 s1"
      by (auto simp: upgrade_flow_step_def Let_def split: res.splits if_splits)
    have ok: "upgrade_contexts_ok tr" using assms(1) by (simp add: upgrade_tracker_ok_def)
    from upgradeComponents_tracker [OF u ok assms(2)] vzStateUpgradeComponents have "upgrade_tracker_ok E tr1"
      by (simp add: upgrade_tracker_ok_def)
    then show ?thesis by (rule early [OF s' _ e upgradeComponents_frame [OF u ok]])
  next
    case vzStatePostUpgrade
    with assms(3) obtain s1 where "postVerrazzanoUpgrade E eff s = (err, s1)" "s' = put_upgrade_tracker tr s1" "Requeue r"
      by (auto simp: upgrade_flow_simps split: prod.splits option.splits)
    with assms(1) show ?thesis by (intro early [of tr s1]) (auto intro: postVerrazzanoUpgrade_frame)
  next
    case vzStateWaitPostUpgradeDone
    with assms(3) obtain s1 where w: "wait_components E eff (GetComponents E) s = (Inl (r, err), s1)"
      and s': "s' = put_upgrade_tracker tr s1"
      by (auto simp: upgrade_flow_simps split: prod.splits sum.splits)
    have "wait_components E eff cs u = (Inl (r, err), v) \<Longrightarrow> err \<noteq> None \<or> Requeue r" for cs u v
      by (induction cs arbitrary: u) (auto simp: Let_def split: prod.splits sum.splits if_splits)
    from this [OF w] show ?thesis by (rule early [OF s' assms(1) _ wait_components_frame [OF w]])
  next
    case vzStateRestartApps
    with assms(3) obtain s1 where "call_world (RestartApps E (Generation (CR s))) s = (err, s1)"
      "s' = put_upgrade_tracker tr s1" "Requeue r"
      by (auto simp: upgrade_flow_simps split: prod.splits option.splits if_splits)
    with assms(1) show ?thesis by (intro early [of tr s1]) (auto intro: upgrade_frame_world)
  next
    case vzStateUpgradeDone
    let ?eff = "case NewContext E (CR s) of Inr e \<Rightarrow> Some e | Inl err \<Rightarrow> None"
    obtain upd s1 where u: "update_generations ?eff (GetComponents E) Map.empty s = (upd, s1)" by fastforce
    let ?ev = "zero_event\<lparr>evComponents := upd, evVersion := Some (SpecVersion (CR s))\<rparr>"
    from vzStateUpgradeDone assms(3) u have q: "r = newRequeueWithDelay (IntnRange E)" "err = None"
      "s' = put_upgrade_tracker (tr\<lparr>vzFlow := vzStateEnd\<rparr>) (send ?ev s1)"
      by (simp_all add: upgrade_flow_simps)
    note f = update_generations_frame [OF u, simplified]
    then have "upgrade_frame s s1" by (simp add: upgrade_frame_def)
    moreover have "announces s1 ?ev"
      using f cr_frame_fields [of "CR s" "CR s1"] by (simp add: announces_def)
    moreover have "upgrade_tracker_ok E (tr\<lparr>vzFlow := vzStateEnd\<rparr>)"
      using assms(1) vzStateUpgradeDone by (simp add: upgrade_tracker_ok_def)
    ultimately show ?thesis using q unfolding upgrade_left_def
      by (intro disjI2 disjI1 exI [of _ "tr\<lparr>vzFlow := vzStateEnd\<rparr>"] exI [of _ s1] exI [of _ ?ev]) simp
  next
    case vzStateEnd
    with assms(3) show ?thesis by (simp add: upgrade_flow_simps upgrade_left_def)
  qed
qed


lemma upgrade_run_left:
  assumes "reconcileUpgrade E s = Ret ((r, err), s')" and "upgrade_trackers_ok E s"
    and "distinct (map Name (GetComponents E))"
  shows "(s' = s \<and> err \<noteq> None) \<or> (\<exists>s1. upgrade_frame s s1 \<and> upgrade_left E s1 r err s')"
proof (cases "NewContext E (CR s)")
  case (Inl e)
  with assms(1) show ?thesis by (auto simp: reconcileUpgrade_def)
next
  case (Inr eff)
  let ?I = "\<lambda>ts. upgrade_tracker_ok E (fst ts) \<and> upgrade_frame s (snd ts)"
  have t0: "upgrade_tracker_ok E (getUpgradeTracker s)" by (rule getUpgradeTracker_ok [OF assms(2)])
  have "\<forall>r err s'. loop_res (upgrade_flow_step E eff) (getUpgradeTracker s, s) = Ret ((r, err), s') \<longrightarrow>
      (\<exists>s1. upgrade_frame s s1 \<and> upgrade_left E s1 r err s')"
  proof (rule uflow.loop_res_rule [where I = ?I])
    show "upgrade_contexts_ok (fst (getUpgradeTracker s, s))" using t0 by (simp add: upgrade_tracker_ok_def)
    show "?I (getUpgradeTracker s, s)" using t0 by simp
  next
    fix a b :: "upgradeFlowState tracker \<times> 'a sys"
    assume "?I a" "upgrade_flow_step E eff a = Inl b"
    with upgrade_flow_step_Inl [of E "fst a" eff "snd a" "fst b" "snd b"] assms(3) show "?I b"
      using upgrade_frame_trans [of s "snd a" "snd b"] by simp
  next
    fix a :: "upgradeFlowState tracker \<times> 'a sys" and res
    assume "?I a" "upgrade_flow_step E eff a = Inr res"
    with upgrade_flow_step_left [of E "fst a" eff "snd a"] assms(3)
    show "\<forall>r err s'. res = Ret ((r, err), s') \<longrightarrow> (\<exists>s1. upgrade_frame s s1 \<and> upgrade_left E s1 r err s')"
      by (metis prod.collapse)
  qed
  with Inr assms(1) show ?thesis by (simp add: reconcileUpgrade_def)
qed

section \<open>Properties\<close>

definition upgrade_flow_post :: "'w env \<Rightarrow> 'w sys \<Rightarrow> 'w reconcile_result \<Rightarrow> bool" where
  "upgrade_flow_post E s res = (case res of
       Spin \<Rightarrow> False
     | Panic m \<Rightarrow> True
     | Ret ((r, err), s') \<Rightarrow> upgrade_trackers_ok E s' \<and> cr_frame (CR s) (CR s')
         \<and> (err = None \<and> \<not> Requeue r \<longrightarrow> upgradeTrackerMap s' (getTrackerKey (CR s)) = None)
         \<and> (\<forall>k. k \<noteq> getTrackerKey (CR s) \<longrightarrow> upgradeTrackerMap s' k = upgradeTrackerMap s k))"

lemma reconcileUpgrade_no_spin: "upgrade_trackers_ok E s \<Longrightarrow> reconcileUpgrade E s \<noteq> Spin"
  using getUpgradeTracker_ok [of E s]
  by (auto simp: reconcileUpgrade_def upgrade_tracker_ok_def uflow.loop_never_spins split: sum.splits)

lemma upgrade_left_post:
  assumes "upgrade_frame s s1" and "upgrade_left E s1 r err s'" and "upgrade_trackers_ok E s"
  shows "upgrade_flow_post E s (Ret ((r, err), s'))"
proof -
  have put: "upgrade_trackers_ok E (put_upgrade_tracker tr u) \<and> cr_frame (CR s) (CR (put_upgrade_tracker tr u))
      \<and> (\<forall>k. k \<noteq> getTrackerKey (CR s) \<longrightarrow> upgradeTrackerMap (put_upgrade_tracker tr u) k = upgradeTrackerMap s k)"
    if "upgrade_tracker_ok E tr" "cr_frame (CR s) (CR u)" "upgradeTrackerMap u = upgradeTrackerMap s" for tr u
    using that assms(3) tracker_key_frame [OF that(2)]
    by (auto simp: put_upgrade_tracker_def upgrade_trackers_ok_def)
  have up: "cr_frame (CR s) (CR u) \<and> upgradeTrackerMap u = upgradeTrackerMap s" if "upgrade_frame s1 u" for u
    using upgrade_frame_trans [OF assms(1) that] by (simp add: upgrade_frame_def maps_same_def)
  from assms(2) consider
      tr u where "s' = put_upgrade_tracker tr u" "upgrade_tracker_ok E tr" "err \<noteq> None \<or> Requeue r" "upgrade_frame s1 u"
    | tr u ev where "s' = put_upgrade_tracker tr (send ev u)" "upgrade_tracker_ok E tr" "Requeue r" "upgrade_frame s1 u"
    | "s' = deleteUpgradeTracker s1" "err = None" "\<not> Requeue r"
    unfolding upgrade_left_def by blast
  then show ?thesis
  proof cases
    case 1
    with put [of tr u] up [of u] show ?thesis by (auto simp: upgrade_flow_post_def)
  next
    case 2
    with put [of tr "send ev u"] up [of u] show ?thesis by (simp add: upgrade_flow_post_def)
  next
    case 3
    from up [OF upgrade_frame_refl] have f: "cr_frame (CR s) (CR s1)" "upgradeTrackerMap s1 = upgradeTrackerMap s"
      by auto
    with 3 assms(3) tracker_key_frame [OF f(1)] show ?thesis
      by (auto simp: upgrade_flow_post_def deleteUpgradeTracker_def upgrade_trackers_ok_def)
  qed
qed

text \<open>The upgrade flow always comes back (or panics), leaves trackers the next call can use,
  among them that no tracker is past the components while one of them is not upgraded,
  changes nothing of the resource but component details, forgets the resource's tracker when it
  reports that nothing is left to do, and does not touch other resources' trackers.\<close>

lemma reconcile_upgrade_returns:
  assumes "upgrade_trackers_ok E s" and "distinct (map Name (GetComponents E))"
  shows "upgrade_flow_post E s (reconcileUpgrade E s)"
proof (cases "reconcileUpgrade E s")
  case (Ret x)
  obtain r err s' where x: "x = ((r, err), s')" by (cases x) auto
  from upgrade_run_left [OF _ assms] Ret x
  consider "s' = s" "err \<noteq> None" | s1 where "upgrade_frame s s1" "upgrade_left E s1 r err s'" by blast
  then show ?thesis
  proof cases
    case 1
    with Ret x assms(1) show ?thesis by (auto simp: upgrade_flow_post_def)
  next
    case 2
    with upgrade_left_post [OF 2 assms(1)] Ret x show ?thesis by simp
  qed
next
  case Spin
  with reconcileUpgrade_no_spin [OF assms(1)] show ?thesis by simp
qed (simp add: upgrade_flow_post_def)


text \<open>A resource whose last condition is Upgrade Started, with one installed component.\<close>

definition upgrading_sys :: "string list sys" where
  "upgrading_sys = istio_ready\<lparr>CR := (CR istio_ready)\<lparr>SpecVersion := ''1.6.0'',
     Status := (Status (CR istio_ready))\<lparr>vzConditions :=
       [\<lparr>LastTransitionTime = [], Message = [], CondStatus = ConditionTrue, CondType = CondUpgradeStarted\<rparr>]\<rparr>\<rparr>\<rparr>"

lemma sample_components: "GetComponents (sample_env cs) = cs"
  by (simp add: GetComponents_def sample_env_def)

lemma upgrading_trackers: "upgrade_trackers_ok E upgrading_sys"
  by (simp add: upgrade_trackers_ok_def upgrading_sys_def istio_ready_def sample_sys_def)

lemma reconcile_upgrade_returns_witness:
  "upgrade_flow_post (sample_env [sample_component ''istio'']) upgrading_sys
     (reconcileUpgrade (sample_env [sample_component ''istio'']) upgrading_sys)"
  by (rule reconcile_upgrade_returns) (simp_all add: upgrading_trackers sample_components)

text \<open>C5. The new version is announced last: when a call of the upgrade flow puts an event on the
  channel that names a version, that version is the one asked for, the details it carries are
  at the resource's generation and are those the resource now holds, and the remembered tracker
  is at its end with the machine of every registered component at its end, so the product
  never reports a version before all its components were upgraded; and the call asks to be
  called again.\<close>

theorem version_announced_last:
  assumes "reconcileUpgrade E s = Ret ((r, err), s')" and "upgrade_trackers_ok E s"
    and "distinct (map Name (GetComponents E))"
    and "ev \<in> set (drop (length (Sent s)) (Sent s'))" and "evVersion ev \<noteq> None"
  shows "announces s' ev \<and> err = None \<and> Requeue r
    \<and> (\<exists>tr. upgradeTrackerMap s' (getTrackerKey (CR s)) = Some tr \<and> vzFlow tr = vzStateEnd \<and> all_upgraded E tr)"
proof -
  from upgrade_run_left [OF assms(1-3)] assms(4)
  obtain s1 where f1: "upgrade_frame s s1" and left: "upgrade_left E s1 r err s'" by auto
  have quiet: "evVersion ev = None"
    if "upgrade_frame s u" "Sent s' = Sent u" for u
    using that assms(4) by (auto simp: upgrade_frame_def)
  from left [unfolded upgrade_left_def] show ?thesis
  proof (elim disjE exE conjE)
    fix tr u assume "s' = put_upgrade_tracker tr u" "upgrade_frame s1 u"
    with quiet [of u] upgrade_frame_trans [OF f1] assms(5) show ?thesis by (simp add: put_upgrade_tracker_def)
  next
    fix tr u assume "s' = put_upgrade_tracker tr u" "upgrade_frame s1 u"
    with quiet [of u] upgrade_frame_trans [OF f1] assms(5) show ?thesis by (simp add: put_upgrade_tracker_def)
  next
    fix tr u ev1 assume 2: "s' = put_upgrade_tracker tr (send ev1 u)" "upgrade_tracker_ok E tr" "vzFlow tr = vzStateEnd"
        "err = None" "Requeue r" "upgrade_frame s1 u" "announces u ev1"
    have f: "upgrade_frame s u" by (rule upgrade_frame_trans [OF f1 2(6)])
    then obtain evs where evs: "Sent u = Sent s @ evs" "\<forall>e \<in> set evs. evVersion e = None"
      by (auto simp: upgrade_frame_def)
    with 2(1) assms(4,5) have "ev = ev1" by (auto simp: put_upgrade_tracker_def)
    moreover have "announces s' ev1"
      using 2(1,7) by (simp add: announces_def put_upgrade_tracker_def comp_status_of_def)
    moreover have "upgradeTrackerMap s' (getTrackerKey (CR s)) = Some tr"
      using 2(1) f tracker_key_frame [of "CR s" "CR u"] by (simp add: put_upgrade_tracker_def upgrade_frame_def)
    ultimately show ?thesis using 2 by (simp add: upgrade_tracker_ok_def)
  next
    assume "s' = deleteUpgradeTracker s1"
    with quiet [OF f1] assms(5) show ?thesis by (simp add: deleteUpgradeTracker_def)
  qed
qed

lemma upgrading_run:
  "case loop_res (upgrade_flow_step (sample_env [sample_component ''istio'']) sample_effective)
       (new_upgrade_tracker (CR upgrading_sys), upgrading_sys) of
     Ret ((r, err), s') \<Rightarrow> Requeue r \<and> err = None \<and> map evVersion (Sent s') = [None, None, Some ''1.6.0'']
   | _ \<Rightarrow> False"
  by code_simp

theorem version_announced_last_witness:
  "\<exists>r err s' ev tr. reconcileUpgrade (sample_env [sample_component ''istio'']) upgrading_sys = Ret ((r, err), s')
     \<and> evVersion ev = Some ''1.6.0'' \<and> announces s' ev
     \<and> upgradeTrackerMap s' (getTrackerKey (CR upgrading_sys)) = Some tr
     \<and> all_upgraded (sample_env [sample_component ''istio'']) tr"
proof -
  let ?E = "sample_env [sample_component ''istio'']"
  have n: "NewContext ?E (CR upgrading_sys) = Inr sample_effective"
    by (rule NewContext_sample) (simp add: upgrading_sys_def istio_ready_def sample_sys_def sample_cr_def zero_cr_def)
  have t: "getUpgradeTracker upgrading_sys = new_upgrade_tracker (CR upgrading_sys)"
    by (simp add: getUpgradeTracker_def upgrading_sys_def istio_ready_def sample_sys_def)
  have s0: "Sent upgrading_sys = []" by (simp add: upgrading_sys_def istio_ready_def sample_sys_def)
  from upgrading_run obtain r err s' where
    "loop_res (upgrade_flow_step ?E sample_effective) (new_upgrade_tracker (CR upgrading_sys), upgrading_sys)
       = Ret ((r, err), s')" and ev: "map evVersion (Sent s') = [None, None, Some ''1.6.0'']"
    by (auto split: res.splits)
  then have r: "reconcileUpgrade ?E upgrading_sys = Ret ((r, err), s')" by (simp add: reconcileUpgrade_def n t)
  from ev have "Some ''1.6.0'' \<in> evVersion ` set (Sent s')" by (metis image_set list.set_intros)
  then obtain e where e: "e \<in> set (Sent s')" "evVersion e = Some ''1.6.0''" by auto
  have d: "distinct (map Name (GetComponents ?E))" by (simp add: sample_components)
  from version_announced_last [OF r upgrading_trackers d, of e] e s0 r show ?thesis by auto
qed

end
