(* ===== verification/Cluster_Ops.thy ===== *)
theory Cluster_Ops imports Registry begin

text \<open>
  The Kubernetes client as the operator uses it, and \<open>pkg/k8s/resource/resource.go\<close> on top of it.
  An object is its namespace and name (and what a modelled function reads of it); the API
  server is library code and every operation of the client is a function of the cluster.
  \<open>ErrorfNewErr\<close> makes a plain error of whatever it is given, so the class is lost.
\<close>

section \<open>Objects\<close>

datatype kind = KSecret | KServiceAccount | KClusterRole | KClusterRoleBinding | KRoleBinding
  | KConfigMap | KNamespace | KJob | KVerrazzanoManagedCluster

record object =
  objNamespace :: string
  objName :: string
  objLabels :: "string \<Rightarrow> string option"
  objFinalizers :: "string list"

text \<open>Role bindings and managed clusters with the one field that is read of them besides.\<close>

record role_binding =
  rbName :: string
  RoleRefName :: string

record managed_cluster =
  vmcNamespace :: string
  vmcName :: string
  ServiceAccount :: string

text \<open>A container of a pod: its name and, once terminated, its exit code.\<close>

record container_status =
  containerName :: string
  Terminated :: "int option"

record 'w client =
  GetObject :: "kind \<Rightarrow> string \<Rightarrow> string \<Rightarrow> 'w \<Rightarrow> (go_error + object) \<times> 'w"
  CreateObject :: "kind \<Rightarrow> object \<Rightarrow> 'w \<Rightarrow> go_error option \<times> 'w"
  UpdateObject :: "kind \<Rightarrow> object \<Rightarrow> 'w \<Rightarrow> go_error option \<times> 'w"
  DeleteObject :: "kind \<Rightarrow> string \<Rightarrow> string \<Rightarrow> 'w \<Rightarrow> go_error option \<times> 'w"
  ListNamespaces :: "'w \<Rightarrow> (go_error + string list) \<times> 'w"
  ListProjects :: "string \<Rightarrow> 'w \<Rightarrow> (go_error + string list list) \<times> 'w"
  ListRoleBindings :: "string \<Rightarrow> 'w \<Rightarrow> (go_error + role_binding list) \<times> 'w"
  ListManagedClusters :: "'w \<Rightarrow> (go_error + managed_cluster list) \<times> 'w"
  ListJobs :: "string \<Rightarrow> 'w \<Rightarrow> (go_error + string list) \<times> 'w"
  ListJobPods :: "string \<Rightarrow> 'w \<Rightarrow> (go_error + container_status list list) \<times> 'w"
  UpdateVerrazzano :: "verrazzano \<Rightarrow> 'w \<Rightarrow> go_error option \<times> 'w"

section \<open>Sequences of operations that stop at the first error\<close>

definition and_then :: "go_error option \<times> 's \<Rightarrow> ('s \<Rightarrow> go_error option \<times> 's) \<Rightarrow> go_error option \<times> 's" where
  "and_then r f = (case r of (Some err, s) \<Rightarrow> (Some err, s) | (None, s) \<Rightarrow> f s)"

fun for_each :: "('x \<Rightarrow> 's \<Rightarrow> go_error option \<times> 's) \<Rightarrow> 'x list \<Rightarrow> 's \<Rightarrow> go_error option \<times> 's" where
  "for_each f [] s = (None, s)"
| "for_each f (x # xs) s = and_then (f x s) (for_each f xs)"

lemma and_then_simps [simp]:
  "and_then (Some e, s) f = (Some e, s)" "and_then (None, s) f = f s"
  by (simp_all add: and_then_def)

lemma and_then_None_iff: "and_then r f = (None, t) \<longleftrightarrow> (\<exists>s. r = (None, s) \<and> f s = (None, t))"
  by (cases r; cases "fst r") (auto simp: and_then_def)

lemma and_then_rel:
  assumes "and_then r f = (e, t)" and "R s (snd r)"
    and "\<And>u e t. f u = (e, t) \<Longrightarrow> R u t" and "\<And>a b c. R a b \<Longrightarrow> R b c \<Longrightarrow> R a c"
  shows "R s t"
  using assms by (cases r; cases "fst r") (auto simp: and_then_def)

lemma for_each_append: "for_each f (xs @ ys) s = and_then (for_each f xs s) (for_each f ys)"
proof (induction xs arbitrary: s)
  case Nil
  then show ?case by simp
next
  case (Cons x xs)
  then show ?case by (cases "f x s"; cases "fst (f x s)") auto
qed

text \<open>A relation that every step keeps is kept by the whole loop, wherever it stops.\<close>

lemma for_each_rel:
  assumes "for_each f xs s = (e, t)" and "\<And>a. R a a" and "\<And>a b c. R a b \<Longrightarrow> R b c \<Longrightarrow> R a c"
    and "\<And>x u e v. x \<in> set xs \<Longrightarrow> f x u = (e, v) \<Longrightarrow> R u v"
  shows "R s t"
  using assms(1,4)
proof (induction xs arbitrary: s)
  case Nil
  then show ?case using assms(2) by simp
next
  case (Cons x xs)
  obtain e1 u where x: "f x s = (e1, u)" by fastforce
  have r: "R s u" by (rule Cons.prems(2) [OF _ x]) simp
  show ?case
  proof (cases e1)
    case None
    with Cons.prems(1) x have "for_each f xs u = (e, t)" by simp
    from Cons.IH [OF this] Cons.prems(2) r assms(3) show ?thesis by (meson list.set_intros(2))
  next
    case (Some y)
    with Cons.prems(1) x r show ?thesis by simp
  qed
qed

section \<open>pkg/k8s/resource\<close>

definition IgnoreNotFound :: "go_error option \<Rightarrow> go_error option" where
  "IgnoreNotFound err = (case err of Some e \<Rightarrow> (if IsNotFound e then None else Some e) | None \<Rightarrow> None)"

definition resource_Delete :: "'w client \<Rightarrow> kind \<Rightarrow> string \<Rightarrow> string \<Rightarrow> 'w \<Rightarrow> go_error option \<times> 'w" where
  "resource_Delete K k ns n w = (case DeleteObject K k ns n w of (err, w1) \<Rightarrow>
     (if IgnoreNotFound err \<noteq> None then (Some (PlainErr ''Failed to delete the resource''), w1) else (None, w1)))"

definition resource_RemoveFinalizers ::
  "'w client \<Rightarrow> kind \<Rightarrow> string \<Rightarrow> string \<Rightarrow> 'w \<Rightarrow> go_error option \<times> 'w" where
  "resource_RemoveFinalizers K k ns n w = (case GetObject K k ns n w of
       (Inl err, w1) \<Rightarrow>
         (if IgnoreNotFound (Some err) \<noteq> None then (Some (PlainErr ''Failed to get the resource''), w1) else (None, w1))
     | (Inr ob, w1) \<Rightarrow>
         (if length (objFinalizers ob) \<noteq> 0
          then (case UpdateObject K k (ob\<lparr>objFinalizers := []\<rparr>) w1 of
              (Some err, w2) \<Rightarrow> (Some (PlainErr ''Failed to update the resource''), w2)
            | (None, w2) \<Rightarrow> (None, w2))
          else (None, w1)))"

definition resource_RemoveFinalizersAndDelete ::
  "'w client \<Rightarrow> kind \<Rightarrow> string \<Rightarrow> string \<Rightarrow> 'w \<Rightarrow> go_error option \<times> 'w" where
  "resource_RemoveFinalizersAndDelete K k ns n w =
     and_then (resource_RemoveFinalizers K k ns n w) (resource_Delete K k ns n)"

definition resource_Exists ::
  "'w client \<Rightarrow> kind \<Rightarrow> string \<Rightarrow> string \<Rightarrow> 'w \<Rightarrow> (go_error + bool) \<times> 'w" where
  "resource_Exists K k ns n w = (case GetObject K k ns n w of
       (Inl err, w1) \<Rightarrow> (if IsNotFound err then (Inr False, w1) else (Inl err, w1))
     | (Inr ob, w1) \<Rightarrow> (Inr True, w1))"

section \<open>A small cluster\<close>

text \<open>
  An API server that behaves as documented on the objects of all kinds: what was created can
  be read, what was deleted is not found.  Projects, role bindings, managed clusters and jobs
  are left empty.
\<close>

definition store_get ::
  "kind \<Rightarrow> string \<Rightarrow> string \<Rightarrow> (kind \<times> object) list \<Rightarrow> object option" where
  "store_get k ns n w = map_option snd
     (find (\<lambda>(k', ob). k' = k \<and> objNamespace ob = ns \<and> objName ob = n) w)"

definition store_client :: "(kind \<times> object) list client" where
  "store_client = \<lparr>
     GetObject = \<lambda>k ns n w. (case store_get k ns n w of None \<Rightarrow> (Inl (NotFoundErr n), w) | Some ob \<Rightarrow> (Inr ob, w)),
     CreateObject = \<lambda>k ob w. (None, (k, ob) # w),
     UpdateObject = \<lambda>k ob w. (None, (k, ob) # filter (\<lambda>(k', ob'). \<not> (k' = k
        \<and> objNamespace ob' = objNamespace ob \<and> objName ob' = objName ob)) w),
     DeleteObject = \<lambda>k ns n w. (if store_get k ns n w = None then (Some (NotFoundErr n), w)
        else (None, filter (\<lambda>(k', ob'). \<not> (k' = k \<and> objNamespace ob' = ns \<and> objName ob' = n)) w)),
     ListNamespaces = \<lambda>w. (Inr (map (\<lambda>(k, ob). objName ob) (filter (\<lambda>(k, ob). k = KNamespace) w)), w),
     ListProjects = \<lambda>ns w. (Inr [], w), ListRoleBindings = \<lambda>ns w. (Inr [], w),
     ListManagedClusters = \<lambda>w. (Inr [], w), ListJobs = \<lambda>ns w. (Inr [], w), ListJobPods = \<lambda>n w. (Inr [], w),
     UpdateVerrazzano = \<lambda>cr w. (None, w)\<rparr>"

text \<open>A client over the log of the sample components: reads find nothing, writes succeed.\<close>

definition log_client :: "string list client" where
  "log_client = \<lparr>
     GetObject = \<lambda>k ns n w. (Inl (NotFoundErr n), w),
     CreateObject = \<lambda>k ob w. (None, w), UpdateObject = \<lambda>k ob w. (None, w), DeleteObject = \<lambda>k ns n w. (None, w),
     ListNamespaces = \<lambda>w. (Inr [], w), ListProjects = \<lambda>ns w. (Inr [], w), ListRoleBindings = \<lambda>ns w. (Inr [], w),
     ListManagedClusters = \<lambda>w. (Inr [], w), ListJobs = \<lambda>ns w. (Inr [], w), ListJobPods = \<lambda>n w. (Inr [], w),
     UpdateVerrazzano = \<lambda>cr w. (None, w)\<rparr>"

end
