(* ===== verification/Reconcile_Uninstall.thy ===== *)
theory Reconcile_Uninstall imports Uninstall_Component Reconcile_Install Cluster_Ops begin

text \<open>
  The uninstallation of the whole product (\<open>reconcile/uninstall.go\<close>): \<open>reconcileUninstall\<close> is a
  loop over the state of the uninstall tracker; \<open>deleteMCResources\<close> removes what belongs to the
  multi-cluster setup, \<open>uninstallCleanup\<close> what no component owns, the namespaces last.
\<close>

section \<open>Surroundings\<close>

text \<open>
  The client, the clean-up of cert-manager's resources in a namespace and the deletion of
  Rancher's local cluster (operations of component packages), and the orders in which the
  two loops over the map of namespaces happen to visit it.
\<close>

record 'w uninstall_ops =
  Kube :: "'w client"
  cmCleanupFunc :: "string \<Rightarrow> 'w \<Rightarrow> go_error option \<times> 'w"
  DeleteLocalCluster :: "'w \<Rightarrow> 'w"
  DeleteOrder :: "string list \<Rightarrow> string list"
  WaitOrder :: "string list \<Rightarrow> string list"

section \<open>Trackers\<close>

definition new_uninstall_tracker :: "verrazzano \<Rightarrow> uninstallFlowState tracker" where
  "new_uninstall_tracker cr = \<lparr>vzFlow = vzStateUninstallStart, gen = Generation cr, compMap = Map.empty\<rparr>"

definition getUninstallTracker :: "'w sys \<Rightarrow> uninstallFlowState tracker" where
  "getUninstallTracker s = (case UninstallTrackerMap s (getTrackerKey (CR s)) of
       None \<Rightarrow> new_uninstall_tracker (CR s)
     | Some vuc \<Rightarrow> if gen vuc \<noteq> Generation (CR s) then new_uninstall_tracker (CR s) else vuc)"

definition put_uninstall_tracker :: "uninstallFlowState tracker \<Rightarrow> 'w sys \<Rightarrow> 'w sys" where
  "put_uninstall_tracker tr s = s\<lparr>UninstallTrackerMap := (UninstallTrackerMap s)(getTrackerKey (CR s) \<mapsto> tr)\<rparr>"

definition DeleteUninstallTracker :: "'w sys \<Rightarrow> 'w sys" where
  "DeleteUninstallTracker s = s\<lparr>UninstallTrackerMap := (UninstallTrackerMap s)(getTrackerKey (CR s) := None)\<rparr>"

section \<open>Multi-cluster resources\<close>

definition isManagedCluster :: "'w client \<Rightarrow> 'w \<Rightarrow> (go_error + bool) \<times> 'w" where
  "isManagedCluster K w = (case GetObject K KSecret ''verrazzano-system'' ''verrazzano-cluster-agent'' w of
       (Inl err, w1) \<Rightarrow>
         (if IsNotFound err then (Inr False, w1)
          else (Inl (PlainErr ''Failed to fetch the multicluster secret''), w1))
     | (Inr secret, w1) \<Rightarrow> (Inr True, w1))"

definition deleteSecret :: "'w client \<Rightarrow> string \<Rightarrow> string \<Rightarrow> 'w \<Rightarrow> go_error option \<times> 'w" where
  "deleteSecret K ns n w = (case DeleteObject K KSecret ns n w of
       (Some err, w1) \<Rightarrow>
         (if IsNotFound err then (None, w1) else (Some (PlainErr ''Failed to delete secret''), w1))
     | (None, w1) \<Rightarrow> (None, w1))"

definition deleteNamespace :: "'w client \<Rightarrow> string \<Rightarrow> 'w \<Rightarrow> go_error option \<times> 'w" where
  "deleteNamespace K ns w = (case DeleteObject K KNamespace [] ns w of
       (Some err, w1) \<Rightarrow> (if \<not> IsNotFound err then (Some err, w1) else (None, w1))
     | (None, w1) \<Rightarrow> (None, w1))"

text \<open>A project is the list of the names of its namespaces.\<close>

definition deleteManagedClusterRoleBindings :: "'w client \<Rightarrow> string list \<Rightarrow> 'w \<Rightarrow> go_error option \<times> 'w" where
  "deleteManagedClusterRoleBindings K project = for_each (\<lambda>ns w. case ListRoleBindings K ns w of
       (Inl err, w1) \<Rightarrow> (Some err, w1)
     | (Inr rbs, w1) \<Rightarrow> for_each (\<lambda>rb w2.
         if RoleRefName rb = ''verrazzano-managed-cluster''
         then DeleteObject K KRoleBinding ns (rbName rb) w2 else (None, w2)) rbs w1) project"

definition delete_managed_cluster :: "'w client \<Rightarrow> managed_cluster \<Rightarrow> 'w \<Rightarrow> go_error option \<times> 'w" where
  "delete_managed_cluster K vmc w =
     (case DeleteObject K KServiceAccount (vmcNamespace vmc) (ServiceAccount vmc) w of
        (Some err, w1) \<Rightarrow> (Some (PlainErr ''Failed to delete VMC service account''), w1)
      | (None, w1) \<Rightarrow> (case DeleteObject K KVerrazzanoManagedCluster (vmcNamespace vmc) (vmcName vmc) w1 of
            (Some err, w2) \<Rightarrow> (Some (PlainErr ''Failed to delete VMC''), w2)
          | (None, w2) \<Rightarrow> (None, w2)))"

text \<open>A list call that finds no such kind in the cluster leaves its list empty.\<close>

definition listed :: "string \<Rightarrow> (go_error + 'x list) \<times> 'w \<Rightarrow> (go_error + 'x list) \<times> 'w" where
  "listed msg r = (case r of
       (Inl err, w) \<Rightarrow> (if \<not> IsNoMatchError err then (Inl (PlainErr msg), w) else (Inr [], w))
     | (Inr xs, w) \<Rightarrow> (Inr xs, w))"

definition delete_mc_secrets :: "'w client \<Rightarrow> bool \<Rightarrow> 'w \<Rightarrow> go_error option \<times> 'w" where
  "delete_mc_secrets K managed w =
     (if managed
      then for_each (deleteSecret K ''verrazzano-system'')
             [''verrazzano-cluster-registration'', ''verrazzano-cluster-elasticsearch'', ''verrazzano-cluster-agent''] w
      else (None, w))"

definition deleteMCResources :: "'w client \<Rightarrow> 'w \<Rightarrow> go_error option \<times> 'w" where
  "deleteMCResources K w = (case isManagedCluster K w of
       (Inl err, w1) \<Rightarrow> (Some err, w1)
     | (Inr managed, w1) \<Rightarrow> (case listed ''Failed listing MC projects'' (ListProjects K ''verrazzano-mc'' w1) of
           (Inl err, w2) \<Rightarrow> (Some err, w2)
         | (Inr projects, w2) \<Rightarrow>
             and_then (for_each (deleteManagedClusterRoleBindings K) projects w2) (\<lambda>w3.
               case listed ''Failed listing VMCs'' (ListManagedClusters K w3) of
                 (Inl err, w4) \<Rightarrow> (Some err, w4)
               | (Inr vmcs, w4) \<Rightarrow> and_then (for_each (delete_managed_cluster K) vmcs w4) (\<lambda>w5.
                   and_then (if length projects = 0 then deleteNamespace K ''verrazzano-mc'' w5 else (None, w5))
                     (delete_mc_secrets K managed)))))"

section \<open>Cleaning up\<close>

definition nodeExporterCleanup :: "'w client \<Rightarrow> 'w \<Rightarrow> go_error option \<times> 'w" where
  "nodeExporterCleanup K w = and_then (resource_Delete K KClusterRoleBinding [] ''node-exporter'' w)
     (resource_Delete K KClusterRole [] ''node-exporter'')"

definition deleteIstioCARootCert :: "'w client \<Rightarrow> 'w \<Rightarrow> go_error option \<times> 'w" where
  "deleteIstioCARootCert K w = (case ListNamespaces K w of
       (Inl err, w1) \<Rightarrow> (Some (PlainErr ''Failed to list the cluster namespaces''), w1)
     | (Inr namespaces, w1) \<Rightarrow>
         for_each (\<lambda>ns. resource_Delete K KConfigMap ns ''istio-ca-root-cert'') namespaces w1)"

definition runRancherPostUninstall :: "'w env \<Rightarrow> verrazzano \<Rightarrow> 'w sys \<Rightarrow> go_error option \<times> 'w sys" where
  "runRancherPostUninstall E eff s = (case FindComponent E ''rancher'' s of
       (None, s1) \<Rightarrow> (None, s1)
     | (Some comp', s1) \<Rightarrow> call_ctx (PostUninstall comp') eff s1)"

definition sharedNamespaces :: "string list" where
  "sharedNamespaces = [''verrazzano-monitoring'', ''cert-manager'', ''verrazzano-system'', ''keycloak'', ''monitoring'']"

text \<open>A Go map used as a set, as the list of its keys in the order they were first set.\<close>

definition insert_key :: "string \<Rightarrow> string list \<Rightarrow> string list" where
  "insert_key k ks = (if k \<in> set ks then ks else ks @ [k])"

fun component_namespaces :: "verrazzano \<Rightarrow> bool \<Rightarrow> 'w component list \<Rightarrow> string list \<Rightarrow> string list" where
  "component_namespaces eff rancherProvisioned [] nsSet = nsSet"
| "component_namespaces eff rancherProvisioned (c # cs) nsSet =
     (if rancherProvisioned \<and> Namespace c = ''cattle-system'' then component_namespaces eff rancherProvisioned cs nsSet
      else if Namespace c = CertManagerNamespace \<and> \<not> IsCertManagerEnabled (V1alpha1 (Some eff))
      then component_namespaces eff rancherProvisioned cs nsSet
      else component_namespaces eff rancherProvisioned cs (insert_key (Namespace c) nsSet))"

fun shared_namespaces :: "verrazzano \<Rightarrow> string list \<Rightarrow> string list \<Rightarrow> string list" where
  "shared_namespaces eff [] nsSet = nsSet"
| "shared_namespaces eff (ns # nss) nsSet =
     (if ns = CertManagerNamespace \<and> \<not> IsCertManagerEnabled (V1alpha1 (Some eff))
      then shared_namespaces eff nss nsSet
      else shared_namespaces eff nss (insert_key ns nsSet))"

definition namespace_set :: "'w env \<Rightarrow> verrazzano \<Rightarrow> bool \<Rightarrow> string list" where
  "namespace_set E eff rancherProvisioned =
     shared_namespaces eff sharedNamespaces (component_namespaces eff rancherProvisioned (GetComponents E) [])"

text \<open>The first loop; an error of the clean-up function and one of the deletion return differently.\<close>

fun delete_namespaces ::
  "'w uninstall_ops \<Rightarrow> ctrl_result \<Rightarrow> string list \<Rightarrow> 'w \<Rightarrow> (ctrl_result \<times> go_error) option \<times> 'w" where
  "delete_namespaces U delay [] w = (None, w)"
| "delete_namespaces U delay (ns # nss) w = (case cmCleanupFunc U ns w of
       (Some err, w1) \<Rightarrow> (Some (delay, err), w1)
     | (None, w1) \<Rightarrow> (case resource_RemoveFinalizersAndDelete (Kube U) KNamespace [] ns w1 of
           (Some err, w2) \<Rightarrow> (Some (no_requeue, err), w2)
         | (None, w2) \<Rightarrow> delete_namespaces U delay nss w2))"

text \<open>The second loop: whether some namespace is still there.\<close>

fun wait_namespaces :: "'w client \<Rightarrow> string list \<Rightarrow> bool \<Rightarrow> 'w \<Rightarrow> (go_error + bool) \<times> 'w" where
  "wait_namespaces K [] waiting w = (Inr waiting, w)"
| "wait_namespaces K (ns # nss) waiting w = (case GetObject K KNamespace [] ns w of
       (Inl err, w1) \<Rightarrow> (if IsNotFound err then wait_namespaces K nss waiting w1 else (Inl err, w1))
     | (Inr ob, w1) \<Rightarrow> wait_namespaces K nss True w1)"

definition deleteNamespaces ::
  "'w env \<Rightarrow> 'w uninstall_ops \<Rightarrow> verrazzano \<Rightarrow> bool \<Rightarrow> 'w \<Rightarrow> (ctrl_result \<times> go_error option) \<times> 'w" where
  "deleteNamespaces E U eff rancherProvisioned w =
     (let nsSet = namespace_set E eff rancherProvisioned in
      case delete_namespaces U (newRequeueWithDelay (IntnRange E)) (DeleteOrder U nsSet) w of
        (Some (r, err), w1) \<Rightarrow> ((r, Some err), w1)
      | (None, w1) \<Rightarrow> (case wait_namespaces (Kube U) (WaitOrder U nsSet) False w1 of
            (Inl err, w2) \<Rightarrow> ((no_requeue, Some err), w2)
          | (Inr waiting, w2) \<Rightarrow>
              (if waiting then ((newRequeueWithDelay (IntnRange E), None), w2) else ((no_requeue, None), w2))))"

definition uninstallCleanup ::
  "'w env \<Rightarrow> 'w uninstall_ops \<Rightarrow> verrazzano \<Rightarrow> bool \<Rightarrow> 'w sys \<Rightarrow> (ctrl_result \<times> go_error option) \<times> 'w sys" where
  "uninstallCleanup E U eff rancherProvisioned s =
     (case and_then (call_world (deleteIstioCARootCert (Kube U)) s) (\<lambda>s1.
             and_then (call_world (nodeExporterCleanup (Kube U)) s1) (\<lambda>s2.
               if \<not> rancherProvisioned then runRancherPostUninstall E eff s2 else (None, s2))) of
        (Some err, s3) \<Rightarrow> ((no_requeue, Some err), s3)
      | (None, s3) \<Rightarrow> call_world (deleteNamespaces E U eff rancherProvisioned) s3)"

section \<open>The flow\<close>

definition uninstall_leave ::
  "ctrl_result \<Rightarrow> go_error option \<Rightarrow> uninstallFlowState tracker \<Rightarrow> 'w sys \<Rightarrow> 'x + 'w reconcile_result" where
  "uninstall_leave r err tr s = Inr (Ret ((r, err), put_uninstall_tracker tr s))"

definition uninstall_flow_step ::
  "'w env \<Rightarrow> 'w uninstall_ops \<Rightarrow> bool \<Rightarrow> uninstallFlowState tracker \<times> 'w sys
    \<Rightarrow> (uninstallFlowState tracker \<times> 'w sys) + 'w reconcile_result" where
  "uninstall_flow_step E U rancherProvisioned ts = (case ts of (tr, s) \<Rightarrow>
    (let delay = newRequeueWithDelay (IntnRange E) in
     case vzFlow tr of
       vzStateUninstallStart \<Rightarrow> Inl (tr\<lparr>vzFlow := vzStateUninstallRancherLocal\<rparr>, s)
     | vzStateUninstallRancherLocal \<Rightarrow>
         (if rancherProvisioned then Inl (tr\<lparr>vzFlow := vzStateUninstallMC\<rparr>, s)
          else (case FindComponent E ''rancher'' s of
              (None, s1) \<Rightarrow> Inl (tr\<lparr>vzFlow := vzStateUninstallMC\<rparr>, s1)
            | (Some comp', s1) \<Rightarrow> (case NewContext E (CR s1) of
                  Inl err \<Rightarrow> uninstall_leave delay (Some err) tr s1
                | Inr eff \<Rightarrow> (case call_ctx (IsInstalled comp') eff s1 of
                      (Inl err, s2) \<Rightarrow> uninstall_leave delay (Some err) tr s2
                    | (Inr installed, s2) \<Rightarrow>
                        (if \<not> installed then Inl (tr\<lparr>vzFlow := vzStateUninstallMC\<rparr>, s2)
                         else Inl (tr\<lparr>vzFlow := vzStateUninstallMC\<rparr>, s2\<lparr>World := DeleteLocalCluster U (World s2)\<rparr>))))))
     | vzStateUninstallMC \<Rightarrow> (case NewContext E (CR s) of
           Inl err \<Rightarrow> uninstall_leave no_requeue (Some err) tr s
         | Inr eff \<Rightarrow> (case call_world (deleteMCResources (Kube U)) s of
               (Some err, s1) \<Rightarrow> uninstall_leave no_requeue (Some err) tr s1
             | (None, s1) \<Rightarrow> Inl (tr\<lparr>vzFlow := vzStateUninstallComponents\<rparr>, s1)))
     | vzStateUninstallComponents \<Rightarrow> (case uninstallComponents E tr s of
           Panic m \<Rightarrow> Inr (Panic m)
         | Spin \<Rightarrow> Inr Spin
         | Ret ((result, err), tr1, s1) \<Rightarrow>
             if err \<noteq> None \<or> Requeue result then uninstall_leave result err tr1 s1
             else Inl (tr1\<lparr>vzFlow := vzStateUninstallCleanup\<rparr>, s1))
     | vzStateUninstallCleanup \<Rightarrow> (case NewContext E (CR s) of
           Inl err \<Rightarrow> uninstall_leave no_requeue (Some err) tr s
         | Inr eff \<Rightarrow> (case uninstallCleanup E U eff rancherProvisioned s of
               ((result, err), s1) \<Rightarrow>
                 if err \<noteq> None \<or> \<not> IsZero result then uninstall_leave result err tr s1
                 else Inl (tr\<lparr>vzFlow := vzStateUninstallDone\<rparr>, s1)))
     | vzStateUninstallDone \<Rightarrow> Inl (tr\<lparr>vzFlow := vzStateUninstallEnd\<rparr>, s)
     | vzStateUninstallEnd \<Rightarrow> uninstall_leave no_requeue None tr s))"

definition reconcileUninstall :: "'w env \<Rightarrow> 'w uninstall_ops \<Rightarrow> 'w sys \<Rightarrow> 'w reconcile_result" where
  "reconcileUninstall E U s = (case call_world (IsClusterProvisionedByRancher E) s of
       (Inl err, s1) \<Rightarrow> Ret ((no_requeue, Some err), s1)
     | (Inr rancherProvisioned, s1) \<Rightarrow>
         loop_res (uninstall_flow_step E U rancherProvisioned) (getUninstallTracker s1, s1))"

section \<open>The flow as a ranked loop\<close>

fun uninstall_flow_rank :: "uninstallFlowState \<Rightarrow> nat" where
  "uninstall_flow_rank vzStateUninstallEnd = 0"
| "uninstall_flow_rank vzStateUninstallDone = 1"
| "uninstall_flow_rank vzStateUninstallCleanup = 2"
| "uninstall_flow_rank vzStateUninstallComponents = 3"
| "uninstall_flow_rank vzStateUninstallMC = 4"
| "uninstall_flow_rank vzStateUninstallRancherLocal = 5"
| "uninstall_flow_rank vzStateUninstallStart = 6"

lemma uninstall_leave_simps [simp]:
  "uninstall_leave r e tr s \<noteq> Inl x"
  "uninstall_leave r e tr s = Inr y \<longleftrightarrow> y = Ret ((r, e), put_uninstall_tracker tr s)"
  by (auto simp: uninstall_leave_def)

lemma contexts_ok_set_flow [simp]: "contexts_ok (tr\<lparr>vzFlow := v\<rparr>) = contexts_ok tr"
  by (simp add: contexts_ok_def)

definition all_uninstalled :: "'w env \<Rightarrow> 'v tracker \<Rightarrow> bool" where
  "all_uninstalled E tr \<longleftrightarrow> list_all (\<lambda>c. map_option uninstallState (compMap tr (Name c)) = Some compStateUninstallEnd)
     (GetComponents E)"

lemma all_uninstalled_flow [simp]: "all_uninstalled E (tr\<lparr>vzFlow := v\<rparr>) = all_uninstalled E tr"
  by (simp add: all_uninstalled_def)

lemma uninstall_all_tracker:
  "uninstall_all E eff cs (b, vuc, s) = Ret (b', vuc', s') \<Longrightarrow> contexts_ok vuc \<Longrightarrow> contexts_ok vuc'"
proof (induction cs arbitrary: b vuc s)
  case Nil
  then show ?case by simp
next
  case (Cons c cs)
  let ?t = "getComponentUninstallContext vuc (Name c)"
  from Cons.prems(1) obtain r err t s1 where u: "uninstallSingleComponent E eff c ?t s = Ret ((r, err), t, s1)"
    and rest: "uninstall_all E eff cs (b \<or> err \<noteq> None \<or> Requeue r, put_context (Name c) t vuc, s1) = Ret (b', vuc', s')"
    by (auto simp: res_bind_Ret_iff)
  from uninstall_run [OF getComponentUninstallContext_ok [OF Cons.prems(2)], of E eff c "Name c" s] u
  have "contexts_ok (put_context (Name c) t vuc)"
    using Cons.prems(2) by (simp add: contexts_ok_def uninstall_ran_def)
  with Cons.IH [OF rest] show ?case .
qed

lemma uninstallComponents_tracker:
  assumes "uninstallComponents E tr s = Ret ((r, err), tr', s')" and "contexts_ok tr"
  shows "contexts_ok tr'"
    and "distinct (map Name (GetComponents E)) \<Longrightarrow> err = None \<Longrightarrow> \<not> Requeue r \<Longrightarrow> all_uninstalled E tr'"
proof -
  show "contexts_ok tr'"
    using assms uninstall_all_tracker [OF _ assms(2)]
    by (auto simp: uninstallComponents_def res_bind_Ret_iff split: sum.splits)
next
  assume d: "distinct (map Name (GetComponents E))" and e: "err = None" "\<not> Requeue r"
  from assms(1) e obtain eff b where "uninstall_all E eff (GetComponents E) (False, tr, s) = Ret (b, tr', s')"
    and "r = (if b then newRequeueWithDelay (IntnRange E) else no_requeue)"
    by (auto simp: uninstallComponents_def res_bind_Ret_iff split: sum.splits)
  with uninstall_all_done [OF _ assms(2) d] e(2) show "all_uninstalled E tr'"
    by (auto simp: all_uninstalled_def list_all_iff split: if_splits)
qed

lemma uninstallComponents_no_spin: "contexts_ok tr \<Longrightarrow> uninstallComponents E tr s \<noteq> Spin"
  by (auto simp: uninstallComponents_def res_bind_Spin_iff uninstall_all_no_spin split: sum.splits prod.splits)

lemmas uninstall_flow_simps = uninstall_flow_step_def Let_def

interpretation unflow: ranked_res_loop "uninstall_flow_step E U rp"
  "\<lambda>ts. uninstall_flow_rank (vzFlow (fst ts))" "\<lambda>ts. contexts_ok (fst ts)" for E U rp
proof
  fix ts ts' :: "uninstallFlowState tracker \<times> 'a sys"
  assume g: "contexts_ok (fst ts)" and st: "uninstall_flow_step E U rp ts = Inl ts'"
  obtain tr s where ts: "ts = (tr, s)" by fastforce
  from g st show "contexts_ok (fst ts')" unfolding ts
    by (cases "vzFlow tr")
       (auto simp: uninstall_flow_simps split: if_splits prod.splits option.splits res.splits sum.splits
         dest: uninstallComponents_tracker)
  from g st show "uninstall_flow_rank (vzFlow (fst ts')) < uninstall_flow_rank (vzFlow (fst ts))" unfolding ts
    by (cases "vzFlow tr")
       (auto simp: uninstall_flow_simps split: if_splits prod.splits option.splits res.splits sum.splits)
next
  fix ts :: "uninstallFlowState tracker \<times> 'a sys"
  assume g: "contexts_ok (fst ts)"
  obtain tr s where ts: "ts = (tr, s)" by fastforce
  from g show "uninstall_flow_step E U rp ts \<noteq> Inr Spin" unfolding ts
    by (cases "vzFlow tr")
       (auto simp: uninstall_flow_simps uninstallComponents_no_spin
         split: if_splits prod.splits option.splits res.splits sum.splits)
qed

section \<open>What a call keeps\<close>

definition uninstall_frame :: "'w sys \<Rightarrow> 'w sys \<Rightarrow> bool" where
  "uninstall_frame s s' \<longleftrightarrow> cr_frame (CR s) (CR s') \<and> maps_same s s'"

lemma uninstall_frame_refl [simp]: "uninstall_frame s s"
  by (simp add: uninstall_frame_def)

lemma uninstall_frame_trans: "uninstall_frame a b \<Longrightarrow> uninstall_frame b c \<Longrightarrow> uninstall_frame a c"
  by (auto simp: uninstall_frame_def intro: cr_frame_trans maps_same_trans)

lemma uninstall_frame_call: "call_ctx f eff s = (r, s') \<Longrightarrow> uninstall_frame s s'"
  by (simp add: uninstall_frame_def maps_same_def sys_simps)

lemma uninstall_frame_world: "call_world f s = (r, s') \<Longrightarrow> uninstall_frame s s'"
  by (simp add: uninstall_frame_def maps_same_def sys_simps)

lemma uninstall_frame_find: "FindComponent E n s = (r, s') \<Longrightarrow> uninstall_frame s s'"
  by (auto simp: FindComponent_def uninstall_frame_def maps_same_def split: option.splits)

lemma uninstall_frame_set_world [simp]: "uninstall_frame s (s\<lparr>World := w\<rparr>)"
  by (simp add: uninstall_frame_def maps_same_def)

lemma uninstall_frame_rancher: "runRancherPostUninstall E eff s = (r, s') \<Longrightarrow> uninstall_frame s s'"
  by (auto simp: runRancherPostUninstall_def split: prod.splits option.splits
      intro: uninstall_frame_find uninstall_frame_call uninstall_frame_trans)

lemma uninstallCleanup_frame:
  assumes "uninstallCleanup E U eff rp s = (r, s')"
  shows "uninstall_frame s s'"
proof -
  let ?m = "and_then (call_world (deleteIstioCARootCert (Kube U)) s) (\<lambda>s1.
             and_then (call_world (nodeExporterCleanup (Kube U)) s1) (\<lambda>s2.
               if \<not> rp then runRancherPostUninstall E eff s2 else (None, s2)))"
  obtain e s3 where m: "?m = (e, s3)" by fastforce
  have f: "uninstall_frame s s3"
    by (rule and_then_rel [where R = uninstall_frame, OF m])
       (auto dest!: and_then_rel [where R = uninstall_frame] intro: uninstall_frame_trans uninstall_frame_rancher
          simp: uninstall_frame_world [OF surjective_pairing] split: if_splits)
  from assms m show ?thesis
    by (auto simp: uninstallCleanup_def f split: option.splits intro: uninstall_frame_trans [OF f] uninstall_frame_world)
qed

lemma uninstall_all_frame:
  "uninstall_all E eff cs (b, vuc, s) = Ret (b', vuc', s') \<Longrightarrow> contexts_ok vuc \<Longrightarrow> uninstall_frame s s'"
proof (induction cs arbitrary: b vuc s)
  case Nil
  then show ?case by simp
next
  case (Cons c cs)
  let ?t = "getComponentUninstallContext vuc (Name c)"
  from Cons.prems(1) obtain r err t s1 where u: "uninstallSingleComponent E eff c ?t s = Ret ((r, err), t, s1)"
    and rest: "uninstall_all E eff cs (b \<or> err \<noteq> None \<or> Requeue r, put_context (Name c) t vuc, s1) = Ret (b', vuc', s')"
    by (auto simp: res_bind_Ret_iff)
  note good = getComponentUninstallContext_ok [OF Cons.prems(2)]
  from uninstall_run [OF good, of E eff c "Name c" s] u have ok: "contexts_ok (put_context (Name c) t vuc)"
    using Cons.prems(2) by (simp add: contexts_ok_def uninstall_ran_def)
  from uninstall_single_frame [OF good u] have "uninstall_frame s s1"
    by (simp add: uninstall_frame_def flow_frame_def)
  from uninstall_frame_trans [OF this Cons.IH [OF rest ok]] show ?case .
qed

lemma uninstallComponents_frame:
  assumes "uninstallComponents E tr s = Ret (r, tr', s')" and "contexts_ok tr"
  shows "uninstall_frame s s'"
proof (cases "NewContext E (CR s)")
  case (Inl e)
  with assms show ?thesis by (auto simp: uninstallComponents_def)
next
  case (Inr eff)
  with assms(1) obtain b where "uninstall_all E eff (GetComponents E) (False, tr, s) = Ret (b, tr', s')"
    by (auto simp: uninstallComponents_def res_bind_Ret_iff)
  from uninstall_all_frame [OF this assms(2)] show ?thesis .
qed

section \<open>The order of the flow\<close>

text \<open>
  A usable tracker: its contexts are set, and when it is past the components every machine is
  at its end.
\<close>

definition uninstall_tracker_ok :: "'w env \<Rightarrow> uninstallFlowState tracker \<Rightarrow> bool" where
  "uninstall_tracker_ok E tr \<longleftrightarrow> contexts_ok tr
     \<and> (vzFlow tr \<in> {vzStateUninstallCleanup, vzStateUninstallDone, vzStateUninstallEnd} \<longrightarrow> all_uninstalled E tr)"

definition uninstall_trackers_ok :: "'w env \<Rightarrow> 'w sys \<Rightarrow> bool" where
  "uninstall_trackers_ok E s \<longleftrightarrow> (\<forall>k tr. UninstallTrackerMap s k = Some tr \<longrightarrow> uninstall_tracker_ok E tr)"

lemma getUninstallTracker_ok: "uninstall_trackers_ok E s \<Longrightarrow> uninstall_tracker_ok E (getUninstallTracker s)"
  by (auto simp: uninstall_trackers_ok_def getUninstallTracker_def new_uninstall_tracker_def
      uninstall_tracker_ok_def contexts_ok_def split: option.splits)

lemma uninstall_tracker_ok_early:
  "uninstall_tracker_ok E tr \<Longrightarrow> v \<in> {vzStateUninstallRancherLocal, vzStateUninstallMC, vzStateUninstallComponents}
     \<Longrightarrow> uninstall_tracker_ok E (tr\<lparr>vzFlow := v\<rparr>)"
  by (auto simp: uninstall_tracker_ok_def)

lemma rancher_local_cases:
  assumes "vzFlow tr = vzStateUninstallRancherLocal"
  obtains s1 where "uninstall_frame s s1" and
      "uninstall_flow_step E U rp (tr, s) = Inl (tr\<lparr>vzFlow := vzStateUninstallMC\<rparr>, s1)"
    | s1 err where "uninstall_frame s s1" and
      "uninstall_flow_step E U rp (tr, s) 
        = Inr (Ret ((newRequeueWithDelay (IntnRange E), Some err), put_uninstall_tracker tr s1))"
proof (cases rp)
  case True
  with assms show ?thesis by (intro that(1) [of s]) (simp_all add: uninstall_flow_simps)
next
  case rp: False
  obtain f s1 where f: "FindComponent E ''rancher'' s = (f, s1)" by fastforce
  note f1 = uninstall_frame_find [OF f]
  show ?thesis
  proof (cases f)
    case None
    with assms rp f f1 show ?thesis by (intro that(1) [of s1]) (simp_all add: uninstall_flow_simps)
  next
    case c: (Some c)
    show ?thesis
    proof (cases "NewContext E (CR s1)")
      case (Inl err)
      with assms rp f f1 c show ?thesis by (intro that(2) [of s1 err]) (simp_all add: uninstall_flow_simps)
    next
      case (Inr eff)
      obtain i s2 where i: "call_ctx (IsInstalled c) eff s1 = (i, s2)" by fastforce
      note f2 = uninstall_frame_trans [OF f1 uninstall_frame_call [OF i]]
      show ?thesis
      proof (cases i)
        case (Inl err)
        with assms rp f c Inr i f2 show ?thesis by (intro that(2) [of s2 err]) (simp_all add: uninstall_flow_simps)
      next
        case b: (Inr b)
        let ?s3 = "if b then s2\<lparr>World := DeleteLocalCluster U (World s2)\<rparr> else s2"
        have "uninstall_frame s ?s3" using f2 uninstall_frame_trans [OF f2 uninstall_frame_set_world] by simp
        with assms rp f c Inr i b show ?thesis by (intro that(1) [of ?s3]) (simp_all add: uninstall_flow_simps)
      qed
    qed
  qed
qed

lemma uninstall_flow_step_Inl:
  assumes "uninstall_tracker_ok E tr" and "distinct (map Name (GetComponents E))"
    and "uninstall_flow_step E U rp (tr, s) = Inl (tr', s')"
  shows "uninstall_tracker_ok E tr' \<and> uninstall_frame s s'"
proof (cases "vzFlow tr")
  case vzStateUninstallStart
  with assms(1,3) show ?thesis by (auto simp: uninstall_flow_simps intro: uninstall_tracker_ok_early)
next
  case vzStateUninstallRancherLocal
  then show ?thesis
    by (rule rancher_local_cases [where s = s and E = E and U = U and rp = rp])
       (use assms in \<open>auto intro: uninstall_tracker_ok_early\<close>)
next
  case vzStateUninstallMC
  with assms(1,3) show ?thesis
    by (auto simp: uninstall_flow_simps split: prod.splits option.splits sum.splits
        intro: uninstall_tracker_ok_early uninstall_frame_world)
next
  case vzStateUninstallComponents
  with assms(3) obtain r tr1 where u: "uninstallComponents E tr s = Ret ((r, None), tr1, s')"
    and r: "\<not> Requeue r" and tr': "tr' = tr1\<lparr>vzFlow := vzStateUninstallCleanup\<rparr>"
    by (auto simp: uninstall_flow_simps split: res.splits if_splits)
  have ok: "contexts_ok tr" using assms(1) by (simp add: uninstall_tracker_ok_def)
  from uninstallComponents_tracker [OF u ok] assms(2) r uninstallComponents_frame [OF u ok] tr'
  show ?thesis by (simp add: uninstall_tracker_ok_def)
next
  case vzStateUninstallCleanup
  with assms(1,3) show ?thesis
    by (auto simp: uninstall_flow_simps uninstall_tracker_ok_def split: prod.splits option.splits sum.splits if_splits
        intro: uninstallCleanup_frame)
next
  case vzStateUninstallDone
  with assms(1,3) show ?thesis by (auto simp: uninstall_flow_simps uninstall_tracker_ok_def)
qed (use assms(3) in \<open>simp add: uninstall_flow_simps\<close>)

text \<open>How an iteration leaves the loop: to be called again, with an error, or at the end.\<close>

definition uninstall_left :: "'w env \<Rightarrow> 'w sys \<Rightarrow> ctrl_result \<Rightarrow> go_error option \<Rightarrow> 'w sys \<Rightarrow> bool" where
  "uninstall_left E s r err s' \<longleftrightarrow> (\<exists>tr s1. s' = put_uninstall_tracker tr s1 \<and> uninstall_tracker_ok E tr
     \<and> uninstall_frame s s1 \<and> (err = None \<and> \<not> Requeue r \<longrightarrow> vzFlow tr = vzStateUninstallEnd))"

lemma delete_namespaces_result:
  "deleteNamespaces E U eff rp w = ((r, err), w') \<Longrightarrow> err = None \<Longrightarrow> r = no_requeue \<or> Requeue r"
  by (auto simp: deleteNamespaces_def Let_def split: prod.splits option.splits sum.splits if_splits)

lemma uninstallCleanup_result:
  "uninstallCleanup E U eff rp s = ((r, None), s') \<Longrightarrow> r = no_requeue \<or> Requeue r"
  by (auto simp: uninstallCleanup_def call_world_def Let_def split: prod.splits option.splits
      dest: delete_namespaces_result)

lemma uninstall_flow_step_left:
  assumes "uninstall_tracker_ok E tr" and "uninstall_flow_step E U rp (tr, s) = Inr (Ret ((r, err), s'))"
  shows "uninstall_left E s r err s'"
proof -
  have early: "uninstall_left E s r err s'"
    if "s' = put_uninstall_tracker tr1 s1" "uninstall_tracker_ok E tr1" "uninstall_frame s s1" "err \<noteq> None \<or> Requeue r"
    for tr1 s1 using that unfolding uninstall_left_def by blast
  show ?thesis
  proof (cases "vzFlow tr")
    case vzStateUninstallRancherLocal
  then show ?thesis
    by (rule rancher_local_cases [where s = s and E = E and U = U and rp = rp])
       (use assms in \<open>auto simp: uninstall_left_def\<close>)
  next
    case vzStateUninstallMC
    with assms(2) obtain s1 where "s' = put_uninstall_tracker tr s1" "err \<noteq> None"
      "s1 = s \<or> (\<exists>e. call_world (deleteMCResources (Kube U)) s = (e, s1))"
      by (fastforce simp: uninstall_flow_simps split: prod.splits option.splits sum.splits)
    with assms(1) show ?thesis by (intro early [of tr s1]) (auto intro: uninstall_frame_world)
  next
    case vzStateUninstallComponents
    with assms(2) obtain tr1 s1 where u: "uninstallComponents E tr s = Ret ((r, err), tr1, s1)"
      and q: "err \<noteq> None \<or> Requeue r" "s' = put_uninstall_tracker tr1 s1"
      by (auto simp: uninstall_flow_simps split: res.splits if_splits)
    have ok: "contexts_ok tr" using assms(1) by (simp add: uninstall_tracker_ok_def)
    have "vzFlow tr1 = vzFlow tr"
    proof -
      have "uninstall_all E eff cs (b, v, u) = Ret (b', v', u') \<Longrightarrow> vzFlow v' = vzFlow v" for eff cs b v u b' v' u'
        by (induction cs arbitrary: b v u) (auto simp: res_bind_Ret_iff)
      with u show ?thesis by (auto simp: uninstallComponents_def res_bind_Ret_iff split: sum.splits)
    qed
    with vzStateUninstallComponents uninstallComponents_tracker(1) [OF u ok] have "uninstall_tracker_ok E tr1"
      by (simp add: uninstall_tracker_ok_def)
    then show ?thesis by (rule early [OF q(2) _ uninstallComponents_frame [OF u ok] q(1)])
  next
    case vzStateUninstallCleanup
    show ?thesis
    proof (cases "NewContext E (CR s)")
      case (Inl e)
      with vzStateUninstallCleanup assms show ?thesis by (intro early [of tr s]) (simp_all add: uninstall_flow_simps)
    next
      case (Inr eff)
      obtain r1 e1 s1 where c: "uninstallCleanup E U eff rp s = ((r1, e1), s1)" by (cases "uninstallCleanup E U eff rp s") auto
      from Inr c vzStateUninstallCleanup assms(2) have q: "r1 = r" "e1 = err" "s' = put_uninstall_tracker tr s1"
        "err \<noteq> None \<or> \<not> IsZero r"
        by (auto simp: uninstall_flow_simps split: if_splits)
      have "err \<noteq> None \<or> Requeue r"
        using q uninstallCleanup_result [of E U eff rp s r s1] c by (cases err) (auto simp: IsZero_def)
      with q assms(1) uninstallCleanup_frame [OF c] show ?thesis by (intro early [of tr s1])
    qed
  next
    case vzStateUninstallEnd
    with assms show ?thesis by (auto simp: uninstall_flow_simps uninstall_left_def intro!: exI [of _ tr] exI [of _ s])
  qed (use assms(2) in \<open>auto simp: uninstall_flow_simps\<close>)
qed


section \<open>Properties\<close>

definition uninstall_flow_post :: "'w env \<Rightarrow> 'w sys \<Rightarrow> 'w reconcile_result \<Rightarrow> bool" where
  "uninstall_flow_post E s res = (case res of
       Spin \<Rightarrow> False
     | Panic m \<Rightarrow> True
     | Ret ((r, err), s') \<Rightarrow> uninstall_trackers_ok E s' \<and> cr_frame (CR s) (CR s')
         \<and> (err = None \<and> \<not> Requeue r \<longrightarrow> (\<exists>tr. UninstallTrackerMap s' (getTrackerKey (CR s)) = Some tr
              \<and> vzFlow tr = vzStateUninstallEnd \<and> all_uninstalled E tr))
         \<and> (\<forall>k. k \<noteq> getTrackerKey (CR s) \<longrightarrow> UninstallTrackerMap s' k = UninstallTrackerMap s k))"

lemma uninstall_run_left:
  assumes "reconcileUninstall E U s = Ret ((r, err), s')" and "uninstall_trackers_ok E s"
    and "distinct (map Name (GetComponents E))"
  shows "(uninstall_frame s s' \<and> err \<noteq> None) \<or> (\<exists>s1. uninstall_frame s s1 \<and> uninstall_left E s1 r err s')"
proof -
  obtain rp s1 where w: "call_world (IsClusterProvisionedByRancher E) s = (rp, s1)" by fastforce
  note f = uninstall_frame_world [OF w]
  show ?thesis
  proof (cases rp)
    case (Inl e)
    with assms(1) w f show ?thesis by (auto simp: reconcileUninstall_def)
  next
    case (Inr b)
    let ?I = "\<lambda>ts. uninstall_tracker_ok E (fst ts) \<and> uninstall_frame s (snd ts)"
    have m: "UninstallTrackerMap s1 = UninstallTrackerMap s" using f by (simp add: uninstall_frame_def maps_same_def)
    with assms(2) have "uninstall_trackers_ok E s1" by (simp add: uninstall_trackers_ok_def)
    note t0 = getUninstallTracker_ok [OF this]
    have "\<forall>r err s'. loop_res (uninstall_flow_step E U b) (getUninstallTracker s1, s1) = Ret ((r, err), s') \<longrightarrow>
        (\<exists>s1. uninstall_frame s s1 \<and> uninstall_left E s1 r err s')"
    proof (rule unflow.loop_res_rule [where I = ?I])
      show "contexts_ok (fst (getUninstallTracker s1, s1))" using t0 by (simp add: uninstall_tracker_ok_def)
      show "?I (getUninstallTracker s1, s1)" using t0 f by simp
    next
      fix x y :: "uninstallFlowState tracker \<times> 'a sys"
      assume "?I x" "uninstall_flow_step E U b x = Inl y"
      with uninstall_flow_step_Inl [of E "fst x" U b "snd x" "fst y" "snd y"] assms(3) show "?I y"
        using uninstall_frame_trans [of s "snd x" "snd y"] by simp
    next
      fix x :: "uninstallFlowState tracker \<times> 'a sys" and res
      assume "?I x" "uninstall_flow_step E U b x = Inr res"
      with uninstall_flow_step_left [of E "fst x" U b "snd x"]
      show "\<forall>r err s'. res = Ret ((r, err), s') \<longrightarrow> (\<exists>s1. uninstall_frame s s1 \<and> uninstall_left E s1 r err s')"
        by (metis prod.collapse)
    qed
    with Inr w assms(1) show ?thesis by (simp add: reconcileUninstall_def)
  qed
qed

lemma reconcileUninstall_no_spin:
  assumes "uninstall_trackers_ok E s"
  shows "reconcileUninstall E U s \<noteq> Spin"
proof -
  obtain rp s1 where w: "call_world (IsClusterProvisionedByRancher E) s = (rp, s1)" by fastforce
  from uninstall_frame_world [OF w] assms have "uninstall_trackers_ok E s1"
    by (simp add: uninstall_frame_def maps_same_def uninstall_trackers_ok_def)
  from getUninstallTracker_ok [OF this] w show ?thesis
    by (auto simp: reconcileUninstall_def uninstall_tracker_ok_def unflow.loop_never_spins split: sum.splits)
qed

lemma uninstall_left_post:
  assumes "uninstall_frame s s1" and "uninstall_left E s1 r err s'" and "uninstall_trackers_ok E s"
  shows "uninstall_flow_post E s (Ret ((r, err), s'))"
proof -
  from assms(2) obtain tr u where s': "s' = put_uninstall_tracker tr u" and tr: "uninstall_tracker_ok E tr"
    and f: "uninstall_frame s1 u" and e: "err = None \<and> \<not> Requeue r \<longrightarrow> vzFlow tr = vzStateUninstallEnd"
    by (auto simp: uninstall_left_def)
  from uninstall_frame_trans [OF assms(1) f]
  have c: "cr_frame (CR s) (CR u)" and m: "UninstallTrackerMap u = UninstallTrackerMap s"
    by (simp_all add: uninstall_frame_def maps_same_def)
  from tr e assms(3) c m tracker_key_frame [OF c] show ?thesis
    by (auto simp: uninstall_flow_post_def s' put_uninstall_tracker_def uninstall_trackers_ok_def uninstall_tracker_ok_def)
qed

lemma reconcile_uninstall_post:
  assumes "uninstall_trackers_ok E s" and "distinct (map Name (GetComponents E))"
  shows "uninstall_flow_post E s (reconcileUninstall E U s)"
proof (cases "reconcileUninstall E U s")
  case (Ret x)
  obtain r err s' where x: "x = ((r, err), s')" by (cases x) auto
  from uninstall_run_left [OF _ assms] Ret x
  consider "uninstall_frame s s'" "err \<noteq> None" | s1 where "uninstall_frame s s1" "uninstall_left E s1 r err s'" by blast
  then show ?thesis
  proof cases
    case 1
    with Ret x assms(1) show ?thesis
      by (auto simp: uninstall_flow_post_def uninstall_frame_def maps_same_def uninstall_trackers_ok_def)
  next
    case 2
    with uninstall_left_post [OF 2 assms(1)] Ret x show ?thesis by simp
  qed
next
  case Spin
  with reconcileUninstall_no_spin [OF assms(1)] show ?thesis by simp
qed (simp add: uninstall_flow_post_def)


text \<open>C4. The uninstall flow always comes back (or panics); it reports that nothing is left to do only
  when its tracker is at the end and the machine of every registered component is at its end, so
  the shared resources and namespaces are cleaned up after the components and never before; it
  changes nothing of the resource but component details and leaves other resources' trackers alone.\<close>

theorem reconcile_uninstall_finishes:
  assumes "uninstall_trackers_ok E s" and "distinct (map Name (GetComponents E))"
  shows "uninstall_flow_post E s (reconcileUninstall E U s)"
  by (rule reconcile_uninstall_post [OF assms])

definition plain_ops :: "string list client \<Rightarrow> string list uninstall_ops" where
  "plain_ops K = \<lparr>Kube = K, cmCleanupFunc = \<lambda>ns w. (None, w), DeleteLocalCluster = \<lambda>w. w,
     DeleteOrder = (\<lambda>ns. ns), WaitOrder = (\<lambda>ns. ns)\<rparr>"

theorem reconcile_uninstall_finishes_witness:
  "uninstall_flow_post (sample_env [sample_component ''istio'']) (sample_sys (sample_cr Map.empty))
     (reconcileUninstall (sample_env [sample_component ''istio'']) (plain_ops log_client) (sample_sys (sample_cr Map.empty)))"
  by (rule reconcile_uninstall_finishes)
     (simp_all add: uninstall_trackers_ok_def sample_sys_def GetComponents_def sample_env_def)

subsection \<open>Namespaces\<close>

lemma set_insert_key [simp]: "set (insert_key k ks) = insert k (set ks)"
  by (auto simp: insert_key_def)

definition keeps_namespace :: "verrazzano \<Rightarrow> string \<Rightarrow> bool" where
  "keeps_namespace eff ns \<longleftrightarrow> ns = CertManagerNamespace \<and> \<not> IsCertManagerEnabled (V1alpha1 (Some eff))"

lemma set_component_namespaces:
  "set (component_namespaces eff rp cs nsSet) = set nsSet \<union>
     {Namespace c | c. c \<in> set cs \<and> \<not> (rp \<and> Namespace c = ''cattle-system'') \<and> \<not> keeps_namespace eff (Namespace c)}"
  by (induction cs arbitrary: nsSet) (auto simp: keeps_namespace_def)

lemma set_shared_namespaces:
  "set (shared_namespaces eff nss nsSet) = set nsSet \<union> {ns \<in> set nss. \<not> keeps_namespace eff ns}"
  by (induction nss arbitrary: nsSet) (auto simp: keeps_namespace_def)

lemma delete_namespaces_None:
  "delete_namespaces U delay nss w = (None, w') \<Longrightarrow> ns \<in> set nss \<Longrightarrow>
     \<exists>w1 w2 w3. cmCleanupFunc U ns w1 = (None, w2)
       \<and> resource_RemoveFinalizersAndDelete (Kube U) KNamespace [] ns w2 = (None, w3)"
  by (induction nss arbitrary: w) (auto split: prod.splits option.splits)

definition reads_only :: "'w client \<Rightarrow> bool" where
  "reads_only K \<longleftrightarrow> (\<forall>k ns n w. snd (GetObject K k ns n w) = w)"

lemma wait_namespaces_done:
  "reads_only K \<Longrightarrow> wait_namespaces K nss b w = (Inr False, w') \<Longrightarrow> w' = w \<and> \<not> b
     \<and> (\<forall>ns \<in> set nss. \<exists>e. GetObject K KNamespace [] ns w = (Inl e, w) \<and> IsNotFound e)"
proof (induction nss arbitrary: b w)
  case Nil
  then show ?case by simp
next
  case (Cons ns nss)
  obtain r w1 where g: "GetObject K KNamespace [] ns w = (r, w1)" by fastforce
  have "w1 = w" using Cons.prems(1) g unfolding reads_only_def by (metis snd_conv)
  with Cons g show ?case by (cases r) (fastforce split: if_splits)+
qed

text \<open>C11. The namespaces at the end of an uninstallation, whatever order the map is visited in: when
  \<open>deleteNamespaces\<close> reports success, every namespace of a component and every shared one has been
  cleaned of cert-manager resources and deleted and is no longer found; Rancher's namespace of a
  cluster that Rancher provisioned and cert-manager's namespace when cert-manager is not enabled
  are the exceptions, and are not in the set that is deleted.\<close>

theorem namespaces_gone:
  assumes "deleteNamespaces E U eff rp w = ((r, None), w')" and "\<not> Requeue r" and "reads_only (Kube U)"
    and "set (DeleteOrder U (namespace_set E eff rp)) = set (namespace_set E eff rp)"
    and "set (WaitOrder U (namespace_set E eff rp)) = set (namespace_set E eff rp)"
  shows "(\<forall>ns. (ns \<in> set sharedNamespaces \<and> \<not> keeps_namespace eff ns
        \<or> (\<exists>c \<in> set (GetComponents E). ns = Namespace c \<and> \<not> (rp \<and> ns = ''cattle-system'') \<and> \<not> keeps_namespace eff ns)) \<longrightarrow>
       (\<exists>w1 w2. cmCleanupFunc U ns w1 = (None, w2))
       \<and> (\<exists>w2 w3. resource_RemoveFinalizersAndDelete (Kube U) KNamespace [] ns w2 = (None, w3))
       \<and> (\<exists>e. GetObject (Kube U) KNamespace [] ns w' = (Inl e, w') \<and> IsNotFound e))
    \<and> (rp \<longrightarrow> ''cattle-system'' \<notin> set (namespace_set E eff rp))
    \<and> (\<not> IsCertManagerEnabled (V1alpha1 (Some eff)) \<longrightarrow> CertManagerNamespace \<notin> set (namespace_set E eff rp))"
proof -
  let ?N = "namespace_set E eff rp"
  have N: "set ?N = {Namespace c | c. c \<in> set (GetComponents E) \<and> \<not> (rp \<and> Namespace c = ''cattle-system'')
      \<and> \<not> keeps_namespace eff (Namespace c)} \<union> {ns \<in> set sharedNamespaces. \<not> keeps_namespace eff ns}"
    by (simp add: namespace_set_def set_component_namespaces set_shared_namespaces)
  from assms(1,2) obtain w1 where d: "delete_namespaces U (newRequeueWithDelay (IntnRange E)) (DeleteOrder U ?N) w = (None, w1)"
    and v: "wait_namespaces (Kube U) (WaitOrder U ?N) False w1 = (Inr False, w')"
    by (auto simp: deleteNamespaces_def Let_def split: prod.splits option.splits sum.splits if_splits)
  have "(\<exists>w1 w2. cmCleanupFunc U ns w1 = (None, w2))
       \<and> (\<exists>w2 w3. resource_RemoveFinalizersAndDelete (Kube U) KNamespace [] ns w2 = (None, w3))
       \<and> (\<exists>e. GetObject (Kube U) KNamespace [] ns w' = (Inl e, w') \<and> IsNotFound e)" if "ns \<in> set ?N" for ns
    using delete_namespaces_None [OF d, of ns] wait_namespaces_done [OF assms(3) v] that assms(4,5) by blast
  moreover have "rp \<longrightarrow> ''cattle-system'' \<notin> set ?N"
    unfolding N by (auto simp: sharedNamespaces_def)
  moreover have "\<not> IsCertManagerEnabled (V1alpha1 (Some eff)) \<longrightarrow> CertManagerNamespace \<notin> set ?N"
    unfolding N by (auto simp: keeps_namespace_def)
  ultimately show ?thesis unfolding N by blast
qed

definition store_env :: "(kind \<times> object) list env" where
  "store_env = \<lparr>RegisteredComponents = [], Yaml = sample_yaml, ProfileLib = plain_lib,
     ProfilePath = \<lambda>p. p, Now = \<lambda>w. ''now'', IntnRange = \<lambda>lo hi. lo,
     BomComponentVersion = \<lambda>n. None, CurrentBomVersion = Inl (PlainErr ''no bom''),
     ListIngresses = \<lambda>w. (Inr [], w), IsClusterProvisionedByRancher = \<lambda>w. (Inr False, w),
     ConfigureAuthProviders = \<lambda>x w. (None, w), ConfigureKeycloakOIDC = \<lambda>x w. (None, w),
     createRancherIngressAndCertCopies = \<lambda>x w. w,
     ListSecrets = \<lambda>p w. (Inr [], w), DeleteSecret = \<lambda>x w. (None, w),
     RestartComponents = \<lambda>g w. (None, w), RestartApps = \<lambda>g w. (None, w), PostUpgradeCleanup = \<lambda>w. (None, w)\<rparr>"

definition store_ops :: "(kind \<times> object) list uninstall_ops" where
  "store_ops = \<lparr>Kube = store_client, cmCleanupFunc = \<lambda>ns w. (None, w), DeleteLocalCluster = \<lambda>w. w,
     DeleteOrder = rev, WaitOrder = (\<lambda>ns. ns)\<rparr>"

definition system_store :: "(kind \<times> object) list" where
  "system_store = [(KNamespace, \<lparr>objNamespace = [], objName = ''verrazzano-system'', objLabels = Map.empty,
     objFinalizers = [''kubernetes'']\<rparr>), (KNamespace, \<lparr>objNamespace = [], objName = ''default'',
     objLabels = Map.empty, objFinalizers = []\<rparr>)]"

lemma store_run:
  "case deleteNamespaces store_env store_ops (zero_cr zero_alpha) True system_store of
     ((r, err), w) \<Rightarrow> \<not> Requeue r \<and> err = None \<and> map (objName \<circ> snd) w = [''default'']"
  by code_simp

lemma store_reads_only: "reads_only store_client"
  by (simp add: reads_only_def store_client_def split: option.splits)

theorem namespaces_gone_witness:
  "\<exists>r w' e. deleteNamespaces store_env store_ops (zero_cr zero_alpha) True system_store = ((r, None), w')
     \<and> GetObject store_client KNamespace [] ''verrazzano-system'' w' = (Inl e, w') \<and> IsNotFound e"
proof -
  obtain r err w' where d: "deleteNamespaces store_env store_ops (zero_cr zero_alpha) True system_store = ((r, err), w')"
    by (metis prod.collapse)
  with store_run have q: "err = None" "\<not> Requeue r" by auto
  have k: "Kube store_ops = store_client" "DeleteOrder store_ops = rev" "WaitOrder store_ops = (\<lambda>ns. ns)"
    by (simp_all add: store_ops_def)
  from namespaces_gone [OF d [unfolded q(1)] q(2)] store_reads_only
  have "\<forall>ns. (ns \<in> set sharedNamespaces \<and> \<not> keeps_namespace (zero_cr zero_alpha) ns \<longrightarrow>
       (\<exists>e. GetObject store_client KNamespace [] ns w' = (Inl e, w') \<and> IsNotFound e))"
    unfolding k by auto
  moreover have "''verrazzano-system'' \<in> set sharedNamespaces" "\<not> keeps_namespace (zero_cr zero_alpha) ''verrazzano-system''"
    by (simp_all add: sharedNamespaces_def keeps_namespace_def CertManagerNamespace_def)
  ultimately show ?thesis using d q by blast
qed

end
