(* ===== verification/Controller.thy ===== *)
theory Controller imports Reconcile_Uninstall Reconcile_Upgrade "HOL-Library.AList" begin

text \<open>
  The reconciler's entry point (\<open>reconcile/controller.go\<close> and
  \<open>reconcile/sync_local_registration_secret.go\<close>): what one call does in each state of the
  resource, the finalizer, and the predicates of its watches.  Counters of metrics are left
  out, and so is \<open>persistJobLog\<close>, which copies a pod's log into the operator's log and whose
  result is only logged.
\<close>

section \<open>Surroundings\<close>

text \<open>
  Besides the operations of an uninstallation: registering the watches with controller-runtime,
  \<open>controllerutil.CreateOrUpdate\<close> of an opaque secret with some data, and the labels of a
  cron job.
\<close>

record 'w controller_ops = "'w uninstall_ops" +
  watchResources :: "string \<Rightarrow> string \<Rightarrow> 'w \<Rightarrow> go_error option \<times> 'w"
  CreateOrUpdateSecret :: "string \<Rightarrow> string \<Rightarrow> (string \<times> string) list \<Rightarrow> 'w \<Rightarrow> go_error option \<times> 'w"
  GetCronJob :: "string \<Rightarrow> string \<Rightarrow> 'w \<Rightarrow> (go_error + (string \<Rightarrow> string option)) \<times> 'w"

definition ops_of :: "'w controller_ops \<Rightarrow> 'w uninstall_ops" where
  "ops_of H = uninstall_ops.truncate H"

definition finalizerName :: string where
  "finalizerName = ''install.verrazzano.io''"

section \<open>Versions\<close>

definition getVzAndOperatorVersions :: "'w env \<Rightarrow> string \<Rightarrow> (sem_version \<times> sem_version) option" where
  "getVzAndOperatorVersions E ver = (case CurrentBomVersion E of
       Inl err \<Rightarrow> None
     | Inr bomVersion \<Rightarrow> (case NewSemVersion ver of
           Inl err \<Rightarrow> None
         | Inr currentVersion \<Rightarrow> Some (bomVersion, currentVersion)))"

definition isOperatorSameVersionAsCR :: "'w env \<Rightarrow> string \<Rightarrow> bool" where
  "isOperatorSameVersionAsCR E ver = (case getVzAndOperatorVersions E ver of
       Some (bomVersion, currentVersion) \<Rightarrow> CompareTo bomVersion currentVersion = 0
     | None \<Rightarrow> False)"

definition isOperatorNewerVersionThanCR :: "'w env \<Rightarrow> string \<Rightarrow> string \<times> bool" where
  "isOperatorNewerVersionThanCR E ver = (case getVzAndOperatorVersions E ver of
       Some (bomVersion, currentVersion) \<Rightarrow> (ToString bomVersion, CompareTo bomVersion currentVersion > 0)
     | None \<Rightarrow> ([], False))"

section \<open>Objects the operator looks after\<close>

definition buildUninstallJobName :: "string \<Rightarrow> string" where
  "buildUninstallJobName n = ''verrazzano-uninstall-'' @ n"

definition buildServiceAccountName :: "string \<Rightarrow> string" where
  "buildServiceAccountName n = ''verrazzano-install-'' @ n"

definition buildClusterRoleBindingName :: "string \<Rightarrow> string \<Rightarrow> string" where
  "buildClusterRoleBindingName ns n = ''verrazzano-install-'' @ ns @ ''-'' @ n"

text \<open>A deletion that ignores a missing object.\<close>

definition delete_if_there :: "'w client \<Rightarrow> kind \<Rightarrow> string \<Rightarrow> string \<Rightarrow> 'w \<Rightarrow> go_error option \<times> 'w" where
  "delete_if_there K k ns n w = (case DeleteObject K k ns n w of
       (Some err, w1) \<Rightarrow> (if \<not> IsNotFound err then (Some err, w1) else (None, w1))
     | (None, w1) \<Rightarrow> (None, w1))"

definition deleteServiceAccount :: "'w client \<Rightarrow> verrazzano \<Rightarrow> string \<Rightarrow> 'w \<Rightarrow> go_error option \<times> 'w" where
  "deleteServiceAccount K vz ns = delete_if_there K KServiceAccount ns (buildServiceAccountName (vzName vz))"

definition deleteClusterRoleBinding :: "'w client \<Rightarrow> verrazzano \<Rightarrow> 'w \<Rightarrow> go_error option \<times> 'w" where
  "deleteClusterRoleBinding K vz =
     delete_if_there K KClusterRoleBinding [] (buildClusterRoleBindingName (vzNamespace vz) (vzName vz))"

definition cleanupOld :: "'w client \<Rightarrow> verrazzano \<Rightarrow> 'w \<Rightarrow> go_error option \<times> 'w" where
  "cleanupOld K vz w = and_then (deleteClusterRoleBinding K vz w) (deleteServiceAccount K vz ''default'')"

definition cleanupUninstallJob :: "'w client \<Rightarrow> string \<Rightarrow> string \<Rightarrow> 'w \<Rightarrow> go_error option \<times> 'w" where
  "cleanupUninstallJob K jobName ns w = (case GetObject K KJob ns jobName w of
       (Inl err, w1) \<Rightarrow> (None, w1)
     | (Inr jobFound, w1) \<Rightarrow> DeleteObject K KJob ns jobName w1)"

definition BackupContainerName :: string where
  "BackupContainerName = ''operator-backup-job''"

definition has_prefix :: "string \<Rightarrow> string \<Rightarrow> bool" where
  "has_prefix s p = (take (length p) s = p)"

definition isJobExecutionContainerCompleted :: "container_status list \<Rightarrow> bool" where
  "isJobExecutionContainerCompleted pod =
     list_ex (\<lambda>c. has_prefix (containerName c) BackupContainerName \<and> Terminated c = Some 0) pod"

text \<open>The loop over the jobs; the first pod of a job decides, and either way the call returns.\<close>

fun cleanup_jobs :: "'w client \<Rightarrow> string \<Rightarrow> string list \<Rightarrow> 'w \<Rightarrow> go_error option \<times> 'w" where
  "cleanup_jobs K ns [] w = (None, w)"
| "cleanup_jobs K ns (job # jobs) w = (case ListJobPods K job w of
       (Inl err, w1) \<Rightarrow> (Some err, w1)
     | (Inr [], w1) \<Rightarrow> cleanup_jobs K ns jobs w1
     | (Inr (jobPod # pods), w1) \<Rightarrow>
         (if isJobExecutionContainerCompleted jobPod then DeleteObject K KJob ns job w1
          else (Some (PlainErr ''Pod has not completed the database backup''), w1)))"

definition cleanupMysqlBackupJob :: "'w client \<Rightarrow> 'w \<Rightarrow> go_error option \<times> 'w" where
  "cleanupMysqlBackupJob K w = (case ListJobs K ''keycloak'' w of
       (Inl err, w1) \<Rightarrow> (if IsNotFound err then (None, w1) else (Some err, w1))
     | (Inr jobs, w1) \<Rightarrow> cleanup_jobs K ''keycloak'' jobs w1)"

text \<open>The keys of the map are visited in some order; \<open>mergeMaps_override\<close> shows that it does not matter.\<close>

fun merge_loop :: "(string \<Rightarrow> string option) \<Rightarrow> (string \<times> string) list \<Rightarrow> bool \<Rightarrow> (string \<Rightarrow> string option) \<times> bool" where
  "merge_loop mergedMap [] updated = (mergedMap, updated)"
| "merge_loop mergedMap ((k, v) # from') updated = (case mergedMap k of
       None \<Rightarrow> merge_loop (mergedMap(k \<mapsto> v)) from' True
     | Some existingVal \<Rightarrow>
         (if v \<noteq> existingVal then merge_loop (mergedMap(k \<mapsto> v)) from' True
          else merge_loop mergedMap from' updated))"

definition mergeMaps :: "(string \<Rightarrow> string option) \<Rightarrow> (string \<times> string) list \<Rightarrow> (string \<Rightarrow> string option) \<times> bool" where
  "mergeMaps to from' = merge_loop to from' False"

definition IsInjectionEnabled :: "'x istio_component_scheme \<Rightarrow> bool" where
  "IsInjectionEnabled c =
     (if Enabled c = None \<or> Enabled c = Some True
      then InjectionEnabled c = None \<or> InjectionEnabled c = Some True
      else InjectionEnabled c \<noteq> None \<and> InjectionEnabled c = Some True)"

definition system_labels :: "verrazzano \<Rightarrow> (string \<times> string) list \<Rightarrow> (string \<times> string) list" where
  "system_labels cr labels = (case Istio (Components cr) of
       Some istio \<Rightarrow> (if \<not> IsInjectionEnabled istio then AList.update ''istio-injection'' ''disabled'' labels else labels)
     | None \<Rightarrow> labels)"

definition create_system_namespace :: "'w client \<Rightarrow> (string \<times> string) list \<Rightarrow> 'w \<Rightarrow> go_error option \<times> 'w" where
  "create_system_namespace K labels w = (case GetObject K KNamespace [] ''verrazzano-system'' w of
       (Inl err, w1) \<Rightarrow>
         (if \<not> IsNotFound err then (Some err, w1)
          else CreateObject K KNamespace \<lparr>objNamespace = [], objName = ''verrazzano-system'',
                 objLabels = fst (mergeMaps Map.empty labels), objFinalizers = []\<rparr> w1)
     | (Inr vzSystemNS, w1) \<Rightarrow>
         (let (merged, updated) = mergeMaps (objLabels vzSystemNS) labels in
          if \<not> updated then (None, w1) else UpdateObject K KNamespace (vzSystemNS\<lparr>objLabels := merged\<rparr>) w1))"

definition createVerrazzanoSystemNamespace :: "'w client \<Rightarrow> 'w sys \<Rightarrow> go_error option \<times> 'w sys" where
  "createVerrazzanoSystemNamespace K s =
     (let s1 = s\<lparr>systemNamespaceLabels := system_labels (CR s) (systemNamespaceLabels s)\<rparr>
      in call_world (create_system_namespace K (systemNamespaceLabels s1)) s1)"

definition syncLocalRegistrationSecret :: "'w controller_ops \<Rightarrow> 'w \<Rightarrow> go_error option \<times> 'w" where
  "syncLocalRegistrationSecret H w =
     (case GetObject (Kube H) KSecret ''verrazzano-system'' ''verrazzano-cluster-agent'' w of
        (Inr secret, w1) \<Rightarrow> (None, w1)
      | (Inl err, w1) \<Rightarrow>
          (if \<not> IsNotFound err then (Some (PlainErr ''Failed fetching the agent secret''), w1)
           else CreateOrUpdateSecret H ''verrazzano-system'' ''verrazzano-local-registration''
                  [(''managed-cluster-name'', ''local'')] w1))"

section \<open>Results\<close>

text \<open>
  The idiom after a flow: an error becomes a delayed requeue with the error, a requeue is
  passed on, otherwise the call goes on.
\<close>

definition or_requeue :: "'w env \<Rightarrow> 'w reconcile_result \<Rightarrow> ('w sys \<Rightarrow> 'w reconcile_result) \<Rightarrow> 'w reconcile_result" where
  "or_requeue E r f = (case r of
       Panic m \<Rightarrow> Panic m
     | Spin \<Rightarrow> Spin
     | Ret ((result, err), s) \<Rightarrow>
         (if err \<noteq> None then Ret ((newRequeueWithDelay (IntnRange E), err), s)
          else if ShouldRequeue result then Ret ((result, None), s)
          else f s))"

definition delayed :: "'w env \<Rightarrow> go_error option \<Rightarrow> 'w sys \<Rightarrow> 'w reconcile_result" where
  "delayed E err s = Ret ((newRequeueWithDelay (IntnRange E), err), s)"

text \<open>An operation whose error ends the call with a delayed requeue.\<close>

definition or_fail :: "'w env \<Rightarrow> go_error option \<times> 'w sys \<Rightarrow> ('w sys \<Rightarrow> 'w reconcile_result) \<Rightarrow> 'w reconcile_result" where
  "or_fail E r f = (case r of (Some err, s) \<Rightarrow> delayed E (Some err) s | (None, s) \<Rightarrow> f s)"

section \<open>Deletion\<close>

definition set_finalizers :: "string list \<Rightarrow> 'w sys \<Rightarrow> 'w sys" where
  "set_finalizers fs s = s\<lparr>CR := (CR s)\<lparr>Finalizers := fs\<rparr>\<rparr>"

definition update_cr :: "'w client \<Rightarrow> 'w sys \<Rightarrow> go_error option \<times> 'w sys" where
  "update_cr K s = call_world (UpdateVerrazzano K (CR s)) s"

definition finish_delete :: "'w env \<Rightarrow> 'w controller_ops \<Rightarrow> 'w sys \<Rightarrow> 'w reconcile_result" where
  "finish_delete E H s =
     or_fail E (update_cr (Kube H) (set_finalizers (RemoveStringFromSlice (Finalizers (CR s)) finalizerName) s)) (\<lambda>s1.
       Ret ((no_requeue, None), DeleteUninstallTracker (s1\<lparr>Initialized := (Initialized s1)(vzName (CR s1) := False)\<rparr>)))"

definition procDelete :: "'w env \<Rightarrow> 'w controller_ops \<Rightarrow> 'w sys \<Rightarrow> 'w reconcile_result" where
  "procDelete E H s =
     (if \<not> SliceContainsString (Finalizers (CR s)) finalizerName then Ret ((no_requeue, None), s)
      else res_bind (setUninstallCondition E CondUninstallStarted ''Verrazzano uninstall starting'' s) (\<lambda>(err, s1).
        or_fail E (err, s1) (\<lambda>s1. or_requeue E (reconcileUninstall E (ops_of H) s1) (\<lambda>s2.
          res_bind (setUninstallCondition E CondUninstallComplete ''Verrazzano uninstall completed'' s2) (\<lambda>(err, s3).
            or_fail E (err, s3) (finish_delete E H))))))"

section \<open>The states\<close>

text \<open>Once the init work was done, the call asks to be called again.\<close>

definition init_first_time :: "'w env \<Rightarrow> 'w controller_ops \<Rightarrow> 'w sys \<Rightarrow> (ctrl_result \<times> go_error option) \<times> 'w sys" where
  "init_first_time E H s =
     (if Initialized s (vzName (CR s)) then ((no_requeue, None), s)
      else (case call_world (cleanupOld (Kube H) (CR s)) s of
          (Some err, s1) \<Rightarrow> ((newRequeueWithDelay (IntnRange E), Some err), s1)
        | (None, s1) \<Rightarrow> (case call_world (watchResources H (vzNamespace (CR s1)) (vzName (CR s1))) s1 of
              (Some err, s2) \<Rightarrow> ((newRequeueWithDelay (IntnRange E), Some err), s2)
            | (None, s2) \<Rightarrow> ((requeue_now, None), s2\<lparr>Initialized := (Initialized s2)(vzName (CR s2) := True)\<rparr>))))"

definition initForVzResource ::
  "'w env \<Rightarrow> 'w controller_ops \<Rightarrow> 'w sys \<Rightarrow> (ctrl_result \<times> go_error option) \<times> 'w sys" where
  "initForVzResource E H s =
     (if \<not> SliceContainsString (Finalizers (CR s)) finalizerName
      then (case update_cr (Kube H) (set_finalizers (Finalizers (CR s) @ [finalizerName]) s) of
          (Some err, s1) \<Rightarrow> ((newRequeueWithDelay (IntnRange E), Some err), s1)
        | (None, s1) \<Rightarrow> init_first_time E H s1)
      else init_first_time E H s)"

definition doesOCIDNSConfigSecretExist :: "'w client \<Rightarrow> oci_dns \<Rightarrow> 'w \<Rightarrow> go_error option \<times> 'w" where
  "doesOCIDNSConfigSecretExist K oci w = (case GetObject K KSecret ''verrazzano-install'' (OCIConfigSecret oci) w of
       (Inl err, w1) \<Rightarrow> (Some err, w1)
     | (Inr secret, w1) \<Rightarrow> (None, w1))"

definition check_oci_secret :: "'w client \<Rightarrow> 'w sys \<Rightarrow> go_error option \<times> 'w sys" where
  "check_oci_secret K s = (case DNS (Components (CR s)) of
       None \<Rightarrow> (None, s)
     | Some dns \<Rightarrow> (case OCI dns of
           None \<Rightarrow> (None, s)
         | Some oci \<Rightarrow> call_world (doesOCIDNSConfigSecretExist K oci) s))"

text \<open>Ready and installed: the version decides between an upgrade and reconciling the components.\<close>

definition ready_components :: "'w env \<Rightarrow> 'w controller_ops \<Rightarrow> 'w sys \<Rightarrow> 'w reconcile_result" where
  "ready_components E H s = or_requeue E (reconcileComponents E False s) (\<lambda>s1.
     or_fail E (call_world (cleanupMysqlBackupJob (Kube H)) s1) (\<lambda>s2. Ret ((no_requeue, None), s2)))"

definition ready_installed :: "'w env \<Rightarrow> 'w controller_ops \<Rightarrow> 'w sys \<Rightarrow> 'w reconcile_result" where
  "ready_installed E H s =
     (if length (SpecVersion (CR s)) > 0
      then (case NewSemVersion (SpecVersion (CR s)) of
          Inl err \<Rightarrow> delayed E (Some err) s
        | Inr specVersion \<Rightarrow> (case NewSemVersion (vzVersion (Status (CR s))) of
              Inl err \<Rightarrow> delayed E (Some err) s
            | Inr statusVersion \<Rightarrow>
                (if CompareTo specVersion statusVersion \<noteq> 0
                 then delayed E None (updateVzState VzStateUpgrading s)
                 else ready_components E H s)))
      else ready_components E H s)"

text \<open>Ready but never installed: prepare the cluster and start the installation.\<close>

definition ready_first_install :: "'w env \<Rightarrow> 'w controller_ops \<Rightarrow> 'w sys \<Rightarrow> 'w reconcile_result" where
  "ready_first_install E H s =
     or_fail E (check_oci_secret (Kube H) s) (\<lambda>s1.
     or_fail E (createVerrazzanoSystemNamespace (Kube H) s1) (\<lambda>s2.
     or_fail E (call_world (syncLocalRegistrationSecret H) s2) (\<lambda>s3.
       res_bind (checkInstallComplete E s3) (\<lambda>((done, err), s4).
         or_fail E (err, s4) (\<lambda>s4.
           if done then Ret ((no_requeue, None), s4)
           else or_fail E (call_world (cleanupUninstallJob (Kube H) (buildUninstallJobName (vzName (CR s4)))
                              ''verrazzano-install'') s4) (\<lambda>s5.
             res_bind (setInstallingState E s5) (\<lambda>(err, s6). delayed E err s6)))))))"

definition ProcReadyState :: "'w env \<Rightarrow> 'w controller_ops \<Rightarrow> 'w sys \<Rightarrow> 'w reconcile_result" where
  "ProcReadyState E H s = or_requeue E (Ret (initializeComponentStatus E s)) (\<lambda>s1.
     if isInstalled (Status (CR s1)) then ready_installed E H s1 else ready_first_install E H s1)"

definition ProcReconcilingState :: "'w env \<Rightarrow> 'w sys \<Rightarrow> 'w reconcile_result" where
  "ProcReconcilingState E s = or_requeue E (reconcileComponents E False s) (\<lambda>s1.
     res_bind (checkInstallComplete E s1) (\<lambda>((done, err), s2).
       if \<not> done \<or> err \<noteq> None then delayed E err s2 else Ret ((no_requeue, None), s2)))"

definition pause_upgrade :: "'w env \<Rightarrow> string \<Rightarrow> 'w sys \<Rightarrow> 'w reconcile_result" where
  "pause_upgrade E bomVersion s =
     res_bind (updateStatus E (''Verrazzano upgrade to version '' @ SpecVersion (CR s)
         @ '' paused. Upgrade will be performed when version is updated to '' @ bomVersion) CondUpgradePaused None s)
       (\<lambda>(err, s1). delayed E err s1)"

definition upgrade_rest :: "'w env \<Rightarrow> 'w sys \<Rightarrow> 'w reconcile_result" where
  "upgrade_rest E s = or_requeue E (reconcileComponents E False s) (\<lambda>s1.
     res_bind (checkUpgradeComplete E s1) (\<lambda>((done, err), s2).
       if \<not> done \<or> err \<noteq> None then delayed E err s2 else Ret ((no_requeue, None), s2)))"

definition ProcUpgradingState :: "'w env \<Rightarrow> 'w sys \<Rightarrow> 'w reconcile_result" where
  "ProcUpgradingState E s =
     (let (bomVersion, isNewer) = isOperatorNewerVersionThanCR E (SpecVersion (CR s)) in
      if isNewer then pause_upgrade E bomVersion s
      else or_requeue E (reconcileComponents E True s) (\<lambda>s1.
        if length (SpecVersion (CR s1)) > 0 \<and> SpecVersion (CR s1) \<noteq> vzVersion (Status (CR s1))
        then or_requeue E (reconcileUpgrade E s1) (upgrade_rest E)
        else upgrade_rest E s1))"

definition ProcPausedUpgradeState :: "'w env \<Rightarrow> 'w controller_ops \<Rightarrow> 'w sys \<Rightarrow> 'w reconcile_result" where
  "ProcPausedUpgradeState E H s =
     (if DeletionTimestamp (CR s) \<noteq> None then procDelete E H s
      else if isOperatorSameVersionAsCR E (SpecVersion (CR s)) then delayed E None (updateVzState VzStateReady s)
      else delayed E None s)"

definition UpgradeRetryVersion :: string where
  "UpgradeRetryVersion = ''verrazzano.io/upgrade-retry-version''"

definition ObservedUpgradeRetryVersion :: string where
  "ObservedUpgradeRetryVersion = ''verrazzano.io/observed-upgrade-retry-version''"

definition retryUpgrade :: "'w client \<Rightarrow> 'w sys \<Rightarrow> (bool \<times> go_error option) \<times> 'w sys" where
  "retryUpgrade K s = (case Annotations (CR s) UpgradeRetryVersion of
       None \<Rightarrow> ((False, None), s)
     | Some restartVersion \<Rightarrow>
         (if Annotations (CR s) ObservedUpgradeRetryVersion = Some restartVersion then ((False, None), s)
          else (case update_cr K (s\<lparr>CR := (CR s)\<lparr>Annotations :=
                       (Annotations (CR s))(ObservedUpgradeRetryVersion \<mapsto> restartVersion)\<rparr>\<rparr>) of
              (err, s1) \<Rightarrow> ((True, err), s1))))"

definition ProcFailedState :: "'w env \<Rightarrow> 'w controller_ops \<Rightarrow> 'w sys \<Rightarrow> 'w reconcile_result" where
  "ProcFailedState E H s =
     (if DeletionTimestamp (CR s) \<noteq> None then procDelete E H s
      else (case retryUpgrade (Kube H) s of
          ((retry, Some err), s1) \<Rightarrow> delayed E (Some err) s1
        | ((retry, None), s1) \<Rightarrow>
            (if retry then Ret ((\<lparr>Requeue = True, RequeueAfter = 1\<rparr>, None), updateVzState VzStateReady s1)
             else (let (bomVersion, isNewer) = isOperatorNewerVersionThanCR E (SpecVersion (CR s1)) in
                   if isNewer then pause_upgrade E bomVersion s1 else Ret ((no_requeue, None), s1)))))"

definition doReconcile :: "'w env \<Rightarrow> 'w controller_ops \<Rightarrow> 'w sys \<Rightarrow> 'w reconcile_result" where
  "doReconcile E H s =
     (if DeletionTimestamp (CR s) \<noteq> None then procDelete E H s
      else (case initForVzResource E H s of
          ((result, Some err), s1) \<Rightarrow> Ret ((result, Some err), s1)
        | ((result, None), s1) \<Rightarrow>
           (if ShouldRequeue result then Ret ((result, None), s1)
            else (case vzState (Status (CR s1)) of
                VzStateEmpty \<Rightarrow> Ret ((requeue_now, None), updateVzState VzStateReady s1)
              | VzStateFailed \<Rightarrow> ProcFailedState E H s1
              | VzStateReconciling \<Rightarrow> ProcReconcilingState E s1
              | VzStateReady \<Rightarrow> ProcReadyState E H s1
              | VzStateUpgrading \<Rightarrow> ProcUpgradingState E s1
              | VzStatePaused \<Rightarrow> ProcPausedUpgradeState E H s1
              | VzStateUninstalling \<Rightarrow> Panic ''Invalid Verrazzano controller state''))))"

text \<open>What \<open>Reconcile\<close> makes of the result: it never hands an error to controller-runtime.\<close>

definition Reconcile ::
  "'w env \<Rightarrow> 'w controller_ops \<Rightarrow> (go_error + unit) \<Rightarrow> 'w sys \<Rightarrow> 'w reconcile_result" where
  "Reconcile E H got s = (case got of
       Inl err \<Rightarrow> (if IsNotFound err then Ret ((no_requeue, None), s) else delayed E None s)
     | Inr _ \<Rightarrow> res_bind (doReconcile E H s) (\<lambda>((res, err), s1).
         if ShouldRequeue res then Ret ((res, None), s1)
         else if err \<noteq> None then delayed E None s1
         else Ret ((no_requeue, None), s1)))"

section \<open>Watches\<close>

text \<open>
  The predicates of the watches: whether an event concerns the resource, with the components
  that are to be reconciled again added to the watched set.
\<close>

definition watch_pod :: "string \<Rightarrow> string \<Rightarrow> 'w sys \<Rightarrow> bool \<times> 'w sys" where
  "watch_pod podNamespace podName s =
     (if podNamespace \<noteq> ''keycloak'' then (False, s)
      else if \<not> has_prefix podName ''mysql'' then (False, s)
      else (True, AddWatch [''keycloak''] s))"

definition isCattleGlobalDataNamespace :: "object \<Rightarrow> 'w sys \<Rightarrow> bool \<times> 'w sys" where
  "isCattleGlobalDataNamespace ns s =
     (if objName ns \<noteq> ''cattle-global-data'' then (False, s) else (True, AddWatch [''rancher''] s))"

definition isManagedClusterRegistrationSecret :: "object \<Rightarrow> 'w sys \<Rightarrow> bool \<times> 'w sys" where
  "isManagedClusterRegistrationSecret sec s =
     (if objNamespace sec \<noteq> ''verrazzano-system'' \<or> objName sec \<noteq> ''verrazzano-cluster-registration'' then (False, s)
      else (True, AddWatch [''fluentd'', ''jaegerOperator'', ''authProxy'', ''fluentOperator'',
                            ''fluentbitOpensearchOutput''] s))"

definition isThanosInternalUserSecret :: "object \<Rightarrow> 'w sys \<Rightarrow> bool \<times> 'w sys" where
  "isThanosInternalUserSecret sec s =
     (if objNamespace sec \<noteq> ''verrazzano-monitoring'' \<or> objName sec \<noteq> ''verrazzano-thanos-internal'' then (False, s)
      else (True, AddWatch [''keycloak''] s))"

definition isResourceCreatedByMysqlOperator :: "(string \<Rightarrow> string option) \<Rightarrow> bool" where
  "isResourceCreatedByMysqlOperator labels = (case labels ''app.kubernetes.io/created-by'' of
       None \<Rightarrow> False
     | Some createdBy \<Rightarrow> createdBy = ''mysql-operator'')"

text \<open>The first owner of kind CronJob decides; owners are kind and name.\<close>

fun cron_job_owner :: "(string \<times> string) list \<Rightarrow> string option" where
  "cron_job_owner [] = None"
| "cron_job_owner ((k, n) # owners) = (if k = ''CronJob'' then Some n else cron_job_owner owners)"

definition isMysqlOperatorJob ::
  "'w controller_ops \<Rightarrow> object \<Rightarrow> (string \<times> string) list \<Rightarrow> 'w \<Rightarrow> bool \<times> 'w" where
  "isMysqlOperatorJob H job owners w =
     (if objNamespace job \<noteq> ''keycloak'' then (False, w)
      else (case cron_job_owner owners of
          Some n \<Rightarrow> (case GetCronJob H (objNamespace job) n w of
              (Inl err, w1) \<Rightarrow> (False, w1)
            | (Inr labels, w1) \<Rightarrow> (isResourceCreatedByMysqlOperator labels, w1))
        | None \<Rightarrow> (isResourceCreatedByMysqlOperator (objLabels job), w)))"

section \<open>Labels\<close>

lemma merge_loop_override:
  "distinct (map fst from') \<Longrightarrow> merge_loop m from' b =
     (m ++ map_of from', b \<or> (\<exists>(k, v) \<in> set from'. m k \<noteq> Some v))"
proof (induction from' arbitrary: m b)
  case Nil
  then show ?case by simp
next
  case (Cons kv from')
  obtain k v where kv: "kv = (k, v)" by fastforce
  from Cons.prems kv have fresh: "k \<notin> fst ` set from'" and d: "distinct (map fst from')" by auto
  have none: "map_of from' k = None" using fresh by (simp add: map_of_eq_None_iff)
  have ov: "m(k \<mapsto> v) ++ map_of from' = m ++ map_of (kv # from')"
    by (rule ext) (simp add: kv map_add_def none split: option.split)
  have later: "(\<exists>(k', v') \<in> set from'. (m(k \<mapsto> v)) k' \<noteq> Some v') = (\<exists>(k', v') \<in> set from'. m k' \<noteq> Some v')"
    using fresh by (auto simp: image_iff split: if_splits) force+
  show ?case
  proof (cases "m k = Some v")
    case True
    then have "m(k \<mapsto> v) = m" by (simp add: fun_upd_idem)
    with ov have "m ++ map_of from' = m ++ map_of (kv # from')" by (simp only:)
    with True Cons.IH [OF d, of m b] show ?thesis unfolding kv by (simp del: map_of.simps)
  next
    case False
    with Cons.IH [OF d, of "m(k \<mapsto> v)" True] ov show ?thesis
      unfolding kv by (cases "m k") (simp_all del: map_of.simps fun_upd_apply)
  qed
qed


lemma mergeMaps_override:
  "distinct (map fst from') \<Longrightarrow> mergeMaps to from' = (to ++ map_of from', \<exists>(k, v) \<in> set from'. to k \<noteq> Some v)"
  by (simp add: mergeMaps_def merge_loop_override)

section \<open>Properties\<close>

lemma or_requeue_Ret_iff:
  "or_requeue E r f = Ret ((q, e), t) \<longleftrightarrow> (\<exists>result err s. r = Ret ((result, err), s)
     \<and> (if err \<noteq> None then q = newRequeueWithDelay (IntnRange E) \<and> e = err \<and> t = s
        else if ShouldRequeue result then q = result \<and> e = None \<and> t = s
        else f s = Ret ((q, e), t)))"
  by (auto simp: or_requeue_def split: res.splits prod.splits)

lemma or_fail_Ret_iff:
  "or_fail E r f = Ret ((q, e), t) \<longleftrightarrow> (\<exists>err s. r = (err, s)
     \<and> (if err \<noteq> None then q = newRequeueWithDelay (IntnRange E) \<and> e = err \<and> t = s else f s = Ret ((q, e), t)))"
  by (cases r; cases "fst r") (auto simp: or_fail_def delayed_def)

lemma or_fail_simps [simp]:
  "or_fail E (Some err, s) f = delayed E (Some err) s" "or_fail E (None, s) f = f s"
  by (simp_all add: or_fail_def)

definition nothing_first :: "'w env \<Rightarrow> 'w sys \<Rightarrow> bool" where
  "nothing_first E s \<longleftrightarrow> DeletionTimestamp (CR s) = None \<and> finalizerName \<in> set (Finalizers (CR s))
     \<and> Initialized s (vzName (CR s))
     \<and> list_all (\<lambda>c. \<exists>st. comp_status_of s (Name c) = Some st \<and> LastReconciledGeneration st \<noteq> 0) (GetComponents E)"

lemma init_components_quiet:
  "list_all (\<lambda>c. \<exists>st. comp_status_of s (Name c) = Some st \<and> LastReconciledGeneration st \<noteq> 0) cs \<Longrightarrow>
     init_components E eff cs upd b s = (Inr (upd, b), s)"
  by (induction cs) auto

lemma doReconcile_state:
  assumes "nothing_first E s"
  shows "doReconcile E H s = (case vzState (Status (CR s)) of
                VzStateEmpty \<Rightarrow> Ret ((requeue_now, None), updateVzState VzStateReady s)
              | VzStateFailed \<Rightarrow> ProcFailedState E H s
              | VzStateReconciling \<Rightarrow> ProcReconcilingState E s
              | VzStateReady \<Rightarrow> ProcReadyState E H s
              | VzStateUpgrading \<Rightarrow> ProcUpgradingState E s
              | VzStatePaused \<Rightarrow> ProcPausedUpgradeState E H s
              | VzStateUninstalling \<Rightarrow> Panic ''Invalid Verrazzano controller state'')"
  using assms by (simp add: doReconcile_def nothing_first_def initForVzResource_def init_first_time_def)

text \<open>C9. What the version of the spec means for an installed product: when nothing else is to be done
  first (the resource is not being deleted, has the finalizer, was seen before, and every
  registered component has details with a reconciled generation), a call in state Ready asks for
  an upgrade exactly when the two versions compare as different: it then sends the one event
  that moves the resource to Upgrading and touches nothing else; otherwise it reconciles the
  components.\<close>

theorem version_change_upgrades:
  assumes "nothing_first E s" and "NewContext E (CR s) = Inr eff" and "vzState (Status (CR s)) = VzStateReady"
    and "isInstalled (Status (CR s))" and "NewSemVersion (SpecVersion (CR s)) = Inr a"
    and "NewSemVersion (vzVersion (Status (CR s))) = Inr b" and "SpecVersion (CR s) \<noteq> []"
  shows "doReconcile E H s =
     (if CompareTo a b \<noteq> 0 then Ret ((newRequeueWithDelay (IntnRange E), None), send (zero_event\<lparr>evState := VzStateUpgrading\<rparr>) s)
      else ready_components E H s)"
proof -
  have "initializeComponentStatus E s = ((no_requeue, None), s)"
    using assms(1,2) by (simp add: initializeComponentStatus_def nothing_first_def init_components_quiet)
  with assms(3-7) show ?thesis
    by (simp add: doReconcile_state [OF assms(1)] ProcReadyState_def or_requeue_def ready_installed_def
        delayed_def updateVzState_def)
qed

definition installed_sys :: "string \<Rightarrow> string list sys" where
  "installed_sys spec = (sample_sys ((sample_cr [''istio'' \<mapsto> zero_comp_status
       \<lparr>csState := CompStateReady, LastReconciledGeneration := 3\<rparr>])
     \<lparr>Finalizers := [finalizerName], SpecVersion := spec, Status := zero_status\<lparr>vzState := VzStateReady, vzVersion := ''1.5.0'',
        vzConditions := [\<lparr>LastTransitionTime = [], Message = [], CondStatus = ConditionTrue, CondType = CondInstallComplete\<rparr>],
        vzComponents := [''istio'' \<mapsto> zero_comp_status\<lparr>csState := CompStateReady, LastReconciledGeneration := 3\<rparr>]\<rparr>\<rparr>))
     \<lparr>Initialized := \<lambda>n. True\<rparr>"

definition plain_controller :: "string list client \<Rightarrow> string list controller_ops" where
  "plain_controller K = uninstall_ops.extend (plain_ops K)
     \<lparr>watchResources = \<lambda>ns n w. (None, w), CreateOrUpdateSecret = \<lambda>ns n d w. (None, w),
      GetCronJob = \<lambda>ns n w. (Inr Map.empty, w)\<rparr>"

lemma installed_sys_first: "nothing_first (sample_env [sample_component ''istio'']) (installed_sys spec)"
  by (simp add: nothing_first_def installed_sys_def sample_sys_def sample_cr_def zero_cr_def GetComponents_def
      sample_env_def sample_component_def comp_status_of_def zero_comp_status_def)

lemma versions_16_15:
  "case (NewSemVersion ''1.6.0'', NewSemVersion ''1.5.0'') of (Inr a, Inr b) \<Rightarrow> CompareTo a b \<noteq> 0 | _ \<Rightarrow> False"
  by code_simp

theorem version_change_upgrades_witness:
  "doReconcile (sample_env [sample_component ''istio'']) (plain_controller log_client) (installed_sys ''1.6.0'') =
     Ret ((newRequeueWithDelay (\<lambda>lo hi. lo), None), send (zero_event\<lparr>evState := VzStateUpgrading\<rparr>) (installed_sys ''1.6.0''))"
proof -
  obtain a b where v: "NewSemVersion ''1.6.0'' = Inr a" "NewSemVersion ''1.5.0'' = Inr b" "CompareTo a b \<noteq> 0"
    using versions_16_15 by (auto split: sum.splits)
  have s: "SpecVersion (CR (installed_sys ''1.6.0'')) = ''1.6.0''" "vzVersion (Status (CR (installed_sys ''1.6.0''))) = ''1.5.0''"
    "vzState (Status (CR (installed_sys ''1.6.0''))) = VzStateReady" "isInstalled (Status (CR (installed_sys ''1.6.0'')))"
    "Profile (CR (installed_sys ''1.6.0'')) = []"
    by (simp_all add: installed_sys_def sample_sys_def sample_cr_def zero_cr_def isInstalled_def)
  have i: "IntnRange (sample_env [sample_component ''istio'']) = (\<lambda>lo hi. lo)" by (simp add: sample_env_def)
  show ?thesis
    using version_change_upgrades [OF installed_sys_first NewContext_sample, of "''1.6.0''" a b "plain_controller log_client"] s v i
    by simp
qed


text \<open>C8. An upgrade is not run by the wrong operator: while the operator is newer than the version
  asked for, a call in state Upgrading installs and upgrades nothing and does not reach the
  cluster; it sends the one event that moves the resource to Paused with Upgrade Paused as its
  newest condition, naming both versions, and asks to be called again.\<close>

theorem newer_operator_pauses:
  assumes "nothing_first E s" and "vzState (Status (CR s)) = VzStateUpgrading"
    and "CurrentBomVersion E = Inr b" and "NewSemVersion (SpecVersion (CR s)) = Inr v" and "CompareTo b v > 0"
  shows "\<exists>ev cs. doReconcile E H s = Ret ((newRequeueWithDelay (IntnRange E), None), send ev s)
     \<and> evState ev = VzStatePaused \<and> evConditions ev = Some cs \<and> CondType (last cs) = CondUpgradePaused
     \<and> Message (last cs) = ''Verrazzano upgrade to version '' @ SpecVersion (CR s)
         @ '' paused. Upgrade will be performed when version is updated to '' @ ToString b
     \<and> filter (\<lambda>c. CondType c \<noteq> CondUpgradePaused) cs = filter (\<lambda>c. CondType c \<noteq> CondUpgradePaused) (vzConditions (Status (CR s)))"
proof -
  have "isOperatorNewerVersionThanCR E (SpecVersion (CR s)) = (ToString b, True)"
    using assms(3-5) by (simp add: isOperatorNewerVersionThanCR_def getVzAndOperatorVersions_def)
  with assms(2) have d: "doReconcile E H s = pause_upgrade E (ToString b) s"
    by (simp add: doReconcile_state [OF assms(1)] ProcUpgradingState_def)
  let ?m = "''Verrazzano upgrade to version '' @ SpecVersion (CR s)
         @ '' paused. Upgrade will be performed when version is updated to '' @ ToString b"
  let ?cs = "appendConditionIfNecessary (vzConditions (Status (CR s))) (new_condition E s ?m CondUpgradePaused)"
  let ?ev = "zero_event\<lparr>evVersion := None, evState := conditionToVzState CondUpgradePaused, evConditions := Some ?cs\<rparr>"
  have "doReconcile E H s = Ret ((newRequeueWithDelay (IntnRange E), None), send ?ev s)"
    unfolding d pause_upgrade_def updateStatus_def Let_def by (simp only: condition_type.simps if_False res_bind.simps prod.case delayed_def)
  moreover have "evState ?ev = VzStatePaused" "evConditions ?ev = Some ?cs" "CondType (last ?cs) = CondUpgradePaused"
    "Message (last ?cs) = ?m"
    by (simp_all add: conditionToVzState_def appendConditionIfNecessary.simps new_condition_def)
  moreover have "filter (\<lambda>c. CondType c \<noteq> CondUpgradePaused) ?cs
      = filter (\<lambda>c. CondType c \<noteq> CondUpgradePaused) (vzConditions (Status (CR s)))"
    by (simp add: appendConditionIfNecessary.simps new_condition_def filter_filter)
  ultimately show ?thesis by blast
qed

definition upgrading_to :: "string \<Rightarrow> string list sys" where
  "upgrading_to spec = (let s = installed_sys spec in
     s\<lparr>CR := (CR s)\<lparr>Status := (Status (CR s))\<lparr>vzState := VzStateUpgrading\<rparr>\<rparr>\<rparr>)"

theorem newer_operator_pauses_witness:
  "\<exists>ev cs. doReconcile bom_env (plain_controller log_client) (upgrading_to ''1.5.0'') =
       Ret ((newRequeueWithDelay (IntnRange bom_env), None), send ev (upgrading_to ''1.5.0''))
     \<and> evState ev = VzStatePaused \<and> evConditions ev = Some cs \<and> CondType (last cs) = CondUpgradePaused"
proof -
  obtain a b where v: "NewSemVersion ''1.6.0'' = Inr a" "NewSemVersion ''1.5.0'' = Inr b"
    using versions_16_15 by (auto split: sum.splits)
  have "case (NewSemVersion ''1.6.0'', NewSemVersion ''1.5.0'') of (Inr a, Inr b) \<Rightarrow> CompareTo a b > 0 | _ \<Rightarrow> False"
    by code_simp
  with v have c: "CompareTo a b > 0" by simp
  have f: "nothing_first bom_env (upgrading_to ''1.5.0'')"
    using installed_sys_first [of "''1.5.0''"]
    by (simp add: nothing_first_def upgrading_to_def Let_def bom_env_def GetComponents_def comp_status_of_def)
  have s: "vzState (Status (CR (upgrading_to ''1.5.0''))) = VzStateUpgrading" "CurrentBomVersion bom_env = Inr a"
    "SpecVersion (CR (upgrading_to ''1.5.0'')) = ''1.5.0''"
    by (simp_all add: upgrading_to_def Let_def bom_env_def v installed_sys_def sample_sys_def)
  from newer_operator_pauses [OF f s(1,2), of b "plain_controller log_client"] s(3) v(2) c show ?thesis by auto
qed

text \<open>A failed resource stays as it is: in state Failed, as long as the retry annotation is absent or
  was seen before and the operator is not newer than the version asked for, a call does nothing
  at all; and a new value of the annotation is recorded in the resource once, written to the API
  server, and moves the resource to Ready.\<close>

lemma failed_until_retry:
  assumes "nothing_first E s" and "vzState (Status (CR s)) = VzStateFailed"
    and "\<not> snd (isOperatorNewerVersionThanCR E (SpecVersion (CR s)))"
  shows "if Annotations (CR s) UpgradeRetryVersion = None
         \<or> Annotations (CR s) ObservedUpgradeRetryVersion = Annotations (CR s) UpgradeRetryVersion
     then doReconcile E H s = Ret ((no_requeue, None), s)
     else \<exists>cr w err. UpdateVerrazzano (Kube H) cr (World s) = (err, w)
       \<and> Annotations cr = (Annotations (CR s))(ObservedUpgradeRetryVersion := Annotations (CR s) UpgradeRetryVersion)
       \<and> (if err = None
          then doReconcile E H s = Ret ((\<lparr>Requeue = True, RequeueAfter = 1\<rparr>, None),
                 send (zero_event\<lparr>evState := VzStateReady\<rparr>) (s\<lparr>CR := cr, World := w\<rparr>))
          else doReconcile E H s = Ret ((newRequeueWithDelay (IntnRange E), err), s\<lparr>CR := cr, World := w\<rparr>))"
proof (cases "Annotations (CR s) UpgradeRetryVersion")
  obtain bv where n: "isOperatorNewerVersionThanCR E (SpecVersion (CR s)) = (bv, False)"
    using assms(3) by (cases "isOperatorNewerVersionThanCR E (SpecVersion (CR s))") auto
  case None
  with assms n show ?thesis
    by (simp add: doReconcile_state [OF assms(1)] ProcFailedState_def retryUpgrade_def nothing_first_def)
next
  obtain bv where n: "isOperatorNewerVersionThanCR E (SpecVersion (CR s)) = (bv, False)"
    using assms(3) by (cases "isOperatorNewerVersionThanCR E (SpecVersion (CR s))") auto
  case (Some v)
  let ?cr = "(CR s)\<lparr>Annotations := (Annotations (CR s))(ObservedUpgradeRetryVersion \<mapsto> v)\<rparr>"
  obtain err w where u: "UpdateVerrazzano (Kube H) ?cr (World s) = (err, w)" by fastforce
  show ?thesis
  proof (cases "Annotations (CR s) ObservedUpgradeRetryVersion = Some v")
    case True
    with assms Some n show ?thesis
      by (simp add: doReconcile_state [OF assms(1)] ProcFailedState_def retryUpgrade_def nothing_first_def)
  next
    case False
    with assms Some u have "if err = None
          then doReconcile E H s = Ret ((\<lparr>Requeue = True, RequeueAfter = 1\<rparr>, None),
                 send (zero_event\<lparr>evState := VzStateReady\<rparr>) (s\<lparr>CR := ?cr, World := w\<rparr>))
          else doReconcile E H s = Ret ((newRequeueWithDelay (IntnRange E), err), s\<lparr>CR := ?cr, World := w\<rparr>)"
      by (cases err) (simp_all add: doReconcile_state [OF assms(1)] ProcFailedState_def retryUpgrade_def nothing_first_def
          update_cr_def call_world_def updateVzState_def delayed_def)
    with False Some u show ?thesis by (auto intro!: exI [of _ ?cr] exI [of _ w] exI [of _ err])
  qed
qed

definition failed_sys :: "string list sys" where
  "failed_sys = (let s = installed_sys ''1.5.0'' in
     s\<lparr>CR := (CR s)\<lparr>Status := (Status (CR s))\<lparr>vzState := VzStateFailed\<rparr>\<rparr>\<rparr>)"

lemma failed_until_retry_witness:
  "doReconcile (sample_env [sample_component ''istio'']) (plain_controller log_client) failed_sys = Ret ((no_requeue, None), failed_sys)"
proof -
  have f: "nothing_first (sample_env [sample_component ''istio'']) failed_sys"
    using installed_sys_first [of "''1.5.0''"]
    by (simp add: nothing_first_def failed_sys_def Let_def comp_status_of_def)
  have n: "\<not> snd (isOperatorNewerVersionThanCR (sample_env [sample_component ''istio'']) v)" for v
    by (simp add: isOperatorNewerVersionThanCR_def getVzAndOperatorVersions_def sample_env_def)
  have s: "vzState (Status (CR failed_sys)) = VzStateFailed" "Annotations (CR failed_sys) = Map.empty"
    by (simp_all add: failed_sys_def Let_def installed_sys_def sample_sys_def sample_cr_def zero_cr_def)
  from failed_until_retry [OF f s(1) n, of "plain_controller log_client"] s(2) show ?thesis by simp
qed

lemma map_of_update: "map_of (AList.update k v l) = (map_of l)(k \<mapsto> v)"
  by (simp add: update_conv')

lemma distinct_update_keys: "distinct (map fst l) \<Longrightarrow> distinct (map fst (AList.update k v l))"
  by (rule distinct_update)

lemma createVerrazzanoSystemNamespace_labels:
  "createVerrazzanoSystemNamespace K s = (e, s') \<Longrightarrow> systemNamespaceLabels s' = system_labels (CR s) (systemNamespaceLabels s)"
  by (auto simp: createVerrazzanoSystemNamespace_def Let_def call_world_def split: prod.splits)

text \<open>The label that disables Istio's injection in the system namespace sticks to the process: the
  map of the labels to set is a package variable that the code only ever changes from enabled to
  disabled, so once a resource without injection was processed, every later resource, also one
  with injection, has the namespace labelled disabled, whatever labels the namespace had.\<close>

lemma injection_label_sticks:
  assumes "createVerrazzanoSystemNamespace K s = (e, s')" and "createVerrazzanoSystemNamespace K t = (e', t')"
    and "Istio (Components (CR s)) = Some istio" and "\<not> IsInjectionEnabled istio"
    and "systemNamespaceLabels t = systemNamespaceLabels s'" and "distinct (map fst (systemNamespaceLabels s))"
  shows "fst (mergeMaps labels (systemNamespaceLabels t')) ''istio-injection'' = Some ''disabled''"
proof -
  let ?u = "AList.update ''istio-injection'' ''disabled''"
  have s': "systemNamespaceLabels s' = ?u (systemNamespaceLabels s)"
    using createVerrazzanoSystemNamespace_labels [OF assms(1)] assms(3,4) by (simp add: system_labels_def)
  have "systemNamespaceLabels t' \<in> {systemNamespaceLabels s', ?u (systemNamespaceLabels s')}"
    using createVerrazzanoSystemNamespace_labels [OF assms(2)] assms(5) by (auto simp: system_labels_def split: option.splits)
  with s' assms(6) have "map_of (systemNamespaceLabels t') ''istio-injection'' = Some ''disabled''"
    "distinct (map fst (systemNamespaceLabels t'))"
    by (auto simp: map_of_update intro!: distinct_update_keys)
  then show ?thesis by (simp add: mergeMaps_override map_add_Some_iff)
qed

definition no_injection :: alpha_istio_component where
  "no_injection = \<lparr>Enabled = Some True, MonitorChanges = None, ValueOverrides = [], InjectionEnabled = Some False,
     istioEgress = None, istioIngress = None, IstioInstallArgs = []\<rparr>"

definition with_istio :: "alpha_istio_component \<Rightarrow> string list sys \<Rightarrow> string list sys" where
  "with_istio i s = s\<lparr>CR := (CR s)\<lparr>Components := (Components (CR s))\<lparr>Istio := Some i\<rparr>\<rparr>\<rparr>"

lemma injection_label_sticks_witness:
  "\<exists>e s'. createVerrazzanoSystemNamespace log_client (with_istio no_injection (sample_sys (sample_cr Map.empty))) = (e, s')
     \<and> (\<exists>e' t'. createVerrazzanoSystemNamespace log_client
            (with_istio (no_injection\<lparr>InjectionEnabled := Some True\<rparr>) s') = (e', t')
          \<and> fst (mergeMaps Map.empty (systemNamespaceLabels t')) ''istio-injection'' = Some ''disabled'')"
proof -
  let ?s = "with_istio no_injection (sample_sys (sample_cr Map.empty))"
  obtain e s' where s: "createVerrazzanoSystemNamespace log_client ?s = (e, s')" by fastforce
  let ?t = "with_istio (no_injection\<lparr>InjectionEnabled := Some True\<rparr>) s'"
  obtain e' t' where t: "createVerrazzanoSystemNamespace log_client ?t = (e', t')" by fastforce
  have "fst (mergeMaps Map.empty (systemNamespaceLabels t')) ''istio-injection'' = Some ''disabled''"
    by (rule injection_label_sticks [OF s t, of no_injection])
       (simp_all add: with_istio_def no_injection_def IsInjectionEnabled_def sample_sys_def)
  with s t show ?thesis by blast
qed

end
