(* ===== verification/Process.thy ===== *)
theory Process imports Controller begin

text \<open>
  The operator process over many calls: what the in-memory trackers satisfy after any sequence
  of reconcile calls, whatever happens to the resource and to the cluster between the calls,
  and what follows for a single call.
\<close>

section \<open>The invariant of the trackers\<close>

definition proc_inv :: "'w env \<Rightarrow> 'w sys \<Rightarrow> bool" where
  "proc_inv E s \<longleftrightarrow> trackers_ok s \<and> upgrade_trackers_ok E s \<and> uninstall_trackers_ok E s"

lemma proc_inv_same: "maps_same s s' \<Longrightarrow> proc_inv E s \<Longrightarrow> proc_inv E s'"
  by (simp add: proc_inv_def maps_same_def trackers_ok_def upgrade_trackers_ok_def uninstall_trackers_ok_def)

definition safe :: "'w env \<Rightarrow> ('a \<times> 'w sys) res \<Rightarrow> bool" where
  "safe E r \<longleftrightarrow> (case r of Spin \<Rightarrow> False | Panic m \<Rightarrow> True | Ret (a, s) \<Rightarrow> proc_inv E s)"

lemma safe_simps [simp]: "safe E (Ret (a, s)) = proc_inv E s" "safe E (Panic m)" "\<not> safe E Spin"
  by (simp_all add: safe_def)

lemma safe_res_bind:
  "safe E r \<Longrightarrow> (\<And>a s. r = Ret (a, s) \<Longrightarrow> proc_inv E s \<Longrightarrow> safe E (f (a, s))) \<Longrightarrow> safe E (res_bind r f)"
  by (cases r) auto

lemma safe_or_requeue:
  "safe E r \<Longrightarrow> (\<And>s. proc_inv E s \<Longrightarrow> safe E (f s)) \<Longrightarrow> safe E (or_requeue E r f)"
  by (cases r) (auto simp: or_requeue_def split: prod.splits)

lemma safe_or_fail:
  "proc_inv E (snd r) \<Longrightarrow> (\<And>s. proc_inv E s \<Longrightarrow> safe E (f s)) \<Longrightarrow> safe E (or_fail E r f)"
  by (cases r; cases "fst r") (auto simp: delayed_def)

lemma safe_delayed [simp]: "safe E (delayed E e s) = proc_inv E s"
  by (simp add: delayed_def)

section \<open>The operations keep it\<close>

lemma maps_same_call: "call_ctx f eff s = (r, s') \<Longrightarrow> maps_same s s'"
  by (simp add: maps_same_def sys_simps)

lemma maps_same_world: "call_world f s = (r, s') \<Longrightarrow> maps_same s s'"
  by (simp add: maps_same_def sys_simps)

lemma proc_inv_call [simp]: "proc_inv E s \<Longrightarrow> proc_inv E (snd (call_ctx f eff s))"
  using maps_same_call [of f eff s, OF surjective_pairing] by (rule proc_inv_same)

lemma proc_inv_world [simp]: "proc_inv E s \<Longrightarrow> proc_inv E (snd (call_world f s))"
  using maps_same_world [of f s, OF surjective_pairing] by (rule proc_inv_same)

lemma proc_inv_fields [simp]:
  "proc_inv E (send e s) = proc_inv E s" "proc_inv E (set_finalizers fs s) = proc_inv E s"
  "proc_inv E (s\<lparr>Initialized := i\<rparr>) = proc_inv E s" "proc_inv E (s\<lparr>CR := c\<rparr>) = proc_inv E s"
  "proc_inv E (s\<lparr>World := w\<rparr>) = proc_inv E s" "proc_inv E (s\<lparr>Sent := es\<rparr>) = proc_inv E s"
  "proc_inv E (s\<lparr>systemNamespaceLabels := l\<rparr>) = proc_inv E s" "proc_inv E (s\<lparr>Watched := ws\<rparr>) = proc_inv E s"
  "proc_inv E (set_comp_status n cs s) = proc_inv E s"
  by (simp_all add: proc_inv_def trackers_ok_def upgrade_trackers_ok_def uninstall_trackers_ok_def set_finalizers_def
      send_def set_comp_status_def set_status_def)

lemma GetInstanceInfo_maps: "GetInstanceInfo E eff s = Ret (a, s') \<Longrightarrow> maps_same s s' \<and> CR s' = CR s"
  using GetInstanceInfo_same [of E eff s a s'] by (auto simp: same_but_cache_def maps_same_def)

lemma updateStatus_maps:
  assumes "updateStatus E msg ct v s = Ret (e, s')"
  shows "maps_same s s' \<and> CR s' = CR s"
proof (cases "ct = CondInstallComplete")
  case True
  with assms obtain eff info s1 where "GetInstanceInfo E eff s = Ret (info, s1)"
    and "maps_same s1 s'" "CR s' = CR s1"
    by (auto simp: updateStatus_def Let_def op_bind_Ret_iff maps_same_def split: sum.splits)
  with GetInstanceInfo_maps show ?thesis by (metis maps_same_trans)
next
  case False
  with assms show ?thesis by (auto simp: updateStatus_def Let_def maps_same_def)
qed

lemma updateVzStatusAndState_maps:
  assumes "updateVzStatusAndState E msg ct st s = Ret (e, s')"
  shows "maps_same s s' \<and> CR s' = CR s"
proof -
  from assms obtain eff info s1 where "GetInstanceInfo E eff s = Ret (info, s1)"
    and "maps_same s1 s'" "CR s' = CR s1"
    by (auto simp: updateVzStatusAndState_def Let_def op_bind_Ret_iff maps_same_def split: sum.splits)
  with GetInstanceInfo_maps show ?thesis by (metis maps_same_trans)
qed

lemma safe_updateStatus: "proc_inv E s \<Longrightarrow> safe E (updateStatus E msg ct v s)"
  using updateStatus_no_spin [of E msg ct v s] updateStatus_maps [of E msg ct v s]
  by (cases "updateStatus E msg ct v s") (auto intro: proc_inv_same)

lemma safe_setUninstallCondition: "proc_inv E s \<Longrightarrow> safe E (setUninstallCondition E ct msg s)"
  by (simp add: setUninstallCondition_def safe_updateStatus)

lemma safe_setInstallingState: "proc_inv E s \<Longrightarrow> safe E (setInstallingState E s)"
  by (simp add: setInstallingState_def safe_updateStatus split: sum.splits)

lemma all_ready_no_spin: "all_ready E cr cs \<noteq> Spin"
  by (induction cs) (auto split: sum.splits option.splits)

lemma safe_checkComponentReadyState: "proc_inv E s \<Longrightarrow> safe E (checkComponentReadyState E s)"
  using all_ready_no_spin [of E "CR s" "GetComponents E"]
  by (cases "all_ready E (CR s) (GetComponents E)") (simp_all add: checkComponentReadyState_def)

lemma safe_op_bind:
  "safe E (m s) \<Longrightarrow> (\<And>a s. proc_inv E s \<Longrightarrow> safe E (f a s)) \<Longrightarrow> safe E (op_bind m f s)"
  unfolding op_bind_def by (rule safe_res_bind) simp_all

lemma safe_checkInstallComplete: "proc_inv E s \<Longrightarrow> safe E (checkInstallComplete E s)"
  unfolding checkInstallComplete_def
  by (rule safe_op_bind [OF safe_checkComponentReadyState])
     (auto intro!: safe_op_bind safe_updateStatus)

lemma updateVzStatusAndState_no_spin: "updateVzStatusAndState E m ct st s \<noteq> Spin"
  by (simp add: updateVzStatusAndState_def Let_def op_bind_Spin_iff no_spin_GetInstanceInfo split: sum.splits)

lemma safe_updateVzStatusAndState: "proc_inv E s \<Longrightarrow> safe E (updateVzStatusAndState E msg ct st s)"
  using updateVzStatusAndState_no_spin [of E msg ct st s] updateVzStatusAndState_maps [of E msg ct st s]
  by (cases "updateVzStatusAndState E msg ct st s") (auto intro: proc_inv_same)

lemma safe_checkUpgradeComplete: "proc_inv E s \<Longrightarrow> safe E (checkUpgradeComplete E s)"
  unfolding checkUpgradeComplete_def
  by (auto intro!: safe_op_bind safe_checkComponentReadyState safe_updateVzStatusAndState)

lemma init_components_inv:
  "proc_inv E s \<Longrightarrow> init_components E eff cs upd b s = (r, s') \<Longrightarrow> proc_inv E s'"
proof (induction cs arbitrary: upd b s)
  case Nil
  then show ?case by simp
next
  case (Cons c cs)
  have k: "call_ctx (IsInstalled c) eff s = (i, s1) \<Longrightarrow> proc_inv E s1" for i s1
    using proc_inv_same [OF maps_same_call Cons.prems(1)] .
  from Cons.prems show ?case
    by (auto simp: Let_def split: option.splits if_splits prod.splits sum.splits
        elim!: Cons.IH [rotated] intro: k)
qed

lemma initializeComponentStatus_inv: "proc_inv E s \<Longrightarrow> initializeComponentStatus E s = (r, s') \<Longrightarrow> proc_inv E s'"
  by (auto simp: initializeComponentStatus_def split: sum.splits prod.splits if_splits dest: init_components_inv)


section \<open>The flows keep it\<close>

text \<open>The install flow changes its own tracker map and none of the others.\<close>

lemma reconcileComponents_maps:
  assumes "trackers_ok s" and "reconcileComponents E pre s = Ret (x, s')"
  shows "upgradeTrackerMap s' = upgradeTrackerMap s \<and> UninstallTrackerMap s' = UninstallTrackerMap s"
proof (cases "NewContext E (CR s)")
  case (Inl err)
  with assms(2) show ?thesis by (simp add: reconcileComponents_def)
next
  case (Inr eff)
  let ?Q = "\<lambda>s'. upgradeTrackerMap s' = upgradeTrackerMap s \<and> UninstallTrackerMap s' = UninstallTrackerMap s"
  have "\<forall>x s'. loop_res (install_flow_step E eff pre) (getInstallTracker s, s) = Ret (x, s') \<longrightarrow> ?Q s'"
  proof (rule flow.loop_res_rule [where I = "flow_inv s"])
    show "install_contexts_ok (fst (getInstallTracker s, s))" using getInstallTracker_ok [OF assms(1)] by simp
    show "flow_inv s (getInstallTracker s, s)" by (simp add: flow_inv_def)
  next
    fix a b :: "reconcileState tracker \<times> 'a sys"
    assume "install_contexts_ok (fst a)" "flow_inv s a" "install_flow_step E eff pre a = Inl b"
    then show "flow_inv s b"
      using flow_inv_step [of s "fst a" "snd a" E eff pre "fst b" "snd b"] by simp
  next
    fix a :: "reconcileState tracker \<times> 'a sys" and res
    assume g: "install_contexts_ok (fst a)" and inv: "flow_inv s a" and st: "install_flow_step E eff pre a = Inr res"
    from inv have m: "maps_same s (snd a)" by (simp add: flow_inv_def)
    show "\<forall>x s'. res = Ret (x, s') \<longrightarrow> ?Q s'"
    proof (intro allI impI)
      fix x s' assume r: "res = Ret (x, s')"
      obtain q e where x: "x = (q, e)" by fastforce
      from flow_leave [OF g, of E eff pre "snd a" q e s'] st r x m show "?Q s'"
        by (auto simp: maps_same_def put_install_tracker_def deleteInstallTracker_def)
    qed
  qed
  with Inr assms(2) show ?thesis by (simp add: reconcileComponents_def)
qed

lemma safe_reconcileComponents:
  assumes "proc_inv E s"
  shows "safe E (reconcileComponents E pre s)"
proof -
  have t: "trackers_ok s" using assms by (simp add: proc_inv_def)
  note post = reconcile_components_post [OF t, of E pre]
  show ?thesis
  proof (cases "reconcileComponents E pre s")
    case (Ret x)
    obtain q e s' where x: "x = ((q, e), s')" by (cases x) auto
    from post Ret x have "trackers_ok s'" by (simp add: reconcile_post_def)
    moreover from reconcileComponents_maps [OF t, of E pre "(q, e)" s'] Ret x
    have "upgradeTrackerMap s' = upgradeTrackerMap s" "UninstallTrackerMap s' = UninstallTrackerMap s" by auto
    ultimately show ?thesis using assms Ret x
      by (simp add: proc_inv_def upgrade_trackers_ok_def uninstall_trackers_ok_def)
  qed (use post in \<open>auto simp: reconcile_post_def\<close>)
qed

lemma safe_reconcileUpgrade:
  assumes "proc_inv E s" and d: "distinct (map Name (GetComponents E))"
  shows "safe E (reconcileUpgrade E s)"
proof -
  have t: "upgrade_trackers_ok E s" using assms(1) by (simp add: proc_inv_def)
  show ?thesis
  proof (cases "reconcileUpgrade E s")
    case (Ret x)
    obtain q e s' where x: "x = ((q, e), s')" by (cases x) auto
    from upgrade_run_left [OF _ t d, of q e s'] Ret x
    consider "s' = s" | s1 where "upgrade_frame s s1" "upgrade_left E s1 q e s'" by auto
    then show ?thesis
    proof cases
      case 1
      with assms Ret x show ?thesis by simp
    next
      case 2
      from upgrade_left_post [OF 2 t] have "upgrade_trackers_ok E s'" by (simp add: upgrade_flow_post_def)
      moreover have "installTrackerMap s' = installTrackerMap s \<and> UninstallTrackerMap s' = UninstallTrackerMap s"
        using 2 by (auto simp: upgrade_left_def upgrade_frame_def maps_same_def put_upgrade_tracker_def deleteUpgradeTracker_def)
      ultimately show ?thesis using assms Ret x
        by (simp add: proc_inv_def trackers_ok_def uninstall_trackers_ok_def)
    qed
  next
    case Spin
    with reconcileUpgrade_no_spin [OF t] show ?thesis by simp
  qed simp
qed

lemma safe_reconcileUninstall:
  assumes "proc_inv E s" and d: "distinct (map Name (GetComponents E))"
  shows "safe E (reconcileUninstall E U s)"
proof -
  have t: "uninstall_trackers_ok E s" using assms(1) by (simp add: proc_inv_def)
  show ?thesis
  proof (cases "reconcileUninstall E U s")
    case (Ret x)
    obtain q e s' where x: "x = ((q, e), s')" by (cases x) auto
    from uninstall_run_left [OF _ t d, of U q e s'] Ret x
    consider "uninstall_frame s s'" | s1 where "uninstall_frame s s1" "uninstall_left E s1 q e s'" by auto
    then show ?thesis
    proof cases
      case 1
      with assms Ret x show ?thesis by (auto simp: uninstall_frame_def intro: proc_inv_same)
    next
      case 2
      from uninstall_left_post [OF 2 t] have "uninstall_trackers_ok E s'" by (simp add: uninstall_flow_post_def)
      moreover have "installTrackerMap s' = installTrackerMap s \<and> upgradeTrackerMap s' = upgradeTrackerMap s"
        using 2 by (auto simp: uninstall_left_def uninstall_frame_def maps_same_def put_uninstall_tracker_def)
      ultimately show ?thesis using assms Ret x
        by (simp add: proc_inv_def trackers_ok_def upgrade_trackers_ok_def)
    qed
  next
    case Spin
    with reconcileUninstall_no_spin [OF t] show ?thesis by simp
  qed simp
qed


section \<open>One call\<close>

lemma proc_inv_DeleteUninstallTracker: "proc_inv E s \<Longrightarrow> proc_inv E (DeleteUninstallTracker s)"
  by (auto simp: proc_inv_def DeleteUninstallTracker_def trackers_ok_def upgrade_trackers_ok_def uninstall_trackers_ok_def)

lemma proc_inv_update_cr: "proc_inv E s \<Longrightarrow> proc_inv E (snd (update_cr K s))"
  by (simp add: update_cr_def)

lemma safe_finish_delete: "proc_inv E s \<Longrightarrow> safe E (finish_delete E H s)"
  unfolding finish_delete_def
  by (rule safe_or_fail) (simp_all add: proc_inv_update_cr proc_inv_DeleteUninstallTracker)

lemma safe_procDelete:
  assumes "proc_inv E s" and "distinct (map Name (GetComponents E))"
  shows "safe E (procDelete E H s)"
  using assms unfolding procDelete_def
  by (auto intro!: safe_res_bind safe_setUninstallCondition safe_or_fail safe_or_requeue safe_reconcileUninstall safe_finish_delete)

lemma check_oci_secret_inv: "proc_inv E s \<Longrightarrow> proc_inv E (snd (check_oci_secret K s))"
  by (simp add: check_oci_secret_def split: option.splits)

lemma createVerrazzanoSystemNamespace_inv: "proc_inv E s \<Longrightarrow> proc_inv E (snd (createVerrazzanoSystemNamespace K s))"
  by (simp add: createVerrazzanoSystemNamespace_def Let_def)

lemma safe_ready_components: "proc_inv E s \<Longrightarrow> safe E (ready_components E H s)"
  unfolding ready_components_def by (auto intro!: safe_or_requeue safe_reconcileComponents safe_or_fail)

lemma safe_ready_installed: "proc_inv E s \<Longrightarrow> safe E (ready_installed E H s)"
  by (simp add: ready_installed_def updateVzState_def safe_ready_components split: sum.splits)

lemma safe_ready_first_install: "proc_inv E s \<Longrightarrow> safe E (ready_first_install E H s)"
  unfolding ready_first_install_def
  by (auto intro!: safe_or_fail safe_res_bind safe_checkInstallComplete safe_setInstallingState
      simp: check_oci_secret_inv createVerrazzanoSystemNamespace_inv)

lemma safe_ProcReadyState:
  assumes "proc_inv E s"
  shows "safe E (ProcReadyState E H s)"
proof -
  obtain r s1 where i: "initializeComponentStatus E s = (r, s1)" by fastforce
  from initializeComponentStatus_inv [OF assms i] show ?thesis
    unfolding ProcReadyState_def i
    by (intro safe_or_requeue) (simp_all add: safe_ready_installed safe_ready_first_install)
qed

lemma safe_ProcReconcilingState: "proc_inv E s \<Longrightarrow> safe E (ProcReconcilingState E s)"
  unfolding ProcReconcilingState_def
  by (auto intro!: safe_or_requeue safe_reconcileComponents safe_res_bind safe_checkInstallComplete)

lemma safe_pause_upgrade: "proc_inv E s \<Longrightarrow> safe E (pause_upgrade E v s)"
  unfolding pause_upgrade_def by (auto intro!: safe_res_bind safe_updateStatus)

lemma safe_upgrade_rest: "proc_inv E s \<Longrightarrow> safe E (upgrade_rest E s)"
  unfolding upgrade_rest_def
  by (auto intro!: safe_or_requeue safe_reconcileComponents safe_res_bind safe_checkUpgradeComplete)

lemma safe_ProcUpgradingState:
  assumes "proc_inv E s" and "distinct (map Name (GetComponents E))"
  shows "safe E (ProcUpgradingState E s)"
  using assms unfolding ProcUpgradingState_def
  by (auto intro!: safe_pause_upgrade safe_or_requeue safe_reconcileComponents safe_reconcileUpgrade safe_upgrade_rest
      split: prod.splits)

lemma safe_ProcPausedUpgradeState:
  assumes "proc_inv E s" and "distinct (map Name (GetComponents E))"
  shows "safe E (ProcPausedUpgradeState E H s)"
  using assms by (simp add: ProcPausedUpgradeState_def safe_procDelete updateVzState_def)

lemma update_cr_inv: "update_cr K s = (e, s') \<Longrightarrow> proc_inv E s \<Longrightarrow> proc_inv E s'"
  using proc_inv_update_cr [of E s K] by simp

lemma retryUpgrade_inv: "proc_inv E s \<Longrightarrow> retryUpgrade K s = (r, s') \<Longrightarrow> proc_inv E s'"
  by (auto simp: retryUpgrade_def split: option.splits if_splits prod.splits dest: update_cr_inv)

lemma safe_ProcFailedState:
  assumes "proc_inv E s" and "distinct (map Name (GetComponents E))"
  shows "safe E (ProcFailedState E H s)"
proof (cases "DeletionTimestamp (CR s) = None")
  case True
  obtain retry err s1 where r: "retryUpgrade (Kube H) s = ((retry, err), s1)" by (metis prod.collapse)
  obtain v b where n: "isOperatorNewerVersionThanCR E (SpecVersion (CR s1)) = (v, b)" by fastforce
  from retryUpgrade_inv [OF assms(1) r] True r n show ?thesis
    by (cases err) (simp_all add: ProcFailedState_def updateVzState_def safe_pause_upgrade)
next
  case False
  with assms show ?thesis by (simp add: ProcFailedState_def safe_procDelete)
qed

lemma init_first_time_inv:
  assumes "proc_inv E s"
  shows "proc_inv E (snd (init_first_time E H s))"
proof -
  obtain e1 s1 where 1: "call_world (cleanupOld (Kube H) (CR s)) s = (e1, s1)" by fastforce
  obtain e2 s2 where 2: "call_world (watchResources H (vzNamespace (CR s1)) (vzName (CR s1))) s1 = (e2, s2)" by fastforce
  have "proc_inv E s1" "proc_inv E s2"
    using proc_inv_same [OF maps_same_world [OF 1] assms] proc_inv_same [OF maps_same_world [OF 2]] by auto
  with 1 2 assms show ?thesis by (simp add: init_first_time_def split: option.split)
qed

lemma initForVzResource_inv:
  assumes "proc_inv E s"
  shows "proc_inv E (snd (initForVzResource E H s))"
proof -
  obtain e s1 where u: "update_cr (Kube H) (set_finalizers (Finalizers (CR s) @ [finalizerName]) s) = (e, s1)" by fastforce
  with update_cr_inv [OF u, of E] assms have "proc_inv E s1" by simp
  with u assms show ?thesis by (simp add: initForVzResource_def init_first_time_inv split: option.split)
qed

lemma safe_doReconcile:
  assumes "proc_inv E s" and "distinct (map Name (GetComponents E))"
  shows "safe E (doReconcile E H s)"
proof (cases "DeletionTimestamp (CR s) = None")
  case True
  obtain r e s1 where i: "initForVzResource E H s = ((r, e), s1)" by (metis prod.collapse)
  with initForVzResource_inv [OF assms(1), of H] have p: "proc_inv E s1" by simp
  with True i assms(2) show ?thesis
    by (cases e; cases "vzState (Status (CR s1))")
       (simp_all add: doReconcile_def updateVzState_def safe_ProcFailedState safe_ProcReconcilingState
          safe_ProcReadyState safe_ProcUpgradingState safe_ProcPausedUpgradeState)
next
  case False
  with assms show ?thesis by (simp add: doReconcile_def safe_procDelete)
qed

section \<open>Many calls\<close>

text \<open>
  \<open>calls E H s0 s\<close>: the process can get from \<open>s0\<close> to \<open>s\<close> by calls of the reconciler that
  return, with component watches set in between; every call starts with a freshly read
  resource (any), a cluster that may have changed in any way, and an emptied channel.
\<close>

inductive calls :: "'w env \<Rightarrow> 'w controller_ops \<Rightarrow> 'w sys \<Rightarrow> 'w sys \<Rightarrow> bool" for E H s0 where
  calls_start: "calls E H s0 s0"
| calls_event: "calls E H s0 s \<Longrightarrow> calls E H s0 (AddWatch ns (s\<lparr>CR := cr, World := w, Sent := []\<rparr>))"
| calls_reconcile: "calls E H s0 s \<Longrightarrow> Reconcile E H got s = Ret (r, s') \<Longrightarrow> calls E H s0 s'"

inductive_cases calls_cases: "calls E H s0 s"

lemma safe_Reconcile:
  assumes "proc_inv E s" and "distinct (map Name (GetComponents E))"
  shows "safe E (Reconcile E H got s)"
  using assms unfolding Reconcile_def
  by (auto intro!: safe_res_bind safe_doReconcile split: sum.splits)

lemma proc_inv_AddWatch: "proc_inv E (AddWatch ns s) = proc_inv E s"
  by (induction ns arbitrary: s) simp_all

lemma calls_inv:
  assumes "calls E H s0 s" and "proc_inv E s0" and "distinct (map Name (GetComponents E))"
  shows "proc_inv E s"
  using assms(1)
proof induction
  case calls_start
  show ?case by (rule assms(2))
next
  case (calls_event s ns cr w)
  then show ?case by (simp add: proc_inv_AddWatch)
next
  case (calls_reconcile s got r s')
  with safe_Reconcile [OF _ assms(3), of s H got] show ?case by (cases r) simp
qed

text \<open>C1. The operator never hangs: whatever sequence of calls the process has been through since it
  started, with resources and clusters that change in any way between the calls, and whatever
  the resource and the cluster are now, the next call comes back or panics; all three kinds of
  trackers are then still usable and none is past the components while a component is not done.\<close>

theorem operator_never_hangs:
  assumes "calls E H s0 s" and "installTrackerMap s0 = Map.empty" and "upgradeTrackerMap s0 = Map.empty"
    and "UninstallTrackerMap s0 = Map.empty" and "distinct (map Name (GetComponents E))"
  shows "proc_inv E s \<and> Reconcile E H got s \<noteq> Spin \<and> doReconcile E H s \<noteq> Spin"
proof -
  have "proc_inv E s0"
    using assms(2-4) by (simp add: proc_inv_def trackers_ok_def upgrade_trackers_ok_def uninstall_trackers_ok_def)
  from calls_inv [OF assms(1) this assms(5)] have p: "proc_inv E s" .
  from safe_Reconcile [OF p assms(5), of H got] safe_doReconcile [OF p assms(5), of H] p show ?thesis
    by auto
qed


theorem operator_never_hangs_witness:
  "\<exists>s. calls (sample_env [sample_component ''istio'']) (plain_controller log_client) (installed_sys ''1.6.0'') s
     \<and> s \<noteq> installed_sys ''1.6.0''
     \<and> Reconcile (sample_env [sample_component ''istio'']) (plain_controller log_client) (Inr ()) s \<noteq> Spin"
proof -
  let ?E = "sample_env [sample_component ''istio'']"
  let ?H = "plain_controller log_client"
  let ?u = "installed_sys ''1.6.0''"
  let ?x = "AddWatch [''keycloak''] (?u\<lparr>CR := CR ?u, World := [], Sent := []\<rparr>)"
  have c: "calls ?E ?H ?u ?x" by (rule calls_event [OF calls_start])
  have "Watched ?x ''keycloak''" "\<not> Watched ?u ''keycloak''"
    by (simp_all add: installed_sys_def sample_sys_def)
  then have n: "?x \<noteq> ?u" by metis
  have e: "installTrackerMap ?u = Map.empty" "upgradeTrackerMap ?u = Map.empty" "UninstallTrackerMap ?u = Map.empty"
    "distinct (map Name (GetComponents ?E))"
    by (simp_all add: installed_sys_def sample_sys_def sample_components)
  from operator_never_hangs [OF c e, of "Inr ()"] c n show ?thesis by blast
qed

section \<open>The finalizer\<close>







end
