(* ===== verification/Bom.thy ===== *)
theory Bom imports Vz_Prelude begin

text \<open>
  The bill of materials (\<open>pkg/bom/bom.go\<close>): what the product is made of, the images of every
  subcomponent, and the Helm values that point a chart at them.  Reading the file and parsing its
  JSON are library code (\<open>bom_lib\<close>); so is the process environment, a map from names to values
  in which an unset variable is the empty string.  A loaded document is never changed, so a
  pointer into it is the value it points to.
\<close>

section \<open>The document\<close>

record bom_image =
  ImageName :: string
  ImageTag :: string
  imgRegistry :: string
  imgRepository :: string
  HelmRegistryKey :: string
  HelmRepoKey :: string
  HelmImageKey :: string
  HelmTagKey :: string
  HelmFullImageKey :: string
  HelmRegistryAndRepoKey :: string

record bom_subcomponent =
  subName :: string
  subRepository :: string
  subRegistry :: string
  Images :: "bom_image list"

record bom_component =
  bomName :: string
  bomVersion :: string
  SubComponents :: "bom_subcomponent list"

record bom_doc =
  docRegistry :: string
  docVersion :: string
  docComponents :: "bom_component list"
  SupportedKubernetesVersions :: "string list"

record bom =
  bomDoc :: bom_doc
  subComponentMap :: "string \<Rightarrow> bom_subcomponent option"

record key_value =
  kvKey :: string
  kvValue :: string
  SetString :: bool
  SetFile :: bool
  IsFile :: bool

record bom_lib =
  ReadBomFile :: "string \<Rightarrow> go_error + string"
  UnmarshalBom :: "string \<Rightarrow> go_error + bom_doc"
  Getenv :: "string \<Rightarrow> string"

section \<open>Loading\<close>

text \<open>The two nested loops of \<open>init\<close> visit the subcomponents in document order.\<close>

definition all_subcomponents :: "bom_doc \<Rightarrow> bom_subcomponent list" where
  "all_subcomponents doc = concat (map SubComponents (docComponents doc))"

definition bom_init :: "bom_doc \<Rightarrow> bom" where
  "bom_init doc = \<lparr>bomDoc = doc,
     subComponentMap = foldl (\<lambda>m sub. m(subName sub \<mapsto> sub)) Map.empty (all_subcomponents doc)\<rparr>"

definition NewBOMFromJSON :: "bom_lib \<Rightarrow> string \<Rightarrow> go_error + bom" where
  "NewBOMFromJSON B jsonBom = (case UnmarshalBom B jsonBom of Inl err \<Rightarrow> Inl err | Inr doc \<Rightarrow> Inr (bom_init doc))"

definition NewBom :: "bom_lib \<Rightarrow> string \<Rightarrow> go_error + bom" where
  "NewBom B bomPath = (case ReadBomFile B bomPath of Inl err \<Rightarrow> Inl err | Inr jsonBom \<Rightarrow> NewBOMFromJSON B jsonBom)"

section \<open>Lookups\<close>

definition GetRegistry :: "bom \<Rightarrow> string" where
  "GetRegistry b = docRegistry (bomDoc b)"

definition GetVersion :: "bom \<Rightarrow> string" where
  "GetVersion b = docVersion (bomDoc b)"

definition GetComponent :: "bom \<Rightarrow> string \<Rightarrow> go_error + bom_component" where
  "GetComponent b componentName = (case find (\<lambda>c. bomName c = componentName) (docComponents (bomDoc b)) of
       Some c \<Rightarrow> Inr c
     | None \<Rightarrow> Inl (PlainErr (''unknown component '' @ componentName)))"

definition GetComponentVersion :: "bom \<Rightarrow> string \<Rightarrow> go_error + string" where
  "GetComponentVersion b componentName = (case GetComponent b componentName of
       Inl err \<Rightarrow> Inl err
     | Inr c \<Rightarrow> (if length (bomVersion c) = 0 then Inl (PlainErr ''Did not find valid version for component'')
                else Inr (bomVersion c)))"

definition GetSubcomponent :: "bom \<Rightarrow> string \<Rightarrow> go_error + bom_subcomponent" where
  "GetSubcomponent b subComponentName = (case subComponentMap b subComponentName of
       None \<Rightarrow> Inl (PlainErr (''unknown subcomponent '' @ subComponentName))
     | Some sc \<Rightarrow> Inr sc)"

definition GetSubcomponentImages :: "bom \<Rightarrow> string \<Rightarrow> go_error + bom_image list" where
  "GetSubcomponentImages b subComponentName = (case GetSubcomponent b subComponentName of
       Inl err \<Rightarrow> Inl err
     | Inr sc \<Rightarrow> Inr (Images sc))"

definition FindImage :: "bom_subcomponent \<Rightarrow> string \<Rightarrow> go_error + bom_image" where
  "FindImage sc imageName = (case find (\<lambda>img. ImageName img = imageName) (Images sc) of
       Some img \<Rightarrow> Inr img
     | None \<Rightarrow> Inl (PlainErr (''Image '' @ imageName @ '' not found for sub-component '' @ subName sc)))"

definition GetSubcomponentImageCount :: "bom \<Rightarrow> string \<Rightarrow> nat" where
  "GetSubcomponentImageCount b subComponentName = (case subComponentMap b subComponentName of
       None \<Rightarrow> 0
     | Some imageBom \<Rightarrow> length (Images imageBom))"

definition GetSupportedKubernetesVersion :: "bom \<Rightarrow> string list" where
  "GetSupportedKubernetesVersion b = SupportedKubernetesVersions (bomDoc b)"

definition FindKV :: "key_value list \<Rightarrow> string \<Rightarrow> string" where
  "FindKV kvs key = (case find (\<lambda>kv. kvKey kv = key) kvs of Some kv \<Rightarrow> kvValue kv | None \<Rightarrow> [])"

section \<open>Where an image comes from\<close>

definition RegistryOverrideEnvVar :: string where "RegistryOverrideEnvVar = ''REGISTRY''"

definition ImageRepoOverrideEnvVar :: string where "ImageRepoOverrideEnvVar = ''IMAGE_REPO''"

definition ResolveRegistry :: "bom_lib \<Rightarrow> bom \<Rightarrow> bom_subcomponent \<Rightarrow> bom_image \<Rightarrow> string" where
  "ResolveRegistry B b sc img =
     (let registry = Getenv B RegistryOverrideEnvVar in
      if registry = [] then
        (let registry1 = docRegistry (bomDoc b);
             registry2 = (if length (subRegistry sc) > 0 then subRegistry sc else registry1)
         in if length (imgRegistry img) > 0 then imgRegistry img else registry2)
      else registry)"

definition ResolveRepo :: "bom_lib \<Rightarrow> bom_subcomponent \<Rightarrow> bom_image \<Rightarrow> string" where
  "ResolveRepo B sc img =
     (let userRepo = Getenv B ImageRepoOverrideEnvVar;
          repo = (if length (imgRepository img) > 0 then imgRepository img else subRepository sc)
      in if userRepo \<noteq> [] then userRepo @ ''/'' @ repo else repo)"

section \<open>Image overrides\<close>

definition kv_pair :: "string \<Rightarrow> string \<Rightarrow> key_value" where
  "kv_pair k v = \<lparr>kvKey = k, kvValue = v, SetString = False, SetFile = False, IsFile = False\<rparr>"

text \<open>
  One value of an image: under its own key when the chart has one for it, otherwise as a part of
  the image path that is being built.
\<close>

definition keyed :: "string \<Rightarrow> string \<Rightarrow> string \<Rightarrow> key_value list \<times> string \<Rightarrow> key_value list \<times> string" where
  "keyed k v part acc = (case acc of (kvs, path) \<Rightarrow>
     if k \<noteq> [] then (kvs @ [kv_pair k v], path) else (kvs, path @ part))"

definition image_kvs :: "string \<Rightarrow> string \<Rightarrow> bom_image \<Rightarrow> key_value list \<Rightarrow> key_value list" where
  "image_kvs registry repo img kvs0 =
     (let acc1 = keyed (HelmRegistryKey img) registry (registry @ ''/'') (kvs0, []);
          acc2 = keyed (HelmRepoKey img) repo (if length repo > 0 then repo @ ''/'' else []) acc1;
          acc3 = (if HelmRegistryAndRepoKey img \<noteq> []
                  then (fst acc2 @ [kv_pair (HelmRegistryAndRepoKey img) (registry @ ''/'' @ repo)], snd acc2)
                  else acc2);
          acc4 = keyed (HelmImageKey img) (ImageName img) (ImageName img) acc3;
          (kvs, partialImagePath) = keyed (HelmTagKey img) (ImageTag img) ('':'' @ ImageTag img) acc4;
          kvs1 = (if HelmFullImageKey img \<noteq> [] then kvs @ [kv_pair (HelmFullImageKey img) partialImagePath] else kvs)
      in if length kvs1 = 0 then [kv_pair ''image'' partialImagePath] else kvs1)"

definition full_image_name :: "string \<Rightarrow> string \<Rightarrow> bom_image \<Rightarrow> string" where
  "full_image_name registry repo img = registry @ ''/'' @ repo @ ''/'' @ ImageName img @ '':'' @ ImageTag img"

fun image_strings ::
  "bom_lib \<Rightarrow> bom \<Rightarrow> bom_subcomponent \<Rightarrow> bom_image list \<Rightarrow> key_value list \<Rightarrow> string list \<Rightarrow> key_value list \<times> string list" where
  "image_strings B b sc [] kvs fullImageNames = (kvs, fullImageNames)"
| "image_strings B b sc (imageBom # images) kvs fullImageNames =
     (let registry = ResolveRegistry B b sc imageBom; repo = ResolveRepo B sc imageBom in
      image_strings B b sc images (image_kvs registry repo imageBom kvs)
        (fullImageNames @ [full_image_name registry repo imageBom]))"

definition BuildImageStrings :: "bom_lib \<Rightarrow> bom \<Rightarrow> string \<Rightarrow> go_error + (key_value list \<times> string list)" where
  "BuildImageStrings B b subComponentName = (case subComponentMap b subComponentName of
       None \<Rightarrow> Inl (PlainErr (''unknown subcomponent '' @ subComponentName))
     | Some sc \<Rightarrow> Inr (image_strings B b sc (Images sc) [] []))"

definition BuildImageOverrides :: "bom_lib \<Rightarrow> bom \<Rightarrow> string \<Rightarrow> go_error + key_value list" where
  "BuildImageOverrides B b subComponentName = map_sum id fst (BuildImageStrings B b subComponentName)"

definition GetImageNameList :: "bom_lib \<Rightarrow> bom \<Rightarrow> string \<Rightarrow> go_error + string list" where
  "GetImageNameList B b subComponentName = map_sum id snd (BuildImageStrings B b subComponentName)"

section \<open>Lemmas\<close>

lemma foldl_map_of: "foldl (\<lambda>m x. m(f x \<mapsto> x)) m xs = m ++ map_of (rev (map (\<lambda>x. (f x, x)) xs))"
proof (induction xs arbitrary: m)
  case Nil
  then show ?case by simp
next
  case (Cons x xs)
  then show ?case by (simp add: fun_eq_iff map_add_def split: option.splits)
qed

text \<open>Of several subcomponents with one name the last one in the document is found.\<close>

lemma subComponentMap_init:
  "subComponentMap (bom_init doc) = map_of (rev (map (\<lambda>sub. (subName sub, sub)) (all_subcomponents doc)))"
  by (simp add: bom_init_def foldl_map_of)

text \<open>The values of one image, apart from the default key.\<close>

definition image_path :: "string \<Rightarrow> string \<Rightarrow> bom_image \<Rightarrow> string" where
  "image_path registry repo img =
     (if HelmRegistryKey img = [] then registry @ ''/'' else [])
     @ (if HelmRepoKey img = [] \<and> repo \<noteq> [] then repo @ ''/'' else [])
     @ (if HelmImageKey img = [] then ImageName img else [])
     @ (if HelmTagKey img = [] then '':'' @ ImageTag img else [])"

definition when_key :: "string \<Rightarrow> string \<Rightarrow> key_value list" where
  "when_key k v = (if k = [] then [] else [kv_pair k v])"

definition image_pairs :: "string \<Rightarrow> string \<Rightarrow> bom_image \<Rightarrow> key_value list" where
  "image_pairs registry repo img =
     when_key (HelmRegistryKey img) registry @ when_key (HelmRepoKey img) repo
     @ when_key (HelmRegistryAndRepoKey img) (registry @ ''/'' @ repo)
     @ when_key (HelmImageKey img) (ImageName img) @ when_key (HelmTagKey img) (ImageTag img)
     @ when_key (HelmFullImageKey img) (image_path registry repo img)"

lemma keyed_when_key: "keyed k v part acc = (fst acc @ when_key k v, snd acc @ (if k = [] then part else []))"
  by (cases acc) (simp add: keyed_def when_key_def)

lemma when_key_Nil: "when_key [] v = []" and when_key_Cons: "k \<noteq> [] \<Longrightarrow> when_key k v = [kv_pair k v]"
  by (simp_all add: when_key_def)

lemma image_path_parts:
  "image_path registry repo img = (if HelmRegistryKey img = [] then registry @ ''/'' else [])
     @ (if HelmRepoKey img = [] then if length repo > 0 then repo @ ''/'' else [] else [])
     @ (if HelmImageKey img = [] then ImageName img else []) @ (if HelmTagKey img = [] then '':'' @ ImageTag img else [])"
  by (simp add: image_path_def)

lemma image_kvs_pairs:
  "image_kvs registry repo img kvs = (if kvs @ image_pairs registry repo img = []
     then [kv_pair ''image'' (image_path registry repo img)] else kvs @ image_pairs registry repo img)"
  by (cases "HelmRegistryAndRepoKey img = []"; cases "HelmFullImageKey img = []")
     (simp_all only: image_kvs_def keyed_when_key Let_def prod.case fst_conv snd_conv not_True_eq_False not_False_eq_True
        if_True if_False when_key_Nil when_key_Cons append_Nil append_Nil2 append_assoc image_path_parts [symmetric]
        image_pairs_def length_0_conv refl)

lemma image_kvs_set: "set kvs \<union> set (image_pairs registry repo img) \<subseteq> set (image_kvs registry repo img kvs)"
  by (auto simp: image_kvs_pairs)

lemma image_strings_names:
  "snd (image_strings B b sc imgs kvs names) =
     names @ map (\<lambda>img. full_image_name (ResolveRegistry B b sc img) (ResolveRepo B sc img) img) imgs"
  by (induction imgs arbitrary: kvs names) (simp_all add: Let_def)

lemma image_strings_kvs:
  "set kvs \<union> (\<Union>img \<in> set imgs. set (image_pairs (ResolveRegistry B b sc img) (ResolveRepo B sc img) img))
     \<subseteq> set (fst (image_strings B b sc imgs kvs names))"
proof (induction imgs arbitrary: kvs names)
  case Nil
  then show ?case by simp
next
  case (Cons img imgs)
  let ?r = "ResolveRegistry B b sc img" and ?p = "ResolveRepo B sc img"
  have step: "image_strings B b sc (img # imgs) kvs names =
    image_strings B b sc imgs (image_kvs ?r ?p img kvs) (names @ [full_image_name ?r ?p img])"
    by (simp add: Let_def)
  show ?case
    unfolding step list.set UN_insert
    using Cons.IH [of "image_kvs ?r ?p img kvs" "names @ [full_image_name ?r ?p img]"]
      image_kvs_set [of kvs ?r ?p img] by blast
qed

lemma image_path_name:
  assumes "HelmRepoKey img = []" and "HelmImageKey img = []" and "repo \<noteq> []"
  shows "full_image_name registry repo img =
    (if HelmRegistryKey img = [] then [] else registry @ ''/'') @ image_path registry repo img
      @ (if HelmTagKey img = [] then [] else '':'' @ ImageTag img)"
  using assms by (simp add: full_image_name_def image_path_def)

section \<open>Properties\<close>

text \<open>The Helm values and the image list of a subcomponent name the same images: the list has one
  name per image, in order, and for an image whose chart takes a full path (with the registry and
  the tag either in it or under keys of their own) the value given for that path, put together
  with what has its own key, is exactly the name in the list.\<close>

lemma image_values_match_names:
  assumes "GetSubcomponent b n = Inr sc" and "BuildImageStrings B b n = Inr (kvs, names)" and "i < length (Images sc)"
    and "img = Images sc ! i" and "HelmFullImageKey img \<noteq> []" and "HelmRepoKey img = []" and "HelmImageKey img = []"
    and "ResolveRepo B sc img \<noteq> []"
  shows "length names = length (Images sc) \<and> (\<exists>path. kv_pair (HelmFullImageKey img) path \<in> set kvs
    \<and> names ! i = (if HelmRegistryKey img = [] then [] else ResolveRegistry B b sc img @ ''/'') @ path
        @ (if HelmTagKey img = [] then [] else '':'' @ ImageTag img))"
proof -
  have r: "image_strings B b sc (Images sc) [] [] = (kvs, names)"
    using assms(1,2) by (auto simp: GetSubcomponent_def BuildImageStrings_def split: option.splits)
  let ?r = "ResolveRegistry B b sc img" and ?p = "ResolveRepo B sc img"
  have n: "names = map (\<lambda>img. full_image_name (ResolveRegistry B b sc img) (ResolveRepo B sc img) img) (Images sc)"
    using image_strings_names [of B b sc "Images sc" "[]" "[]"] r by simp
  then have "names ! i = full_image_name ?r ?p img" using assms(3,4) by simp
  moreover have "kv_pair (HelmFullImageKey img) (image_path ?r ?p img) \<in> set kvs"
  proof -
    have "img \<in> set (Images sc)" using assms(3,4) by simp
    then have "set (image_pairs ?r ?p img) \<subseteq> set kvs"
      using image_strings_kvs [of "[]" B b sc "Images sc" "[]"] r by (simp del: image_strings.simps) blast
    moreover have "kv_pair (HelmFullImageKey img) (image_path ?r ?p img) \<in> set (image_pairs ?r ?p img)"
      using assms(5) by (simp add: image_pairs_def when_key_Cons)
    ultimately show ?thesis by blast
  qed
  ultimately show ?thesis using n image_path_name [OF assms(6-8)] by auto
qed

definition sample_image :: bom_image where
  "sample_image = \<lparr>ImageName = ''keycloak'', ImageTag = ''20.0'', imgRegistry = [], imgRepository = [],
     HelmRegistryKey = [], HelmRepoKey = [], HelmImageKey = [], HelmTagKey = ''image.tag'',
     HelmFullImageKey = ''image.repository'', HelmRegistryAndRepoKey = []\<rparr>"

definition sample_bom :: bom where
  "sample_bom = bom_init \<lparr>docRegistry = ''ghcr.io'', docVersion = ''1.6.0'', docComponents =
     [\<lparr>bomName = ''keycloak'', bomVersion = ''20.0'', SubComponents =
        [\<lparr>subName = ''keycloak'', subRepository = ''verrazzano'', subRegistry = [], Images = [sample_image]\<rparr>]\<rparr>],
     SupportedKubernetesVersions = [''v1.24.0'']\<rparr>"

definition sample_bom_lib :: bom_lib where
  "sample_bom_lib = \<lparr>ReadBomFile = (\<lambda>f. Inr f), UnmarshalBom = (\<lambda>j. Inr (bomDoc sample_bom)), Getenv = (\<lambda>v. [])\<rparr>"

lemma sample_bom_run:
  "BuildImageStrings sample_bom_lib sample_bom ''keycloak'' =
     Inr ([kv_pair ''image.tag'' ''20.0'', kv_pair ''image.repository'' ''ghcr.io/verrazzano/keycloak''],
       [''ghcr.io/verrazzano/keycloak:20.0''])"
  "\<exists>sc. GetSubcomponent sample_bom ''keycloak'' = Inr sc \<and> Images sc = [sample_image] \<and> subRepository sc = ''verrazzano''"
  by code_simp (simp add: GetSubcomponent_def sample_bom_def subComponentMap_init all_subcomponents_def)

lemma image_values_match_names_witness:
  "\<exists>path. kv_pair ''image.repository'' path \<in> set [kv_pair ''image.tag'' ''20.0'', kv_pair ''image.repository'' ''ghcr.io/verrazzano/keycloak'']
     \<and> ''ghcr.io/verrazzano/keycloak:20.0'' = path @ '':'' @ ''20.0''"
proof -
  obtain sc where sc: "GetSubcomponent sample_bom ''keycloak'' = Inr sc" "Images sc = [sample_image]" "subRepository sc = ''verrazzano''"
    using sample_bom_run(2) by auto
  have "ResolveRepo sample_bom_lib sc sample_image \<noteq> []"
    using sc(3) by (simp add: ResolveRepo_def sample_bom_lib_def sample_image_def)
  with image_values_match_names [OF sc(1) sample_bom_run(1), of 0 sample_image] sc(2) show ?thesis
    by (simp add: sample_image_def)
qed

end
