(* ===== verification/Validators.thy ===== *)
theory Validators imports Bom Profiles Cluster_Ops begin

text \<open>
  The checks behind the admission webhooks
  (\<open>platform-operator/apis/verrazzano/validators/validate.go\<close>): versions, Kubernetes versions
  and the contents of the secrets a resource refers to.  The API server, temporary files, the
  OCI SDK, PEM and YAML decoding are library code (\<open>webhook_lib\<close>).  A secret's data is the list
  of its keys and bytes in the order a \<open>range\<close> visits them.
\<close>

section \<open>Surroundings\<close>

record operator_config =
  VersionCheckEnabled :: bool
  WebhookValidationEnabled :: bool

datatype AuthenticationType = UserPrincipal | InstancePrincipal | InstancePrincipalDelegationToken
  | UnknownAuthenticationType | EmptyAuthType | OtherAuthType string

record auth_data =
  Key :: string
  AuthType :: AuthenticationType

record data_secret =
  dsName :: string
  Data :: "(string \<times> string) list"

record 'w oci_provider =
  UserOCID :: "'w \<Rightarrow> (go_error + string) \<times> 'w"
  TenancyOCID :: "'w \<Rightarrow> (go_error + string) \<times> 'w"
  KeyFingerprint :: "'w \<Rightarrow> (go_error + string) \<times> 'w"
  Region :: "'w \<Rightarrow> (go_error + string) \<times> 'w"

record 'w webhook_lib =
  Config :: operator_config
  BomLib :: bom_lib
  DefaultBOMFilePath :: string
  ServerVersion :: "'w \<Rightarrow> (go_error + string) \<times> 'w"
  NewClient :: "'w \<Rightarrow> go_error option \<times> 'w"
  GetSecret :: "string \<Rightarrow> string \<Rightarrow> 'w \<Rightarrow> (go_error + data_secret) \<times> 'w"
  ListOperatorPods :: "'w \<Rightarrow> (go_error + string list) \<times> 'w"
  ListInstalls :: "'w \<Rightarrow> (go_error + string list) \<times> 'w"
  UnmarshalOciAuth :: "string \<Rightarrow> go_error + auth_data"
  PemDecodes :: "string \<Rightarrow> bool"
  CreateTemp :: "'w \<Rightarrow> (go_error + string) \<times> 'w"
  WriteTempFile :: "string \<Rightarrow> string \<Rightarrow> 'w \<Rightarrow> go_error option \<times> 'w"
  RemoveTempFile :: "string \<Rightarrow> 'w \<Rightarrow> 'w"
  ConfigurationProviderFromFile :: "string \<Rightarrow> 'w \<Rightarrow> (go_error + 'w oci_provider) \<times> 'w"

text \<open>An operation that gives a value or an error, and what follows it.\<close>

definition get_then :: "(go_error + 'a) \<times> 'w \<Rightarrow> ('a \<Rightarrow> 'w \<Rightarrow> go_error option \<times> 'w) \<Rightarrow> go_error option \<times> 'w" where
  "get_then r f = (case r of (Inl err, w) \<Rightarrow> (Some err, w) | (Inr a, w) \<Rightarrow> f a w)"

definition fail :: "string \<Rightarrow> go_error option" where
  "fail msg = Some (PlainErr msg)"

section \<open>Versions\<close>

definition BomVerrazzanoVersion :: string where
  "BomVerrazzanoVersion = ''VERRAZZANO_VERSION''"

definition GetCurrentBomVersion :: "bom_lib \<Rightarrow> string \<Rightarrow> go_error + sem_version" where
  "GetCurrentBomVersion B path = (case NewBom B path of
       Inl err \<Rightarrow> Inl err
     | Inr b \<Rightarrow>
        (let v = GetVersion b;
             v1 = (if v = BomVerrazzanoVersion
                   then (if length (Getenv B ''VZ_INSTALL_VERSION'') > 0 then Getenv B ''VZ_INSTALL_VERSION'' else ''1.0.1'')
                   else v)
         in NewSemVersion (''v'' @ v1)))"

definition ValidateVersion :: "'w webhook_lib \<Rightarrow> string \<Rightarrow> go_error option" where
  "ValidateVersion W requestedVersion =
     (if \<not> VersionCheckEnabled (Config W) then None
      else if length requestedVersion = 0 then None
      else (case NewSemVersion requestedVersion of
          Inl err \<Rightarrow> Some err
        | Inr requestedSemVer \<Rightarrow> (case GetCurrentBomVersion (BomLib W) (DefaultBOMFilePath W) of
              Inl err \<Rightarrow> Some err
            | Inr bomSemVer \<Rightarrow>
                (if \<not> IsEqualTo requestedSemVer bomSemVer then fail ''invalid version'' else None))))"

definition not_older_than_spec :: "sem_version \<Rightarrow> string \<Rightarrow> go_error option" where
  "not_older_than_spec newSpecVer currSpecVerString =
     (let currentVerString = TrimSpace currSpecVerString in
      if length currentVerString > 0
      then (case NewSemVersion currentVerString of
          Inl err \<Rightarrow> Some err
        | Inr currentSpecVer \<Rightarrow>
            (if IsLessThan newSpecVer currentSpecVer then fail ''Requested version is not newer than current version'' else None))
      else None)"

definition ValidateNewVersion :: "string \<Rightarrow> string \<Rightarrow> string \<Rightarrow> sem_version \<Rightarrow> go_error option" where
  "ValidateNewVersion currStatusVerString currSpecVerString newVerString bomVer =
     (case NewSemVersion newVerString of
        Inl err \<Rightarrow> Some err
      | Inr newSpecVer \<Rightarrow>
          (if \<not> IsEqualTo newSpecVer bomVer then fail ''invalid version: Please upgrade the Verrazzano version''
           else (case NewSemVersion (TrimSpace currStatusVerString) of
               Inl err \<Rightarrow> Some err
             | Inr currentStatusVersion \<Rightarrow>
                 (if IsLessThan newSpecVer currentStatusVersion
                  then fail ''Requested version less than installed version, rollback is not supported''
                  else not_older_than_spec newSpecVer currSpecVerString))))"

definition CheckUpgradeRequired :: "string \<Rightarrow> sem_version \<Rightarrow> go_error option" where
  "CheckUpgradeRequired statusVersion bomVer =
     (let installedVerString = TrimSpace statusVersion in
      if length installedVerString = 0 then None
      else (case NewSemVersion installedVerString of
          Inl err \<Rightarrow> Some err
        | Inr installedVersion \<Rightarrow>
            (if IsGreatherThan bomVer installedVersion then fail ''Upgrade required for update'' else None)))"

definition ValidateUpgradeRequest :: "'w webhook_lib \<Rightarrow> string \<Rightarrow> string \<Rightarrow> string \<Rightarrow> go_error option" where
  "ValidateUpgradeRequest W newSpecVerString currStatusVerString currSpecVerString =
     (if \<not> VersionCheckEnabled (Config W) then None
      else (case GetCurrentBomVersion (BomLib W) (DefaultBOMFilePath W) of
          Inl err \<Rightarrow> Some err
        | Inr bomVer \<Rightarrow>
            (if length newSpecVerString > 0
             then ValidateNewVersion currStatusVerString currSpecVerString newSpecVerString bomVer
             else CheckUpgradeRequired (TrimSpace currStatusVerString) bomVer)))"

definition ValidateVersionHigherOrEqual :: "string \<Rightarrow> string \<Rightarrow> bool" where
  "ValidateVersionHigherOrEqual currentVersion requestedVersion =
     (if length requestedVersion = 0 then False
      else if length currentVersion = 0 then False
      else (case NewSemVersion requestedVersion of
          Inl err \<Rightarrow> False
        | Inr requestedSemVer \<Rightarrow> (case NewSemVersion currentVersion of
              Inl err \<Rightarrow> False
            | Inr currentSemVer \<Rightarrow>
                IsEqualTo currentSemVer requestedSemVer \<or> IsGreatherThan currentSemVer requestedSemVer)))"

section \<open>Kubernetes versions\<close>

definition getSupportedKubernetesVersions :: "bom_lib \<Rightarrow> string \<Rightarrow> go_error + string list" where
  "getSupportedKubernetesVersions B path = (case NewBom B path of
       Inl err \<Rightarrow> Inl (PlainErr ''error while reading the bom'')
     | Inr b \<Rightarrow> Inr (GetSupportedKubernetesVersion b))"

fun supported_loop :: "sem_version \<Rightarrow> string list \<Rightarrow> bool" where
  "supported_loop kubernetesVersion [] = False"
| "supported_loop kubernetesVersion (supportedVersion # vs) = (case NewSemVersion supportedVersion of
       Inl err \<Rightarrow> supported_loop kubernetesVersion vs
     | Inr version \<Rightarrow>
         (if IsEqualToOrPatchVersionOf kubernetesVersion version then True else supported_loop kubernetesVersion vs))"

definition validateKubernetesVersionSupportedInCluster :: "'w webhook_lib \<Rightarrow> 'w \<Rightarrow> go_error option \<times> 'w" where
  "validateKubernetesVersionSupportedInCluster W w =
     get_then (getSupportedKubernetesVersions (BomLib W) (DefaultBOMFilePath W), w) (\<lambda>supportedKubernetesVersions w1.
       if length supportedKubernetesVersions = 0 then (None, w1)
       else get_then (ServerVersion W w1) (\<lambda>version w2. (case NewSemVersion version of
           Inl err \<Rightarrow> (fail ''invalid kubernetes version'', w2)
         | Inr kubernetesVersion \<Rightarrow>
             (if supported_loop kubernetesVersion supportedKubernetesVersions then (None, w2)
              else (fail ''kubernetes version not supported'', w2)))))"

section \<open>Secrets\<close>

definition GetInstallSecret :: "'w webhook_lib \<Rightarrow> string \<Rightarrow> 'w \<Rightarrow> (go_error + data_secret) \<times> 'w" where
  "GetInstallSecret W secretName w = (case GetSecret W ''verrazzano-install'' secretName w of
       (Inl err, w1) \<Rightarrow>
         (if IsNotFound err then (Inl (PlainErr ''Secret must be created in the namespace before installing''), w1)
          else (Inl err, w1))
     | (Inr sec, w1) \<Rightarrow> (Inr sec, w1))"

definition ValidateSecretContents :: "(string \<Rightarrow> go_error + 'a) \<Rightarrow> string \<Rightarrow> go_error + 'a" where
  "ValidateSecretContents unmarshal bytes =
     (if length bytes = 0 then Inl (PlainErr ''Secret data is empty'') else unmarshal bytes)"

definition ValidatePrivateKey :: "'w webhook_lib \<Rightarrow> string \<Rightarrow> go_error option" where
  "ValidatePrivateKey W pemData =
     (if \<not> PemDecodes W pemData then fail ''Private key in secret is either empty or not a valid key in PEM format'' else None)"

text \<open>The error of the contents is dropped; only a missing entry is reported.\<close>

definition ValidateSecretKey :: "data_secret \<Rightarrow> string \<Rightarrow> (string \<Rightarrow> go_error + 'a) option \<Rightarrow> go_error + string" where
  "ValidateSecretKey sec dataKey target = (case map_of (Data sec) dataKey of
       None \<Rightarrow> Inl (PlainErr ''Expected entry not found in secret'')
     | Some secretBytes \<Rightarrow> (case target of
           None \<Rightarrow> Inr secretBytes
         | Some unmarshal \<Rightarrow> (case ValidateSecretContents unmarshal secretBytes of
               Inl err \<Rightarrow> Inr secretBytes
             | Inr decoded \<Rightarrow> Inr secretBytes)))"

definition required :: "string \<Rightarrow> (go_error + string) \<times> 'w \<Rightarrow> ('w \<Rightarrow> go_error option \<times> 'w) \<Rightarrow> go_error option \<times> 'w" where
  "required name r f = get_then r (\<lambda>v w. if length v = 0
     then (fail (name @ '' not specified in Fluentd OCI config secret''), w) else f w)"

definition fluentd_config :: "'w webhook_lib \<Rightarrow> string \<Rightarrow> string \<Rightarrow> 'w \<Rightarrow> go_error option \<times> 'w" where
  "fluentd_config W configTemp configData w =
     and_then (WriteTempFile W configTemp configData w) (\<lambda>w1.
     get_then (ConfigurationProviderFromFile W configTemp w1) (\<lambda>provider w2.
     required ''User OCID'' (UserOCID provider w2) (\<lambda>w3.
     required ''Tenancy OCID'' (TenancyOCID provider w3) (\<lambda>w4.
     required ''Fingerprint'' (KeyFingerprint provider w4) (\<lambda>w5.
     required ''Region'' (Region provider w5) (\<lambda>w6.
       if \<not> Contains configData ''key_file=/root/.oci/key''
       then (fail ''Unexpected or missing value for the Fluentd OCI key file location'', w6) else (None, w6)))))))"

definition ValidateFluentdConfigData :: "'w webhook_lib \<Rightarrow> data_secret \<Rightarrow> 'w \<Rightarrow> go_error option \<times> 'w" where
  "ValidateFluentdConfigData W sec w = (case map_of (Data sec) ''config'' of
       None \<Rightarrow> (fail ''Did not find OCI configuration in secret'', w)
     | Some configData \<Rightarrow> get_then (CreateTemp W w) (\<lambda>configTemp w1.
         case fluentd_config W configTemp configData w1 of (err, w2) \<Rightarrow> (err, RemoveTempFile W configTemp w2)))"

definition CombineErrors :: "go_error list \<Rightarrow> go_error option" where
  "CombineErrors errs = (if length errs > 0 then fail ''combined errors'' else None)"

section \<open>Lemmas\<close>

lemma get_then_simps [simp]:
  "get_then (Inl err, w) f = (Some err, w)" "get_then (Inr a, w) f = f a w"
  by (simp_all add: get_then_def)

lemma get_then_None_iff: "get_then r f = (None, w) \<longleftrightarrow> (\<exists>a u. r = (Inr a, u) \<and> f a u = (None, w))"
  by (cases r; cases "fst r") (auto simp: get_then_def)

lemma fail_not_None [simp]: "fail msg \<noteq> None"
  by (simp add: fail_def)

lemma IsEqualTo_iff [simp]: "IsEqualTo a b \<longleftrightarrow> a = b"
  by (auto simp: IsEqualTo_def CompareTo_cases)

lemma IsLessThan_iff [simp]: "IsLessThan a b \<longleftrightarrow> version_core a < version_core b"
  by (auto simp: IsLessThan_def CompareTo_cases)

lemma IsGreatherThan_iff [simp]: "IsGreatherThan a b \<longleftrightarrow> version_core b \<le> version_core a \<and> a \<noteq> b"
  by (auto simp: IsGreatherThan_def CompareTo_cases)

text \<open>A version text that reads as a version no newer than \<open>b\<close>.\<close>

definition no_newer :: "sem_version \<Rightarrow> string \<Rightarrow> bool" where
  "no_newer b s \<longleftrightarrow> (case NewSemVersion (TrimSpace s) of Inl _ \<Rightarrow> False | Inr v \<Rightarrow> version_core v \<le> version_core b)"

lemma not_older_than_spec_iff: "not_older_than_spec b s = None \<longleftrightarrow> TrimSpace s = [] \<or> no_newer b s"
  by (auto simp: not_older_than_spec_def no_newer_def Let_def split: sum.splits)

lemma ValidateNewVersion_iff:
  "ValidateNewVersion status spec new b = None \<longleftrightarrow>
     NewSemVersion new = Inr b \<and> no_newer b status \<and> (TrimSpace spec = [] \<or> no_newer b spec)"
  by (auto simp: ValidateNewVersion_def not_older_than_spec_iff no_newer_def split: sum.splits if_splits)

lemma CheckUpgradeRequired_iff:
  "CheckUpgradeRequired status b = None \<longleftrightarrow> TrimSpace status = []
     \<or> (\<exists>v. NewSemVersion (TrimSpace status) = Inr v \<and> (v = b \<or> version_core b < version_core v))"
  by (auto simp: CheckUpgradeRequired_def Let_def split: sum.splits)

lemma ValidateUpgradeRequest_iff:
  assumes "VersionCheckEnabled (Config W)" and "GetCurrentBomVersion (BomLib W) (DefaultBOMFilePath W) = Inr b"
  shows "ValidateUpgradeRequest W new status spec = None \<longleftrightarrow>
    (if new \<noteq> [] then NewSemVersion new = Inr b \<and> no_newer b status \<and> (TrimSpace spec = [] \<or> no_newer b spec)
     else TrimSpace status = []
       \<or> (\<exists>v. NewSemVersion (TrimSpace status) = Inr v \<and> (v = b \<or> version_core b < version_core v)))"
  using assms by (simp add: ValidateUpgradeRequest_def ValidateNewVersion_iff CheckUpgradeRequired_iff)

end
