(* ===== verification/Webhook.thy ===== *)
theory Webhook imports Validators begin

text \<open>
  The admission webhooks of the Verrazzano resource
  (\<open>platform-operator/apis/verrazzano/v1alpha1/verrazzano_webhook.go\<close>, \<open>validate.go\<close> and their
  \<open>v1beta1\<close> counterparts) and the component validator they call
  (\<open>controllers/verrazzano/validator/ComponentValidatorImpl.go\<close>).  The code of the two versions
  differs in the type of the resource only, except where there are two definitions; the shared
  ones are polymorphic in the component sections.
\<close>

section \<open>Checks of the resource\<close>

definition ValidateProfile :: "string \<Rightarrow> go_error option" where
  "ValidateProfile requestedProfile =
     (if length requestedProfile \<noteq> 0
      then (if requestedProfile \<in> set [''prod'', ''dev'', ''managed-cluster'', ''none''] then None
            else fail ''Requested profile is invalid'')
      else None)"

definition ValidateActiveInstall :: "'w webhook_lib \<Rightarrow> 'w \<Rightarrow> go_error option \<times> 'w" where
  "ValidateActiveInstall W w = get_then (ListInstalls W w) (\<lambda>items w1.
     (if length items \<noteq> 0 then fail ''Only one install of Verrazzano is allowed'' else None, w1))"

definition ValidateInProgress :: "'c verrazzano_cr \<Rightarrow> go_error option" where
  "ValidateInProgress old =
     (let st = vzState (Status old) in
      if st = VzStateEmpty \<or> st = VzStateReady \<or> st = VzStateFailed \<or> st = VzStatePaused \<or> st = VzStateReconciling
      then None
      else fail ''Updates to resource not allowed while uninstall or upgrade is in progress'')"

definition fluentd_secret :: "'w webhook_lib \<Rightarrow> string \<Rightarrow> 'w \<Rightarrow> go_error option \<times> 'w" where
  "fluentd_secret W apiSecretName w = get_then (GetInstallSecret W apiSecretName w) (\<lambda>sec w1.
     and_then (ValidateFluentdConfigData W sec w1) (\<lambda>w2.
     get_then (ValidateSecretKey sec ''key'' (None :: (string \<Rightarrow> go_error + auth_data) option), w2) (\<lambda>pemData w3.
       (ValidatePrivateKey W pemData, w3))))"

definition validateFluentdOCIAuthSecret :: "'w webhook_lib \<Rightarrow> ('auth, 'istio, 'keycloak, 'vz, 'x) shared_components_scheme \<Rightarrow> 'w \<Rightarrow> go_error option \<times> 'w" where
  "validateFluentdOCIAuthSecret W spec w = (case Fluentd spec of
       None \<Rightarrow> (None, w)
     | Some fluentd \<Rightarrow> (case fluentdOCI fluentd of
           None \<Rightarrow> (None, w)
         | Some oci \<Rightarrow> (if length (APISecret oci) > 0 then fluentd_secret W (APISecret oci) w else (None, w))))"

definition dns_secret_entry :: "'w webhook_lib \<Rightarrow> string \<Rightarrow> go_error option" where
  "dns_secret_entry W bytes = (case ValidateSecretContents (UnmarshalOciAuth W) bytes of
       Inl err \<Rightarrow> Some err
     | Inr authProp \<Rightarrow>
         (if AuthType authProp \<noteq> InstancePrincipal \<and> AuthType authProp \<noteq> UserPrincipal \<and> AuthType authProp \<noteq> EmptyAuthType
          then fail ''Authtype in OCI secret must be either user_principal or instance_principal''
          else if AuthType authProp = UserPrincipal then ValidatePrivateKey W (Key authProp)
          else None))"

definition validateOCIDNSSecret :: "'w webhook_lib \<Rightarrow> ('auth, 'istio, 'keycloak, 'vz, 'x) shared_components_scheme \<Rightarrow> 'w \<Rightarrow> go_error option \<times> 'w" where
  "validateOCIDNSSecret W spec w = (case DNS spec of
       None \<Rightarrow> (None, w)
     | Some dns \<Rightarrow> (case OCI dns of
           None \<Rightarrow> (None, w)
         | Some oci \<Rightarrow> get_then (GetInstallSecret W (OCIConfigSecret oci) w) (\<lambda>sec w1.
             if length (Data sec) \<noteq> 1 then (fail ''Secret for OCI DNS should have one data key'', w1)
             else for_each (\<lambda>entry w2. (dns_secret_entry W (snd entry), w2)) (Data sec) w1)))"

definition validateOCISecrets :: "'w webhook_lib \<Rightarrow> ('auth, 'istio, 'keycloak, 'vz, 'x) shared_components_scheme \<Rightarrow> 'w \<Rightarrow> go_error option \<times> 'w" where
  "validateOCISecrets W spec w = and_then (validateOCIDNSSecret W spec w) (validateFluentdOCIAuthSecret W spec)"

section \<open>Overrides\<close>

definition isValidOverrideItems :: "key_selector option \<Rightarrow> key_selector option \<Rightarrow> string option \<Rightarrow> go_error option" where
  "isValidOverrideItems cm s v =
     (let items = (if cm \<noteq> None then 1 else 0) + (if s \<noteq> None then 1 else 0) + (if v \<noteq> None then 1 else (0::nat)) in
      if items > 1 then fail ''Cannot specify more than one override type in the same list element''
      else if items = 0 then fail ''No override specified'' else None)"

fun ValidateInstallOverrides :: "overrides list \<Rightarrow> go_error option" where
  "ValidateInstallOverrides [] = None"
| "ValidateInstallOverrides (override # os) =
     (case isValidOverrideItems (ConfigMapRef override) (SecretRef override) (Values override) of
        Some err \<Rightarrow> Some err
      | None \<Rightarrow> ValidateInstallOverrides os)"

text \<open>The \<open>v1beta1\<close> package counts in a variable that it resets after each element.\<close>

fun beta_overrides_loop :: "nat \<Rightarrow> overrides list \<Rightarrow> go_error option" where
  "beta_overrides_loop overridePerItem [] = None"
| "beta_overrides_loop overridePerItem (override # os) =
     (let n1 = (if ConfigMapRef override \<noteq> None then overridePerItem + 1 else overridePerItem);
          n2 = (if SecretRef override \<noteq> None then n1 + 1 else n1);
          n3 = (if Values override \<noteq> None then n2 + 1 else n2)
      in if n3 > 1 then fail ''Cannot specify more than one override type in the same list element''
         else if n3 = 0 then fail ''No override specified''
         else beta_overrides_loop 0 os)"

definition BetaValidateInstallOverrides :: "overrides list \<Rightarrow> go_error option" where
  "BetaValidateInstallOverrides os = beta_overrides_loop 0 os"

section \<open>The component validator\<close>

record ('cr, 'w) comp_checks =
  compValidateInstall :: "'cr option \<Rightarrow> 'w \<Rightarrow> go_error option \<times> 'w"
  compValidateUpdate :: "'cr option \<Rightarrow> 'cr option \<Rightarrow> 'w \<Rightarrow> go_error option \<times> 'w"

fun collect_errors :: "('x \<Rightarrow> 'w \<Rightarrow> go_error option \<times> 'w) \<Rightarrow> 'x list \<Rightarrow> go_error list \<Rightarrow> 'w \<Rightarrow> go_error list \<times> 'w" where
  "collect_errors f [] errs w = (errs, w)"
| "collect_errors f (c # cs) errs w = (case f c w of
       (Some err, w1) \<Rightarrow> collect_errors f cs (errs @ [err]) w1
     | (None, w1) \<Rightarrow> collect_errors f cs errs w1)"

definition ImplValidateInstall ::
  "yaml_lib \<Rightarrow> verrazzano profile_lib \<Rightarrow> (string \<Rightarrow> string) \<Rightarrow> (verrazzano, 'w) comp_checks list \<Rightarrow> verrazzano
    \<Rightarrow> 'w \<Rightarrow> go_error list \<times> 'w" where
  "ImplValidateInstall Y P GP cs vz w = (case GetEffectiveCR Y P GP (Some vz) of
       Inl err \<Rightarrow> ([err], w)
     | Inr effectiveCR \<Rightarrow> collect_errors (\<lambda>c. compValidateInstall c effectiveCR) cs [] w)"

definition ImplValidateInstallV1Beta1 ::
  "yaml_lib \<Rightarrow> verrazzano_v1beta1 profile_lib \<Rightarrow> (string \<Rightarrow> string) \<Rightarrow> (verrazzano_v1beta1, 'w) comp_checks list
    \<Rightarrow> verrazzano_v1beta1 \<Rightarrow> 'w \<Rightarrow> go_error list \<times> 'w" where
  "ImplValidateInstallV1Beta1 Y P GP cs vz w = (case GetEffectiveV1beta1CR Y P GP (Some vz) of
       Inl err \<Rightarrow> ([err], w)
     | Inr effectiveCR \<Rightarrow> collect_errors (\<lambda>c. compValidateInstall c effectiveCR) cs [] w)"

definition ImplValidateUpdate ::
  "yaml_lib \<Rightarrow> verrazzano profile_lib \<Rightarrow> (string \<Rightarrow> string) \<Rightarrow> (verrazzano, 'w) comp_checks list
    \<Rightarrow> verrazzano \<Rightarrow> verrazzano \<Rightarrow> 'w \<Rightarrow> go_error list \<times> 'w" where
  "ImplValidateUpdate Y P GP cs old new w = (case GetEffectiveCR Y P GP (Some new) of
       Inl err \<Rightarrow> ([err], w)
     | Inr effectiveNew \<Rightarrow> (case GetEffectiveCR Y P GP (Some old) of
           Inl err \<Rightarrow> ([err], w)
         | Inr effectiveOld \<Rightarrow> collect_errors (\<lambda>c. compValidateUpdate c effectiveOld effectiveNew) cs [] w))"

definition ImplValidateUpdateV1Beta1 ::
  "yaml_lib \<Rightarrow> verrazzano_v1beta1 profile_lib \<Rightarrow> (string \<Rightarrow> string) \<Rightarrow> (verrazzano_v1beta1, 'w) comp_checks list
    \<Rightarrow> verrazzano_v1beta1 \<Rightarrow> verrazzano_v1beta1 \<Rightarrow> 'w \<Rightarrow> go_error list \<times> 'w" where
  "ImplValidateUpdateV1Beta1 Y P GP cs old new w = (case GetEffectiveV1beta1CR Y P GP (Some new) of
       Inl err \<Rightarrow> ([err], w)
     | Inr effectiveNew \<Rightarrow> (case GetEffectiveV1beta1CR Y P GP (Some old) of
           Inl err \<Rightarrow> ([err], w)
         | Inr effectiveOld \<Rightarrow> collect_errors (\<lambda>c. compValidateUpdate c effectiveOld effectiveNew) cs [] w))"

section \<open>The webhooks\<close>

record ('cr, 'w) component_validator =
  ValidateInstall :: "'cr \<Rightarrow> 'w \<Rightarrow> go_error list \<times> 'w"
  ValidateUpdateOf :: "'cr \<Rightarrow> 'cr \<Rightarrow> 'w \<Rightarrow> go_error list \<times> 'w"

text \<open>The error of the list call is ignored: the list stays empty then.\<close>

definition verifyPlatformOperatorSingleton :: "'w webhook_lib \<Rightarrow> 'w \<Rightarrow> go_error option \<times> 'w" where
  "verifyPlatformOperatorSingleton W w = and_then (NewClient W w) (\<lambda>w1. case ListOperatorPods W w1 of
       (Inl err, w2) \<Rightarrow> (None, w2)
     | (Inr pods, w2) \<Rightarrow>
         (if length pods > 1 then fail ''Found more than one running instance of the platform operator'' else None, w2))"

definition effective_profile :: "string \<Rightarrow> string" where
  "effective_profile p = (if p = [] then ''prod'' else p)"

definition validateProfile :: "'c verrazzano_cr \<Rightarrow> 'c verrazzano_cr \<Rightarrow> go_error option" where
  "validateProfile v oldResource =
     (if effective_profile (Profile oldResource) \<noteq> effective_profile (Profile v)
      then fail ''Profile change is not allowed'' else None)"

definition with_validator :: "(go_error list \<times> 'w) option \<Rightarrow> 'w \<Rightarrow> go_error option \<times> 'w" where
  "with_validator r w = (case r of
       None \<Rightarrow> (None, w)
     | Some (errs, w1) \<Rightarrow> (if length errs > 0 then (CombineErrors errs, w1) else (None, w1)))"

definition create_checks ::
  "'w webhook_lib \<Rightarrow> (('auth, 'istio, 'keycloak, 'vz, 'x) shared_components_scheme verrazzano_cr, 'w) component_validator option
    \<Rightarrow> ('auth, 'istio, 'keycloak, 'vz, 'x) shared_components_scheme verrazzano_cr \<Rightarrow> 'w \<Rightarrow> go_error option \<times> 'w" where
  "create_checks W V v w = and_then (ValidateActiveInstall W w) (\<lambda>w1.
     and_then (ValidateVersion W (SpecVersion v), w1) (\<lambda>w2.
     and_then (ValidateProfile (Profile v), w2) (\<lambda>w3.
     and_then (validateOCISecrets W (Components v) w3) (\<lambda>w4.
       with_validator (map_option (\<lambda>c. ValidateInstall c v w4) V) w4))))"

definition ValidateCreate ::
  "'w webhook_lib \<Rightarrow> (verrazzano, 'w) component_validator option \<Rightarrow> verrazzano \<Rightarrow> 'w \<Rightarrow> go_error option \<times> 'w" where
  "ValidateCreate W V v w =
     (if \<not> WebhookValidationEnabled (Config W) then (None, w)
      else and_then (validateKubernetesVersionSupportedInCluster W w) (\<lambda>w1.
        and_then (verifyPlatformOperatorSingleton W w1) (\<lambda>w2.
        and_then (NewClient W w2) (create_checks W V v))))"

text \<open>The \<open>v1beta1\<close> webhook makes the client before it looks for other operators.\<close>

definition BetaValidateCreate ::
  "'w webhook_lib \<Rightarrow> (verrazzano_v1beta1, 'w) component_validator option \<Rightarrow> verrazzano_v1beta1 \<Rightarrow> 'w
    \<Rightarrow> go_error option \<times> 'w" where
  "BetaValidateCreate W V v w =
     (if \<not> WebhookValidationEnabled (Config W) then (None, w)
      else and_then (validateKubernetesVersionSupportedInCluster W w) (\<lambda>w1.
        and_then (NewClient W w1) (\<lambda>w2.
        and_then (verifyPlatformOperatorSingleton W w2) (create_checks W V v))))"

definition ValidateUpdate ::
  "'w webhook_lib \<Rightarrow> (('auth, 'istio, 'keycloak, 'vz, 'x) shared_components_scheme verrazzano_cr, 'w) component_validator option
    \<Rightarrow> ('auth, 'istio, 'keycloak, 'vz, 'x) shared_components_scheme verrazzano_cr \<Rightarrow> ('auth, 'istio, 'keycloak, 'vz, 'x) shared_components_scheme verrazzano_cr \<Rightarrow> 'w
    \<Rightarrow> go_error option \<times> 'w" where
  "ValidateUpdate W V v oldResource w =
     (if \<not> WebhookValidationEnabled (Config W) then (None, w)
      else and_then (validateKubernetesVersionSupportedInCluster W w) (\<lambda>w1.
        and_then (verifyPlatformOperatorSingleton W w1) (\<lambda>w2.
        and_then (ValidateInProgress oldResource, w2) (\<lambda>w3.
        and_then (validateProfile v oldResource, w3) (\<lambda>w4.
        and_then (ValidateUpgradeRequest W (TrimSpace (SpecVersion v)) (TrimSpace (vzVersion (Status oldResource)))
                    (TrimSpace (SpecVersion oldResource)), w4) (\<lambda>w5.
        and_then (NewClient W w5) (\<lambda>w6.
        and_then (validateOCISecrets W (Components v) w6) (\<lambda>w7.
          with_validator (map_option (\<lambda>c. ValidateUpdateOf c oldResource v w7) V) w7))))))))"

section \<open>Properties\<close>

text \<open>The number of kinds of override that an element gives.\<close>

definition override_kinds :: "overrides \<Rightarrow> nat" where
  "override_kinds os = length (filter id [ConfigMapRef os \<noteq> None, SecretRef os \<noteq> None, Values os \<noteq> None])"

lemma isValidOverrideItems_iff:
  "isValidOverrideItems (ConfigMapRef os) (SecretRef os) (Values os) =
     (if override_kinds os > 1 then fail ''Cannot specify more than one override type in the same list element''
      else if override_kinds os = 0 then fail ''No override specified'' else None)"
  by (simp add: isValidOverrideItems_def override_kinds_def)

lemma beta_overrides_step:
  "beta_overrides_loop 0 (os # rest) =
     (if override_kinds os > 1 then fail ''Cannot specify more than one override type in the same list element''
      else if override_kinds os = 0 then fail ''No override specified'' else beta_overrides_loop 0 rest)"
  by (simp add: override_kinds_def Let_def)

lemma ValidateInstallOverrides_step:
  "ValidateInstallOverrides (os # rest) =
     (if override_kinds os > 1 then fail ''Cannot specify more than one override type in the same list element''
      else if override_kinds os = 0 then fail ''No override specified'' else ValidateInstallOverrides rest)"
  by (simp add: isValidOverrideItems_iff fail_def)

text \<open>The overrides of a component are valid exactly when every element gives one override of one kind;
  the check of both API versions, one written with a helper and one with a counter that has to be
  reset, give the same answer and the same error on every list.\<close>

lemma overrides_exactly_one:
  "ValidateInstallOverrides os = BetaValidateInstallOverrides os
   \<and> (ValidateInstallOverrides os = None) = list_all (\<lambda>x. override_kinds x = 1) os"
proof (induction os)
  case Nil
  show ?case by (simp add: BetaValidateInstallOverrides_def)
next
  case (Cons x os)
  then show ?case
    unfolding BetaValidateInstallOverrides_def beta_overrides_step ValidateInstallOverrides_step by auto
qed

lemma ValidateUpdate_None:
  assumes "ValidateUpdate W V v old w = (None, w')" and "WebhookValidationEnabled (Config W)"
  shows "ValidateInProgress old = None \<and> validateProfile v old = None
    \<and> ValidateUpgradeRequest W (TrimSpace (SpecVersion v)) (TrimSpace (vzVersion (Status old)))
        (TrimSpace (SpecVersion old)) = None"
  using assms by (auto simp: ValidateUpdate_def and_then_None_iff)

lemma no_newer_trim [simp]: "no_newer b (TrimSpace s) = no_newer b s"
  by (simp add: no_newer_def)

text \<open>C18. What an admitted update may change.  With both checks enabled and an operator of version \<open>b\<close>, an
  update that the webhook lets through is on a resource that is neither being upgraded nor
  uninstalled, keeps the profile (none counts as prod), and either asks for exactly version \<open>b\<close>,
  with neither the installed nor the old requested version above it (no rollback), or asks for no
  version, which is only possible before anything is installed or when the installed version is
  \<open>b\<close> or has higher numbers (an upgrade cannot be passed over).\<close>

theorem admitted_update:
  assumes "ValidateUpdate W V v old w = (None, w')" and "WebhookValidationEnabled (Config W)"
    and "VersionCheckEnabled (Config W)" and "GetCurrentBomVersion (BomLib W) (DefaultBOMFilePath W) = Inr b"
  shows "vzState (Status old) \<notin> {VzStateUpgrading, VzStateUninstalling}
    \<and> effective_profile (Profile v) = effective_profile (Profile old)
    \<and> (if TrimSpace (SpecVersion v) \<noteq> []
       then NewSemVersion (TrimSpace (SpecVersion v)) = Inr b \<and> no_newer b (vzVersion (Status old))
          \<and> (TrimSpace (SpecVersion old) = [] \<or> no_newer b (SpecVersion old))
       else TrimSpace (vzVersion (Status old)) = []
          \<or> (\<exists>i. NewSemVersion (TrimSpace (vzVersion (Status old))) = Inr i \<and> (i = b \<or> version_core b < version_core i)))"
proof -
  note n = ValidateUpdate_None [OF assms(1,2)]
  have "vzState (Status old) \<notin> {VzStateUpgrading, VzStateUninstalling}"
    using n by (auto simp: ValidateInProgress_def Let_def split: if_splits)
  moreover have "effective_profile (Profile v) = effective_profile (Profile old)"
    using n by (auto simp: validateProfile_def split: if_splits)
  ultimately show ?thesis using n by (auto simp: ValidateUpgradeRequest_iff [OF assms(3,4)])
qed

definition sample_webhook :: "unit webhook_lib" where
  "sample_webhook = \<lparr>Config = \<lparr>VersionCheckEnabled = True, WebhookValidationEnabled = True\<rparr>,
     BomLib = \<lparr>ReadBomFile = (\<lambda>f. Inr f), UnmarshalBom = (\<lambda>j. Inr \<lparr>docRegistry = [], docVersion = ''1.6.0'',
         docComponents = [], SupportedKubernetesVersions = [''v1.24.0'']\<rparr>), Getenv = (\<lambda>v. [])\<rparr>,
     DefaultBOMFilePath = ''bom.json'', ServerVersion = (\<lambda>w. (Inr ''v1.24.8'', w)), NewClient = (\<lambda>w. (None, w)),
     GetSecret = (\<lambda>ns n w. (Inl (NotFoundErr n), w)), ListOperatorPods = (\<lambda>w. (Inr [''vpo''], w)),
     ListInstalls = (\<lambda>w. (Inr [], w)), UnmarshalOciAuth = (\<lambda>b. Inl (PlainErr b)), PemDecodes = (\<lambda>b. False),
     CreateTemp = (\<lambda>w. (Inr ''t'', w)), WriteTempFile = (\<lambda>f b w. (None, w)), RemoveTempFile = (\<lambda>f w. w),
     ConfigurationProviderFromFile = (\<lambda>f w. (Inl (PlainErr f), w))\<rparr>"

definition asking_for :: "string \<Rightarrow> verrazzano" where
  "asking_for ver = (zero_cr zero_alpha)\<lparr>SpecVersion := ver,
     Status := zero_status\<lparr>vzState := VzStateReady, vzVersion := ''1.5.0''\<rparr>\<rparr>"

lemma sample_update_admitted:
  "ValidateUpdate sample_webhook None (asking_for ''v1.6.0'') (asking_for ''1.5.0'') () = (None, ())"
  by code_simp

lemma sample_bom_version: "\<exists>b. GetCurrentBomVersion (BomLib sample_webhook) (DefaultBOMFilePath sample_webhook) = Inr b
    \<and> NewSemVersion ''1.6.0'' = Inr b \<and> NewSemVersion ''v1.6.0'' = Inr b"
proof -
  have "case (GetCurrentBomVersion (BomLib sample_webhook) (DefaultBOMFilePath sample_webhook), NewSemVersion ''1.6.0'',
      NewSemVersion ''v1.6.0'') of (Inr a, Inr b, Inr c) \<Rightarrow> a = b \<and> b = c | _ \<Rightarrow> False"
    by code_simp
  then show ?thesis by (auto split: sum.splits)
qed

lemma sample_config: "WebhookValidationEnabled (Config sample_webhook)" "VersionCheckEnabled (Config sample_webhook)"
  by (simp_all add: sample_webhook_def)

theorem admitted_update_witness:
  "\<exists>b. GetCurrentBomVersion (BomLib sample_webhook) (DefaultBOMFilePath sample_webhook) = Inr b
     \<and> NewSemVersion (TrimSpace ''v1.6.0'') = Inr b \<and> no_newer b ''1.5.0''"
proof -
  obtain b where b: "GetCurrentBomVersion (BomLib sample_webhook) (DefaultBOMFilePath sample_webhook) = Inr b"
    using sample_bom_version by blast
  have "TrimSpace ''v1.6.0'' \<noteq> []" by code_simp
  with admitted_update [OF sample_update_admitted sample_config b] b show ?thesis
    by (auto simp: asking_for_def)
qed

end
