(* ===== verification/Ready.thy ===== *)
theory Ready imports Enabled Component begin

text \<open>
  When a workload is ready and when it is available (\<open>pkg/k8s/ready\<close>).  The API server is the
  record \<open>ready_client\<close>; what its calls return of an object is what the checks read: replica
  counts, the pod selector, the labels of a pod and whether its containers are ready.  \<open>int32\<close>
  counts are integers.
\<close>

section \<open>Objects\<close>

record pod =
  podName :: string
  podLabels :: "string \<Rightarrow> string option"
  InitContainerStatuses :: "bool list"
  ContainerStatuses :: "bool list"

record label_selector =
  MatchLabels :: "(string \<times> string) list"
  MatchExpressions :: "string list"

record deployment =
  depNamespace :: string
  depName :: string
  depReplicas :: int
  depUpdatedReplicas :: int
  depAvailableReplicas :: int
  depReadyReplicas :: int
  depSelector :: "label_selector option"

record statefulset =
  stsNamespace :: string
  stsName :: string
  stsReplicas :: int
  stsUpdatedReplicas :: int
  stsReadyReplicas :: int
  stsSelector :: "label_selector option"

record daemonset =
  UpdatedNumberScheduled :: int
  NumberAvailable :: int
  NumberReady :: int
  DesiredNumberScheduled :: int
  daemonSelector :: "label_selector option"

type_synonym nsn = "string \<times> string"

record 'w ready_client =
  GetDeployment :: "nsn \<Rightarrow> 'w \<Rightarrow> (go_error + deployment) \<times> 'w"
  ListDeployments :: "string list \<Rightarrow> 'w \<Rightarrow> (go_error + deployment list) \<times> 'w"
  GetStatefulSet :: "nsn \<Rightarrow> 'w \<Rightarrow> (go_error + statefulset) \<times> 'w"
  ListStatefulSets :: "string list \<Rightarrow> 'w \<Rightarrow> (go_error + statefulset list) \<times> 'w"
  GetDaemonSet :: "nsn \<Rightarrow> 'w \<Rightarrow> (go_error + daemonset) \<times> 'w"
  GetReplicaSetAnnotations :: "nsn \<Rightarrow> 'w \<Rightarrow> (go_error + (string \<Rightarrow> string option)) \<times> 'w"
  GetControllerRevision :: "nsn \<Rightarrow> 'w \<Rightarrow> (go_error + int) \<times> 'w"
  ListPods :: "string \<Rightarrow> string \<Rightarrow> 'w \<Rightarrow> (go_error + pod list) \<times> 'w"
  LabelSelectorAsSelector :: "label_selector option \<Rightarrow> go_error + string"

section \<open>Pods\<close>

definition GetPodsList ::
  "'w ready_client \<Rightarrow> string \<Rightarrow> label_selector option \<Rightarrow> 'w \<Rightarrow> pod list option \<times> 'w" where
  "GetPodsList K ns selector w = (case LabelSelectorAsSelector K selector of
       Inl err \<Rightarrow> (None, w)
     | Inr labelSelector \<Rightarrow> (case ListPods K ns labelSelector w of
           (Inl err, w1) \<Rightarrow> (None, w1)
         | (Inr pods, w1) \<Rightarrow> (Some pods, w1)))"

fun ensure_loop :: "int \<Rightarrow> pod list \<Rightarrow> int \<Rightarrow> int \<times> bool" where
  "ensure_loop expectedPods [] podsReady = (podsReady, True)"
| "ensure_loop expectedPods (pod # pods) podsReady =
     (if list_ex (\<lambda>r. \<not> r) (InitContainerStatuses pod) then (0, False)
      else if list_ex (\<lambda>r. \<not> r) (ContainerStatuses pod) then (0, False)
      else if podsReady + 1 = expectedPods then (podsReady + 1, True)
      else ensure_loop expectedPods pods (podsReady + 1))"

definition EnsurePodsAreReady :: "pod list \<Rightarrow> int \<Rightarrow> int \<times> bool" where
  "EnsurePodsAreReady podsToCheck expectedPods = ensure_loop expectedPods podsToCheck 0"

text \<open>
  The loop that keeps the pods of the newest revision: \<open>savedPods\<close>, \<open>savedHash\<close> and
  \<open>savedRevision\<close>.  It is written out three times in the code; \<open>label\<close> is the label that names a
  pod's revision and \<open>revision\<close> the lookup of its number, which ends the check when it fails.
\<close>

fun newest_loop ::
  "string \<Rightarrow> (string \<Rightarrow> 'w \<Rightarrow> int option \<times> 'w) \<Rightarrow> pod list \<Rightarrow> pod list \<Rightarrow> string \<Rightarrow> int \<Rightarrow> 'w \<Rightarrow> pod list option \<times> 'w" where
  "newest_loop label revision [] savedPods savedHash savedRevision w = (Some savedPods, w)"
| "newest_loop label revision (pod # pods) savedPods savedHash savedRevision w =
     (case podLabels pod label of
        None \<Rightarrow> (None, w)
      | Some hash \<Rightarrow>
          (if hash = savedHash then newest_loop label revision pods (savedPods @ [pod]) savedHash savedRevision w
           else (case revision hash w of
               (None, w1) \<Rightarrow> (None, w1)
             | (Some n, w1) \<Rightarrow>
                 (if n > savedRevision then newest_loop label revision pods [pod] hash n w1
                  else newest_loop label revision pods savedPods savedHash savedRevision w1))))"

definition pods_ready ::
  "'w ready_client \<Rightarrow> string \<Rightarrow> (string \<Rightarrow> 'w \<Rightarrow> int option \<times> 'w) \<Rightarrow> string \<Rightarrow> label_selector option \<Rightarrow> int \<Rightarrow> 'w \<Rightarrow> bool \<times> 'w" where
  "pods_ready K label revision ns selector expected w = (case GetPodsList K ns selector w of
       (None, w1) \<Rightarrow> (False, w1)
     | (Some pods, w1) \<Rightarrow>
         (if length pods = 0 then (False, w1)
          else (case newest_loop label revision pods [] [] 0 w1 of
              (None, w2) \<Rightarrow> (False, w2)
            | (Some savedPods, w2) \<Rightarrow> (case EnsurePodsAreReady savedPods expected of
                  (podsReady, success) \<Rightarrow>
                    (if \<not> success then (False, w2) else if podsReady < expected then (False, w2) else (True, w2))))))"

section \<open>Deployments\<close>

text \<open>\<open>strconv.Atoi\<close> without its error: 0 on bad syntax, the nearest \<open>int\<close> when out of range.\<close>

definition Atoi :: "string \<Rightarrow> int" where
  "Atoi s =
     (let neg = (s \<noteq> [] \<and> hd s = CHR ''-'');
          d = (if s \<noteq> [] \<and> (hd s = CHR ''-'' \<or> hd s = CHR ''+'') then tl s else s)
      in if d = [] \<or> \<not> list_all is_digit d then 0
         else if neg then max (- (2 ^ 63)) (- digits_val d)
         else min (2 ^ 63 - 1) (digits_val d))"

definition replicaset_revision :: "'w ready_client \<Rightarrow> nsn \<Rightarrow> string \<Rightarrow> 'w \<Rightarrow> int option \<times> 'w" where
  "replicaset_revision K n hash w = (case GetReplicaSetAnnotations K (fst n, snd n @ ''-'' @ hash) w of
       (Inl err, w1) \<Rightarrow> (None, w1)
     | (Inr annotations, w1) \<Rightarrow> (case annotations ''deployment.kubernetes.io/revision'' of
           None \<Rightarrow> (None, w1)
         | Some revision \<Rightarrow> (Some (Atoi revision), w1)))"

definition PodsReadyDeployment ::
  "'w ready_client \<Rightarrow> nsn \<Rightarrow> label_selector option \<Rightarrow> int \<Rightarrow> 'w \<Rightarrow> bool \<times> 'w" where
  "PodsReadyDeployment K n = pods_ready K ''pod-template-hash'' (replicaset_revision K n) (fst n)"

definition veleroPodSelector :: label_selector where
  "veleroPodSelector = \<lparr>MatchLabels = [(''name'', ''velero'')], MatchExpressions = []\<rparr>"

definition deploymentFullyReady :: "'w ready_client \<Rightarrow> deployment \<Rightarrow> nsn \<Rightarrow> int \<Rightarrow> 'w \<Rightarrow> bool \<times> 'w" where
  "deploymentFullyReady K d n expectedReplicas w =
     (if depUpdatedReplicas d < expectedReplicas then (False, w)
      else if depAvailableReplicas d < expectedReplicas then (False, w)
      else (let podSelector = (if fst n = ''verrazzano-backup'' \<and> snd n = ''velero'' then Some veleroPodSelector
                               else depSelector d)
            in PodsReadyDeployment K n podSelector expectedReplicas w))"

fun selected_loop :: "'w ready_client \<Rightarrow> deployment list \<Rightarrow> int \<Rightarrow> 'w \<Rightarrow> bool \<times> 'w" where
  "selected_loop K [] expectedReplicas w = (True, w)"
| "selected_loop K (d # ds) expectedReplicas w =
     (case deploymentFullyReady K d (depNamespace d, depName d) expectedReplicas w of
        (False, w1) \<Rightarrow> (False, w1)
      | (True, w1) \<Rightarrow> selected_loop K ds expectedReplicas w1)"

definition DeploymentsReadyBySelectors :: "'w ready_client \<Rightarrow> int \<Rightarrow> string list \<Rightarrow> 'w \<Rightarrow> bool \<times> 'w" where
  "DeploymentsReadyBySelectors K expectedReplicas opts w = (case ListDeployments K opts w of
       (Inl err, w1) \<Rightarrow> (False, w1)
     | (Inr items, w1) \<Rightarrow> (if length items < 1 then (False, w1) else selected_loop K items expectedReplicas w1))"

fun DeploymentsAreReady :: "'w ready_client \<Rightarrow> nsn list \<Rightarrow> int \<Rightarrow> 'w \<Rightarrow> bool \<times> 'w" where
  "DeploymentsAreReady K [] expectedReplicas w = (True, w)"
| "DeploymentsAreReady K (n # ns) expectedReplicas w = (case GetDeployment K n w of
       (Inl err, w1) \<Rightarrow> (False, w1)
     | (Inr d, w1) \<Rightarrow> (case deploymentFullyReady K d n expectedReplicas w1 of
           (False, w2) \<Rightarrow> (False, w2)
         | (True, w2) \<Rightarrow> DeploymentsAreReady K ns expectedReplicas w2))"

definition DoesDeploymentExist :: "'w ready_client \<Rightarrow> nsn \<Rightarrow> 'w \<Rightarrow> (go_error + bool) \<times> 'w" where
  "DoesDeploymentExist K n w = (case GetDeployment K n w of
       (Inl err, w1) \<Rightarrow> (if IsNotFound err then (Inr False, w1) else (Inl err, w1))
     | (Inr d, w1) \<Rightarrow> (Inr True, w1))"

fun DoDeploymentsExist :: "'w ready_client \<Rightarrow> nsn list \<Rightarrow> 'w \<Rightarrow> bool \<times> 'w" where
  "DoDeploymentsExist K [] w = (True, w)"
| "DoDeploymentsExist K (n # ns) w = (case DoesDeploymentExist K n w of
       (Inl err, w1) \<Rightarrow> (False, w1)
     | (Inr exists, w1) \<Rightarrow> (if \<not> exists then (False, w1) else DoDeploymentsExist K ns w1))"

section \<open>Stateful sets and daemon sets\<close>

definition controller_revision :: "'w ready_client \<Rightarrow> string \<Rightarrow> string \<Rightarrow> 'w \<Rightarrow> int option \<times> 'w" where
  "controller_revision K ns n w = (case GetControllerRevision K (ns, n) w of
       (Inl err, w1) \<Rightarrow> (None, w1)
     | (Inr revision, w1) \<Rightarrow> (Some revision, w1))"

definition podsReadyStatefulSet ::
  "'w ready_client \<Rightarrow> nsn \<Rightarrow> label_selector option \<Rightarrow> int \<Rightarrow> 'w \<Rightarrow> bool \<times> 'w" where
  "podsReadyStatefulSet K n = pods_ready K ''controller-revision-hash'' (controller_revision K (fst n)) (fst n)"

fun StatefulSetsAreReady :: "'w ready_client \<Rightarrow> nsn list \<Rightarrow> int \<Rightarrow> 'w \<Rightarrow> bool \<times> 'w" where
  "StatefulSetsAreReady K [] expectedReplicas w = (True, w)"
| "StatefulSetsAreReady K (n # ns) expectedReplicas w = (case GetStatefulSet K n w of
       (Inl err, w1) \<Rightarrow> (False, w1)
     | (Inr s, w1) \<Rightarrow>
         (if stsUpdatedReplicas s < expectedReplicas then (False, w1)
          else if stsReadyReplicas s < expectedReplicas then (False, w1)
          else (case podsReadyStatefulSet K n (stsSelector s) expectedReplicas w1 of
              (False, w2) \<Rightarrow> (False, w2)
            | (True, w2) \<Rightarrow> StatefulSetsAreReady K ns expectedReplicas w2)))"

definition DoesStatefulsetExist :: "'w ready_client \<Rightarrow> nsn \<Rightarrow> 'w \<Rightarrow> (go_error + bool) \<times> 'w" where
  "DoesStatefulsetExist K n w = (case GetStatefulSet K n w of
       (Inl err, w1) \<Rightarrow> (if IsNotFound err then (Inr False, w1) else (Inl err, w1))
     | (Inr s, w1) \<Rightarrow> (Inr True, w1))"

fun DoStatefulSetsExist :: "'w ready_client \<Rightarrow> nsn list \<Rightarrow> 'w \<Rightarrow> bool \<times> 'w" where
  "DoStatefulSetsExist K [] w = (True, w)"
| "DoStatefulSetsExist K (n # ns) w = (case DoesStatefulsetExist K n w of
       (Inl err, w1) \<Rightarrow> (False, w1)
     | (Inr exists, w1) \<Rightarrow> (if \<not> exists then (False, w1) else DoStatefulSetsExist K ns w1))"

definition podsReadyDaemonSet ::
  "'w ready_client \<Rightarrow> nsn \<Rightarrow> label_selector option \<Rightarrow> int \<Rightarrow> 'w \<Rightarrow> bool \<times> 'w" where
  "podsReadyDaemonSet K n =
     pods_ready K ''controller-revision-hash'' (\<lambda>hash. controller_revision K (fst n) (snd n @ ''-'' @ hash)) (fst n)"

definition resticPodSelector :: label_selector where
  "resticPodSelector = \<lparr>MatchLabels = [(''name'', ''restic'')], MatchExpressions = []\<rparr>"

fun DaemonSetsAreReady :: "'w ready_client \<Rightarrow> nsn list \<Rightarrow> int \<Rightarrow> 'w \<Rightarrow> bool \<times> 'w" where
  "DaemonSetsAreReady K [] expectedNodes w = (True, w)"
| "DaemonSetsAreReady K (n # ns) expectedNodes w = (case GetDaemonSet K n w of
       (Inl err, w1) \<Rightarrow> (False, w1)
     | (Inr d, w1) \<Rightarrow>
         (if UpdatedNumberScheduled d < expectedNodes then (False, w1)
          else if NumberAvailable d < expectedNodes then (False, w1)
          else (case podsReadyDaemonSet K n (if fst n = ''verrazzano-backup'' then Some resticPodSelector else daemonSelector d)
                       expectedNodes w1 of
              (False, w2) \<Rightarrow> (False, w2)
            | (True, w2) \<Rightarrow> DaemonSetsAreReady K ns expectedNodes w2)))"

section \<open>Availability\<close>

record availability_objects =
  StatefulsetNames :: "nsn list"
  DeploymentNames :: "nsn list"
  DeploymentSelectors :: "string list"
  DaemonsetNames :: "nsn list"

text \<open>A name as it is printed, and a list of selectors, each given as its text.\<close>

definition nsn_text :: "nsn \<Rightarrow> string" where
  "nsn_text n = fst n @ ''/'' @ snd n"

definition handleGetError :: "go_error \<Rightarrow> nsn \<Rightarrow> string \<Rightarrow> go_error" where
  "handleGetError err n objectType =
     (if IsNotFound err then PlainErr (''waiting for '' @ objectType @ '' '' @ nsn_text n @ '' to exist'')
      else PlainErr (''failed getting '' @ objectType @ '' '' @ nsn_text n @ '': '' @ Error err))"

definition handleReplicasNotReady :: "int \<Rightarrow> int \<Rightarrow> nsn \<Rightarrow> string \<Rightarrow> go_error option" where
  "handleReplicasNotReady ready expected n objectType =
     (let expected1 = (if expected = 0 then 1 else expected) in
      if ready \<noteq> expected1
      then Some (PlainErr (objectType @ '' '' @ nsn_text n @ '' not available: '' @ show_int ready @ ''/'' @ show_int expected1
        @ '' replicas ready''))
      else None)"

definition handleListFailure :: "string \<Rightarrow> go_error \<Rightarrow> go_error" where
  "handleListFailure objectType err = PlainErr (''failed getting '' @ objectType @ '': '' @ Error err)"

definition handleListNotFound :: "string \<Rightarrow> string list \<Rightarrow> go_error" where
  "handleListNotFound objectType selectors =
     PlainErr (''waiting for '' @ objectType @ '' matching selectors ['' @ str_join '' '' selectors @ ''] to exist'')"

fun objectsAreAvailable :: "(nsn \<Rightarrow> 'w \<Rightarrow> go_error option \<times> 'w) \<Rightarrow> nsn list \<Rightarrow> 'w \<Rightarrow> go_error option \<times> 'w" where
  "objectsAreAvailable objectAvailableFunc [] w = (None, w)"
| "objectsAreAvailable objectAvailableFunc (n # ns) w = (case objectAvailableFunc n w of
       (Some err, w1) \<Rightarrow> (Some err, w1)
     | (None, w1) \<Rightarrow> objectsAreAvailable objectAvailableFunc ns w1)"

definition isDeploymentAvailable :: "'w ready_client \<Rightarrow> nsn \<Rightarrow> 'w \<Rightarrow> go_error option \<times> 'w" where
  "isDeploymentAvailable K n w = (case GetDeployment K n w of
       (Inl err, w1) \<Rightarrow> (Some (handleGetError err n ''deployment''), w1)
     | (Inr d, w1) \<Rightarrow> (handleReplicasNotReady (depReadyReplicas d) (depReplicas d) n ''deployment'', w1))"

definition isStatefulsetAvailable :: "'w ready_client \<Rightarrow> nsn \<Rightarrow> 'w \<Rightarrow> go_error option \<times> 'w" where
  "isStatefulsetAvailable K n w = (case GetStatefulSet K n w of
       (Inl err, w1) \<Rightarrow> (Some (handleGetError err n ''statefulset''), w1)
     | (Inr s, w1) \<Rightarrow> (handleReplicasNotReady (stsReadyReplicas s) (stsReplicas s) n ''statefulset'', w1))"

definition isDaemonsetAvailable :: "'w ready_client \<Rightarrow> nsn \<Rightarrow> 'w \<Rightarrow> go_error option \<times> 'w" where
  "isDaemonsetAvailable K n w = (case GetDaemonSet K n w of
       (Inl err, w1) \<Rightarrow> (Some (handleGetError err n ''daemonset''), w1)
     | (Inr d, w1) \<Rightarrow> (handleReplicasNotReady (NumberReady d) (DesiredNumberScheduled d) n ''daemonset'', w1))"

definition DeploymentsAreAvailable :: "'w ready_client \<Rightarrow> nsn list \<Rightarrow> 'w \<Rightarrow> go_error option \<times> 'w" where
  "DeploymentsAreAvailable K = objectsAreAvailable (isDeploymentAvailable K)"

definition StatefulSetsAreAvailable :: "'w ready_client \<Rightarrow> nsn list \<Rightarrow> 'w \<Rightarrow> go_error option \<times> 'w" where
  "StatefulSetsAreAvailable K = objectsAreAvailable (isStatefulsetAvailable K)"

definition DaemonsetsAreAvailable :: "'w ready_client \<Rightarrow> nsn list \<Rightarrow> 'w \<Rightarrow> go_error option \<times> 'w" where
  "DaemonsetsAreAvailable K = objectsAreAvailable (isDaemonsetAvailable K)"

fun first_error :: "('x \<Rightarrow> go_error option) \<Rightarrow> 'x list \<Rightarrow> go_error option" where
  "first_error f [] = None"
| "first_error f (x # xs) = (case f x of Some err \<Rightarrow> Some err | None \<Rightarrow> first_error f xs)"

definition DeploymentsAreAvailableBySelector :: "'w ready_client \<Rightarrow> string list \<Rightarrow> 'w \<Rightarrow> go_error option \<times> 'w" where
  "DeploymentsAreAvailableBySelector K selectors w =
     (if length selectors < 1 then (None, w)
      else (case ListDeployments K selectors w of
          (Inl err, w1) \<Rightarrow> (Some (handleListFailure ''deployment'' err), w1)
        | (Inr items, w1) \<Rightarrow>
            (if length items < 1 then (Some (handleListNotFound ''deployment'' selectors), w1)
             else (first_error (\<lambda>d. handleReplicasNotReady (depReadyReplicas d) (depReplicas d) (depNamespace d, depName d) ''deployment'') items, w1))))"

definition StatefulSetsAreAvailableBySelector :: "'w ready_client \<Rightarrow> string list \<Rightarrow> 'w \<Rightarrow> go_error option \<times> 'w" where
  "StatefulSetsAreAvailableBySelector K selectors w =
     (if length selectors < 1 then (None, w)
      else (case ListStatefulSets K selectors w of
          (Inl err, w1) \<Rightarrow> (Some (handleListFailure ''statefulset'' err), w1)
        | (Inr items, w1) \<Rightarrow>
            (if length items < 1 then (Some (handleListNotFound ''statefulset'' selectors), w1)
             else (first_error (\<lambda>s. handleReplicasNotReady (stsReadyReplicas s) (stsReplicas s) (stsNamespace s, stsName s) ''statefulset'') items, w1))))"

definition ObjectsAvailable :: "'w ready_client \<Rightarrow> availability_objects \<Rightarrow> 'w \<Rightarrow> (string \<times> component_availability) \<times> 'w" where
  "ObjectsAvailable K c w =
     (let unavailable = (\<lambda>err. (Error err, ComponentUnavailable)) in
      case DeploymentsAreAvailable K (DeploymentNames c) w of
        (Some err, w1) \<Rightarrow> (unavailable err, w1)
      | (None, w1) \<Rightarrow> (case DeploymentsAreAvailableBySelector K (DeploymentSelectors c) w1 of
            (Some err, w2) \<Rightarrow> (unavailable err, w2)
          | (None, w2) \<Rightarrow> (case StatefulSetsAreAvailable K (StatefulsetNames c) w2 of
                (Some err, w3) \<Rightarrow> (unavailable err, w3)
              | (None, w3) \<Rightarrow> (case DaemonsetsAreAvailable K (DaemonsetNames c) w3 of
                    (Some err, w4) \<Rightarrow> (unavailable err, w4)
                  | (None, w4) \<Rightarrow> (([], ComponentAvailable), w4)))))"

section \<open>Ingresses and certificates\<close>

text \<open>
  \<open>sort.Slice\<close> puts the most recent condition first; conditions of the same time, whose order the
  library leaves open, keep theirs here.  Times are seconds.
\<close>

record cert_condition =
  certType :: string
  certStatus :: string
  LastTransitionTime :: int

record 'w cert_client =
  GetIngress :: "nsn \<Rightarrow> 'w \<Rightarrow> go_error option \<times> 'w"
  GetCertificate :: "nsn \<Rightarrow> 'w \<Rightarrow> (go_error + cert_condition list) \<times> 'w"

fun IngressesPresent :: "'w cert_client \<Rightarrow> nsn list \<Rightarrow> 'w \<Rightarrow> bool \<times> 'w" where
  "IngressesPresent K [] w = (True, w)"
| "IngressesPresent K (n # ns) w = (case GetIngress K n w of
       (Some err, w1) \<Rightarrow> (False, w1)
     | (None, w1) \<Rightarrow> IngressesPresent K ns w1)"

definition IsCertficateIsReady :: "'w cert_client \<Rightarrow> nsn \<Rightarrow> 'w \<Rightarrow> (bool \<times> go_error option) \<times> 'w" where
  "IsCertficateIsReady K n w = (case GetCertificate K n w of
       (Inl err, w1) \<Rightarrow> ((False, if IsNotFound err then None else Some err), w1)
     | (Inr conditions, w1) \<Rightarrow>
         (if length conditions > 0 then
            (let sorted_conditions = (if length conditions > 1 then sort_key (\<lambda>c. - LastTransitionTime c) conditions
                                      else conditions);
                 mostRecent = hd sorted_conditions
             in if certStatus mostRecent = ''True'' \<and> certType mostRecent = ''Ready'' then ((True, None), w1)
                else ((False, None), w1))
          else ((False, None), w1)))"

fun certificates_loop :: "'w cert_client \<Rightarrow> nsn list \<Rightarrow> nsn list \<Rightarrow> 'w \<Rightarrow> nsn list \<times> 'w" where
  "certificates_loop K [] certsNotReady w = (certsNotReady, w)"
| "certificates_loop K (n # ns) certsNotReady w = (case IsCertficateIsReady K n w of
       ((ready, err), w1) \<Rightarrow> certificates_loop K ns (if \<not> ready then certsNotReady @ [n] else certsNotReady) w1)"

definition CertificatesAreReady ::
  "'w cert_client \<Rightarrow> verrazzano \<Rightarrow> nsn list \<Rightarrow> 'w \<Rightarrow> (bool \<times> nsn list) \<times> 'w" where
  "CertificatesAreReady K vz certificates w =
     (if length certificates = 0 then ((True, []), w)
      else if \<not> IsClusterIssuerEnabled (V1alpha1 (Some vz)) then ((True, []), w)
      else (case certificates_loop K certificates [] w of
          (certsNotReady, w1) \<Rightarrow> ((length certsNotReady = 0, certsNotReady), w1)))"

section \<open>The newest pods\<close>

text \<open>
  \<open>label_of label p\<close> is the revision a pod carries and \<open>newest label num ps\<close> the pods of the
  highest one, \<open>num\<close> giving the number of a revision.
\<close>

definition label_of :: "string \<Rightarrow> pod \<Rightarrow> string" where
  "label_of label p = (case podLabels p label of Some h \<Rightarrow> h | None \<Rightarrow> [])"

definition newest :: "string \<Rightarrow> (string \<Rightarrow> int) \<Rightarrow> pod list \<Rightarrow> pod list" where
  "newest label num ps = filter (\<lambda>p. \<forall>q \<in> set ps. num (label_of label q) \<le> num (label_of label p)) ps"

definition pod_ready :: "pod \<Rightarrow> bool" where
  "pod_ready p \<longleftrightarrow> list_all id (InitContainerStatuses p) \<and> list_all id (ContainerStatuses p)"

text \<open>\<open>revisions_known\<close>: every pod names a revision, whose number the cluster returns.\<close>

definition revisions_known ::
  "string \<Rightarrow> (string \<Rightarrow> 'w \<Rightarrow> int option \<times> 'w) \<Rightarrow> (string \<Rightarrow> int) \<Rightarrow> pod list \<Rightarrow> 'w \<Rightarrow> bool" where
  "revisions_known label revision num ps w \<longleftrightarrow>
     (\<forall>p \<in> set ps. podLabels p label = Some (label_of label p) \<and> label_of label p \<noteq> []
        \<and> revision (label_of label p) w = (Some (num (label_of label p)), w) \<and> 0 < num (label_of label p))
     \<and> inj_on num (label_of label ` set ps)"

lemma newest_max:
  assumes "h \<in> label_of label ` set ps" and "\<forall>p \<in> set ps. num (label_of label p) \<le> num h"
  shows "newest label num ps = filter (\<lambda>p. num (label_of label p) = num h) ps"
  unfolding newest_def using assms by (intro filter_cong) (auto intro: antisym)

lemma newest_loop_newest:
  assumes "revisions_known label revision num (done @ todo) w"
    and "savedHash \<in> label_of label ` set done" and "\<forall>p \<in> set done. num (label_of label p) \<le> num savedHash"
  shows "newest_loop label revision todo (newest label num done) savedHash (num savedHash) w =
    (Some (newest label num (done @ todo)), w)"
  using assms
proof (induction todo arbitrary: "done" savedHash)
  case (Cons p todo)
  let ?l = "label_of label" and ?h = "label_of label p"
  have known: "podLabels p label = Some ?h" "revision ?h w = (Some (num ?h), w)" "inj_on num (?l ` set (done @ p # todo))"
    using Cons.prems(1) by (auto simp: revisions_known_def)
  have rest: "revisions_known label revision num ((done @ [p]) @ todo) w" using Cons.prems(1) by simp
  have same: "num ?h = num savedHash \<longleftrightarrow> ?h = savedHash"
    using inj_onD [OF known(3), of ?h savedHash] Cons.prems(2) by auto
  note saved = newest_max [OF Cons.prems(2,3)]
  show ?case
  proof (cases "num savedHash < num ?h")
    case True
    then have "newest label num (done @ [p]) = [p]"
      using Cons.prems(3) by (subst newest_max [of ?h]) (auto simp: filter_empty_conv intro: less_imp_le)
    with Cons.IH [OF rest, of ?h] Cons.prems(3) True known show ?thesis by fastforce
  next
    case False
    then have "newest label num (done @ [p]) = newest label num done @ (if ?h = savedHash then [p] else [])"
      unfolding same [symmetric] using Cons.prems(2,3) saved by (subst newest_max [of savedHash]) auto
    with Cons.IH [OF rest, of savedHash] Cons.prems(2,3) False known show ?thesis
      by (cases "?h = savedHash") auto
  qed
qed simp

lemma newest_loop_start:
  assumes "revisions_known label revision num ps w"
  shows "newest_loop label revision ps [] [] 0 w = (Some (newest label num ps), w)"
proof (cases ps)
  case (Cons p todo)
  let ?h = "label_of label p"
  have "podLabels p label = Some ?h" "?h \<noteq> []" "revision ?h w = (Some (num ?h), w)" "0 < num ?h"
    using assms Cons by (auto simp: revisions_known_def)
  with newest_loop_newest [of label revision num "[p]" todo w ?h] assms Cons show ?thesis
    by (simp add: newest_def)
qed (simp add: newest_def)

lemma ensure_loop_ready:
  assumes "0 \<le> n" and "n < expected \<or> expected \<le> 0"
  shows "(case ensure_loop expected ps n of (ready, success) \<Rightarrow> success \<and> expected \<le> ready) \<longleftrightarrow>
    expected \<le> n + int (length ps) \<and> list_all pod_ready (if 0 < expected then take (nat (expected - n)) ps else ps)"
  using assms
proof (induction expected ps n rule: ensure_loop.induct)
  case (2 expected p ps n)
  have p: "pod_ready p \<longleftrightarrow> \<not> list_ex (\<lambda>r. \<not> r) (InitContainerStatuses p) \<and> \<not> list_ex (\<lambda>r. \<not> r) (ContainerStatuses p)"
    by (auto simp: pod_ready_def list_all_iff list_ex_iff)
  have pos: "take (nat (expected - n)) (p # ps) = p # take (nat (expected - (n + 1))) ps" if "n < expected"
  proof -
    have "nat (expected - n) = Suc (nat (expected - (n + 1)))" using that by simp
    then show ?thesis by simp
  qed
  show ?case
  proof (cases "pod_ready p")
    case False
    with 2(2,3) pos p show ?thesis by auto
  next
    case True
    show ?thesis
    proof (cases "n + 1 = expected")
      case True
      with \<open>pod_ready p\<close> 2(2) pos p show ?thesis by simp
    next
      case False
      with True 2 pos p show ?thesis by (auto simp: algebra_simps)
    qed
  qed
qed auto

text \<open>What the code checks of a list of pods, and a sequence of objects each of which is checked.\<close>

definition enough_ready :: "int \<Rightarrow> pod list \<Rightarrow> bool" where
  "enough_ready expected ps \<longleftrightarrow>
     expected \<le> int (length ps) \<and> list_all pod_ready (if 0 < expected then take (nat expected) ps else ps)"

lemma pods_ready_newest:
  assumes "GetPodsList K ns selector w = (Some ps, w)" and "revisions_known label revision num ps w"
  shows "pods_ready K label revision ns selector expected w =
    (ps \<noteq> [] \<and> enough_ready expected (newest label num ps), w)"
  using assms newest_loop_start [OF assms(2)] ensure_loop_ready [of 0 expected "newest label num ps"]
  by (auto simp: pods_ready_def EnsurePodsAreReady_def enough_ready_def split: prod.splits)

text \<open>C17. Deployments are ready exactly when each has as many updated and as many available replicas as
  expected, its selector finds pods, and among the pods of its newest replica set there are enough and
  the first expected ones have all their containers ready: the pods of older replica sets never count,
  in whatever order the API server returns them.\<close>

theorem deployments_ready_iff:
  assumes "\<And>n. n \<in> set ns \<Longrightarrow> GetDeployment K n w = (Inr (D n), w)"
    and "\<And>n. n \<in> set ns \<Longrightarrow> \<not> (fst n = ''verrazzano-backup'' \<and> snd n = ''velero'')"
    and "\<And>n. n \<in> set ns \<Longrightarrow> GetPodsList K (fst n) (depSelector (D n)) w = (Some (P n), w)"
    and "\<And>n. n \<in> set ns \<Longrightarrow> revisions_known ''pod-template-hash'' (replicaset_revision K n) (num n) (P n) w"
  shows "DeploymentsAreReady K ns expected w =
    (\<forall>n \<in> set ns. expected \<le> depUpdatedReplicas (D n) \<and> expected \<le> depAvailableReplicas (D n)
       \<and> P n \<noteq> [] \<and> enough_ready expected (newest ''pod-template-hash'' (num n) (P n)), w)"
  using assms
proof (induction ns)
  case (Cons n ns)
  have "PodsReadyDeployment K n (depSelector (D n)) expected w =
      (P n \<noteq> [] \<and> enough_ready expected (newest ''pod-template-hash'' (num n) (P n)), w)"
    unfolding PodsReadyDeployment_def
    using pods_ready_newest [OF Cons.prems(3,4)] Cons.prems(3,4) by simp
  moreover have "DeploymentsAreReady K ns expected w =
      (\<forall>n \<in> set ns. expected \<le> depUpdatedReplicas (D n) \<and> expected \<le> depAvailableReplicas (D n)
       \<and> P n \<noteq> [] \<and> enough_ready expected (newest ''pod-template-hash'' (num n) (P n)), w)"
    by (rule Cons.IH) (use Cons.prems in auto)
  ultimately show ?case
    using Cons.prems(1,2) [of n] by (auto simp: deploymentFullyReady_def split: bool.splits)
qed simp

text \<open>
  A cluster to try the checks on: the deployment \<open>ns/app\<close> with two pods of the replica set \<open>app-b\<close>
  of revision 10 and one, not ready, of \<open>app-a\<close> of revision 9.
\<close>

definition sample_pod :: "string \<Rightarrow> string \<Rightarrow> bool \<Rightarrow> pod" where
  "sample_pod n hash ready = \<lparr>podName = n, podLabels = [''pod-template-hash'' \<mapsto> hash],
     InitContainerStatuses = [], ContainerStatuses = [True, ready]\<rparr>"

definition sample_pods :: "pod list" where
  "sample_pods = [sample_pod ''p1'' ''a'' False, sample_pod ''p2'' ''b'' True, sample_pod ''p3'' ''b'' True]"

definition sample_deployment :: deployment where
  "sample_deployment = \<lparr>depNamespace = ''ns'', depName = ''app'', depReplicas = 2, depUpdatedReplicas = 2,
     depAvailableReplicas = 2, depReadyReplicas = 2, depSelector = None\<rparr>"

definition sample_ready_client :: "unit ready_client" where
  "sample_ready_client = \<lparr>
     GetDeployment = \<lambda>n w. (if n = (''ns'', ''app'') then Inr sample_deployment else Inl (PlainErr ''not found''), w),
     ListDeployments = \<lambda>opts w. (Inr [sample_deployment], w),
     GetStatefulSet = \<lambda>n w. (Inr \<lparr>stsNamespace = fst n, stsName = snd n, stsReplicas = 1, stsUpdatedReplicas = 1,
       stsReadyReplicas = 1, stsSelector = None\<rparr>, w),
     ListStatefulSets = \<lambda>opts w. (Inr [], w),
     GetDaemonSet = \<lambda>n w. (Inr \<lparr>UpdatedNumberScheduled = 1, NumberAvailable = 1, NumberReady = 1,
       DesiredNumberScheduled = 1, daemonSelector = None\<rparr>, w),
     GetReplicaSetAnnotations = \<lambda>n w. (Inr [''deployment.kubernetes.io/revision'' \<mapsto>
       (if snd n = ''app-a'' then ''9'' else ''10'')], w),
     GetControllerRevision = \<lambda>n w. (Inr 1, w),
     ListPods = \<lambda>ns sel w. (Inr sample_pods, w),
     LabelSelectorAsSelector = \<lambda>s. Inr []\<rparr>"

theorem deployments_ready_iff_witness:
  "DeploymentsAreReady sample_ready_client [(''ns'', ''app'')] 2 () = (True, ())
   \<and> DeploymentsAreReady sample_ready_client [(''ns'', ''app'')] 3 () = (False, ())"
proof -
  let ?num = "\<lambda>n h. if h = ''a'' then 9 else 10 :: int"
  have known: "revisions_known ''pod-template-hash'' (replicaset_revision sample_ready_client n) (?num n) sample_pods ()"
    if "n \<in> set [(''ns'', ''app'')]" for n
    using that by (auto simp: revisions_known_def sample_pods_def sample_pod_def label_of_def replicaset_revision_def
        sample_ready_client_def Atoi_def is_digit_def digits_val_def digit_val_def)
  have n: "newest ''pod-template-hash'' (?num (''ns'', ''app'')) sample_pods =
      [sample_pod ''p2'' ''b'' True, sample_pod ''p3'' ''b'' True]"
    by (simp add: newest_def sample_pods_def sample_pod_def label_of_def)
  have e: "enough_ready 2 [sample_pod ''p2'' ''b'' True, sample_pod ''p3'' ''b'' True]"
    by (simp add: enough_ready_def pod_ready_def sample_pod_def)
  have "DeploymentsAreReady sample_ready_client [(''ns'', ''app'')] e () = (\<forall>n \<in> set [(''ns'', ''app'')].
      e \<le> depUpdatedReplicas sample_deployment \<and> e \<le> depAvailableReplicas sample_deployment
      \<and> sample_pods \<noteq> [] \<and> enough_ready e (newest ''pod-template-hash'' (?num n) sample_pods), ())" for e
    by (rule deployments_ready_iff [where D = "\<lambda>n. sample_deployment" and P = "\<lambda>n. sample_pods", OF _ _ _ known])
      (auto simp: sample_ready_client_def GetPodsList_def)
  from this [of 2] this [of 3] n e show ?thesis by (simp add: sample_deployment_def sample_pods_def)
qed

section \<open>Available objects\<close>

definition ready_as_desired :: "int \<Rightarrow> int \<Rightarrow> bool" where
  "ready_as_desired ready desired \<longleftrightarrow> ready = (if desired = 0 then 1 else desired)"

lemma handleReplicasNotReady_None: "handleReplicasNotReady ready desired n ty = None \<longleftrightarrow> ready_as_desired ready desired"
  by (simp add: handleReplicasNotReady_def ready_as_desired_def Let_def)

lemma found_None: "(case x of Inl e \<Rightarrow> Some (g e) | Inr d \<Rightarrow> f d) = None \<longleftrightarrow> (\<exists>d. x = Inr d \<and> f d = None)"
  by (simp split: sum.splits)

lemma objectsAreAvailable_quiet:
  assumes "\<And>n. n \<in> set ns \<Longrightarrow> check n w = (f n, w)"
  shows "objectsAreAvailable check ns w = (first_error f ns, w)"
  using assms by (induction ns) (auto split: option.splits)

lemma first_error_None: "first_error f xs = None \<longleftrightarrow> (\<forall>x \<in> set xs. f x = None)"
  by (induction xs) (auto split: option.splits)

text \<open>
  \<open>all_reads_quiet\<close>: the reads of the objects of a component leave the cluster as it is;
  \<open>D\<close>, \<open>S\<close>, \<open>A\<close> and \<open>L\<close> are what they return.
\<close>

definition all_reads_quiet ::
  "'w ready_client \<Rightarrow> availability_objects \<Rightarrow> (nsn \<Rightarrow> go_error + deployment) \<Rightarrow> (nsn \<Rightarrow> go_error + statefulset)
    \<Rightarrow> (nsn \<Rightarrow> go_error + daemonset) \<Rightarrow> (go_error + deployment list) \<Rightarrow> 'w \<Rightarrow> bool" where
  "all_reads_quiet K c D S A L w \<longleftrightarrow>
     (\<forall>n \<in> set (DeploymentNames c). GetDeployment K n w = (D n, w))
     \<and> (\<forall>n \<in> set (StatefulsetNames c). GetStatefulSet K n w = (S n, w))
     \<and> (\<forall>n \<in> set (DaemonsetNames c). GetDaemonSet K n w = (A n, w))
     \<and> ListDeployments K (DeploymentSelectors c) w = (L, w)"

text \<open>A component is available exactly when every deployment, stateful set and daemon set it names is
  found and has exactly the desired number of ready replicas, a desired number of zero counting as
  one, and, when it gives selectors, they match some deployment and the same holds of all that match.
  Everything else, an error of a read included, makes it unavailable.\<close>

lemma component_available_iff:
  assumes "all_reads_quiet K c D S A L w"
  shows "snd (fst (ObjectsAvailable K c w)) = ComponentAvailable \<longleftrightarrow>
      (\<forall>n \<in> set (DeploymentNames c). \<exists>d. D n = Inr d \<and> ready_as_desired (depReadyReplicas d) (depReplicas d))
      \<and> (\<forall>n \<in> set (StatefulsetNames c). \<exists>s. S n = Inr s \<and> ready_as_desired (stsReadyReplicas s) (stsReplicas s))
      \<and> (\<forall>n \<in> set (DaemonsetNames c). \<exists>d. A n = Inr d \<and> ready_as_desired (NumberReady d) (DesiredNumberScheduled d))
      \<and> (DeploymentSelectors c = [] \<or>
         (\<exists>ds. L = Inr ds \<and> ds \<noteq> [] \<and> (\<forall>d \<in> set ds. ready_as_desired (depReadyReplicas d) (depReplicas d))))"
proof -
  let ?d = "\<lambda>n. case D n of Inl e \<Rightarrow> Some (handleGetError e n ''deployment'') | Inr d \<Rightarrow> handleReplicasNotReady (depReadyReplicas d) (depReplicas d) n ''deployment''"
  let ?s = "\<lambda>n. case S n of Inl e \<Rightarrow> Some (handleGetError e n ''statefulset'') | Inr d \<Rightarrow> handleReplicasNotReady (stsReadyReplicas d) (stsReplicas d) n ''statefulset''"
  let ?a = "\<lambda>n. case A n of Inl e \<Rightarrow> Some (handleGetError e n ''daemonset'') | Inr d \<Rightarrow> handleReplicasNotReady (NumberReady d) (DesiredNumberScheduled d) n ''daemonset''"
  have d: "DeploymentsAreAvailable K (DeploymentNames c) w = (first_error ?d (DeploymentNames c), w)"
    unfolding DeploymentsAreAvailable_def using assms
    by (intro objectsAreAvailable_quiet) (auto simp: all_reads_quiet_def isDeploymentAvailable_def split: sum.splits)
  have s: "StatefulSetsAreAvailable K (StatefulsetNames c) w = (first_error ?s (StatefulsetNames c), w)"
    unfolding StatefulSetsAreAvailable_def using assms
    by (intro objectsAreAvailable_quiet) (auto simp: all_reads_quiet_def isStatefulsetAvailable_def split: sum.splits)
  have a: "DaemonsetsAreAvailable K (DaemonsetNames c) w = (first_error ?a (DaemonsetNames c), w)"
    unfolding DaemonsetsAreAvailable_def using assms
    by (intro objectsAreAvailable_quiet) (auto simp: all_reads_quiet_def isDaemonsetAvailable_def split: sum.splits)
  have l: "fst (DeploymentsAreAvailableBySelector K (DeploymentSelectors c) w) = None \<longleftrightarrow> DeploymentSelectors c = []
      \<or> (\<exists>ds. L = Inr ds \<and> ds \<noteq> [] \<and> (\<forall>d \<in> set ds. ready_as_desired (depReadyReplicas d) (depReplicas d)))"
    "snd (DeploymentsAreAvailableBySelector K (DeploymentSelectors c) w) = w"
    using assms by (auto simp: all_reads_quiet_def DeploymentsAreAvailableBySelector_def Suc_le_eq first_error_None
        handleReplicasNotReady_None split: sum.splits)
  have none: "first_error ?d (DeploymentNames c) = None \<longleftrightarrow>
      (\<forall>n \<in> set (DeploymentNames c). \<exists>d. D n = Inr d \<and> ready_as_desired (depReadyReplicas d) (depReplicas d))"
    "first_error ?s (StatefulsetNames c) = None \<longleftrightarrow>
      (\<forall>n \<in> set (StatefulsetNames c). \<exists>s. S n = Inr s \<and> ready_as_desired (stsReadyReplicas s) (stsReplicas s))"
    "first_error ?a (DaemonsetNames c) = None \<longleftrightarrow>
      (\<forall>n \<in> set (DaemonsetNames c). \<exists>d. A n = Inr d \<and> ready_as_desired (NumberReady d) (DesiredNumberScheduled d))"
    by (simp_all only: first_error_None found_None handleReplicasNotReady_None)
  obtain r where r: "DeploymentsAreAvailableBySelector K (DeploymentSelectors c) w = (r, w)"
    using l(2) by (metis prod.collapse)
  show ?thesis
    unfolding none [symmetric] l(1) [symmetric]
    by (simp add: ObjectsAvailable_def d s a r Let_def split: option.splits)
qed

lemma component_available_iff_witness:
  "snd (fst (ObjectsAvailable sample_ready_client \<lparr>StatefulsetNames = [(''ns'', ''db'')],
      DeploymentNames = [(''ns'', ''app'')], DeploymentSelectors = [], DaemonsetNames = []\<rparr> ())) = ComponentAvailable"
  by (subst component_available_iff [where D = "\<lambda>n. Inr sample_deployment" and L = "Inr [sample_deployment]" and
        S = "\<lambda>n. Inr \<lparr>stsNamespace = fst n, stsName = snd n, stsReplicas = 1, stsUpdatedReplicas = 1,
          stsReadyReplicas = 1, stsSelector = None\<rparr>" and A = "\<lambda>n. Inl (PlainErr [])"])
    (auto simp: all_reads_quiet_def sample_ready_client_def sample_deployment_def ready_as_desired_def)

section \<open>Certificates\<close>

lemma certificates_loop_quiet:
  assumes "\<And>n. n \<in> set ns \<Longrightarrow> IsCertficateIsReady K n w = ((ready n, err n), w)"
  shows "certificates_loop K ns acc w = (acc @ filter (\<lambda>n. \<not> ready n) ns, w)"
  using assms by (induction ns arbitrary: acc) auto

lemma hd_sort_key_min:
  assumes "xs \<noteq> []" and "x \<in> set xs"
  shows "f (hd (sort_key f xs)) \<le> (f x :: 'b :: linorder)"
proof (cases "sort_key f xs")
  case (Cons y ys)
  with assms(2) have "x \<in> set (y # ys)" by (metis set_sort)
  with sorted_sort_key [of f xs] Cons show ?thesis by auto
qed (use assms in \<open>metis set_empty set_sort\<close>)

lemma hd_sort_key_in: "xs \<noteq> [] \<Longrightarrow> hd (sort_key f xs) \<in> set xs"
  by (metis list.set_sel(1) set_empty set_sort)

lemma most_recent_ready:
  assumes "GetCertificate K n w = (Inr cs, w)" and "inj_on LastTransitionTime (set cs)"
  shows "fst (fst (IsCertficateIsReady K n w)) \<longleftrightarrow>
    (\<exists>c \<in> set cs. (\<forall>d \<in> set cs. LastTransitionTime d \<le> LastTransitionTime c) \<and> certStatus c = ''True'' \<and> certType c = ''Ready'')"
proof (cases "cs = []")
  case False
  let ?m = "hd (if length cs > 1 then sort_key (\<lambda>c. - LastTransitionTime c) cs else cs)"
  have m: "?m \<in> set cs" using False hd_sort_key_in [OF False, of "\<lambda>c. - LastTransitionTime c"] by simp
  have max: "\<forall>d \<in> set cs. LastTransitionTime d \<le> LastTransitionTime ?m"
    using hd_sort_key_min [OF False, where f = "\<lambda>c. - LastTransitionTime c"] False by (cases cs) auto
  have "c = ?m" if "c \<in> set cs" "\<forall>d \<in> set cs. LastTransitionTime d \<le> LastTransitionTime c" for c
    using inj_onD [OF assms(2) _ that(1) m] that max m by (meson order_antisym)
  then have only: "(\<exists>c \<in> set cs. (\<forall>d \<in> set cs. LastTransitionTime d \<le> LastTransitionTime c) \<and> P c) \<longleftrightarrow> P ?m" for P
    using m max by blast
  have "fst (fst (IsCertficateIsReady K n w)) \<longleftrightarrow> certStatus ?m = ''True'' \<and> certType ?m = ''Ready''"
    using False assms(1) by (simp add: IsCertficateIsReady_def Let_def)
  then show ?thesis unfolding only .
qed (simp add: IsCertficateIsReady_def assms)

text \<open>With the issuer enabled, the certificates reported as not ready are exactly those, in order,
  whose latest condition is not \<open>Ready\<close> with status \<open>True\<close>; an older condition never decides, and
  the check passes exactly when none is reported.\<close>

lemma certificates_not_ready:
  assumes "IsClusterIssuerEnabled (V1alpha1 (Some vz))"
    and "\<And>n. n \<in> set ns \<Longrightarrow> GetCertificate K n w = (Inr (C n), w)"
    and "\<And>n. n \<in> set ns \<Longrightarrow> inj_on LastTransitionTime (set (C n))"
  shows "CertificatesAreReady K vz ns w =
    (let bad = filter (\<lambda>n. \<forall>c \<in> set (C n). (\<forall>d \<in> set (C n). LastTransitionTime d \<le> LastTransitionTime c) \<longrightarrow>
                \<not> (certStatus c = ''True'' \<and> certType c = ''Ready'')) ns
     in ((bad = [], bad), w))"
proof -
  let ?ready = "\<lambda>n. fst (fst (IsCertficateIsReady K n w))"
  have "IsCertficateIsReady K n w = ((?ready n, snd (fst (IsCertficateIsReady K n w))), w)" if "n \<in> set ns" for n
    using assms(2) [OF that] by (auto simp: IsCertficateIsReady_def Let_def)
  then have loop: "certificates_loop K ns [] w = (filter (\<lambda>n. \<not> ?ready n) ns, w)"
    by (subst certificates_loop_quiet [where ready = ?ready and err = "\<lambda>n. snd (fst (IsCertficateIsReady K n w))"]) auto
  have bad: "filter (\<lambda>n. \<not> ?ready n) ns = filter (\<lambda>n. \<forall>c \<in> set (C n). (\<forall>d \<in> set (C n). LastTransitionTime d \<le> LastTransitionTime c)
      \<longrightarrow> \<not> (certStatus c = ''True'' \<and> certType c = ''Ready'')) ns"
    by (rule filter_cong [OF refl]) (use most_recent_ready [OF assms(2,3)] in blast)
  show ?thesis
    unfolding Let_def bad [symmetric] using assms(1) by (cases "ns = []") (simp_all add: CertificatesAreReady_def loop)
qed

lemma certificates_not_ready_witness:
  "CertificatesAreReady \<lparr>GetIngress = \<lambda>n w. (None, w), GetCertificate = \<lambda>n w. (Inr
        [\<lparr>certType = ''Ready'', certStatus = ''False'', LastTransitionTime = 5\<rparr>,
         \<lparr>certType = ''Ready'', certStatus = (if n = (''ns'', ''tls'') then ''True'' else ''False''), LastTransitionTime = 9\<rparr>], w)\<rparr>
      (zero_cr zero_alpha) [(''ns'', ''tls''), (''ns'', ''other'')] () = ((False, [(''ns'', ''other'')]), ())"
  by (subst certificates_not_ready [where C = "\<lambda>n. [\<lparr>certType = ''Ready'', certStatus = ''False'', LastTransitionTime = 5\<rparr>,
         \<lparr>certType = ''Ready'', certStatus = (if n = (''ns'', ''tls'') then ''True'' else ''False''), LastTransitionTime = 9\<rparr>]"])
    (auto simp: IsClusterIssuerEnabled_def enabled_or_def flag_or_def zero_cr_def zero_alpha_def zero_shared_def)

end
