(* ===== verification/Yaml_Ops.thy ===== *)
theory Yaml_Ops imports Go_Strings Semver "HOL-Library.AList" begin

text \<open>
  Writing and merging YAML: \<open>pkg/yaml/expand.go\<close>, which turns a dotted Helm name into nested
  mappings, and \<open>pkg/yaml/replace_merge.go\<close>, which lays one document over another.  Parsing and
  printing of documents are the YAML library, a parameter; a parsed document is a \<open>yaml\<close> value,
  a map an association list in the order a \<open>range\<close> visits it.
\<close>

section \<open>Expanding a name\<close>

definition write_list :: "string \<Rightarrow> string list \<Rightarrow> string" where
  "write_list pad vals = concat (map (\<lambda>val. CHR 0x0A # pad @ ''- '' @ val) vals)"

definition writeVals :: "bool \<Rightarrow> string \<Rightarrow> string list \<Rightarrow> string" where
  "writeVals forceList pad vals =
     (if length vals = 1 \<and> Contains (hd vals) [CHR 0x0A]
      then '' |'' @ [CHR 0x0A] @ pad @ ReplaceAll [CHR 0x0A] (CHR 0x0A # pad) (hd vals)
      else if length vals = 1 \<and> \<not> forceList then CHR '' '' # hd vals
      else write_list pad vals)"

definition placeholder :: string where
  "placeholder = ''/*placeholder*/''"

definition spaces :: "nat \<Rightarrow> string" where
  "spaces n = replicate n CHR '' ''"

text \<open>
  The loop over the segments: \<open>i\<close> counts them, \<open>listIndents\<close> and \<open>nextValueList\<close> are the
  variables of the code.  An error of the string builder, which has none, is left out.
\<close>

fun expand_segs :: "nat \<Rightarrow> bool \<Rightarrow> string list \<Rightarrow> string list \<Rightarrow> nat \<Rightarrow> nat \<Rightarrow> bool \<Rightarrow> string" where
  "expand_segs leftMargin forceList vals [] i listIndents nextValueList = []"
| "expand_segs leftMargin forceList vals (seg0 # segs) i listIndents nextValueList =
     (let seg1 = ReplaceAll placeholder ''.'' seg0;
          pad = spaces (leftMargin + 2 * (i + listIndents));
          listValueString = (if nextValueList then ''- '' else []);
          listIndents1 = (if nextValueList then listIndents + 1 else listIndents);
          splitList = split_on CHR ''['' seg1;
          isList = length splitList > 1;
          seg = (if isList then hd splitList else seg1);
          line = pad @ listValueString @ seg @ '':''
      in if segs = [] then line @ writeVals (forceList \<or> isList) (pad @ spaces (2 * (if isList then 2 else 1))) vals
         else line @ [CHR 0x0A] @ expand_segs leftMargin forceList vals segs (i + 1) listIndents1 isList)"

definition name_segs :: "string list \<Rightarrow> string list" where
  "name_segs quoteSegs =
     (let unquotedPart = ReplaceAll [CHR 0x5C, CHR ''.''] placeholder (TrimRight CHR ''.'' (hd quoteSegs));
          nameSegs = split_on CHR ''.'' unquotedPart
      in if length quoteSegs = 2 then nameSegs @ [ReplaceAll [CHR 0x5C] [] (quoteSegs ! 1)] else nameSegs)"

definition Expand :: "nat \<Rightarrow> bool \<Rightarrow> string \<Rightarrow> string list \<Rightarrow> go_error + string" where
  "Expand leftMargin forceList n vals =
     (let quoteSegs = split_on CHR 0x22 (TrimRight CHR 0x22 (TrimSpace n)) in
      if length quoteSegs > 2 then Inl (PlainErr ''Name/Value pair has invalid name with more than 1 quoted string'')
      else if length quoteSegs = 0 then Inl (PlainErr ''Name/Value pair has invalid name'')
      else Inr (expand_segs leftMargin forceList vals (name_segs quoteSegs) 0 0 False))"

section \<open>Merging\<close>

datatype yaml = Scalar string | Seq "yaml list" | Mapping "(string \<times> yaml) list"

type_synonym yaml_map = "(string \<times> yaml) list"

fun MergeMaps :: "yaml_map \<Rightarrow> yaml_map \<Rightarrow> yaml_map" where
  "MergeMaps mBase [] = mBase"
| "MergeMaps mBase ((k, vOverlay) # mOverlay) =
     MergeMaps (AList.update k
       (case (map_of mBase k, vOverlay) of
          (Some (Mapping tBase), Mapping tOverlay) \<Rightarrow> Mapping (MergeMaps tBase tOverlay)
        | _ \<Rightarrow> vOverlay) mBase) mOverlay"

record yaml_codec =
  UnmarshalMap :: "string \<Rightarrow> go_error + yaml_map"
  MarshalMap :: "yaml_map \<Rightarrow> go_error + string"

fun merge_yamls :: "yaml_codec \<Rightarrow> yaml_map \<Rightarrow> string list \<Rightarrow> go_error + yaml_map" where
  "merge_yamls C mBase [] = Inr mBase"
| "merge_yamls C mBase (yam # yams) = err_bind (UnmarshalMap C yam) (\<lambda>m.
     if length mBase = 0 then merge_yamls C m yams else merge_yamls C (MergeMaps mBase m) yams)"

definition ReplacementMerge :: "yaml_codec \<Rightarrow> string list \<Rightarrow> go_error + string" where
  "ReplacementMerge C yamls =
     (if length yamls = 0 then Inr []
      else if length yamls = 1 then Inr (hd yamls)
      else err_bind (merge_yamls C [] yamls) (\<lambda>mBase. err_bind (MarshalMap C mBase) (\<lambda>b. Inr (TrimSpace b))))"

section \<open>Plain names\<close>

lemma ReplaceAll_absent:
  assumes "old \<noteq> []" and "hd old \<notin> set s"
  shows "ReplaceAll old new s = s"
  using assms(2)
proof (induction s)
  case (Cons c s)
  have "take (length old) (c # s) \<noteq> old"
  proof
    assume t: "take (length old) (c # s) = old"
    with assms(1) have "hd old = c" by (metis hd_take length_greater_0_conv list.sel(1))
    with Cons.prems show False by simp
  qed
  with Cons show ?case by simp
qed simp

lemma dropWhile_all: "\<forall>x \<in> set s. \<not> P x \<Longrightarrow> dropWhile P s = s"
  by (cases s) auto

lemma TrimSpace_absent: "\<forall>c \<in> set s. \<not> is_space c \<Longrightarrow> TrimSpace s = s"
  by (simp add: TrimSpace_def dropWhile_all)

lemma TrimRight_absent: "c \<notin> set s \<Longrightarrow> TrimRight c s = s"
  unfolding TrimRight_def by (subst dropWhile_all) auto

lemma TrimRight_last: "s \<noteq> [] \<Longrightarrow> last s \<noteq> c \<Longrightarrow> TrimRight c s = s"
  by (cases s rule: rev_cases) (auto simp: TrimRight_def)

text \<open>A segment of ordinary characters: not a blank, quote, dot, bracket, backslash or star.\<close>

definition plain_seg :: "string \<Rightarrow> bool" where
  "plain_seg k \<longleftrightarrow> k \<noteq> [] \<and> (\<forall>c \<in> set k. \<not> is_space c \<and> c \<notin> set [CHR 0x22, CHR ''.'', CHR ''['', CHR 0x5C, CHR ''/''])"

lemma set_join: "set (str_join sep xs) \<subseteq> (\<Union>x \<in> set xs. set x) \<union> set sep"
  by (induction sep xs rule: str_join.induct) auto

lemma last_join: "xs \<noteq> [] \<Longrightarrow> last xs \<noteq> [] \<Longrightarrow> str_join sep xs \<noteq> [] \<and> last (str_join sep xs) = last (last xs)"
  by (induction sep xs rule: str_join.induct) (auto split: if_splits)

lemma name_segs_join:
  assumes "ks \<noteq> []" and "last ks \<noteq> []" and "\<forall>k \<in> set ks. \<forall>c \<in> set k. \<not> is_space c \<and> c \<notin> set [CHR 0x22, CHR ''.'', CHR 0x5C]"
  shows "split_on CHR 0x22 (TrimRight CHR 0x22 (TrimSpace (str_join ''.'' ks))) = [str_join ''.'' ks]"
    and "name_segs [str_join ''.'' ks] = ks"
proof -
  let ?n = "str_join ''.'' ks"
  have n: "c \<noteq> CHR 0x22 \<and> c \<noteq> CHR 0x5C \<and> \<not> is_space c" if "c \<in> set ?n" for c
  proof (cases "c = CHR ''.''")
    case False
    with that set_join [of "''.''" ks] obtain k where "k \<in> set ks" "c \<in> set k" by fastforce
    with assms(3) show ?thesis by auto
  qed (simp add: is_space_def)
  then have "TrimSpace ?n = ?n" "TrimRight CHR 0x22 ?n = ?n" by (blast intro: TrimSpace_absent TrimRight_absent)+
  moreover have "CHR 0x22 \<notin> set ?n" using n by blast
  ultimately show "split_on CHR 0x22 (TrimRight CHR 0x22 (TrimSpace ?n)) = [?n]" by (simp add: split_on_no_sep)
  have l: "?n \<noteq> []" "last ?n = last (last ks)" using last_join [OF assms(1,2)] by auto
  have "last (last ks) \<in> set (last ks)" "last ks \<in> set ks" using assms(1,2) by auto
  with assms(3) have "last (last ks) \<noteq> CHR ''.''" by fastforce
  with l have t: "TrimRight CHR ''.'' ?n = ?n" by (intro TrimRight_last) auto
  have "ReplaceAll [CHR 0x5C, CHR ''.''] placeholder ?n = ?n" by (rule ReplaceAll_absent) (use n in auto)
  moreover have "split_on CHR ''.'' ?n = ks" by (rule split_join [OF assms(1)]) (use assms(3) in auto)
  ultimately show "name_segs [?n] = ks" by (simp add: name_segs_def Let_def t)
qed

lemma plain_seg_parts:
  assumes "plain_seg k"
  shows "ReplaceAll placeholder ''.'' k = k" and "split_on CHR ''['' k = [k]"
proof -
  have "CHR ''/'' \<notin> set k" "CHR ''['' \<notin> set k" using assms by (auto simp: plain_seg_def)
  then show "ReplaceAll placeholder ''.'' k = k" "split_on CHR ''['' k = [k]"
    by (simp_all add: ReplaceAll_absent split_on_no_sep placeholder_def)
qed

text \<open>The document that a dotted name stands for: one mapping per segment, each two columns deeper.\<close>

fun nested :: "nat \<Rightarrow> string list \<Rightarrow> string \<Rightarrow> string" where
  "nested m [] v = []"
| "nested m [k] v = spaces m @ k @ '': '' @ v"
| "nested m (k # ks) v = spaces m @ k @ '':'' @ [CHR 0x0A] @ nested (m + 2) ks v"

lemma expand_segs_plain:
  assumes "\<forall>k \<in> set ks. plain_seg k" and "\<not> Contains v [CHR 0x0A]"
  shows "expand_segs m False [v] ks i 0 False = nested (m + 2 * i) ks v"
  using assms(1)
proof (induction ks arbitrary: i)
  case (Cons k ks)
  have "plain_seg k" using Cons.prems by simp
  note p = plain_seg_parts [OF this]
  show ?case
  proof (cases ks)
    case Nil
    with p assms(2) show ?thesis by (simp add: writeVals_def)
  next
    case (Cons k' ks')
    with p Cons.IH [of "i + 1"] Cons.prems show ?thesis by (simp add: algebra_simps)
  qed
qed simp

text \<open>A dotted name of ordinary segments expands to the document it stands for: one nested mapping per
  segment, each indented two columns more than the one around it, with the value after the last.\<close>

lemma expand_plain_name:
  assumes "ks \<noteq> []" and "\<forall>k \<in> set ks. plain_seg k" and "\<not> Contains v [CHR 0x0A]"
  shows "Expand m False (str_join ''.'' ks) [v] = Inr (nested m ks v)"
proof -
  have l: "last ks \<noteq> []" using assms(1,2) by (auto simp: plain_seg_def)
  have c: "\<forall>k \<in> set ks. \<forall>c \<in> set k. \<not> is_space c \<and> c \<notin> set [CHR 0x22, CHR ''.'', CHR 0x5C]"
    using assms(2) by (auto simp: plain_seg_def)
  from name_segs_join [OF assms(1) l c] expand_segs_plain [OF assms(2,3), of m 0] show ?thesis
    by (simp add: Expand_def Let_def)
qed

lemma expand_plain_name_witness:
  "Expand 0 False ''controller.service.type'' [''NodePort''] =
    Inr (''controller:'' @ [CHR 0x0A] @ ''  service:'' @ [CHR 0x0A] @ ''    type: NodePort'')"
proof -
  have "\<forall>k \<in> set [''controller'', ''service'', ''type'']. plain_seg k" by (auto simp: plain_seg_def is_space_def)
  moreover have "\<not> Contains ''NodePort'' [CHR 0x0A]" by simp
  ultimately show ?thesis
    using expand_plain_name [of "[''controller'', ''service'', ''type'']" "''NodePort''" 0]
    by (simp add: spaces_def numeral_2_eq_2)
qed

section \<open>List indices\<close>

text \<open>The number in brackets is not looked at: two names that differ in it alone expand to the same
  document, a list of one element, and merging replaces lists.  Arguments for different elements of
  one list therefore overwrite each other, and the last one is the only element left.\<close>

lemma expand_ignores_index:
  assumes "plain_seg k" and "\<forall>x \<in> set ks. plain_seg x" and "\<forall>c \<in> set i. is_digit c" and "\<forall>c \<in> set j. is_digit c"
  shows "Expand m f (str_join ''.'' ((k @ ''['' @ i @ '']'') # ks)) vs = Expand m f (str_join ''.'' ((k @ ''['' @ j @ '']'') # ks)) vs
    \<and> MergeMaps [(k, Seq xs)] [(k, Seq ys)] = [(k, Seq ys)]"
proof -
  let ?seg = "\<lambda>i. k @ ''['' @ i @ '']''"
  have digit: "\<not> is_space c \<and> c \<notin> set [CHR 0x22, CHR ''.'', CHR 0x5C, CHR ''/'']" if "is_digit c" for c
    using that by (auto simp: is_digit_def is_space_def)
  have b: "\<not> is_space CHR ''[''" "\<not> is_space CHR '']''" by (simp_all add: is_space_def)
  have e: "expand_segs m f vs (?seg i # ks) 0 0 False = expand_segs m f vs (?seg j # ks) 0 0 False
      \<and> Expand m f (str_join ''.'' (?seg i # ks)) vs = Inr (expand_segs m f vs (?seg i # ks) 0 0 False)"
    if i: "\<forall>c \<in> set i. is_digit c" and j: "\<forall>c \<in> set j. is_digit c" for i j
  proof
    have p: "ReplaceAll placeholder ''.'' (?seg x) = ?seg x" "length (split_on CHR ''['' (?seg x)) > 1" "hd (split_on CHR ''['' (?seg x)) = k"
      if "\<forall>c \<in> set x. is_digit c" for x
    proof -
      have "CHR ''/'' \<notin> set (?seg x)" "CHR ''['' \<notin> set k" using assms(1) digit that by (auto simp: plain_seg_def)
      then show "ReplaceAll placeholder ''.'' (?seg x) = ?seg x" "length (split_on CHR ''['' (?seg x)) > 1"
        "hd (split_on CHR ''['' (?seg x)) = k"
        by (auto simp: ReplaceAll_absent placeholder_def split_on_append Suc_lessI)
    qed
    show "expand_segs m f vs (?seg i # ks) 0 0 False = expand_segs m f vs (?seg j # ks) 0 0 False"
      using p [OF i] p [OF j] by (simp add: Let_def del: append.simps)
    have "\<forall>s \<in> set (?seg i # ks). \<forall>c \<in> set s. \<not> is_space c \<and> c \<notin> set [CHR 0x22, CHR ''.'', CHR 0x5C]"
      using assms(1,2) digit i b by (simp add: plain_seg_def ball_Un)
    moreover have "last (?seg i # ks) \<noteq> []" using assms(2) by (auto simp: plain_seg_def)
    ultimately show "Expand m f (str_join ''.'' (?seg i # ks)) vs = Inr (expand_segs m f vs (?seg i # ks) 0 0 False)"
      using name_segs_join [of "?seg i # ks"] by (simp add: Expand_def Let_def)
  qed
  from e [OF assms(3,4)] e [OF assms(4,3)] show ?thesis by simp
qed

lemma expand_ignores_index_witness:
  "Expand 0 False ''hosts[0].name'' [''a''] = Expand 0 False ''hosts[1].name'' [''a'']"
  using expand_ignores_index [of "''hosts''" "[''name'']" "''0''" "''1''" 0 False "[''a'']"]
  by (simp add: plain_seg_def is_space_def is_digit_def)

section \<open>Lookups in merged maps\<close>

text \<open>Maps with one entry per key, at every depth, as Go's maps are.\<close>

fun wf_yaml :: "yaml \<Rightarrow> bool" where
  "wf_yaml (Scalar s) \<longleftrightarrow> True"
| "wf_yaml (Seq xs) \<longleftrightarrow> True"
| "wf_yaml (Mapping m) \<longleftrightarrow> distinct (map fst m) \<and> (\<forall>(k, v) \<in> set m. wf_yaml v)"

definition wf_map :: "yaml_map \<Rightarrow> bool" where
  "wf_map m \<longleftrightarrow> distinct (map fst m) \<and> (\<forall>(k, v) \<in> set m. wf_yaml v)"

fun over :: "yaml option \<Rightarrow> yaml \<Rightarrow> yaml" where
  "over (Some (Mapping b)) (Mapping o') = Mapping (MergeMaps b o')"
| "over b v = v"

lemma MergeMaps_Cons: "MergeMaps b ((k, v) # o') = MergeMaps (AList.update k (over (map_of b k) v) b) o'"
  by (cases "map_of b k") (auto split: yaml.splits)

lemma MergeMaps_lookup:
  assumes "distinct (map fst o')"
  shows "map_of (MergeMaps b o') k = (case map_of o' k of None \<Rightarrow> map_of b k | Some v \<Rightarrow> Some (over (map_of b k) v))"
  using assms
proof (induction o' arbitrary: b)
  case (Cons p o')
  obtain k' v where p: "p = (k', v)" by fastforce
  have u: "map_of (AList.update k' u b) = (map_of b)(k' \<mapsto> u)" for u
    by (rule update_conv')
  have "map_of o' k' = None" using Cons.prems p by (simp add: map_of_eq_None_iff)
  with Cons p show ?case by (simp add: MergeMaps_Cons u split: option.split del: MergeMaps.simps)
qed simp

text \<open>The order in which Go visits the entries of the overlay does not matter: merging any rearrangement
  of it gives a map with the same entries.\<close>

lemma merge_order_irrelevant:
  assumes "distinct (map fst o')" and "mset o'' = mset o'"
  shows "map_of (MergeMaps b o'') = map_of (MergeMaps b o')"
proof -
  have d: "distinct (map fst o'')" using assms by (metis mset_map mset_eq_imp_distinct_iff)
  have "map_of o'' = map_of o'" using assms(1) assms(2) by (metis d map_of_inject_set mset_eq_setD)
  then show ?thesis by (intro ext) (simp add: MergeMaps_lookup [OF d] MergeMaps_lookup [OF assms(1)])
qed

lemma merge_order_irrelevant_witness:
  "map_of (MergeMaps [(''a'', Scalar ''1'')] [(''b'', Scalar ''2''), (''a'', Scalar ''3'')]) =
   map_of (MergeMaps [(''a'', Scalar ''1'')] [(''a'', Scalar ''3''), (''b'', Scalar ''2'')])"
  by (rule merge_order_irrelevant) simp_all

section \<open>Paths\<close>

text \<open>
  The value at a path of keys, and whether a document says anything at a path: it has a value
  there, or something that is not a map on the way.
\<close>

fun at_path :: "yaml_map \<Rightarrow> string list \<Rightarrow> yaml option" where
  "at_path m [] = None"
| "at_path m [k] = map_of m k"
| "at_path m (k # ks) = (case map_of m k of Some (Mapping m') \<Rightarrow> at_path m' ks | _ \<Rightarrow> None)"

fun says :: "yaml_map \<Rightarrow> string list \<Rightarrow> bool" where
  "says m [] = True"
| "says m [k] = (map_of m k \<noteq> None)"
| "says m (k # ks) = (case map_of m k of None \<Rightarrow> False | Some (Mapping m') \<Rightarrow> says m' ks | Some _ \<Rightarrow> True)"

fun is_mapping :: "yaml \<Rightarrow> bool" where
  "is_mapping (Mapping m) = True"
| "is_mapping v = False"

lemma wf_map_entry: "wf_map m \<Longrightarrow> map_of m k = Some v \<Longrightarrow> wf_yaml v"
  by (auto simp: wf_map_def dest: map_of_SomeD)

lemma wf_Mapping [simp]: "wf_yaml (Mapping m) = wf_map m"
  by (simp add: wf_map_def)

declare wf_yaml.simps(3) [simp del]

lemma MergeMaps_at:
  assumes "wf_map o'"
  shows "map_of (MergeMaps b o') k = (case map_of o' k of None \<Rightarrow> map_of b k | Some v \<Rightarrow> Some (over (map_of b k) v))"
  using assms by (intro MergeMaps_lookup) (simp add: wf_map_def)

lemma over_other: "\<not> is_mapping v \<Longrightarrow> over b v = v"
  by (cases v) auto

lemma over_non_mapping: "\<not> (\<exists>b'. b = Some (Mapping b')) \<Longrightarrow> over b v = v"
  by (cases "(b, v)" rule: over.cases) auto

lemma unsaid_None: "\<not> says m p \<Longrightarrow> at_path m p = None"
  by (induction m p rule: says.induct) (auto split: option.splits yaml.splits)

lemma merge_unsaid:
  assumes "wf_map o'" and "\<not> says o' p"
  shows "at_path (MergeMaps b o') p = at_path b p"
  using assms
proof (induction o' p arbitrary: b rule: says.induct)
  case (2 m k)
  then show ?case by (simp add: MergeMaps_at)
next
  case (3 m k k' ks)
  have l: "map_of (MergeMaps b m) k = (case map_of m k of None \<Rightarrow> map_of b k | Some v \<Rightarrow> Some (over (map_of b k) v))"
    using 3(2) by (simp add: MergeMaps_at)
  show ?case
  proof (cases "map_of m k")
    case None
    with l show ?thesis by simp
  next
    case (Some v)
    with 3(3) obtain m' where v: "v = Mapping m'" by (cases v) auto
    have w: "wf_map m'" using wf_map_entry [OF 3(2) Some] v by simp
    have n: "\<not> says m' (k' # ks)" using 3(3) Some v by simp
    note ih = 3(1) [OF Some v w n]
    show ?thesis
    proof (cases "\<exists>b'. map_of b k = Some (Mapping b')")
      case True
      with ih l Some v show ?thesis by auto
    next
      case False
      then have o: "over (map_of b k) v = v" by (rule over_non_mapping)
      have "at_path m' (k' # ks) = None" using n by (rule unsaid_None)
      with o False l Some v show ?thesis by (auto split: option.splits yaml.splits)
    qed
  qed
qed simp

lemma merge_said:
  assumes "wf_map o'" and "at_path o' p = Some v" and "\<not> is_mapping v"
  shows "at_path (MergeMaps b o') p = Some v"
  using assms(1,2)
proof (induction o' p arbitrary: b rule: at_path.induct)
  case (2 m k)
  with assms(3) show ?case by (simp add: MergeMaps_at over_other)
next
  case (3 m k k' ks)
  from 3(3) obtain m' where m: "map_of m k = Some (Mapping m')" by (auto split: option.splits yaml.splits)
  have w: "wf_map m'" using wf_map_entry [OF 3(2) m] by simp
  have a: "at_path m' (k' # ks) = Some v" using 3(3) m by simp
  have l: "map_of (MergeMaps b m) k = Some (over (map_of b k) (Mapping m'))"
    using 3(2) m by (simp add: MergeMaps_at)
  show ?case
  proof (cases "\<exists>b'. map_of b k = Some (Mapping b')")
    case True
    with 3(1) [OF m refl w a] l show ?thesis by auto
  next
    case False
    then have "over (map_of b k) (Mapping m') = Mapping m'" by (rule over_non_mapping)
    with l a show ?thesis by simp
  qed
qed simp

text \<open>Laying documents over one another: the value at a path is that of the last document that says
  anything there.\<close>

lemma last_layer_wins:
  assumes "\<forall>m \<in> set (m # later). wf_map m" and "at_path m p = Some v" and "\<not> is_mapping v"
    and "\<forall>m' \<in> set later. \<not> says m' p"
  shows "at_path (foldl MergeMaps b (earlier @ m # later)) p = Some v"
  using assms
proof (induction later rule: rev_induct)
  case Nil
  then show ?case by (simp add: merge_said)
next
  case (snoc x later)
  have "foldl MergeMaps b (earlier @ m # later @ [x]) = MergeMaps (foldl MergeMaps b (earlier @ m # later)) x" by simp
  with snoc show ?case by (simp add: merge_unsaid)
qed

lemma last_layer_wins_witness:
  "at_path (foldl MergeMaps [] ([[(''a'', Mapping [(''b'', Scalar ''1''), (''c'', Scalar ''5'')])]] @
      [(''a'', Mapping [(''b'', Scalar ''2'')])] # [[(''a'', Mapping [(''d'', Scalar ''3'')])]])) [''a'', ''b''] = Some (Scalar ''2'')"
  by (rule last_layer_wins) (simp_all add: wf_map_def)

end
