(* ===== verification/Go_Scan.thy ===== *)
theory Go_Scan imports Go_Strings Semver begin

text \<open>
  \<open>fmt.Sscan\<close> into an \<open>int32\<close>, as far as the conversion of install arguments uses it: blanks are
  skipped, then the longest text of a sign, a base prefix and digits of that base is read and given
  to \<open>strconv.ParseInt\<close> with base 0, and a number outside of \<open>int32\<close> is an error.  What follows
  the number is not read.
\<close>

section \<open>Digits\<close>

definition hex_val :: "char \<Rightarrow> int" where
  "hex_val c = (let n = of_char c :: int in
     if 48 \<le> n \<and> n \<le> 57 then n - 48
     else if 97 \<le> n \<and> n \<le> 122 then n - 87
     else if 65 \<le> n \<and> n \<le> 90 then n - 55
     else 36)"

definition digit_of :: "int \<Rightarrow> char \<Rightarrow> bool" where
  "digit_of base c \<longleftrightarrow> hex_val c < base \<or> c = CHR ''_''"

text \<open>\<open>scanBasePrefix\<close>: what it consumes, the base of the digits that follow, and whether a zero was found.\<close>

definition scan_base_prefix :: "string \<Rightarrow> string \<times> int \<times> bool" where
  "scan_base_prefix s = (case s of
       CHR ''0'' # c # r \<Rightarrow>
         (if c \<in> set ''bB'' then ([CHR ''0'', c], 2, True)
          else if c \<in> set ''oO'' then ([CHR ''0'', c], 8, True)
          else if c \<in> set ''xX'' then ([CHR ''0'', c], 16, True)
          else (''0'', 8, True))
     | CHR ''0'' # [] \<Rightarrow> (''0'', 8, True)
     | _ \<Rightarrow> ([], 10, False))"

section \<open>ParseInt with base 0\<close>

text \<open>\<open>underscoreOK\<close> after the sign and the base prefix: \<open>saw\<close> is the last kind of character seen.\<close>

datatype saw = SawStart | SawDigit | SawUnderscore | SawOther

fun underscore_ok :: "bool \<Rightarrow> saw \<Rightarrow> string \<Rightarrow> bool" where
  "underscore_ok hex saw [] \<longleftrightarrow> saw \<noteq> SawUnderscore"
| "underscore_ok hex saw (c # s) \<longleftrightarrow>
     (if is_digit c \<or> hex \<and> hex_val c < 16 then underscore_ok hex SawDigit s
      else if c = CHR ''_'' then saw = SawDigit \<and> underscore_ok hex SawUnderscore s
      else saw \<noteq> SawUnderscore \<and> underscore_ok hex SawOther s)"

definition base_and_digits :: "string \<Rightarrow> int \<times> string" where
  "base_and_digits s = (case s of
       CHR ''0'' # r \<Rightarrow>
         (if length s \<ge> 3 \<and> s ! 1 \<in> set ''bB'' then (2, drop 2 s)
          else if length s \<ge> 3 \<and> s ! 1 \<in> set ''oO'' then (8, drop 2 s)
          else if length s \<ge> 3 \<and> s ! 1 \<in> set ''xX'' then (16, drop 2 s)
          else (8, r))
     | _ \<Rightarrow> (10, s))"

definition ParseUint0 :: "string \<Rightarrow> int option" where
  "ParseUint0 s =
     (if s = [] then None
      else (let (base, ds) = base_and_digits s;
                prefixed = length s \<ge> 2 \<and> hd s = CHR ''0'' \<and> s ! 1 \<in> set ''bBoOxX'';
                digits = filter (\<lambda>c. c \<noteq> CHR ''_'') ds
            in if \<not> list_all (\<lambda>c. hex_val c < base) digits then None
               else if CHR ''_'' \<in> set ds \<and>
                 \<not> underscore_ok (prefixed \<and> s ! 1 \<in> set ''xX'') (if prefixed then SawDigit else SawStart)
                     (if prefixed then drop 2 s else s)
               then None
               else Some (foldl (\<lambda>n c. n * base + hex_val c) 0 digits)))"

definition Sscan_int32 :: "string \<Rightarrow> int option" where
  "Sscan_int32 text =
     (let s = dropWhile is_space text;
          neg = (s \<noteq> [] \<and> hd s = CHR ''-'');
          s1 = (if s \<noteq> [] \<and> hd s \<in> set ''+-'' then tl s else s);
          (prefix, base, found) = scan_base_prefix s1;
          digits = takeWhile (digit_of base) (drop (length prefix) s1)
      in if s1 = [] then None
         else if \<not> found \<and> digits = [] then None
         else (case ParseUint0 (prefix @ digits) of
             None \<Rightarrow> None
           | Some n \<Rightarrow> (let i = (if neg then - n else n) in
               if - (2 ^ 31) \<le> i \<and> i < 2 ^ 31 then Some i else None)))"

lemma Sscan_int32_range: "Sscan_int32 s = Some i \<Longrightarrow> - (2 ^ 31) \<le> i \<and> i < 2 ^ 31"
  by (auto simp: Sscan_int32_def Let_def split: prod.splits if_splits option.splits)

lemma Sscan_examples:
  "Sscan_int32 '' 12 rest'' = Some 12" "Sscan_int32 ''-3'' = Some (- 3)" "Sscan_int32 ''0x1F'' = Some 31"
  "Sscan_int32 ''012'' = Some 10" "Sscan_int32 ''1_000'' = Some 1000" "Sscan_int32 ''08'' = Some 0"
  "Sscan_int32 ''1__0'' = None" "Sscan_int32 ''abc'' = None" "Sscan_int32 ''2147483648'' = None"
  by code_simp+

end
