(* ===== verification/Conversion.thy ===== *)
theory Conversion imports Enabled Yaml_Ops Go_Scan begin

text \<open>
  The conversion between the two API versions of the resource
  (\<open>platform-operator/apis/verrazzano/v1alpha1/convert_to.go\<close>, \<open>convert_from.go\<close> and
  \<open>convert_istio_to.go\<close>).  \<open>v1beta1\<close> is the version that is stored; it has no install arguments
  and no deployment settings, which become value overrides.  JSON and YAML codecs, the merge of
  JSON values, the patch of an Istio document and Kubernetes quantities are libraries
  (\<open>convert_lib\<close>).  \<open>Range\<close> is the order in which a \<open>range\<close> over a map visits its values, which Go
  leaves open.
\<close>

section \<open>Surroundings\<close>

record convert_lib =
  Codec :: yaml_codec
  ToJSON :: "string \<Rightarrow> go_error + string"
  MergeJSON :: "string \<Rightarrow> string \<Rightarrow> go_error + string"
  IstioMergePatch :: "string \<Rightarrow> string \<Rightarrow> go_error + string"
  MarshalForeign :: "foreign \<Rightarrow> go_error + string"
  MarshalPorts :: "foreign list \<Rightarrow> go_error + string"
  MemoryRequest :: "string \<Rightarrow> go_error + foreign"
  MasterRole :: string
  DataRole :: string
  IngestRole :: string
  Range :: "opensearch_node list \<Rightarrow> opensearch_node list"

type_synonym install_overrides = "bool option \<times> overrides list"

definition overrides_of :: "'x helm_component_scheme \<Rightarrow> install_overrides" where
  "overrides_of c = (MonitorChanges c, ValueOverrides c)"

definition helm_of :: "bool option \<Rightarrow> install_overrides \<Rightarrow> helm_component" where
  "helm_of e io = \<lparr>Enabled = e, MonitorChanges = fst io, ValueOverrides = snd io\<rparr>"

section \<open>Overrides\<close>

text \<open>The copies are deep: what is done to them does not reach the resource that is converted.\<close>

fun ConvertValueOverridesToV1Beta1 :: "overrides list \<Rightarrow> overrides list" where
  "ConvertValueOverridesToV1Beta1 [] = []"
| "ConvertValueOverridesToV1Beta1 (override # os) =
     \<lparr>ConfigMapRef = ConfigMapRef override, SecretRef = SecretRef override, Values = Values override\<rparr>
       # ConvertValueOverridesToV1Beta1 os"

definition convertInstallOverridesToV1Beta1 :: "install_overrides \<Rightarrow> install_overrides" where
  "convertInstallOverridesToV1Beta1 src = (fst src, ConvertValueOverridesToV1Beta1 (snd src))"

definition createValueOverride :: "convert_lib \<Rightarrow> string \<Rightarrow> go_error + overrides" where
  "createValueOverride L rawYAML = err_bind (ToJSON L rawYAML) (\<lambda>rawJSON.
     Inr \<lparr>ConfigMapRef = None, SecretRef = None, Values = Some rawJSON\<rparr>)"

definition isOverrideValueUnset :: "overrides \<Rightarrow> bool" where
  "isOverrideValueUnset override = (case Values override of None \<Rightarrow> True | Some raw \<Rightarrow> length raw = 0)"

definition emptyOverride :: overrides where
  "emptyOverride = \<lparr>ConfigMapRef = None, SecretRef = None, Values = None\<rparr>"

fun args_yamls :: "install_args list \<Rightarrow> go_error + string list" where
  "args_yamls [] = Inr []"
| "args_yamls (arg # args) =
     err_bind (if length (argValueList arg) > 0 then Expand 0 True (argName arg) (argValueList arg)
               else Expand 0 False (argName arg) [argValue arg])
       (\<lambda>yamlString. err_bind (args_yamls args) (\<lambda>yamls. Inr (yamlString # yamls)))"

definition convertInstallArgsToYaml :: "convert_lib \<Rightarrow> install_args list \<Rightarrow> go_error + string" where
  "convertInstallArgsToYaml L args = err_bind (args_yamls args) (ReplacementMerge (Codec L))"

text \<open>What the code does with the override made of the arguments: it goes into the first element.\<close>

definition put_first :: "convert_lib \<Rightarrow> overrides \<Rightarrow> overrides list \<Rightarrow> go_error + overrides list" where
  "put_first L override os =
     (if \<not> isOverrideValueUnset override then
        (case os of
           [] \<Rightarrow> Inr [override]
         | o1 # rest \<Rightarrow>
            (if isOverrideValueUnset o1 then Inr (o1\<lparr>Values := Values override\<rparr> # rest)
             else err_bind (MergeJSON L (the (Values override)) (the (Values o1))) (\<lambda>raw.
               Inr (o1\<lparr>Values := Some raw\<rparr> # rest))))
      else Inr os)"

definition ConvertInstallOverridesWithArgsToV1Beta1 ::
  "convert_lib \<Rightarrow> install_args list \<Rightarrow> install_overrides \<Rightarrow> go_error + install_overrides" where
  "ConvertInstallOverridesWithArgsToV1Beta1 L args overrides =
     (let convertedOverrides = convertInstallOverridesToV1Beta1 overrides in
      err_bind (if length args > 0
                then err_bind (convertInstallArgsToYaml L args) (createValueOverride L)
                else Inr emptyOverride)
        (\<lambda>override. err_bind (put_first L override (snd convertedOverrides))
          (\<lambda>os. Inr (fst convertedOverrides, os))))"

definition convertCommonKubernetesToYaml :: "convert_lib \<Rightarrow> common_kubernetes \<Rightarrow> go_error + string" where
  "convertCommonKubernetesToYaml L src =
     err_bind (Expand 0 False ''replicas'' [show_nat (Replicas src)]) (\<lambda>replicaYaml.
     case Affinity src of
       None \<Rightarrow> ReplacementMerge (Codec L) [replicaYaml]
     | Some affinity \<Rightarrow> err_bind (MarshalForeign L affinity) (\<lambda>affinityBytes.
         err_bind (Expand 0 False ''affinity'' [affinityBytes]) (\<lambda>affinityYaml.
           ReplacementMerge (Codec L) [replicaYaml, affinityYaml])))"

section \<open>Sections with a flag and overrides only\<close>

definition plain_to :: "helm_component option \<Rightarrow> helm_component option" where
  "plain_to src = (case src of
       None \<Rightarrow> None
     | Some c \<Rightarrow> Some (helm_of (Enabled c) (convertInstallOverridesToV1Beta1 (overrides_of c))))"

definition convertCoherenceOperatorToV1Beta1 :: "helm_component option \<Rightarrow> helm_component option" where
  "convertCoherenceOperatorToV1Beta1 = plain_to"

definition convertApplicationOperatorToV1Beta1 :: "helm_component option \<Rightarrow> helm_component option" where
  "convertApplicationOperatorToV1Beta1 = plain_to"

definition convertOAMToV1Beta1 :: "helm_component option \<Rightarrow> helm_component option" where
  "convertOAMToV1Beta1 = plain_to"

definition convertConsoleToV1Beta1 :: "helm_component option \<Rightarrow> helm_component option" where
  "convertConsoleToV1Beta1 = plain_to"

definition convertFluentOperatorToV1Beta1 :: "helm_component option \<Rightarrow> helm_component option" where
  "convertFluentOperatorToV1Beta1 = plain_to"

definition convertFluentbitOpensearchOutputToV1Beta1 :: "helm_component option \<Rightarrow> helm_component option" where
  "convertFluentbitOpensearchOutputToV1Beta1 = plain_to"

definition ConvertCertManagerWebhookOCIToV1Beta1 :: "helm_component option \<Rightarrow> helm_component option" where
  "ConvertCertManagerWebhookOCIToV1Beta1 = plain_to"

definition convertJaegerOperatorToV1Beta1 :: "helm_component option \<Rightarrow> helm_component option" where
  "convertJaegerOperatorToV1Beta1 = plain_to"

definition convertKialiToV1Beta1 :: "helm_component option \<Rightarrow> helm_component option" where
  "convertKialiToV1Beta1 = plain_to"

definition convertMySQLOperatorToV1Beta1 :: "helm_component option \<Rightarrow> helm_component option" where
  "convertMySQLOperatorToV1Beta1 = plain_to"

definition convertKubeStateMetricsToV1Beta1 :: "helm_component option \<Rightarrow> helm_component option" where
  "convertKubeStateMetricsToV1Beta1 = plain_to"

definition convertPrometheusAdapterToV1Beta1 :: "helm_component option \<Rightarrow> helm_component option" where
  "convertPrometheusAdapterToV1Beta1 = plain_to"

definition convertPrometheusNodeExporterToV1Beta1 :: "helm_component option \<Rightarrow> helm_component option" where
  "convertPrometheusNodeExporterToV1Beta1 = plain_to"

definition convertPrometheusOperatorToV1Beta1 :: "helm_component option \<Rightarrow> helm_component option" where
  "convertPrometheusOperatorToV1Beta1 = plain_to"

definition convertPrometheusPushGatewayToV1Beta1 :: "helm_component option \<Rightarrow> helm_component option" where
  "convertPrometheusPushGatewayToV1Beta1 = plain_to"

definition convertRancherBackupToV1Beta1 :: "helm_component option \<Rightarrow> helm_component option" where
  "convertRancherBackupToV1Beta1 = plain_to"

definition convertClusterAPIToV1Beta1 :: "helm_component option \<Rightarrow> helm_component option" where
  "convertClusterAPIToV1Beta1 = plain_to"

definition convertClusterAgentToV1Beta1 :: "helm_component option \<Rightarrow> helm_component option" where
  "convertClusterAgentToV1Beta1 = plain_to"

definition convertWeblogicOperatorToV1Beta1 :: "helm_component option \<Rightarrow> helm_component option" where
  "convertWeblogicOperatorToV1Beta1 = plain_to"

definition convertVeleroToV1Beta1 :: "helm_component option \<Rightarrow> helm_component option" where
  "convertVeleroToV1Beta1 = plain_to"

definition convertArgoCDToV1Beta1 :: "helm_component option \<Rightarrow> helm_component option" where
  "convertArgoCDToV1Beta1 = plain_to"

definition convertClusterOperatorToV1Beta1 :: "helm_component option \<Rightarrow> helm_component option" where
  "convertClusterOperatorToV1Beta1 = plain_to"

definition convertThanosToV1Beta1 :: "helm_component option \<Rightarrow> helm_component option" where
  "convertThanosToV1Beta1 = plain_to"

section \<open>Issuers, certificates and DNS\<close>

definition convertIssuerConfig :: "lets_encrypt_issuer option \<times> ca_issuer option \<Rightarrow> lets_encrypt_issuer option \<times> ca_issuer option" where
  "convertIssuerConfig src =
     (case fst src of None \<Rightarrow> None | Some le \<Rightarrow> Some \<lparr>EmailAddress = EmailAddress le, Environment = Environment le\<rparr>,
      case snd src of None \<Rightarrow> None | Some ca \<Rightarrow> Some \<lparr>SecretName = SecretName ca\<rparr>)"

definition ConvertClusterIssuerToV1Beta1 :: "cluster_issuer_component option \<Rightarrow> cluster_issuer_component option" where
  "ConvertClusterIssuerToV1Beta1 src = (case src of
       None \<Rightarrow> None
     | Some c \<Rightarrow> (case convertIssuerConfig (LetsEncrypt c, CA c) of
           (le, ca) \<Rightarrow> Some \<lparr>Enabled = Enabled c, ClusterResourceNamespace = ClusterResourceNamespace c,
             LetsEncrypt = le, CA = ca\<rparr>))"

definition convertCertificateToV1Beta1 :: "certificate \<Rightarrow> certificate" where
  "convertCertificateToV1Beta1 c =
     \<lparr>certAcme = \<lparr>acmeEmailAddress = acmeEmailAddress (certAcme c), acmeEnvironment = acmeEnvironment (certAcme c),
        acmeProvider = acmeProvider (certAcme c)\<rparr>,
      certCA = \<lparr>caClusterResourceNamespace = caClusterResourceNamespace (certCA c), caSecretName = caSecretName (certCA c)\<rparr>\<rparr>"

definition ConvertCertManagerToV1Beta1 :: "certmanager_component option \<Rightarrow> certmanager_component option" where
  "ConvertCertManagerToV1Beta1 src = (case src of
       None \<Rightarrow> None
     | Some c \<Rightarrow> (case convertInstallOverridesToV1Beta1 (overrides_of c) of
           (m, os) \<Rightarrow> Some \<lparr>Enabled = Enabled c, MonitorChanges = m, ValueOverrides = os,
             Certificate = convertCertificateToV1Beta1 (Certificate c)\<rparr>))"

definition convertOCIDNSToV1Beta1 :: "oci_dns option \<Rightarrow> oci_dns option" where
  "convertOCIDNSToV1Beta1 oci = (case oci of
       None \<Rightarrow> None
     | Some c \<Rightarrow> Some \<lparr>DNSScope = DNSScope c, DNSZoneCompartmentOCID = DNSZoneCompartmentOCID c,
         DNSZoneOCID = DNSZoneOCID c, DNSZoneName = DNSZoneName c, OCIConfigSecret = OCIConfigSecret c\<rparr>)"

text \<open>\<open>External\<close> and \<open>Wildcard\<close> are structs of one string.\<close>

definition convertExternalDNSToV1Beta1 :: "string option \<Rightarrow> string option" where
  "convertExternalDNSToV1Beta1 external = (case external of None \<Rightarrow> None | Some suffix \<Rightarrow> Some suffix)"

definition convertWildcardDNSToV1Beta1 :: "string option \<Rightarrow> string option" where
  "convertWildcardDNSToV1Beta1 wildcard = (case wildcard of None \<Rightarrow> None | Some domain \<Rightarrow> Some domain)"

definition convertDNSToV1Beta1 :: "dns_component option \<Rightarrow> dns_component option" where
  "convertDNSToV1Beta1 src = (case src of
       None \<Rightarrow> None
     | Some c \<Rightarrow> (case convertInstallOverridesToV1Beta1 (dnsMonitorChanges c, dnsValueOverrides c) of
           (m, os) \<Rightarrow> Some \<lparr>dnsExternalSuffix = convertExternalDNSToV1Beta1 (dnsExternalSuffix c), dnsMonitorChanges = m,
             dnsValueOverrides = os, OCI = convertOCIDNSToV1Beta1 (OCI c),
             dnsWildcardDomain = convertWildcardDNSToV1Beta1 (dnsWildcardDomain c)\<rparr>))"

section \<open>OpenSearch\<close>

text \<open>The three nodes that install arguments can describe; storage and memory of a node start unset.\<close>

definition role_node :: "string \<Rightarrow> string \<Rightarrow> opensearch_node" where
  "role_node n role = \<lparr>nodeName = n, nodeReplicas = Some 0, nodeResources = None, nodeRoles = [role],
     nodeStorage = None, nodeJavaOpts = []\<rparr>"

definition setIntValue :: "opensearch_node \<Rightarrow> string \<Rightarrow> go_error + opensearch_node" where
  "setIntValue node v = (case Sscan_int32 v of
       None \<Rightarrow> Inl (PlainErr ''expected integer'')
     | Some intVal \<Rightarrow> Inr (node\<lparr>nodeReplicas := Some intVal\<rparr>))"

definition setMemory :: "convert_lib \<Rightarrow> opensearch_node \<Rightarrow> string \<Rightarrow> go_error + opensearch_node" where
  "setMemory L node memory = err_bind (MemoryRequest L memory) (\<lambda>q. Inr (node\<lparr>nodeResources := Some q\<rparr>))"

record role_nodes =
  masterNode :: opensearch_node
  dataNode :: opensearch_node
  ingestNode :: opensearch_node

definition node_arg :: "convert_lib \<Rightarrow> install_args \<Rightarrow> role_nodes \<Rightarrow> go_error + role_nodes" where
  "node_arg L arg ns =
     (let on_master = (\<lambda>r. err_bind r (\<lambda>n. Inr (ns\<lparr>masterNode := n\<rparr>)));
          on_data = (\<lambda>r. err_bind r (\<lambda>n. Inr (ns\<lparr>dataNode := n\<rparr>)));
          on_ingest = (\<lambda>r. err_bind r (\<lambda>n. Inr (ns\<lparr>ingestNode := n\<rparr>)))
      in if argName arg = ''nodes.master.replicas'' then on_master (setIntValue (masterNode ns) (argValue arg))
         else if argName arg = ''nodes.master.requests.memory'' then on_master (setMemory L (masterNode ns) (argValue arg))
         else if argName arg = ''nodes.master.requests.storage'' then
           on_master (Inr ((masterNode ns)\<lparr>nodeStorage := Some (argValue arg)\<rparr>))
         else if argName arg = ''nodes.data.replicas'' then on_data (setIntValue (dataNode ns) (argValue arg))
         else if argName arg = ''nodes.data.requests.memory'' then on_data (setMemory L (dataNode ns) (argValue arg))
         else if argName arg = ''nodes.data.requests.storage'' then
           on_data (Inr ((dataNode ns)\<lparr>nodeStorage := Some (argValue arg)\<rparr>))
         else if argName arg = ''nodes.ingest.replicas'' then on_ingest (setIntValue (ingestNode ns) (argValue arg))
         else if argName arg = ''nodes.ingest.requests.memory'' then on_ingest (setMemory L (ingestNode ns) (argValue arg))
         else Inr ns)"

fun node_args :: "convert_lib \<Rightarrow> install_args list \<Rightarrow> role_nodes \<Rightarrow> go_error + role_nodes" where
  "node_args L [] ns = Inr ns"
| "node_args L (arg # args) ns = err_bind (node_arg L arg ns) (node_args L args)"

text \<open>The map of the nodes with replicas, as the list of its values; their names are distinct.\<close>

definition addNode :: "opensearch_node \<Rightarrow> opensearch_node list" where
  "addNode node = (case nodeReplicas node of Some r \<Rightarrow> if r > 0 then [node] else [] | None \<Rightarrow> [])"

definition convertInstallArgsToOSNodes :: "convert_lib \<Rightarrow> install_args list \<Rightarrow> go_error + opensearch_node list" where
  "convertInstallArgsToOSNodes L args =
     err_bind (node_args L args \<lparr>masterNode = role_node ''es-master'' (MasterRole L), dataNode = role_node ''es-data'' (DataRole L),
         ingestNode = role_node ''es-ingest'' (IngestRole L)\<rparr>)
       (\<lambda>ns. Inr (addNode (masterNode ns) @ addNode (dataNode ns) @ addNode (ingestNode ns)))"

text \<open>The roles of a node made of arguments are never nil.\<close>

definition mergeOpenSearchNodes :: "opensearch_node \<Rightarrow> opensearch_node \<Rightarrow> opensearch_node" where
  "mergeOpenSearchNodes src dst =
     (let d1 = dst\<lparr>nodeRoles := nodeRoles src\<rparr>;
          d2 = (if nodeStorage src \<noteq> None then d1\<lparr>nodeStorage := nodeStorage src\<rparr> else d1);
          d3 = (case nodeReplicas src of Some r \<Rightarrow> if r > 0 then d2\<lparr>nodeReplicas := nodeReplicas src\<rparr> else d2 | None \<Rightarrow> d2)
      in if nodeResources src \<noteq> None then d3\<lparr>nodeResources := nodeResources src\<rparr> else d3)"

definition copy_node :: "opensearch_node \<Rightarrow> opensearch_node" where
  "copy_node n = \<lparr>nodeName = nodeName n, nodeReplicas = nodeReplicas n, nodeResources = nodeResources n, nodeRoles = nodeRoles n,
     nodeStorage = (case nodeStorage n of None \<Rightarrow> None | Some sz \<Rightarrow> Some sz), nodeJavaOpts = nodeJavaOpts n\<rparr>"

text \<open>The loop over the nodes of the resource: what it wrote and what is left of the map.\<close>

fun nodes_loop :: "opensearch_node list \<Rightarrow> opensearch_node list \<Rightarrow> opensearch_node list \<times> opensearch_node list" where
  "nodes_loop [] installArgNodes = ([], installArgNodes)"
| "nodes_loop (inNode # nodes) installArgNodes =
     (let dst = copy_node inNode;
          (d, left) = (case find (\<lambda>n. nodeName n = nodeName dst) installArgNodes of
              Some src \<Rightarrow> (mergeOpenSearchNodes src dst, filter (\<lambda>n. nodeName n \<noteq> nodeName src) installArgNodes)
            | None \<Rightarrow> (dst, installArgNodes));
          (out, rest) = nodes_loop nodes left
      in (d # out, rest))"

definition convertOSNodesToV1Beta1 ::
  "convert_lib \<Rightarrow> install_args list \<Rightarrow> opensearch_node list \<Rightarrow> go_error + opensearch_node list" where
  "convertOSNodesToV1Beta1 L args nodes = err_bind (convertInstallArgsToOSNodes L args) (\<lambda>installArgNodes.
     case nodes_loop nodes installArgNodes of (out, rest) \<Rightarrow> Inr (out @ Range L rest))"

definition convertOpenSearchToV1Beta1 :: "convert_lib \<Rightarrow> elasticsearch_component option \<Rightarrow> go_error + opensearch_component option" where
  "convertOpenSearchToV1Beta1 L src = (case src of
       None \<Rightarrow> Inr None
     | Some c \<Rightarrow> err_bind (convertOSNodesToV1Beta1 L (ESInstallArgs c) (Nodes c)) (\<lambda>nodes.
         Inr (Some \<lparr>Enabled = Enabled c, Nodes = nodes, Policies = Policies c, Plugins = Plugins c,
           DisableDefaultPolicy = DisableDefaultPolicy c\<rparr>)))"

definition convertOSDToV1Beta1 :: "dashboards_component option \<Rightarrow> dashboards_component option" where
  "convertOSDToV1Beta1 src = (case src of
       None \<Rightarrow> None
     | Some c \<Rightarrow> Some \<lparr>Enabled = Enabled c, dashboardsReplicas = dashboardsReplicas c, dashboardsPlugins = dashboardsPlugins c\<rparr>)"

section \<open>Fluentd, Grafana, Prometheus and Rancher\<close>

fun convertVolumeMountsToV1Beta1 :: "volume_mount list \<Rightarrow> volume_mount list" where
  "convertVolumeMountsToV1Beta1 [] = []"
| "convertVolumeMountsToV1Beta1 (m # mounts) =
     \<lparr>Destination = Destination m, ReadOnly = ReadOnly m, Source = Source m\<rparr> # convertVolumeMountsToV1Beta1 mounts"

definition convertOCILoggingConfigurationToV1Beta1 :: "oci_logging option \<Rightarrow> oci_logging option" where
  "convertOCILoggingConfigurationToV1Beta1 oci = (case oci of
       None \<Rightarrow> None
     | Some c \<Rightarrow> Some \<lparr>APISecret = APISecret c, DefaultAppLogID = DefaultAppLogID c, SystemLogID = SystemLogID c\<rparr>)"

definition convertFluentdToV1Beta1 :: "fluentd_component option \<Rightarrow> fluentd_component option" where
  "convertFluentdToV1Beta1 src = (case src of
       None \<Rightarrow> None
     | Some c \<Rightarrow> (case convertInstallOverridesToV1Beta1 (overrides_of c) of
           (m, os) \<Rightarrow> Some \<lparr>Enabled = Enabled c, MonitorChanges = m, ValueOverrides = os, fluentdSecret = fluentdSecret c,
             fluentdURL = fluentdURL c, ExtraVolumeMounts = convertVolumeMountsToV1Beta1 (ExtraVolumeMounts c),
             fluentdOCI = convertOCILoggingConfigurationToV1Beta1 (fluentdOCI c)\<rparr>))"

definition convertGrafanaToV1Beta1 :: "grafana_component option \<Rightarrow> grafana_component option" where
  "convertGrafanaToV1Beta1 src = (case src of
       None \<Rightarrow> None
     | Some c \<Rightarrow> (let info = (case Database c of None \<Rightarrow> None | Some d \<Rightarrow> Some \<lparr>dbHost = dbHost d, dbName = dbName d\<rparr>)
         in Some \<lparr>Enabled = Enabled c, Database = info, grafanaReplicas = grafanaReplicas c, SMTP = SMTP c\<rparr>))"

definition convertPrometheusToV1Beta1 :: "enabled_component option \<Rightarrow> enabled_component option" where
  "convertPrometheusToV1Beta1 src = (case src of None \<Rightarrow> None | Some c \<Rightarrow> Some \<lparr>Enabled = Enabled c\<rparr>)"

definition convertRancherToV1Beta1 :: "rancher_component option \<Rightarrow> rancher_component option" where
  "convertRancherToV1Beta1 src = (case src of
       None \<Rightarrow> None
     | Some c \<Rightarrow> (case convertInstallOverridesToV1Beta1 (overrides_of c) of
           (m, os) \<Rightarrow> Some \<lparr>Enabled = Enabled c, MonitorChanges = m, ValueOverrides = os,
             KeycloakAuthEnabled = KeycloakAuthEnabled c\<rparr>))"

section \<open>Istio\<close>

record istio_template_data =
  IngressKubernetes :: bool
  EgressKubernetes :: bool
  IngressReplicaCount :: nat
  EgressReplicaCount :: nat
  IngressAffinity :: string
  EgressAffinity :: string
  IngressServiceType :: string
  IngressServicePorts :: string
  ExternalIps :: string

text \<open>\<open>multiLineIndent\<close>: every piece that \<open>strings.SplitAfter\<close> makes, the empty last one included.\<close>

definition multiLineIndent :: "nat \<Rightarrow> string \<Rightarrow> string" where
  "multiLineIndent indentNum aff =
     str_join [CHR 0x0A] (map (\<lambda>line. spaces indentNum @ line) (split_on CHR 0x0A aff))"

definition ln :: "string \<Rightarrow> string" where
  "ln s = CHR 0x0A # s"

text \<open>
  \<open>istioGatewayTemplate\<close> as it renders: \<open>{{-\<close> takes the blanks before it away, so every line of the
  output starts with its line feed.
\<close>

definition egress_text :: "istio_template_data \<Rightarrow> string" where
  "egress_text d =
     ln ''    egressGateways:'' @ ln ''      - name: istio-egressgateway'' @ ln ''        enabled: true'' @
     (if IngressReplicaCount d > 0 \<or> EgressAffinity d \<noteq> [] then
        ln ''        k8s:'' @
        (if IngressReplicaCount d > 0 then ln ''          replicaCount: '' @ show_nat (EgressReplicaCount d) else []) @
        (if EgressAffinity d \<noteq> [] then ln ''          affinity:'' @ ln (multiLineIndent 12 (EgressAffinity d)) else [])
      else [])"

definition ingress_text :: "istio_template_data \<Rightarrow> string" where
  "ingress_text d =
     ln ''    ingressGateways:'' @ ln ''      - name: istio-ingressgateway'' @ ln ''        enabled: true'' @ ln ''        k8s:'' @
     (if IngressReplicaCount d > 0 then ln ''          replicaCount: '' @ show_nat (IngressReplicaCount d) else []) @
     ln ''          service:'' @ ln ''            type: '' @ IngressServiceType d @
     (if IngressServicePorts d \<noteq> [] then ln ''            ports:'' @ ln (multiLineIndent 12 (IngressServicePorts d)) else []) @
     (if ExternalIps d \<noteq> [] then ln ''            externalIPs:'' @ ln (ExternalIps d) else []) @
     (if IngressAffinity d \<noteq> [] then ln ''          affinity:'' @ ln (multiLineIndent 12 (IngressAffinity d)) else [])"

definition render_gateways :: "istio_template_data \<Rightarrow> string" where
  "render_gateways d =
     ln ''apiVersion: install.istio.io/v1alpha1'' @ ln ''kind: IstioOperator'' @ ln ''spec:'' @
     (if IngressKubernetes d \<or> EgressKubernetes d then
        ln ''  components:'' @ (if EgressKubernetes d then egress_text d else []) @
        (if IngressKubernetes d then ingress_text d else []) @ ln []
      else ln '' {}'') @ ln []"

definition affinity_text :: "convert_lib \<Rightarrow> common_kubernetes \<Rightarrow> go_error + string" where
  "affinity_text L k = (case Affinity k of None \<Rightarrow> Inr [] | Some a \<Rightarrow> MarshalForeign L a)"

definition configureIngressGateway ::
  "convert_lib \<Rightarrow> alpha_istio_component \<Rightarrow> istio_template_data \<Rightarrow> go_error + istio_template_data" where
  "configureIngressGateway L c d0 = (case istioIngress c of
       None \<Rightarrow> Inr d0
     | Some ingress \<Rightarrow>
         err_bind (case istioIngressKubernetes ingress of
             None \<Rightarrow> Inr d0
           | Some k \<Rightarrow> err_bind (affinity_text L k) (\<lambda>yml.
               Inr (d0\<lparr>IngressKubernetes := True, IngressReplicaCount := Replicas k, IngressAffinity := yml\<rparr>)))
           (\<lambda>d1. let d2 = (if istioIngressType ingress = ''NodePort'' then d1\<lparr>IngressServiceType := ''NodePort''\<rparr> else d1) in
             if length (istioIngressPorts ingress) > 0
             then err_bind (MarshalPorts L (istioIngressPorts ingress)) (\<lambda>y. Inr (d2\<lparr>IngressServicePorts := y\<rparr>))
             else Inr d2))"

definition configureEgressGateway ::
  "convert_lib \<Rightarrow> alpha_istio_component \<Rightarrow> istio_template_data \<Rightarrow> go_error + istio_template_data" where
  "configureEgressGateway L c d0 = (case istioEgress c of
       None \<Rightarrow> Inr d0
     | Some egress \<Rightarrow> (case istioEgressKubernetes egress of
           None \<Rightarrow> Inr d0
         | Some k \<Rightarrow> err_bind (affinity_text L k) (\<lambda>yml.
             Inr (d0\<lparr>EgressKubernetes := True, EgressReplicaCount := Replicas k, EgressAffinity := yml\<rparr>))))"

definition start_data :: istio_template_data where
  "start_data = \<lparr>IngressKubernetes = False, EgressKubernetes = False, IngressReplicaCount = 0, EgressReplicaCount = 0,
     IngressAffinity = [], EgressAffinity = [], IngressServiceType = ''LoadBalancer'', IngressServicePorts = [],
     ExternalIps = []\<rparr>"

definition configureGateways :: "convert_lib \<Rightarrow> alpha_istio_component \<Rightarrow> string \<Rightarrow> go_error + string" where
  "configureGateways L c externalIP =
     err_bind (configureIngressGateway L c start_data) (\<lambda>d1. err_bind (configureEgressGateway L c d1) (\<lambda>d2.
       let d3 = d2\<lparr>ExternalIps := externalIP\<rparr>;
           d4 = d3\<lparr>IngressKubernetes := IngressKubernetes d3 \<or> ExternalIps d3 \<noteq> [] \<or> IngressServicePorts d3 \<noteq> []\<rparr>
       in Inr (render_gateways d4)))"

text \<open>\<open>strings.SplitN(yaml, "\n", 2)\<close>: what follows the first line.\<close>

definition fixExternalIPYaml :: "string \<Rightarrow> string" where
  "fixExternalIPYaml yaml = (case split_on CHR 0x0A yaml of [] \<Rightarrow> [] | x # xs \<Rightarrow> str_join [CHR 0x0A] xs)"

definition addYAML :: "string \<Rightarrow> string list \<Rightarrow> string list \<Rightarrow> go_error + string list" where
  "addYAML n values expandedYamls = err_bind (Expand 0 False (''spec.values.'' @ n) values) (\<lambda>yamlString.
     Inr (expandedYamls @ [yamlString]))"

text \<open>The loop over the arguments: the text of the external addresses and the expanded documents.\<close>

fun istio_args :: "install_args list \<Rightarrow> string \<Rightarrow> string list \<Rightarrow> go_error + string \<times> string list" where
  "istio_args [] externalIPYAMLTemplateValue expandedYamls = Inr (externalIPYAMLTemplateValue, expandedYamls)"
| "istio_args (arg # args) externalIPYAMLTemplateValue expandedYamls =
     (let values = (if length (argValueList arg) = 0 then [argValue arg] else argValueList arg) in
      if argName arg = ''gateways.istio-ingressgateway.externalIPs''
      then err_bind (Expand 12 True ''externalIPs'' values) (\<lambda>yamlString. istio_args args yamlString expandedYamls)
      else err_bind (addYAML (argName arg) values expandedYamls) (istio_args args externalIPYAMLTemplateValue))"

definition convertIstioComponentToYaml :: "convert_lib \<Rightarrow> alpha_istio_component \<Rightarrow> go_error + overrides" where
  "convertIstioComponentToYaml L c =
     (if length (IstioInstallArgs c) = 0 \<and> istioIngress c = None \<and> istioEgress c = None then Inr emptyOverride
      else err_bind (istio_args (IstioInstallArgs c) [] []) (\<lambda>(externalIP, expandedYamls).
        err_bind (configureGateways L c (fixExternalIPYaml externalIP)) (\<lambda>gatewayYaml.
        err_bind (ReplacementMerge (Codec L) (gatewayYaml # expandedYamls)) (createValueOverride L))))"

definition mergeIstioOverrides :: "convert_lib \<Rightarrow> overrides \<Rightarrow> overrides list \<Rightarrow> go_error + overrides list" where
  "mergeIstioOverrides L override os =
     (if \<not> isOverrideValueUnset override then
        (if length os < 1 then Inr [override]
         else if isOverrideValueUnset (last os) then Inr (butlast os @ [(last os)\<lparr>Values := Values override\<rparr>])
         else err_bind (IstioMergePatch L (the (Values (last os))) (the (Values override))) (\<lambda>raw.
           Inr (butlast os @ [(last os)\<lparr>Values := Some raw\<rparr>])))
      else Inr os)"

definition ConvertIstioToV1Beta1 :: "convert_lib \<Rightarrow> alpha_istio_component option \<Rightarrow> go_error + istio_component option" where
  "ConvertIstioToV1Beta1 L src = (case src of
       None \<Rightarrow> Inr None
     | Some c \<Rightarrow> err_bind (convertIstioComponentToYaml L c) (\<lambda>override.
         case convertInstallOverridesToV1Beta1 (overrides_of c) of (m, os) \<Rightarrow>
           err_bind (mergeIstioOverrides L override os) (\<lambda>os'.
             Inr (Some \<lparr>Enabled = Enabled c, MonitorChanges = m, ValueOverrides = os', InjectionEnabled = InjectionEnabled c\<rparr>))))"

section \<open>Sections with arguments or settings\<close>

definition convertAuthProxyToV1Beta1 :: "convert_lib \<Rightarrow> authproxy_component option \<Rightarrow> go_error + helm_component option" where
  "convertAuthProxyToV1Beta1 L src = (case src of
       None \<Rightarrow> Inr None
     | Some c \<Rightarrow> (case convertInstallOverridesToV1Beta1 (overrides_of c) of (m, os) \<Rightarrow>
         (case Kubernetes c of
            None \<Rightarrow> Inr (Some (helm_of (Enabled c) (m, os)))
          | Some k \<Rightarrow> err_bind (convertCommonKubernetesToYaml L k) (\<lambda>k8sSpecYaml.
              err_bind (createValueOverride L k8sSpecYaml) (\<lambda>override.
                Inr (Some (helm_of (Enabled c) (m, os @ [override]))))))))"

definition convertIngressNGINXToV1Beta1 :: "convert_lib \<Rightarrow> alpha_ingress_component option \<Rightarrow> go_error + ingress_component option" where
  "convertIngressNGINXToV1Beta1 L src = (case src of
       None \<Rightarrow> Inr None
     | Some c \<Rightarrow> err_bind (ConvertInstallOverridesWithArgsToV1Beta1 L (NGINXInstallArgs c) (overrides_of c)) (\<lambda>(m, os).
         Inr (Some \<lparr>Enabled = Enabled c, MonitorChanges = m, ValueOverrides = os, IngressClassName = IngressClassName c,
           Ports = Ports c, IngressType = IngressType c\<rparr>)))"

definition convertKeycloakToV1Beta1 :: "convert_lib \<Rightarrow> alpha_keycloak_component option \<Rightarrow> go_error + keycloak_component option" where
  "convertKeycloakToV1Beta1 L src = (case src of
       None \<Rightarrow> Inr None
     | Some c \<Rightarrow> err_bind (ConvertInstallOverridesWithArgsToV1Beta1 L (KeycloakInstallArgs c) (overrides_of c)) (\<lambda>(m, os).
         err_bind (ConvertInstallOverridesWithArgsToV1Beta1 L (MySQLInstallArgs c) (MySQLMonitorChanges c, MySQLValueOverrides c))
           (\<lambda>(mysql_m, mysql_os).
         Inr (Some \<lparr>Enabled = Enabled c, MonitorChanges = m, ValueOverrides = os, MySQLMonitorChanges = mysql_m,
           MySQLValueOverrides = mysql_os, MySQLVolumeSource = MySQLVolumeSource c\<rparr>))))"

definition convertVerrazzanoToV1Beta1 :: "convert_lib \<Rightarrow> verrazzano_component option \<Rightarrow> go_error + helm_component option" where
  "convertVerrazzanoToV1Beta1 L src = (case src of
       None \<Rightarrow> Inr None
     | Some c \<Rightarrow> err_bind (ConvertInstallOverridesWithArgsToV1Beta1 L (InstallArgs c) (overrides_of c)) (\<lambda>io.
         Inr (Some (helm_of (Enabled c) io))))"

section \<open>The resource to v1beta1\<close>

fun convertConditionsTo :: "condition list \<Rightarrow> condition list" where
  "convertConditionsTo [] = []"
| "convertConditionsTo (c # cs) = \<lparr>LastTransitionTime = LastTransitionTime c, Message = Message c, CondStatus = CondStatus c,
     CondType = CondType c\<rparr> # convertConditionsTo cs"

definition convertAvailabilityTo :: "component_availability option \<Rightarrow> component_availability option" where
  "convertAvailabilityTo availability = (case availability of None \<Rightarrow> None | Some a \<Rightarrow> Some a)"

text \<open>A nil map and an empty one are not told apart, nor a nil entry and an absent one.\<close>

definition convertComponentStatusMapTo :: "(string \<Rightarrow> comp_status option) \<Rightarrow> string \<Rightarrow> comp_status option" where
  "convertComponentStatusMapTo components component = (case components component of
       None \<Rightarrow> None
     | Some detail \<Rightarrow> Some \<lparr>csAvailable = convertAvailabilityTo (csAvailable detail),
         csConditions = convertConditionsTo (csConditions detail), LastReconciledGeneration = LastReconciledGeneration detail,
         csName = csName detail, ReconcilingGeneration = ReconcilingGeneration detail, csState = csState detail,
         csVersion = csVersion detail\<rparr>)"

definition convertVerrazzanoInstanceTo :: "instance_info option \<Rightarrow> instance_info option" where
  "convertVerrazzanoInstanceTo inst = (case inst of
       None \<Rightarrow> None
     | Some i \<Rightarrow> Some \<lparr>ArgoCDURL = ArgoCDURL i, ConsoleURL = ConsoleURL i, ElasticURL = ElasticURL i, GrafanaURL = GrafanaURL i,
         JaegerURL = JaegerURL i, KeyCloakURL = KeyCloakURL i, KialiURL = KialiURL i, KibanaURL = KibanaURL i,
         PrometheusURL = PrometheusURL i, RancherURL = RancherURL i, ThanosQueryURL = ThanosQueryURL i\<rparr>)"

definition convertSecuritySpecTo :: "security_spec \<Rightarrow> security_spec" where
  "convertSecuritySpecTo sec = \<lparr>AdminSubjects = AdminSubjects sec, MonitorSubjects = MonitorSubjects sec\<rparr>"

fun ConvertVolumeClaimTemplateTo :: "volume_claim_template list \<Rightarrow> volume_claim_template list" where
  "ConvertVolumeClaimTemplateTo [] = []"
| "ConvertVolumeClaimTemplateTo (t # ts) = \<lparr>vctMetadata = vctMetadata t, vctSpec = vctSpec t\<rparr> # ConvertVolumeClaimTemplateTo ts"

definition convertComponentsTo :: "convert_lib \<Rightarrow> alpha_components \<Rightarrow> go_error + beta_components" where
  "convertComponentsTo L src =
     err_bind (convertAuthProxyToV1Beta1 L (AuthProxy src)) (\<lambda>authProxyComponent.
     err_bind (convertOpenSearchToV1Beta1 L (Elasticsearch src)) (\<lambda>opensearchComponent.
     err_bind (convertIngressNGINXToV1Beta1 L (Ingress src)) (\<lambda>ingressComponent.
     err_bind (ConvertIstioToV1Beta1 L (Istio src)) (\<lambda>istioComponent.
     err_bind (convertKeycloakToV1Beta1 L (Keycloak src)) (\<lambda>keycloakComponent.
     err_bind (convertVerrazzanoToV1Beta1 L (Verrazzano src)) (\<lambda>verrazzanoComponent.
     Inr \<lparr>ApplicationOperator = convertApplicationOperatorToV1Beta1 (ApplicationOperator src),
       ArgoCD = convertArgoCDToV1Beta1 (ArgoCD src), AuthProxy = authProxyComponent,
       ClusterAPI = convertClusterAPIToV1Beta1 (ClusterAPI src), ClusterAgent = convertClusterAgentToV1Beta1 (ClusterAgent src),
       ClusterIssuer = ConvertClusterIssuerToV1Beta1 (ClusterIssuer src), CertManager = ConvertCertManagerToV1Beta1 (CertManager src),
       CertManagerWebhookOCI = ConvertCertManagerWebhookOCIToV1Beta1 (CertManagerWebhookOCI src),
       ClusterOperator = convertClusterOperatorToV1Beta1 (ClusterOperator src),
       CoherenceOperator = convertCoherenceOperatorToV1Beta1 (CoherenceOperator src), Console = convertConsoleToV1Beta1 (Console src),
       DNS = convertDNSToV1Beta1 (DNS src), Fluentd = convertFluentdToV1Beta1 (Fluentd src),
       FluentOperator = convertFluentOperatorToV1Beta1 (FluentOperator src),
       FluentbitOpensearchOutput = convertFluentbitOpensearchOutputToV1Beta1 (FluentbitOpensearchOutput src),
       Grafana = convertGrafanaToV1Beta1 (Grafana src), Istio = istioComponent,
       JaegerOperator = convertJaegerOperatorToV1Beta1 (JaegerOperator src), Keycloak = keycloakComponent,
       Kiali = convertKialiToV1Beta1 (Kiali src), KubeStateMetrics = convertKubeStateMetricsToV1Beta1 (KubeStateMetrics src),
       MySQLOperator = convertMySQLOperatorToV1Beta1 (MySQLOperator src), OAM = convertOAMToV1Beta1 (OAM src),
       Prometheus = convertPrometheusToV1Beta1 (Prometheus src),
       PrometheusAdapter = convertPrometheusAdapterToV1Beta1 (PrometheusAdapter src),
       PrometheusNodeExporter = convertPrometheusNodeExporterToV1Beta1 (PrometheusNodeExporter src),
       PrometheusOperator = convertPrometheusOperatorToV1Beta1 (PrometheusOperator src),
       PrometheusPushgateway = convertPrometheusPushGatewayToV1Beta1 (PrometheusPushgateway src),
       Rancher = convertRancherToV1Beta1 (Rancher src), RancherBackup = convertRancherBackupToV1Beta1 (RancherBackup src),
       Thanos = convertThanosToV1Beta1 (Thanos src), Velero = convertVeleroToV1Beta1 (Velero src),
       Verrazzano = verrazzanoComponent, WebLogicOperator = convertWeblogicOperatorToV1Beta1 (WebLogicOperator src),
       OpenSearch = opensearchComponent, OpenSearchDashboards = convertOSDToV1Beta1 (Kibana src),
       IngressNGINX = ingressComponent\<rparr>))))))"

definition convert_status :: "vz_status \<Rightarrow> vz_status" where
  "convert_status st = \<lparr>vzAvailable = vzAvailable st, vzComponents = convertComponentStatusMapTo (vzComponents st),
     vzConditions = convertConditionsTo (vzConditions st), vzState = vzState st,
     VerrazzanoInstance = convertVerrazzanoInstanceTo (VerrazzanoInstance st), vzVersion = vzVersion st\<rparr>"

definition ConvertTo :: "convert_lib \<Rightarrow> verrazzano \<Rightarrow> go_error + verrazzano_v1beta1" where
  "ConvertTo L src = err_bind (convertComponentsTo L (Components src)) (\<lambda>components.
     Inr \<lparr>vzName = vzName src, vzNamespace = vzNamespace src, UID = UID src, Generation = Generation src,
       DeletionTimestamp = DeletionTimestamp src, Finalizers = Finalizers src, Annotations = Annotations src,
       Profile = Profile src, SpecVersion = SpecVersion src, EnvironmentName = EnvironmentName src,
       DefaultVolumeSource = DefaultVolumeSource src,
       VolumeClaimSpecTemplates = ConvertVolumeClaimTemplateTo (VolumeClaimSpecTemplates src),
       Security = convertSecuritySpecTo (Security src), Components = components, Status = convert_status (Status src)\<rparr>)"

section \<open>The resource from v1beta1\<close>

fun convertValueOverridesFromV1Beta1 :: "overrides list \<Rightarrow> overrides list" where
  "convertValueOverridesFromV1Beta1 [] = []"
| "convertValueOverridesFromV1Beta1 (oIn # os) =
     \<lparr>ConfigMapRef = ConfigMapRef oIn, SecretRef = SecretRef oIn, Values = Values oIn\<rparr> # convertValueOverridesFromV1Beta1 os"

definition convertInstallOverridesFromV1Beta1 :: "install_overrides \<Rightarrow> install_overrides" where
  "convertInstallOverridesFromV1Beta1 src = (fst src, convertValueOverridesFromV1Beta1 (snd src))"

definition plain_from :: "helm_component option \<Rightarrow> helm_component option" where
  "plain_from src = (case src of
       None \<Rightarrow> None
     | Some c \<Rightarrow> Some (helm_of (Enabled c) (convertInstallOverridesFromV1Beta1 (overrides_of c))))"

definition convertCoherenceOperatorFromV1Beta1 :: "helm_component option \<Rightarrow> helm_component option" where
  "convertCoherenceOperatorFromV1Beta1 = plain_from"

definition convertApplicationOperatorFromV1Beta1 :: "helm_component option \<Rightarrow> helm_component option" where
  "convertApplicationOperatorFromV1Beta1 = plain_from"

definition convertOAMFromV1Beta1 :: "helm_component option \<Rightarrow> helm_component option" where
  "convertOAMFromV1Beta1 = plain_from"

definition convertConsoleFromV1Beta1 :: "helm_component option \<Rightarrow> helm_component option" where
  "convertConsoleFromV1Beta1 = plain_from"

definition convertFluentOperatorFromV1Beta1 :: "helm_component option \<Rightarrow> helm_component option" where
  "convertFluentOperatorFromV1Beta1 = plain_from"

definition convertFluentbitOpensearchOutputFromV1Beta1 :: "helm_component option \<Rightarrow> helm_component option" where
  "convertFluentbitOpensearchOutputFromV1Beta1 = plain_from"

definition convertCertManagerWebhookOCIFromV1Beta1 :: "helm_component option \<Rightarrow> helm_component option" where
  "convertCertManagerWebhookOCIFromV1Beta1 = plain_from"

definition convertJaegerOperatorFromV1Beta1 :: "helm_component option \<Rightarrow> helm_component option" where
  "convertJaegerOperatorFromV1Beta1 = plain_from"

definition convertKialiFromV1Beta1 :: "helm_component option \<Rightarrow> helm_component option" where
  "convertKialiFromV1Beta1 = plain_from"

definition convertMySQLOperatorFromV1Beta1 :: "helm_component option \<Rightarrow> helm_component option" where
  "convertMySQLOperatorFromV1Beta1 = plain_from"

definition convertKubeStateMetricsFromV1Beta1 :: "helm_component option \<Rightarrow> helm_component option" where
  "convertKubeStateMetricsFromV1Beta1 = plain_from"

definition convertPrometheusAdapterFromV1Beta1 :: "helm_component option \<Rightarrow> helm_component option" where
  "convertPrometheusAdapterFromV1Beta1 = plain_from"

definition convertPrometheusNodeExporterFromV1Beta1 :: "helm_component option \<Rightarrow> helm_component option" where
  "convertPrometheusNodeExporterFromV1Beta1 = plain_from"

definition convertPrometheusOperatorFromV1Beta1 :: "helm_component option \<Rightarrow> helm_component option" where
  "convertPrometheusOperatorFromV1Beta1 = plain_from"

definition convertPrometheusPushGatewayFromV1Beta1 :: "helm_component option \<Rightarrow> helm_component option" where
  "convertPrometheusPushGatewayFromV1Beta1 = plain_from"

definition convertRancherBackupFromV1Beta1 :: "helm_component option \<Rightarrow> helm_component option" where
  "convertRancherBackupFromV1Beta1 = plain_from"

definition convertClusterAPIFromV1Beta1 :: "helm_component option \<Rightarrow> helm_component option" where
  "convertClusterAPIFromV1Beta1 = plain_from"

definition convertClusterAgentFromV1Beta1 :: "helm_component option \<Rightarrow> helm_component option" where
  "convertClusterAgentFromV1Beta1 = plain_from"

definition convertWeblogicOperatorFromV1Beta1 :: "helm_component option \<Rightarrow> helm_component option" where
  "convertWeblogicOperatorFromV1Beta1 = plain_from"

definition convertVeleroFromV1Beta1 :: "helm_component option \<Rightarrow> helm_component option" where
  "convertVeleroFromV1Beta1 = plain_from"

definition convertArgoCDFromV1Beta1 :: "helm_component option \<Rightarrow> helm_component option" where
  "convertArgoCDFromV1Beta1 = plain_from"

definition convertClusterOperatorFromV1Beta1 :: "helm_component option \<Rightarrow> helm_component option" where
  "convertClusterOperatorFromV1Beta1 = plain_from"

definition convertThanosFromV1Beta1 :: "helm_component option \<Rightarrow> helm_component option" where
  "convertThanosFromV1Beta1 = plain_from"

definition convertIssuerConfigFromV1Beta1 :: "lets_encrypt_issuer option \<times> ca_issuer option \<Rightarrow> lets_encrypt_issuer option \<times> ca_issuer option" where
  "convertIssuerConfigFromV1Beta1 src =
     (case fst src of None \<Rightarrow> None | Some le \<Rightarrow> Some \<lparr>EmailAddress = EmailAddress le, Environment = Environment le\<rparr>,
      case snd src of None \<Rightarrow> None | Some ca \<Rightarrow> Some \<lparr>SecretName = SecretName ca\<rparr>)"

definition convertClusterIssuerFromV1Beta1 :: "cluster_issuer_component option \<Rightarrow> cluster_issuer_component option" where
  "convertClusterIssuerFromV1Beta1 src = (case src of
       None \<Rightarrow> None
     | Some c \<Rightarrow> (case convertIssuerConfigFromV1Beta1 (LetsEncrypt c, CA c) of
           (le, ca) \<Rightarrow> Some \<lparr>Enabled = Enabled c, ClusterResourceNamespace = ClusterResourceNamespace c,
             LetsEncrypt = le, CA = ca\<rparr>))"

definition convertCertificateFromV1Beta1 :: "certificate \<Rightarrow> certificate" where
  "convertCertificateFromV1Beta1 c =
     \<lparr>certAcme = \<lparr>acmeEmailAddress = acmeEmailAddress (certAcme c), acmeEnvironment = acmeEnvironment (certAcme c),
        acmeProvider = acmeProvider (certAcme c)\<rparr>,
      certCA = \<lparr>caClusterResourceNamespace = caClusterResourceNamespace (certCA c), caSecretName = caSecretName (certCA c)\<rparr>\<rparr>"

definition convertCertManagerFromV1Beta1 :: "certmanager_component option \<Rightarrow> certmanager_component option" where
  "convertCertManagerFromV1Beta1 src = (case src of
       None \<Rightarrow> None
     | Some c \<Rightarrow> (case convertInstallOverridesFromV1Beta1 (overrides_of c) of
           (m, os) \<Rightarrow> Some \<lparr>Enabled = Enabled c, MonitorChanges = m, ValueOverrides = os,
             Certificate = convertCertificateFromV1Beta1 (Certificate c)\<rparr>))"

definition convertOCIDNSFromV1Beta1 :: "oci_dns option \<Rightarrow> oci_dns option" where
  "convertOCIDNSFromV1Beta1 oci = (case oci of
       None \<Rightarrow> None
     | Some c \<Rightarrow> Some \<lparr>DNSScope = DNSScope c, DNSZoneCompartmentOCID = DNSZoneCompartmentOCID c,
         DNSZoneOCID = DNSZoneOCID c, DNSZoneName = DNSZoneName c, OCIConfigSecret = OCIConfigSecret c\<rparr>)"

definition convertExternalDNSFromV1Beta1 :: "string option \<Rightarrow> string option" where
  "convertExternalDNSFromV1Beta1 external = (case external of None \<Rightarrow> None | Some suffix \<Rightarrow> Some suffix)"

definition convertWildcardDNSFromV1Beta1 :: "string option \<Rightarrow> string option" where
  "convertWildcardDNSFromV1Beta1 wildcard = (case wildcard of None \<Rightarrow> None | Some domain \<Rightarrow> Some domain)"

definition convertDNSFromV1Beta1 :: "dns_component option \<Rightarrow> dns_component option" where
  "convertDNSFromV1Beta1 src = (case src of
       None \<Rightarrow> None
     | Some c \<Rightarrow> (case convertInstallOverridesFromV1Beta1 (dnsMonitorChanges c, dnsValueOverrides c) of
           (m, os) \<Rightarrow> Some \<lparr>dnsExternalSuffix = convertExternalDNSFromV1Beta1 (dnsExternalSuffix c), dnsMonitorChanges = m,
             dnsValueOverrides = os, OCI = convertOCIDNSFromV1Beta1 (OCI c),
             dnsWildcardDomain = convertWildcardDNSFromV1Beta1 (dnsWildcardDomain c)\<rparr>))"

definition convertOSDFromV1Beta1 :: "dashboards_component option \<Rightarrow> dashboards_component option" where
  "convertOSDFromV1Beta1 src = (case src of
       None \<Rightarrow> None
     | Some c \<Rightarrow> Some \<lparr>Enabled = Enabled c, dashboardsReplicas = dashboardsReplicas c, dashboardsPlugins = dashboardsPlugins c\<rparr>)"

fun convertVolumeMountsFromV1Beta1 :: "volume_mount list \<Rightarrow> volume_mount list" where
  "convertVolumeMountsFromV1Beta1 [] = []"
| "convertVolumeMountsFromV1Beta1 (m # mounts) =
     \<lparr>Destination = Destination m, ReadOnly = ReadOnly m, Source = Source m\<rparr> # convertVolumeMountsFromV1Beta1 mounts"

definition convertOCILoggingConfigurationFromV1Beta1 :: "oci_logging option \<Rightarrow> oci_logging option" where
  "convertOCILoggingConfigurationFromV1Beta1 oci = (case oci of
       None \<Rightarrow> None
     | Some c \<Rightarrow> Some \<lparr>APISecret = APISecret c, DefaultAppLogID = DefaultAppLogID c, SystemLogID = SystemLogID c\<rparr>)"

definition convertFluentdFromV1Beta1 :: "fluentd_component option \<Rightarrow> fluentd_component option" where
  "convertFluentdFromV1Beta1 src = (case src of
       None \<Rightarrow> None
     | Some c \<Rightarrow> (case convertInstallOverridesFromV1Beta1 (overrides_of c) of
           (m, os) \<Rightarrow> Some \<lparr>Enabled = Enabled c, MonitorChanges = m, ValueOverrides = os, fluentdSecret = fluentdSecret c,
             fluentdURL = fluentdURL c, ExtraVolumeMounts = convertVolumeMountsFromV1Beta1 (ExtraVolumeMounts c),
             fluentdOCI = convertOCILoggingConfigurationFromV1Beta1 (fluentdOCI c)\<rparr>))"

definition convertGrafanaFromV1Beta1 :: "grafana_component option \<Rightarrow> grafana_component option" where
  "convertGrafanaFromV1Beta1 src = (case src of
       None \<Rightarrow> None
     | Some c \<Rightarrow> (let info = (case Database c of None \<Rightarrow> None | Some d \<Rightarrow> Some \<lparr>dbHost = dbHost d, dbName = dbName d\<rparr>)
         in Some \<lparr>Enabled = Enabled c, Database = info, grafanaReplicas = grafanaReplicas c, SMTP = SMTP c\<rparr>))"

definition convertPrometheusFromV1Beta1 :: "enabled_component option \<Rightarrow> enabled_component option" where
  "convertPrometheusFromV1Beta1 src = (case src of None \<Rightarrow> None | Some c \<Rightarrow> Some \<lparr>Enabled = Enabled c\<rparr>)"

definition convertRancherFromV1Beta1 :: "rancher_component option \<Rightarrow> rancher_component option" where
  "convertRancherFromV1Beta1 src = (case src of
       None \<Rightarrow> None
     | Some c \<Rightarrow> (case convertInstallOverridesFromV1Beta1 (overrides_of c) of
           (m, os) \<Rightarrow> Some \<lparr>Enabled = Enabled c, MonitorChanges = m, ValueOverrides = os,
             KeycloakAuthEnabled = KeycloakAuthEnabled c\<rparr>))"

fun convertConditionsFromV1Beta1 :: "condition list \<Rightarrow> condition list" where
  "convertConditionsFromV1Beta1 [] = []"
| "convertConditionsFromV1Beta1 (c # cs) = \<lparr>LastTransitionTime = LastTransitionTime c, Message = Message c, CondStatus = CondStatus c,
     CondType = CondType c\<rparr> # convertConditionsFromV1Beta1 cs"

definition convertAvailabilityFrom :: "component_availability option \<Rightarrow> component_availability option" where
  "convertAvailabilityFrom availability = (case availability of None \<Rightarrow> None | Some a \<Rightarrow> Some a)"

definition convertComponentStatusMapFromV1Beta1 :: "(string \<Rightarrow> comp_status option) \<Rightarrow> string \<Rightarrow> comp_status option" where
  "convertComponentStatusMapFromV1Beta1 components component = (case components component of
       None \<Rightarrow> None
     | Some detail \<Rightarrow> Some \<lparr>csAvailable = convertAvailabilityFrom (csAvailable detail),
         csConditions = convertConditionsFromV1Beta1 (csConditions detail), LastReconciledGeneration = LastReconciledGeneration detail,
         csName = csName detail, ReconcilingGeneration = ReconcilingGeneration detail, csState = csState detail,
         csVersion = csVersion detail\<rparr>)"

definition convertVerrazzanoInstanceFromV1Beta1 :: "instance_info option \<Rightarrow> instance_info option" where
  "convertVerrazzanoInstanceFromV1Beta1 inst = (case inst of
       None \<Rightarrow> None
     | Some i \<Rightarrow> Some \<lparr>ArgoCDURL = ArgoCDURL i, ConsoleURL = ConsoleURL i, ElasticURL = ElasticURL i, GrafanaURL = GrafanaURL i,
         JaegerURL = JaegerURL i, KeyCloakURL = KeyCloakURL i, KialiURL = KialiURL i, KibanaURL = KibanaURL i,
         PrometheusURL = PrometheusURL i, RancherURL = RancherURL i, ThanosQueryURL = ThanosQueryURL i\<rparr>)"

definition convertSecuritySpecFromV1Beta1 :: "security_spec \<Rightarrow> security_spec" where
  "convertSecuritySpecFromV1Beta1 sec = \<lparr>AdminSubjects = AdminSubjects sec, MonitorSubjects = MonitorSubjects sec\<rparr>"

fun convertVoumeClaimTemplatesFromV1Beta1 :: "volume_claim_template list \<Rightarrow> volume_claim_template list" where
  "convertVoumeClaimTemplatesFromV1Beta1 [] = []"
| "convertVoumeClaimTemplatesFromV1Beta1 (t # ts) = \<lparr>vctMetadata = vctMetadata t, vctSpec = vctSpec t\<rparr> # convertVoumeClaimTemplatesFromV1Beta1 ts"

fun convertOSNodesFromV1Beta1 :: "opensearch_node list \<Rightarrow> opensearch_node list" where
  "convertOSNodesFromV1Beta1 [] = []"
| "convertOSNodesFromV1Beta1 (inNode # nodes) =
     \<lparr>nodeName = nodeName inNode, nodeReplicas = nodeReplicas inNode, nodeResources = nodeResources inNode,
       nodeRoles = nodeRoles inNode, nodeStorage = (case nodeStorage inNode of None \<Rightarrow> None | Some sz \<Rightarrow> Some sz),
       nodeJavaOpts = nodeJavaOpts inNode\<rparr> # convertOSNodesFromV1Beta1 nodes"

definition convertOpenSearchFromV1Beta1 :: "opensearch_component option \<Rightarrow> elasticsearch_component option" where
  "convertOpenSearchFromV1Beta1 src = (case src of
       None \<Rightarrow> None
     | Some c \<Rightarrow> Some \<lparr>Enabled = Enabled c, Nodes = convertOSNodesFromV1Beta1 (Nodes c), Policies = Policies c,
         Plugins = Plugins c, DisableDefaultPolicy = DisableDefaultPolicy c, ESInstallArgs = []\<rparr>)"

definition convertAuthProxyFromV1Beta1 :: "helm_component option \<Rightarrow> authproxy_component option" where
  "convertAuthProxyFromV1Beta1 src = (case src of
       None \<Rightarrow> None
     | Some c \<Rightarrow> (case convertInstallOverridesFromV1Beta1 (overrides_of c) of
           (m, os) \<Rightarrow> Some \<lparr>Enabled = Enabled c, MonitorChanges = m, ValueOverrides = os, Kubernetes = None\<rparr>))"

definition convertIngressNGINXFromV1Beta1 :: "ingress_component option \<Rightarrow> alpha_ingress_component option" where
  "convertIngressNGINXFromV1Beta1 src = (case src of
       None \<Rightarrow> None
     | Some c \<Rightarrow> (case convertInstallOverridesFromV1Beta1 (overrides_of c) of
           (m, os) \<Rightarrow> Some \<lparr>Enabled = Enabled c, MonitorChanges = m, ValueOverrides = os,
             IngressClassName = IngressClassName c, Ports = Ports c, IngressType = IngressType c, NGINXInstallArgs = []\<rparr>))"

definition convertIstioFromV1Beta1 :: "istio_component option \<Rightarrow> alpha_istio_component option" where
  "convertIstioFromV1Beta1 src = (case src of
       None \<Rightarrow> None
     | Some c \<Rightarrow> (case convertInstallOverridesFromV1Beta1 (overrides_of c) of
           (m, os) \<Rightarrow> Some \<lparr>Enabled = Enabled c, MonitorChanges = m, ValueOverrides = os,
             InjectionEnabled = InjectionEnabled c, istioEgress = None, istioIngress = None, IstioInstallArgs = []\<rparr>))"

definition convertKeycloakFromV1Beta1 :: "keycloak_component option \<Rightarrow> alpha_keycloak_component option" where
  "convertKeycloakFromV1Beta1 src = (case src of
       None \<Rightarrow> None
     | Some c \<Rightarrow> (case (convertInstallOverridesFromV1Beta1 (overrides_of c),
           convertInstallOverridesFromV1Beta1 (MySQLMonitorChanges c, MySQLValueOverrides c)) of
         ((m, os), (mysql_m, mysql_os)) \<Rightarrow> Some \<lparr>Enabled = Enabled c, MonitorChanges = m, ValueOverrides = os,
           MySQLMonitorChanges = mysql_m, MySQLValueOverrides = mysql_os, MySQLVolumeSource = MySQLVolumeSource c,
           KeycloakInstallArgs = [], MySQLInstallArgs = []\<rparr>))"

definition convertVerrazzanoFromV1Beta1 :: "helm_component option \<Rightarrow> verrazzano_component option" where
  "convertVerrazzanoFromV1Beta1 src = (case src of
       None \<Rightarrow> None
     | Some c \<Rightarrow> (case convertInstallOverridesFromV1Beta1 (overrides_of c) of
           (m, os) \<Rightarrow> Some \<lparr>Enabled = Enabled c, MonitorChanges = m, ValueOverrides = os, InstallArgs = []\<rparr>))"

definition convertComponentsFromV1Beta1 :: "beta_components \<Rightarrow> alpha_components" where
  "convertComponentsFromV1Beta1 src =
     \<lparr>ApplicationOperator = convertApplicationOperatorFromV1Beta1 (ApplicationOperator src),
       ArgoCD = convertArgoCDFromV1Beta1 (ArgoCD src), AuthProxy = convertAuthProxyFromV1Beta1 (AuthProxy src),
       ClusterAPI = convertClusterAPIFromV1Beta1 (ClusterAPI src), ClusterAgent = convertClusterAgentFromV1Beta1 (ClusterAgent src),
       ClusterIssuer = convertClusterIssuerFromV1Beta1 (ClusterIssuer src), CertManager = convertCertManagerFromV1Beta1 (CertManager src),
       CertManagerWebhookOCI = convertCertManagerWebhookOCIFromV1Beta1 (CertManagerWebhookOCI src),
       ClusterOperator = convertClusterOperatorFromV1Beta1 (ClusterOperator src),
       CoherenceOperator = convertCoherenceOperatorFromV1Beta1 (CoherenceOperator src),
       Console = convertConsoleFromV1Beta1 (Console src), DNS = convertDNSFromV1Beta1 (DNS src),
       Fluentd = convertFluentdFromV1Beta1 (Fluentd src), FluentOperator = convertFluentOperatorFromV1Beta1 (FluentOperator src),
       FluentbitOpensearchOutput = convertFluentbitOpensearchOutputFromV1Beta1 (FluentbitOpensearchOutput src),
       Grafana = convertGrafanaFromV1Beta1 (Grafana src), Istio = convertIstioFromV1Beta1 (Istio src),
       JaegerOperator = convertJaegerOperatorFromV1Beta1 (JaegerOperator src), Keycloak = convertKeycloakFromV1Beta1 (Keycloak src),
       Kiali = convertKialiFromV1Beta1 (Kiali src), KubeStateMetrics = convertKubeStateMetricsFromV1Beta1 (KubeStateMetrics src),
       MySQLOperator = convertMySQLOperatorFromV1Beta1 (MySQLOperator src), OAM = convertOAMFromV1Beta1 (OAM src),
       Prometheus = convertPrometheusFromV1Beta1 (Prometheus src),
       PrometheusAdapter = convertPrometheusAdapterFromV1Beta1 (PrometheusAdapter src),
       PrometheusNodeExporter = convertPrometheusNodeExporterFromV1Beta1 (PrometheusNodeExporter src),
       PrometheusOperator = convertPrometheusOperatorFromV1Beta1 (PrometheusOperator src),
       PrometheusPushgateway = convertPrometheusPushGatewayFromV1Beta1 (PrometheusPushgateway src),
       Rancher = convertRancherFromV1Beta1 (Rancher src), RancherBackup = convertRancherBackupFromV1Beta1 (RancherBackup src),
       Thanos = convertThanosFromV1Beta1 (Thanos src), Velero = convertVeleroFromV1Beta1 (Velero src),
       Verrazzano = convertVerrazzanoFromV1Beta1 (Verrazzano src),
       WebLogicOperator = convertWeblogicOperatorFromV1Beta1 (WebLogicOperator src),
       Elasticsearch = convertOpenSearchFromV1Beta1 (OpenSearch src), Kibana = convertOSDFromV1Beta1 (OpenSearchDashboards src),
       Ingress = convertIngressNGINXFromV1Beta1 (IngressNGINX src)\<rparr>"

definition ConvertFrom :: "verrazzano_v1beta1 \<Rightarrow> verrazzano" where
  "ConvertFrom src =
     \<lparr>vzName = vzName src, vzNamespace = vzNamespace src, UID = UID src, Generation = Generation src,
       DeletionTimestamp = DeletionTimestamp src, Finalizers = Finalizers src, Annotations = Annotations src,
       Profile = Profile src, SpecVersion = SpecVersion src, EnvironmentName = EnvironmentName src,
       DefaultVolumeSource = DefaultVolumeSource src,
       VolumeClaimSpecTemplates = convertVoumeClaimTemplatesFromV1Beta1 (VolumeClaimSpecTemplates src),
       Security = convertSecuritySpecFromV1Beta1 (Security src), Components = convertComponentsFromV1Beta1 (Components src),
       Status = \<lparr>vzAvailable = vzAvailable (Status src),
         vzComponents = convertComponentStatusMapFromV1Beta1 (vzComponents (Status src)),
         vzConditions = convertConditionsFromV1Beta1 (vzConditions (Status src)), vzState = vzState (Status src),
         VerrazzanoInstance = convertVerrazzanoInstanceFromV1Beta1 (VerrazzanoInstance (Status src)),
         vzVersion = vzVersion (Status src)\<rparr>\<rparr>"

end
