(* ===== verification/Conversion_Laws.thy ===== *)
theory Conversion_Laws imports Conversion begin

text \<open>
  What the conversions between the API versions keep: copying a section is the identity, the way
  from \<open>v1beta1\<close> to \<open>v1alpha1\<close> and back changes nothing, the way to \<open>v1beta1\<close> keeps every flag
  the enabled checks read, and what happens to install arguments and deployment settings.
\<close>

section \<open>Copies\<close>

named_theorems copies

lemma ConvertValueOverrides_id [copies]: "ConvertValueOverridesToV1Beta1 os = os" "convertValueOverridesFromV1Beta1 os = os"
  by (induction os) simp_all

lemma convertInstallOverrides_id [copies]:
  "convertInstallOverridesToV1Beta1 io = io" "convertInstallOverridesFromV1Beta1 io = io"
  by (simp_all add: convertInstallOverridesToV1Beta1_def convertInstallOverridesFromV1Beta1_def copies)

lemma helm_of_overrides [copies]: "helm_of (Enabled c) (overrides_of c) = c"
  by (simp add: helm_of_def overrides_of_def)

lemma plain_id [copies]: "plain_to src = src" "plain_from src = src"
  by (simp_all add: plain_to_def plain_from_def copies split: option.split)

lemmas plain_defs [copies] =
  convertCoherenceOperatorToV1Beta1_def convertApplicationOperatorToV1Beta1_def convertOAMToV1Beta1_def
  convertConsoleToV1Beta1_def convertFluentOperatorToV1Beta1_def convertFluentbitOpensearchOutputToV1Beta1_def
  ConvertCertManagerWebhookOCIToV1Beta1_def convertJaegerOperatorToV1Beta1_def convertKialiToV1Beta1_def
  convertMySQLOperatorToV1Beta1_def convertKubeStateMetricsToV1Beta1_def convertPrometheusAdapterToV1Beta1_def
  convertPrometheusNodeExporterToV1Beta1_def convertPrometheusOperatorToV1Beta1_def
  convertPrometheusPushGatewayToV1Beta1_def convertRancherBackupToV1Beta1_def convertClusterAPIToV1Beta1_def
  convertClusterAgentToV1Beta1_def convertWeblogicOperatorToV1Beta1_def convertVeleroToV1Beta1_def
  convertArgoCDToV1Beta1_def convertClusterOperatorToV1Beta1_def convertThanosToV1Beta1_def
  convertCoherenceOperatorFromV1Beta1_def convertApplicationOperatorFromV1Beta1_def convertOAMFromV1Beta1_def
  convertConsoleFromV1Beta1_def convertFluentOperatorFromV1Beta1_def
  convertFluentbitOpensearchOutputFromV1Beta1_def convertCertManagerWebhookOCIFromV1Beta1_def
  convertJaegerOperatorFromV1Beta1_def convertKialiFromV1Beta1_def convertMySQLOperatorFromV1Beta1_def
  convertKubeStateMetricsFromV1Beta1_def convertPrometheusAdapterFromV1Beta1_def
  convertPrometheusNodeExporterFromV1Beta1_def convertPrometheusOperatorFromV1Beta1_def
  convertPrometheusPushGatewayFromV1Beta1_def convertRancherBackupFromV1Beta1_def
  convertClusterAPIFromV1Beta1_def convertClusterAgentFromV1Beta1_def convertWeblogicOperatorFromV1Beta1_def
  convertVeleroFromV1Beta1_def convertArgoCDFromV1Beta1_def convertClusterOperatorFromV1Beta1_def
  convertThanosFromV1Beta1_def

lemma issuer_id [copies]: "ConvertClusterIssuerToV1Beta1 x = x" "convertClusterIssuerFromV1Beta1 x = x"
  by (auto simp: ConvertClusterIssuerToV1Beta1_def convertClusterIssuerFromV1Beta1_def convertIssuerConfig_def
      convertIssuerConfigFromV1Beta1_def split: option.split)

lemma certmanager_id [copies]: "ConvertCertManagerToV1Beta1 y = y" "convertCertManagerFromV1Beta1 y = y"
  by (auto simp: ConvertCertManagerToV1Beta1_def convertCertManagerFromV1Beta1_def convertCertificateToV1Beta1_def
      convertCertificateFromV1Beta1_def overrides_of_def copies split: option.split)

lemma dns_id [copies]: "convertDNSToV1Beta1 d = d" "convertDNSFromV1Beta1 d = d"
  by (auto simp: convertDNSToV1Beta1_def convertDNSFromV1Beta1_def convertOCIDNSToV1Beta1_def convertOCIDNSFromV1Beta1_def
      convertExternalDNSToV1Beta1_def convertExternalDNSFromV1Beta1_def convertWildcardDNSToV1Beta1_def
      convertWildcardDNSFromV1Beta1_def copies split: option.split)

lemma mounts_id [copies]: "convertVolumeMountsToV1Beta1 ms = ms" "convertVolumeMountsFromV1Beta1 ms = ms"
  by (induction ms) simp_all

lemma fluentd_id [copies]: "convertFluentdToV1Beta1 f = f" "convertFluentdFromV1Beta1 f = f"
  by (auto simp: convertFluentdToV1Beta1_def convertFluentdFromV1Beta1_def convertOCILoggingConfigurationToV1Beta1_def
      convertOCILoggingConfigurationFromV1Beta1_def overrides_of_def copies split: option.split)

lemma grafana_id [copies]: "convertGrafanaToV1Beta1 g = g" "convertGrafanaFromV1Beta1 g = g"
  by (auto simp: convertGrafanaToV1Beta1_def convertGrafanaFromV1Beta1_def split: option.split)

lemma prometheus_id [copies]: "convertPrometheusToV1Beta1 p = p" "convertPrometheusFromV1Beta1 p = p"
  by (auto simp: convertPrometheusToV1Beta1_def convertPrometheusFromV1Beta1_def split: option.split)

lemma rancher_id [copies]: "convertRancherToV1Beta1 r = r" "convertRancherFromV1Beta1 r = r"
  by (auto simp: convertRancherToV1Beta1_def convertRancherFromV1Beta1_def overrides_of_def copies split: option.split)

lemma osd_id [copies]: "convertOSDToV1Beta1 o' = o'" "convertOSDFromV1Beta1 o' = o'"
  by (auto simp: convertOSDToV1Beta1_def convertOSDFromV1Beta1_def split: option.split)

lemma conditions_id [copies]: "convertConditionsTo cs = cs" "convertConditionsFromV1Beta1 cs = cs"
  by (induction cs) simp_all

lemma status_map_id [copies]: "convertComponentStatusMapTo m = m" "convertComponentStatusMapFromV1Beta1 m = m"
  by (auto simp: convertComponentStatusMapTo_def convertComponentStatusMapFromV1Beta1_def convertAvailabilityTo_def
      convertAvailabilityFrom_def copies fun_eq_iff split: option.split)

lemma instance_id [copies]: "convertVerrazzanoInstanceTo i = i" "convertVerrazzanoInstanceFromV1Beta1 i = i"
  by (auto simp: convertVerrazzanoInstanceTo_def convertVerrazzanoInstanceFromV1Beta1_def split: option.split)

lemma security_id [copies]: "convertSecuritySpecTo sec = sec" "convertSecuritySpecFromV1Beta1 sec = sec"
  by (simp_all add: convertSecuritySpecTo_def convertSecuritySpecFromV1Beta1_def)

lemma templates_id [copies]: "ConvertVolumeClaimTemplateTo ts = ts" "convertVoumeClaimTemplatesFromV1Beta1 ts = ts"
  by (induction ts) simp_all

lemma status_id [copies]: "convert_status st = st"
  by (simp add: convert_status_def copies)

lemma copy_node_id: "copy_node n = n"
  by (simp add: copy_node_def split: option.split)

lemma osnodes_from_id [copies]: "convertOSNodesFromV1Beta1 ns = ns"
  by (induction ns) (simp_all split: option.split)

section \<open>There and back\<close>

lemma nodes_loop_empty: "nodes_loop ns [] = (ns, [])"
  by (induction ns) (simp_all add: copy_node_id Let_def)

lemma no_node_args: "convertInstallArgsToOSNodes L [] = Inr []"
  by (simp add: convertInstallArgsToOSNodes_def role_node_def addNode_def)

lemma put_first_unset: "put_first L emptyOverride os = Inr os"
  by (simp add: put_first_def emptyOverride_def isOverrideValueUnset_def)

lemma no_args: "ConvertInstallOverridesWithArgsToV1Beta1 L [] io = Inr io"
  by (simp add: ConvertInstallOverridesWithArgsToV1Beta1_def put_first_unset copies)

lemma authproxy_back: "convertAuthProxyToV1Beta1 L (convertAuthProxyFromV1Beta1 x) = Inr x"
  by (auto simp: convertAuthProxyToV1Beta1_def convertAuthProxyFromV1Beta1_def overrides_of_def helm_of_def copies split: option.split)

lemma opensearch_back:
  assumes "Range L [] = []"
  shows "convertOpenSearchToV1Beta1 L (convertOpenSearchFromV1Beta1 x) = Inr x"
  using assms by (auto simp: convertOpenSearchToV1Beta1_def convertOpenSearchFromV1Beta1_def convertOSNodesToV1Beta1_def
      no_node_args nodes_loop_empty copies split: option.split)

lemma ingress_back: "convertIngressNGINXToV1Beta1 L (convertIngressNGINXFromV1Beta1 x) = Inr x"
  by (auto simp: convertIngressNGINXToV1Beta1_def convertIngressNGINXFromV1Beta1_def overrides_of_def no_args copies split: option.split)

lemma istio_back: "ConvertIstioToV1Beta1 L (convertIstioFromV1Beta1 x) = Inr x"
  by (auto simp: ConvertIstioToV1Beta1_def convertIstioFromV1Beta1_def convertIstioComponentToYaml_def mergeIstioOverrides_def
      emptyOverride_def isOverrideValueUnset_def overrides_of_def copies split: option.split)

lemma keycloak_back: "convertKeycloakToV1Beta1 L (convertKeycloakFromV1Beta1 x) = Inr x"
  by (auto simp: convertKeycloakToV1Beta1_def convertKeycloakFromV1Beta1_def overrides_of_def no_args copies split: option.split)

lemma verrazzano_back: "convertVerrazzanoToV1Beta1 L (convertVerrazzanoFromV1Beta1 x) = Inr x"
  by (auto simp: convertVerrazzanoToV1Beta1_def convertVerrazzanoFromV1Beta1_def overrides_of_def helm_of_def no_args copies split: option.split)

lemma components_back:
  assumes "Range L [] = []"
  shows "convertComponentsTo L (convertComponentsFromV1Beta1 c) = Inr c"
  by (simp add: convertComponentsTo_def convertComponentsFromV1Beta1_def authproxy_back opensearch_back [OF assms] ingress_back
      istio_back keycloak_back verrazzano_back copies)

text \<open>C19. A stored resource survives a client of the old API: converting it from \<open>v1beta1\<close> to \<open>v1alpha1\<close> and
  back never fails and gives exactly the resource it started from, whatever the libraries do.\<close>

theorem v1beta1_roundtrip:
  assumes "\<And>ns. mset (Range L ns) = mset ns"
  shows "ConvertTo L (ConvertFrom b) = Inr b"
proof -
  have "Range L [] = []" using assms [of "[]"] by simp
  then show ?thesis by (simp add: ConvertTo_def ConvertFrom_def components_back copies)
qed

text \<open>A library that keeps documents as they are, to run the conversion on.\<close>

definition sample_convert_lib :: convert_lib where
  "sample_convert_lib = \<lparr>Codec = \<lparr>UnmarshalMap = \<lambda>y. Inr [(y, Scalar y)],
       MarshalMap = \<lambda>m. Inr (str_join [CHR 0x0A] (map fst m))\<rparr>,
     ToJSON = \<lambda>y. Inr y, MergeJSON = \<lambda>x y. Inr (x @ y), IstioMergePatch = \<lambda>x y. Inr (x @ y), MarshalForeign = Inr,
     MarshalPorts = \<lambda>ps. Inr (concat ps), MemoryRequest = Inr, MasterRole = ''master'', DataRole = ''data'',
     IngestRole = ''ingest'', Range = \<lambda>ns. ns\<rparr>"

definition beta_section :: helm_component where
  "beta_section = \<lparr>Enabled = Some True, MonitorChanges = None,
     ValueOverrides = [\<lparr>ConfigMapRef = None, SecretRef = None, Values = Some ''{}''\<rparr>]\<rparr>"

theorem v1beta1_roundtrip_witness:
  "ConvertTo sample_convert_lib (ConvertFrom (zero_cr (zero_beta\<lparr>AuthProxy := Some beta_section\<rparr>))) =
    Inr (zero_cr (zero_beta\<lparr>AuthProxy := Some beta_section\<rparr>))"
  by (rule v1beta1_roundtrip) (simp add: sample_convert_lib_def)

section \<open>Flags\<close>

lemma authproxy_flag: "convertAuthProxyToV1Beta1 L x = Inr y \<Longrightarrow> same_flag x y"
  by (auto simp: convertAuthProxyToV1Beta1_def same_flag_def helm_of_def err_bind_Inr_iff split: option.splits prod.splits)

lemma opensearch_flag: "convertOpenSearchToV1Beta1 L x = Inr y \<Longrightarrow> same_flag x y"
  by (auto simp: convertOpenSearchToV1Beta1_def same_flag_def err_bind_Inr_iff split: option.splits)

lemma ingress_flag: "convertIngressNGINXToV1Beta1 L x = Inr y \<Longrightarrow> same_flag x y"
  by (auto simp: convertIngressNGINXToV1Beta1_def same_flag_def err_bind_Inr_iff split: option.splits)

lemma istio_flag:
  "ConvertIstioToV1Beta1 L x = Inr y \<Longrightarrow> same_flag x y \<and> map_option InjectionEnabled x = map_option InjectionEnabled y"
  by (auto simp: ConvertIstioToV1Beta1_def same_flag_def overrides_of_def copies err_bind_Inr_iff split: option.splits)

lemma keycloak_flag: "convertKeycloakToV1Beta1 L x = Inr y \<Longrightarrow> same_flag x y"
  by (auto simp: convertKeycloakToV1Beta1_def same_flag_def err_bind_Inr_iff split: option.splits)

lemma verrazzano_flag: "convertVerrazzanoToV1Beta1 L x = Inr y \<Longrightarrow> same_flag x y"
  by (auto simp: convertVerrazzanoToV1Beta1_def same_flag_def helm_of_def err_bind_Inr_iff split: option.splits)

lemma same_flag_refl: "same_flag x x"
  by (simp add: same_flag_def)

lemma converted_flags:
  assumes "ConvertTo L a = Inr b"
  shows "same_flags a b" and "same_flag (KubeStateMetrics (Components a)) (KubeStateMetrics (Components b))"
proof -
  from assms obtain cs where cs: "convertComponentsTo L (Components a) = Inr cs" "Components b = cs"
    by (auto simp: ConvertTo_def err_bind_Inr_iff)
  from cs(1) show "same_flags a b" "same_flag (KubeStateMetrics (Components a)) (KubeStateMetrics (Components b))"
    unfolding same_flags_def cs(2)
    by (auto simp: convertComponentsTo_def err_bind_Inr_iff Let_def copies same_flag_refl
        authproxy_flag opensearch_flag ingress_flag istio_flag keycloak_flag verrazzano_flag)
qed

lemma converted_rest:
  assumes "ConvertTo L a = Inr b"
  shows "ClusterIssuer (Components b) = ClusterIssuer (Components a)" and "vzComponents (Status b) = vzComponents (Status a)"
proof -
  from assms obtain cs where cs: "convertComponentsTo L (Components a) = Inr cs" "Components b = cs" "Status b = Status a"
    by (auto simp: ConvertTo_def err_bind_Inr_iff copies)
  from cs(1) show "ClusterIssuer (Components b) = ClusterIssuer (Components a)"
    unfolding cs(2) by (auto simp: convertComponentsTo_def err_bind_Inr_iff Let_def copies)
  show "vzComponents (Status b) = vzComponents (Status a)" using cs(3) by simp
qed

text \<open>C36. Which API version a resource is read in does not change what is installed: on a resource and on
  what it converts to, the forty checks of \<open>enabled_checks\<close>, the two issuer checks, the check for the
  OCI webhook and the check of a component's status give the same answer, errors included.  The check
  left, kube-state-metrics, agrees only where its flag is set; without it the check of the converted resource
  panics.\<close>

theorem checks_agree_across_versions:
  assumes "ConvertTo L a = Inr b"
  shows "(\<forall>f \<in> set enabled_checks. f (V1alpha1 (Some a)) = f (V1beta1 (Some b)))
    \<and> IsLetsEncryptConfig (V1alpha1 (Some a)) = IsLetsEncryptConfig (V1beta1 (Some b))
    \<and> IsCAConfig (V1alpha1 (Some a)) = IsCAConfig (V1beta1 (Some b))
    \<and> IsCertManagerWebhookOCIRequired (V1alpha1 (Some a)) = IsCertManagerWebhookOCIRequired (V1beta1 (Some b))
    \<and> (\<forall>n. IsComponentStatusEnabled (V1alpha1 (Some a)) n = IsComponentStatusEnabled (V1beta1 (Some b)) n)
    \<and> IsKubeStateMetricsEnabled (V1beta1 (Some b)) =
        (if \<exists>c e. KubeStateMetrics (Components a) = Some c \<and> Enabled c = Some e
         then IsKubeStateMetricsEnabled (V1alpha1 (Some a)) else Panic nil_deref)"
proof -
  have e: "\<And>f. f \<in> set enabled_checks \<Longrightarrow> f (V1alpha1 (Some a)) = f (V1beta1 (Some b))"
    using checks_read_flags [OF converted_flags(1) [OF assms]] .
  have "IsCertManagerWebhookOCIEnabled \<in> set enabled_checks" "IsOCIDNSEnabled \<in> set enabled_checks"
    "IsClusterIssuerEnabled \<in> set enabled_checks" by (simp_all add: enabled_checks_def)
  note o = this [THEN e]
  note le = converted_rest [OF assms]
  show ?thesis
    using e o le kube_state_metrics_check [OF converted_flags(2) [OF assms]]
    by (simp add: IsLetsEncryptConfig_def IsCAConfig_def IsCertManagerWebhookOCIRequired_def IsComponentStatusEnabled_def)
qed

definition sample_alpha :: verrazzano where
  "sample_alpha = zero_cr (zero_alpha\<lparr>Elasticsearch := Some \<lparr>Enabled = Some False,
     Nodes = [role_node ''es-data'' ''data''], Policies = [], Plugins = [], DisableDefaultPolicy = False,
     ESInstallArgs = [\<lparr>argName = ''nodes.data.replicas'', argValue = ''3'', argSetString = False, argValueList = []\<rparr>]\<rparr>\<rparr>)"

lemma sample_alpha_converts:
  "convertOpenSearchToV1Beta1 sample_convert_lib (Elasticsearch (Components sample_alpha)) =
     Inr (Some \<lparr>Enabled = Some False, Nodes = [(role_node ''es-data'' ''data'')\<lparr>nodeReplicas := Some 3\<rparr>], Policies = [],
       Plugins = [], DisableDefaultPolicy = False\<rparr>)"
proof -
  have "Sscan_int32 ''3'' = Some 3" by code_simp
  then show ?thesis
    by (simp add: convertOpenSearchToV1Beta1_def convertOSNodesToV1Beta1_def convertInstallArgsToOSNodes_def node_arg_def
        setIntValue_def addNode_def role_node_def copy_node_id mergeOpenSearchNodes_def sample_alpha_def sample_convert_lib_def
        zero_cr_def zero_alpha_def zero_shared_def)
qed

theorem checks_agree_across_versions_witness:
  "\<exists>b. ConvertTo sample_convert_lib sample_alpha = Inr b \<and> IsOpenSearchEnabled (V1beta1 (Some b)) = IsOpenSearchEnabled (V1alpha1 (Some sample_alpha))
   \<and> \<not> IsOpenSearchEnabled (V1beta1 (Some b)) \<and> IsKubeStateMetricsEnabled (V1beta1 (Some b)) = Panic nil_deref"
proof -
  have "\<exists>b. ConvertTo sample_convert_lib sample_alpha = Inr b"
    using sample_alpha_converts
    by (simp add: ConvertTo_def convertComponentsTo_def sample_alpha_def zero_cr_def zero_alpha_def zero_shared_def
        convertAuthProxyToV1Beta1_def convertIngressNGINXToV1Beta1_def ConvertIstioToV1Beta1_def convertKeycloakToV1Beta1_def
        convertVerrazzanoToV1Beta1_def)
  then obtain b where b: "ConvertTo sample_convert_lib sample_alpha = Inr b" ..
  have i: "IsOpenSearchEnabled \<in> set enabled_checks" by (simp add: enabled_checks_def)
  have k: "KubeStateMetrics (Components sample_alpha) = None" by (simp add: sample_alpha_def zero_cr_def zero_alpha_def zero_shared_def)
  have "\<not> IsOpenSearchEnabled (V1alpha1 (Some sample_alpha))"
    by (simp add: IsOpenSearchEnabled_def enabled_or_def flag_or_def sample_alpha_def zero_cr_def zero_alpha_def zero_shared_def)
  with checks_agree_across_versions [OF b] i k b show ?thesis by auto
qed

section \<open>Nodes\<close>

lemma nodes_loop_spec:
  assumes "distinct (map nodeName ns)" and "distinct (map nodeName m)"
  shows "nodes_loop ns m =
    (map (\<lambda>n. case find (\<lambda>x. nodeName x = nodeName n) m of Some src \<Rightarrow> mergeOpenSearchNodes src n | None \<Rightarrow> n) ns,
     filter (\<lambda>x. nodeName x \<notin> nodeName ` set ns) m)"
  using assms
proof (induction ns arbitrary: m)
  case (Cons n ns)
  let ?left = "filter (\<lambda>x. nodeName x \<noteq> nodeName n) m"
  have f: "find (\<lambda>x. nodeName x = nodeName n') ?left = find (\<lambda>x. nodeName x = nodeName n') m" if "n' \<in> set ns" for n'
    using that Cons.prems(1) by (induction m) (auto simp: image_iff)
  have l: "(case find (\<lambda>x. nodeName x = nodeName n) m of Some src \<Rightarrow> (mergeOpenSearchNodes src n, filter (\<lambda>x. nodeName x \<noteq> nodeName src) m)
      | None \<Rightarrow> (n, m)) = (case find (\<lambda>x. nodeName x = nodeName n) m of Some src \<Rightarrow> mergeOpenSearchNodes src n | None \<Rightarrow> n, ?left)"
  proof (cases "find (\<lambda>x. nodeName x = nodeName n) m")
    case None
    then have "?left = m" by (simp add: find_None_iff)
    with None show ?thesis by simp
  next
    case (Some src)
    then have "nodeName src = nodeName n" by (auto simp: find_Some_iff)
    with Some show ?thesis by simp
  qed
  have d: "distinct (map nodeName ?left)" using Cons.prems(2) by (rule distinct_map_filter)
  have ns: "distinct (map nodeName ns)" using Cons.prems(1) by simp
  show ?case
    using Cons.IH [OF ns d] f by (simp add: copy_node_id l Let_def filter_filter conj_commute cong: map_cong)
qed simp

lemma node_arg_names:
  assumes "node_arg L arg ns = Inr ns'"
  shows "nodeName (masterNode ns') = nodeName (masterNode ns) \<and> nodeName (dataNode ns') = nodeName (dataNode ns)
    \<and> nodeName (ingestNode ns') = nodeName (ingestNode ns)"
  using assms by (auto simp: node_arg_def Let_def err_bind_Inr_iff setIntValue_def setMemory_def split: if_splits option.splits)

lemma node_args_names:
  assumes "node_args L args ns = Inr ns'"
  shows "nodeName (masterNode ns') = nodeName (masterNode ns) \<and> nodeName (dataNode ns') = nodeName (dataNode ns)
    \<and> nodeName (ingestNode ns') = nodeName (ingestNode ns)"
  using assms by (induction args arbitrary: ns) (auto simp: err_bind_Inr_iff dest: node_arg_names)

definition positive :: "opensearch_node \<Rightarrow> bool" where
  "positive n \<longleftrightarrow> (\<exists>r. nodeReplicas n = Some r \<and> r > 0)"

lemma addNode_cases: "addNode n = (if positive n then [n] else [])"
  by (auto simp: addNode_def positive_def split: option.split)

lemma arg_nodes:
  assumes "convertInstallArgsToOSNodes L args = Inr m"
  shows "distinct (map nodeName m)" and "\<forall>n \<in> set m. positive n"
proof -
  from assms obtain ns where "node_args L args \<lparr>masterNode = role_node ''es-master'' (MasterRole L),
      dataNode = role_node ''es-data'' (DataRole L), ingestNode = role_node ''es-ingest'' (IngestRole L)\<rparr> = Inr ns"
    and m: "m = addNode (masterNode ns) @ addNode (dataNode ns) @ addNode (ingestNode ns)"
    by (auto simp: convertInstallArgsToOSNodes_def err_bind_Inr_iff)
  then have "nodeName (masterNode ns) = ''es-master''" "nodeName (dataNode ns) = ''es-data''" "nodeName (ingestNode ns) = ''es-ingest''"
    using node_args_names by (fastforce simp: role_node_def)+
  then show "distinct (map nodeName m)" "\<forall>n \<in> set m. positive n" by (auto simp: m addNode_cases)
qed

lemma merged_node:
  "nodeName (mergeOpenSearchNodes src n) = nodeName n" "nodeRoles (mergeOpenSearchNodes src n) = nodeRoles src"
  "positive src \<Longrightarrow> nodeReplicas (mergeOpenSearchNodes src n) = nodeReplicas src"
  by (auto simp: mergeOpenSearchNodes_def positive_def Let_def split: option.split)

lemma find_by_name:
  assumes "distinct (map nodeName m)" and "src \<in> set m"
  shows "find (\<lambda>x. nodeName x = nodeName src) m = Some src"
  using assms by (induction m) (auto simp: image_iff)

lemma same_elements_map:
  assumes "mset ys = mset xs"
  shows "set ys = set xs \<and> (distinct (map f ys) \<longleftrightarrow> distinct (map f xs))"
  using assms by (metis mset_eq_imp_distinct_iff mset_eq_setD mset_map)

text \<open>C20. The nodes that install arguments describe join the nodes of the resource: if these have distinct
  names, so do the nodes written; the resource's nodes come first, in their order; every node that
  the arguments give replicas is there once, with those replicas and its role; and no other name
  appears.\<close>

theorem argument_nodes_join:
  assumes "convertOSNodesToV1Beta1 L args nodes = Inr out" and "convertInstallArgsToOSNodes L args = Inr m"
    and "\<And>ns. mset (Range L ns) = mset ns" and "distinct (map nodeName nodes)"
  shows "distinct (map nodeName out) \<and> take (length nodes) (map nodeName out) = map nodeName nodes
    \<and> nodeName ` set out = nodeName ` set nodes \<union> nodeName ` set m
    \<and> (\<forall>src \<in> set m. \<exists>n \<in> set out. nodeName n = nodeName src \<and> nodeReplicas n = nodeReplicas src \<and> nodeRoles n = nodeRoles src)"
proof -
  note m = arg_nodes [OF assms(2)]
  let ?f = "\<lambda>n. case find (\<lambda>x. nodeName x = nodeName n) m of Some src \<Rightarrow> mergeOpenSearchNodes src n | None \<Rightarrow> n"
  let ?rest = "filter (\<lambda>x. nodeName x \<notin> nodeName ` set nodes) m"
  have out: "out = map ?f nodes @ Range L ?rest"
    using assms(1,2) by (simp add: convertOSNodesToV1Beta1_def nodes_loop_spec [OF assms(4) m(1)])
  have f: "nodeName (?f n) = nodeName n" for n by (simp add: merged_node split: option.split)
  have names: "map nodeName (map ?f nodes) = map nodeName nodes" using f by simp
  note rest = same_elements_map [OF assms(3) [of ?rest], of nodeName]
  have rset: "set (Range L ?rest) = set ?rest" and d: "distinct (map nodeName (Range L ?rest))"
    using rest distinct_map_filter [OF m(1)] by blast+
  have mo: "map nodeName out = map nodeName nodes @ map nodeName (Range L ?rest)" using names out by simp
  have "distinct (map nodeName out)"
  proof -
    have "x \<notin> set (map nodeName nodes)" if "x \<in> set (map nodeName (Range L ?rest))" for x
      using that rset by auto
    then have "set (map nodeName nodes) \<inter> set (map nodeName (Range L ?rest)) = {}" by blast
    with assms(4) d show ?thesis unfolding mo distinct_append by blast
  qed
  moreover have "nodeName ` set out = nodeName ` set nodes \<union> nodeName ` set m"
    using rset unfolding out by (auto simp: f image_Un image_image)
  moreover have "\<exists>n \<in> set out. nodeName n = nodeName src \<and> nodeReplicas n = nodeReplicas src \<and> nodeRoles n = nodeRoles src"
    if src: "src \<in> set m" for src
  proof (cases "nodeName src \<in> nodeName ` set nodes")
    case True
    then obtain n where n: "n \<in> set nodes" "nodeName n = nodeName src" by auto
    then have fn: "?f n = mergeOpenSearchNodes src n" using find_by_name [OF m(1) src] by simp
    have "?f n \<in> set out" unfolding out set_append set_map using imageI [OF n(1), of ?f] by (rule UnI1)
    with fn n m(2) src show ?thesis by (intro bexI [of _ "mergeOpenSearchNodes src n"]) (simp_all add: merged_node)
  next
    case False
    with src rset show ?thesis unfolding out by auto
  qed
  ultimately show ?thesis using names out by simp
qed

definition count_arg :: "string \<Rightarrow> string \<Rightarrow> install_args" where
  "count_arg role n = \<lparr>argName = ''nodes.'' @ role @ ''.replicas'', argValue = n, argSetString = False, argValueList = []\<rparr>"

text \<open>Of two nodes that arguments describe one is merged with the resource's, the other comes after it.\<close>

theorem argument_nodes_join_witness:
  "\<exists>out. convertOSNodesToV1Beta1 sample_convert_lib [count_arg ''data'' ''3'', count_arg ''master'' ''2''] [role_node ''es-data'' ''data''] = Inr out
    \<and> distinct (map nodeName out) \<and> nodeName ` set out = {''es-data'', ''es-master''}
    \<and> (\<exists>n \<in> set out. nodeName n = ''es-data'' \<and> nodeReplicas n = Some 3)"
proof -
  let ?args = "[count_arg ''data'' ''3'', count_arg ''master'' ''2'']" and ?m = "[(role_node ''es-master'' ''master'')\<lparr>nodeReplicas := Some 2\<rparr>,
    (role_node ''es-data'' ''data'')\<lparr>nodeReplicas := Some 3\<rparr>]"
  have n: "Sscan_int32 ''3'' = Some 3" "Sscan_int32 ''2'' = Some 2" by code_simp+
  have m: "convertInstallArgsToOSNodes sample_convert_lib ?args = Inr ?m"
    using n by (simp add: convertInstallArgsToOSNodes_def node_arg_def setIntValue_def addNode_def role_node_def
        sample_convert_lib_def count_arg_def)
  then obtain out where o: "convertOSNodesToV1Beta1 sample_convert_lib ?args [role_node ''es-data'' ''data''] = Inr out"
    by (cases "nodes_loop [role_node ''es-data'' ''data''] ?m") (simp add: convertOSNodesToV1Beta1_def del: nodes_loop.simps)
  have r: "\<And>ns. mset (Range sample_convert_lib ns) = mset ns" by (simp add: sample_convert_lib_def)
  have d: "distinct (map nodeName [role_node ''es-data'' ''data''])" by simp
  have names: "nodeName ` set [role_node ''es-data'' ''data''] \<union> nodeName ` set ?m = {''es-data'', ''es-master''}"
    by (auto simp: role_node_def)
  have "nodeName (?m ! 1) = ''es-data''" "nodeReplicas (?m ! 1) = Some 3" by (simp_all add: role_node_def)
  with argument_nodes_join [OF o m r d] o names show ?thesis by (metis (lifting) list.set_intros(1,2) nth_Cons_0 One_nat_def nth_Cons_Suc)
qed

section \<open>Settings that do not survive\<close>

definition with_egress :: "nat \<Rightarrow> alpha_istio_component \<Rightarrow> alpha_istio_component" where
  "with_egress n c = c\<lparr>istioEgress := Some \<lparr>istioEgressKubernetes = Some \<lparr>Replicas = n, Affinity = None\<rparr>\<rparr>\<rparr>"

definition ingress_replicas :: "alpha_istio_component \<Rightarrow> nat" where
  "ingress_replicas c = (case istioIngress c of
       Some i \<Rightarrow> (case istioIngressKubernetes i of Some k \<Rightarrow> Replicas k | None \<Rightarrow> 0)
     | None \<Rightarrow> 0)"

lemma ingress_count:
  assumes "configureIngressGateway L c start_data = Inr d"
  shows "IngressReplicaCount d = ingress_replicas c"
  using assms by (auto simp: configureIngressGateway_def ingress_replicas_def start_data_def err_bind_Inr_iff Let_def
      split: option.splits if_splits)

text \<open>The number of egress gateways asked for is written only if the ingress gateways have a number: without
  one, a resource converts to the same stored resource whatever the number of egress gateways is.\<close>

lemma egress_replicas_need_ingress:
  assumes "ingress_replicas c = 0"
  shows "ConvertIstioToV1Beta1 L (Some (with_egress n c)) = ConvertIstioToV1Beta1 L (Some (with_egress k c))"
proof -
  have i: "configureIngressGateway L (with_egress x c) start_data = configureIngressGateway L c start_data" for x
    by (simp add: configureIngressGateway_def with_egress_def)
  have "configureGateways L (with_egress n c) ip = configureGateways L (with_egress k c) ip" for ip
  proof (cases "configureIngressGateway L c start_data")
    case (Inr d)
    with ingress_count assms have "IngressReplicaCount d = 0" by metis
    then show ?thesis
      unfolding configureGateways_def i Inr
      by (simp add: configureEgressGateway_def with_egress_def affinity_text_def Let_def
          render_gateways_def egress_text_def ingress_text_def)
  qed (simp add: configureGateways_def i)
  then have "convertIstioComponentToYaml L (with_egress n c) = convertIstioComponentToYaml L (with_egress k c)"
    by (simp add: convertIstioComponentToYaml_def) (simp add: with_egress_def)
  then show ?thesis by (simp add: ConvertIstioToV1Beta1_def) (simp add: with_egress_def overrides_of_def)
qed

lemma egress_replicas_need_ingress_witness:
  "ConvertIstioToV1Beta1 sample_convert_lib (Some (with_egress 3 \<lparr>Enabled = None, MonitorChanges = None, ValueOverrides = [],
      InjectionEnabled = None, istioEgress = None, istioIngress = None, IstioInstallArgs = []\<rparr>)) =
   ConvertIstioToV1Beta1 sample_convert_lib (Some (with_egress 1 \<lparr>Enabled = None, MonitorChanges = None, ValueOverrides = [],
      InjectionEnabled = None, istioEgress = None, istioIngress = None, IstioInstallArgs = []\<rparr>))"
  by (rule egress_replicas_need_ingress) (simp add: ingress_replicas_def)

text \<open>Deployment settings of the auth proxy that leave the number of replicas out become an override that
  sets it to zero.\<close>

lemma authproxy_zero_replicas:
  assumes "Kubernetes c = Some \<lparr>Replicas = 0, Affinity = None\<rparr>" and "ToJSON L ''replicas: 0'' = Inr json"
  shows "\<exists>c'. convertAuthProxyToV1Beta1 L (Some c) = Inr (Some c')
    \<and> ValueOverrides c' = ValueOverrides c @ [\<lparr>ConfigMapRef = None, SecretRef = None, Values = Some json\<rparr>]"
proof -
  have n: "show_nat 0 = ''0''" by code_simp
  have e: "Expand 0 False ''replicas'' [''0''] = Inr ''replicas: 0''" by code_simp
  show ?thesis
    using assms by (simp add: convertAuthProxyToV1Beta1_def convertCommonKubernetesToYaml_def n e ReplacementMerge_def
        createValueOverride_def overrides_of_def helm_of_def copies)
qed

lemma authproxy_zero_replicas_witness:
  "\<exists>c'. convertAuthProxyToV1Beta1 sample_convert_lib (Some \<lparr>Enabled = None, MonitorChanges = None, ValueOverrides = [],
      Kubernetes = Some \<lparr>Replicas = 0, Affinity = None\<rparr>\<rparr>) = Inr (Some c')
    \<and> ValueOverrides c' = [\<lparr>ConfigMapRef = None, SecretRef = None, Values = Some ''replicas: 0''\<rparr>]"
  using authproxy_zero_replicas [of "\<lparr>Enabled = None, MonitorChanges = None, ValueOverrides = [],
      Kubernetes = Some \<lparr>Replicas = 0, Affinity = None\<rparr>\<rparr>" sample_convert_lib "''replicas: 0''"]
  by (simp add: sample_convert_lib_def)

end
