(* ===== verification/Helm_Client.thy ===== *)
theory Helm_Client imports Bom Yaml_Ops Component begin

text \<open>
  The operator's Helm client (\<open>pkg/helm/helmcli.go\<close>, \<open>pkg/helm/chart.go\<close>) and the YAML file it
  makes of key value pairs (\<open>pkg/yaml/helm.go\<close>).  The actions of the Helm library, its value
  syntax (\<open>strvals\<close>) and its download providers are third-party code: fields of \<open>helm_lib\<close>, as
  are the file system, the environment and the parsing of a URL.
\<close>

section \<open>The library\<close>

record helm_overrides =
  SetOverrides :: string
  SetStringOverrides :: string
  SetFileOverrides :: string
  FileOverride :: string

text \<open>A release: \<open>Info.Status\<close> as its text, and the version of the application in its chart.\<close>

record helm_release =
  relName :: string
  relNamespace :: string
  relStatus :: string
  relAppVersion :: string

type_synonym chart = string

text \<open>The fields the code sets of the clients \<open>action.NewInstall\<close> and \<open>action.NewUpgrade\<close>.\<close>

record action_options =
  actNamespace :: string
  actReleaseName :: string
  actDryRun :: bool
  actWait :: bool
  actReplace :: bool
  actMaxHistory :: int

record chart_info =
  chartAPIVersion :: string
  chartDescription :: string
  chartName :: string
  chartVersion :: string
  chartAppVersion :: string

text \<open>
  \<open>InitAction\<close> initialises the configuration of the actions for a namespace with the storage driver
  named by the environment; the \<open>Run\<close> fields take that namespace.
\<close>

record 'w helm_lib =
  InitAction :: "string \<Rightarrow> string \<Rightarrow> int \<Rightarrow> 'w \<Rightarrow> go_error option \<times> 'w"
  HelmDriver :: string
  RunStatus :: "string \<Rightarrow> string \<Rightarrow> 'w \<Rightarrow> (go_error + helm_release) \<times> 'w"
  RunList :: "string \<Rightarrow> 'w \<Rightarrow> (go_error + helm_release list) \<times> 'w"
  RunGetValues :: "string \<Rightarrow> string \<Rightarrow> 'w \<Rightarrow> (go_error + yaml_map) \<times> 'w"
  RunInstall :: "action_options \<Rightarrow> chart \<Rightarrow> yaml_map \<Rightarrow> 'w \<Rightarrow> (go_error + helm_release) \<times> 'w"
  RunUpgrade :: "action_options \<Rightarrow> string \<Rightarrow> chart \<Rightarrow> yaml_map \<Rightarrow> 'w \<Rightarrow> (go_error + helm_release) \<times> 'w"
  RunUninstall :: "string \<Rightarrow> bool \<Rightarrow> string \<Rightarrow> 'w \<Rightarrow> go_error option \<times> 'w"
  LoadChart :: "string \<Rightarrow> 'w \<Rightarrow> (go_error + chart) \<times> 'w"
  ReadStdin :: "'w \<Rightarrow> (go_error + string) \<times> 'w"
  UrlScheme :: "string \<Rightarrow> go_error + string"
  ByScheme :: "string \<Rightarrow> (string \<Rightarrow> 'w \<Rightarrow> (go_error + string) \<times> 'w) option"
  ReadFile :: "string \<Rightarrow> 'w \<Rightarrow> (go_error + string) \<times> 'w"
  HelmYaml :: yaml_codec
  UnmarshalChart :: "string \<Rightarrow> go_error + chart_info"
  StrvalsParseInto :: "string \<Rightarrow> yaml_map \<Rightarrow> go_error + yaml_map"
  StrvalsParseIntoString :: "string \<Rightarrow> yaml_map \<Rightarrow> go_error + yaml_map"
  StrvalsParseIntoFile :: "string \<Rightarrow> yaml_map \<Rightarrow> (string \<Rightarrow> 'w \<Rightarrow> (go_error + string) \<times> 'w) \<Rightarrow> 'w
    \<Rightarrow> (go_error + yaml_map) \<times> 'w"

definition ChartNotFound :: string where "ChartNotFound = ''NotFound''"
definition ChartStatusDeployed :: string where "ChartStatusDeployed = ''deployed''"
definition ChartStatusFailed :: string where "ChartStatusFailed = ''failed''"

section \<open>Asking for a release\<close>

definition getActionConfig :: "'w helm_lib \<Rightarrow> string \<Rightarrow> 'w \<Rightarrow> (go_error + unit) \<times> 'w" where
  "getActionConfig H namespace = io_unit (InitAction H namespace (HelmDriver H) 1)"

definition GetValuesMap :: "'w helm_lib \<Rightarrow> string \<Rightarrow> string \<Rightarrow> 'w \<Rightarrow> (go_error + yaml_map) \<times> 'w" where
  "GetValuesMap H releaseName namespace =
     io_bind (getActionConfig H namespace) (\<lambda>_. RunGetValues H namespace releaseName)"

definition GetValues :: "'w helm_lib \<Rightarrow> string \<Rightarrow> string \<Rightarrow> 'w \<Rightarrow> (go_error + string) \<times> 'w" where
  "GetValues H releaseName namespace =
     io_bind (GetValuesMap H releaseName namespace) (\<lambda>vals. io_pure (MarshalMap (HelmYaml H) vals))"

text \<open>The status of a release as the action gives it; a text that contains \<open>not found\<close> is not an error.\<close>

definition release_status :: "'w helm_lib \<Rightarrow> string \<Rightarrow> string \<Rightarrow> 'w \<Rightarrow> (go_error + string option) \<times> 'w" where
  "release_status H releaseName namespace =
     io_bind (getActionConfig H namespace) (\<lambda>_ w. case RunStatus H namespace releaseName w of
         (Inl err, w1) \<Rightarrow> (if Contains (Error err) ''not found'' then Inr None else Inl err, w1)
       | (Inr helmRelease, w1) \<Rightarrow> (Inr (Some (relStatus helmRelease)), w1))"

definition IsReleaseInstalled :: "'w helm_lib \<Rightarrow> string \<Rightarrow> string \<Rightarrow> 'w \<Rightarrow> (go_error + bool) \<times> 'w" where
  "IsReleaseInstalled H releaseName namespace =
     io_bind (release_status H releaseName namespace) (\<lambda>st. io_pure (Inr (case st of
         None \<Rightarrow> False
       | Some status \<Rightarrow> ChartStatusDeployed = status)))"

definition getChartStatus :: "'w helm_lib \<Rightarrow> string \<Rightarrow> string \<Rightarrow> 'w \<Rightarrow> (go_error + string) \<times> 'w" where
  "getChartStatus H releaseName namespace =
     io_bind (release_status H releaseName namespace) (\<lambda>st. io_pure (Inr (case st of
         None \<Rightarrow> ChartNotFound
       | Some status \<Rightarrow> status)))"

definition IsReleaseDeployed :: "'w helm_lib \<Rightarrow> string \<Rightarrow> string \<Rightarrow> 'w \<Rightarrow> (go_error + bool) \<times> 'w" where
  "IsReleaseDeployed H releaseName namespace =
     io_bind (getChartStatus H releaseName namespace) (\<lambda>releaseStatus. io_pure (Inr
       (if releaseStatus = ChartNotFound then False
        else if releaseStatus = ChartStatusDeployed then True else False)))"

definition GetReleaseStatus :: "'w helm_lib \<Rightarrow> string \<Rightarrow> string \<Rightarrow> 'w \<Rightarrow> (go_error + string) \<times> 'w" where
  "GetReleaseStatus H = getChartStatus H"

definition getReleases :: "'w helm_lib \<Rightarrow> string \<Rightarrow> 'w \<Rightarrow> (go_error + helm_release list) \<times> 'w" where
  "getReleases H namespace = io_bind (getActionConfig H namespace) (\<lambda>_. RunList H namespace)"

definition getReleaseState :: "'w helm_lib \<Rightarrow> string \<Rightarrow> string \<Rightarrow> 'w \<Rightarrow> (go_error + string) \<times> 'w" where
  "getReleaseState H releaseName namespace w = (case getReleases H namespace w of
       (Inl err, w1) \<Rightarrow> (if Contains (Error err) ''not found'' then Inr ChartNotFound else Inl err, w1)
     | (Inr releases, w1) \<Rightarrow> (Inr (TrimSpace (case find (\<lambda>info. relName info = releaseName) releases of
           Some info \<Rightarrow> relStatus info | None \<Rightarrow> [])), w1))"

definition IsReleaseFailed :: "'w helm_lib \<Rightarrow> string \<Rightarrow> string \<Rightarrow> 'w \<Rightarrow> (go_error + bool) \<times> 'w" where
  "IsReleaseFailed H releaseName namespace =
     io_bind (getReleaseState H releaseName namespace) (\<lambda>releaseStatus. io_pure (Inr (releaseStatus = ChartStatusFailed)))"

definition getReleaseAppVersion :: "'w helm_lib \<Rightarrow> string \<Rightarrow> string \<Rightarrow> 'w \<Rightarrow> (go_error + string) \<times> 'w" where
  "getReleaseAppVersion H releaseName namespace w = (case getReleases H namespace w of
       (Inl err, w1) \<Rightarrow> (if Error err = ChartNotFound then Inr ChartNotFound else Inl err, w1)
     | (Inr releases, w1) \<Rightarrow> (Inr (TrimSpace (case find (\<lambda>info. relName info = releaseName) releases of
           Some info \<Rightarrow> relAppVersion info | None \<Rightarrow> [])), w1))"

definition GetReleaseAppVersion :: "'w helm_lib \<Rightarrow> string \<Rightarrow> string \<Rightarrow> 'w \<Rightarrow> (go_error + string) \<times> 'w" where
  "GetReleaseAppVersion H = getReleaseAppVersion H"

fun keys_loop :: "yaml_map \<Rightarrow> string list \<Rightarrow> yaml_map \<Rightarrow> yaml_map" where
  "keys_loop valuesMap [] values = values"
| "keys_loop valuesMap (valueKey # valueKeys) values =
     keys_loop valuesMap valueKeys (case map_of valuesMap valueKey of
         Some mapVal \<Rightarrow> AList.update valueKey mapVal values
       | None \<Rightarrow> values)"

definition GetReleaseValues :: "'w helm_lib \<Rightarrow> string list \<Rightarrow> string \<Rightarrow> string \<Rightarrow> 'w \<Rightarrow> (go_error + yaml_map) \<times> 'w" where
  "GetReleaseValues H valueKeys releaseName namespace =
     io_bind (IsReleaseDeployed H releaseName namespace) (\<lambda>isDeployed.
       if isDeployed then io_bind (GetValuesMap H releaseName namespace) (\<lambda>valuesMap. io_pure (Inr (keys_loop valuesMap valueKeys [])))
       else io_pure (Inr []))"

definition getChartInfo :: "'w helm_lib \<Rightarrow> string \<Rightarrow> 'w \<Rightarrow> (go_error + chart_info) \<times> 'w" where
  "getChartInfo H chartDir =
     io_bind (ReadFile H (chartDir @ ''/Chart.yaml'')) (\<lambda>chartBytes. io_pure (UnmarshalChart H chartBytes))"

definition GetChartInfo :: "'w helm_lib \<Rightarrow> string \<Rightarrow> 'w \<Rightarrow> (go_error + chart_info) \<times> 'w" where
  "GetChartInfo H = getChartInfo H"

section \<open>Merging values\<close>

definition readFile :: "'w helm_lib \<Rightarrow> string \<Rightarrow> 'w \<Rightarrow> (go_error + string) \<times> 'w" where
  "readFile H filePath =
     (if TrimSpace filePath = ''-'' then ReadStdin H
      else io_bind (io_pure (UrlScheme H filePath)) (\<lambda>scheme. case ByScheme H scheme of
          None \<Rightarrow> ReadFile H filePath
        | Some g \<Rightarrow> g filePath))"

definition merge_override :: "'w helm_lib \<Rightarrow> helm_overrides \<Rightarrow> yaml_map \<Rightarrow> 'w \<Rightarrow> (go_error + yaml_map) \<times> 'w" where
  "merge_override H override base0 =
     io_bind (if length (FileOverride override) > 0
              then io_bind (readFile H (FileOverride override)) (\<lambda>bytes.
                io_bind (io_pure (UnmarshalMap (HelmYaml H) bytes)) (\<lambda>currentMap. io_pure (Inr (MergeMaps base0 currentMap))))
              else io_pure (Inr base0)) (\<lambda>base1.
     io_bind (io_pure (if length (SetOverrides override) > 0 then StrvalsParseInto H (SetOverrides override) base1
                       else Inr base1)) (\<lambda>base2.
     io_bind (io_pure (if length (SetStringOverrides override) > 0
                       then StrvalsParseIntoString H (SetStringOverrides override) base2
                       else Inr base2)) (\<lambda>base3.
     if length (SetFileOverrides override) > 0
     then StrvalsParseIntoFile H (SetFileOverrides override) base3 (readFile H)
     else io_pure (Inr base3))))"

fun merge_overrides :: "'w helm_lib \<Rightarrow> helm_overrides list \<Rightarrow> yaml_map \<Rightarrow> 'w \<Rightarrow> (go_error + yaml_map) \<times> 'w" where
  "merge_overrides H [] base = io_pure (Inr base)"
| "merge_overrides H (override # overrides) base =
     io_bind (merge_override H override base) (merge_overrides H overrides)"

definition mergeValues :: "'w helm_lib \<Rightarrow> helm_overrides list \<Rightarrow> 'w \<Rightarrow> (go_error + yaml_map) \<times> 'w" where
  "mergeValues H overrides = merge_overrides H overrides []"

section \<open>Installing, upgrading, removing\<close>

definition HelmUpgrade ::
  "'w helm_lib \<Rightarrow> string \<Rightarrow> string \<Rightarrow> string \<Rightarrow> bool \<Rightarrow> bool \<Rightarrow> helm_overrides list \<Rightarrow> 'w \<Rightarrow> (go_error + helm_release) \<times> 'w" where
  "HelmUpgrade H releaseName namespace chartDir wait dryRun overrides =
     io_bind (getActionConfig H namespace) (\<lambda>_.
     io_bind (mergeValues H overrides) (\<lambda>vals.
     io_bind (LoadChart H chartDir) (\<lambda>chart.
     io_bind (IsReleaseInstalled H releaseName namespace) (\<lambda>installed.
       if installed
       then RunUpgrade H \<lparr>actNamespace = namespace, actReleaseName = [], actDryRun = dryRun, actWait = wait,
              actReplace = False, actMaxHistory = 1\<rparr> releaseName chart vals
       else RunInstall H \<lparr>actNamespace = namespace, actReleaseName = releaseName, actDryRun = dryRun, actWait = wait,
              actReplace = True, actMaxHistory = 0\<rparr> chart vals))))"

definition HelmUninstall :: "'w helm_lib \<Rightarrow> string \<Rightarrow> string \<Rightarrow> bool \<Rightarrow> 'w \<Rightarrow> go_error option \<times> 'w" where
  "HelmUninstall H releaseName namespace dryRun w = (case getActionConfig H namespace w of
       (Inl err, w1) \<Rightarrow> (Some err, w1)
     | (Inr _, w1) \<Rightarrow> RunUninstall H namespace dryRun releaseName w1)"

section \<open>A YAML file from key value pairs\<close>

definition escape_value :: "string \<Rightarrow> string" where
  "escape_value v = foldl (\<lambda>s c. ReplaceAll [c] [CHR 0x5C, c] s) v '',[.{}''"

fun kvs_loop :: "'w helm_lib \<Rightarrow> key_value list \<Rightarrow> yaml_map \<Rightarrow> go_error + yaml_map" where
  "kvs_loop H [] yamlObject = Inr yamlObject"
| "kvs_loop H (kv # kvs) yamlObject =
     (let composedStr = kvKey kv @ ''='' @ escape_value (kvValue kv)
      in err_bind (if SetString kv then StrvalsParseIntoString H composedStr yamlObject
                   else StrvalsParseInto H composedStr yamlObject) (kvs_loop H kvs))"

definition HelmValueFileConstructor :: "'w helm_lib \<Rightarrow> key_value list \<Rightarrow> go_error + string" where
  "HelmValueFileConstructor H kvs = err_bind (kvs_loop H kvs []) (MarshalMap (HelmYaml H))"

end
