(* ===== verification/Helm_Overrides.thy ===== *)
theory Helm_Overrides imports Helm_Client Enabled begin

text \<open>
  What a Helm chart is given besides its own values: temporary files (\<open>pkg/os/file.go\<close>), the
  overrides of a component's section (\<open>component/common/override/overrides.go\<close>), the image pull
  secret (\<open>controllers/verrazzano/secret/image_pull_secret.go\<close>) and the label that marks the operator's
  namespaces (\<open>pkg/namespace/namespace.go\<close>).  The file system and the API server are records of calls.
\<close>

section \<open>Temporary files\<close>

record 'w file_lib =
  TempCreate :: "string \<Rightarrow> 'w \<Rightarrow> (go_error + string) \<times> 'w"
  TempWrite :: "string \<Rightarrow> string \<Rightarrow> 'w \<Rightarrow> go_error option \<times> 'w"
  TempClose :: "string \<Rightarrow> 'w \<Rightarrow> go_error option \<times> 'w"
  ReadTempDir :: "'w \<Rightarrow> (go_error + (string \<times> bool) list) \<times> 'w"
  CompileRegexp :: "string \<Rightarrow> go_error + (string \<Rightarrow> bool)"
  TempDir :: string
  TempRemove :: "string \<Rightarrow> 'w \<Rightarrow> go_error option \<times> 'w"

definition CreateTempFile :: "'w file_lib \<Rightarrow> string \<Rightarrow> string \<Rightarrow> 'w \<Rightarrow> (go_error + string) \<times> 'w" where
  "CreateTempFile F filenamePattern data =
     io_bind (TempCreate F filenamePattern) (\<lambda>tmpFile.
     io_bind (io_unit (TempWrite F tmpFile data)) (\<lambda>_.
     io_bind (io_unit (TempClose F tmpFile)) (\<lambda>_. io_pure (Inr tmpFile))))"

fun remove_loop :: "'w file_lib \<Rightarrow> (string \<Rightarrow> bool) \<Rightarrow> (string \<times> bool) list \<Rightarrow> 'w \<Rightarrow> go_error option \<times> 'w" where
  "remove_loop F matcher [] w = (None, w)"
| "remove_loop F matcher ((fileName, isDir) # files) w =
     (if \<not> isDir \<and> matcher fileName then (case TempRemove F (TempDir F @ ''/'' @ fileName) w of
          (Some err, w1) \<Rightarrow> (Some err, w1)
        | (None, w1) \<Rightarrow> remove_loop F matcher files w1)
      else remove_loop F matcher files w)"

definition RemoveTempFiles :: "'w file_lib \<Rightarrow> string \<Rightarrow> 'w \<Rightarrow> go_error option \<times> 'w" where
  "RemoveTempFiles F regexPattern w = (case ReadTempDir F w of
       (Inl err, w1) \<Rightarrow> (Some err, w1)
     | (Inr files, w1) \<Rightarrow> (case CompileRegexp F regexPattern of
           Inl err \<Rightarrow> (Some err, w1)
         | Inr matcher \<Rightarrow> remove_loop F matcher files w1))"

section \<open>The API server\<close>

text \<open>The data and the type of a secret, and what the clean-up of releases reads of one.\<close>

record pull_secret =
  psData :: "(string \<times> string) list"
  psType :: string

record release_secret =
  rsNamespace :: string
  rsName :: string
  rsType :: string
  rsCreated :: int

text \<open>\<open>CreateOrUpdateSecret\<close> is \<open>controllerutil.CreateOrUpdate\<close> with the data and type to set.\<close>

record 'w helm_kube =
  GetConfigMapData :: "string \<Rightarrow> string \<Rightarrow> 'w \<Rightarrow> (go_error + (string \<Rightarrow> string option)) \<times> 'w"
  GetSecretData :: "string \<Rightarrow> string \<Rightarrow> 'w \<Rightarrow> (go_error + (string \<Rightarrow> string option)) \<times> 'w"
  GetPullSecret :: "string \<Rightarrow> string \<Rightarrow> 'w \<Rightarrow> (go_error + pull_secret) \<times> 'w"
  CreateOrUpdateSecret :: "string \<Rightarrow> string \<Rightarrow> pull_secret \<Rightarrow> 'w \<Rightarrow> go_error option \<times> 'w"
  GetCoreV1 :: "'w \<Rightarrow> go_error option \<times> 'w"
  GetNamespaceLabels :: "string \<Rightarrow> 'w \<Rightarrow> (go_error + (string \<Rightarrow> string option)) \<times> 'w"
  ListReleaseSecrets :: "string \<Rightarrow> 'w \<Rightarrow> (go_error + release_secret list) \<times> 'w"
  DeleteReleaseSecret :: "release_secret \<Rightarrow> 'w \<Rightarrow> go_error option \<times> 'w"
  MarshalValues :: "string \<Rightarrow> go_error + string"

section \<open>Overrides\<close>

text \<open>
  The data of a reference, from a config map or a secret: the two functions differ only in the
  kind of object they get.
\<close>

definition referenced_overrides ::
  "(string \<Rightarrow> string \<Rightarrow> 'w \<Rightarrow> (go_error + (string \<Rightarrow> string option)) \<times> 'w) \<Rightarrow> key_selector \<Rightarrow> string \<Rightarrow> 'w
    \<Rightarrow> (go_error + string) \<times> 'w" where
  "referenced_overrides get selector namespace w =
     (let optional = selOptional selector in
      case get namespace (selName selector) w of
        (Inl err, w1) \<Rightarrow>
          (if \<not> IsNotFound err then (Inl err, w1)
           else if optional = None \<or> optional = Some False then (Inl (PlainErr ''could not get''), w1)
           else (Inr [], w1))
      | (Inr data, w1) \<Rightarrow> (case data (selKey selector) of
            None \<Rightarrow> (if optional = None \<or> optional = Some False then (Inl (PlainErr ''could not get data field''), w1)
                     else (Inr [], w1))
          | Some fieldData \<Rightarrow> (Inr fieldData, w1)))"

definition getConfigMapOverrides :: "'w helm_kube \<Rightarrow> key_selector \<Rightarrow> string \<Rightarrow> 'w \<Rightarrow> (go_error + string) \<times> 'w" where
  "getConfigMapOverrides K = referenced_overrides (GetConfigMapData K)"

definition getSecretOverrides :: "'w helm_kube \<Rightarrow> key_selector \<Rightarrow> string \<Rightarrow> 'w \<Rightarrow> (go_error + string) \<times> 'w" where
  "getSecretOverrides K = referenced_overrides (GetSecretData K)"

fun getInstallOverridesYAML :: "'w helm_kube \<Rightarrow> overrides list \<Rightarrow> string \<Rightarrow> 'w \<Rightarrow> (go_error + string list) \<times> 'w" where
  "getInstallOverridesYAML K [] namespace = io_pure (Inr [])"
| "getInstallOverridesYAML K (override # os) namespace =
     (let rest = (\<lambda>d. io_bind (getInstallOverridesYAML K os namespace) (\<lambda>strings. io_pure (Inr (d # strings))))
      in case ConfigMapRef override of
           Some ref \<Rightarrow> io_bind (getConfigMapOverrides K ref namespace) rest
         | None \<Rightarrow> (case SecretRef override of
             Some ref \<Rightarrow> io_bind (getSecretOverrides K ref namespace) rest
           | None \<Rightarrow> (case Values override of
               Some values \<Rightarrow> io_bind (io_pure (MarshalValues K values)) rest
             | None \<Rightarrow> getInstallOverridesYAML K os namespace)))"

section \<open>The image pull secret\<close>

definition GlobalImagePullSecName :: string where
  "GlobalImagePullSecName = ''verrazzano-container-registry''"

text \<open>The global secret, from the default namespace or else from the operator's own.\<close>

definition global_pull_secret :: "'w helm_kube \<Rightarrow> 'w \<Rightarrow> (go_error + pull_secret option) \<times> 'w" where
  "global_pull_secret K w = (case GetPullSecret K ''default'' GlobalImagePullSecName w of
       (Inr sec, w1) \<Rightarrow> (Inr (Some sec), w1)
     | (Inl err, w1) \<Rightarrow>
         (if IsNotFound err then (case GetPullSecret K ''verrazzano-install'' GlobalImagePullSecName w1 of
              (Inr sec, w2) \<Rightarrow> (Inr (Some sec), w2)
            | (Inl err, w2) \<Rightarrow> (if IsNotFound err then Inr None else Inl err, w2))
          else (Inl err, w1)))"

definition CheckImagePullSecret :: "'w helm_kube \<Rightarrow> string \<Rightarrow> 'w \<Rightarrow> (go_error + bool) \<times> 'w" where
  "CheckImagePullSecret K targetNamespace =
     io_bind (global_pull_secret K) (\<lambda>sourceSecret. case sourceSecret of
         None \<Rightarrow> io_pure (Inr False)
       | Some sec \<Rightarrow> io_bind (io_unit (CreateOrUpdateSecret K targetNamespace GlobalImagePullSecName sec))
           (\<lambda>_. io_pure (Inr True)))"

definition AddGlobalImagePullSecretHelmOverride ::
  "'w helm_kube \<Rightarrow> string \<Rightarrow> key_value list \<Rightarrow> string \<Rightarrow> 'w \<Rightarrow> (go_error + key_value list) \<times> 'w" where
  "AddGlobalImagePullSecretHelmOverride K ns kvs keyName =
     io_bind (CheckImagePullSecret K ns) (\<lambda>secretExists.
       io_pure (Inr (if secretExists then kvs @ [kv_pair keyName GlobalImagePullSecName] else kvs)))"

section \<open>The operator's namespaces\<close>

definition VerrazzanoManagedKey :: string where "VerrazzanoManagedKey = ''verrazzano.io/namespace''"

definition CheckIfVerrazzanoManagedNamespaceExists :: "'w helm_kube \<Rightarrow> string \<Rightarrow> 'w \<Rightarrow> (go_error + bool) \<times> 'w" where
  "CheckIfVerrazzanoManagedNamespaceExists K nsName =
     io_bind (io_unit (GetCoreV1 K)) (\<lambda>_ w. case GetNamespaceLabels K nsName w of
         (Inl err, w1) \<Rightarrow> (if \<not> IsNotFound err then Inl (PlainErr ''Unexpected error checking for namespace'') else Inr False, w1)
       | (Inr labels, w1) \<Rightarrow> (Inr (case labels VerrazzanoManagedKey of
             None \<Rightarrow> False
           | Some v \<Rightarrow> v \<noteq> []), w1))"

end
