(* ===== verification/Helm_Component.thy ===== *)
theory Helm_Component imports Helm_Overrides Conversion Webhook Ready begin

text \<open>
  A component that is a Helm chart (\<open>component/helm/helm_component.go\<close>): the settings a component
  declares and the methods built from them, which make it one of the components the reconciler
  works on (\<open>as_component\<close>).  What the package reaches is the record \<open>helm_env\<close>; the optional
  functions of a chart are fields of its settings.
\<close>

section \<open>The settings\<close>

record 'w HelmComponent =
  ReleaseName :: string
  JSONName :: string
  ChartDir :: string
  ChartNamespace :: string
  IgnoreNamespaceOverride :: bool
  IgnoreImageOverrides :: bool
  ValuesFile :: string
  InstallBeforeUpgrade :: bool
  PreInstallFunc :: "(ctx \<Rightarrow> string \<Rightarrow> string \<Rightarrow> string \<Rightarrow> 'w \<Rightarrow> go_error option \<times> 'w) option"
  PostInstallFunc :: "(ctx \<Rightarrow> string \<Rightarrow> string \<Rightarrow> 'w \<Rightarrow> go_error option \<times> 'w) option"
  PreUpgradeFunc :: "(string \<Rightarrow> string \<Rightarrow> string \<Rightarrow> 'w \<Rightarrow> go_error option \<times> 'w) option"
  AppendOverridesFunc :: "(ctx \<Rightarrow> string \<Rightarrow> string \<Rightarrow> string \<Rightarrow> key_value list \<Rightarrow> 'w
    \<Rightarrow> (go_error + key_value list) \<times> 'w) option"
  GetInstallOverridesFunc :: "(runtime_object \<Rightarrow> overrides list) option"
  ResolveNamespaceFunc :: "(string \<Rightarrow> string) option"
  SupportsOperatorInstall :: bool
  SupportsOperatorUninstall :: bool
  WaitForInstall :: bool
  ImagePullSecretKeyname :: string
  Dependencies :: "string list"
  SkipUpgrade :: bool
  MinVerrazzanoVersion :: string
  IngressNames :: "nsn list"
  Certificates :: "nsn list"
  AvailabilityObjects :: "availability_objects option"

text \<open>
  The libraries and the cluster; \<open>DryRun\<close> is \<open>IsDryRun\<close> of the contexts, \<open>UpgradePrehooksEnabled\<close>
  the package variable.
\<close>

record 'w helm_env =
  Helm :: "'w helm_lib"
  Files :: "'w file_lib"
  Kube :: "'w helm_kube"
  ReadyClient :: "'w ready_client"
  CertClient :: "'w cert_client"
  HelmBomLib :: bom_lib
  HelmBOMFilePath :: string
  DryRun :: bool
  UpgradePrehooksEnabled :: bool

section \<open>Plain accessors\<close>

definition GetOverrides :: "'w HelmComponent \<Rightarrow> runtime_object \<Rightarrow> overrides list" where
  "GetOverrides h cr = (case GetInstallOverridesFunc h of Some f \<Rightarrow> f cr | None \<Rightarrow> [])"

definition HelmMinVerrazzanoVersion :: "'w HelmComponent \<Rightarrow> string" where
  "HelmMinVerrazzanoVersion h = (if length (MinVerrazzanoVersion h) = 0 then ''1.0.0'' else MinVerrazzanoVersion h)"

definition v1alpha1Validate :: "'w HelmComponent \<Rightarrow> verrazzano \<Rightarrow> go_error option" where
  "v1alpha1Validate h vz = ValidateInstallOverrides (GetOverrides h (V1alpha1 (Some vz)))"

definition v1beta1Validate :: "'w HelmComponent \<Rightarrow> verrazzano_v1beta1 \<Rightarrow> go_error option" where
  "v1beta1Validate h vz = ValidateInstallOverrides (GetOverrides h (V1beta1 (Some vz)))"

definition resolveNamespace :: "'w HelmComponent \<Rightarrow> ctx \<Rightarrow> string" where
  "resolveNamespace h ctx =
     (let ns0 = vzNamespace (EffectiveCR ctx);
          ns1 = (case ResolveNamespaceFunc h of Some f \<Rightarrow> f ns0 | None \<Rightarrow> ns0)
      in if IgnoreNamespaceOverride h then ChartNamespace h else ns1)"

section \<open>Readiness\<close>

definition HelmIsInstalled :: "'w helm_env \<Rightarrow> 'w HelmComponent \<Rightarrow> ctx \<Rightarrow> 'w \<Rightarrow> (go_error + bool) \<times> 'w" where
  "HelmIsInstalled V h ctx =
     (if DryRun V then io_pure (Inr True)
      else io_bind (CheckIfVerrazzanoManagedNamespaceExists (Kube V) (resolveNamespace h ctx)) (\<lambda>vzManaged.
        if \<not> vzManaged then io_pure (Inr False)
        else (\<lambda>w. case IsReleaseInstalled (Helm V) (ReleaseName h) (resolveNamespace h ctx) w of
            (Inl err, w1) \<Rightarrow> (Inr False, w1)
          | (Inr installed, w1) \<Rightarrow> (Inr installed, w1))))"

definition HelmIsAvailable ::
  "'w helm_env \<Rightarrow> 'w HelmComponent \<Rightarrow> ctx \<Rightarrow> 'w \<Rightarrow> (string \<times> component_availability) \<times> 'w" where
  "HelmIsAvailable V h ctx w = (case AvailabilityObjects h of
       Some objects \<Rightarrow> ObjectsAvailable (ReadyClient V) objects w
     | None \<Rightarrow> (([], ComponentAvailable), w))"

definition HelmIsReady :: "'w helm_env \<Rightarrow> 'w HelmComponent \<Rightarrow> ctx \<Rightarrow> 'w \<Rightarrow> bool \<times> 'w" where
  "HelmIsReady V h ctx w =
     (if DryRun V then (True, w)
      else (case GetChartInfo (Helm V) (ChartDir h) w of
          (Inl err, w1) \<Rightarrow> (False, w1)
        | (Inr chartInfo, w1) \<Rightarrow>
            (let resolvedNamespace = resolveNamespace h ctx in
             case GetReleaseAppVersion (Helm V) (ReleaseName h) resolvedNamespace w1 of
               (Inl err, w2) \<Rightarrow> (False, w2)
             | (Inr releaseAppVersion, w2) \<Rightarrow>
                 (if chartAppVersion chartInfo \<noteq> releaseAppVersion then (False, w2)
                  else (case IsReleaseDeployed (Helm V) (ReleaseName h) resolvedNamespace w2 of
                      (Inl err, w3) \<Rightarrow> (False, w3)
                    | (Inr deployed, w3) \<Rightarrow> (deployed, w3))))))"

section \<open>Helm values\<close>

definition getImageOverrides :: "bom_lib \<Rightarrow> string \<Rightarrow> string \<Rightarrow> go_error + key_value list" where
  "getImageOverrides B bomPath subcomponentName =
     err_bind (NewBom B bomPath) (\<lambda>bomFile.
       if GetSubcomponentImageCount bomFile subcomponentName = 0 then Inr []
       else BuildImageOverrides B bomFile subcomponentName)"

definition file_kv :: "string \<Rightarrow> key_value" where
  "file_kv f = \<lparr>kvKey = [], kvValue = f, SetString = False, SetFile = False, IsFile = True\<rparr>"

text \<open>The loop that separates files from the values that go into one file, reading \<open>SetFile\<close> values.\<close>

fun expand_kvs ::
  "'w helm_env \<Rightarrow> key_value list \<Rightarrow> 'w \<Rightarrow> (go_error + key_value list \<times> key_value list) \<times> 'w" where
  "expand_kvs V [] = io_pure (Inr ([], []))"
| "expand_kvs V (kv # kvs) =
     (if IsFile kv then io_bind (expand_kvs V kvs) (\<lambda>(newKvs, fileValues). io_pure (Inr (kv # newKvs, fileValues)))
      else io_bind (if SetFile kv
                    then io_bind (ReadFile (Helm V) (kvValue kv)) (\<lambda>data. io_pure (Inr (kv\<lparr>kvValue := data\<rparr>)))
                    else io_pure (Inr kv)) (\<lambda>kv'.
           io_bind (expand_kvs V kvs) (\<lambda>(newKvs, fileValues). io_pure (Inr (newKvs, kv' # fileValues)))))"

definition filesFromVerrazzanoHelm ::
  "'w helm_env \<Rightarrow> 'w HelmComponent \<Rightarrow> ctx \<Rightarrow> string \<Rightarrow> key_value list \<Rightarrow> 'w \<Rightarrow> (go_error + key_value list) \<times> 'w" where
  "filesFromVerrazzanoHelm V h ctx namespace additionalValues =
     io_bind (io_pure (if \<not> IgnoreImageOverrides h then getImageOverrides (HelmBomLib V) (HelmBOMFilePath V) (ReleaseName h)
                       else Inr [])) (\<lambda>imageOverrides.
     io_bind (case AppendOverridesFunc h of
         Some f \<Rightarrow> f ctx (ReleaseName h) namespace (ChartDir h) []
       | None \<Rightarrow> io_pure (Inr [])) (\<lambda>overrideValues.
     io_bind (expand_kvs V (imageOverrides @ overrideValues @ additionalValues)) (\<lambda>(newKvs, fileValues).
     io_bind (io_pure (HelmValueFileConstructor (Helm V) fileValues)) (\<lambda>fileString.
       if length fileString > 0
       then io_bind (CreateTempFile (Files V) (''helm-overrides-verrazzano-'' @ ReleaseName h @ ''-*.yaml'') fileString)
              (\<lambda>file. io_pure (Inr (newKvs @ [file_kv file])))
       else io_pure (Inr newKvs)))))"

fun organizeHelmOverrides :: "key_value list \<Rightarrow> helm_overrides list \<Rightarrow> helm_overrides list" where
  "organizeHelmOverrides [] overrides = overrides"
| "organizeHelmOverrides (kv # kvs) overrides = organizeHelmOverrides kvs
     ((let pair = kvKey kv @ ''='' @ kvValue kv;
           none = \<lparr>SetOverrides = [], SetStringOverrides = [], SetFileOverrides = [], FileOverride = []\<rparr>
       in if SetString kv then none\<lparr>SetStringOverrides := pair\<rparr>
          else if SetFile kv then none\<lparr>SetFileOverrides := pair\<rparr>
          else if IsFile kv then none\<lparr>FileOverride := kvValue kv\<rparr>
          else none\<lparr>SetOverrides := pair\<rparr>) # overrides)"

fun user_files :: "'w helm_env \<Rightarrow> 'w HelmComponent \<Rightarrow> string list \<Rightarrow> 'w \<Rightarrow> (go_error + key_value list) \<times> 'w" where
  "user_files V h [] = io_pure (Inr [])"
| "user_files V h (overrideString # overrideStrings) =
     io_bind (CreateTempFile (Files V) (''helm-overrides-user-'' @ ReleaseName h @ ''-*.yaml'') overrideString) (\<lambda>file.
     io_bind (user_files V h overrideStrings) (\<lambda>kvs. io_pure (Inr (file_kv file # kvs))))"

definition buildCustomHelmOverrides ::
  "'w helm_env \<Rightarrow> 'w HelmComponent \<Rightarrow> ctx \<Rightarrow> string \<Rightarrow> key_value list \<Rightarrow> 'w \<Rightarrow> (go_error + helm_overrides list) \<times> 'w" where
  "buildCustomHelmOverrides V h ctx namespace additionalValues =
     io_bind (getInstallOverridesYAML (Kube V)
                (ConvertValueOverridesToV1Beta1 (GetOverrides h (V1alpha1 (Some (EffectiveCR ctx)))))
                (vzNamespace (EffectiveCR ctx))) (\<lambda>overrideStrings.
     io_bind (user_files V h overrideStrings) (\<lambda>kvs.
     io_bind (filesFromVerrazzanoHelm V h ctx namespace additionalValues) (\<lambda>newKvs.
       io_pure (Inr (organizeHelmOverrides
         (kvs @ newKvs @ (if length (ValuesFile h) > 0 then [file_kv (ValuesFile h)] else [])) [])))))"

section \<open>Left-over releases\<close>

text \<open>
  The clean-up deletes the newest of the secrets that record the revisions of a release.  An error
  of the list call is not looked at: the list is then empty.  Equal time stamps keep their order
  here.
\<close>

definition release_secrets :: "'w HelmComponent \<Rightarrow> release_secret list \<Rightarrow> release_secret list" where
  "release_secrets h items =
     filter (\<lambda>s. rsType s = ''helm.sh/release.v1'' \<and> Contains (rsName s) (''sh.helm.release.v1.'' @ ReleaseName h @ ''.'')) items"

definition cleanupLatestSecret :: "'w helm_env \<Rightarrow> 'w HelmComponent \<Rightarrow> bool \<Rightarrow> 'w \<Rightarrow> 'w" where
  "cleanupLatestSecret V h isInstall w =
     (case ListReleaseSecrets (Kube V) (ChartNamespace h) w of (r, w1) \<Rightarrow>
        (let items = (case r of Inl err \<Rightarrow> [] | Inr items \<Rightarrow> items);
             filteredHelmSecrets = release_secrets h items
         in if length filteredHelmSecrets = 0 then w1
            else (let newestFirst = sort_key (\<lambda>s. - rsCreated s) filteredHelmSecrets in
                  if length newestFirst = 1 \<and> \<not> isInstall then w1
                  else snd (DeleteReleaseSecret (Kube V) (hd newestFirst) w1))))"

definition preInstallUpgrade :: "'w helm_env \<Rightarrow> 'w HelmComponent \<Rightarrow> 'w \<Rightarrow> go_error option \<times> 'w" where
  "preInstallUpgrade V h w = (case GetReleaseStatus (Helm V) (ReleaseName h) (ChartNamespace h) w of
       (Inl err, w1) \<Rightarrow> (Some (PlainErr ''Error getting release status''), w1)
     | (Inr releaseStatus, w1) \<Rightarrow>
         (None, if releaseStatus \<noteq> ''deployed'' \<and> releaseStatus \<noteq> ''uninstalled''
                then cleanupLatestSecret V h True w1 else w1))"

section \<open>Installing\<close>

text \<open>The temporary files are removed when the function returns, whatever became of it.\<close>

definition temp_pattern :: "'w HelmComponent \<Rightarrow> string" where
  "temp_pattern h = ''helm-overrides.*-'' @ ReleaseName h @ ''-.*'' @ [CHR 0x5C] @ ''.yaml''"

definition then_clean :: "'w helm_env \<Rightarrow> 'w HelmComponent \<Rightarrow> ('w \<Rightarrow> 'r \<times> 'w) \<Rightarrow> 'w \<Rightarrow> 'r \<times> 'w" where
  "then_clean V h m w = (case m w of (r, w1) \<Rightarrow> (r, snd (RemoveTempFiles (Files V) (temp_pattern h) w1)))"

definition HelmPreInstall :: "'w helm_env \<Rightarrow> 'w HelmComponent \<Rightarrow> ctx \<Rightarrow> 'w \<Rightarrow> go_error option \<times> 'w" where
  "HelmPreInstall V h ctx w = (case preInstallUpgrade V h w of (_, w1) \<Rightarrow>
     (case PreInstallFunc h of
        Some f \<Rightarrow> f ctx (ReleaseName h) (resolveNamespace h ctx) (ChartDir h) w1
      | None \<Rightarrow> (None, w1)))"

definition HelmInstall :: "'w helm_env \<Rightarrow> 'w HelmComponent \<Rightarrow> ctx \<Rightarrow> 'w \<Rightarrow> go_error option \<times> 'w" where
  "HelmInstall V h ctx =
     (let resolvedNamespace = resolveNamespace h ctx in
      io_error (io_bind (AddGlobalImagePullSecretHelmOverride (Kube V) resolvedNamespace [] (ImagePullSecretKeyname h)) (\<lambda>kvs.
        then_clean V h (io_bind (buildCustomHelmOverrides V h ctx resolvedNamespace kvs) (\<lambda>overrides.
          HelmUpgrade (Helm V) (ReleaseName h) resolvedNamespace (ChartDir h) (WaitForInstall h) (DryRun V) overrides)))))"

definition HelmPostInstall :: "'w helm_env \<Rightarrow> 'w HelmComponent \<Rightarrow> ctx \<Rightarrow> 'w \<Rightarrow> go_error option \<times> 'w" where
  "HelmPostInstall V h ctx w0 =
     (case (case PostInstallFunc h of
         Some f \<Rightarrow> f ctx (ReleaseName h) (resolveNamespace h ctx) w0
       | None \<Rightarrow> (None, w0)) of
        (Some err, w) \<Rightarrow> (Some err, w)
      | (None, w) \<Rightarrow> (case IngressesPresent (CertClient V) (IngressNames h) w of
          (present, w1) \<Rightarrow>
            (if \<not> present then (Some (RetryableErr ''Check if Ingresses are present''), w1)
             else (case CertificatesAreReady (CertClient V) (EffectiveCR ctx) (Certificates h) w1 of
                 ((readyStatus, _), w2) \<Rightarrow>
                   (if \<not> readyStatus then (Some (RetryableErr ''Check if certificates are ready''), w2)
                    else (None, w2))))))"

section \<open>Upgrading\<close>

definition HelmPreUpgrade :: "'w helm_env \<Rightarrow> 'w HelmComponent \<Rightarrow> ctx \<Rightarrow> 'w \<Rightarrow> go_error option \<times> 'w" where
  "HelmPreUpgrade V h ctx = preInstallUpgrade V h"

text \<open>The current values of the release, written to a file that goes before the other overrides.\<close>

definition with_current_values ::
  "'w helm_env \<Rightarrow> 'w HelmComponent \<Rightarrow> string \<Rightarrow> helm_overrides list \<Rightarrow> 'w \<Rightarrow> (go_error + helm_overrides list) \<times> 'w" where
  "with_current_values V h namespace overrides =
     io_bind (GetValues (Helm V) (ReleaseName h) namespace) (\<lambda>stdout.
     io_bind (CreateTempFile (Files V) (''helm-overrides-values-'' @ ReleaseName h @ ''-*.yaml'') stdout) (\<lambda>tmpFile.
       io_pure (Inr (\<lparr>SetOverrides = [], SetStringOverrides = [], SetFileOverrides = [], FileOverride = tmpFile\<rparr> # overrides))))"

definition HelmComponentUpgrade :: "'w helm_env \<Rightarrow> 'w HelmComponent \<Rightarrow> ctx \<Rightarrow> 'w \<Rightarrow> go_error option \<times> 'w" where
  "HelmComponentUpgrade V h ctx =
     (if SkipUpgrade h then (\<lambda>w. (None, w))
      else (let resolvedNamespace = resolveNamespace h ctx in
        io_error (io_bind (IsReleaseInstalled (Helm V) (ReleaseName h) resolvedNamespace) (\<lambda>found.
          if \<not> found then io_pure (Inr ())
          else io_bind (case PreUpgradeFunc h of
                   Some f \<Rightarrow> (if UpgradePrehooksEnabled V
                             then io_unit (f (ReleaseName h) resolvedNamespace (ChartDir h)) else io_pure (Inr ()))
                 | None \<Rightarrow> io_pure (Inr ())) (\<lambda>_.
               io_bind (AddGlobalImagePullSecretHelmOverride (Kube V) resolvedNamespace [] (ImagePullSecretKeyname h)) (\<lambda>kvs.
               then_clean V h
                 (io_bind (buildCustomHelmOverrides V h ctx resolvedNamespace kvs) (\<lambda>overrides0.
                  io_bind (with_current_values V h resolvedNamespace overrides0) (\<lambda>overrides.
                  io_bind (HelmUpgrade (Helm V) (ReleaseName h) resolvedNamespace (ChartDir h) False (DryRun V) overrides)
                    (\<lambda>_. io_pure (Inr ())))))))))))"

section \<open>Uninstalling\<close>

definition HelmPreUninstall :: "'w helm_env \<Rightarrow> 'w HelmComponent \<Rightarrow> ctx \<Rightarrow> 'w \<Rightarrow> go_error option \<times> 'w" where
  "HelmPreUninstall V h ctx w = (case GetReleaseStatus (Helm V) (ReleaseName h) (ChartNamespace h) w of
     (r, w1) \<Rightarrow>
       (let releaseStatus = (case r of Inl err \<Rightarrow> [] | Inr st \<Rightarrow> st) in
        if releaseStatus = ''deployed'' \<or> releaseStatus = ''uninstalled'' then (None, w1)
        else (None, cleanupLatestSecret V h False w1)))"

definition HelmComponentUninstall :: "'w helm_env \<Rightarrow> 'w HelmComponent \<Rightarrow> ctx \<Rightarrow> 'w \<Rightarrow> go_error option \<times> 'w" where
  "HelmComponentUninstall V h ctx w = (case HelmIsInstalled V h ctx w of
       (Inl err, w1) \<Rightarrow> (Some err, w1)
     | (Inr installed, w1) \<Rightarrow>
         (if \<not> installed then (None, w1)
          else HelmUninstall (Helm V) (ReleaseName h) (resolveNamespace h ctx) (DryRun V) w1))"

section \<open>Install arguments and computed values\<close>

fun indexed_args :: "string \<Rightarrow> nat \<Rightarrow> string list \<Rightarrow> key_value list" where
  "indexed_args name i [] = []"
| "indexed_args name i (value # vs) = kv_pair (name @ ''['' @ show_nat i @ '']'') value # indexed_args name (i + 1) vs"

fun GetInstallArgs :: "install_args list \<Rightarrow> key_value list" where
  "GetInstallArgs [] = []"
| "GetInstallArgs (arg # args) =
     (if argValue arg \<noteq> [] then [(kv_pair (argName arg) (argValue arg))\<lparr>SetString := argSetString arg\<rparr>]
      else indexed_args (argName arg) 0 (argValueList arg)) @ GetInstallArgs args"

text \<open>\<open>coalesce\<close> is \<open>chartutil.CoalesceValues\<close> on the chart and the configuration of the release.\<close>

definition GetComputedValues ::
  "'w helm_env \<Rightarrow> (helm_release \<Rightarrow> go_error + yaml_map) \<Rightarrow> 'w HelmComponent \<Rightarrow> ctx \<Rightarrow> 'w \<Rightarrow> (go_error + yaml_map) \<times> 'w" where
  "GetComputedValues V coalesce h ctx =
     (let resolvedNamespace = resolveNamespace h ctx in
      io_bind (AddGlobalImagePullSecretHelmOverride (Kube V) resolvedNamespace [] (ImagePullSecretKeyname h)) (\<lambda>kvs.
      then_clean V h
        (io_bind (buildCustomHelmOverrides V h ctx resolvedNamespace kvs) (\<lambda>overrides0.
         io_bind (IsReleaseInstalled (Helm V) (ReleaseName h) resolvedNamespace) (\<lambda>found.
         io_bind (if found then with_current_values V h resolvedNamespace overrides0 else io_pure (Inr overrides0)) (\<lambda>overrides.
         io_bind (HelmUpgrade (Helm V) (ReleaseName h) resolvedNamespace (ChartDir h) True True overrides) (\<lambda>rel.
           io_pure (coalesce rel))))))))"

section \<open>The component\<close>

definition as_component :: "'w helm_env \<Rightarrow> 'w HelmComponent \<Rightarrow> 'w component" where
  "as_component V h = \<lparr>
     Name = ReleaseName h,
     Namespace = ChartNamespace h,
     GetJSONName = JSONName h,
     ShouldInstallBeforeUpgrade = InstallBeforeUpgrade h,
     GetDependencies = Dependencies h,
     GetMinVerrazzanoVersion = HelmMinVerrazzanoVersion h,
     GetIngressNames = \<lambda>ctx. IngressNames h,
     IsEnabled = \<lambda>cr. True,
     MonitorOverrides = \<lambda>ctx. True,
     IsReady = HelmIsReady V h,
     IsAvailable = HelmIsAvailable V h,
     IsOperatorInstallSupported = SupportsOperatorInstall h,
     IsInstalled = HelmIsInstalled V h,
     PreInstall = HelmPreInstall V h,
     Install = HelmInstall V h,
     PostInstall = HelmPostInstall V h,
     IsOperatorUninstallSupported = SupportsOperatorUninstall h,
     PreUninstall = HelmPreUninstall V h,
     Uninstall = HelmComponentUninstall V h,
     PostUninstall = \<lambda>ctx w. (None, w),
     PreUpgrade = HelmPreUpgrade V h,
     Upgrade = HelmComponentUpgrade V h,
     PostUpgrade = \<lambda>ctx w. (None, w),
     ReconcileComp = \<lambda>ctx w. (None, w)\<rparr>"

end
