(* ===== verification/Helm_Laws.thy ===== *)
theory Helm_Laws imports Helm_Component Conversion_Laws Uninstall_Component begin

text \<open>
  What holds of a component that is a Helm chart: which of several overrides decides a value, what
  becomes of install arguments that share an element with a reference, which releases the
  operator removes, and which revision a clean-up deletes.
\<close>

section \<open>Calls that keep files\<close>

text \<open>
  \<open>view w f\<close> is the content of the file \<open>f\<close> in the world \<open>w\<close>.  A call that
  succeeds keeps files when it changes none of those that are there; it may create others.
\<close>

definition keeps :: "('w \<Rightarrow> string \<Rightarrow> string option) \<Rightarrow> ('w \<Rightarrow> (go_error + 'a) \<times> 'w) \<Rightarrow> bool" where
  "keeps view m \<longleftrightarrow> (\<forall>w f d a w1. m w = (Inr a, w1) \<longrightarrow> view w f = Some d \<longrightarrow> view w1 f = Some d)"

named_theorems keeping \<open>calls that keep files\<close>

lemma keepsD: "keeps view m \<Longrightarrow> m w = (Inr a, w1) \<Longrightarrow> view w f = Some d \<Longrightarrow> view w1 f = Some d"
  unfolding keeps_def by blast

lemma keeps_pure [keeping]: "keeps view (io_pure r)"
  by (simp add: keeps_def)

lemma keeps_bind [keeping]: "keeps view m \<Longrightarrow> (\<And>a. keeps view (f a)) \<Longrightarrow> keeps view (io_bind m f)"
  unfolding keeps_def io_bind_Inr_iff by blast

lemma keeps_case_prod [keeping]: "(\<And>a b. keeps view (f a b)) \<Longrightarrow> keeps view (case p of (a, b) \<Rightarrow> f a b)"
  by (cases p) simp

lemma keeps_option [keeping]:
  "(o1 = None \<Longrightarrow> keeps view m) \<Longrightarrow> (\<And>x. o1 = Some x \<Longrightarrow> keeps view (f x))
    \<Longrightarrow> keeps view (case o1 of None \<Rightarrow> m | Some x \<Rightarrow> f x)"
  by (cases o1) simp_all

lemma keeps_if [keeping]: "keeps view m \<Longrightarrow> keeps view n \<Longrightarrow> keeps view (if b then m else n)"
  by simp

text \<open>
  What is relied on: a new temporary file is new and empty and is read from the disk, a write
  goes to the file it names, reading gives the content, and everything else leaves files alone.
\<close>

definition temp_files :: "'w helm_env \<Rightarrow> 'w HelmComponent \<Rightarrow> ('w \<Rightarrow> string \<Rightarrow> string option) \<Rightarrow> bool" where
  "temp_files V h view \<longleftrightarrow>
     (\<forall>p w f w1. TempCreate (Files V) p w = (Inr f, w1) \<longrightarrow>
        f \<noteq> [] \<and> TrimSpace f \<noteq> ''-'' \<and> view w f = None \<and> view w1 f = Some []
        \<and> (\<exists>s. UrlScheme (Helm V) f = Inr s \<and> ByScheme (Helm V) s = None)) \<and>
     (\<forall>p. keeps view (TempCreate (Files V) p)) \<and>
     (\<forall>f d w w1 g. TempWrite (Files V) f d w = (None, w1) \<longrightarrow> view w f = Some [] \<longrightarrow>
        view w1 g = (if g = f then Some d else view w g)) \<and>
     (\<forall>f. keeps view (io_unit (TempClose (Files V) f))) \<and>
     (\<forall>f w d w1. ReadFile (Helm V) f w = (Inr d, w1) \<longrightarrow> view w f \<noteq> None \<longrightarrow> view w f = Some d) \<and>
     (\<forall>f. keeps view (ReadFile (Helm V) f)) \<and>
     keeps view (ReadStdin (Helm V)) \<and>
     (\<forall>s g f. ByScheme (Helm V) s = Some g \<longrightarrow> keeps view (g f)) \<and>
     (\<forall>s b r. (\<forall>f. keeps view (r f)) \<longrightarrow> keeps view (StrvalsParseIntoFile (Helm V) s b r)) \<and>
     (\<forall>f c a n d kvs. AppendOverridesFunc h = Some f \<longrightarrow> keeps view (f c a n d kvs))"

lemma temp_filesD:
  assumes "temp_files V h view"
  shows "TempCreate (Files V) p w = (Inr f, w1) \<Longrightarrow> f \<noteq> [] \<and> TrimSpace f \<noteq> ''-'' \<and> view w f = None \<and> view w1 f = Some []
      \<and> (\<exists>s. UrlScheme (Helm V) f = Inr s \<and> ByScheme (Helm V) s = None)"
    and "TempWrite (Files V) f d w = (None, w1) \<Longrightarrow> view w f = Some [] \<Longrightarrow> view w1 g = (if g = f then Some d else view w g)"
    and "ReadFile (Helm V) f w = (Inr d, w1) \<Longrightarrow> view w f \<noteq> None \<Longrightarrow> view w f = Some d"
  by (fact assms[unfolded temp_files_def, THEN conjunct1, rule_format]
    | fact assms[unfolded temp_files_def, THEN conjunct2, THEN conjunct2, THEN conjunct1, rule_format]
    | fact assms[unfolded temp_files_def, THEN conjunct2, THEN conjunct2, THEN conjunct2, THEN conjunct2, THEN conjunct1, rule_format])+

lemma temp_files_keeps:
  assumes "temp_files V h view"
  shows "keeps view (TempCreate (Files V) p)" "keeps view (io_unit (TempClose (Files V) f))" "keeps view (ReadFile (Helm V) f)"
    "keeps view (ReadStdin (Helm V))" "ByScheme (Helm V) s = Some g \<Longrightarrow> keeps view (g f)"
    "(\<And>f. keeps view (r f)) \<Longrightarrow> keeps view (StrvalsParseIntoFile (Helm V) s b r)"
    "AppendOverridesFunc h = Some k \<Longrightarrow> keeps view (k c a n d kvs)"
proof -
  note facts = assms[unfolded temp_files_def, THEN conjunct2, THEN conjunct1, rule_format]
    assms[unfolded temp_files_def, THEN conjunct2, THEN conjunct2, THEN conjunct2, THEN conjunct1, rule_format]
    assms[unfolded temp_files_def, THEN conjunct2, THEN conjunct2, THEN conjunct2, THEN conjunct2, THEN conjunct2, THEN conjunct1, rule_format]
    assms[unfolded temp_files_def, THEN conjunct2, THEN conjunct2, THEN conjunct2, THEN conjunct2, THEN conjunct2, THEN conjunct2, THEN conjunct1, rule_format]
    assms[unfolded temp_files_def, THEN conjunct2, THEN conjunct2, THEN conjunct2, THEN conjunct2, THEN conjunct2, THEN conjunct2, THEN conjunct2, THEN conjunct1, rule_format]
    assms[unfolded temp_files_def, THEN conjunct2, THEN conjunct2, THEN conjunct2, THEN conjunct2, THEN conjunct2, THEN conjunct2, THEN conjunct2, THEN conjunct2, THEN conjunct1, rule_format]
    assms[unfolded temp_files_def, THEN conjunct2, THEN conjunct2, THEN conjunct2, THEN conjunct2, THEN conjunct2, THEN conjunct2, THEN conjunct2, THEN conjunct2, THEN conjunct2, rule_format]
  show "keeps view (TempCreate (Files V) p)" by (fact facts(1))
  show "keeps view (io_unit (TempClose (Files V) f))" by (fact facts(2))
  show "keeps view (ReadFile (Helm V) f)" by (fact facts(3))
  show "keeps view (ReadStdin (Helm V))" by (fact facts(4))
  show "ByScheme (Helm V) s = Some g \<Longrightarrow> keeps view (g f)" by (fact facts(5))
  show "(\<And>f. keeps view (r f)) \<Longrightarrow> keeps view (StrvalsParseIntoFile (Helm V) s b r)" by (fact facts(6))
  show "AppendOverridesFunc h = Some k \<Longrightarrow> keeps view (k c a n d kvs)" by (fact facts(7))
qed

text \<open>A file that is created is new, holds what was asked for, and the others are as they were.\<close>

lemma created:
  assumes t: "temp_files V h view" and c: "CreateTempFile (Files V) p d w = (Inr f, w1)"
  shows "view w1 f = Some d" "f \<noteq> []" "TrimSpace f \<noteq> ''-''" "\<exists>s. UrlScheme (Helm V) f = Inr s \<and> ByScheme (Helm V) s = None"
    and "view w g = Some e \<Longrightarrow> view w1 g = Some e"
proof -
  from c obtain wa wb where a: "TempCreate (Files V) p w = (Inr f, wa)" and b: "TempWrite (Files V) f d wa = (None, wb)"
    and e: "io_unit (TempClose (Files V) f) wb = (Inr (), w1)"
    by (auto simp: CreateTempFile_def io_bind_Inr_iff io_unit_Inr_iff)
  note fresh = temp_filesD(1) [OF t a]
  have wr: "view wb g = (if g = f then Some d else view wa g)" for g
    using temp_filesD(2) [OF t b] fresh by blast
  have kept: "view wb g = Some e \<Longrightarrow> view w1 g = Some e" for g e
    using temp_files_keeps(2) [OF t] e by (rule keepsD)
  from kept [of f d] wr [of f] show "view w1 f = Some d" by simp
  from fresh show "f \<noteq> []" "TrimSpace f \<noteq> ''-''" "\<exists>s. UrlScheme (Helm V) f = Inr s \<and> ByScheme (Helm V) s = None" by auto
  assume g: "view w g = Some e"
  with fresh have "g \<noteq> f" by auto
  moreover have "view wa g = Some e" using temp_files_keeps(1) [OF t] a g by (rule keepsD)
  ultimately show "view w1 g = Some e" using wr [of g] kept [of g e] by simp
qed

lemma keeps_CreateTempFile: "temp_files V h view \<Longrightarrow> keeps view (CreateTempFile (Files V) p d)"
  unfolding keeps_def by (intro allI impI) (rule created(5))

lemma keeps_readFile:
  assumes "temp_files V h view"
  shows "keeps view (readFile (Helm V) f)"
  unfolding readFile_def
  by (intro keeping temp_files_keeps(3,4) [OF assms]) (rule temp_files_keeps(5) [OF assms])

lemma keeps_merge_override:
  assumes "temp_files V h view"
  shows "keeps view (merge_override (Helm V) ov b)"
  unfolding merge_override_def by (intro keeping keeps_readFile [OF assms] temp_files_keeps(6) [OF assms])

lemma keeps_merge_overrides:
  assumes "temp_files V h view"
  shows "keeps view (merge_overrides (Helm V) ovs b)"
proof (induction ovs arbitrary: b)
  case (Cons ov ovs)
  then show ?case by (simp add: keeps_bind keeps_merge_override [OF assms])
qed (simp add: keeps_pure)

lemma keeps_expand_kvs:
  assumes "temp_files V h view"
  shows "keeps view (expand_kvs V kvs)"
proof (induction kvs)
  case (Cons kv kvs)
  then show ?case
    unfolding expand_kvs.simps by (intro keeping temp_files_keeps(3) [OF assms])
qed (simp add: keeps_pure)

lemma keeps_filesFromVerrazzanoHelm:
  assumes "temp_files V h view"
  shows "keeps view (filesFromVerrazzanoHelm V h ctx ns kvs)"
  unfolding filesFromVerrazzanoHelm_def
  by (intro keeping keeps_expand_kvs [OF assms] keeps_CreateTempFile [OF assms]) (rule temp_files_keeps(7) [OF assms])

section \<open>The order of overrides\<close>

definition file_override :: "string \<Rightarrow> helm_overrides" where
  "file_override f = \<lparr>SetOverrides = [], SetStringOverrides = [], SetFileOverrides = [], FileOverride = f\<rparr>"

lemma organize_append: "organizeHelmOverrides (xs @ ys) acc = organizeHelmOverrides ys (organizeHelmOverrides xs acc)"
  by (induction xs acc rule: organizeHelmOverrides.induct) (simp_all add: Let_def)

lemma organize_acc: "organizeHelmOverrides xs acc = organizeHelmOverrides xs [] @ acc"
proof (induction xs arbitrary: acc rule: rev_induct)
  case (snoc x xs)
  show ?case unfolding organize_append using snoc [of acc] by (simp add: Let_def)
qed simp

lemma organize_files: "organizeHelmOverrides (map file_kv fs) [] = map file_override (rev fs)"
proof (induction fs)
  case (Cons f fs)
  then show ?case by (simp add: organize_acc [of _ "[_]"] file_kv_def file_override_def)
qed simp

lemma merge_overrides_append:
  "merge_overrides H (xs @ ys) b w = io_bind (merge_overrides H xs b) (merge_overrides H ys) w"
proof (induction xs arbitrary: b w)
  case Nil
  then show ?case by (simp add: io_bind_def io_pure_def)
next
  case (Cons x xs)
  show ?case
    by (cases "merge_override H x b w"; cases "fst (merge_override H x b w)")
      (auto simp: Cons.IH io_bind_def split: prod.splits sum.splits)
qed

text \<open>A file that holds a text and is read from the disk.\<close>

definition holds :: "'w helm_env \<Rightarrow> ('w \<Rightarrow> string \<Rightarrow> string option) \<Rightarrow> 'w \<Rightarrow> string \<Rightarrow> string \<Rightarrow> bool" where
  "holds V view w f t \<longleftrightarrow> view w f = Some t \<and> f \<noteq> [] \<and> TrimSpace f \<noteq> ''-''
     \<and> (\<exists>s. UrlScheme (Helm V) f = Inr s \<and> ByScheme (Helm V) s = None)"

lemma holds_kept:
  "list_all2 (holds V view w) fs ts \<Longrightarrow> keeps view m \<Longrightarrow> m w = (Inr a, w1) \<Longrightarrow> list_all2 (holds V view w1) fs ts"
  by (erule list_all2_mono) (auto simp: holds_def intro: keepsD)

lemma created_holds:
  "temp_files V h view \<Longrightarrow> CreateTempFile (Files V) p d w = (Inr f, w1) \<Longrightarrow> holds V view w1 f d"
  unfolding holds_def by (intro conjI created)

lemma readFile_holds:
  assumes "temp_files V h view" and "readFile (Helm V) f w = (Inr d, w1)" and "holds V view w f t"
  shows "d = t"
proof -
  from assms(3) obtain s where f: "view w f = Some t" "TrimSpace f \<noteq> ''-''" "UrlScheme (Helm V) f = Inr s" "ByScheme (Helm V) s = None"
    by (auto simp: holds_def)
  with assms(2) have "ReadFile (Helm V) f w = (Inr d, w1)" by (auto simp: readFile_def io_bind_def io_pure_def)
  from temp_filesD(3) [OF assms(1) this] f show ?thesis by simp
qed

lemma user_files_hold:
  assumes "temp_files V h view" and "user_files V h ts w = (Inr kvs, w1)"
  shows "\<exists>fs. kvs = map file_kv fs \<and> list_all2 (holds V view w1) fs ts"
  using assms(2)
proof (induction ts arbitrary: kvs w)
  case (Cons t ts)
  from Cons.prems obtain f wa kvs' where c: "CreateTempFile (Files V) (''helm-overrides-user-'' @ ReleaseName h @ ''-*.yaml'') t w = (Inr f, wa)"
    and u: "user_files V h ts wa = (Inr kvs', w1)" and k: "kvs = file_kv f # kvs'"
    by (auto simp: io_bind_Inr_iff)
  from Cons.IH [OF u] obtain fs where fs: "kvs' = map file_kv fs" "list_all2 (holds V view w1) fs ts" by blast
  have kp: "keeps view (user_files V h ts)"
    by (induction ts) (auto simp: keeps_pure intro!: keeps_bind keeps_CreateTempFile [OF assms(1)])
  have "list_all2 (holds V view w1) [f] [t]"
    by (rule holds_kept [OF _ kp u]) (simp add: created_holds [OF assms(1) c])
  with fs k have "kvs = map file_kv (f # fs) \<and> list_all2 (holds V view w1) (f # fs) (t # ts)" by simp
  then show ?case by blast
qed simp

lemma merge_files:
  assumes "temp_files V h view"
  shows "merge_overrides (Helm V) (map file_override fs) b w = (Inr vals, w1) \<Longrightarrow> list_all2 (holds V view w) fs ts
    \<Longrightarrow> \<exists>ms. list_all2 (\<lambda>t m. UnmarshalMap (HelmYaml (Helm V)) t = Inr m) ts ms \<and> vals = foldl MergeMaps b ms"
proof (induction fs arbitrary: b w ts)
  case (Cons f fs)
  from Cons.prems(2) obtain t ts' where ts: "ts = t # ts'" "holds V view w f t" "list_all2 (holds V view w) fs ts'"
    by (auto simp: list_all2_Cons1)
  then have f: "f \<noteq> []" by (simp add: holds_def)
  from Cons.prems(1) obtain b1 wa where m: "merge_override (Helm V) (file_override f) b w = (Inr b1, wa)"
    and r: "merge_overrides (Helm V) (map file_override fs) b1 wa = (Inr vals, w1)"
    by (auto simp: io_bind_Inr_iff)
  from m f obtain d md where d: "readFile (Helm V) f w = (Inr d, wa)" "UnmarshalMap (HelmYaml (Helm V)) d = Inr md" "b1 = MergeMaps b md"
    by (auto simp: merge_override_def file_override_def io_bind_Inr_iff)
  with readFile_holds [OF assms d(1) ts(2)] have u: "UnmarshalMap (HelmYaml (Helm V)) t = Inr md" by simp
  from Cons.IH [OF r holds_kept [OF ts(3) keeps_merge_override [OF assms] m]] obtain ms
    where "list_all2 (\<lambda>t m. UnmarshalMap (HelmYaml (Helm V)) t = Inr m) ts' ms" "vals = foldl MergeMaps b1 ms" by blast
  with u d ts have "list_all2 (\<lambda>t m. UnmarshalMap (HelmYaml (Helm V)) t = Inr m) ts (md # ms) \<and> vals = foldl MergeMaps b (md # ms)"
    by simp
  then show ?case by blast
qed simp

lemma later_silent:
  "\<forall>m \<in> set ms. wf_map m \<and> \<not> says m p \<Longrightarrow> at_path (foldl MergeMaps b ms) p = at_path b p"
  by (induction ms arbitrary: b) (simp_all add: merge_unsaid)

text \<open>C21. Of several overrides in a component's section the first one that says something about a value decides it,
  against those after it, the operator's own values and the values file of the chart.  The documentation of the
  API promises the opposite (\<open>verrazzano_types.go\<close> of both versions: in the event of conflicting fields, the last
  override in the list takes precedence over any others), so wherever two overrides conflict the code
  departs from it.\<close>

theorem first_override_wins:
  assumes "temp_files V h view"
    and "getInstallOverridesYAML (Kube V) (ConvertValueOverridesToV1Beta1 (GetOverrides h (V1alpha1 (Some (EffectiveCR ctx)))))
      (vzNamespace (EffectiveCR ctx)) w = (Inr (before @ text # after), w0)"
    and "\<forall>t \<in> set before. \<forall>m. UnmarshalMap (HelmYaml (Helm V)) t = Inr m \<longrightarrow> wf_map m \<and> \<not> says m p"
    and "UnmarshalMap (HelmYaml (Helm V)) text = Inr m" "wf_map m" "at_path m p = Some v" "\<not> is_mapping v"
    and "io_bind (buildCustomHelmOverrides V h ctx ns kvs) (mergeValues (Helm V)) w = (Inr vals, w')"
  shows "at_path vals p = Some v"
proof -
  note t = assms(1)
  let ?U = "\<lambda>t m. UnmarshalMap (HelmYaml (Helm V)) t = Inr m"
  from assms(8) assms(2) obtain us w1 new w2 os w3 where
    u: "user_files V h (before @ text # after) w0 = (Inr us, w1)"
    and n: "filesFromVerrazzanoHelm V h ctx ns kvs w1 = (Inr new, w2)"
    and m: "merge_overrides (Helm V)
      (organizeHelmOverrides (us @ new @ (if length (ValuesFile h) > 0 then [file_kv (ValuesFile h)] else [])) []) [] w2 = (Inr vals, w')"
    by (auto simp: buildCustomHelmOverrides_def mergeValues_def io_bind_Inr_iff)
  define rest where "rest = new @ (if length (ValuesFile h) > 0 then [file_kv (ValuesFile h)] else [])"
  from user_files_hold [OF t u] obtain fs where fs: "us = map file_kv fs" "list_all2 (holds V view w1) fs (before @ text # after)"
    by blast
  from holds_kept [OF fs(2) keeps_filesFromVerrazzanoHelm [OF t] n]
  have f2: "list_all2 (holds V view w2) fs (before @ text # after)" .
  have "organizeHelmOverrides (us @ rest) [] = organizeHelmOverrides rest [] @ map file_override (rev fs)"
    unfolding organize_append fs(1) organize_files by (rule organize_acc)
  with m obtain b w4 where r: "merge_overrides (Helm V) (organizeHelmOverrides rest []) [] w2 = (Inr b, w4)"
    and l: "merge_overrides (Helm V) (map file_override (rev fs)) b w4 = (Inr vals, w')"
    by (auto simp: rest_def merge_overrides_append io_bind_Inr_iff)
  from holds_kept [OF f2 keeps_merge_overrides [OF t] r]
  have "list_all2 (holds V view w4) (rev fs) (rev (before @ text # after))" by (simp only: list_all2_rev)
  from merge_files [OF t l this] obtain ms where ms: "list_all2 ?U (rev after @ text # rev before) ms" "vals = foldl MergeMaps b ms"
    by auto
  then obtain as bs where s: "ms = as @ m # bs" "list_all2 ?U (rev before) bs"
    using assms(4) by (auto simp: list_all2_append1 list_all2_Cons1)
  have "\<forall>x \<in> set bs. \<exists>t \<in> set before. ?U t x"
    using s(2) by (auto simp: list_all2_conv_all_nth in_set_conv_nth) (metis length_rev nth_mem set_rev)
  with assms(3) have "\<forall>x \<in> set bs. wf_map x \<and> \<not> says x p" by blast
  moreover have "vals = foldl MergeMaps (MergeMaps (foldl MergeMaps b as) m) bs" by (simp add: ms(2) s(1))
  ultimately show ?thesis using merge_said [OF assms(5,6,7)] by (simp add: later_silent)
qed

section \<open>A file system in memory\<close>

text \<open>A library that keeps its files in an association list, to run the component on.\<close>

type_synonym files = "(string \<times> string) list"

definition fresh_file :: "files \<Rightarrow> string" where
  "fresh_file w = replicate (Suc (sum_list (map (\<lambda>e. length (fst e)) w))) (CHR ''f'')"

definition sample_kube :: "files helm_kube" where
  "sample_kube = \<lparr>GetConfigMapData = \<lambda>ns n w. (Inr (\<lambda>k. Some (n @ k)), w), GetSecretData = \<lambda>ns n w. (Inr (\<lambda>k. Some (n @ k)), w),
     GetPullSecret = \<lambda>ns n w. (Inl (NotFoundErr n), w), CreateOrUpdateSecret = \<lambda>ns n d w. (None, w), GetCoreV1 = \<lambda>w. (None, w),
     GetNamespaceLabels = \<lambda>n w. (Inr (\<lambda>k. Some ''true''), w), ListReleaseSecrets = \<lambda>n w. (Inr [], w),
     DeleteReleaseSecret = \<lambda>s w. (None, w), MarshalValues = Inr\<rparr>"

definition sample_helm :: "string \<Rightarrow> files helm_lib" where
  "sample_helm status = \<lparr>InitAction = \<lambda>n d m w. (None, w), HelmDriver = [],
     RunStatus = \<lambda>ns n w. (Inr \<lparr>relName = n, relNamespace = ns, relStatus = status, relAppVersion = ''1''\<rparr>, w),
     RunList = \<lambda>ns w. (Inr [], w), RunGetValues = \<lambda>ns n w. (Inr [], w),
     RunInstall = \<lambda>a c m w. (Inr \<lparr>relName = actReleaseName a, relNamespace = actNamespace a, relStatus = ''deployed'', relAppVersion = ''1''\<rparr>, w),
     RunUpgrade = \<lambda>a n c m w. (Inr \<lparr>relName = n, relNamespace = actNamespace a, relStatus = ''deployed'', relAppVersion = ''1''\<rparr>, w),
     RunUninstall = \<lambda>ns d n w. (None, w), LoadChart = \<lambda>c w. (Inr c, w), ReadStdin = \<lambda>w. (Inr [], w),
     UrlScheme = \<lambda>u. Inr [], ByScheme = \<lambda>s. None,
     ReadFile = \<lambda>f w. (case map_of w f of None \<Rightarrow> Inl (NotFoundErr f) | Some d \<Rightarrow> Inr d, w),
     HelmYaml = \<lparr>UnmarshalMap = \<lambda>t. Inr [(''replicas'', Scalar t)], MarshalMap = \<lambda>m. Inr ''{}''\<rparr>,
     UnmarshalChart = \<lambda>t. Inr \<lparr>chartAPIVersion = [], chartDescription = [], chartName = [], chartVersion = [], chartAppVersion = ''1''\<rparr>,
     StrvalsParseInto = \<lambda>s m. Inr m, StrvalsParseIntoString = \<lambda>s m. Inr m,
     StrvalsParseIntoFile = \<lambda>s m r w. (Inr m, w)\<rparr>"

definition sample_files :: "files file_lib" where
  "sample_files = \<lparr>TempCreate = \<lambda>p w. (Inr (fresh_file w), (fresh_file w, []) # w), TempWrite = \<lambda>f d w. (None, (f, d) # w),
     TempClose = \<lambda>f w. (None, w), ReadTempDir = \<lambda>w. (Inr (map (\<lambda>e. (fst e, False)) w), w), CompileRegexp = \<lambda>r. Inr (\<lambda>f. True),
     TempDir = [], TempRemove = \<lambda>f w. (None, filter (\<lambda>e. fst e \<noteq> tl f) w)\<rparr>"

definition sample_helm_env :: "string \<Rightarrow> files helm_env" where
  "sample_helm_env status = \<lparr>Helm = sample_helm status, Files = sample_files, Kube = sample_kube,
     ReadyClient = \<lparr>GetDeployment = \<lambda>n w. (Inl (NotFoundErr []), w), ListDeployments = \<lambda>s w. (Inr [], w),
       GetStatefulSet = \<lambda>n w. (Inl (NotFoundErr []), w), ListStatefulSets = \<lambda>s w. (Inr [], w),
       GetDaemonSet = \<lambda>n w. (Inl (NotFoundErr []), w), GetReplicaSetAnnotations = \<lambda>n w. (Inl (NotFoundErr []), w),
       GetControllerRevision = \<lambda>n w. (Inl (NotFoundErr []), w), ListPods = \<lambda>n s w. (Inr [], w),
       LabelSelectorAsSelector = \<lambda>s. Inr []\<rparr>,
     CertClient = \<lparr>GetIngress = \<lambda>n w. (None, w), GetCertificate = \<lambda>n w. (Inr [], w)\<rparr>,
     HelmBomLib = sample_bom_lib, HelmBOMFilePath = [], DryRun = False, UpgradePrehooksEnabled = True\<rparr>"

definition sample_chart :: "overrides list \<Rightarrow> files HelmComponent" where
  "sample_chart os = \<lparr>ReleaseName = ''velero'', JSONName = ''velero'', ChartDir = ''/charts/velero'', ChartNamespace = ''verrazzano-backup'',
     IgnoreNamespaceOverride = True, IgnoreImageOverrides = True, ValuesFile = [], InstallBeforeUpgrade = False,
     PreInstallFunc = None, PostInstallFunc = None, PreUpgradeFunc = None, AppendOverridesFunc = None,
     GetInstallOverridesFunc = Some (\<lambda>cr. os), ResolveNamespaceFunc = None, SupportsOperatorInstall = True,
     SupportsOperatorUninstall = True, WaitForInstall = False, ImagePullSecretKeyname = [], Dependencies = [],
     SkipUpgrade = False, MinVerrazzanoVersion = [], IngressNames = [], Certificates = [], AvailabilityObjects = None\<rparr>"

lemma fresh_file_new: "map_of w (fresh_file w) = None"
proof -
  have "length (fst e) < length (fresh_file w)" if "e \<in> set w" for e
    using member_le_sum_list [of "length (fst e)" "map (\<lambda>e. length (fst e)) w"] that by (auto simp: fresh_file_def)
  then have "fresh_file w \<notin> fst ` set w" by fastforce
  then show ?thesis by (simp add: map_of_eq_None_iff)
qed

lemma sample_temp_files: "temp_files (sample_helm_env status) (sample_chart os) map_of"
proof -
  have t: "TrimSpace (fresh_file w) \<noteq> ''-''" "fresh_file w \<noteq> []" for w
  proof -
    have "TrimSpace (fresh_file w) = fresh_file w" by (rule TrimSpace_absent) (auto simp: fresh_file_def is_space_def)
    then show "TrimSpace (fresh_file w) \<noteq> ''-''" by (simp add: fresh_file_def)
  qed (simp add: fresh_file_def)
  show ?thesis
    by (simp add: temp_files_def sample_helm_env_def sample_files_def sample_helm_def sample_chart_def keeps_def io_unit_def t
        fresh_file_new) (auto simp: fresh_file_new)
qed

definition two_overrides :: "overrides list" where
  "two_overrides = [\<lparr>ConfigMapRef = None, SecretRef = None, Values = Some ''2''\<rparr>,
     \<lparr>ConfigMapRef = None, SecretRef = None, Values = Some ''3''\<rparr>]"

definition sample_ctx :: ctx where
  "sample_ctx = \<lparr>ActualCR = zero_cr zero_alpha, EffectiveCR = zero_cr zero_alpha\<rparr>"

theorem first_override_wins_witness:
  "\<exists>vals w'. io_bind (buildCustomHelmOverrides (sample_helm_env ''deployed'') (sample_chart two_overrides) sample_ctx ''ns'' [])
       (mergeValues (Helm (sample_helm_env ''deployed''))) [] = (Inr vals, w')
     \<and> at_path vals [''replicas''] = Some (Scalar ''2'')"
proof -
  let ?V = "sample_helm_env ''deployed''" and ?h = "sample_chart two_overrides"
  let ?r = "io_bind (buildCustomHelmOverrides ?V ?h sample_ctx ''ns'' []) (mergeValues (Helm ?V)) []"
  have "\<not> isl (fst ?r)" by code_simp
  then obtain vals w' where r: "?r = (Inr vals, w')" by (cases ?r; cases "fst ?r") auto
  have y: "getInstallOverridesYAML (Kube ?V) (ConvertValueOverridesToV1Beta1 (GetOverrides ?h (V1alpha1 (Some (EffectiveCR sample_ctx)))))
      (vzNamespace (EffectiveCR sample_ctx)) [] = (Inr ([] @ ''2'' # [''3'']), [])" by code_simp
  have "at_path vals [''replicas''] = Some (Scalar ''2'')"
    by (rule first_override_wins [OF sample_temp_files y _ _ _ _ _ r, where m = "[(''replicas'', Scalar ''2'')]"])
      (simp_all add: sample_helm_env_def sample_helm_def wf_map_def)
  with r show ?thesis by blast
qed

section \<open>Install arguments beside a reference\<close>

text \<open>Install arguments are stored in the first override of the component.  When that override is a
  reference to a config map or a secret, the element then holds two kinds: the webhook of the stored
  version would reject it, and what Helm is given is the data of the reference alone, as if there were
  no arguments.\<close>

lemma args_on_reference_lost:
  assumes "ConvertInstallOverridesWithArgsToV1Beta1 L args (mc, override # os) = Inr (mc', os')"
    and "args \<noteq> []" and "Values override = None" and "\<forall>y. ToJSON L y \<noteq> Inr []"
    and "ConfigMapRef override \<noteq> None \<or> SecretRef override \<noteq> None"
  shows "BetaValidateInstallOverrides os' \<noteq> None
    \<and> getInstallOverridesYAML K os' ns w = getInstallOverridesYAML K (override # os) ns w"
proof -
  from assms(1,2) obtain y o1 where c: "createValueOverride L y = Inr o1" and p: "put_first L o1 (override # os) = Inr os'"
    by (auto simp: ConvertInstallOverridesWithArgsToV1Beta1_def convertInstallOverridesToV1Beta1_def ConvertValueOverrides_id
        err_bind_Inr_iff)
  from c obtain v where v: "Values o1 = Some v" and j: "ToJSON L y = Inr v"
    by (auto simp: createValueOverride_def err_bind_Inr_iff)
  from j assms(4) have n: "v \<noteq> []" by metis
  with v p assms(3) have o: "os' = override\<lparr>Values := Some v\<rparr> # os"
    by (simp add: put_first_def isOverrideValueUnset_def)
  have "BetaValidateInstallOverrides os' \<noteq> None"
    using assms(5) by (auto simp: o BetaValidateInstallOverrides_def fail_def)
  moreover have "getInstallOverridesYAML K os' ns w = getInstallOverridesYAML K (override # os) ns w"
    using assms(5) by (cases "ConfigMapRef override"; cases "SecretRef override") (simp_all add: o Let_def)
  ultimately show ?thesis ..
qed

definition braces_convert_lib :: convert_lib where
  "braces_convert_lib = sample_convert_lib\<lparr>ToJSON := \<lambda>y. Inr (''{'' @ y @ ''}'')\<rparr>"

lemma braces_ToJSON: "ToJSON braces_convert_lib y = Inr (''{'' @ y @ ''}'')"
  by (simp add: braces_convert_lib_def)

lemma args_on_reference_lost_witness:
  "\<exists>mc' os'. ConvertInstallOverridesWithArgsToV1Beta1 braces_convert_lib
       [\<lparr>argName = ''replicas'', argValue = ''3'', argSetString = False, argValueList = []\<rparr>]
       (None, [\<lparr>ConfigMapRef = Some \<lparr>selName = ''m'', selKey = ''k'', selOptional = None\<rparr>, SecretRef = None, Values = None\<rparr>]) = Inr (mc', os')
     \<and> BetaValidateInstallOverrides os' \<noteq> None \<and> getInstallOverridesYAML sample_kube os' ''ns'' [] = (Inr [''mk''], [])"
proof -
  let ?L = braces_convert_lib
  let ?a = "[\<lparr>argName = ''replicas'', argValue = ''3'', argSetString = False, argValueList = []\<rparr>]"
  let ?o = "\<lparr>ConfigMapRef = Some \<lparr>selName = ''m'', selKey = ''k'', selOptional = None\<rparr>, SecretRef = None, Values = None\<rparr>"
  have y: "args_yamls ?a = Inr [''replicas: 3'']" by code_simp
  have c: "convertInstallArgsToYaml ?L ?a = Inr ''replicas: 3''"
    by (simp add: convertInstallArgsToYaml_def y ReplacementMerge_def del: args_yamls.simps)
  have r: "ConvertInstallOverridesWithArgsToV1Beta1 ?L ?a (None, [?o]) = Inr (None, [?o\<lparr>Values := Some ''{replicas: 3}''\<rparr>])"
    by (simp add: ConvertInstallOverridesWithArgsToV1Beta1_def convertInstallOverridesToV1Beta1_def ConvertValueOverrides_id
        c braces_ToJSON createValueOverride_def put_first_def isOverrideValueUnset_def Let_def)
  have g: "getInstallOverridesYAML sample_kube [?o] ''ns'' [] = (Inr [''mk''], [])" by code_simp
  from args_on_reference_lost [OF r, of sample_kube "''ns''" "[]"] g r show ?thesis by (auto simp: braces_ToJSON)
qed

section \<open>Releases that are not deployed\<close>

text \<open>\<open>not_deployed\<close>: the namespace is the operator's own, and asking Helm for the release fails or gives
  another status than deployed.\<close>

definition not_deployed :: "'w helm_env \<Rightarrow> 'w HelmComponent \<Rightarrow> ctx \<Rightarrow> 'w \<Rightarrow> 'w \<Rightarrow> bool" where
  "not_deployed V h ctx w w' \<longleftrightarrow> (\<exists>w1.
     CheckIfVerrazzanoManagedNamespaceExists (Kube V) (resolveNamespace h ctx) w = (Inr True, w1) \<and>
     (\<exists>r. release_status (Helm V) (ReleaseName h) (resolveNamespace h ctx) w1 = (r, w') \<and> r \<noteq> Inr (Some ''deployed'')))"

lemma not_deployed_installed:
  "not_deployed V h ctx w w' \<Longrightarrow> \<not> DryRun V \<Longrightarrow> HelmIsInstalled V h ctx w = (Inr False, w')"
  by (auto simp: not_deployed_def HelmIsInstalled_def IsReleaseInstalled_def io_bind_def io_pure_def ChartStatusDeployed_def
      split: sum.split option.split)

lemma not_deployed_uninstall:
  "not_deployed V h ctx w w' \<Longrightarrow> \<not> DryRun V \<Longrightarrow> HelmComponentUninstall V h ctx w = (None, w')"
  by (simp add: HelmComponentUninstall_def not_deployed_installed)

text \<open>C22. A release that is there but not deployed, say because its last upgrade failed, or whose status Helm
  cannot tell, is not uninstalled: the machine goes to its end and reports the component done after
  asking for the namespace and the release only.\<close>

theorem undeployed_release_left:
  assumes "SupportsOperatorUninstall h" and "\<not> DryRun V"
    and "IsClusterProvisionedByRancher E (World s) = (Inr rancher, w)" and "ReleaseName h = ''rancher'' \<longrightarrow> \<not> rancher"
    and "not_deployed V h \<lparr>ActualCR = CR s, EffectiveCR = eff\<rparr> w w'"
  shows "uninstallSingleComponent E eff (as_component V h) new_uninstall_context s =
    Ret ((no_requeue, None), new_uninstall_context\<lparr>uninstallState := compStateUninstallEnd\<rparr>, s\<lparr>World := w'\<rparr>)"
proof -
  let ?s1 = "s\<lparr>World := w\<rparr>" and ?t = "new_uninstall_context\<lparr>uninstallState := compStateUninstallEnd\<rparr>"
  have i: "call_ctx (HelmIsInstalled V h) eff ?s1 = (Inr False, s\<lparr>World := w'\<rparr>)"
    using not_deployed_installed [OF assms(5,2)] by (simp add: call_ctx_def)
  have "uninstall_step E eff (as_component V h) rancher (new_uninstall_context, ?s1) = Inl (?t, s\<lparr>World := w'\<rparr>)"
    using assms(1,4) i by (auto simp: uninstall_step_def as_component_def new_uninstall_context_def)
  moreover have "uninstall_step E eff (as_component V h) rancher (?t, s\<lparr>World := w'\<rparr>) =
      leave no_requeue None ?t (s\<lparr>World := w'\<rparr>)"
    by (simp add: uninstall_step_def)
  ultimately show ?thesis
    using assms(3) by (simp add: uninstallSingleComponent_def call_world_def loop_res_Inl loop_res_Inr leave_def)
qed

definition files_env :: "files env" where
  "files_env = \<lparr>RegisteredComponents = [], Yaml = sample_yaml, ProfileLib = plain_lib,
     ProfilePath = \<lambda>p. p, Now = \<lambda>w. ''now'', IntnRange = \<lambda>lo hi. lo,
     BomComponentVersion = \<lambda>n. None, CurrentBomVersion = Inl (PlainErr ''no bom''),
     ListIngresses = \<lambda>w. (Inr [], w), IsClusterProvisionedByRancher = \<lambda>w. (Inr False, w),
     ConfigureAuthProviders = \<lambda>c w. (None, w), ConfigureKeycloakOIDC = \<lambda>c w. (None, w),
     createRancherIngressAndCertCopies = \<lambda>c w. w, ListSecrets = \<lambda>p w. (Inr [], w), DeleteSecret = \<lambda>x w. (None, w),
     RestartComponents = \<lambda>g w. (None, w), RestartApps = \<lambda>g w. (None, w), PostUpgradeCleanup = \<lambda>w. (None, w)\<rparr>"

definition files_sys :: "files sys" where
  "files_sys = \<lparr>CR = zero_cr zero_alpha, Sent = [], World = [], Cache = Map.empty, Watched = \<lambda>n. False,
     Initialized = \<lambda>n. False, installTrackerMap = Map.empty, upgradeTrackerMap = Map.empty,
     UninstallTrackerMap = Map.empty, systemNamespaceLabels = []\<rparr>"

theorem undeployed_release_left_witness:
  "uninstallSingleComponent files_env (zero_cr zero_alpha) (as_component (sample_helm_env ''failed'') (sample_chart []))
     new_uninstall_context files_sys =
   Ret ((no_requeue, None), new_uninstall_context\<lparr>uninstallState := compStateUninstallEnd\<rparr>, files_sys)"
proof -
  have "release_status (sample_helm ''failed'') ''velero'' ''verrazzano-backup'' [] = (Inr (Some ''failed''), [])"
    by (simp add: release_status_def sample_helm_def getActionConfig_def io_bind_def io_unit_def)
  moreover have "CheckIfVerrazzanoManagedNamespaceExists sample_kube ''verrazzano-backup'' [] = (Inr True, [])"
    by (simp add: CheckIfVerrazzanoManagedNamespaceExists_def sample_kube_def io_bind_def io_unit_def)
  ultimately have n: "not_deployed (sample_helm_env ''failed'') (sample_chart []) \<lparr>ActualCR = CR files_sys, EffectiveCR = zero_cr zero_alpha\<rparr> [] []"
    by (simp add: not_deployed_def sample_helm_env_def sample_chart_def resolveNamespace_def)
  have "files_sys\<lparr>World := []\<rparr> = files_sys" by (simp add: files_sys_def)
  moreover have "uninstallSingleComponent files_env (zero_cr zero_alpha) (as_component (sample_helm_env ''failed'') (sample_chart []))
     new_uninstall_context files_sys =
   Ret ((no_requeue, None), new_uninstall_context\<lparr>uninstallState := compStateUninstallEnd\<rparr>, files_sys\<lparr>World := []\<rparr>)"
    by (rule undeployed_release_left [OF _ _ _ _ n, where rancher = False])
      (simp_all add: sample_chart_def sample_helm_env_def files_env_def files_sys_def)
  ultimately show ?thesis by simp
qed

text \<open>An upgrade passes such a release over in the same way.\<close>

lemma undeployed_release_not_upgraded:
  assumes "\<not> SkipUpgrade h"
    and "release_status (Helm V) (ReleaseName h) (resolveNamespace h ctx) w = (Inr st, w')" and "st \<noteq> Some ''deployed''"
  shows "HelmComponentUpgrade V h ctx w = (None, w')"
  using assms by (auto simp: HelmComponentUpgrade_def Let_def IsReleaseInstalled_def io_bind_def io_pure_def io_error_def
      ChartStatusDeployed_def split: option.split)

section \<open>Revisions of a release\<close>

lemma hd_sort_key_newest:
  fixes f :: "'a \<Rightarrow> int"
  assumes "xs \<noteq> []"
  shows "hd (sort_key (\<lambda>x. - f x) xs) \<in> set xs \<and> (\<forall>y \<in> set xs. f y \<le> f (hd (sort_key (\<lambda>x. - f x) xs)))"
proof -
  let ?s = "sort_key (\<lambda>x. - f x) xs"
  from assms obtain a as where s: "?s = a # as" by (cases ?s) (auto dest: arg_cong [of _ _ set])
  have "sorted (map (\<lambda>x. - f x) ?s)" by simp
  with s have "\<forall>y \<in> set (a # as). f y \<le> f a" by simp
  moreover have "set (a # as) = set xs" using s by (metis set_sort)
  ultimately show ?thesis using s by (metis list.sel(1) list.set_intros(1))
qed

text \<open>A clean-up deletes at most one secret: of those that record a revision of the release the newest, but
  never the only one unless an install or an upgrade is about to start.\<close>

lemma cleanup_deletes_newest:
  assumes "ListReleaseSecrets (Kube V) (ChartNamespace h) w = (Inr items, w1)" and "ss = release_secrets h items"
  shows "(ss = [] \<or> (length ss = 1 \<and> \<not> isInstall) \<longrightarrow> cleanupLatestSecret V h isInstall w = w1)
    \<and> (ss \<noteq> [] \<and> (length ss \<noteq> 1 \<or> isInstall) \<longrightarrow> (\<exists>s \<in> set ss. (\<forall>s' \<in> set ss. rsCreated s' \<le> rsCreated s)
        \<and> cleanupLatestSecret V h isInstall w = snd (DeleteReleaseSecret (Kube V) s w1)))"
  using hd_sort_key_newest [of ss rsCreated] assms
  by (auto simp: cleanupLatestSecret_def Let_def)

end
