(* ===== verification/Nav_Workload.thy ===== *)
theory Nav_Workload imports Go_Strings Vz_Prelude begin

text \<open>
  From a trait or a workload of an application to the objects it stands for
  (\<open>application-operator/controllers/navigation\<close>).  An unstructured object is what is read of it: its
  names, its owners, and the strings found under a path of fields.  The API server, the plural of
  a word, and the conversions of the Kubernetes libraries are fields of \<open>nav_client\<close>.
\<close>

section \<open>Objects\<close>

record unstructured =
  uAPIVersion :: string
  uKind :: string
  uNamespace :: string
  uName :: string
  uUID :: string
  uOwnerUIDs :: "string list"
  uOwnerKinds :: "string list"
  uString :: "string list \<Rightarrow> go_error + string option"
  uContent :: string

record typed_reference =
  refAPIVersion :: string
  refKind :: string
  refName :: string

record child_kind =
  ckAPIVersion :: string
  ckKind :: string
  ckSelector :: "(string \<times> string) list option"

text \<open>A component of an application: its name and the raw traits.\<close>

record app_component =
  ComponentName :: string
  acTraits :: "string list"

record trait_item =
  tiOwnerUIDs :: "string list"
  tiWorkloadName :: string
  tiContent :: string

record workload_meta =
  wmName :: string
  wmLabels :: "string \<Rightarrow> string option"
  wmOwnerUIDs :: "string list"

type_synonym gvk = "string \<times> string \<times> string"

record 'w nav_client =
  GetUnstructured :: "string \<Rightarrow> string \<Rightarrow> string \<Rightarrow> string \<Rightarrow> 'w \<Rightarrow> (go_error + unstructured) \<times> 'w"
  GetWorkloadDefinition :: "string \<Rightarrow> 'w \<Rightarrow> (go_error + child_kind list) \<times> 'w"
  ListUnstructured :: "string \<Rightarrow> string \<Rightarrow> string \<Rightarrow> (string \<times> string) list option \<Rightarrow> 'w \<Rightarrow> (go_error + unstructured list) \<times> 'w"
  GetApplication :: "string \<Rightarrow> string \<Rightarrow> 'w \<Rightarrow> (go_error + app_component list) \<times> 'w"
  ListTraitItems :: "string \<Rightarrow> string \<Rightarrow> string \<Rightarrow> 'w \<Rightarrow> (go_error + trait_item list) \<times> 'w"
  ConvertRawExtension :: "string \<Rightarrow> go_error + unstructured"
  Plural :: "string \<Rightarrow> string"
  FromAPIVersionAndKind :: "string \<Rightarrow> string \<Rightarrow> gvk"
  ToAPIVersionAndKind :: "gvk \<Rightarrow> string \<times> string"

section \<open>Names\<close>

text \<open>\<open>strings.SplitN\<close> with two parts.  Letters outside ASCII are not lowered.\<close>

definition ParseGroupAndVersionFromAPIVersion :: "string \<Rightarrow> string \<times> string" where
  "ParseGroupAndVersionFromAPIVersion apiVersion =
     (if CHR ''/'' \<notin> set apiVersion then ([], apiVersion)
      else (takeWhile (\<lambda>c. c \<noteq> CHR ''/'') apiVersion, tl (dropWhile (\<lambda>c. c \<noteq> CHR ''/'') apiVersion)))"

definition lower_char :: "char \<Rightarrow> char" where
  "lower_char c = (let n = of_char c :: nat in if 65 \<le> n \<and> n \<le> 90 then char_of (n + 32) else c)"

definition ToLower :: "string \<Rightarrow> string" where
  "ToLower s = map lower_char s"

definition GetDefinitionOfResource :: "'w nav_client \<Rightarrow> string \<Rightarrow> string \<Rightarrow> string" where
  "GetDefinitionOfResource N resourceAPIVersion resourceKind =
     (let grp = fst (ParseGroupAndVersionFromAPIVersion resourceAPIVersion);
          res = Plural N (ToLower resourceKind)
      in if grp = [] then res else res @ ''.'' @ grp)"

section \<open>Contained workloads\<close>

definition HasPrefix :: "string \<Rightarrow> string \<Rightarrow> bool" where
  "HasPrefix s p \<longleftrightarrow> take (length p) s = p"

definition HasSuffix :: "string \<Rightarrow> string \<Rightarrow> bool" where
  "HasSuffix s p \<longleftrightarrow> HasPrefix (rev s) (rev p)"

definition IsVerrazzanoWorkloadKind :: "unstructured \<Rightarrow> bool" where
  "IsVerrazzanoWorkloadKind workload \<longleftrightarrow>
     HasPrefix (uKind workload) ''Verrazzano'' \<and> HasSuffix (uKind workload) ''Workload''"

definition IsOwnedByVerrazzanoWorkloadKind :: "unstructured \<Rightarrow> bool" where
  "IsOwnedByVerrazzanoWorkloadKind workload \<longleftrightarrow>
     list_ex (\<lambda>k. HasPrefix k ''Verrazzano'' \<and> HasSuffix k ''Workload'') (uOwnerKinds workload)"

definition workloadToContainedGVKMap :: "string \<Rightarrow> gvk option" where
  "workloadToContainedGVKMap =
     [''oam.verrazzano.io/v1alpha1.VerrazzanoWebLogicWorkload'' \<mapsto> (''weblogic.oracle'', ''v9'', ''Domain''),
      ''oam.verrazzano.io/v1alpha1.VerrazzanoCoherenceWorkload'' \<mapsto> (''coherence.oracle.com'', ''v1'', ''Coherence'')]"

definition APIVersionAndKindToContainedGVK :: "string \<Rightarrow> string \<Rightarrow> gvk option" where
  "APIVersionAndKindToContainedGVK apiVersion kind = workloadToContainedGVKMap (apiVersion @ ''.'' @ kind)"

definition WorkloadToContainedGVK :: "'w nav_client \<Rightarrow> unstructured \<Rightarrow> gvk option" where
  "WorkloadToContainedGVK N workload =
     (if uKind workload = ''VerrazzanoWebLogicWorkload'' then
        Some (case uString workload [''spec'', ''template'', ''apiVersion''] of
            Inr (Some apiVersion) \<Rightarrow> FromAPIVersionAndKind N apiVersion ''Domain''
          | _ \<Rightarrow> (''weblogic.oracle'', ''v8'', ''Domain''))
      else APIVersionAndKindToContainedGVK (uAPIVersion workload) (uKind workload))"

definition GetContainedWorkloadVersionKindName :: "'w nav_client \<Rightarrow> unstructured \<Rightarrow> go_error + string \<times> string \<times> string" where
  "GetContainedWorkloadVersionKindName N workload = (case WorkloadToContainedGVK N workload of
       None \<Rightarrow> Inl (PlainErr ''unable to find contained GroupVersionKind for workload'')
     | Some gvk \<Rightarrow> (case ToAPIVersionAndKind N gvk of (apiVersion, kind) \<Rightarrow>
         (case uString workload [''spec'', ''template'', ''metadata'', ''name''] of
            Inr (Some name) \<Rightarrow> Inr (apiVersion, kind, name)
          | _ \<Rightarrow> Inl (PlainErr ''unable to find metadata name in contained workload''))))"

definition FetchContainedWorkload :: "'w nav_client \<Rightarrow> unstructured \<Rightarrow> 'w \<Rightarrow> (go_error + unstructured) \<times> 'w" where
  "FetchContainedWorkload N workload =
     io_bind (io_pure (GetContainedWorkloadVersionKindName N workload)) (\<lambda>(apiVersion, kind, name).
       GetUnstructured N apiVersion kind (uNamespace workload) name)"

definition FetchWorkloadResource :: "'w nav_client \<Rightarrow> unstructured \<Rightarrow> 'w \<Rightarrow> (go_error + unstructured) \<times> 'w" where
  "FetchWorkloadResource N workload =
     (if \<not> IsVerrazzanoWorkloadKind workload \<or> ''VerrazzanoHelidonWorkload'' = uKind workload then io_pure (Inr workload)
      else FetchContainedWorkload N workload)"

definition FetchWorkloadFromTrait :: "'w nav_client \<Rightarrow> string \<Rightarrow> typed_reference \<Rightarrow> 'w \<Rightarrow> (go_error + unstructured) \<times> 'w" where
  "FetchWorkloadFromTrait N namespace reference =
     io_bind (GetUnstructured N (refAPIVersion reference) (refKind reference) namespace (refName reference)) (FetchWorkloadResource N)"

definition IsWeblogicWorkloadKind :: "typed_reference \<Rightarrow> bool" where
  "IsWeblogicWorkloadKind reference \<longleftrightarrow> refKind reference = ''VerrazzanoWebLogicWorkload''"

section \<open>Children\<close>

text \<open>The children of one kind: the loop stops at an object that is the parent itself.\<close>

fun children_of :: "string \<Rightarrow> unstructured list \<Rightarrow> unstructured list" where
  "children_of parentUID [] = []"
| "children_of parentUID (item # items) =
     (if uUID item = parentUID then [item]
      else (if parentUID \<in> set (uOwnerUIDs item) then [item] else []) @ children_of parentUID items)"

fun FetchUnstructuredChildResourcesByAPIVersionKinds ::
  "'w nav_client \<Rightarrow> string \<Rightarrow> string \<Rightarrow> child_kind list \<Rightarrow> 'w \<Rightarrow> (go_error + unstructured list) \<times> 'w" where
  "FetchUnstructuredChildResourcesByAPIVersionKinds N namespace parentUID [] = io_pure (Inr [])"
| "FetchUnstructuredChildResourcesByAPIVersionKinds N namespace parentUID (ck # cks) =
     io_bind (ListUnstructured N (ckAPIVersion ck) (ckKind ck) namespace (ckSelector ck)) (\<lambda>items.
     io_bind (FetchUnstructuredChildResourcesByAPIVersionKinds N namespace parentUID cks) (\<lambda>rest.
       io_pure (Inr (children_of parentUID items @ rest))))"

definition FetchWorkloadDefinition :: "'w nav_client \<Rightarrow> unstructured option \<Rightarrow> 'w \<Rightarrow> (go_error + child_kind list) \<times> 'w" where
  "FetchWorkloadDefinition N workload = (case workload of
       None \<Rightarrow> io_pure (Inl (PlainErr ''invalid workload reference''))
     | Some u \<Rightarrow> GetWorkloadDefinition N (GetDefinitionOfResource N (uAPIVersion u) (uKind u)))"

definition FetchWorkloadChildren :: "'w nav_client \<Rightarrow> unstructured \<Rightarrow> 'w \<Rightarrow> (go_error + unstructured list) \<times> 'w" where
  "FetchWorkloadChildren N workload =
     io_bind (FetchWorkloadDefinition N (Some workload)) (\<lambda>childResourceKinds.
       FetchUnstructuredChildResourcesByAPIVersionKinds N (uNamespace workload) (uUID workload) childResourceKinds)"

section \<open>The traits of a workload\<close>

definition ComponentFromWorkloadLabels ::
  "'w nav_client \<Rightarrow> string \<Rightarrow> (string \<Rightarrow> string option) \<Rightarrow> 'w \<Rightarrow> (go_error + app_component) \<times> 'w" where
  "ComponentFromWorkloadLabels N namespace labels = (case labels ''app.oam.dev/component'' of
       None \<Rightarrow> io_pure (Inl (PlainErr ''OAM component label missing from metadata''))
     | Some componentName \<Rightarrow> (case labels ''app.oam.dev/name'' of
           None \<Rightarrow> io_pure (Inl (PlainErr ''OAM app name label missing from metadata''))
         | Some appName \<Rightarrow> io_bind (GetApplication N namespace appName) (\<lambda>components.
             io_pure (case find (\<lambda>c. ComponentName c = componentName) components of
                 Some c \<Rightarrow> Inr c
               | None \<Rightarrow> Inl (PlainErr ''unable to find application component for workload'')))))"

definition matching_item :: "workload_meta \<Rightarrow> trait_item \<Rightarrow> bool" where
  "matching_item wm item \<longleftrightarrow>
     list_ex (\<lambda>owner. owner \<in> set (wmOwnerUIDs wm) \<and> wmName wm = tiWorkloadName item) (tiOwnerUIDs item)"

fun find_trait ::
  "'w nav_client \<Rightarrow> string \<Rightarrow> string \<Rightarrow> workload_meta \<Rightarrow> string list \<Rightarrow> bool \<Rightarrow> 'w
    \<Rightarrow> (go_error + (bool \<times> trait_item option)) \<times> 'w" where
  "find_trait N kind namespace wm [] found = io_pure (Inr (found, None))"
| "find_trait N kind namespace wm (raw # raws) found =
     io_bind (io_pure (ConvertRawExtension N raw)) (\<lambda>u.
       if uKind u = kind then
         io_bind (ListTraitItems N (uAPIVersion u) (uKind u) namespace) (\<lambda>items. case find (matching_item wm) items of
             Some item \<Rightarrow> io_pure (Inr (True, Some item))
           | None \<Rightarrow> find_trait N kind namespace wm raws True)
       else find_trait N kind namespace wm raws found)"

text \<open>The functions for logging and for metrics traits are the same text with another kind.\<close>

definition trait_from_labels ::
  "'w nav_client \<Rightarrow> string \<Rightarrow> string \<Rightarrow> workload_meta \<Rightarrow> 'w \<Rightarrow> (go_error + trait_item option) \<times> 'w" where
  "trait_from_labels N kind namespace wm =
     io_bind (ComponentFromWorkloadLabels N namespace (wmLabels wm)) (\<lambda>component.
     io_bind (find_trait N kind namespace wm (acTraits component) False) (\<lambda>(hasTrait, item). case item of
         Some i \<Rightarrow> io_pure (Inr (Some i))
       | None \<Rightarrow> io_pure (if hasTrait then Inl (PlainErr ''lookup of trait failed for workload'') else Inr None)))"

definition LoggingTraitFromWorkloadLabels ::
  "'w nav_client \<Rightarrow> string \<Rightarrow> workload_meta \<Rightarrow> 'w \<Rightarrow> (go_error + trait_item option) \<times> 'w" where
  "LoggingTraitFromWorkloadLabels N = trait_from_labels N ''LoggingTrait''"

definition MetricsTraitFromWorkloadLabels ::
  "'w nav_client \<Rightarrow> string \<Rightarrow> workload_meta \<Rightarrow> 'w \<Rightarrow> (go_error + trait_item option) \<times> 'w" where
  "MetricsTraitFromWorkloadLabels N = trait_from_labels N ''MetricsTrait''"

end
