(* ===== verification/Ingress_Hosts.thy ===== *)
theory Ingress_Hosts imports Nav_Workload "HOL-Library.Word" begin

text \<open>
  Ingress traits of applications: their types (\<open>apis/oam/v1alpha1/ingresstrait_types.go\<close>,
  \<open>ingresstrait_authorization.go\<close>), the results of a reconcile call
  (\<open>controllers/reconcileresults\<close>), and the names and hosts a trait stands for
  (\<open>controllers/ingresstrait/ingresstrait_controller.go\<close>).  Letters outside ASCII are not folded.
\<close>

section \<open>The trait\<close>

record authz_condition =
  condKey :: string
  condValues :: "string list"

text \<open>A rule's \<open>From\<close> is its request principals; the API server rejects null elements of lists.\<close>

record authorization_rule =
  ruleFrom :: "string list option"
  ruleWhen :: "authz_condition list option"

record ingress_path =
  pathPath :: string
  pathType :: string
  pathPolicy :: "authorization_rule list option"

record http_cookie =
  cookieName :: string
  cookiePath :: string
  cookieTTL :: "64 word"

record ingress_destination =
  destHost :: string
  destCookie :: "http_cookie option"
  destPort :: "32 word"

record ingress_rule =
  ruleDestination :: ingress_destination
  ruleHosts :: "string list"
  rulePaths :: "ingress_path list"

text \<open>The condition of the status is its error, or success.\<close>

record ingress_trait =
  itNamespace :: string
  itName :: string
  itUID :: string
  itLabels :: "string \<Rightarrow> string option"
  itDeletionTimestamp :: "string option"
  itFinalizers :: "string list"
  itRules :: "ingress_rule list"
  itTLS :: string
  itWorkload :: typed_reference
  itCondition :: "go_error option"
  itResources :: "typed_reference list"

definition default_rule :: ingress_rule where
  "default_rule = \<lparr>ruleDestination = \<lparr>destHost = [], destCookie = None, destPort = 0\<rparr>, ruleHosts = [], rulePaths = []\<rparr>"

section \<open>Results of a reconcile call\<close>

datatype operation_result = OperationResultNone | OperationResultCreated | OperationResultUpdated

record resource_relation =
  relAPIVersion :: string
  relKind :: string
  relationName :: string
  relNamespace :: string
  relRole :: string

record reconcile_results =
  Relations :: "resource_relation list"
  Results :: "operation_result list"
  Errors :: "go_error option list"

definition no_results :: reconcile_results where
  "no_results = \<lparr>Relations = [], Results = [], Errors = []\<rparr>"

definition ContainsErrors :: "reconcile_results \<Rightarrow> bool" where
  "ContainsErrors s \<longleftrightarrow> list_ex (\<lambda>e. e \<noteq> None) (Errors s)"

definition ContainsUpdates :: "reconcile_results \<Rightarrow> bool" where
  "ContainsUpdates s \<longleftrightarrow> list_ex (\<lambda>r. r \<noteq> OperationResultNone) (Results s)"

definition ContainsRelation :: "reconcile_results \<Rightarrow> resource_relation \<Rightarrow> bool" where
  "ContainsRelation s relation \<longleftrightarrow> list_ex (\<lambda>existing. relation = existing) (Relations s)"

definition CreateConditionedStatus :: "reconcile_results \<Rightarrow> go_error option" where
  "CreateConditionedStatus s = (case find (\<lambda>e. e \<noteq> None) (Errors s) of Some e \<Rightarrow> e | None \<Rightarrow> None)"

definition CreateResources :: "reconcile_results \<Rightarrow> typed_reference list" where
  "CreateResources s =
     map (\<lambda>relation. \<lparr>refAPIVersion = relAPIVersion relation, refKind = relKind relation, refName = relationName relation\<rparr>) (Relations s)"

definition CreateRelations :: "reconcile_results \<Rightarrow> resource_relation list" where
  "CreateRelations s = Relations s"

definition append_outcome :: "resource_relation \<Rightarrow> operation_result \<Rightarrow> go_error option \<Rightarrow> reconcile_results \<Rightarrow> reconcile_results" where
  "append_outcome rel res err s =
     s\<lparr>Relations := Relations s @ [rel], Results := Results s @ [res], Errors := Errors s @ [err]\<rparr>"

definition RecordOutcome :: "resource_relation \<Rightarrow> operation_result \<Rightarrow> go_error option \<Rightarrow> reconcile_results \<Rightarrow> reconcile_results" where
  "RecordOutcome rel res err s =
     (case err of None \<Rightarrow> append_outcome rel res err s
      | Some e \<Rightarrow> if IsNotFound e then s else append_outcome rel res err s)"

definition RecordOutcomeIfError :: "resource_relation \<Rightarrow> operation_result \<Rightarrow> go_error option \<Rightarrow> reconcile_results \<Rightarrow> reconcile_results" where
  "RecordOutcomeIfError rel res err s =
     (case err of None \<Rightarrow> s
      | Some e \<Rightarrow> if IsNotFound e then s else append_outcome rel res err s)"

definition append_error :: "go_error \<Rightarrow> reconcile_results \<Rightarrow> reconcile_results" where
  "append_error err s = s\<lparr>Errors := Errors s @ [Some err]\<rparr>"

section \<open>Names\<close>

definition LabelAppName :: string where "LabelAppName = ''app.oam.dev/name''"

definition buildGatewayName :: "ingress_trait \<Rightarrow> go_error + string" where
  "buildGatewayName trait = (case itLabels trait LabelAppName of
       None \<Rightarrow> Inl (PlainErr ''OAM app name label missing from metadata, unable to generate gateway name'')
     | Some appName \<Rightarrow> Inr (itNamespace trait @ ''-'' @ appName @ ''-gw''))"

definition buildCertificateName :: "ingress_trait \<Rightarrow> string" where
  "buildCertificateName trait = itNamespace trait @ ''-'' @ itName trait @ ''-cert''"

definition buildCertificateSecretName :: "ingress_trait \<Rightarrow> string" where
  "buildCertificateSecretName trait = itNamespace trait @ ''-'' @ itName trait @ ''-cert-secret''"

definition buildLegacyCertificateName :: "ingress_trait \<Rightarrow> string" where
  "buildLegacyCertificateName trait = (case itLabels trait LabelAppName of
       None \<Rightarrow> [] | Some appName \<Rightarrow> itNamespace trait @ ''-'' @ appName @ ''-cert'')"

definition buildLegacyCertificateSecretName :: "ingress_trait \<Rightarrow> string" where
  "buildLegacyCertificateSecretName trait = (case itLabels trait LabelAppName of
       None \<Rightarrow> [] | Some appName \<Rightarrow> itNamespace trait @ ''-'' @ appName @ ''-cert-secret'')"

definition formatGatewaySeverPortName :: "string \<Rightarrow> string" where
  "formatGatewaySeverPortName traitName = ''https-'' @ traitName"

definition getIngressTraitNsn :: "string \<Rightarrow> string \<Rightarrow> string" where
  "getIngressTraitNsn namespace name = namespace @ ''-'' @ name"

section \<open>The default host\<close>

text \<open>What is read of the ingress gateway's service.\<close>

record istio_service =
  isType :: string
  ExternalIPs :: "string list"
  LoadBalancerIngress :: "string list"

text \<open>\<open>GetIngressAnnotations\<close> is for the ingress of the console.\<close>

record 'w host_client =
  GetIngressAnnotations :: "'w \<Rightarrow> (go_error + (string \<Rightarrow> string option)) \<times> 'w"
  GetIstioService :: "'w \<Rightarrow> (go_error + istio_service) \<times> 'w"

definition buildDomainNameForWildcard :: "'w host_client \<Rightarrow> string \<Rightarrow> 'w \<Rightarrow> (go_error + string) \<times> 'w" where
  "buildDomainNameForWildcard C suffix =
     io_bind (GetIstioService C) (\<lambda>istio. io_pure (
       if isType istio = ''LoadBalancer'' \<or> isType istio = ''NodePort'' then
         (if length (ExternalIPs istio) > 0 then Inr (hd (ExternalIPs istio) @ ''.'' @ suffix)
          else if length (LoadBalancerIngress istio) > 0 then Inr (hd (LoadBalancerIngress istio) @ ''.'' @ suffix)
          else Inl (PlainErr ''istio-ingressgateway is missing loadbalancer IP''))
       else Inl (PlainErr ''unsupported service type for istio_ingress'')))"

text \<open>The slice of the annotation after the ingress's name and a dot, out of range when it is shorter.\<close>

definition after_ingress_name :: "string \<Rightarrow> string res" where
  "after_ingress_name anno =
     (if length ''verrazzano-ingress'' + 1 \<le> length anno then Ret (drop (length ''verrazzano-ingress'' + 1) anno)
      else Panic ''slice bounds out of range'')"

definition buildNamespacedDomainName :: "'w host_client \<Rightarrow> ingress_trait \<Rightarrow> ('w, string) call" where
  "buildNamespacedDomainName C trait =
     call_bind (call_io (GetIngressAnnotations C)) (\<lambda>annotations.
       case annotations ''external-dns.alpha.kubernetes.io/target'' of
         None \<Rightarrow> call_fail (PlainErr ''Annotation missing from Verrazzano ingress, unable to generate DNS name'')
       | Some externalDNSAnno \<Rightarrow>
           (if length externalDNSAnno = 0
            then call_fail (PlainErr ''Annotation missing from Verrazzano ingress, unable to generate DNS name'')
            else (\<lambda>w. res_bind (after_ingress_name externalDNSAnno) (\<lambda>domain0.
              (let suffix = (case annotations ''verrazzano.io/dns.wildcard.domain'' of Some s \<Rightarrow> s | None \<Rightarrow> []) in
               call_bind (if length suffix \<noteq> 0 then call_io (buildDomainNameForWildcard C suffix) else call_ret domain0)
                 (\<lambda>domain. call_ret (itNamespace trait @ ''.'' @ domain))) w))))"

definition buildAppFullyQualifiedHostName :: "'w host_client \<Rightarrow> ingress_trait \<Rightarrow> ('w, string) call" where
  "buildAppFullyQualifiedHostName C trait = (case itLabels trait LabelAppName of
       None \<Rightarrow> call_fail (PlainErr ''OAM app name label missing from metadata, unable to add ingress trait'')
     | Some appName \<Rightarrow> call_bind (buildNamespacedDomainName C trait) (\<lambda>domainName.
         call_ret (appName @ ''.'' @ domainName)))"

section \<open>The hosts of a rule\<close>

definition EqualFold :: "string \<Rightarrow> string \<Rightarrow> bool" where
  "EqualFold a b \<longleftrightarrow> ToLower a = ToLower b"

fun findHost_from :: "int \<Rightarrow> string list \<Rightarrow> string \<Rightarrow> int \<times> bool" where
  "findHost_from i [] newHost = (-1, False)"
| "findHost_from i (host # hosts) newHost =
     (if EqualFold host newHost then (i, True) else findHost_from (i + 1) hosts newHost)"

definition findHost :: "string list \<Rightarrow> string \<Rightarrow> int \<times> bool" where
  "findHost hosts newHost = findHost_from 0 hosts newHost"

fun hosts_loop :: "string list \<Rightarrow> string list \<Rightarrow> bool \<Rightarrow> string list \<times> bool" where
  "hosts_loop [] validHosts useDefaultHost = (validHosts, useDefaultHost)"
| "hosts_loop (h0 # hs) validHosts useDefaultHost =
     (let h = TrimSpace h0 in
      if snd (findHost validHosts h) then hosts_loop hs validHosts False
      else if length h = 0 \<or> Contains h ''*'' then hosts_loop hs validHosts useDefaultHost
      else hosts_loop hs (validHosts @ [ToLower (TrimSpace h)]) False)"

definition createHostsFromIngressTraitRule ::
  "'w host_client \<Rightarrow> ingress_rule \<Rightarrow> ingress_trait \<Rightarrow> string list \<Rightarrow> ('w, string list) call" where
  "createHostsFromIngressTraitRule C rule trait toList =
     (case hosts_loop (ruleHosts rule) toList True of (validHosts, useDefaultHost) \<Rightarrow>
        (if \<not> useDefaultHost then call_ret validHosts
         else call_bind (buildAppFullyQualifiedHostName C trait) (\<lambda>hostName.
           call_ret (if \<not> snd (findHost validHosts hostName) then validHosts @ [hostName] else validHosts))))"

text \<open>
  All hosts of a trait.  A rule that fails leaves an empty list to go on with; its error is
  appended to a copy of the results, which nobody sees.
\<close>

fun all_hosts_loop :: "'w host_client \<Rightarrow> ingress_trait \<Rightarrow> ingress_rule list \<Rightarrow> string list \<Rightarrow> ('w, string list) call" where
  "all_hosts_loop C trait [] allHosts = call_ret allHosts"
| "all_hosts_loop C trait (rule # rules) allHosts =
     call_try (createHostsFromIngressTraitRule C rule trait allHosts) (\<lambda>r.
       all_hosts_loop C trait rules (case r of Inr hosts \<Rightarrow> hosts | Inl err \<Rightarrow> []))"

definition coallateAllHostsForTrait :: "'w host_client \<Rightarrow> ingress_trait \<Rightarrow> ('w, string list) call" where
  "coallateAllHostsForTrait C trait = all_hosts_loop C trait (itRules trait) []"

end
