(* ===== verification/Ingress_Routes.thy ===== *)
theory Ingress_Routes imports Ingress_Hosts begin

text \<open>
  What an ingress trait asks of Istio: the gateway's servers, the routes of the virtual services, the
  destination rules and the authorization policies
  (\<open>controllers/ingresstrait/ingresstrait_controller.go\<close>).  Ports are machine words: a service port
  is an \<open>int32\<close>, the port of a rule an \<open>uint32\<close>.
\<close>

section \<open>Services\<close>

record svc_port =
  spName :: string
  spPort :: "32 word"

record service =
  svcName :: string
  svcClusterIP :: string
  svcSelector :: "string \<Rightarrow> string option"
  svcPorts :: "svc_port list"

definition weblogicPortNames :: "string list" where
  "weblogicPortNames = [''tcp-cbt'', ''tcp-ldap'', ''tcp-iiop'', ''tcp-snmp'', ''tcp-default'', ''tls-ldaps'',
     ''tls-default'', ''tls-cbts'', ''tls-iiops'', ''tcp-internal-t3'', ''internal-t3'']"

definition getHTTPPorts :: "service \<Rightarrow> svc_port list" where
  "getHTTPPorts service = filter (\<lambda>p. HasPrefix (spName p) ''http'') (svcPorts service)"

definition getWebLogicPorts :: "service \<Rightarrow> svc_port list" where
  "getWebLogicPorts service = (case svcSelector service ''weblogic.createdByOperator'' of
       None \<Rightarrow> []
     | Some value \<Rightarrow>
         (if value = ''false'' then []
          else concat (map (\<lambda>p. map (\<lambda>n. p) (filter (\<lambda>n. spName p = n) weblogicPortNames)) (svcPorts service))))"

definition allowedPorts :: "service \<Rightarrow> svc_port list" where
  "allowedPorts service = getHTTPPorts service @ getWebLogicPorts service"

definition has_cluster_ip :: "service \<Rightarrow> bool" where
  "has_cluster_ip service \<longleftrightarrow> svcClusterIP service \<noteq> [] \<and> svcClusterIP service \<noteq> ''None''"

fun select_loop ::
  "service list \<Rightarrow> service list \<times> service list \<times> service list \<Rightarrow> service list \<times> service list \<times> service list" where
  "select_loop [] acc = acc"
| "select_loop (service # services) (clusterIPServices, allowedServices, allowedClusterIPServices) =
     select_loop services
       (if has_cluster_ip service then clusterIPServices @ [service] else clusterIPServices,
        if length (allowedPorts service) > 0 then allowedServices @ [service] else allowedServices,
        if has_cluster_ip service \<and> length (allowedPorts service) > 0 then allowedClusterIPServices @ [service]
        else allowedClusterIPServices)"

definition selectServiceForDestination :: "service list \<Rightarrow> go_error + service" where
  "selectServiceForDestination services =
     (if length services = 1 then Inr (hd services)
      else (case select_loop services ([], [], []) of (clusterIPServices, allowedServices, allowedClusterIPServices) \<Rightarrow>
        (if length clusterIPServices = 0 \<and> length allowedServices = 0
         then Inl (PlainErr ''unable to select default service for destination'')
         else if length clusterIPServices = 1 then Inr (hd clusterIPServices)
         else if length allowedClusterIPServices = 1 then Inr (hd allowedClusterIPServices)
         else if length allowedServices = 1 then Inr (hd allowedServices)
         else Inl (PlainErr ''unable to select the service for destination''))))"

definition selectPortForDestination :: "service \<Rightarrow> go_error + svc_port" where
  "selectPortForDestination service =
     (let servicePorts = svcPorts service; allowed = allowedPorts service in
      if length servicePorts = 1 then Inr (hd servicePorts)
      else if length servicePorts > 1 \<and> length allowed = 1 then Inr (hd allowed)
      else if length servicePorts > 1 \<and> length allowed < 1
      then Inl (PlainErr ''unable to select the service port for destination'')
      else if length allowed > 1
      then Inl (PlainErr ''unable to select the service port for destination. Only one service port should be named with prefix http'')
      else Inl (PlainErr ''unable to select default port for destination''))"

section \<open>Destinations\<close>

record destination =
  dHost :: string
  dPort :: "32 word option"

definition createDestinationFromService :: "service list \<Rightarrow> go_error + destination" where
  "createDestinationFromService services =
     err_bind (selectServiceForDestination services) (\<lambda>selectedService.
       if length (svcPorts selectedService) > 0
       then err_bind (selectPortForDestination selectedService) (\<lambda>selectedPort.
         Inr \<lparr>dHost = svcName selectedService, dPort = Some (spPort selectedPort)\<rparr>)
       else Inr \<lparr>dHost = svcName selectedService, dPort = None\<rparr>)"

text \<open>The conversion of the rule's port to \<open>int32\<close> keeps its bits.\<close>

definition eligible_services :: "service list \<Rightarrow> 32 word \<Rightarrow> service list" where
  "eligible_services services rulePort =
     concat (map (\<lambda>service. map (\<lambda>p. service) (filter (\<lambda>p. spPort p = rulePort) (svcPorts service))) services)"

definition createDestinationMatchRulePort :: "service list \<Rightarrow> 32 word \<Rightarrow> go_error + destination" where
  "createDestinationMatchRulePort services rulePort =
     err_bind (selectServiceForDestination (eligible_services services rulePort)) (\<lambda>selectedService.
       Inr \<lparr>dHost = svcName selectedService, dPort = Some rulePort\<rparr>)"

definition createDestinationFromRuleOrService :: "ingress_rule \<Rightarrow> service list \<Rightarrow> go_error + destination" where
  "createDestinationFromRuleOrService rule services =
     (let d = ruleDestination rule in
      if length (destHost d) > 0
      then Inr \<lparr>dHost = destHost d, dPort = (if destPort d \<noteq> 0 then Some (destPort d) else None)\<rparr>
      else if destPort d \<noteq> 0 then createDestinationMatchRulePort services (destPort d)
      else createDestinationFromService services)"

section \<open>Paths\<close>

datatype string_match = MatchRegex string | MatchPrefix string | MatchExact string

definition getPathsFromRule :: "ingress_rule \<Rightarrow> ingress_path list" where
  "getPathsFromRule rule =
     (if length (rulePaths rule) = 0 then [\<lparr>pathPath = ''/'', pathType = ''prefix'', pathPolicy = None\<rparr>] else rulePaths rule)"

definition createVirtualServiceMatchURIFromIngressTraitPath :: "ingress_path \<Rightarrow> string_match" where
  "createVirtualServiceMatchURIFromIngressTraitPath path =
     (let p0 = TrimSpace (pathPath path); p = (if p0 = [] then ''/'' else p0);
          t0 = ToLower (TrimSpace (pathType path));
          t = (if t0 = [] then (if p = ''/'' then ''prefix'' else ''exact'') else t0)
      in if t = ''regex'' then MatchRegex p else if t = ''prefix'' then MatchPrefix p else MatchExact p)"

section \<open>The gateway\<close>

record gateway_port =
  gpName :: string
  gpNumber :: nat
  gpProtocol :: string

record gateway_server =
  srvName :: string
  srvHosts :: "string list"
  srvPort :: "gateway_port option"
  srvCredentialName :: string

record gateway =
  gwNamespace :: string
  gwName :: string
  gwServers :: "gateway_server list"
  gwSelector :: "(string \<times> string) list"
  gwOwners :: "string list"

fun put_server :: "gateway_server list \<Rightarrow> gateway_server \<Rightarrow> gateway_server list" where
  "put_server [] server = [server]"
| "put_server (existing # servers) server =
     (if srvName existing = srvName server then server # servers else existing # put_server servers server)"

text \<open>The test for the unnamed server of older versions reads its port, which may be missing.\<close>

definition updateGatewayServersList :: "gateway_server list \<Rightarrow> gateway_server \<Rightarrow> gateway_server list res" where
  "updateGatewayServersList servers server =
     (if length servers = 0 then Ret [server]
      else if length servers = 1 \<and> length (srvName (hd servers)) = 0 then
        (case srvPort (hd servers) of
           None \<Rightarrow> Panic ''invalid memory address or nil pointer dereference''
         | Some p \<Rightarrow> if gpName p = ''https'' then Ret [server] else Ret (put_server servers server))
      else Ret (put_server servers server))"

definition trait_server :: "ingress_trait \<Rightarrow> string list \<Rightarrow> string \<Rightarrow> gateway_server" where
  "trait_server trait hostsForTrait secretName = \<lparr>srvName = itName trait, srvHosts = hostsForTrait,
     srvPort = Some \<lparr>gpName = formatGatewaySeverPortName (itName trait), gpNumber = 443, gpProtocol = ''HTTPS''\<rparr>,
     srvCredentialName = secretName\<rparr>"

section \<open>Virtual services and destination rules\<close>

record http_route =
  routeMatch :: "string_match list"
  routeDestination :: destination
  routeHeaders :: "(string \<times> string) list option"

record virtual_service =
  vsNamespace :: string
  vsName :: string
  vsGateways :: "string list"
  vsHosts :: "string list"
  vsHttp :: "http_route list"
  vsOwners :: "string list"

text \<open>The cookie's lifetime as \<open>durationpb.New\<close> writes it: seconds and nanoseconds, rounded to zero.\<close>

record destination_rule =
  drNamespace :: string
  drName :: string
  drHost :: string
  drMutual :: bool
  drCookieName :: string
  drCookiePath :: string
  drCookieTtl :: "int \<times> int"
  drOwners :: "string list"

definition time_second :: "64 word" where "time_second = 1000000000"

definition durationpb_New :: "64 word \<Rightarrow> int \<times> int" where
  "durationpb_New d = (let n = sint d; secs = sgn n * (\<bar>n\<bar> div 1000000000) in (secs, n - secs * 1000000000))"

definition cookie_duration :: "http_cookie \<Rightarrow> int \<times> int" where
  "cookie_duration c = durationpb_New (cookieTTL c * time_second)"

section \<open>Authorization policies\<close>

record policy_rule =
  prFrom :: "string list option"
  prTo :: "(string list \<times> string list) option"
  prWhen :: "authz_condition list"

record authz_policy =
  apNamespace :: string
  apName :: string
  apLabels :: "(string \<times> string) list"
  apSelector :: "(string \<times> string) list"
  apRules :: "policy_rule list"

definition createAuthorizationPolicyRule ::
  "authorization_rule \<Rightarrow> string \<Rightarrow> string list \<Rightarrow> bool \<Rightarrow> go_error + policy_rule" where
  "createAuthorizationPolicyRule rule path hosts requireFrom =
     (if requireFrom \<and> ruleFrom rule = None then Inl (PlainErr ''Authorization Policy requires From clause'')
      else Inr \<lparr>prFrom = ruleFrom rule, prTo = (if length path > 0 then Some (hosts, [path]) else None),
        prWhen = (case ruleWhen rule of
            None \<Rightarrow> []
          | Some conditions \<Rightarrow> map (\<lambda>c. \<lparr>condKey = condKey c, condValues = condValues c\<rparr>) conditions)\<rparr>)"

fun policy_rules :: "authorization_rule list \<Rightarrow> string \<Rightarrow> string list \<Rightarrow> bool \<Rightarrow> go_error + policy_rule list" where
  "policy_rules [] path hosts requireFrom = Inr []"
| "policy_rules (authzRule # rules) path hosts requireFrom =
     err_bind (createAuthorizationPolicyRule authzRule path hosts requireFrom) (\<lambda>r.
     err_bind (policy_rules rules path hosts requireFrom) (\<lambda>rs. Inr (r # rs)))"

definition mutateAuthorizationPolicy ::
  "authz_policy \<Rightarrow> authorization_rule list \<Rightarrow> string \<Rightarrow> string list \<Rightarrow> bool \<Rightarrow> go_error + authz_policy" where
  "mutateAuthorizationPolicy authzPolicy vzPolicy path hosts requireFrom =
     err_bind (policy_rules vzPolicy path hosts requireFrom) (\<lambda>policyRules.
       Inr (authzPolicy\<lparr>apSelector := [(''istio'', ''ingressgateway'')], apRules := policyRules\<rparr>))"

definition policy_name :: "string \<Rightarrow> ingress_path \<Rightarrow> string" where
  "policy_name namePrefix path =
     (let pathSuffix = ReplaceAll ''/'' [] (pathPath path)
      in if pathSuffix \<noteq> [] then namePrefix @ ''-'' @ pathSuffix else namePrefix)"

end
