(* ===== verification/Ingress_Trait.thy ===== *)
theory Ingress_Trait imports Ingress_Routes Semver Vz_Api begin

text \<open>
  The controller of ingress traits (\<open>controllers/ingresstrait/ingresstrait_controller.go\<close>,
  \<open>ingresstrait_ops.go\<close>) with the create-or-update of Istio objects it goes through
  (\<open>component/common/controller_runtime.go\<close>).  The API server is \<open>trait_client\<close>; metrics and logging are
  left out.
\<close>

section \<open>The API server\<close>

record certificate_spec =
  DNSNames :: "string list"
  certSecretName :: string
  IssuerName :: string

text \<open>
  \<open>CreateOrUpdateCertificate\<close> is \<open>controllerutil.CreateOrUpdate\<close> on a certificate of \<open>istio-system\<close>,
  \<open>SetControllerReference\<close> the function of that name on the owners of an object, \<open>ServiceOf\<close> the
  conversion of an unstructured object, \<open>IntnDelay\<close> the random numbers.
\<close>

record 'w trait_client =
  Nav :: "'w nav_client"
  HostClient :: "'w host_client"
  IntnDelay :: "int \<Rightarrow> int \<Rightarrow> int"
  GetTrait :: "string \<Rightarrow> string \<Rightarrow> 'w \<Rightarrow> (go_error + ingress_trait) \<times> 'w"
  UpdateTrait :: "ingress_trait \<Rightarrow> 'w \<Rightarrow> go_error option \<times> 'w"
  UpdateTraitStatus :: "ingress_trait \<Rightarrow> 'w \<Rightarrow> go_error option \<times> 'w"
  ListTraits :: "'w \<Rightarrow> (go_error + (string \<times> string) list) \<times> 'w"
  CreateOrUpdateCertificate :: "string \<Rightarrow> certificate_spec \<Rightarrow> 'w \<Rightarrow> (operation_result \<times> go_error option) \<times> 'w"
  DeleteCertificate :: "string \<Rightarrow> string \<Rightarrow> 'w \<Rightarrow> go_error option \<times> 'w"
  DeleteTraitSecret :: "string \<Rightarrow> string \<Rightarrow> 'w \<Rightarrow> go_error option \<times> 'w"
  ListPolicies :: "string \<times> string \<Rightarrow> 'w \<Rightarrow> (go_error + authz_policy list) \<times> 'w"
  DeletePolicy :: "authz_policy \<Rightarrow> 'w \<Rightarrow> go_error option \<times> 'w"
  GetPolicy :: "string \<Rightarrow> string \<Rightarrow> 'w \<Rightarrow> (go_error + authz_policy) \<times> 'w"
  CreatePolicy :: "authz_policy \<Rightarrow> 'w \<Rightarrow> go_error option \<times> 'w"
  UpdatePolicy :: "authz_policy \<Rightarrow> 'w \<Rightarrow> go_error option \<times> 'w"
  GetGateway :: "string \<Rightarrow> string \<Rightarrow> 'w \<Rightarrow> (go_error + gateway) \<times> 'w"
  CreateGateway :: "gateway \<Rightarrow> 'w \<Rightarrow> go_error option \<times> 'w"
  UpdateGateway :: "gateway \<Rightarrow> 'w \<Rightarrow> go_error option \<times> 'w"
  GetVirtualService :: "string \<Rightarrow> string \<Rightarrow> 'w \<Rightarrow> (go_error + virtual_service) \<times> 'w"
  CreateVirtualService :: "virtual_service \<Rightarrow> 'w \<Rightarrow> go_error option \<times> 'w"
  UpdateVirtualService :: "virtual_service \<Rightarrow> 'w \<Rightarrow> go_error option \<times> 'w"
  GetDestinationRule :: "string \<Rightarrow> string \<Rightarrow> 'w \<Rightarrow> (go_error + destination_rule) \<times> 'w"
  CreateDestinationRule :: "destination_rule \<Rightarrow> 'w \<Rightarrow> go_error option \<times> 'w"
  UpdateDestinationRule :: "destination_rule \<Rightarrow> 'w \<Rightarrow> go_error option \<times> 'w"
  GetAppConfig :: "string \<Rightarrow> string \<Rightarrow> 'w \<Rightarrow> (go_error + string) \<times> 'w"
  SetControllerReference :: "string \<Rightarrow> string list \<Rightarrow> go_error + string list"
  GetNamespaceOf :: "string \<Rightarrow> 'w \<Rightarrow> (go_error + (string \<Rightarrow> string option)) \<times> 'w"
  ServiceOf :: "unstructured \<Rightarrow> go_error + service"

text \<open>
  \<open>CreateOrUpdateProtobuf\<close> for one type of object: its calls, its key, the object to start from and
  the function that changes it.  The object that comes back is the one that was written; after an
  error nobody looks at it.
\<close>

record ('w, 'o) object_calls =
  ocGet :: "string \<Rightarrow> string \<Rightarrow> 'w \<Rightarrow> (go_error + 'o) \<times> 'w"
  ocCreate :: "'o \<Rightarrow> 'w \<Rightarrow> go_error option \<times> 'w"
  ocUpdate :: "'o \<Rightarrow> 'w \<Rightarrow> go_error option \<times> 'w"
  ocKey :: "'o \<Rightarrow> string \<times> string"

definition mutate :: "('w, 'o) object_calls \<Rightarrow> ('o \<Rightarrow> ('w, 'o) call) \<Rightarrow> string \<times> string \<Rightarrow> 'o \<Rightarrow> ('w, 'o) call" where
  "mutate O1 f key obj = call_bind (f obj) (\<lambda>obj'.
     if key \<noteq> ocKey O1 obj' then call_fail (PlainErr ''MutateFn cannot mutate object name and/or object namespace'')
     else call_ret obj')"

definition finish_write :: "operation_result \<Rightarrow> 'o \<Rightarrow> ('w \<Rightarrow> go_error option \<times> 'w) \<Rightarrow> ('w, operation_result \<times> go_error option \<times> 'o) call" where
  "finish_write res obj m w = (case m w of
       (Some err, w1) \<Rightarrow> Ret (Inr (OperationResultNone, Some err, obj), w1)
     | (None, w1) \<Rightarrow> Ret (Inr (res, None, obj), w1))"

definition CreateOrUpdateProtobuf ::
  "('w, 'o) object_calls \<Rightarrow> 'o \<Rightarrow> ('o \<Rightarrow> ('w, 'o) call) \<Rightarrow> ('w, operation_result \<times> go_error option \<times> 'o) call" where
  "CreateOrUpdateProtobuf O1 obj f =
     (let key = ocKey O1 obj in
      call_try (call_io (ocGet O1 (fst key) (snd key))) (\<lambda>r. case r of
        Inl err \<Rightarrow>
          (if \<not> IsNotFound err then call_ret (OperationResultNone, Some err, obj)
           else call_try (mutate O1 f key obj) (\<lambda>m. case m of
               Inl err \<Rightarrow> call_ret (OperationResultNone, Some err, obj)
             | Inr obj' \<Rightarrow> finish_write OperationResultCreated obj' (ocCreate O1 obj')))
      | Inr existing \<Rightarrow> call_try (mutate O1 f key existing) (\<lambda>m. case m of
            Inl err \<Rightarrow> call_ret (OperationResultNone, Some err, obj)
          | Inr obj' \<Rightarrow>
              (if existing = obj' then call_ret (OperationResultNone, None, obj')
               else finish_write OperationResultUpdated obj' (ocUpdate O1 obj')))))"

definition gateway_calls :: "'w trait_client \<Rightarrow> ('w, gateway) object_calls" where
  "gateway_calls C = \<lparr>ocGet = GetGateway C, ocCreate = CreateGateway C, ocUpdate = UpdateGateway C,
     ocKey = \<lambda>g. (gwNamespace g, gwName g)\<rparr>"

definition vs_calls :: "'w trait_client \<Rightarrow> ('w, virtual_service) object_calls" where
  "vs_calls C = \<lparr>ocGet = GetVirtualService C, ocCreate = CreateVirtualService C, ocUpdate = UpdateVirtualService C,
     ocKey = \<lambda>g. (vsNamespace g, vsName g)\<rparr>"

definition dr_calls :: "'w trait_client \<Rightarrow> ('w, destination_rule) object_calls" where
  "dr_calls C = \<lparr>ocGet = GetDestinationRule C, ocCreate = CreateDestinationRule C, ocUpdate = UpdateDestinationRule C,
     ocKey = \<lambda>g. (drNamespace g, drName g)\<rparr>"

definition policy_calls :: "'w trait_client \<Rightarrow> ('w, authz_policy) object_calls" where
  "policy_calls C = \<lparr>ocGet = GetPolicy C, ocCreate = CreatePolicy C, ocUpdate = UpdatePolicy C,
     ocKey = \<lambda>g. (apNamespace g, apName g)\<rparr>"

definition IstioSystemNamespace :: string where "IstioSystemNamespace = ''istio-system''"
definition LabelIngressTraitNsn :: string where "LabelIngressTraitNsn = ''verrazzano.io/ingress-trait''"
definition ingressFinalizerName :: string where "ingressFinalizerName = ''ingresstrait.finalizers.verrazzano.io''"

definition relation :: "string \<Rightarrow> string \<Rightarrow> string \<Rightarrow> string \<Rightarrow> resource_relation" where
  "relation apiVersion kind name role = \<lparr>relAPIVersion = apiVersion, relKind = kind, relationName = name, relNamespace = [], relRole = role\<rparr>"

definition owner_id :: "ingress_trait \<Rightarrow> string" where
  "owner_id trait = itNamespace trait @ ''/'' @ itName trait"

section \<open>Cleaning up\<close>

definition cleanupCert :: "'w trait_client \<Rightarrow> string \<Rightarrow> 'w \<Rightarrow> go_error option \<times> 'w" where
  "cleanupCert C certName w = (case DeleteCertificate C IstioSystemNamespace certName w of
       (Some err, w1) \<Rightarrow> (if IsNotFound err \<or> IsNoMatchError err then None else Some err, w1)
     | (None, w1) \<Rightarrow> (None, w1))"

definition cleanupSecret :: "'w trait_client \<Rightarrow> string \<Rightarrow> 'w \<Rightarrow> go_error option \<times> 'w" where
  "cleanupSecret C secretName w = (case DeleteTraitSecret C IstioSystemNamespace secretName w of
       (Some err, w1) \<Rightarrow> (if IsNotFound err then None else Some err, w1)
     | (None, w1) \<Rightarrow> (None, w1))"

fun delete_policies :: "'w trait_client \<Rightarrow> authz_policy list \<Rightarrow> 'w \<Rightarrow> go_error option \<times> 'w" where
  "delete_policies C [] w = (None, w)"
| "delete_policies C (p # ps) w = (case DeletePolicy C p w of
       (Some err, w1) \<Rightarrow> (Some (PlainErr ''Failed deleting the authorization policy''), w1)
     | (None, w1) \<Rightarrow> delete_policies C ps w1)"

definition cleanupPolicies :: "'w trait_client \<Rightarrow> ingress_trait \<Rightarrow> 'w \<Rightarrow> go_error option \<times> 'w" where
  "cleanupPolicies C trait w =
     (case ListPolicies C (LabelIngressTraitNsn, getIngressTraitNsn (itNamespace trait) (itName trait)) w of
        (Inl err, w1) \<Rightarrow> delete_policies C [] w1
      | (Inr items, w1) \<Rightarrow> delete_policies C items w1)"

definition cleanupGateway :: "'w trait_client \<Rightarrow> ingress_trait \<Rightarrow> ('w, unit) call" where
  "cleanupGateway C trait = (case buildGatewayName trait of
       Inl err \<Rightarrow> call_fail err
     | Inr gwn \<Rightarrow> call_try (call_io (GetGateway C (itNamespace trait) gwn)) (\<lambda>r. case r of
           Inl err \<Rightarrow> (if IsNotFound err then call_ret () else call_fail (PlainErr ''Failed to fetch gateway''))
         | Inr gateway \<Rightarrow>
             (let newServer = filter (\<lambda>server. srvName server \<noteq> itName trait) (gwServers gateway) in
              call_bind (CreateOrUpdateProtobuf (gateway_calls C) gateway (\<lambda>g. call_ret (g\<lparr>gwServers := newServer\<rparr>)))
                (\<lambda>(res, err, g). case err of None \<Rightarrow> call_ret () | Some e \<Rightarrow> call_fail e))))"

definition cleanup :: "'w trait_client \<Rightarrow> ingress_trait \<Rightarrow> ('w, unit) call" where
  "cleanup C trait =
     call_bind (call_io (io_unit (cleanupCert C (buildCertificateName trait)))) (\<lambda>_.
     call_bind (call_io (io_unit (cleanupSecret C (buildCertificateSecretName trait)))) (\<lambda>_.
     call_bind (call_io (io_unit (cleanupPolicies C trait))) (\<lambda>_. cleanupGateway C trait)))"

section \<open>Finalizers and status\<close>

definition isIngressTraitBeingDeleted :: "ingress_trait \<Rightarrow> bool" where
  "isIngressTraitBeingDeleted trait \<longleftrightarrow> itDeletionTimestamp trait \<noteq> None"

definition removeFinalizerIfRequired :: "'w trait_client \<Rightarrow> ingress_trait \<Rightarrow> 'w \<Rightarrow> go_error option \<times> 'w" where
  "removeFinalizerIfRequired C trait w =
     (if itDeletionTimestamp trait \<noteq> None \<and> SliceContainsString (itFinalizers trait) ingressFinalizerName
      then UpdateTrait C (trait\<lparr>itFinalizers := RemoveStringFromSlice (itFinalizers trait) ingressFinalizerName\<rparr>) w
      else (None, w))"

text \<open>\<open>IgnoreConflictWithLog\<close> gives no error, whatever the one it was given is.\<close>

definition addFinalizerIfRequired :: "'w trait_client \<Rightarrow> ingress_trait \<Rightarrow> 'w \<Rightarrow> ingress_trait \<times> 'w" where
  "addFinalizerIfRequired C trait w =
     (if itDeletionTimestamp trait = None \<and> \<not> SliceContainsString (itFinalizers trait) ingressFinalizerName
      then (let t = trait\<lparr>itFinalizers := itFinalizers trait @ [ingressFinalizerName]\<rparr> in (t, snd (UpdateTrait C t w)))
      else (trait, w))"

definition updateTraitStatus ::
  "'w trait_client \<Rightarrow> ingress_trait \<Rightarrow> reconcile_results \<Rightarrow> 'w \<Rightarrow> (bool \<times> go_error option) \<times> 'w" where
  "updateTraitStatus C trait status w =
     (let resources = CreateResources status in
      if ContainsErrors status \<or> itResources trait \<noteq> resources
      then (case UpdateTraitStatus C (trait\<lparr>itCondition := CreateConditionedStatus status, itResources := resources\<rparr>) w of
          (err, w1) \<Rightarrow> ((True, err), w1))
      else ((False, None), w))"

section \<open>The certificate\<close>

definition createGatewayCertificate ::
  "'w trait_client \<Rightarrow> ingress_trait \<Rightarrow> string list \<Rightarrow> reconcile_results \<Rightarrow> 'w \<Rightarrow> (string \<times> reconcile_results) \<times> 'w" where
  "createGatewayCertificate C trait hostsForTrait status w =
     (let certName = buildCertificateName trait; secretName = buildCertificateSecretName trait in
      case CreateOrUpdateCertificate C certName
             \<lparr>DNSNames = hostsForTrait, certSecretName = secretName, IssuerName = ''verrazzano-cluster-issuer''\<rparr> w of
        ((res, err), w1) \<Rightarrow>
          ((if err \<noteq> None then [] else secretName,
            append_outcome (relation ''cert-manager.io/v1'' ''Certificate'' certName ''certificate'') res err status), w1))"

definition validateConfiguredSecret :: "ingress_trait \<Rightarrow> reconcile_results \<Rightarrow> string \<times> reconcile_results" where
  "validateConfiguredSecret trait status =
     (let secretName = itTLS trait in
      if secretName \<noteq> [] \<and> list_ex (\<lambda>rule. length (ruleHosts rule) = 0) (itRules trait)
      then ([], append_outcome (relation ''v1'' ''Secret'' secretName ''secret'') OperationResultNone
             (Some (PlainErr ''all rules must specify at least one host when a secret is specified for TLS transport'')) status)
      else (secretName, status))"

definition createOrUseGatewaySecret ::
  "'w trait_client \<Rightarrow> ingress_trait \<Rightarrow> string list \<Rightarrow> reconcile_results \<Rightarrow> 'w \<Rightarrow> (string \<times> reconcile_results) \<times> 'w" where
  "createOrUseGatewaySecret C trait hostsForTrait status w =
     (if itTLS trait \<noteq> [] then (validateConfiguredSecret trait status, w)
      else (case cleanupCert C (buildLegacyCertificateName trait) w of
          (_, w1) \<Rightarrow> (case cleanupSecret C (buildLegacyCertificateSecretName trait) w1 of
             (_, w2) \<Rightarrow> createGatewayCertificate C trait hostsForTrait status w2)))"

section \<open>The services of the workload\<close>

definition convertAPIVersionAndKindToNamespacedName :: "'w nav_client \<Rightarrow> string \<Rightarrow> string \<Rightarrow> string" where
  "convertAPIVersionAndKindToNamespacedName N apiVersion kind =
     Plural N (ToLower kind) @ ''.'' @ fst (ParseGroupAndVersionFromAPIVersion apiVersion)"

definition fetchWorkloadDefinition :: "'w trait_client \<Rightarrow> unstructured \<Rightarrow> 'w \<Rightarrow> (go_error + child_kind list option) \<times> 'w" where
  "fetchWorkloadDefinition C workload w =
     (case GetWorkloadDefinition (Nav C) (convertAPIVersionAndKindToNamespacedName (Nav C) (uAPIVersion workload) (uKind workload)) w of
        (Inl err, w1) \<Rightarrow> (if IsNotFound err then Inr None else Inl err, w1)
      | (Inr d, w1) \<Rightarrow> (Inr (Some d), w1))"

fun fetchChildResourcesByAPIVersionKinds ::
  "'w trait_client \<Rightarrow> string \<Rightarrow> string \<Rightarrow> child_kind list \<Rightarrow> 'w \<Rightarrow> (go_error + unstructured list) \<times> 'w" where
  "fetchChildResourcesByAPIVersionKinds C namespace parentUID [] = io_pure (Inr [])"
| "fetchChildResourcesByAPIVersionKinds C namespace parentUID (ck # cks) =
     io_bind (ListUnstructured (Nav C) (ckAPIVersion ck) (ckKind ck @ ''List'') namespace (ckSelector ck)) (\<lambda>items.
     io_bind (fetchChildResourcesByAPIVersionKinds C namespace parentUID cks) (\<lambda>rest.
       io_pure (Inr (filter (\<lambda>item. parentUID \<in> set (uOwnerUIDs item)) items @ rest))))"

text \<open>An error of the definition is logged; the workload is then one without a definition.\<close>

definition fetchWorkloadChildren :: "'w trait_client \<Rightarrow> unstructured \<Rightarrow> 'w \<Rightarrow> (go_error + unstructured list) \<times> 'w" where
  "fetchWorkloadChildren C workload w = (case fetchWorkloadDefinition C workload w of (r, w1) \<Rightarrow>
     (case (case r of Inr d \<Rightarrow> d | Inl err \<Rightarrow> None) of
        Some childResourceKinds \<Rightarrow>
          fetchChildResourcesByAPIVersionKinds C (uNamespace workload) (uUID workload) childResourceKinds w1
      | None \<Rightarrow>
          (if uAPIVersion workload = ''apps/v1'' then (Inr [workload], w1)
           else if uAPIVersion workload = ''v1'' \<and> uKind workload = ''Service'' then (Inr [workload], w1)
           else (Inl (PlainErr ''workload not supported by trait''), w1))))"

fun extractServicesFromUnstructuredChildren :: "'w trait_client \<Rightarrow> unstructured list \<Rightarrow> go_error + service list" where
  "extractServicesFromUnstructuredChildren C [] = Inr []"
| "extractServicesFromUnstructuredChildren C (child # children) =
     (if uAPIVersion child = ''v1'' \<and> uKind child = ''Service''
      then err_bind (ServiceOf C child) (\<lambda>service.
        err_bind (extractServicesFromUnstructuredChildren C children) (\<lambda>services. Inr (service # services)))
      else extractServicesFromUnstructuredChildren C children)"

definition fetchServicesFromTrait :: "'w trait_client \<Rightarrow> ingress_trait \<Rightarrow> 'w \<Rightarrow> (go_error + service list) \<times> 'w" where
  "fetchServicesFromTrait C trait =
     io_bind (FetchWorkloadFromTrait (Nav C) (itNamespace trait) (itWorkload trait)) (\<lambda>workload.
     io_bind (fetchWorkloadChildren C workload) (\<lambda>children.
       io_pure (extractServicesFromUnstructuredChildren C children)))"

section \<open>Gateways, virtual services, destination rules, policies\<close>

definition mutateGateway ::
  "'w trait_client \<Rightarrow> gateway \<Rightarrow> ingress_trait \<Rightarrow> string list \<Rightarrow> string \<Rightarrow> ('w, gateway) call" where
  "mutateGateway C gateway trait hostsForTrait secretName w =
     res_bind (updateGatewayServersList (gwServers gateway) (trait_server trait hostsForTrait secretName)) (\<lambda>servers.
       (let g = gateway\<lparr>gwServers := servers, gwSelector := [(''istio'', ''ingressgateway'')]\<rparr> in
        (case itLabels trait LabelAppName of
           None \<Rightarrow> call_ret g
         | Some appName \<Rightarrow> call_bind (call_io (GetAppConfig C (itNamespace trait) appName)) (\<lambda>appConfig.
             (case SetControllerReference C appConfig (gwOwners g) of
                Inl err \<Rightarrow> call_fail err
              | Inr owners \<Rightarrow> call_ret (g\<lparr>gwOwners := owners\<rparr>)))) w))"

definition createOrUpdateGateway ::
  "'w trait_client \<Rightarrow> ingress_trait \<Rightarrow> string list \<Rightarrow> string \<Rightarrow> string \<Rightarrow> reconcile_results
    \<Rightarrow> ('w, (go_error + gateway) \<times> reconcile_results) call" where
  "createOrUpdateGateway C trait hostsForTrait gwn secretName status =
     call_bind (CreateOrUpdateProtobuf (gateway_calls C)
         \<lparr>gwNamespace = itNamespace trait, gwName = gwn, gwServers = [], gwSelector = [], gwOwners = []\<rparr>
         (\<lambda>g. mutateGateway C g trait hostsForTrait secretName)) (\<lambda>(res, err, g).
       if err = None \<and> res = OperationResultNone then call_ret (Inr g, status)
       else (let status' = append_outcome (relation ''networking.istio.io/v1alpha3'' ''Gateway'' gwn ''gateway'') res err status in
         case err of Some e \<Rightarrow> call_ret (Inl e, status') | None \<Rightarrow> call_ret (Inr g, status')))"

definition mutateVirtualService ::
  "'w trait_client \<Rightarrow> virtual_service \<Rightarrow> ingress_trait \<Rightarrow> ingress_rule \<Rightarrow> string list \<Rightarrow> service list \<Rightarrow> gateway
    \<Rightarrow> go_error + virtual_service" where
  "mutateVirtualService C virtualService trait rule allHostsForTrait services gateway =
     (let matches = map createVirtualServiceMatchURIFromIngressTraitPath (getPathsFromRule rule) in
      err_bind (createDestinationFromRuleOrService rule services) (\<lambda>dest.
        (let route = \<lparr>routeMatch = matches, routeDestination = dest,
               routeHeaders = (if IsWeblogicWorkloadKind (itWorkload trait) then Some [(''WL-Proxy-SSL'', ''true'')] else None)\<rparr>;
             vs = virtualService\<lparr>vsGateways := [gwName gateway], vsHosts := allHostsForTrait, vsHttp := [route]\<rparr>
         in Inr (vs\<lparr>vsOwners := (case SetControllerReference C (owner_id trait) (vsOwners vs) of
               Inr owners \<Rightarrow> owners | Inl err \<Rightarrow> vsOwners vs)\<rparr>))))"

definition createOrUpdateVirtualService ::
  "'w trait_client \<Rightarrow> ingress_trait \<Rightarrow> ingress_rule \<Rightarrow> string list \<Rightarrow> string \<Rightarrow> service list \<Rightarrow> gateway \<Rightarrow> reconcile_results
    \<Rightarrow> ('w, reconcile_results) call" where
  "createOrUpdateVirtualService C trait rule hosts name services gateway status =
     call_bind (CreateOrUpdateProtobuf (vs_calls C)
         \<lparr>vsNamespace = itNamespace trait, vsName = name, vsGateways = [], vsHosts = [], vsHttp = [], vsOwners = []\<rparr>
         (\<lambda>vs. call_io (io_pure (mutateVirtualService C vs trait rule hosts services gateway)))) (\<lambda>(res, err, vs).
       call_ret (append_outcome (relation ''networking.istio.io/v1alpha3'' ''VirtualService'' name ''virtualservice'') res err status))"

definition mutateDestinationRule ::
  "'w trait_client \<Rightarrow> destination_rule \<Rightarrow> ingress_trait \<Rightarrow> ingress_rule \<Rightarrow> http_cookie \<Rightarrow> service list
    \<Rightarrow> (string \<Rightarrow> string option) \<Rightarrow> go_error + destination_rule" where
  "mutateDestinationRule C destinationRule trait rule cookie services labels =
     err_bind (createDestinationFromRuleOrService rule services) (\<lambda>dest.
       (let dr = destinationRule\<lparr>drHost := dHost dest, drMutual := (labels ''istio-injection'' = Some ''enabled''),
              drCookieName := cookieName cookie, drCookiePath := cookiePath cookie, drCookieTtl := cookie_duration cookie\<rparr>
        in err_bind (SetControllerReference C (owner_id trait) (drOwners dr)) (\<lambda>owners. Inr (dr\<lparr>drOwners := owners\<rparr>))))"

definition createOrUpdateDestinationRule ::
  "'w trait_client \<Rightarrow> ingress_trait \<Rightarrow> ingress_rule \<Rightarrow> string \<Rightarrow> reconcile_results \<Rightarrow> service list \<Rightarrow> ('w, reconcile_results) call" where
  "createOrUpdateDestinationRule C trait rule name status services = (case destCookie (ruleDestination rule) of
       None \<Rightarrow> call_ret status
     | Some cookie \<Rightarrow> call_try (call_io (GetNamespaceOf C (itNamespace trait))) (\<lambda>r.
         (let labels = (case r of Inr l \<Rightarrow> l | Inl err \<Rightarrow> Map.empty) in
          call_bind (CreateOrUpdateProtobuf (dr_calls C)
             \<lparr>drNamespace = itNamespace trait, drName = name, drHost = [], drMutual = False, drCookieName = [],
               drCookiePath = [], drCookieTtl = (0, 0), drOwners = []\<rparr>
             (\<lambda>dr. call_io (io_pure (mutateDestinationRule C dr trait rule cookie services labels)))) (\<lambda>(res, err, dr).
           call_ret (append_outcome (relation ''networking.istio.io/v1alpha3'' ''DestinationRule'' name ''destinationrule'') res err status)))))"

fun policies_loop ::
  "'w trait_client \<Rightarrow> ingress_trait \<Rightarrow> bool \<Rightarrow> string \<Rightarrow> string list \<Rightarrow> ingress_path list \<Rightarrow> reconcile_results
    \<Rightarrow> ('w, reconcile_results) call" where
  "policies_loop C trait addAuthPolicy namePrefix hosts [] status = call_ret status"
| "policies_loop C trait addAuthPolicy namePrefix hosts (path # paths) status =
     (if addAuthPolicy then
        (let (policy, requireFrom) = (case pathPolicy path of
                Some rules \<Rightarrow> (rules, True)
              | None \<Rightarrow> ([\<lparr>ruleFrom = None, ruleWhen = None\<rparr>], False));
             authzPolicy = \<lparr>apNamespace = IstioSystemNamespace, apName = policy_name namePrefix path,
                apLabels = [(LabelIngressTraitNsn, getIngressTraitNsn (itNamespace trait) (itName trait))], apSelector = [], apRules = []\<rparr>
         in call_bind (CreateOrUpdateProtobuf (policy_calls C) authzPolicy
               (\<lambda>p. call_io (io_pure (mutateAuthorizationPolicy p policy (pathPath path) hosts requireFrom)))) (\<lambda>(res, err, p).
             policies_loop C trait addAuthPolicy namePrefix hosts paths
               (append_outcome (relation ''security.istio.io/v1beta1'' ''AuthorizationPolicy'' namePrefix ''authorizationpolicy'') res err status)))
      else policies_loop C trait addAuthPolicy namePrefix hosts paths status)"

definition createOrUpdateAuthorizationPolicies ::
  "'w trait_client \<Rightarrow> ingress_trait \<Rightarrow> ingress_rule \<Rightarrow> string \<Rightarrow> string list \<Rightarrow> reconcile_results \<Rightarrow> ('w, reconcile_results) call" where
  "createOrUpdateAuthorizationPolicies C trait rule namePrefix hosts status =
     policies_loop C trait (list_ex (\<lambda>path. pathPolicy path \<noteq> None) (rulePaths rule)) namePrefix hosts (rulePaths rule) status"

section \<open>Reconciling\<close>

text \<open>The names of what belongs to the rule at an index.\<close>

definition rule_name :: "ingress_trait \<Rightarrow> nat \<Rightarrow> string \<Rightarrow> string" where
  "rule_name trait index kind = itName trait @ ''-rule-'' @ show_nat index @ ''-'' @ kind"

type_synonym child_result = "reconcile_results \<times> ctrl_result \<times> go_error option"

fun rules_loop ::
  "'w trait_client \<Rightarrow> ingress_trait \<Rightarrow> string list \<Rightarrow> gateway \<Rightarrow> nat \<Rightarrow> ingress_rule list \<Rightarrow> reconcile_results
    \<Rightarrow> ('w, child_result) call" where
  "rules_loop C trait allHosts gateway index [] status = call_ret (status, no_requeue, None)"
| "rules_loop C trait allHosts gateway index (rule # rules) status =
     call_try (call_io (fetchServicesFromTrait C trait)) (\<lambda>r. case r of
         Inl err \<Rightarrow> call_ret (status, no_requeue, Some err)
       | Inr services \<Rightarrow>
           (if length services = 0
            then call_ret (status, \<lparr>Requeue = True, RequeueAfter = IntnDelay C 2 8 * nano_second\<rparr>, None)
            else call_try (createHostsFromIngressTraitRule (HostClient C) rule trait []) (\<lambda>h.
              (let status1 = (case h of Inl err \<Rightarrow> append_error err status | Inr hs \<Rightarrow> status);
                   vsHosts = (case h of Inl err \<Rightarrow> [] | Inr hs \<Rightarrow> hs)
               in call_bind (createOrUpdateVirtualService C trait rule vsHosts (rule_name trait index ''vs'') services gateway status1) (\<lambda>status2.
                  call_bind (createOrUpdateDestinationRule C trait rule (rule_name trait index ''dr'') status2 services) (\<lambda>status3.
                  call_bind (createOrUpdateAuthorizationPolicies C trait rule (rule_name trait index ''authz'') allHosts status3)
                    (rules_loop C trait allHosts gateway (index + 1) rules)))))))"

definition createOrUpdateChildResources :: "'w trait_client \<Rightarrow> ingress_trait \<Rightarrow> ('w, child_result) call" where
  "createOrUpdateChildResources C trait =
     (let rules = (if length (itRules trait) = 0 then [default_rule] else itRules trait) in
      call_bind (coallateAllHostsForTrait (HostClient C) trait) (\<lambda>allHostsForTrait w.
        case createOrUseGatewaySecret C trait allHostsForTrait no_results w of ((secretName, status), w1) \<Rightarrow>
          (if secretName = [] then call_ret (status, no_requeue, None) w1
           else (case buildGatewayName trait of
               Inl err \<Rightarrow> call_ret (append_error err status, no_requeue, None) w1
             | Inr gwn \<Rightarrow> call_bind (createOrUpdateGateway C trait allHostsForTrait gwn secretName status) (\<lambda>(g, status1).
                 case g of
                   Inl err \<Rightarrow> call_ret (status1, no_requeue, Some err)
                 | Inr gateway \<Rightarrow> rules_loop C trait allHostsForTrait gateway 0 rules status1) w1))))"

definition doReconcileTrait :: "'w trait_client \<Rightarrow> ingress_trait \<Rightarrow> ('w, ctrl_result \<times> go_error option) call" where
  "doReconcileTrait C trait =
     (if isIngressTraitBeingDeleted trait then
        call_try (cleanup C trait) (\<lambda>r. case r of
            Inl err \<Rightarrow> call_ret (requeue_now, None)
          | Inr _ \<Rightarrow> call_try (call_io (io_unit (removeFinalizerIfRequired C trait))) (\<lambda>r. case r of
                Inl err \<Rightarrow> call_ret (newRequeueWithDelay (IntnDelay C), None)
              | Inr _ \<Rightarrow> call_ret (no_requeue, None)))
      else (\<lambda>w. case addFinalizerIfRequired C trait w of (trait1, w1) \<Rightarrow>
        call_bind (createOrUpdateChildResources C trait1) (\<lambda>(status, result, err).
          if err \<noteq> None then call_ret (no_requeue, err)
          else if Requeue result then call_ret (result, None)
          else (\<lambda>w. case updateTraitStatus C trait1 status w of
              ((requeue, err), w1) \<Rightarrow> Ret (Inr (if requeue then requeue_now else no_requeue, err), w1))) w1))"

definition fetchTrait :: "'w trait_client \<Rightarrow> string \<Rightarrow> string \<Rightarrow> 'w \<Rightarrow> (go_error + ingress_trait option) \<times> 'w" where
  "fetchTrait C namespace name w = (case GetTrait C namespace name w of
       (Inl err, w1) \<Rightarrow> (if IsNotFound err then Inr None else Inl err, w1)
     | (Inr trait, w1) \<Rightarrow> (Inr (Some trait), w1))"

text \<open>\<open>Reconcile\<close> never returns an error: it asks to be called again.\<close>

definition ReconcileTrait :: "'w trait_client \<Rightarrow> string \<Rightarrow> string \<Rightarrow> ('w, ctrl_result) call" where
  "ReconcileTrait C namespace name =
     (if namespace = ''kube-system'' then call_ret no_requeue
      else call_try (call_io (fetchTrait C namespace name)) (\<lambda>r. case r of
          Inl err \<Rightarrow> call_ret (newRequeueWithDelay (IntnDelay C))
        | Inr None \<Rightarrow> call_ret no_requeue
        | Inr (Some trait) \<Rightarrow> call_bind (doReconcileTrait C trait) (\<lambda>(res, err).
            if ShouldRequeue res then call_ret res
            else if err \<noteq> None then call_ret (newRequeueWithDelay (IntnDelay C))
            else call_ret no_requeue)))"

section \<open>Watches\<close>

text \<open>An ingress or a service in an update event: its namespace, name and the rest of its spec.\<close>

definition isConsoleIngressUpdated :: "string \<times> string \<times> foreign \<Rightarrow> string \<times> string \<times> foreign \<Rightarrow> bool" where
  "isConsoleIngressUpdated oldIngress newIngress =
     (if fst oldIngress \<noteq> ''verrazzano-system'' \<or> fst (snd oldIngress) \<noteq> ''verrazzano-ingress'' then False
      else snd (snd oldIngress) \<noteq> snd (snd newIngress))"

definition isIstioIngressGatewayUpdated :: "string \<times> string \<times> foreign \<Rightarrow> string \<times> string \<times> foreign \<Rightarrow> bool" where
  "isIstioIngressGatewayUpdated oldSvc newSvc =
     (if fst oldSvc \<noteq> ''istio-system'' \<or> fst (snd oldSvc) \<noteq> ''istio-ingressgateway'' then False
      else snd (snd oldSvc) \<noteq> snd (snd newSvc))"

definition createIngressTraitReconcileRequests :: "'w trait_client \<Rightarrow> 'w \<Rightarrow> (string \<times> string) list \<times> 'w" where
  "createIngressTraitReconcileRequests C w = (case ListTraits C w of
       (Inl err, w1) \<Rightarrow> ([], w1)
     | (Inr items, w1) \<Rightarrow> (items, w1))"

end
