(* ===== verification/Ingress_Laws.thy ===== *)
theory Ingress_Laws imports Ingress_Trait begin

text \<open>
  What holds of ingress traits: the hosts a trait stands for, the servers of the gateway the traits of
  an application share, the service a rule is routed to, the lifetime of a cookie, the policies two
  traits share, and what is left of a deleted trait.
\<close>

section \<open>Hosts\<close>

text \<open>Hosts that a gateway can serve: no two equal up to case, none empty, no wildcard.\<close>

definition good_hosts :: "string list \<Rightarrow> bool" where
  "good_hosts hs \<longleftrightarrow> distinct (map ToLower hs) \<and> (\<forall>h \<in> set hs. h \<noteq> [] \<and> \<not> Contains h ''*'')"

lemma findHost_iff: "snd (findHost hosts h) \<longleftrightarrow> ToLower h \<in> ToLower ` set hosts"
proof -
  have "snd (findHost_from i hosts h) \<longleftrightarrow> ToLower h \<in> ToLower ` set hosts" for i
    by (induction i hosts h rule: findHost_from.induct) (auto simp: EqualFold_def)
  then show ?thesis by (simp add: findHost_def)
qed

lemma lower_char_idem [simp]: "lower_char (lower_char c) = lower_char c"
proof (cases "65 \<le> (of_char c :: nat) \<and> (of_char c :: nat) \<le> 90")
  case True
  then have "(of_char (char_of (of_char c + 32 :: nat)) :: nat) = of_char c + 32" by simp
  with True show ?thesis by (simp add: lower_char_def Let_def)
qed (auto simp: lower_char_def Let_def)

lemma ToLower_idem [simp]: "ToLower (ToLower s) = ToLower s"
  by (simp add: ToLower_def)

lemma ToLower_Nil [simp]: "ToLower s = [] \<longleftrightarrow> s = []"
  by (simp add: ToLower_def)

lemma lower_char_star: "lower_char c = CHR ''*'' \<longleftrightarrow> c = CHR ''*''"
proof (cases "65 \<le> (of_char c :: nat) \<and> (of_char c :: nat) \<le> 90")
  case True
  then have "(of_char (lower_char c) :: nat) \<ge> 97" by (simp add: lower_char_def Let_def)
  then have "lower_char c \<noteq> CHR ''*''" by auto
  moreover from True have "c \<noteq> CHR ''*''" by auto
  ultimately show ?thesis by simp
qed (auto simp: lower_char_def Let_def)

lemma Contains_char: "Contains s [c] \<longleftrightarrow> c \<in> set s"
  by (induction s) auto

lemma Contains_ToLower: "Contains (ToLower s) ''*'' \<longleftrightarrow> Contains s ''*''"
  unfolding Contains_char ToLower_def using lower_char_star by (metis (no_types, lifting) image_iff list.set_map)

lemma good_hosts_snoc:
  "good_hosts hs \<Longrightarrow> \<not> snd (findHost hs h) \<Longrightarrow> h \<noteq> [] \<Longrightarrow> \<not> Contains h ''*'' \<Longrightarrow> good_hosts (hs @ [h])"
  unfolding findHost_iff by (auto simp: good_hosts_def)

lemma hosts_loop_good:
  "good_hosts hs \<Longrightarrow> hosts_loop new hs d = (hs', d') \<Longrightarrow> good_hosts hs' \<and> (\<exists>ys. hs' = hs @ ys)"
proof (induction new hs d rule: hosts_loop.induct)
  case (2 h0 new hs d)
  let ?h = "TrimSpace h0"
  consider "snd (findHost hs ?h)" | "\<not> snd (findHost hs ?h)" "length ?h = 0 \<or> Contains ?h ''*''"
    | "\<not> snd (findHost hs ?h)" "\<not> (length ?h = 0 \<or> Contains ?h ''*'')" by blast
  then show ?case
  proof cases
    case 1
    with 2 show ?thesis by (simp add: Let_def)
  next
    case 2
    with "2.prems" "2.IH" (2) show ?thesis by (simp add: Let_def)
  next
    case 3
    let ?n = "ToLower (TrimSpace ?h)"
    have "\<not> snd (findHost hs ?n)" using 3(1) by (simp add: findHost_iff)
    with 3 2(4) have g: "good_hosts (hs @ [?n])" by (intro good_hosts_snoc) (simp_all add: Contains_ToLower)
    from 3 2(5) have "hosts_loop new (hs @ [?n]) False = (hs', d')" by (simp add: Let_def)
    from "2.IH"(3) [OF refl _ _ g this] 3 show ?thesis by auto
  qed
qed simp

lemma call_bind_cases:
  assumes "call_bind m f w = Ret (r, w2)"
  obtains (failed) e where "m w = Ret (Inl e, w2)" "r = Inl e" | (went) a w1 where "m w = Ret (Inr a, w1)" "f a w1 = Ret (r, w2)"
proof -
  from assms obtain x w1 where m: "m w = Ret (x, w1)" and r: "(case x of Inl e \<Rightarrow> Ret (Inl e, w1) | Inr a \<Rightarrow> f a w1) = Ret (r, w2)"
    by (auto simp: call_bind_def res_bind_Ret_iff)
  show ?thesis
  proof (cases x)
    case (Inl e)
    with m r show ?thesis by (intro failed) auto
  next
    case (Inr a)
    with m r show ?thesis by (intro went) auto
  qed
qed

lemma default_host_not_empty: "buildAppFullyQualifiedHostName C trait w = Ret (Inr h, w') \<Longrightarrow> h \<noteq> []"
  by (auto simp: buildAppFullyQualifiedHostName_def call_bind_Ret_Inr_iff split: option.splits)

lemma hosts_of_rule_good:
  assumes "\<And>w h w'. buildAppFullyQualifiedHostName C trait w = Ret (Inr h, w') \<Longrightarrow> \<not> Contains h ''*''"
    and "good_hosts toList" and "createHostsFromIngressTraitRule C rule trait toList w = Ret (Inr hs, w')"
  shows "good_hosts hs"
proof -
  obtain vs d where l: "hosts_loop (ruleHosts rule) toList True = (vs, d)" by (cases "hosts_loop (ruleHosts rule) toList True")
  from hosts_loop_good [OF assms(2) l] have g: "good_hosts vs" by simp
  show ?thesis
  proof (cases d)
    case False
    with assms(3) l g show ?thesis by (simp add: createHostsFromIngressTraitRule_def)
  next
    case True
    with assms(3) l obtain h w1 where h: "buildAppFullyQualifiedHostName C trait w = Ret (Inr h, w1)"
      "hs = (if \<not> snd (findHost vs h) then vs @ [h] else vs)"
      by (auto simp: createHostsFromIngressTraitRule_def call_bind_Ret_Inr_iff)
    with g good_hosts_snoc [OF g] assms(1) [OF h(1)] default_host_not_empty [OF h(1)] show ?thesis by simp
  qed
qed

text \<open>C29. The hosts of a trait, which become the hosts of its certificate and of its server on the gateway, never
  repeat up to case and are neither empty nor wildcards, whatever hosts its rules list.\<close>

theorem trait_hosts_good:
  assumes "\<And>w h w'. buildAppFullyQualifiedHostName C trait w = Ret (Inr h, w') \<Longrightarrow> \<not> Contains h ''*''"
    and "coallateAllHostsForTrait C trait w = Ret (r, w')"
  shows "\<exists>hs. r = Inr hs \<and> good_hosts hs"
proof -
  have "\<exists>hs. r = Inr hs \<and> good_hosts hs" if "good_hosts toList" "all_hosts_loop C trait rules toList w = Ret (r, w')" for rules toList w
    using that
  proof (induction rules arbitrary: toList w)
    case (Cons rule rules)
    from Cons.prems(2) obtain x w1 where x: "createHostsFromIngressTraitRule C rule trait toList w = Ret (x, w1)"
      and n: "all_hosts_loop C trait rules (case x of Inr hosts \<Rightarrow> hosts | Inl err \<Rightarrow> []) w1 = Ret (r, w')"
      by (auto simp: call_try_Ret_iff)
    have "good_hosts (case x of Inr hosts \<Rightarrow> hosts | Inl err \<Rightarrow> [])"
    proof (cases x)
      case (Inr hosts)
      have "good_hosts hosts" by (rule hosts_of_rule_good [OF _ Cons.prems(1)]) (use assms(1) x Inr in auto)
      with Inr show ?thesis by simp
    qed (simp add: good_hosts_def)
    from Cons.IH [OF this n] show ?case .
  qed auto
  from this [of "[]" "itRules trait" w] assms(2) show ?thesis by (simp add: coallateAllHostsForTrait_def good_hosts_def)
qed

definition sample_trait :: "string \<Rightarrow> ingress_rule list \<Rightarrow> ingress_trait" where
  "sample_trait ns rules = \<lparr>itNamespace = ns, itName = ''hello'', itUID = ns, itLabels = [LabelAppName \<mapsto> ''app''], itDeletionTimestamp = None,
     itFinalizers = [], itRules = rules, itTLS = [],
     itWorkload = \<lparr>refAPIVersion = ''apps/v1'', refKind = ''Deployment'', refName = ''hello''\<rparr>, itCondition = None, itResources = []\<rparr>"

definition sample_host_client :: "unit host_client" where
  "sample_host_client = \<lparr>GetIngressAnnotations = \<lambda>w. (Inr [''external-dns.alpha.kubernetes.io/target'' \<mapsto> ''verrazzano-ingress.example.com''], w),
     GetIstioService = \<lambda>w. (Inl (NotFoundErr []), w)\<rparr>"

definition host_rule :: "string list \<Rightarrow> ingress_rule" where
  "host_rule hs = default_rule\<lparr>ruleHosts := hs\<rparr>"

lemma sample_default_host:
  "buildAppFullyQualifiedHostName sample_host_client (sample_trait ''ns'' rules) w = Ret (Inr ''app.ns.example.com'', w)"
  by (simp add: buildAppFullyQualifiedHostName_def buildNamespacedDomainName_def sample_host_client_def sample_trait_def
      LabelAppName_def after_ingress_name_def call_bind_def call_io_def call_ret_def)

theorem trait_hosts_good_witness:
  "\<exists>hs. coallateAllHostsForTrait sample_host_client (sample_trait ''ns'' [host_rule [''A.com'', ''a.com'', ''*''], host_rule []]) () = Ret (Inr hs, ())
     \<and> good_hosts hs"
proof -
  have r: "coallateAllHostsForTrait sample_host_client (sample_trait ''ns'' [host_rule [''A.com'', ''a.com'', ''*''], host_rule []]) ()
      = Ret (Inr [''a.com'', ''app.ns.example.com''], ())" by code_simp
  have "\<exists>hs. (Inr [''a.com'', ''app.ns.example.com''] :: go_error + string list) = Inr hs \<and> good_hosts hs"
    by (rule trait_hosts_good [OF _ r]) (simp add: sample_default_host)
  with r show ?thesis by auto
qed

text \<open>Hosts get lost.  A trait without rules is routed by a default rule, which stands for its default host, but
  its certificate and its server are made for no host at all; and a rule whose default host cannot be
  told leaves behind the hosts of the rules after it only, without an error in the status.\<close>

lemma trait_hosts_lost:
  assumes "createHostsFromIngressTraitRule C rule trait hs w1 = Ret (Inl err, w2)"
    and "all_hosts_loop C trait before [] w = Ret (Inr hs, w1)"
  shows "coallateAllHostsForTrait C (trait\<lparr>itRules := []\<rparr>) w = Ret (Inr [], w)
    \<and> all_hosts_loop C trait (before @ rule # after) [] w = all_hosts_loop C trait after [] w2"
proof -
  have a: "all_hosts_loop C trait (xs @ ys) l v = call_try (all_hosts_loop C trait xs l) (\<lambda>r. all_hosts_loop C trait ys (case r of Inr h \<Rightarrow> h | Inl e \<Rightarrow> [])) v"
    for xs ys l v
  proof (induction xs arbitrary: l v)
    case Nil
    then show ?case by (simp add: call_try_def call_ret_def)
  next
    case (Cons x xs)
    show ?case
      by (cases "createHostsFromIngressTraitRule C x trait l v") (auto simp: call_try_def Cons.IH)
  qed
  have "all_hosts_loop C trait (before @ rule # after) [] w = all_hosts_loop C trait after [] w2"
    unfolding a using assms by (simp add: call_try_def)
  then show ?thesis by (simp add: coallateAllHostsForTrait_def)
qed

definition no_host_client :: "unit host_client" where
  "no_host_client = sample_host_client\<lparr>GetIngressAnnotations := \<lambda>w. (Inr Map.empty, w)\<rparr>"

lemma trait_hosts_lost_witness:
  "coallateAllHostsForTrait no_host_client (sample_trait ''ns'' [host_rule [''a.com''], host_rule [], host_rule [''b.com'']]) () = Ret (Inr [''b.com''], ())"
proof -
  let ?t = "sample_trait ''ns'' [host_rule [''a.com''], host_rule [], host_rule [''b.com'']]"
  let ?e = "PlainErr ''Annotation missing from Verrazzano ingress, unable to generate DNS name''"
  have b: "all_hosts_loop no_host_client ?t [host_rule [''a.com'']] [] () = Ret (Inr [''a.com''], ())" by code_simp
  have r: "createHostsFromIngressTraitRule no_host_client (host_rule []) ?t [''a.com''] () = Ret (Inl ?e, ())" by code_simp
  have a: "all_hosts_loop no_host_client ?t [host_rule [''b.com'']] [] () = Ret (Inr [''b.com''], ())" by code_simp
  have "itRules ?t = [host_rule [''a.com'']] @ host_rule [] # [host_rule [''b.com'']]" by (simp add: sample_trait_def)
  with trait_hosts_lost [OF r b, of "[host_rule [''b.com'']]"] a show ?thesis
    unfolding coallateAllHostsForTrait_def by metis
qed

section \<open>The servers of a gateway\<close>

text \<open>What a list of servers stands for: a server for each name.\<close>

definition server_of :: "gateway_server list \<Rightarrow> string \<Rightarrow> gateway_server option" where
  "server_of servers = map_of (map (\<lambda>s. (srvName s, s)) servers)"

lemma put_server_of: "server_of (put_server servers server) = (server_of servers)(srvName server \<mapsto> server)"
  by (induction servers server rule: put_server.induct) (auto simp: server_of_def fun_eq_iff)

lemma put_server_names: "set (map srvName (put_server servers server)) = insert (srvName server) (set (map srvName servers))"
  by (induction servers server rule: put_server.induct) auto

lemma put_server_distinct: "distinct (map srvName servers) \<Longrightarrow> distinct (map srvName (put_server servers server))"
proof (induction servers server rule: put_server.induct)
  case (2 existing servers server)
  then show ?case using put_server_names [of servers server] by auto
qed simp

lemma server_of_filter: "server_of (filter (\<lambda>s. srvName s \<noteq> n) servers) = (server_of servers)(n := None)"
  by (induction servers) (auto simp: server_of_def fun_eq_iff)

text \<open>C28. The servers of a gateway that several traits share implement a map from names to servers: bringing a
  trait up to date is an update of its entry, deleting it removes the entry and gives back what
  was there for the other traits, and names stay unique.\<close>

theorem gateway_servers_refine:
  assumes "\<forall>s \<in> set servers. srvName s \<noteq> []" and "distinct (map srvName servers)"
  shows "\<exists>servers'. updateGatewayServersList servers server = Ret servers' \<and> distinct (map srvName servers')
    \<and> server_of servers' = (server_of servers)(srvName server \<mapsto> server)
    \<and> server_of (filter (\<lambda>s. srvName s \<noteq> srvName server) servers') = (server_of servers)(srvName server := None)"
proof -
  have "updateGatewayServersList servers server = Ret (put_server servers server)"
    using assms(1) by (cases servers) (auto simp: updateGatewayServersList_def)
  with put_server_distinct [OF assms(2)] show ?thesis by (simp add: put_server_of server_of_filter)
qed

definition sample_server :: "string \<Rightarrow> string list \<Rightarrow> gateway_server" where
  "sample_server n hs = \<lparr>srvName = n, srvHosts = hs, srvPort = None, srvCredentialName = ''cert''\<rparr>"

theorem gateway_servers_refine_witness:
  "\<exists>servers'. updateGatewayServersList [sample_server ''a'' [''x''], sample_server ''b'' [''y'']] (sample_server ''a'' [''z'']) = Ret servers'
     \<and> server_of servers' ''a'' = Some (sample_server ''a'' [''z'']) \<and> server_of servers' ''b'' = Some (sample_server ''b'' [''y''])"
proof -
  have n: "srvName (sample_server n hs) = n" for n hs by (simp add: sample_server_def)
  have "\<forall>s \<in> set [sample_server ''a'' [''x''], sample_server ''b'' [''y'']]. srvName s \<noteq> []" by (simp add: n)
  moreover have "distinct (map srvName [sample_server ''a'' [''x''], sample_server ''b'' [''y'']])" by (simp add: n)
  ultimately obtain servers' where "updateGatewayServersList [sample_server ''a'' [''x''], sample_server ''b'' [''y'']] (sample_server ''a'' [''z'']) = Ret servers'"
    "server_of servers' = (server_of [sample_server ''a'' [''x''], sample_server ''b'' [''y'']])(srvName (sample_server ''a'' [''z'']) \<mapsto> sample_server ''a'' [''z''])"
    using gateway_servers_refine by blast
  then show ?thesis by (simp add: n) (simp add: server_of_def n)
qed

section \<open>The service of a rule\<close>

lemma select_loop_filters:
  "select_loop services (a, b, c) = (a @ filter has_cluster_ip services, b @ filter (\<lambda>s. allowedPorts s \<noteq> []) services,
     c @ filter (\<lambda>s. has_cluster_ip s \<and> allowedPorts s \<noteq> []) services)"
  by (induction services arbitrary: a b c) auto

text \<open>Which service a rule without a destination is routed to does not depend on the order in which the
  cluster lists the services of the workload, and neither does the port.\<close>

lemma destination_order_irrelevant:
  assumes "mset services = mset services'"
  shows "createDestinationFromRuleOrService rule services = createDestinationFromRuleOrService rule services'"
proof -
  have hd: "hd xs = hd ys" if "mset xs = mset ys" "length xs = 1" for xs ys :: "service list"
    using that by (cases xs) (auto dest: mset_eq_length simp: length_Suc_conv)
  have sel: "selectServiceForDestination xs = selectServiceForDestination ys" if "mset xs = mset ys" for xs ys
  proof -
    have f: "mset (filter P xs) = mset (filter P ys)" for P using that by (simp add: mset_filter)
    have l: "length (filter P xs) = length (filter P ys)" for P using f mset_eq_length by blast
    have h: "length (filter P xs) = 1 \<Longrightarrow> hd (filter P xs) = hd (filter P ys)" for P by (rule hd [OF f])
    have lx: "length xs = length ys" using that by (rule mset_eq_length)
    show ?thesis
    proof (cases "length xs = 1")
      case True
      with hd [OF that] lx show ?thesis by (simp add: selectServiceForDestination_def)
    next
      case False
      then show ?thesis unfolding selectServiceForDestination_def select_loop_filters prod.case
        using lx l h by simp
    qed
  qed
  have e: "mset (eligible_services services p) = mset (eligible_services services' p)" for p
  proof -
    have "mset (eligible_services xs p) = (\<Sum>\<^sub># (image_mset (\<lambda>s. mset (map (\<lambda>x. s) (filter (\<lambda>x. spPort x = p) (svcPorts s)))) (mset xs)))" for xs
      by (induction xs) (simp_all add: eligible_services_def)
    then show ?thesis by (simp only: assms)
  qed
  have "createDestinationFromService services = createDestinationFromService services'"
    by (simp only: createDestinationFromService_def sel [OF assms])
  moreover have "createDestinationMatchRulePort services p = createDestinationMatchRulePort services' p" for p
    by (simp only: createDestinationMatchRulePort_def sel [OF e])
  ultimately show ?thesis by (simp only: createDestinationFromRuleOrService_def)
qed

definition sample_service :: "string \<Rightarrow> string \<Rightarrow> string \<Rightarrow> service" where
  "sample_service n ip port = \<lparr>svcName = n, svcClusterIP = ip, svcSelector = Map.empty, svcPorts = [\<lparr>spName = port, spPort = 8080\<rparr>]\<rparr>"

lemma destination_order_irrelevant_witness:
  "createDestinationFromRuleOrService default_rule [sample_service ''a'' ''None'' ''http'', sample_service ''b'' ''10.0.0.1'' ''tcp''] =
   createDestinationFromRuleOrService default_rule [sample_service ''b'' ''10.0.0.1'' ''tcp'', sample_service ''a'' ''None'' ''http'']"
  by (rule destination_order_irrelevant) simp

section \<open>The lifetime of a cookie\<close>

lemma sint_64_range: "- (2 ^ 63) \<le> sint (x :: 64 word) \<and> sint x < 2 ^ 63"
  using sint_ge [of x] sint_lt [of x] by simp

lemma durationpb_value: "fst (durationpb_New d) * 1000000000 + snd (durationpb_New d) = sint d"
  by (simp add: durationpb_New_def Let_def)

text \<open>C30. The lifetime of a session cookie, in seconds, reaches the destination rule unchanged exactly when it fits
  into 64 bits as nanoseconds, which allows some 292 years; a longer one wraps around.\<close>

theorem cookie_lifetime_bounds:
  "cookie_duration c = (sint (cookieTTL c), 0) \<longleftrightarrow>
     - (2 ^ 63) \<le> sint (cookieTTL c) * 1000000000 \<and> sint (cookieTTL c) * 1000000000 < 2 ^ 63"
proof
  assume "cookie_duration c = (sint (cookieTTL c), 0)"
  then have "sint (cookieTTL c) * 1000000000 = sint (cookieTTL c * time_second)"
    using durationpb_value [of "cookieTTL c * time_second"] by (simp add: cookie_duration_def)
  with sint_64_range [of "cookieTTL c * time_second"]
  show "- (2 ^ 63) \<le> sint (cookieTTL c) * 1000000000 \<and> sint (cookieTTL c) * 1000000000 < 2 ^ 63" by simp
next
  let ?t = "sint (cookieTTL c)"
  assume r: "- (2 ^ 63) \<le> ?t * 1000000000 \<and> ?t * 1000000000 < 2 ^ 63"
  have "sint (cookieTTL c * time_second) = signed_take_bit 63 (?t * sint time_second)"
    by (simp add: sint_word_ariths)
  also have "sint time_second = 1000000000" by (simp add: time_second_def)
  also have "signed_take_bit 63 (?t * 1000000000) = ?t * 1000000000"
    using r by (intro signed_take_bit_int_eq_self) simp_all
  finally have s: "sint (cookieTTL c * time_second) = ?t * 1000000000" .
  have "sgn (?t * 1000000000) * (\<bar>?t * 1000000000\<bar> div 1000000000) = ?t"
    by (simp add: abs_mult sgn_mult) (metis mult.commute mult_sgn_abs)
  then show "cookie_duration c = (?t, 0)" by (simp add: cookie_duration_def durationpb_New_def s)
qed

section \<open>Policies of traits with the same name\<close>

text \<open>An API server that keeps policies under their namespace and name.\<close>

definition policy_store :: "'w trait_client \<Rightarrow> ('w \<Rightarrow> string \<times> string \<Rightarrow> authz_policy option) \<Rightarrow> bool" where
  "policy_store C view \<longleftrightarrow>
     (\<forall>ns n w. GetPolicy C ns n w = (case view w (ns, n) of None \<Rightarrow> Inl (NotFoundErr n) | Some p \<Rightarrow> Inr p, w)) \<and>
     (\<forall>p w. fst (CreatePolicy C p w) = None \<and> view (snd (CreatePolicy C p w)) = (view w)((apNamespace p, apName p) \<mapsto> p)) \<and>
     (\<forall>p w. fst (UpdatePolicy C p w) = None \<and> view (snd (UpdatePolicy C p w)) = (view w)((apNamespace p, apName p) \<mapsto> p)) \<and>
     (\<forall>ns n w p. view w (ns, n) = Some p \<longrightarrow> apNamespace p = ns \<and> apName p = n)"

lemma policy_written:
  assumes s: "policy_store C view" and r: "policy_rules vz path hosts rf = Inr rs"
  shows "\<exists>res obj w'. CreateOrUpdateProtobuf (policy_calls C) p0
       (\<lambda>p. call_io (io_pure (mutateAuthorizationPolicy p vz path hosts rf))) w = Ret (Inr (res, None, obj), w')
    \<and> view w' = (view w)((apNamespace p0, apName p0) \<mapsto>
        (case view w (apNamespace p0, apName p0) of None \<Rightarrow> p0 | Some p \<Rightarrow> p)\<lparr>apSelector := [(''istio'', ''ingressgateway'')], apRules := rs\<rparr>)"
proof -
  let ?k = "(apNamespace p0, apName p0)"
  have g: "GetPolicy C (apNamespace p0) (apName p0) w = (case view w ?k of None \<Rightarrow> Inl (NotFoundErr (apName p0)) | Some p \<Rightarrow> Inr p, w)"
    using s by (simp add: policy_store_def)
  have c: "\<exists>w'. CreatePolicy C p v = (None, w') \<and> view w' = (view v)((apNamespace p, apName p) \<mapsto> p)" for p v
    using s unfolding policy_store_def by (metis prod.collapse)
  have u: "\<exists>w'. UpdatePolicy C p v = (None, w') \<and> view w' = (view v)((apNamespace p, apName p) \<mapsto> p)" for p v
    using s unfolding policy_store_def by (metis prod.collapse)
  have k: "apNamespace p = apNamespace p0 \<and> apName p = apName p0" if "view w ?k = Some p" for p
    using s that unfolding policy_store_def by blast
  show ?thesis
  proof (cases "view w ?k")
    case None
    let ?p = "p0\<lparr>apSelector := [(''istio'', ''ingressgateway'')], apRules := rs\<rparr>"
    from c [of ?p w] obtain w' where "CreatePolicy C ?p w = (None, w')" "view w' = (view w)(?k \<mapsto> ?p)" by auto
    with None show ?thesis
      by (simp add: CreateOrUpdateProtobuf_def policy_calls_def call_try_def call_io_def g IsNotFound_def mutate_def
          mutateAuthorizationPolicy_def r io_pure_def call_bind_def call_ret_def finish_write_def)
  next
    case (Some p)
    let ?p = "p\<lparr>apSelector := [(''istio'', ''ingressgateway'')], apRules := rs\<rparr>"
    from u [of ?p w] k [OF Some] obtain w' where w: "UpdatePolicy C ?p w = (None, w')" "view w' = (view w)(?k \<mapsto> ?p)" by auto
    have same: "view w = (view w)(?k \<mapsto> p)" using Some by (simp add: fun_upd_idem)
    show ?thesis
    proof (cases "p = ?p")
      case True
      then show ?thesis using Some k [OF Some] same
        by (simp add: CreateOrUpdateProtobuf_def policy_calls_def call_try_def call_io_def g mutate_def
            mutateAuthorizationPolicy_def r io_pure_def call_bind_def call_ret_def)
    next
      case False
      then show ?thesis using Some k [OF Some] w
        by (simp add: CreateOrUpdateProtobuf_def policy_calls_def call_try_def call_io_def g mutate_def
            mutateAuthorizationPolicy_def r io_pure_def call_bind_def call_ret_def finish_write_def)
    qed
  qed
qed

text \<open>What one path of a rule that has policies writes.\<close>

definition path_rules :: "ingress_path \<Rightarrow> string list \<Rightarrow> go_error + policy_rule list" where
  "path_rules path hosts = (case pathPolicy path of
       Some rules \<Rightarrow> policy_rules rules (pathPath path) hosts True
     | None \<Rightarrow> policy_rules [\<lparr>ruleFrom = None, ruleWhen = None\<rparr>] (pathPath path) hosts False)"

definition put_policy :: "ingress_trait \<Rightarrow> string \<Rightarrow> string list \<Rightarrow> ingress_path
    \<Rightarrow> (string \<times> string \<Rightarrow> authz_policy option) \<Rightarrow> string \<times> string \<Rightarrow> authz_policy option" where
  "put_policy trait prefix hosts path v =
     (let k = (IstioSystemNamespace, policy_name prefix path) in
      case path_rules path hosts of
        Inl _ \<Rightarrow> v
      | Inr rs \<Rightarrow> v(k \<mapsto> (case v k of
             None \<Rightarrow> \<lparr>apNamespace = IstioSystemNamespace, apName = policy_name prefix path,
               apLabels = [(LabelIngressTraitNsn, getIngressTraitNsn (itNamespace trait) (itName trait))], apSelector = [], apRules = []\<rparr>
           | Some p \<Rightarrow> p)\<lparr>apSelector := [(''istio'', ''ingressgateway'')], apRules := rs\<rparr>))"

lemma policy_not_written:
  assumes s: "policy_store C view" and r: "policy_rules vz path hosts rf = Inl e"
  shows "\<exists>res obj. CreateOrUpdateProtobuf (policy_calls C) p0
       (\<lambda>p. call_io (io_pure (mutateAuthorizationPolicy p vz path hosts rf))) w = Ret (Inr (res, Some e, obj), w)"
proof -
  have "GetPolicy C (apNamespace p0) (apName p0) w =
      (case view w (apNamespace p0, apName p0) of None \<Rightarrow> Inl (NotFoundErr (apName p0)) | Some p \<Rightarrow> Inr p, w)"
    using s by (simp add: policy_store_def)
  then show ?thesis
    by (cases "view w (apNamespace p0, apName p0)")
      (simp_all add: CreateOrUpdateProtobuf_def policy_calls_def call_try_def call_io_def IsNotFound_def mutate_def
          mutateAuthorizationPolicy_def r io_pure_def call_bind_def call_ret_def)
qed

lemma policies_loop_view:
  assumes "policy_store C view"
  shows "\<exists>status' w'. policies_loop C trait True prefix hosts paths status w = Ret (Inr status', w')
    \<and> view w' = fold (put_policy trait prefix hosts) paths (view w)"
proof (induction paths arbitrary: status w)
  case Nil
  show ?case by (simp add: call_ret_def)
next
  case (Cons path paths)
  let ?p0 = "\<lparr>apNamespace = IstioSystemNamespace, apName = policy_name prefix path,
     apLabels = [(LabelIngressTraitNsn, getIngressTraitNsn (itNamespace trait) (itName trait))], apSelector = [], apRules = []\<rparr>"
  obtain vz rf where v: "(case pathPolicy path of Some rules \<Rightarrow> (rules, True) | None \<Rightarrow> ([\<lparr>ruleFrom = None, ruleWhen = None\<rparr>], False)) = (vz, rf)"
    by fastforce
  have r: "path_rules path hosts = policy_rules vz (pathPath path) hosts rf"
    using v by (auto simp: path_rules_def split: option.splits)
  have "\<exists>res err obj w1. CreateOrUpdateProtobuf (policy_calls C) ?p0
       (\<lambda>p. call_io (io_pure (mutateAuthorizationPolicy p vz (pathPath path) hosts rf))) w = Ret (Inr (res, err, obj), w1)
     \<and> view w1 = put_policy trait prefix hosts path (view w)"
  proof (cases "path_rules path hosts")
    case (Inl e)
    then have q: "policy_rules vz (pathPath path) hosts rf = Inl e" using r by simp
    with policy_not_written [OF assms q, of ?p0 w] r show ?thesis by (auto simp: put_policy_def Let_def)
  next
    case (Inr rs)
    then have q: "policy_rules vz (pathPath path) hosts rf = Inr rs" using r by simp
    with policy_written [OF assms q, of ?p0 w] r show ?thesis by (auto simp: put_policy_def Let_def)
  qed
  then obtain res err obj w1 where
    "CreateOrUpdateProtobuf (policy_calls C) ?p0
       (\<lambda>p. call_io (io_pure (mutateAuthorizationPolicy p vz (pathPath path) hosts rf))) w = Ret (Inr (res, err, obj), w1)"
    "view w1 = put_policy trait prefix hosts path (view w)" by blast
  with v Cons.IH [of _ w1] show ?case by (simp add: call_bind_def)
qed

lemma policies_view:
  assumes "policy_store C view" "\<exists>path \<in> set (rulePaths rule). pathPolicy path \<noteq> None"
  shows "\<exists>status' w'. createOrUpdateAuthorizationPolicies C trait rule prefix hosts status w = Ret (Inr status', w')
    \<and> view w' = fold (put_policy trait prefix hosts) (rulePaths rule) (view w)"
proof -
  have "list_ex (\<lambda>path. pathPolicy path \<noteq> None) (rulePaths rule)" using assms(2) by (simp add: list_ex_iff)
  with policies_loop_view [OF assms(1)] show ?thesis unfolding createOrUpdateAuthorizationPolicies_def by simp
qed

lemma one_path_policies:
  assumes "rulePaths rule = [path]" and "pathPolicy path = Some vz" and "policy_store C view"
    and "policy_rules vz (pathPath path) hosts True = Inr rs"
  shows "\<exists>status' w'. createOrUpdateAuthorizationPolicies C trait rule prefix hosts status w = Ret (Inr status', w')
    \<and> view w' = (view w)((IstioSystemNamespace, policy_name prefix path) \<mapsto>
        (case view w (IstioSystemNamespace, policy_name prefix path) of
           None \<Rightarrow> \<lparr>apNamespace = IstioSystemNamespace, apName = policy_name prefix path,
             apLabels = [(LabelIngressTraitNsn, getIngressTraitNsn (itNamespace trait) (itName trait))], apSelector = [], apRules = []\<rparr>
         | Some p \<Rightarrow> p)\<lparr>apSelector := [(''istio'', ''ingressgateway'')], apRules := rs\<rparr>)"
proof -
  have "\<exists>p \<in> set (rulePaths rule). pathPolicy p \<noteq> None" using assms(1,2) by simp
  from policies_view [OF assms(3) this, of trait prefix hosts status w] assms(1,2,4) show ?thesis
    by (simp add: put_policy_def path_rules_def Let_def)
qed

text \<open>C27. Policies are kept in one namespace under names that leave out the namespace of the trait, and the slashes
  of the path: when two traits of the same name in different namespaces ask for a policy on the same
  path, or one rule on two paths that differ in slashes only, the second takes the place of the first,
  whose hosts are then under no policy of their own, and keeps the label of the first.\<close>

theorem policy_taken_over:
  assumes "policy_store C view" and "itName t1 = itName t2"
    and "rulePaths rule1 = [path1]" "pathPolicy path1 = Some vz1" "policy_rules vz1 (pathPath path1) hosts1 True = Inr rs1"
    and "rulePaths rule2 = [path2]" "pathPolicy path2 = Some vz2" "policy_rules vz2 (pathPath path2) hosts2 True = Inr rs2"
    and "ReplaceAll ''/'' [] (pathPath path1) = ReplaceAll ''/'' [] (pathPath path2)"
    and "view w (IstioSystemNamespace, policy_name (rule_name t1 i ''authz'') path1) = None"
  shows "\<exists>s1 w1 s2 w2 p. createOrUpdateAuthorizationPolicies C t1 rule1 (rule_name t1 i ''authz'') hosts1 status w = Ret (Inr s1, w1)
    \<and> createOrUpdateAuthorizationPolicies C t2 rule2 (rule_name t2 i ''authz'') hosts2 status w1 = Ret (Inr s2, w2)
    \<and> view w2 (IstioSystemNamespace, policy_name (rule_name t1 i ''authz'') path1) = Some p
    \<and> apRules p = rs2 \<and> apLabels p = [(LabelIngressTraitNsn, getIngressTraitNsn (itNamespace t1) (itName t1))]"
proof -
  have n: "policy_name (rule_name t2 i ''authz'') path2 = policy_name (rule_name t1 i ''authz'') path1"
    using assms(2,9) by (simp add: policy_name_def rule_name_def)
  from one_path_policies [OF assms(3,4) assms(1,5), of t1 "rule_name t1 i ''authz''" status w] assms(10)
  obtain s1 w1 where 1: "createOrUpdateAuthorizationPolicies C t1 rule1 (rule_name t1 i ''authz'') hosts1 status w = Ret (Inr s1, w1)"
    "view w1 (IstioSystemNamespace, policy_name (rule_name t1 i ''authz'') path1) =
      Some \<lparr>apNamespace = IstioSystemNamespace, apName = policy_name (rule_name t1 i ''authz'') path1,
        apLabels = [(LabelIngressTraitNsn, getIngressTraitNsn (itNamespace t1) (itName t1))],
        apSelector = [(''istio'', ''ingressgateway'')], apRules = rs1\<rparr>"
    by auto
  from one_path_policies [OF assms(6,7) assms(1,8), of t2 "rule_name t2 i ''authz''" status w1] 1(2) n
  obtain s2 w2 where "createOrUpdateAuthorizationPolicies C t2 rule2 (rule_name t2 i ''authz'') hosts2 status w1 = Ret (Inr s2, w2)"
    "view w2 (IstioSystemNamespace, policy_name (rule_name t1 i ''authz'') path1) =
      Some \<lparr>apNamespace = IstioSystemNamespace, apName = policy_name (rule_name t1 i ''authz'') path1,
        apLabels = [(LabelIngressTraitNsn, getIngressTraitNsn (itNamespace t1) (itName t1))],
        apSelector = [(''istio'', ''ingressgateway'')], apRules = rs2\<rparr>"
    by auto
  with 1(1) show ?thesis by (metis authz_policy.select_convs(3,5))
qed

text \<open>An API server that keeps policies and gateways in lists, the latest version of each first.\<close>

type_synonym istio_objects = "authz_policy list \<times> gateway list"

definition policy_at :: "istio_objects \<Rightarrow> string \<times> string \<Rightarrow> authz_policy option" where
  "policy_at w k = find (\<lambda>p. (apNamespace p, apName p) = k) (fst w)"

definition gateway_at :: "istio_objects \<Rightarrow> string \<times> string \<Rightarrow> gateway option" where
  "gateway_at w k = find (\<lambda>g. (gwNamespace g, gwName g) = k) (snd w)"

definition sample_nav :: "istio_objects nav_client" where
  "sample_nav = \<lparr>GetUnstructured = \<lambda>a k ns n w. (Inl (NotFoundErr n), w), GetWorkloadDefinition = \<lambda>n w. (Inl (NotFoundErr n), w),
     ListUnstructured = \<lambda>a k ns s w. (Inr [], w), GetApplication = \<lambda>ns n w. (Inl (NotFoundErr n), w),
     ListTraitItems = \<lambda>a k ns w. (Inr [], w), ConvertRawExtension = \<lambda>r. Inl (PlainErr r), Plural = \<lambda>s. s @ ''s'',
     FromAPIVersionAndKind = \<lambda>a k. ([], a, k), ToAPIVersionAndKind = \<lambda>g. (fst (snd g), snd (snd g))\<rparr>"

definition istio_client :: "istio_objects trait_client" where
  "istio_client = \<lparr>Nav = sample_nav,
     HostClient = \<lparr>GetIngressAnnotations = \<lambda>w. (Inr Map.empty, w), GetIstioService = \<lambda>w. (Inl (NotFoundErr []), w)\<rparr>,
     IntnDelay = \<lambda>lo hi. lo, GetTrait = \<lambda>ns n w. (Inl (NotFoundErr n), w), UpdateTrait = \<lambda>t w. (None, w),
     UpdateTraitStatus = \<lambda>t w. (None, w), ListTraits = \<lambda>w. (Inr [], w),
     CreateOrUpdateCertificate = \<lambda>n c w. ((OperationResultCreated, None), w), DeleteCertificate = \<lambda>ns n w. (None, w),
     DeleteTraitSecret = \<lambda>ns n w. (None, w), ListPolicies = \<lambda>l w. (Inr [], w), DeletePolicy = \<lambda>p w. (None, w),
     GetPolicy = \<lambda>ns n w. (case policy_at w (ns, n) of None \<Rightarrow> Inl (NotFoundErr n) | Some p \<Rightarrow> Inr p, w),
     CreatePolicy = \<lambda>p w. (None, (p # fst w, snd w)), UpdatePolicy = \<lambda>p w. (None, (p # fst w, snd w)),
     GetGateway = \<lambda>ns n w. (case gateway_at w (ns, n) of None \<Rightarrow> Inl (NotFoundErr n) | Some g \<Rightarrow> Inr g, w),
     CreateGateway = \<lambda>g w. (None, (fst w, g # snd w)), UpdateGateway = \<lambda>g w. (None, (fst w, g # snd w)),
     GetVirtualService = \<lambda>ns n w. (Inl (NotFoundErr n), w), CreateVirtualService = \<lambda>v w. (None, w), UpdateVirtualService = \<lambda>v w. (None, w),
     GetDestinationRule = \<lambda>ns n w. (Inl (NotFoundErr n), w), CreateDestinationRule = \<lambda>v w. (None, w), UpdateDestinationRule = \<lambda>v w. (None, w),
     GetAppConfig = \<lambda>ns n w. (Inr n, w), SetControllerReference = \<lambda>o1 os. Inr [o1],
     GetNamespaceOf = \<lambda>n w. (Inr Map.empty, w), ServiceOf = \<lambda>u. Inl (PlainErr [])\<rparr>"

lemma istio_policy_store: "policy_store istio_client policy_at"
  by (auto simp: policy_store_def istio_client_def policy_at_def fun_eq_iff find_Some_iff)

definition guarded_path :: ingress_path where
  "guarded_path = \<lparr>pathPath = ''/greet'', pathType = [], pathPolicy = Some [\<lparr>ruleFrom = Some [''*''], ruleWhen = None\<rparr>]\<rparr>"

definition guarded_rule :: ingress_rule where
  "guarded_rule = default_rule\<lparr>rulePaths := [guarded_path]\<rparr>"

theorem policy_taken_over_witness:
  "\<exists>s1 w1 s2 w2 p. createOrUpdateAuthorizationPolicies istio_client (sample_trait ''ns1'' [guarded_rule]) guarded_rule
        (rule_name (sample_trait ''ns1'' [guarded_rule]) 0 ''authz'') [''app.ns1.com''] no_results ([], []) = Ret (Inr s1, w1)
    \<and> createOrUpdateAuthorizationPolicies istio_client (sample_trait ''ns2'' [guarded_rule]) guarded_rule
        (rule_name (sample_trait ''ns2'' [guarded_rule]) 0 ''authz'') [''app.ns2.com''] no_results w1 = Ret (Inr s2, w2)
    \<and> policy_at w2 (IstioSystemNamespace, policy_name (rule_name (sample_trait ''ns1'' [guarded_rule]) 0 ''authz'') guarded_path) = Some p
    \<and> apRules p = [\<lparr>prFrom = Some [''*''], prTo = Some ([''app.ns2.com''], [''/greet'']), prWhen = []\<rparr>]
    \<and> apLabels p = [(LabelIngressTraitNsn, ''ns1-hello'')]"
proof -
  let ?t1 = "sample_trait ''ns1'' [guarded_rule]" and ?t2 = "sample_trait ''ns2'' [guarded_rule]"
  have n: "itName ?t1 = itName ?t2" "itName ?t1 = ''hello''" "itNamespace ?t1 = ''ns1''" by (simp_all add: sample_trait_def)
  have r: "rulePaths guarded_rule = [guarded_path]" "pathPolicy guarded_path = Some [\<lparr>ruleFrom = Some [''*''], ruleWhen = None\<rparr>]"
    by (simp_all add: guarded_rule_def guarded_path_def)
  have p: "policy_rules [\<lparr>ruleFrom = Some [''*''], ruleWhen = None\<rparr>] (pathPath guarded_path) hs True =
      Inr [\<lparr>prFrom = Some [''*''], prTo = Some (hs, [''/greet'']), prWhen = []\<rparr>]" for hs
    by (simp add: createAuthorizationPolicyRule_def guarded_path_def)
  have e: "policy_at ([], []) k = None" for k by (simp add: policy_at_def)
  show ?thesis
    using policy_taken_over [OF istio_policy_store n(1) r p [of "[''app.ns1.com'']"] r p [of "[''app.ns2.com'']"] refl e,
        where i = 0 and status = no_results] n(2,3)
    by (simp add: getIngressTraitNsn_def)
qed

lemma put_policy_other:
  "k \<noteq> (IstioSystemNamespace, policy_name prefix path) \<Longrightarrow> put_policy trait prefix hosts path v k = v k"
  by (simp add: put_policy_def Let_def split: sum.splits)

lemma fold_put_policy_other:
  "\<forall>path \<in> set paths. policy_name prefix path \<noteq> n \<Longrightarrow>
   fold (put_policy trait prefix hosts) paths v (IstioSystemNamespace, n) = v (IstioSystemNamespace, n)"
  by (induction paths arbitrary: v) (auto simp: put_policy_other)

text \<open>C24. A path left out opens the gateway.  In a rule where some path has a policy, a path that is empty and has no
  policy of its own is routed like the path / it stands for, but the policy written for it is one rule
  without any condition, on no host and no path, whereas the path / written out gives a rule on it.\<close>

theorem empty_path_opens_gateway:
  assumes "policy_store C view" and "rulePaths rule = ps @ path # qs" and "pathPath path = []" "pathPolicy path = None"
    and "\<exists>q \<in> set (rulePaths rule). pathPolicy q \<noteq> None" and "\<forall>q \<in> set qs. policy_name prefix q \<noteq> prefix"
  shows "\<exists>status' w' p. createOrUpdateAuthorizationPolicies C trait rule prefix hosts status w = Ret (Inr status', w')
    \<and> view w' (IstioSystemNamespace, prefix) = Some p \<and> apSelector p = [(''istio'', ''ingressgateway'')]
    \<and> apRules p = [\<lparr>prFrom = None, prTo = None, prWhen = []\<rparr>]
    \<and> path_rules (path\<lparr>pathPath := ''/''\<rparr>) hosts = Inr [\<lparr>prFrom = None, prTo = Some (hosts, [''/'']), prWhen = []\<rparr>]
    \<and> createVirtualServiceMatchURIFromIngressTraitPath path = createVirtualServiceMatchURIFromIngressTraitPath (path\<lparr>pathPath := ''/''\<rparr>)"
proof -
  have n: "policy_name prefix path = prefix" using assms(3) by (simp add: policy_name_def)
  have r: "path_rules path hosts = Inr [\<lparr>prFrom = None, prTo = None, prWhen = []\<rparr>]"
    "path_rules (path\<lparr>pathPath := ''/''\<rparr>) hosts = Inr [\<lparr>prFrom = None, prTo = Some (hosts, [''/'']), prWhen = []\<rparr>]"
    using assms(3,4) by (simp_all add: path_rules_def createAuthorizationPolicyRule_def)
  have t: "TrimSpace [] = []" "TrimSpace ''/'' = ''/''" by code_simp+
  have m: "createVirtualServiceMatchURIFromIngressTraitPath path = createVirtualServiceMatchURIFromIngressTraitPath (path\<lparr>pathPath := ''/''\<rparr>)"
    using assms(3) by (simp add: createVirtualServiceMatchURIFromIngressTraitPath_def t)
  from policies_view [OF assms(1,5), of trait prefix hosts status w] obtain status' w' where
    1: "createOrUpdateAuthorizationPolicies C trait rule prefix hosts status w = Ret (Inr status', w')"
    "view w' = fold (put_policy trait prefix hosts) (rulePaths rule) (view w)" by blast
  have "view w' (IstioSystemNamespace, prefix) =
      put_policy trait prefix hosts path (fold (put_policy trait prefix hosts) ps (view w)) (IstioSystemNamespace, prefix)"
    using 1(2) assms(2) fold_put_policy_other [OF assms(6)] by simp
  with 1(1) r m n show ?thesis by (auto simp: put_policy_def Let_def)
qed

theorem empty_path_opens_gateway_witness:
  "\<exists>status' w' p. createOrUpdateAuthorizationPolicies istio_client (sample_trait ''ns1'' [])
        (default_rule\<lparr>rulePaths := [guarded_path, \<lparr>pathPath = [], pathType = [], pathPolicy = None\<rparr>]\<rparr>)
        ''hello-rule-0-authz'' [''app.ns1.com''] no_results ([], []) = Ret (Inr status', w')
    \<and> policy_at w' (IstioSystemNamespace, ''hello-rule-0-authz'') = Some p
    \<and> apRules p = [\<lparr>prFrom = None, prTo = None, prWhen = []\<rparr>]"
proof -
  let ?p = "\<lparr>pathPath = [], pathType = [], pathPolicy = None\<rparr>"
  have r: "rulePaths (default_rule\<lparr>rulePaths := [guarded_path, ?p]\<rparr>) = [guarded_path] @ ?p # []" by simp
  have g: "\<exists>q \<in> set (rulePaths (default_rule\<lparr>rulePaths := [guarded_path, ?p]\<rparr>)). pathPolicy q \<noteq> None"
    by (simp add: guarded_path_def)
  have q: "\<forall>q \<in> set []. policy_name ''hello-rule-0-authz'' q \<noteq> ''hello-rule-0-authz''" by simp
  show ?thesis
    using empty_path_opens_gateway [OF istio_policy_store r _ _ g q, of "sample_trait ''ns1'' []" "[''app.ns1.com'']" no_results "([], [])"]
    by auto
qed

section \<open>Certificates of older versions\<close>

text \<open>
  The certificate older versions made for an application has the name of the one for the trait that is
  called like the application: with such a name, every call deletes the certificate and its secret
  and asks for them again.
\<close>

lemma legacy_names: "itLabels trait LabelAppName = Some (itName trait') \<Longrightarrow> itNamespace trait = itNamespace trait' \<Longrightarrow>
    buildLegacyCertificateName trait = buildCertificateName trait' \<and>
    buildLegacyCertificateSecretName trait = buildCertificateSecretName trait'"
  by (simp add: buildLegacyCertificateName_def buildCertificateName_def buildLegacyCertificateSecretName_def
      buildCertificateSecretName_def)

lemma own_certificate_deleted:
  assumes "itLabels trait LabelAppName = Some (itName trait)" and "itTLS trait = []"
  shows "createOrUseGatewaySecret C trait hosts status w = createGatewayCertificate C trait hosts status
     (snd (DeleteTraitSecret C IstioSystemNamespace (buildCertificateSecretName trait)
        (snd (DeleteCertificate C IstioSystemNamespace (buildCertificateName trait) w))))"
  using legacy_names [OF assms(1) refl] assms(2)
  by (simp add: createOrUseGatewaySecret_def cleanupCert_def cleanupSecret_def split: prod.splits option.splits)

section \<open>Deleted traits\<close>

text \<open>An API server that keeps gateways under their namespace and name, and whose other calls leave them alone.\<close>

definition gateway_store :: "'w trait_client \<Rightarrow> ('w \<Rightarrow> string \<times> string \<Rightarrow> gateway option) \<Rightarrow> bool" where
  "gateway_store C view \<longleftrightarrow>
     (\<forall>ns n w. GetGateway C ns n w = (case view w (ns, n) of None \<Rightarrow> Inl (NotFoundErr n) | Some g \<Rightarrow> Inr g, w)) \<and>
     (\<forall>g w. view (snd (UpdateGateway C g w)) =
        (if fst (UpdateGateway C g w) = None then (view w)((gwNamespace g, gwName g) \<mapsto> g) else view w)) \<and>
     (\<forall>ns n w g. view w (ns, n) = Some g \<longrightarrow> gwNamespace g = ns \<and> gwName g = n) \<and>
     (\<forall>ns n w. view (snd (DeleteCertificate C ns n w)) = view w) \<and>
     (\<forall>ns n w. view (snd (DeleteTraitSecret C ns n w)) = view w) \<and>
     (\<forall>l w. view (snd (ListPolicies C l w)) = view w) \<and>
     (\<forall>p w. view (snd (DeletePolicy C p w)) = view w) \<and>
     (\<forall>t w. view (snd (UpdateTrait C t w)) = view w)"


lemma cleanupCert_view: "gateway_store C view \<Longrightarrow> view (snd (cleanupCert C n w)) = view w"
  by (auto simp: gateway_store_def cleanupCert_def split: prod.splits option.splits) (metis snd_conv)+

lemma cleanupSecret_view: "gateway_store C view \<Longrightarrow> view (snd (cleanupSecret C n w)) = view w"
  by (auto simp: gateway_store_def cleanupSecret_def split: prod.splits option.splits) (metis snd_conv)+

lemma delete_policies_view: "gateway_store C view \<Longrightarrow> view (snd (delete_policies C ps w)) = view w"
proof (induction ps arbitrary: w)
  case (Cons p ps)
  obtain e w1 where D: "DeletePolicy C p w = (e, w1)" by fastforce
  have "view (snd (DeletePolicy C p w)) = view w" using Cons.prems unfolding gateway_store_def by blast
  then show ?case using Cons D by (simp split: option.splits)
qed simp

lemma cleanupPolicies_view:
  assumes "gateway_store C view"
  shows "view (snd (cleanupPolicies C trait w)) = view w"
proof -
  have "view (snd (ListPolicies C l w)) = view w" for l using assms unfolding gateway_store_def by blast
  then have "ListPolicies C l w = (r, w1) \<Longrightarrow> view w1 = view w" for l r w1 by (metis snd_conv)
  then show ?thesis
    using delete_policies_view [OF assms]
    by (auto simp: cleanupPolicies_def split: prod.splits sum.splits)
qed

lemma removeFinalizer_view: "gateway_store C view \<Longrightarrow> view (snd (removeFinalizerIfRequired C trait w)) = view w"
  by (simp add: gateway_store_def removeFinalizerIfRequired_def)

text \<open>What cleaning up does to the gateway: the server of the trait leaves it.\<close>

definition without_server :: "string \<Rightarrow> gateway \<Rightarrow> gateway" where
  "without_server name g = g\<lparr>gwServers := filter (\<lambda>server. srvName server \<noteq> name) (gwServers g)\<rparr>"

lemma cleanupGateway_result:
  assumes "gateway_store C view" "buildGatewayName trait = Inr gwn"
  shows "\<exists>r w'. cleanupGateway C trait w = Ret (r, w') \<and> view w' = (if isl r then view w else
    (view w)((itNamespace trait, gwn) := map_option (without_server (itName trait)) (view w (itNamespace trait, gwn))))"
proof (cases "view w (itNamespace trait, gwn)")
  case None
  then have G: "GetGateway C (itNamespace trait) gwn w = (Inl (NotFoundErr gwn), w)"
    using assms(1) by (simp add: gateway_store_def)
  have "cleanupGateway C trait w = Ret (Inr (), w)"
    using assms(2) G by (simp add: cleanupGateway_def call_try_def call_io_def call_ret_def IsNotFound_def)
  with None show ?thesis by (simp add: fun_upd_idem)
next
  case (Some g)
  let ?g = "without_server (itName trait) g"
  note sim = cleanupGateway_def CreateOrUpdateProtobuf_def mutate_def gateway_calls_def call_bind_def call_try_def
    call_io_def call_ret_def call_fail_def finish_write_def Let_def
  have G: "GetGateway C (itNamespace trait) gwn w = (Inr g, w)" using assms(1) Some by (simp add: gateway_store_def)
  have K: "gwNamespace g = itNamespace trait" "gwName g = gwn" using assms(1) Some by (simp_all add: gateway_store_def)
  show ?thesis
  proof (cases "g = ?g")
    case True
    have g: "g\<lparr>gwServers := filter (\<lambda>server. srvName server \<noteq> itName trait) (gwServers g)\<rparr> = g"
      using True by (simp add: without_server_def)
    have "cleanupGateway C trait w = Ret (Inr (), w)" using assms(2) G K g by (simp add: sim)
    then show ?thesis using Some True by (simp add: fun_upd_idem)
  next
    case False
    obtain e w1 where U: "UpdateGateway C ?g w = (e, w1)" by fastforce
    have K': "gwNamespace ?g = itNamespace trait" "gwName ?g = gwn" using K by (simp_all add: without_server_def)
    have "cleanupGateway C trait w = Ret (case e of None \<Rightarrow> Inr () | Some err \<Rightarrow> Inl err, w1)"
      using assms(2) G K U False by (cases e) (simp_all add: sim without_server_def)
    moreover have "view (snd (UpdateGateway C ?g w)) =
        (if fst (UpdateGateway C ?g w) = None then (view w)((gwNamespace ?g, gwName ?g) \<mapsto> ?g) else view w)"
      using assms(1) unfolding gateway_store_def by blast
    ultimately show ?thesis using U K' Some by (cases e) simp_all
  qed
qed

text \<open>Before the gateway, cleaning up removes the certificate, its secret and the policies.\<close>

lemma cleanup_result:
  assumes "gateway_store C view"
  shows "\<exists>r w'. cleanup C trait w = Ret (r, w') \<and>
    (isl r \<and> view w' = view w \<or> (\<exists>w1. view w1 = view w \<and> cleanupGateway C trait w1 = Ret (r, w')))"
proof -
  obtain e1 w1 where 1: "cleanupCert C (buildCertificateName trait) w = (e1, w1)" by fastforce
  obtain e2 w2 where 2: "cleanupSecret C (buildCertificateSecretName trait) w1 = (e2, w2)" by fastforce
  obtain e3 w3 where 3: "cleanupPolicies C trait w2 = (e3, w3)" by fastforce
  have v: "view w1 = view w" "view w2 = view w" "view w3 = view w"
    using cleanupCert_view [OF assms, of "buildCertificateName trait" w]
      cleanupSecret_view [OF assms, of "buildCertificateSecretName trait" w1] cleanupPolicies_view [OF assms, of trait w2] 1 2 3 by simp_all
  obtain r w4 where 4: "cleanupGateway C trait w3 = Ret (r, w4)"
  proof (cases "buildGatewayName trait")
    case (Inl e)
    then show ?thesis using that by (simp add: cleanupGateway_def)
  next
    case (Inr gwn)
    then show ?thesis using that cleanupGateway_result [OF assms] by blast
  qed
  note sim = cleanup_def call_bind_def call_io_def io_unit_def
  show ?thesis using 1 2 3 4 v by (cases e1; cases e2; cases e3) (auto simp: sim)
qed

text \<open>C23. A trait that is being deleted never fails to be reconciled and never touches another gateway: either its
  server is out of the gateway of its application, or the trait is looked at again; without the label that
  names the application it is looked at again whatever happens.\<close>

theorem deleted_trait_leaves_gateway:
  assumes "gateway_store C view" "isIngressTraitBeingDeleted trait"
  shows "\<exists>res w'. doReconcileTrait C trait w = Ret (Inr (res, None), w') \<and>
    (case buildGatewayName trait of
       Inl _ \<Rightarrow> Requeue res \<and> view w' = view w
     | Inr gwn \<Rightarrow> (let cleaned = (view w)((itNamespace trait, gwn) :=
             map_option (without_server (itName trait)) (view w (itNamespace trait, gwn)))
         in view w' = cleaned \<or> Requeue res \<and> view w' = view w))"
proof -
  from cleanup_result [OF assms(1), of trait w] obtain r w1 where 1: "cleanup C trait w = Ret (r, w1)"
    "isl r \<and> view w1 = view w \<or> (\<exists>w0. view w0 = view w \<and> cleanupGateway C trait w0 = Ret (r, w1))" by blast
  obtain e w2 where 2: "removeFinalizerIfRequired C trait w1 = (e, w2)" by fastforce
  have v: "view w2 = view w1" using removeFinalizer_view [OF assms(1), of trait w1] 2 by simp
  let ?res = "if isl r then requeue_now else if e = None then no_requeue else newRequeueWithDelay (IntnDelay C)"
  let ?w = "if isl r then w1 else w2"
  have d: "doReconcileTrait C trait w = Ret (Inr (?res, None), ?w)"
    using assms(2) 1(1) 2
    by (cases r; cases e) (simp_all add: doReconcileTrait_def call_try_def call_io_def call_ret_def io_unit_def)
  have q: "isl r \<Longrightarrow> Requeue ?res" by (simp add: requeue_now_def)
  show ?thesis
  proof (cases "buildGatewayName trait")
    case (Inl err)
    then have "isl r \<and> view w1 = view w" using 1(2) by (auto simp: cleanupGateway_def)
    then show ?thesis using d q Inl by simp
  next
    case (Inr gwn)
    from cleanupGateway_result [OF assms(1) Inr]
    have "view w1 = (if isl r then view w else (view w)((itNamespace trait, gwn) :=
        map_option (without_server (itName trait)) (view w (itNamespace trait, gwn))))"
      using 1(2) by (auto; metis res.inject Pair_inject)
    then show ?thesis using d q v Inr by (simp add: Let_def)
  qed
qed

lemma istio_gateway_store: "gateway_store istio_client gateway_at"
  by (auto simp: gateway_store_def istio_client_def gateway_at_def fun_eq_iff find_Some_iff)

definition shared_gateway :: gateway where
  "shared_gateway = \<lparr>gwNamespace = ''ns'', gwName = ''ns-app-gw'',
     gwServers = [trait_server (sample_trait ''ns'' []) [''a.com''] ''cert'',
       (trait_server (sample_trait ''ns'' []) [''b.com''] ''cert'')\<lparr>srvName := ''other''\<rparr>],
     gwSelector = [(''istio'', ''ingressgateway'')], gwOwners = []\<rparr>"

lemma deleted_trait_run:
  "doReconcileTrait istio_client (sample_trait ''ns'' []\<lparr>itDeletionTimestamp := Some []\<rparr>) ([], [shared_gateway]) =
     Ret (Inr (no_requeue, None), ([], [without_server ''hello'' shared_gateway, shared_gateway]))"
  by (simp add: doReconcileTrait_def isIngressTraitBeingDeleted_def cleanup_def cleanupCert_def cleanupSecret_def
      cleanupPolicies_def cleanupGateway_def buildGatewayName_def sample_trait_def istio_client_def gateway_at_def
      CreateOrUpdateProtobuf_def mutate_def gateway_calls_def finish_write_def removeFinalizerIfRequired_def
      without_server_def shared_gateway_def trait_server_def
      call_bind_def call_try_def call_io_def call_ret_def io_unit_def Let_def)

theorem deleted_trait_leaves_gateway_witness:
  "\<exists>w'. doReconcileTrait istio_client (sample_trait ''ns'' []\<lparr>itDeletionTimestamp := Some []\<rparr>) ([], [shared_gateway]) =
      Ret (Inr (no_requeue, None), w')
    \<and> gateway_at w' (''ns'', ''ns-app-gw'') = Some (without_server ''hello'' shared_gateway)"
proof -
  let ?t = "sample_trait ''ns'' []\<lparr>itDeletionTimestamp := Some []\<rparr>"
  have d: "isIngressTraitBeingDeleted ?t" by (simp add: isIngressTraitBeingDeleted_def)
  have g: "gateway_at ([], [shared_gateway]) (''ns'', ''ns-app-gw'') = Some shared_gateway"
    by (simp add: gateway_at_def shared_gateway_def)
  have b: "buildGatewayName ?t = Inr ''ns-app-gw''" by (simp add: buildGatewayName_def sample_trait_def)
  have n: "itNamespace ?t = ''ns''" "itName ?t = ''hello''" by (simp_all add: sample_trait_def)
  have q: "\<not> Requeue no_requeue" "without_server ''hello'' shared_gateway \<noteq> shared_gateway"
    by (simp_all add: no_requeue_def without_server_def shared_gateway_def trait_server_def sample_trait_def)
  from deleted_trait_leaves_gateway [OF istio_gateway_store d, of "([], [shared_gateway])"] g b n q deleted_trait_run show ?thesis
    by (auto simp: Let_def)
qed

end
