(* ===== verification/Ingress_Webhook.thy ===== *)
theory Ingress_Webhook imports Ingress_Laws begin

text \<open>
  The admission webhook of ingress traits (\<open>apis/oam/v1alpha1/ingresstrait_webhook.go\<close>): hosts are
  well-formed, and no other trait has a host and a path of the new one.  What the webhook takes for
  the same host and path is compared with what the controller routes.  The syntax checks of the
  Kubernetes library are parameters, each gives its error messages; so is the text that \<open>%v\<close> makes of a path.
\<close>

record 'w trait_webhook =
  IsDNS1123Subdomain :: "string \<Rightarrow> string list"
  IsWildcardDNS1123Subdomain :: "string \<Rightarrow> string list"
  IsDNS1123Label :: "string \<Rightarrow> string list"
  ListAllTraits :: "'w \<Rightarrow> (go_error + ingress_trait list) \<times> 'w"
  PathText :: "ingress_path \<Rightarrow> string"

definition quoted :: "string \<Rightarrow> string" where
  "quoted s = CHR 0x27 # s @ [CHR 0x27]"

text \<open>The hosts of a trait with the paths of each.\<close>

type_synonym host_paths = "string \<Rightarrow> string set option"

definition getNormalizedHosts :: "ingress_rule \<Rightarrow> string list" where
  "getNormalizedHosts rule = map (\<lambda>h. let host = TrimSpace h in if host = ''*'' then [] else host) (ruleHosts rule)"

definition label_errors :: "'w trait_webhook \<Rightarrow> string \<Rightarrow> string list" where
  "label_errors V host = concat (map (\<lambda>(i, label).
     if i = (0::nat) \<and> label = ''*'' then [] else IsDNS1123Label V label) (enumerate 0 (split_on CHR ''.'' host)))"

definition validateHost :: "'w trait_webhook \<Rightarrow> ingress_trait \<Rightarrow> string \<Rightarrow> go_error option" where
  "validateHost V r host =
     (if length host = 0 then None
      else if host = ''*'' then None
      else (let subdomain = (if HasPrefix host ''*.'' then IsWildcardDNS1123Subdomain V host else IsDNS1123Subdomain V host);
                errMessages = (if subdomain = [] then label_errors V host else subdomain)
            in if errMessages \<noteq> [] then
                 Some (PlainErr (''invalid host specified for IngressTrait with name '' @ quoted (itName r) @ '': '' @ str_join '', '' errMessages))
               else None))"

fun hosts_map :: "'w trait_webhook \<Rightarrow> ingress_trait \<Rightarrow> ingress_path list \<Rightarrow> string list \<Rightarrow> host_paths \<Rightarrow> go_error + host_paths" where
  "hosts_map V r rulePs [] m = Inr m"
| "hosts_map V r rulePs (host # hosts) m = (case validateHost V r host of
       Some err \<Rightarrow> Inl err
     | None \<Rightarrow> (let paths = (case m host of Some ps \<Rightarrow> ps | None \<Rightarrow> {})
         in hosts_map V r rulePs hosts (m(host \<mapsto> paths \<union> pathPath ` set rulePs))))"

fun rules_map :: "'w trait_webhook \<Rightarrow> ingress_trait \<Rightarrow> ingress_rule list \<Rightarrow> host_paths \<Rightarrow> go_error + host_paths" where
  "rules_map V r [] m = Inr m"
| "rules_map V r (rule # rules) m =
     err_bind (hosts_map V r (rulePaths rule) (getNormalizedHosts rule) m) (rules_map V r rules)"

definition createIngressTraitMap :: "'w trait_webhook \<Rightarrow> ingress_trait \<Rightarrow> go_error + host_paths" where
  "createIngressTraitMap V r = rules_map V r (itRules r) Map.empty"

definition host_collides :: "host_paths \<Rightarrow> ingress_rule \<Rightarrow> string \<Rightarrow> bool" where
  "host_collides m rule host = (case m host of
       None \<Rightarrow> False
     | Some ingressPaths \<Rightarrow> list_ex (\<lambda>path. pathPath path \<in> ingressPaths) (rulePaths rule)
         \<or> length (rulePaths rule) = 0 \<and> ingressPaths = {})"

fun first_collision :: "host_paths \<Rightarrow> ingress_trait list \<Rightarrow> (ingress_trait \<times> ingress_rule \<times> string) option" where
  "first_collision m [] = None"
| "first_collision m (t # ts) =
     (case filter (\<lambda>(rule, host). host_collides m rule host)
         (concat (map (\<lambda>rule. map (Pair rule) (getNormalizedHosts rule)) (itRules t))) of
        (rule, host) # _ \<Rightarrow> Some (t, rule, host)
      | [] \<Rightarrow> first_collision m ts)"

text \<open>The first path of the rule that the trait has on the host too is named, if it is a path.\<close>

definition collision_error :: "'w trait_webhook \<Rightarrow> host_paths \<Rightarrow> ingress_trait \<times> ingress_rule \<times> string \<Rightarrow> go_error" where
  "collision_error V m c = (case c of (t, rule, host) \<Rightarrow>
     PlainErr (''IngressTrait collision. An existing IngressTrait with the name: '' @ quoted (itName t) @ '' exists with host: ''
       @ quoted host @ (case find (\<lambda>path. pathPath path \<in> (case m host of Some ps \<Rightarrow> ps | None \<Rightarrow> {})) (rulePaths rule) of
           Some path \<Rightarrow> '' and path: '' @ quoted (PathText V path)
         | None \<Rightarrow> '' and no paths'')))"

definition validateIngressTrait :: "'w trait_webhook \<Rightarrow> ingress_trait \<Rightarrow> ingress_trait list \<Rightarrow> go_error option" where
  "validateIngressTrait V r existingTraits = (case createIngressTraitMap V r of
       Inl e \<Rightarrow> Some e
     | Inr hostPathMap \<Rightarrow> map_option (collision_error V hostPathMap) (first_collision hostPathMap existingTraits))"

definition TraitValidateCreate :: "'w trait_webhook \<Rightarrow> ingress_trait \<Rightarrow> 'w \<Rightarrow> go_error option \<times> 'w" where
  "TraitValidateCreate V r w = (case ListAllTraits V w of
       (Inl err, w1) \<Rightarrow> (Some (PlainErr (''unable to obtain list of existing IngressTrait'' @ CHR 0x27 # ''s during create validation: '' @ Error err)), w1)
     | (Inr items, w1) \<Rightarrow> (validateIngressTrait V r items, w1))"

fun remove_uid :: "string \<Rightarrow> ingress_trait list \<Rightarrow> ingress_trait list" where
  "remove_uid uid [] = []"
| "remove_uid uid (t # ts) = (if itUID t = uid then ts else t # remove_uid uid ts)"

definition TraitValidateUpdate :: "'w trait_webhook \<Rightarrow> ingress_trait \<Rightarrow> ingress_trait \<Rightarrow> 'w \<Rightarrow> go_error option \<times> 'w" where
  "TraitValidateUpdate V r old w = (case ListAllTraits V w of
       (Inl err, w1) \<Rightarrow> (Some (PlainErr (''unable to obtain list of existing IngressTrait'' @ CHR 0x27 # ''s during update validation: '' @ Error err)), w1)
     | (Inr items, w1) \<Rightarrow> (validateIngressTrait V r (remove_uid (itUID old) items), w1))"

section \<open>The check as a condition\<close>

text \<open>The hosts of a trait's rules, and the paths it has on one of them.\<close>

definition trait_hosts :: "ingress_trait \<Rightarrow> string set" where
  "trait_hosts t = (\<Union>rule \<in> set (itRules t). set (getNormalizedHosts rule))"

definition paths_on :: "ingress_trait \<Rightarrow> string \<Rightarrow> string set" where
  "paths_on t host = (\<Union>rule \<in> {rule \<in> set (itRules t). host \<in> set (getNormalizedHosts rule)}. pathPath ` set (rulePaths rule))"

lemma hosts_map_iff:
  "hosts_map V r ps hosts m = Inr m' \<longleftrightarrow> (\<forall>h \<in> set hosts. validateHost V r h = None) \<and>
     m' = (\<lambda>h. if h \<in> set hosts then Some ((case m h of Some s \<Rightarrow> s | None \<Rightarrow> {}) \<union> pathPath ` set ps) else m h)"
proof (induction hosts arbitrary: m)
  case (Cons host hosts)
  show ?case
  proof (cases "validateHost V r host")
    case None
    have "(\<lambda>h. if h \<in> set hosts then Some ((case (m(host \<mapsto> s)) h of Some s \<Rightarrow> s | None \<Rightarrow> {}) \<union> P) else (m(host \<mapsto> s)) h)
      = (\<lambda>h. if h = host \<or> h \<in> set hosts then Some ((case m h of Some s \<Rightarrow> s | None \<Rightarrow> {}) \<union> P) else m h)"
      if "s = (case m host of Some s \<Rightarrow> s | None \<Rightarrow> {}) \<union> P" for s P
      using that by (auto simp: fun_eq_iff)
    with None show ?thesis by (simp add: Cons.IH Let_def)
  qed simp
qed auto

lemma rules_map_iff:
  "rules_map V r rules m = Inr m' \<longleftrightarrow> (\<forall>rule \<in> set rules. \<forall>h \<in> set (getNormalizedHosts rule). validateHost V r h = None) \<and>
     m' = (\<lambda>h. if \<exists>rule \<in> set rules. h \<in> set (getNormalizedHosts rule)
       then Some ((case m h of Some s \<Rightarrow> s | None \<Rightarrow> {}) \<union>
         (\<Union>rule \<in> {rule \<in> set rules. h \<in> set (getNormalizedHosts rule)}. pathPath ` set (rulePaths rule)))
       else m h)"
proof (induction rules arbitrary: m)
  case (Cons rule rules)
  show ?case
  proof (cases "hosts_map V r (rulePaths rule) (getNormalizedHosts rule) m")
    case (Inl e)
    then have "\<not> (\<forall>h \<in> set (getNormalizedHosts rule). validateHost V r h = None)"
      using hosts_map_iff [of V r "rulePaths rule" "getNormalizedHosts rule" m] by auto
    with Inl show ?thesis by auto
  next
    case (Inr m1)
    then have 1: "\<forall>h \<in> set (getNormalizedHosts rule). validateHost V r h = None"
      "m1 = (\<lambda>h. if h \<in> set (getNormalizedHosts rule)
         then Some ((case m h of Some s \<Rightarrow> s | None \<Rightarrow> {}) \<union> pathPath ` set (rulePaths rule)) else m h)"
      by (simp_all add: hosts_map_iff)
    have "(\<lambda>h. if \<exists>rule \<in> set rules. h \<in> set (getNormalizedHosts rule)
       then Some ((case m1 h of Some s \<Rightarrow> s | None \<Rightarrow> {}) \<union>
         (\<Union>rule \<in> {rule \<in> set rules. h \<in> set (getNormalizedHosts rule)}. pathPath ` set (rulePaths rule))) else m1 h)
     = (\<lambda>h. if \<exists>rule' \<in> set (rule # rules). h \<in> set (getNormalizedHosts rule')
       then Some ((case m h of Some s \<Rightarrow> s | None \<Rightarrow> {}) \<union>
         (\<Union>rule' \<in> {rule' \<in> set (rule # rules). h \<in> set (getNormalizedHosts rule')}. pathPath ` set (rulePaths rule'))) else m h)"
      unfolding 1(2) by (rule ext) auto
    with Inr 1(1) show ?thesis by (simp add: Cons.IH)
  qed
qed auto

lemma createIngressTraitMap_iff:
  "createIngressTraitMap V r = Inr m \<longleftrightarrow> (\<forall>h \<in> trait_hosts r. validateHost V r h = None) \<and>
     m = (\<lambda>h. if h \<in> trait_hosts r then Some (paths_on r h) else None)"
  unfolding createIngressTraitMap_def rules_map_iff trait_hosts_def paths_on_def by (simp cong: if_cong)

definition clashes :: "ingress_trait \<Rightarrow> ingress_trait \<Rightarrow> bool" where
  "clashes r t \<longleftrightarrow> (\<exists>rule \<in> set (itRules t). \<exists>h \<in> set (getNormalizedHosts rule) \<inter> trait_hosts r.
     (if rulePaths rule = [] then paths_on r h = {} else \<exists>path \<in> set (rulePaths rule). pathPath path \<in> paths_on r h))"

lemma first_collision_None:
  "first_collision m ts = None \<longleftrightarrow>
     (\<forall>t \<in> set ts. \<forall>rule \<in> set (itRules t). \<forall>h \<in> set (getNormalizedHosts rule). \<not> host_collides m rule h)"
proof (induction ts)
  case (Cons t ts)
  let ?f = "filter (\<lambda>(rule, host). host_collides m rule host)
      (concat (map (\<lambda>rule. map (Pair rule) (getNormalizedHosts rule)) (itRules t)))"
  have "?f = [] \<longleftrightarrow> (\<forall>rule \<in> set (itRules t). \<forall>h \<in> set (getNormalizedHosts rule). \<not> host_collides m rule h)"
    by (auto simp: filter_empty_conv)
  moreover have "first_collision m (t # ts) = None \<longleftrightarrow> ?f = [] \<and> first_collision m ts = None"
    by (cases ?f) auto
  ultimately show ?case using Cons.IH by auto
qed simp

lemma host_collides_of:
  "host_collides (\<lambda>h. if h \<in> trait_hosts r then Some (paths_on r h) else None) rule h \<longleftrightarrow> h \<in> trait_hosts r \<and>
     (if rulePaths rule = [] then paths_on r h = {} else \<exists>path \<in> set (rulePaths rule). pathPath path \<in> paths_on r h)"
  by (simp add: host_collides_def list_ex_iff)

lemma validateIngressTrait_None:
  "validateIngressTrait V r ts = None \<longleftrightarrow> (\<forall>h \<in> trait_hosts r. validateHost V r h = None) \<and> (\<forall>t \<in> set ts. \<not> clashes r t)"
proof (cases "createIngressTraitMap V r")
  case (Inl e)
  then have "\<not> (\<forall>h \<in> trait_hosts r. validateHost V r h = None)" using createIngressTraitMap_iff [of V r] by auto
  with Inl show ?thesis by (simp add: validateIngressTrait_def)
next
  case (Inr m)
  then have m: "\<forall>h \<in> trait_hosts r. validateHost V r h = None" "m = (\<lambda>h. if h \<in> trait_hosts r then Some (paths_on r h) else None)"
    using createIngressTraitMap_iff [of V r m] by auto
  have "validateIngressTrait V r ts = None \<longleftrightarrow> first_collision m ts = None"
    using Inr by (simp add: validateIngressTrait_def)
  also have "\<dots> \<longleftrightarrow> (\<forall>t \<in> set ts. \<not> clashes r t)"
    unfolding first_collision_None m(2) host_collides_of clashes_def by blast
  finally show ?thesis using m(1) by simp
qed

lemma remove_uid_set: "distinct (map itUID ts) \<Longrightarrow> set (remove_uid uid ts) = {t \<in> set ts. itUID t \<noteq> uid}"
  by (induction ts) (auto simp: image_iff)

text \<open>C25. With no two traits of one UID in the cluster, an update of a trait is admitted exactly when every host of it is well-formed and
  none of the other traits shares a host and a path with it, where a rule without paths shares a host with a trait that
  has no path on that host.\<close>

theorem trait_update_admitted_iff:
  assumes "ListAllTraits V w = (Inr ts, w1)" and "distinct (map itUID ts)"
  shows "TraitValidateUpdate V r old w = (None, w1) \<longleftrightarrow>
    (\<forall>h \<in> trait_hosts r. validateHost V r h = None) \<and> (\<forall>t \<in> set ts. itUID t \<noteq> itUID old \<longrightarrow> \<not> clashes r t)"
  using assms by (auto simp: TraitValidateUpdate_def validateIngressTrait_None remove_uid_set)

text \<open>The controller routes two rules alike: they have the same hosts and the same matches.\<close>

definition routed_alike :: "'w host_client \<Rightarrow> ingress_trait \<Rightarrow> ingress_rule \<Rightarrow> ingress_trait \<Rightarrow> ingress_rule \<Rightarrow> 'w \<Rightarrow> bool" where
  "routed_alike C t1 r1 t2 r2 w \<longleftrightarrow>
     (\<exists>hs w1 w2. createHostsFromIngressTraitRule C r1 t1 [] w = Ret (Inr hs, w1)
       \<and> createHostsFromIngressTraitRule C r2 t2 [] w = Ret (Inr hs, w2)) \<and>
     map createVirtualServiceMatchURIFromIngressTraitPath (getPathsFromRule r1) =
     map createVirtualServiceMatchURIFromIngressTraitPath (getPathsFromRule r2)"

lemma one_host_rule:
  assumes "ruleHosts r = [h]" "TrimSpace h \<noteq> []" "CHR ''*'' \<notin> set (TrimSpace h)"
  shows "createHostsFromIngressTraitRule C r t [] w = Ret (Inr [ToLower (TrimSpace h)], w)"
  using assms by (simp add: createHostsFromIngressTraitRule_def findHost_def Contains_char Let_def)

text \<open>C26. The webhook and the controller do not agree on what a path is: a rule without paths and one on the path /
  of the same host are routed alike, but the webhook admits each beside the other, in either order.\<close>

theorem admitted_but_routed_alike:
  assumes "itRules t1 = [r1]" "ruleHosts r1 = [h]" "rulePaths r1 = []"
    and "itRules t2 = [r2]" "ruleHosts r2 = [h]" "rulePaths r2 = [path]" "pathPath path = ''/''" "pathType path = []"
    and "TrimSpace h \<noteq> []" "CHR ''*'' \<notin> set (TrimSpace h)"
    and "validateHost V t1 (TrimSpace h) = None" "validateHost V t2 (TrimSpace h) = None"
  shows "validateIngressTrait V t2 [t1] = None \<and> validateIngressTrait V t1 [t2] = None \<and> routed_alike C t1 r1 t2 r2 w"
proof -
  have s: "TrimSpace h \<noteq> ''*''" using assms(10) by auto
  have n: "getNormalizedHosts r1 = [TrimSpace h]" "getNormalizedHosts r2 = [TrimSpace h]"
    using assms(2,5) s by (simp_all add: getNormalizedHosts_def Let_def)
  have t: "trait_hosts t1 = {TrimSpace h}" "trait_hosts t2 = {TrimSpace h}"
    "paths_on t1 (TrimSpace h) = {}" "paths_on t2 (TrimSpace h) = {''/''}"
    using assms(1,3,4,6,7) n by (auto simp: trait_hosts_def paths_on_def)
  have c: "\<not> clashes t2 t1" "\<not> clashes t1 t2"
    using assms(1,3,4,6) t n by (simp_all add: clashes_def)
  have m: "createVirtualServiceMatchURIFromIngressTraitPath path = MatchPrefix ''/''"
    "createVirtualServiceMatchURIFromIngressTraitPath \<lparr>pathPath = ''/'', pathType = ''prefix'', pathPolicy = None\<rparr> = MatchPrefix ''/''"
    using assms(7,8) by (simp_all add: createVirtualServiceMatchURIFromIngressTraitPath_def, code_simp+)
  show ?thesis
    using c m assms(3,6,11,12) t one_host_rule [OF assms(2,9,10), of C t1 w] one_host_rule [OF assms(5,9,10), of C t2 w]
    by (auto simp: validateIngressTrait_None routed_alike_def getPathsFromRule_def)
qed

definition plain_webhook :: "ingress_trait list trait_webhook" where
  "plain_webhook = \<lparr>IsDNS1123Subdomain = \<lambda>h. [], IsWildcardDNS1123Subdomain = \<lambda>h. [], IsDNS1123Label = \<lambda>h. [],
     ListAllTraits = \<lambda>ts. (Inr ts, ts), PathText = pathPath\<rparr>"

lemma plain_validateHost: "validateHost plain_webhook t h = None"
  by (auto simp: validateHost_def plain_webhook_def label_errors_def Let_def split_def)

definition bare_rule :: ingress_rule where
  "bare_rule = default_rule\<lparr>ruleHosts := [''a.com'']\<rparr>"

definition slash_rule :: ingress_rule where
  "slash_rule = bare_rule\<lparr>rulePaths := [\<lparr>pathPath = ''/'', pathType = [], pathPolicy = None\<rparr>]\<rparr>"

theorem trait_update_admitted_iff_witness:
  "TraitValidateUpdate plain_webhook (sample_trait ''ns2'' [slash_rule]) (sample_trait ''ns2'' [bare_rule])
      [sample_trait ''ns1'' [slash_rule], sample_trait ''ns2'' [bare_rule]]
    \<noteq> (None, [sample_trait ''ns1'' [slash_rule], sample_trait ''ns2'' [bare_rule]])"
proof -
  let ?a = "sample_trait ''ns1'' [slash_rule]" and ?b = "sample_trait ''ns2'' [bare_rule]" and ?r = "sample_trait ''ns2'' [slash_rule]"
  have l: "ListAllTraits plain_webhook [?a, ?b] = (Inr [?a, ?b], [?a, ?b])" by (simp add: plain_webhook_def)
  have d: "distinct (map itUID [?a, ?b])" by (simp add: sample_trait_def)
  have h: "TrimSpace ''a.com'' = ''a.com''" by code_simp
  have "clashes ?r ?a"
    by (simp add: clashes_def trait_hosts_def paths_on_def sample_trait_def slash_rule_def bare_rule_def getNormalizedHosts_def h)
  moreover have "itUID ?a \<noteq> itUID ?b" by (simp add: sample_trait_def)
  ultimately show ?thesis using trait_update_admitted_iff [OF l d, of ?r ?b] by auto
qed

theorem admitted_but_routed_alike_witness:
  "validateIngressTrait plain_webhook (sample_trait ''ns2'' [slash_rule]) [sample_trait ''ns1'' [bare_rule]] = None
   \<and> routed_alike sample_host_client (sample_trait ''ns1'' [bare_rule]) bare_rule (sample_trait ''ns2'' [slash_rule]) slash_rule ()"
proof -
  have h: "TrimSpace ''a.com'' = ''a.com''" by code_simp
  show ?thesis
    using admitted_but_routed_alike [of "sample_trait ''ns1'' [bare_rule]" bare_rule "''a.com''" "sample_trait ''ns2'' [slash_rule]"
        slash_rule "\<lparr>pathPath = ''/'', pathType = [], pathPolicy = None\<rparr>" plain_webhook sample_host_client "()"] h
    by (simp add: sample_trait_def bare_rule_def slash_rule_def default_rule_def plain_validateHost)
qed

end
