(* ===== verification/Mc_Status.thy ===== *)
theory Mc_Status imports Ingress_Hosts begin

text \<open>
  Resources that an admin cluster places on managed clusters: their status, which every cluster reports
  to, and the operations on them that all kinds share
  (\<open>application-operator/controllers/clusters/cluster_utils.go\<close>).
\<close>

section \<open>Resources\<close>

datatype mc_condition_type = DeployComplete | DeployFailed | DeployPending

datatype state_type = StateUnset | Failed | Pending | Succeeded

record mc_condition =
  mcdTime :: string
  mcdMessage :: string
  mcdStatus :: string
  mcdType :: mc_condition_type

record cluster_level_status =
  clTime :: string
  clMessage :: string
  clName :: string
  clState :: state_type

record mc_status =
  mcsClusters :: "cluster_level_status list"
  mcsConditions :: "mc_condition list"
  mcsState :: state_type

text \<open>A placement is the list of the names of its clusters; no labels are the empty map.\<close>

type_synonym labels = "string \<Rightarrow> string option"

record 't mc_resource =
  mrNamespace :: string
  mrName :: string
  mrLabels :: labels
  mrAnnotations :: labels
  mrFinalizers :: "string list"
  mrDeletionTimestamp :: "string option"
  mrPlacement :: "string list"
  mrTemplate :: 't
  mrStatus :: mc_status

datatype mc_kind = AppConfigKind | ComponentKind | ConfigMapKind | SecretKind | ProjectKind

record status_message =
  NewCondition :: mc_condition
  NewClusterStatus :: cluster_level_status
  MessageKind :: mc_kind
  MessageNamespace :: string
  MessageName :: string

text \<open>
  What the controllers of all kinds reach: the data of a secret, the clock, random numbers, and the
  channel to the agent, if there is one; a send that has to wait for room is one that comes back later.
\<close>

record 'w cluster_client =
  GetSecretData :: "string \<Rightarrow> string \<Rightarrow> 'w \<Rightarrow> (go_error + labels) \<times> 'w"
  NowRFC3339 :: "'w \<Rightarrow> string"
  DelayIntn :: "int \<Rightarrow> int \<Rightarrow> int"
  AgentSend :: "(status_message \<Rightarrow> 'w \<Rightarrow> 'w) option"

text \<open>A sequence of calls that stops at the first error.\<close>

fun each :: "('a \<Rightarrow> 'w \<Rightarrow> go_error option \<times> 'w) \<Rightarrow> 'a list \<Rightarrow> 'w \<Rightarrow> go_error option \<times> 'w" where
  "each f [] w = (None, w)"
| "each f (x # xs) w = (case f x w of (Some err, w1) \<Rightarrow> (Some err, w1) | (None, w1) \<Rightarrow> each f xs w1)"

definition followed_by :: "('w \<Rightarrow> go_error option \<times> 'w) \<Rightarrow> ('w \<Rightarrow> go_error option \<times> 'w) \<Rightarrow> 'w \<Rightarrow> go_error option \<times> 'w" where
  "followed_by f g w = (case f w of (Some err, w1) \<Rightarrow> (Some err, w1) | (None, w1) \<Rightarrow> g w1)"

section \<open>Status\<close>

definition StatusNeedsUpdate :: "mc_status \<Rightarrow> mc_condition \<Rightarrow> cluster_level_status \<Rightarrow> bool" where
  "StatusNeedsUpdate curStatus newCondition newClusterStatus =
     (if \<not> list_ex (\<lambda>existing. clName existing = clName newClusterStatus \<and> clState existing = clState newClusterStatus)
           (mcsClusters curStatus) then True
      else \<not> list_ex (\<lambda>existing. mcdStatus existing = mcdStatus newCondition \<and> mcdMessage existing = mcdMessage newCondition
           \<and> mcdType existing = mcdType newCondition) (mcsConditions curStatus))"

definition result_text :: "operation_result \<Rightarrow> string" where
  "result_text r = (case r of OperationResultNone \<Rightarrow> ''unchanged'' | OperationResultCreated \<Rightarrow> ''created''
     | OperationResultUpdated \<Rightarrow> ''updated'')"

definition GetConditionFromResult :: "string \<Rightarrow> go_error option \<Rightarrow> operation_result \<Rightarrow> string \<Rightarrow> mc_condition" where
  "GetConditionFromResult now err opResult msgPrefix = (case err of
       Some e \<Rightarrow> \<lparr>mcdTime = now, mcdMessage = Error e, mcdStatus = ''True'', mcdType = DeployFailed\<rparr>
     | None \<Rightarrow> \<lparr>mcdTime = now, mcdMessage = msgPrefix @ '' '' @ result_text opResult, mcdStatus = ''True'',
         mcdType = DeployComplete\<rparr>)"

definition CreateClusterLevelStatus :: "mc_condition \<Rightarrow> string \<Rightarrow> cluster_level_status" where
  "CreateClusterLevelStatus condition clusterName =
     \<lparr>clTime = mcdTime condition, clMessage = mcdMessage condition, clName = clusterName,
      clState = (if mcdType condition = DeployComplete then Succeeded
        else if mcdType condition = DeployFailed then Failed else Pending)\<rparr>"

text \<open>The states the placed clusters report, one for each pair of a placement and a status of its name.\<close>

definition reported_states :: "mc_status \<Rightarrow> string list \<Rightarrow> state_type list" where
  "reported_states status placement =
     concat (map (\<lambda>cluster. map clState (filter (\<lambda>s. clName s = cluster) (mcsClusters status))) placement)"

definition ComputeEffectiveState :: "mc_status \<Rightarrow> string list \<Rightarrow> state_type" where
  "ComputeEffectiveState status placement =
     (let found = reported_states status placement;
          clustersFailed = length (filter (\<lambda>st. st = Failed) found);
          clustersPending = length (filter (\<lambda>st. st = Pending) found);
          clustersSucceeded = length (filter (\<lambda>st. st = Succeeded) found)
      in if clustersFailed > 0 then Failed
         else if clustersPending > 0 then Pending
         else if clustersSucceeded \<ge> length placement then Succeeded
         else Pending)"

fun last_index :: "nat \<Rightarrow> nat option \<Rightarrow> string \<Rightarrow> cluster_level_status list \<Rightarrow> nat option" where
  "last_index i found name [] = found"
| "last_index i found name (s # ss) = last_index (i + 1) (if clName s = name then Some i else found) name ss"

definition SetClusterLevelStatus :: "string \<Rightarrow> mc_status \<Rightarrow> cluster_level_status \<Rightarrow> mc_status" where
  "SetClusterLevelStatus now status newClusterStatus =
     (case last_index 0 None (clName newClusterStatus) (mcsClusters status) of
        None \<Rightarrow> status\<lparr>mcsClusters := mcsClusters status @ [newClusterStatus]\<rparr>
      | Some i \<Rightarrow> status\<lparr>mcsClusters := (mcsClusters status)[i := newClusterStatus\<lparr>clTime := now\<rparr>]\<rparr>)"

text \<open>The first condition that is the same or of the same type decides.\<close>

fun put_condition :: "mc_condition \<Rightarrow> mc_condition list \<Rightarrow> mc_condition list" where
  "put_condition condition [] = [condition]"
| "put_condition condition (existing # rest) =
     (if mcdType condition = mcdType existing \<and> mcdStatus condition = mcdStatus existing \<and> mcdMessage condition = mcdMessage existing
      then existing # rest
      else if mcdType condition = mcdType existing
      then existing\<lparr>mcdMessage := mcdMessage condition, mcdStatus := mcdStatus condition, mcdTime := mcdTime condition\<rparr> # rest
      else existing # put_condition condition rest)"

definition addOrUpdateCondition :: "mc_status \<Rightarrow> mc_condition \<Rightarrow> mc_status" where
  "addOrUpdateCondition status condition = status\<lparr>mcsConditions := put_condition condition (mcsConditions status)\<rparr>"

text \<open>The old state comes back with the new resource.\<close>

definition SetEffectiveStateIfChanged :: "'t mc_resource \<Rightarrow> state_type \<times> 't mc_resource" where
  "SetEffectiveStateIfChanged r =
     (let effectiveState = ComputeEffectiveState (mrStatus r) (mrPlacement r) in
      if effectiveState \<noteq> mcsState (mrStatus r)
      then (mcsState (mrStatus r), r\<lparr>mrStatus := (mrStatus r)\<lparr>mcsState := effectiveState\<rparr>\<rparr>)
      else (mcsState (mrStatus r), r))"

section \<open>This cluster\<close>

definition fetchClusterSecret :: "'w cluster_client \<Rightarrow> 'w \<Rightarrow> (go_error + labels) \<times> 'w" where
  "fetchClusterSecret C w = (case GetSecretData C ''verrazzano-system'' ''verrazzano-cluster-registration'' w of
       (Inr d, w1) \<Rightarrow> (Inr d, w1)
     | (Inl err, w1) \<Rightarrow> (if \<not> IsNotFound err then (Inl err, w1)
         else GetSecretData C ''verrazzano-system'' ''verrazzano-local-registration'' w1))"

definition cluster_name_of :: "labels \<Rightarrow> string" where
  "cluster_name_of d = (case d ''managed-cluster-name'' of Some n \<Rightarrow> n | None \<Rightarrow> [])"

definition IsPlacedInThisCluster :: "'w cluster_client \<Rightarrow> string list \<Rightarrow> 'w \<Rightarrow> bool \<times> 'w" where
  "IsPlacedInThisCluster C placement w = (case fetchClusterSecret C w of
       (Inl err, w1) \<Rightarrow> (False, w1)
     | (Inr d, w1) \<Rightarrow> (cluster_name_of d \<in> set placement, w1))"

definition GetClusterName :: "'w cluster_client \<Rightarrow> 'w \<Rightarrow> string \<times> 'w" where
  "GetClusterName C w = (case fetchClusterSecret C w of
       (Inl err, w1) \<Rightarrow> ([], w1)
     | (Inr d, w1) \<Rightarrow> (cluster_name_of d, w1))"

text \<open>
  \<open>UpdateStatus\<close>: what is written with \<open>updateFunc\<close> is the resource with its new status, which the caller
  goes on with.
\<close>

definition UpdateStatus ::
  "'w cluster_client \<Rightarrow> mc_kind \<Rightarrow> 't mc_resource \<Rightarrow> mc_condition \<Rightarrow> string
    \<Rightarrow> ('t mc_resource \<Rightarrow> 'w \<Rightarrow> go_error option \<times> 'w) \<Rightarrow> 'w \<Rightarrow> ((ctrl_result \<times> go_error option) \<times> 't mc_resource) \<times> 'w" where
  "UpdateStatus C kind r newCondition clusterName updateFunc w =
     (let clusterLevelStatus = CreateClusterLevelStatus newCondition clusterName in
      if StatusNeedsUpdate (mrStatus r) newCondition clusterLevelStatus then
        (let st1 = addOrUpdateCondition (mrStatus r) newCondition;
             st2 = SetClusterLevelStatus (NowRFC3339 C w) st1 clusterLevelStatus;
             r' = r\<lparr>mrStatus := st2\<lparr>mcsState := ComputeEffectiveState st2 (mrPlacement r)\<rparr>\<rparr>
         in case updateFunc r' w of
              (Some err, w1) \<Rightarrow> (((no_requeue, Some err), r'), w1)
            | (None, w1) \<Rightarrow> (((no_requeue, None), r'),
                (case AgentSend C of
                   None \<Rightarrow> w1
                 | Some send \<Rightarrow> send \<lparr>NewCondition = newCondition, NewClusterStatus = clusterLevelStatus, MessageKind = kind,
                     MessageNamespace = mrNamespace r, MessageName = mrName r\<rparr> w1)))
      else (((no_requeue, None), r), w))"

section \<open>Results\<close>

definition IgnoreNotFoundWithLog :: "(int \<Rightarrow> int \<Rightarrow> int) \<Rightarrow> go_error option \<Rightarrow> ctrl_result" where
  "IgnoreNotFoundWithLog rnd err = (case err of
       Some e \<Rightarrow> if IsNotFound e then no_requeue else newRequeueWithDelay rnd
     | None \<Rightarrow> newRequeueWithDelay rnd)"

definition GetRandomRequeueDelayInRange :: "(int \<Rightarrow> int \<Rightarrow> int) \<Rightarrow> int \<Rightarrow> int \<Rightarrow> int" where
  "GetRandomRequeueDelayInRange rnd lowSeconds highSeconds = rnd lowSeconds highSeconds * nano_second"

definition GetRandomRequeueDelay :: "(int \<Rightarrow> int \<Rightarrow> int) \<Rightarrow> int" where
  "GetRandomRequeueDelay rnd = GetRandomRequeueDelayInRange rnd 2 8"

definition NewRequeueWithRandomDelay :: "(int \<Rightarrow> int \<Rightarrow> int) \<Rightarrow> int \<Rightarrow> int \<Rightarrow> ctrl_result" where
  "NewRequeueWithRandomDelay rnd lowSeconds highSeconds =
     \<lparr>Requeue = True, RequeueAfter = GetRandomRequeueDelayInRange rnd lowSeconds highSeconds\<rparr>"

end
