(* ===== verification/Mc_Resource.thy ===== *)
theory Mc_Resource imports Mc_Status Vz_Api begin

text \<open>
  The controllers of multi-cluster resources (\<open>controllers/clusters/multicluster*/controller.go\<close>): each
  keeps the object wrapped in its resource, where the resource is placed on this cluster.  The four
  are one text over another kind of object; what an object has besides its metadata is \<open>content\<close>.
\<close>

record mc_template =
  tpLabels :: labels
  tpAnnotations :: labels
  tpContent :: foreign

record wrapped =
  woNamespace :: string
  woName :: string
  woLabels :: labels
  woAnnotations :: labels
  woContent :: foreign

text \<open>
  The calls of one kind.  \<open>CreateOrUpdateWrapped\<close> is \<open>controllerutil.CreateOrUpdate\<close>: it reads the object
  of the key, applies the function to it, or to an empty one, and writes what changed.
\<close>

record 'w mc_calls =
  McKind :: mc_kind
  McFinalizer :: string
  McPrefix :: string
  McGet :: "string \<Rightarrow> string \<Rightarrow> 'w \<Rightarrow> (go_error + mc_template mc_resource) \<times> 'w"
  McUpdate :: "mc_template mc_resource \<Rightarrow> 'w \<Rightarrow> go_error option \<times> 'w"
  McStatusUpdate :: "mc_template mc_resource \<Rightarrow> 'w \<Rightarrow> go_error option \<times> 'w"
  GetWrapped :: "string \<Rightarrow> string \<Rightarrow> 'w \<Rightarrow> (go_error + wrapped) \<times> 'w"
  DeleteWrapped :: "wrapped \<Rightarrow> 'w \<Rightarrow> go_error option \<times> 'w"
  CreateOrUpdateWrapped :: "string \<times> string \<Rightarrow> (wrapped \<Rightarrow> wrapped) \<Rightarrow> 'w \<Rightarrow> (operation_result \<times> go_error option) \<times> 'w"

section \<open>Finalizers and deletion\<close>

definition DeleteAssociatedResource :: "'w mc_calls \<Rightarrow> mc_template mc_resource \<Rightarrow> 'w \<Rightarrow> go_error option \<times> 'w" where
  "DeleteAssociatedResource K r w =
     (let finish = McUpdate K (r\<lparr>mrFinalizers := filter (\<lambda>f. f \<noteq> McFinalizer K) (mrFinalizers r)\<rparr>) in
      case GetWrapped K (mrNamespace r) (mrName r) w of
        (Inl err, w1) \<Rightarrow> (if \<not> IsNotFound err then (Some err, w1) else finish w1)
      | (Inr obj, w1) \<Rightarrow> (case DeleteWrapped K obj w1 of
            (Some err, w2) \<Rightarrow> (Some err, w2)
          | (None, w2) \<Rightarrow> finish w2))"

definition AddFinalizer :: "'w mc_calls \<Rightarrow> mc_template mc_resource \<Rightarrow> 'w \<Rightarrow> (mc_template mc_resource \<times> go_error option) \<times> 'w" where
  "AddFinalizer K r w =
     (if McFinalizer K \<notin> set (mrFinalizers r) then
        (let r' = r\<lparr>mrFinalizers := mrFinalizers r @ [McFinalizer K]\<rparr> in
         case McUpdate K r' w of (err, w1) \<Rightarrow> ((r', err), w1))
      else ((r, None), w))"

section \<open>The wrapped object\<close>

definition managed_label :: "labels \<Rightarrow> labels" where
  "managed_label l = l(''verrazzano-managed'' \<mapsto> ''true'')"

definition mutate_wrapped :: "mc_template mc_resource \<Rightarrow> wrapped \<Rightarrow> wrapped" where
  "mutate_wrapped r obj = obj\<lparr>woContent := tpContent (mrTemplate r), woLabels := managed_label (tpLabels (mrTemplate r)),
     woAnnotations := tpAnnotations (mrTemplate r)\<rparr>"

text \<open>
  The object shares the map of its labels with the template, unless the template has none: the label
  that is put on the object is put on the template of the resource in hand too.
\<close>

definition share_labels :: "mc_template mc_resource \<Rightarrow> mc_template mc_resource" where
  "share_labels r = (if tpLabels (mrTemplate r) = Map.empty then r
     else r\<lparr>mrTemplate := (mrTemplate r)\<lparr>tpLabels := managed_label (tpLabels (mrTemplate r))\<rparr>\<rparr>)"

definition createOrUpdateWrapped ::
  "'w mc_calls \<Rightarrow> mc_template mc_resource \<Rightarrow> 'w \<Rightarrow> (mc_template mc_resource \<times> operation_result \<times> go_error option) \<times> 'w" where
  "createOrUpdateWrapped K r w =
     (case CreateOrUpdateWrapped K (mrNamespace r, mrName r) (mutate_wrapped r) w of
        ((res, err), w1) \<Rightarrow> ((if err = None then share_labels r else r, res, err), w1))"

section \<open>Reconciling\<close>

definition mc_updateStatus ::
  "'w cluster_client \<Rightarrow> 'w mc_calls \<Rightarrow> mc_template mc_resource \<Rightarrow> operation_result \<Rightarrow> go_error option \<Rightarrow> 'w
    \<Rightarrow> ((ctrl_result \<times> go_error option) \<times> mc_template mc_resource) \<times> 'w" where
  "mc_updateStatus C K r opResult err w = (case GetClusterName C w of (clusterName, w1) \<Rightarrow>
     UpdateStatus C (McKind K) r (GetConditionFromResult (NowRFC3339 C w1) err opResult (McPrefix K)) clusterName
       (McStatusUpdate K) w1)"

definition mc_doReconcile ::
  "'w cluster_client \<Rightarrow> 'w mc_calls \<Rightarrow> mc_template mc_resource \<Rightarrow> 'w \<Rightarrow> (ctrl_result \<times> go_error option) \<times> 'w" where
  "mc_doReconcile C K r w =
     (if mrDeletionTimestamp r \<noteq> None
      then (case DeleteAssociatedResource K r w of (err, w1) \<Rightarrow> ((no_requeue, err), w1))
      else (case SetEffectiveStateIfChanged r of (oldState, r1) \<Rightarrow>
        (case IsPlacedInThisCluster C (mrPlacement r1) w of (placed, w1) \<Rightarrow>
          (if \<not> placed then
             (case (if oldState \<noteq> mcsState (mrStatus r1) then McStatusUpdate K r1 w1 else (None, w1)) of
                (Some err, w2) \<Rightarrow> ((no_requeue, Some err), w2)
              | (None, w2) \<Rightarrow> (case DeleteAssociatedResource K r1 w2 of (err, w3) \<Rightarrow> ((no_requeue, err), w3)))
           else
             (case createOrUpdateWrapped K r1 w1 of ((r2, opResult, err), w2) \<Rightarrow>
             (case (if err = None then AddFinalizer K r2 w2 else ((r2, err), w2)) of ((r3, err3), w3) \<Rightarrow>
             (case mc_updateStatus C K r3 opResult err3 w3 of ((ctrlResult, r4), w4) \<Rightarrow>
                (if err3 \<noteq> None
                 then ((\<lparr>Requeue = True, RequeueAfter = GetRandomRequeueDelay (DelayIntn C)\<rparr>, err3), w4)
                 else (ctrlResult, w4)))))))))"

definition mc_Reconcile :: "'w cluster_client \<Rightarrow> 'w mc_calls \<Rightarrow> string \<Rightarrow> string \<Rightarrow> 'w \<Rightarrow> ctrl_result \<times> 'w" where
  "mc_Reconcile C K namespace name w =
     (if namespace = ''kube-system'' then (no_requeue, w)
      else (case McGet K namespace name w of
          (Inl err, w1) \<Rightarrow> (IgnoreNotFoundWithLog (DelayIntn C) (Some err), w1)
        | (Inr r, w1) \<Rightarrow> (case mc_doReconcile C K r w1 of ((res, err), w2) \<Rightarrow>
            (if ShouldRequeue res then res
             else if err \<noteq> None then newRequeueWithDelay (DelayIntn C)
             else no_requeue, w2))))"

text \<open>The kinds.\<close>

definition secret_kind :: "'w mc_calls \<Rightarrow> 'w mc_calls" where
  "secret_kind K = K\<lparr>McKind := SecretKind, McFinalizer := ''multiclustersecret.verrazzano.io'', McPrefix := ''Secret''\<rparr>"

definition config_map_kind :: "'w mc_calls \<Rightarrow> 'w mc_calls" where
  "config_map_kind K = K\<lparr>McKind := ConfigMapKind, McFinalizer := ''multiclusterconfigmap.verrazzano.io'', McPrefix := ''ConfigMap''\<rparr>"

definition component_kind :: "'w mc_calls \<Rightarrow> 'w mc_calls" where
  "component_kind K = K\<lparr>McKind := ComponentKind, McFinalizer := ''multiclustercomponent.verrazzano.io'', McPrefix := ''OAM Component''\<rparr>"

definition app_config_kind :: "'w mc_calls \<Rightarrow> 'w mc_calls" where
  "app_config_kind K = K\<lparr>McKind := AppConfigKind, McFinalizer := ''multiclusterapplicationconfiguration.verrazzano.io'',
     McPrefix := ''OAM Application Configuration''\<rparr>"

definition ReconcileSecret :: "'w cluster_client \<Rightarrow> 'w mc_calls \<Rightarrow> string \<Rightarrow> string \<Rightarrow> 'w \<Rightarrow> ctrl_result \<times> 'w" where
  "ReconcileSecret C K = mc_Reconcile C (secret_kind K)"

definition ReconcileConfigMap :: "'w cluster_client \<Rightarrow> 'w mc_calls \<Rightarrow> string \<Rightarrow> string \<Rightarrow> 'w \<Rightarrow> ctrl_result \<times> 'w" where
  "ReconcileConfigMap C K = mc_Reconcile C (config_map_kind K)"

definition ReconcileComponent :: "'w cluster_client \<Rightarrow> 'w mc_calls \<Rightarrow> string \<Rightarrow> string \<Rightarrow> 'w \<Rightarrow> ctrl_result \<times> 'w" where
  "ReconcileComponent C K = mc_Reconcile C (component_kind K)"

definition ReconcileAppConfig :: "'w cluster_client \<Rightarrow> 'w mc_calls \<Rightarrow> string \<Rightarrow> string \<Rightarrow> 'w \<Rightarrow> ctrl_result \<times> 'w" where
  "ReconcileAppConfig C K = mc_Reconcile C (app_config_kind K)"

end
