(* ===== verification/Mc_Sync.thy ===== *)
theory Mc_Sync imports Mc_Resource begin

text \<open>
  The agent of a managed cluster: it copies what the admin cluster places on this cluster, deletes what
  is no longer placed, and brings the status of this cluster to the admin cluster
  (\<open>application-operator/mcagent\<close>).  The world \<open>'w\<close> has both clusters in it.
\<close>

section \<open>Resources of one kind\<close>

record ('t, 'w) sync_calls =
  AdminList :: "string \<Rightarrow> 'w \<Rightarrow> (go_error + 't mc_resource list) \<times> 'w"
  AdminGet :: "string \<Rightarrow> string \<Rightarrow> 'w \<Rightarrow> (go_error + 't mc_resource) \<times> 'w"
  AdminStatusUpdate :: "'t mc_resource \<Rightarrow> 'w \<Rightarrow> go_error option \<times> 'w"
  LocalList :: "string \<Rightarrow> 'w \<Rightarrow> (go_error + 't mc_resource list) \<times> 'w"
  LocalGet :: "string \<Rightarrow> string \<Rightarrow> 'w \<Rightarrow> (go_error + 't mc_resource) \<times> 'w"
  LocalDelete :: "'t mc_resource \<Rightarrow> 'w \<Rightarrow> go_error option \<times> 'w"
  LocalCreateOrUpdate :: "string \<times> string \<Rightarrow> ('t mc_resource \<Rightarrow> 't mc_resource) \<Rightarrow> 'w \<Rightarrow> (operation_result \<times> go_error option) \<times> 'w"

definition isThisCluster :: "string \<Rightarrow> string list \<Rightarrow> bool" where
  "isThisCluster managedClusterName placement \<longleftrightarrow> list_ex (\<lambda>cluster. cluster = managedClusterName) placement"

definition mutateMCSecret :: "'t mc_resource \<Rightarrow> 't mc_resource \<Rightarrow> 't mc_resource" where
  "mutateMCSecret src new = new\<lparr>mrPlacement := mrPlacement src, mrTemplate := mrTemplate src, mrLabels := mrLabels src\<rparr>"

definition mutateMCConfigMap :: "'t mc_resource \<Rightarrow> 't mc_resource \<Rightarrow> 't mc_resource" where
  "mutateMCConfigMap src new =
     new\<lparr>mrPlacement := mrPlacement src, mrTemplate := mrTemplate src, mrLabels := managed_label (mrLabels src)\<rparr>"

definition mutateMCComponent :: "'t mc_resource \<Rightarrow> 't mc_resource \<Rightarrow> 't mc_resource" where
  "mutateMCComponent src new =
     new\<lparr>mrPlacement := mrPlacement src, mrTemplate := mrTemplate src, mrLabels := managed_label (mrLabels src)\<rparr>"

definition mutateVerrazzanoProject :: "'t mc_resource \<Rightarrow> 't mc_resource \<Rightarrow> 't mc_resource" where
  "mutateVerrazzanoProject src new =
     new\<lparr>mrTemplate := mrTemplate src, mrPlacement := mrPlacement src,
       mrLabels := managed_label (if mrLabels src \<noteq> Map.empty then mrLabels src else mrLabels new), mrAnnotations := mrAnnotations src\<rparr>"

text \<open>What the admin cluster gives: nothing when it does not know the kind or forbids to see it.\<close>

definition admin_items :: "(go_error + 'a list) \<Rightarrow> go_error + 'a list" where
  "admin_items r = (case r of
       Inl err \<Rightarrow> (if \<not> IsNotFound err \<and> \<not> IsForbidden err then Inl err else Inr [])
     | Inr items \<Rightarrow> Inr items)"

definition copy_resource ::
  "('t, 'w) sync_calls \<Rightarrow> ('t mc_resource \<Rightarrow> 't mc_resource \<Rightarrow> 't mc_resource) \<Rightarrow> 't mc_resource \<Rightarrow> 'w
    \<Rightarrow> (operation_result \<times> go_error option) \<times> 'w" where
  "copy_resource S f src = LocalCreateOrUpdate S (mrNamespace src, mrName src) (f src)"

fun copy_placed :: "('t mc_resource \<Rightarrow> 'w \<Rightarrow> 'w) \<Rightarrow> string \<Rightarrow> 't mc_resource list \<Rightarrow> 'w \<Rightarrow> 'w" where
  "copy_placed copy cluster [] w = w"
| "copy_placed copy cluster (item # items) w =
     copy_placed copy cluster items (if isThisCluster cluster (mrPlacement item) then copy item w else w)"

definition placed_on_cluster :: "string \<Rightarrow> 't mc_resource list \<Rightarrow> string \<Rightarrow> string \<Rightarrow> bool" where
  "placed_on_cluster cluster mcAdminList name namespace =
     (case find (\<lambda>item. mrName item = name \<and> mrNamespace item = namespace) mcAdminList of
        Some item \<Rightarrow> isThisCluster cluster (mrPlacement item)
      | None \<Rightarrow> False)"

fun delete_unplaced :: "('t, 'w) sync_calls \<Rightarrow> string \<Rightarrow> 't mc_resource list \<Rightarrow> 't mc_resource list \<Rightarrow> 'w \<Rightarrow> 'w" where
  "delete_unplaced S cluster adminItems [] w = w"
| "delete_unplaced S cluster adminItems (item # items) w =
     delete_unplaced S cluster adminItems items
       (if placed_on_cluster cluster adminItems (mrName item) (mrNamespace item) then w else snd (LocalDelete S item w))"

text \<open>The part the kinds share; \<open>after\<close> is what follows the deletion.\<close>

definition sync_kind ::
  "('t, 'w) sync_calls \<Rightarrow> string \<Rightarrow> ('t mc_resource \<Rightarrow> 'w \<Rightarrow> 'w) \<Rightarrow> ('w \<Rightarrow> 'w) \<Rightarrow> string \<Rightarrow> 'w \<Rightarrow> go_error option \<times> 'w" where
  "sync_kind S cluster copy after namespace w = (case AdminList S namespace w of (r, w1) \<Rightarrow>
     (case admin_items r of
        Inl err \<Rightarrow> (Some err, w1)
      | Inr adminItems \<Rightarrow> (case LocalList S namespace (copy_placed copy cluster adminItems w1) of
            (Inl err, w2) \<Rightarrow> (None, w2)
          | (Inr localItems, w2) \<Rightarrow> (None, after (delete_unplaced S cluster adminItems localItems w2)))))"

definition syncMCSecretObjects :: "('t, 'w) sync_calls \<Rightarrow> string \<Rightarrow> string \<Rightarrow> 'w \<Rightarrow> go_error option \<times> 'w" where
  "syncMCSecretObjects S cluster = sync_kind S cluster (\<lambda>item w. snd (copy_resource S mutateMCSecret item w)) (\<lambda>w. w)"

definition syncMCConfigMapObjects :: "('t, 'w) sync_calls \<Rightarrow> string \<Rightarrow> string \<Rightarrow> 'w \<Rightarrow> go_error option \<times> 'w" where
  "syncMCConfigMapObjects S cluster = sync_kind S cluster (\<lambda>item w. snd (copy_resource S mutateMCConfigMap item w)) (\<lambda>w. w)"

definition syncMCComponentObjects :: "('t, 'w) sync_calls \<Rightarrow> string \<Rightarrow> string \<Rightarrow> 'w \<Rightarrow> go_error option \<times> 'w" where
  "syncMCComponentObjects S cluster = sync_kind S cluster (\<lambda>item w. snd (copy_resource S mutateMCComponent item w)) (\<lambda>w. w)"

section \<open>OAM components and secrets of applications\<close>

text \<open>The spec of an application besides its placement: the template, with the names of its components, and the list of secrets.\<close>

record app_template = mc_template +
  atComponents :: "string list"
  atSecrets :: "string list"

text \<open>The list of secrets is not copied.\<close>

definition mutateMCAppConfig :: "app_template mc_resource \<Rightarrow> app_template mc_resource \<Rightarrow> app_template mc_resource" where
  "mutateMCAppConfig src new =
     new\<lparr>mrPlacement := mrPlacement src, mrTemplate := (mrTemplate src)\<lparr>atSecrets := atSecrets (mrTemplate new)\<rparr>,
       mrLabels := managed_label (mrLabels src)\<rparr>"

text \<open>
  Objects of one type on both clusters; \<open>LocalListObjects\<close> lists those of a namespace, with the label
  and value if there is one.
\<close>

record 'w copy_calls =
  AdminGetObject :: "string \<Rightarrow> string \<Rightarrow> 'w \<Rightarrow> (go_error + wrapped) \<times> 'w"
  LocalListObjects :: "string \<Rightarrow> (string \<times> string) option \<Rightarrow> 'w \<Rightarrow> (go_error + wrapped list) \<times> 'w"
  LocalDeleteObject :: "wrapped \<Rightarrow> 'w \<Rightarrow> go_error option \<times> 'w"
  LocalUpdateObject :: "wrapped \<Rightarrow> 'w \<Rightarrow> go_error option \<times> 'w"
  LocalCreateOrUpdateObject :: "string \<times> string \<Rightarrow> (wrapped \<Rightarrow> wrapped) \<Rightarrow> 'w \<Rightarrow> (operation_result \<times> go_error option) \<times> 'w"

definition managedClusterLabel :: string where "managedClusterLabel = ''verrazzano.io/managed-cluster''"
definition mcAppConfigsLabel :: string where "mcAppConfigsLabel = ''verrazzano.io/mc-app-configs''"

definition label_or_empty :: "labels \<Rightarrow> string \<Rightarrow> string" where
  "label_or_empty l k = (case l k of Some v \<Rightarrow> v | None \<Rightarrow> [])"

text \<open>The copies have the labels of the first copy: later changes of labels on the admin cluster are not seen.\<close>

definition copy_labels :: "string \<Rightarrow> string \<Rightarrow> wrapped \<Rightarrow> wrapped \<Rightarrow> labels" where
  "copy_labels managedClusterName mcAppConfigName src new =
     (let l = (if woLabels new = Map.empty then woLabels src else woLabels new)
      in managed_label (l(mcAppConfigsLabel \<mapsto> AppendToCommaSeparatedString (label_or_empty l mcAppConfigsLabel) mcAppConfigName,
           managedClusterLabel \<mapsto> managedClusterName)))"

definition mutateComponent :: "string \<Rightarrow> string \<Rightarrow> wrapped \<Rightarrow> wrapped \<Rightarrow> wrapped" where
  "mutateComponent managedClusterName mcAppConfigName src new =
     new\<lparr>woLabels := copy_labels managedClusterName mcAppConfigName src new, woContent := woContent src,
       woAnnotations := woAnnotations src\<rparr>"

definition mutateSecret :: "string \<Rightarrow> string \<Rightarrow> wrapped \<Rightarrow> wrapped \<Rightarrow> wrapped" where
  "mutateSecret managedClusterName mcAppConfigName src new =
     new\<lparr>woLabels := copy_labels managedClusterName mcAppConfigName src new, woAnnotations := woAnnotations src,
       woContent := woContent src\<rparr>"

text \<open>The errors of single components are collected; an error of reading one ends the loop.\<close>

fun sync_components ::
  "'w copy_calls \<Rightarrow> (mc_template, 'w) sync_calls \<Rightarrow> string \<Rightarrow> string \<Rightarrow> string \<Rightarrow> string list \<Rightarrow> string list \<Rightarrow> 'w
    \<Rightarrow> go_error option \<times> 'w" where
  "sync_components O1 M cluster namespace app [] errorStrings w =
     (if length errorStrings > 0 then Some (PlainErr (str_join ''\<newline>'' errorStrings)) else None, w)"
| "sync_components O1 M cluster namespace app (name # names) errorStrings w = (case AdminGetObject O1 namespace name w of
       (Inl err, w1) \<Rightarrow>
         (if IsNotFound err then
            (case LocalGet M namespace name w1 of
               (Inl errmc, w2) \<Rightarrow> (Some err, w2)
             | (Inr _, w2) \<Rightarrow> sync_components O1 M cluster namespace app names errorStrings w2)
          else (Some err, w1))
     | (Inr oamComp, w1) \<Rightarrow>
         (case LocalCreateOrUpdateObject O1 (woNamespace oamComp, woName oamComp) (mutateComponent cluster app oamComp) w1 of
            ((res, Some err), w2) \<Rightarrow> sync_components O1 M cluster namespace app names (errorStrings @ [Error err]) w2
          | ((res, None), w2) \<Rightarrow> sync_components O1 M cluster namespace app names errorStrings w2))"

definition syncComponentList ::
  "'w copy_calls \<Rightarrow> (mc_template, 'w) sync_calls \<Rightarrow> string \<Rightarrow> app_template mc_resource \<Rightarrow> 'w \<Rightarrow> go_error option \<times> 'w" where
  "syncComponentList O1 M cluster mcAppConfig =
     sync_components O1 M cluster (mrNamespace mcAppConfig) (mrName mcAppConfig) (atComponents (mrTemplate mcAppConfig)) []"

definition sharing_apps :: "app_template mc_resource list \<Rightarrow> string \<Rightarrow> string list" where
  "sharing_apps apps name =
     concat (map (\<lambda>app. map (\<lambda>c. mrName app) (filter (\<lambda>c. c = name) (atComponents (mrTemplate app)))) apps)"

fun delete_orphans ::
  "'w copy_calls \<Rightarrow> (mc_template, 'w) sync_calls \<Rightarrow> string \<Rightarrow> app_template mc_resource list \<Rightarrow> wrapped list \<Rightarrow> 'w \<Rightarrow> go_error option \<times> 'w" where
  "delete_orphans O1 M namespace apps [] w = (None, w)"
| "delete_orphans O1 M namespace apps (oamComp # rest) w = (case LocalGet M namespace (woName oamComp) w of
       (Inr _, w1) \<Rightarrow> delete_orphans O1 M namespace apps rest w1
     | (Inl err, w1) \<Rightarrow>
         (let actualAppConfigs = sharing_apps apps (woName oamComp) in
          case (if length actualAppConfigs = 0 then LocalDeleteObject O1 oamComp w1
                else if split_on CHR '','' (label_or_empty (woLabels oamComp) mcAppConfigsLabel) \<noteq> actualAppConfigs
                then LocalUpdateObject O1
                  (oamComp\<lparr>woLabels := (woLabels oamComp)(mcAppConfigsLabel \<mapsto> str_join '','' actualAppConfigs)\<rparr>) w1
                else (None, w1)) of
            (Some err2, w2) \<Rightarrow> (Some err2, w2)
          | (None, w2) \<Rightarrow> delete_orphans O1 M namespace apps rest w2))"

definition deleteOrphanedComponents ::
  "'w copy_calls \<Rightarrow> (mc_template, 'w) sync_calls \<Rightarrow> (app_template, 'w) sync_calls \<Rightarrow> string \<Rightarrow> string \<Rightarrow> 'w \<Rightarrow> go_error option \<times> 'w" where
  "deleteOrphanedComponents O1 M A cluster namespace w =
     (case LocalListObjects O1 namespace (Some (managedClusterLabel, cluster)) w of
        (Inl err, w1) \<Rightarrow> (Some err, w1)
      | (Inr comps, w1) \<Rightarrow>
          (if length comps = 0 then (None, w1)
           else (case LocalList A namespace w1 of
               (Inl err, w2) \<Rightarrow> (Some err, w2)
             | (Inr apps, w2) \<Rightarrow> delete_orphans O1 M namespace apps comps w2)))"

definition syncMCApplicationConfigurationObjects ::
  "'w copy_calls \<Rightarrow> (mc_template, 'w) sync_calls \<Rightarrow> (app_template, 'w) sync_calls \<Rightarrow> string \<Rightarrow> string \<Rightarrow> 'w \<Rightarrow> go_error option \<times> 'w" where
  "syncMCApplicationConfigurationObjects O1 M A cluster namespace =
     sync_kind A cluster
       (\<lambda>app w. snd (copy_resource A mutateMCAppConfig app (snd (syncComponentList O1 M cluster app w))))
       (\<lambda>w. snd (deleteOrphanedComponents O1 M A cluster namespace w)) namespace"

end
