(* ===== verification/Mc_Agent.thy ===== *)
theory Mc_Agent imports Mc_Sync begin

text \<open>
  One iteration of the agent: secrets, projects, the messages with the status of this cluster, the
  registration, and \<open>Reconcile\<close> (\<open>mcagent.go\<close>, \<open>mcagent_syncer.go\<close>, \<open>mcagent_k8ssecret.go\<close>,
  \<open>mcagent_project.go\<close>, \<open>mcagent_cluster_secrets.go\<close>, \<open>mcagent_deregister.go\<close>, \<open>mcagent_metrics.go\<close>).
  The Rancher agent (\<open>mcagent_cattle_agent.go\<close>) is a call of \<open>agent\<close>.
\<close>

section \<open>Secrets of applications\<close>

definition k8sSecretPlacedOnCluster :: "wrapped \<Rightarrow> app_template mc_resource list \<Rightarrow> bool" where
  "k8sSecretPlacedOnCluster secret allAdminMCAppConfigs \<longleftrightarrow>
     list_ex (\<lambda>app. CommaSeparatedStringContains (label_or_empty (woLabels secret) mcAppConfigsLabel) (mrName app)
       \<and> list_ex (\<lambda>cluster. cluster = label_or_empty (woLabels secret) managedClusterLabel) (mrPlacement app)) allAdminMCAppConfigs"

fun copy_secrets :: "'w copy_calls \<Rightarrow> string \<Rightarrow> string \<Rightarrow> string \<Rightarrow> string list \<Rightarrow> 'w \<Rightarrow> go_error option \<times> 'w" where
  "copy_secrets O1 cluster namespace app [] w = (None, w)"
| "copy_secrets O1 cluster namespace app (s # ss) w = (case AdminGetObject O1 namespace s w of
       (Inl err, w1) \<Rightarrow> (Some err, w1)
     | (Inr secret, w1) \<Rightarrow> copy_secrets O1 cluster namespace app ss
         (snd (LocalCreateOrUpdateObject O1 (woNamespace secret, woName secret) (mutateSecret cluster app secret) w1)))"

fun copy_app_secrets :: "'w copy_calls \<Rightarrow> string \<Rightarrow> string \<Rightarrow> app_template mc_resource list \<Rightarrow> 'w \<Rightarrow> go_error option \<times> 'w" where
  "copy_app_secrets O1 cluster namespace [] w = (None, w)"
| "copy_app_secrets O1 cluster namespace (app # apps) w =
     (if isThisCluster cluster (mrPlacement app) then
        (case copy_secrets O1 cluster namespace (mrName app) (atSecrets (mrTemplate app)) w of
           (Some err, w1) \<Rightarrow> (Some err, w1)
         | (None, w1) \<Rightarrow> copy_app_secrets O1 cluster namespace apps w1)
      else copy_app_secrets O1 cluster namespace apps w)"

definition secret_apps :: "string \<Rightarrow> app_template mc_resource list \<Rightarrow> string \<Rightarrow> string list" where
  "secret_apps cluster apps name =
     concat (map (\<lambda>app. concat (map (\<lambda>c. map (\<lambda>s. mrName app) (filter (\<lambda>s. s = name) (atSecrets (mrTemplate app))))
       (filter (\<lambda>c. c = cluster) (mrPlacement app)))) apps)"

fun clean_secrets :: "'w copy_calls \<Rightarrow> string \<Rightarrow> app_template mc_resource list \<Rightarrow> wrapped list \<Rightarrow> 'w \<Rightarrow> 'w" where
  "clean_secrets O1 cluster apps [] w = w"
| "clean_secrets O1 cluster apps (secret # rest) w = clean_secrets O1 cluster apps rest
     (case woLabels secret mcAppConfigsLabel of
        None \<Rightarrow> w
      | Some appConfigs \<Rightarrow>
          (if \<not> k8sSecretPlacedOnCluster secret apps then snd (LocalDeleteObject O1 secret w)
           else (let actualAppConfigs = secret_apps cluster apps (woName secret) in
             if split_on CHR '','' appConfigs \<noteq> actualAppConfigs
             then snd (LocalUpdateObject O1
               (secret\<lparr>woLabels := (woLabels secret)(mcAppConfigsLabel \<mapsto> str_join '','' actualAppConfigs)\<rparr>) w)
             else w)))"

definition syncSecretObjects :: "'w copy_calls \<Rightarrow> (app_template, 'w) sync_calls \<Rightarrow> string \<Rightarrow> string \<Rightarrow> 'w \<Rightarrow> go_error option \<times> 'w" where
  "syncSecretObjects O1 A cluster namespace w = (case AdminList A namespace w of (r, w1) \<Rightarrow>
     (case admin_items r of
        Inl err \<Rightarrow> (Some err, w1)
      | Inr apps \<Rightarrow> (case copy_app_secrets O1 cluster namespace apps w1 of
            (Some err, w2) \<Rightarrow> (Some err, w2)
          | (None, w2) \<Rightarrow> (case LocalListObjects O1 namespace None w2 of
                (Inl err, w3) \<Rightarrow> (None, w3)
              | (Inr secrets, w3) \<Rightarrow> (None, clean_secrets O1 cluster apps secrets w3)))))"

section \<open>The agent\<close>

record vmc =
  vmcCASecret :: string
  vmcDeletionTimestamp :: "string option"
  vmcLastAgentConnectTime :: string
  vmcAPIUrl :: string
  vmcPrometheusHost :: string
  vmcThanosQueryStore :: string

record relabel_config =
  rcTargetLabel :: string
  rcReplacement :: string

text \<open>Prometheus monitors of one kind; an update applies a function to the relabellings of each endpoint.\<close>

record 'w monitor_calls =
  ListMonitors :: "'w \<Rightarrow> (go_error + (string \<times> string) list) \<times> 'w"
  UpdateMonitor :: "(relabel_config list list \<Rightarrow> relabel_config list list) \<Rightarrow> string \<times> string \<Rightarrow> 'w \<Rightarrow> go_error option \<times> 'w"

text \<open>
  Besides the calls of every kind: the managed namespaces, the channel, the definition of the kind of
  applications, the registration on the admin cluster, ingresses (the hosts of the rules), and secrets on
  either cluster, whose update applies a function to the data there is, which may panic.
\<close>

record ('p, 'w) agent =
  Apps :: "(app_template, 'w) sync_calls"
  Comps :: "(mc_template, 'w) sync_calls"
  ConfigMaps :: "(mc_template, 'w) sync_calls"
  Secrets :: "(mc_template, 'w) sync_calls"
  Projects :: "('p, 'w) sync_calls"
  OamComponents :: "'w copy_calls"
  K8sSecrets :: "'w copy_calls"
  ListNamespacesWithLabel :: "string \<Rightarrow> string \<Rightarrow> 'w \<Rightarrow> (go_error + string list) \<times> 'w"
  ReceiveStatus :: "'w \<Rightarrow> status_message option \<times> 'w"
  DiscardStatuses :: "'w \<Rightarrow> 'w"
  GetAppConfigCRD :: "'w \<Rightarrow> (go_error + unit) \<times> 'w"
  AdminGetVmc :: "string \<Rightarrow> 'w \<Rightarrow> (go_error + vmc) \<times> 'w"
  AdminUpdateVmcStatus :: "vmc \<Rightarrow> 'w \<Rightarrow> go_error option \<times> 'w"
  GetIngressHosts :: "string \<Rightarrow> string \<Rightarrow> 'w \<Rightarrow> (go_error + string list) \<times> 'w"
  AdminSecret :: "string \<Rightarrow> string \<Rightarrow> 'w \<Rightarrow> (go_error + labels) \<times> 'w"
  LocalSecret :: "string \<Rightarrow> string \<Rightarrow> 'w \<Rightarrow> (go_error + labels) \<times> 'w"
  UpdateLocalSecret :: "string \<Rightarrow> string \<Rightarrow> (labels \<Rightarrow> labels res) \<Rightarrow> 'w \<Rightarrow> ((operation_result \<times> go_error option) \<times> 'w) res"
  UpdateAdminSecret :: "string \<Rightarrow> string \<Rightarrow> (labels \<Rightarrow> labels res) \<Rightarrow> 'w \<Rightarrow> ((operation_result \<times> go_error option) \<times> 'w) res"
  LocalDeleteSecret :: "string \<Rightarrow> string \<Rightarrow> 'w \<Rightarrow> go_error option \<times> 'w"
  GetAgentState :: "'w \<Rightarrow> (go_error + labels) \<times> 'w"
  UpdateAgentState :: "(labels \<Rightarrow> labels) \<Rightarrow> 'w \<Rightarrow> go_error option \<times> 'w"
  GetAgentSecret :: "string \<Rightarrow> string \<Rightarrow> 'w \<Rightarrow> (go_error + string option \<times> labels) \<times> 'w"
  CreateAdminClient :: "labels \<Rightarrow> 'w \<Rightarrow> (go_error + unit) \<times> 'w"
  SyncCattleClusterAgent :: "string \<Rightarrow> string \<Rightarrow> 'w \<Rightarrow> (string \<times> go_error option) \<times> 'w"
  ServiceMonitors :: "'w monitor_calls"
  PodMonitors :: "'w monitor_calls"
  AgentNow :: "'w \<Rightarrow> string"
  AgentIntn :: "int \<Rightarrow> int \<Rightarrow> int"

section \<open>Projects\<close>

fun copy_projects :: "('p, 'w) sync_calls \<Rightarrow> string \<Rightarrow> 'p mc_resource list \<Rightarrow> 'w \<Rightarrow> 'w" where
  "copy_projects P cluster [] w = w"
| "copy_projects P cluster (vp # vps) w = copy_projects P cluster vps
     (if mrNamespace vp = ''verrazzano-mc'' then
        (if isThisCluster cluster (mrPlacement vp) then snd (copy_resource P mutateVerrazzanoProject vp w)
         else (case LocalGet P (mrNamespace vp) (mrName vp) w of
             (Inr vpLocal, w1) \<Rightarrow> snd (LocalDelete P vpLocal w1)
           | (Inl err, w1) \<Rightarrow> w1))
      else w)"

definition projectListContains :: "'p mc_resource list \<Rightarrow> string \<Rightarrow> string \<Rightarrow> bool" where
  "projectListContains projectList name namespace \<longleftrightarrow>
     list_ex (\<lambda>item. mrName item = name \<and> mrNamespace item = namespace) projectList"

fun delete_projects :: "('p, 'w) sync_calls \<Rightarrow> 'p mc_resource list \<Rightarrow> 'p mc_resource list \<Rightarrow> 'w \<Rightarrow> 'w" where
  "delete_projects P adminProjects [] w = w"
| "delete_projects P adminProjects (project # rest) w = delete_projects P adminProjects rest
     (if projectListContains adminProjects (mrName project) (mrNamespace project) then w else snd (LocalDelete P project w))"

definition getManagedNamespaces :: "('p, 'w) agent \<Rightarrow> 'w \<Rightarrow> (go_error + string list) \<times> 'w" where
  "getManagedNamespaces G w = (case ListNamespacesWithLabel G ''verrazzano-managed'' ''true'' w of
       (Inl err, w1) \<Rightarrow> (Inl (PlainErr (''failed to get list of Verrazzano managed namespaces: '' @ Error err)), w1)
     | (Inr ns, w1) \<Rightarrow> (Inr ns, w1))"

text \<open>With the error come the namespaces the agent goes on with, of which there are none before.\<close>

definition syncVerrazzanoProjects :: "('p, 'w) agent \<Rightarrow> string \<Rightarrow> 'w \<Rightarrow> (go_error option \<times> string list) \<times> 'w" where
  "syncVerrazzanoProjects G cluster w = (case AdminList (Projects G) ''verrazzano-mc'' w of
       (Inl err, w1) \<Rightarrow> ((if IsNotFound err then None else Some err, []), w1)
     | (Inr adminProjects, w1) \<Rightarrow>
         (case LocalList (Projects G) ''verrazzano-mc'' (copy_projects (Projects G) cluster adminProjects w1) of
            (Inl err, w2) \<Rightarrow> ((None, []), w2)
          | (Inr localProjects, w2) \<Rightarrow>
              (case getManagedNamespaces G (delete_projects (Projects G) adminProjects localProjects w2) of
                 (Inl err, w3) \<Rightarrow> ((Some err, []), w3)
               | (Inr ns, w3) \<Rightarrow> ((None, ns), w3))))"

section \<open>Status messages\<close>

text \<open>The same function for every kind.\<close>

definition admin_status_update ::
  "('t, 'w) sync_calls \<Rightarrow> ('w \<Rightarrow> string) \<Rightarrow> string \<times> string \<Rightarrow> mc_condition \<Rightarrow> cluster_level_status \<Rightarrow> 'w \<Rightarrow> go_error option \<times> 'w" where
  "admin_status_update S now name newCond newClusterStatus w = (case AdminGet S (fst name) (snd name) w of
       (Inl err, w1) \<Rightarrow> (Some err, w1)
     | (Inr fetched, w1) \<Rightarrow>
         (let st1 = (mrStatus fetched)\<lparr>mcsConditions := mcsConditions (mrStatus fetched) @ [newCond]\<rparr>
          in AdminStatusUpdate S (fetched\<lparr>mrStatus := SetClusterLevelStatus (now w1) st1 newClusterStatus\<rparr>) w1))"

fun retry_on_conflict :: "nat \<Rightarrow> go_error option \<Rightarrow> ('w \<Rightarrow> go_error option \<times> 'w) \<Rightarrow> 'w \<Rightarrow> go_error option \<times> 'w" where
  "retry_on_conflict 0 err f w = (err, w)"
| "retry_on_conflict (Suc tries) err f w = (case f w of
       (None, w1) \<Rightarrow> (None, w1)
     | (Some e, w1) \<Rightarrow> (if \<not> IsConflict e then (Some e, w1) else retry_on_conflict tries (Some e) f w1))"

definition retryCount :: nat where "retryCount = 3"

definition adminStatusUpdateWithRetry :: "('w \<Rightarrow> go_error option \<times> 'w) \<Rightarrow> 'w \<Rightarrow> go_error option \<times> 'w" where
  "adminStatusUpdateWithRetry statusUpdateFunc = retry_on_conflict retryCount None statusUpdateFunc"

definition performAdminStatusUpdate :: "('p, 'w) agent \<Rightarrow> status_message \<Rightarrow> 'w \<Rightarrow> go_error option \<times> 'w" where
  "performAdminStatusUpdate G msg =
     (let name = (MessageNamespace msg, MessageName msg); c = NewCondition msg; s = NewClusterStatus msg; now = AgentNow G in
      adminStatusUpdateWithRetry (case MessageKind msg of
          AppConfigKind \<Rightarrow> admin_status_update (Apps G) now name c s
        | ComponentKind \<Rightarrow> admin_status_update (Comps G) now name c s
        | ConfigMapKind \<Rightarrow> admin_status_update (ConfigMaps G) now name c s
        | SecretKind \<Rightarrow> admin_status_update (Secrets G) now name c s
        | ProjectKind \<Rightarrow> admin_status_update (Projects G) now name c s))"

fun status_updates :: "nat \<Rightarrow> ('p, 'w) agent \<Rightarrow> 'w \<Rightarrow> 'w" where
  "status_updates 0 G w = w"
| "status_updates (Suc n) G w = status_updates n G (case ReceiveStatus G w of
       (None, w1) \<Rightarrow> w1
     | (Some msg, w1) \<Rightarrow> snd (performAdminStatusUpdate G msg w1))"

definition StatusUpdateBatchSize :: nat where "StatusUpdateBatchSize = 10"

definition processStatusUpdates :: "('p, 'w) agent \<Rightarrow> 'w \<Rightarrow> 'w" where
  "processStatusUpdates = status_updates StatusUpdateBatchSize"

section \<open>The status of the registration\<close>

definition first_host :: "string list \<Rightarrow> string res" where
  "first_host hosts = (case hosts of [] \<Rightarrow> Panic ''index out of range'' | h # _ \<Rightarrow> Ret h)"

text \<open>The three functions that read the host of an ingress.\<close>

definition ingress_host :: "('p, 'w) agent \<Rightarrow> string \<Rightarrow> string \<Rightarrow> (string \<Rightarrow> string) \<Rightarrow> ('w, string) call" where
  "ingress_host G name text f w = (case GetIngressHosts G ''verrazzano-system'' name w of
       (Inl err, w1) \<Rightarrow> Ret (if IsNotFound err then Inr [] else Inl (PlainErr (text @ '', '' @ Error err)), w1)
     | (Inr hosts, w1) \<Rightarrow> res_bind (first_host hosts) (\<lambda>h. Ret (Inr (f h), w1)))"

definition getAPIServerURL :: "('p, 'w) agent \<Rightarrow> ('w, string) call" where
  "getAPIServerURL G =
     ingress_host G ''verrazzano-ingress'' ''Unable to fetch ingress verrazzano-system/verrazzano-ingress'' (\<lambda>h. ''https://'' @ h)"

definition getPrometheusHost :: "('p, 'w) agent \<Rightarrow> ('w, string) call" where
  "getPrometheusHost G =
     ingress_host G ''vmi-system-prometheus'' ''unable to fetch ingress verrazzano-system/vmi-system-prometheus'' (\<lambda>h. h)"

definition getThanosQueryStoreAPIHost :: "('p, 'w) agent \<Rightarrow> ('w, string) call" where
  "getThanosQueryStoreAPIHost G =
     ingress_host G ''thanos-query-store'' ''unable to fetch ingress verrazzano-system/vmi-system-prometheus'' (\<lambda>h. h)"

text \<open>A call whose error is put behind a text.\<close>

definition call_wrap :: "string \<Rightarrow> ('w, 'a) call \<Rightarrow> ('w, 'a) call" where
  "call_wrap text m = call_try m (\<lambda>r. case r of Inl err \<Rightarrow> call_fail (PlainErr (text @ Error err)) | Inr a \<Rightarrow> call_ret a)"

definition updateVMCStatus :: "('p, 'w) agent \<Rightarrow> string \<Rightarrow> ('w, unit) call" where
  "updateVMCStatus G cluster =
     (let vmcName = ''verrazzano-mc/'' @ cluster in
      call_bind (call_io (AdminGetVmc G cluster)) (\<lambda>vmc w.
        (let curTime = AgentNow G w in
         call_bind (call_wrap (''Failed to get api server url for vmc '' @ vmcName @ '' with error '') (getAPIServerURL G)) (\<lambda>apiURL.
         call_bind (call_wrap (''Failed to get api prometheus host to update VMC '' @ vmcName @ '': '') (getPrometheusHost G)) (\<lambda>prometheusHost.
         call_bind (call_wrap (''Failed to get Thanos query URL to update VMC '' @ vmcName @ '': '') (getThanosQueryStoreAPIHost G)) (\<lambda>thanosAPIHost.
           call_io (io_unit (AdminUpdateVmcStatus G (vmc\<lparr>vmcLastAgentConnectTime := curTime, vmcAPIUrl := apiURL,
             vmcPrometheusHost := (if prometheusHost \<noteq> [] then prometheusHost else vmcPrometheusHost vmc),
             vmcThanosQueryStore := thanosAPIHost\<rparr>)))))) w)))"

section \<open>Prometheus monitors\<close>

definition updateClusterNameRelabelConfigs :: "relabel_config list \<Rightarrow> string \<Rightarrow> bool \<times> relabel_config list" where
  "updateClusterNameRelabelConfigs configs clusterName =
     (list_ex (\<lambda>c. rcTargetLabel c = ''verrazzano_cluster'' \<and> rcReplacement c \<noteq> clusterName) configs,
      map (\<lambda>c. if rcTargetLabel c = ''verrazzano_cluster'' then c\<lparr>rcReplacement := clusterName\<rparr> else c) configs)"

text \<open>The same functions for both kinds of monitors.\<close>

definition list_monitors :: "'w monitor_calls \<Rightarrow> 'w \<Rightarrow> (go_error + (string \<times> string) list) \<times> 'w" where
  "list_monitors M w = (case ListMonitors M w of
       (Inl err, w1) \<Rightarrow> (if \<not> IsNoMatchError err then Inl err else Inr [], w1)
     | (Inr items, w1) \<Rightarrow> (Inr items, w1))"

definition update_monitors :: "'w monitor_calls \<Rightarrow> string \<Rightarrow> 'w \<Rightarrow> go_error option \<times> 'w" where
  "update_monitors M cluster w = (case list_monitors M w of
       (Inl err, w1) \<Rightarrow> (Some err, w1)
     | (Inr items, w1) \<Rightarrow>
         each (UpdateMonitor M (map (\<lambda>configs. snd (updateClusterNameRelabelConfigs configs cluster)))) items w1)"

definition updatePrometheusMonitorsClusterName :: "('p, 'w) agent \<Rightarrow> string \<Rightarrow> 'w \<Rightarrow> go_error option \<times> 'w" where
  "updatePrometheusMonitorsClusterName G cluster =
     followed_by (update_monitors (ServiceMonitors G) cluster) (update_monitors (PodMonitors G) cluster)"

section \<open>All multi-cluster resources\<close>

fun sync_namespaces :: "('p, 'w) agent \<Rightarrow> string \<Rightarrow> string list \<Rightarrow> 'w \<Rightarrow> 'w" where
  "sync_namespaces G cluster [] w = w"
| "sync_namespaces G cluster (ns # nss) w =
     (let w1 = snd (syncSecretObjects (K8sSecrets G) (Apps G) cluster ns w);
          w2 = snd (syncMCSecretObjects (Secrets G) cluster ns w1);
          w3 = snd (syncMCConfigMapObjects (ConfigMaps G) cluster ns w2);
          w4 = snd (syncMCComponentObjects (Comps G) cluster ns w3);
          w5 = snd (syncMCApplicationConfigurationObjects (OamComponents G) (Comps G) (Apps G) cluster ns w4)
      in sync_namespaces G cluster nss (processStatusUpdates G w5))"

definition SyncMultiClusterResources :: "('p, 'w) agent \<Rightarrow> string \<Rightarrow> 'w \<Rightarrow> 'w" where
  "SyncMultiClusterResources G cluster w = (case GetAppConfigCRD G w of (r, w1) \<Rightarrow>
     (case r of
        Inl err \<Rightarrow> if IsNotFound err then w1
          else (case syncVerrazzanoProjects G cluster w1 of ((e, ns), w2) \<Rightarrow> sync_namespaces G cluster ns w2)
      | Inr _ \<Rightarrow> (case syncVerrazzanoProjects G cluster w1 of ((e, ns), w2) \<Rightarrow> sync_namespaces G cluster ns w2)))"

section \<open>Certificates and registration\<close>

definition byteSlicesEqualTrimmedWhitespace :: "string \<Rightarrow> string \<Rightarrow> bool" where
  "byteSlicesEqualTrimmedWhitespace byteSlice1 byteSlice2 \<longleftrightarrow>
     (let cut = dropWhile (\<lambda>c. c \<in> set [CHR '' '', CHR 0x09, CHR 0x0A, CHR 0x0D]); trim = (\<lambda>s. rev (cut (rev (cut s))))
      in trim byteSlice1 = trim byteSlice2)"

definition generateManagedResourceName :: "string \<Rightarrow> string" where
  "generateManagedResourceName clusterName = ''verrazzano-cluster-'' @ clusterName"

definition getRegistrationSecretName :: "string \<Rightarrow> string" where
  "getRegistrationSecretName clusterName = generateManagedResourceName clusterName @ ''-registration''"

definition getAgentSecretName :: "string \<Rightarrow> string" where
  "getAgentSecretName clusterName = generateManagedResourceName clusterName @ ''-agent''"

text \<open>The data of the registration besides the certificate of the admin cluster.\<close>

definition registration_keys :: "string list" where
  "registration_keys = [''es-url'', ''keycloak-url'', ''username'', ''password'', ''es-ca-bundle'', ''jaeger-os-url'',
     ''ES_USERNAME'', ''ES_PASSWORD'', ''jaeger-os-ca.crt'', ''jaeger-os-tls.cert'', ''jaeger-os-tls.key'']"

definition registrationInfoEqual :: "labels \<Rightarrow> labels \<Rightarrow> bool" where
  "registrationInfoEqual regSecret1 regSecret2 \<longleftrightarrow>
     list_all (\<lambda>k. byteSlicesEqualTrimmedWhitespace (label_or_empty regSecret1 k) (label_or_empty regSecret2 k)) registration_keys"

text \<open>An entry is put into a map; a secret without data has none.\<close>

definition put_key :: "string \<Rightarrow> string \<Rightarrow> labels \<Rightarrow> labels res" where
  "put_key k v d = (if d = Map.empty then Panic ''assignment to entry in nil map'' else Ret (d(k \<mapsto> v)))"

fun copy_keys :: "labels \<Rightarrow> string list \<Rightarrow> labels \<Rightarrow> labels res" where
  "copy_keys src [] d = Ret d"
| "copy_keys src (k # ks) d = res_bind (put_key k (label_or_empty src k) d) (copy_keys src ks)"

text \<open>Not called by the agent.\<close>

definition syncAgentSecretFromAdminCluster ::
  "('p, 'w) agent \<Rightarrow> string \<Rightarrow> 'w \<Rightarrow> ((operation_result \<times> go_error option) \<times> 'w) res" where
  "syncAgentSecretFromAdminCluster G cluster w = (case AdminSecret G ''verrazzano-mc'' (getAgentSecretName cluster) w of
       (Inl err, w1) \<Rightarrow> Ret ((OperationResultNone, Some err), w1)
     | (Inr adminAgent, w1) \<Rightarrow> UpdateLocalSecret G ''verrazzano-system'' ''verrazzano-cluster-agent''
         (copy_keys adminAgent [''admin-kubeconfig'', ''managed-cluster-name'']) w1)"

definition syncRegistrationFromAdminCluster ::
  "('p, 'w) agent \<Rightarrow> string \<Rightarrow> 'w \<Rightarrow> ((operation_result \<times> go_error option) \<times> 'w) res" where
  "syncRegistrationFromAdminCluster G cluster w = (case AdminSecret G ''verrazzano-mc'' ''verrazzano-local-ca-bundle'' w of
       (Inl err, w1) \<Rightarrow> Ret ((OperationResultNone, Some err), w1)
     | (Inr adminCA, w1) \<Rightarrow> (case AdminSecret G ''verrazzano-mc'' (getRegistrationSecretName cluster) w1 of
         (Inl err, w2) \<Rightarrow> Ret ((OperationResultNone, Some err), w2)
       | (Inr adminReg, w2) \<Rightarrow> (case LocalSecret G ''verrazzano-system'' ''verrazzano-cluster-registration'' w2 of
           (Inl err, w3) \<Rightarrow> Ret ((OperationResultNone, Some err), w3)
         | (Inr registration, w3) \<Rightarrow>
             (if \<not> byteSlicesEqualTrimmedWhitespace (label_or_empty registration ''ca-bundle'') (label_or_empty adminCA ''ca-bundle'')
                \<or> \<not> registrationInfoEqual registration adminReg
              then res_bind (UpdateLocalSecret G ''verrazzano-system'' ''verrazzano-cluster-registration''
                  (\<lambda>d. res_bind (copy_keys adminCA [''ca-bundle''] d) (copy_keys adminReg registration_keys)) w3)
                (\<lambda>((opResult, err), w4). Ret ((opResult, None), w4))
              else Ret ((OperationResultNone, None), w3)))))"

definition getLocalClusterCASecretData :: "('p, 'w) agent \<Rightarrow> 'w \<Rightarrow> (go_error + string) \<times> 'w" where
  "getLocalClusterCASecretData G w = (case LocalSecret G ''cattle-system'' ''tls-ca-additional'' w of
       (Inr d, w1) \<Rightarrow> (Inr (label_or_empty d ''ca-additional.pem''), w1)
     | (Inl err, w1) \<Rightarrow> (if \<not> IsNotFound err then (Inl err, w1)
         else (case LocalSecret G ''verrazzano-system'' ''verrazzano-tls'' w1 of
             (Inr d, w2) \<Rightarrow> (Inr (label_or_empty d ''ca.crt''), w2)
           | (Inl err2, w2) \<Rightarrow> (if \<not> IsNotFound err2 then Inl err2 else Inr [], w2))))"

definition syncLocalClusterCA :: "('p, 'w) agent \<Rightarrow> string \<Rightarrow> ('w, unit) call" where
  "syncLocalClusterCA G cluster = call_bind (call_io (getLocalClusterCASecretData G)) (\<lambda>localCA.
     if length localCA = 0 then call_ret ()
     else call_bind (call_io (AdminGetVmc G cluster)) (\<lambda>v.
       call_bind (call_io (AdminSecret G ''verrazzano-mc'' (vmcCASecret v))) (\<lambda>ca.
         if \<not> byteSlicesEqualTrimmedWhitespace (label_or_empty ca ''cacrt'') localCA
         then (\<lambda>w. res_bind (UpdateAdminSecret G ''verrazzano-mc'' (vmcCASecret v) (put_key ''cacrt'' localCA) w)
           (\<lambda>(r, w1). Ret (Inr (), w1)))
         else call_ret ())))"

definition syncClusterCAs :: "('p, 'w) agent \<Rightarrow> string \<Rightarrow> 'w \<Rightarrow> (operation_result \<times> 'w) res" where
  "syncClusterCAs G cluster w = res_bind (syncRegistrationFromAdminCluster G cluster w) (\<lambda>((managedClusterResult, err), w1).
     res_bind (syncLocalClusterCA G cluster w1) (\<lambda>(r, w2). Ret (managedClusterResult, w2)))"

text \<open>Whether there is a client for the admin cluster is the first argument.\<close>

definition verifyDeregister :: "bool \<Rightarrow> ('p, 'w) agent \<Rightarrow> string \<Rightarrow> 'w \<Rightarrow> (go_error + bool) \<times> 'w" where
  "verifyDeregister admin G cluster w =
     (if \<not> admin then (Inr True, w)
      else (case AdminGetVmc G cluster w of
          (Inl err, w1) \<Rightarrow> (if \<not> IsNotFound err \<and> \<not> IsUnauthorized err then Inl err else Inr True, w1)
        | (Inr v, w1) \<Rightarrow> (Inr (vmcDeletionTimestamp v \<noteq> None), w1)))"

definition delete_local_secret :: "('p, 'w) agent \<Rightarrow> string \<Rightarrow> 'w \<Rightarrow> go_error option \<times> 'w" where
  "delete_local_secret G name w = (case LocalDeleteSecret G ''verrazzano-system'' name w of
       (Some err, w1) \<Rightarrow> (if IsNotFound err then None else Some err, w1)
     | (None, w1) \<Rightarrow> (None, w1))"

definition syncDeregistration :: "bool \<Rightarrow> ('p, 'w) agent \<Rightarrow> string \<Rightarrow> 'w \<Rightarrow> go_error option \<times> 'w" where
  "syncDeregistration admin G cluster w = (case verifyDeregister admin G cluster w of
       (Inl err, w1) \<Rightarrow> (Some err, w1)
     | (Inr shouldDeregister, w1) \<Rightarrow> (if \<not> shouldDeregister then (None, w1)
         else (case delete_local_secret G ''verrazzano-cluster-agent'' w1 of
             (Some err, w2) \<Rightarrow> (Some err, w2)
           | (None, w2) \<Rightarrow> delete_local_secret G ''verrazzano-cluster-registration'' w2)))"

section \<open>One iteration\<close>

definition isAgentSecret :: "string \<Rightarrow> string \<Rightarrow> bool" where
  "isAgentSecret namespace name \<longleftrightarrow> namespace = ''verrazzano-system'' \<and> name = ''verrazzano-cluster-agent''"

definition validateAgentSecret :: "string \<Rightarrow> string \<Rightarrow> labels \<Rightarrow> go_error option" where
  "validateAgentSecret namespace name d =
     (let missing = (\<lambda>field. Some (PlainErr (''the secret named '' @ name @ '' in namespace '' @ namespace
        @ '' is missing the required field '' @ field)))
      in if d ''managed-cluster-name'' = None then missing ''managed-cluster-name''
         else if d ''admin-kubeconfig'' = None then missing ''admin-kubeconfig''
         else None)"

definition updateMCAgentStateConfigMap :: "('p, 'w) agent \<Rightarrow> string \<Rightarrow> string \<Rightarrow> 'w \<Rightarrow> go_error option \<times> 'w" where
  "updateMCAgentStateConfigMap G managedClusterName cattleAgentHashValue w =
     (case UpdateAgentState G (\<lambda>d.
          (let d1 = (if label_or_empty d ''managed-cluster-name'' \<noteq> managedClusterName
             then d(''managed-cluster-name'' \<mapsto> managedClusterName) else d)
           in if label_or_empty d1 ''cattle-agent-hash'' \<noteq> cattleAgentHashValue
              then d1(''cattle-agent-hash'' \<mapsto> cattleAgentHashValue) else d1)) w of
        (Some err, w1) \<Rightarrow>
          (Some (PlainErr (''failed to update agent state in ConfigMap verrazzano-mc/mc-agent-state: '' @ Error err)), w1)
      | (None, w1) \<Rightarrow> (None, w1))"

text \<open>The state of the agent, which is empty when its config map is not there.\<close>

definition read_agent_state :: "('p, 'w) agent \<Rightarrow> ('w, labels) call" where
  "read_agent_state G = call_try (call_io (GetAgentState G)) (\<lambda>st. case st of
       Inl err \<Rightarrow> (if IsNotFound err then call_ret Map.empty
         else call_fail (PlainErr (''failed to get the agent state config map verrazzano-mc/mc-agent-state: '' @ Error err)))
     | Inr d \<Rightarrow> call_ret d)"

text \<open>What follows once there is a client for the admin cluster.\<close>

definition agent_iteration :: "('p, 'w) agent \<Rightarrow> string \<Rightarrow> labels \<Rightarrow> ('w, unit) call" where
  "agent_iteration G cluster state w =
     (case SyncCattleClusterAgent G cluster (label_or_empty state ''cattle-agent-hash'') w of ((hash, _), w1) \<Rightarrow>
        call_bind (call_io (io_unit (updateMCAgentStateConfigMap G cluster hash))) (\<lambda>_.
        call_bind (call_wrap (''failed to update the cluster name to '' @ cluster @ '' on Prometheus monitor resources with error '')
          (call_io (io_unit (updatePrometheusMonitorsClusterName G cluster)))) (\<lambda>_.
        call_try (updateVMCStatus G cluster) (\<lambda>_ w2.
          (let w3 = SyncMultiClusterResources G cluster w2;
               w4 = snd (syncDeregistration True G cluster w3)
           in res_bind (syncClusterCAs G cluster w4) (\<lambda>(_, w5). Ret (Inr (), w5)))))) w1)"

definition agent_doReconcile :: "('p, 'w) agent \<Rightarrow> labels \<Rightarrow> ('w, unit) call" where
  "agent_doReconcile G agentSecret =
     (let cluster = label_or_empty agentSecret ''managed-cluster-name'' in
      call_bind (read_agent_state G) (\<lambda>state.
        call_try (call_io (CreateAdminClient G agentSecret)) (\<lambda>ac. case ac of
            Inl err \<Rightarrow>
              (if IsUnauthorized err then call_io (io_unit (syncDeregistration False G cluster))
               else call_fail (PlainErr (''failed to get the client for cluster '' @ [CHR 0x22] @ cluster @ [CHR 0x22]
                 @ '' with error '' @ Error err)))
          | Inr _ \<Rightarrow> agent_iteration G cluster state)))"

definition agent_requeue :: "('p, 'w) agent \<Rightarrow> ctrl_result" where
  "agent_requeue G = NewRequeueWithRandomDelay (AgentIntn G) 50 70"

definition agent_Reconcile :: "('p, 'w) agent \<Rightarrow> string \<Rightarrow> string \<Rightarrow> ('w, ctrl_result \<times> go_error option) call" where
  "agent_Reconcile G namespace name =
     call_try (call_io (GetAgentSecret G namespace name)) (\<lambda>r. case r of
         Inl err \<Rightarrow> (\<lambda>w. Ret (Inr (IgnoreNotFoundWithLog (AgentIntn G) (Some err), None), DiscardStatuses G w))
       | Inr (deletion, d) \<Rightarrow>
           (if deletion \<noteq> None then (\<lambda>w. Ret (Inr (agent_requeue G, None), DiscardStatuses G w))
            else (case validateAgentSecret namespace name d of
                Some err \<Rightarrow> (\<lambda>w. Ret (Inr (agent_requeue G, Some (PlainErr (''Agent secret validation failed: '' @ Error err))), DiscardStatuses G w))
              | None \<Rightarrow> call_try (agent_doReconcile G d) (\<lambda>_. call_ret (agent_requeue G, None)))))"

end
