(* ===== verification/Mc_Mirror.thy ===== *)
theory Mc_Mirror imports Mc_Sync begin

text \<open>
  What the agent leaves on its cluster: a mirror of what the admin cluster places there.  The local
  cluster is seen through a view, the resource stored under each namespace and name.
\<close>

section \<open>The local cluster\<close>

abbreviation key_of :: "'t mc_resource \<Rightarrow> string \<times> string" where
  "key_of r \<equiv> (mrNamespace r, mrName r)"

definition keeps_key :: "('t mc_resource \<Rightarrow> 't mc_resource) \<Rightarrow> bool" where
  "keeps_key f \<longleftrightarrow> (\<forall>r. key_of (f r) = key_of r)"

definition current :: "('t mc_resource) option \<Rightarrow> 't mc_resource \<Rightarrow> 't mc_resource" where
  "current old new = (case old of Some r \<Rightarrow> r | None \<Rightarrow> new)"

text \<open>
  What the documentation of the API server says of a cluster on which no call fails: a list has the
  resources of the namespace; a create-or-update stores what the function makes of the resource there
  is, or of an empty one of that key; a delete removes the resource, or marks it when it has finalizers.
\<close>

definition list_law where
  "list_law S view \<longleftrightarrow> (\<forall>ns w. \<exists>items. LocalList S ns w = (Inr items, w) \<and> distinct items
     \<and> set items = {r. mrNamespace r = ns \<and> view w (key_of r) = Some r})"

definition write_law where
  "write_law S view fresh \<longleftrightarrow> (\<forall>k f w. keeps_key f \<longrightarrow> (\<exists>res w'. LocalCreateOrUpdate S k f w = ((res, None), w')
     \<and> view w' = (view w)(k \<mapsto> f (current (view w k) (fresh k)))))"

definition gone_from :: "'t mc_resource option \<Rightarrow> bool" where
  "gone_from e = (case e of None \<Rightarrow> True | Some r \<Rightarrow> mrDeletionTimestamp r \<noteq> None)"

definition delete_law where
  "delete_law S view \<longleftrightarrow> (\<forall>r w. view w (key_of r) = Some r \<longrightarrow> (\<exists>e w'. LocalDelete S r w = (None, w')
     \<and> view w' = (view w)(key_of r := e) \<and> gone_from e))"

definition local_cluster ::
  "('t, 'w) sync_calls \<Rightarrow> ('w \<Rightarrow> string \<times> string \<Rightarrow> 't mc_resource option) \<Rightarrow> (string \<times> string \<Rightarrow> 't mc_resource) \<Rightarrow> bool" where
  "local_cluster S view fresh \<longleftrightarrow> list_law S view \<and> write_law S view fresh \<and> delete_law S view
     \<and> (\<forall>w k r. view w k = Some r \<longrightarrow> key_of r = k)"

section \<open>Copying and deleting\<close>

text \<open>The resource of a name that is placed on the cluster.\<close>

definition placed_item :: "string \<Rightarrow> 't mc_resource list \<Rightarrow> string \<Rightarrow> 't mc_resource option" where
  "placed_item cluster items n = find (\<lambda>i. mrName i = n \<and> cluster \<in> set (mrPlacement i)) items"

lemma placed_item_Cons:
  "placed_item cluster (i # items) n =
     (if mrName i = n \<and> cluster \<in> set (mrPlacement i) then Some i else placed_item cluster items n)"
  by (simp add: placed_item_def)

lemma placed_item_None: "n \<notin> mrName ` set items \<Longrightarrow> placed_item cluster items n = None"
  by (induction items) (auto simp: placed_item_def)

lemma isThisCluster_iff: "isThisCluster cluster placement \<longleftrightarrow> cluster \<in> set placement"
  by (auto simp: isThisCluster_def list_ex_iff)

lemma copy_placed_view:
  assumes "write_law S view fresh" "\<And>i. keeps_key (f i)" "\<forall>i \<in> set items. mrNamespace i = ns" "distinct (map mrName items)"
  shows "view (copy_placed (\<lambda>i w. snd (copy_resource S f i w)) cluster items w) =
    (\<lambda>k. case (if fst k = ns then placed_item cluster items (snd k) else None) of
       Some i \<Rightarrow> Some (f i (current (view w k) (fresh k))) | None \<Rightarrow> view w k)"
  using assms(3,4)
proof (induction items arbitrary: w)
  case (Cons i items)
  show ?case
  proof (cases "cluster \<in> set (mrPlacement i)")
    case False
    with Cons show ?thesis by (simp add: isThisCluster_iff placed_item_Cons cong: if_cong)
  next
    case True
    obtain res w' where w': "LocalCreateOrUpdate S (ns, mrName i) (f i) w = ((res, None), w')"
      "view w' = (view w)((ns, mrName i) \<mapsto> f i (current (view w (ns, mrName i)) (fresh (ns, mrName i))))"
      using assms(1,2) unfolding write_law_def by blast
    have n: "placed_item cluster items (mrName i) = None" by (rule placed_item_None) (use Cons.prems in auto)
    have "view (copy_placed (\<lambda>i w. snd (copy_resource S f i w)) cluster items w') k =
        (case (if fst k = ns then placed_item cluster items (snd k) else None) of
           Some i \<Rightarrow> Some (f i (current (view w' k) (fresh k))) | None \<Rightarrow> view w' k)" for k
      using Cons by simp
    then show ?thesis using Cons.prems True n
      by (auto simp: fun_eq_iff isThisCluster_iff placed_item_Cons copy_resource_def w' split: option.splits)
  qed
qed (simp add: placed_item_def cong: if_cong)

lemma delete_unplaced_view:
  assumes "delete_law S view" "\<forall>w k r. view w k = Some r \<longrightarrow> key_of r = k" "distinct items" "\<forall>r \<in> set items. view w (key_of r) = Some r"
  shows "\<forall>k. (if \<exists>r \<in> set items. key_of r = k \<and> \<not> placed_on_cluster cluster adminItems (mrName r) (mrNamespace r)
      then gone_from (view (delete_unplaced S cluster adminItems items w) k)
      else view (delete_unplaced S cluster adminItems items w) k = view w k)"
  using assms(3,4)
proof (induction items arbitrary: w)
  case (Cons r items)
  have other: "key_of r' \<noteq> key_of r" if "r' \<in> set items" for r'
    using that Cons.prems by (metis distinct.simps(2) list.set_intros(1,2) option.inject)
  show ?case
  proof (cases "placed_on_cluster cluster adminItems (mrName r) (mrNamespace r)")
    case True
    with Cons.IH [of w] Cons.prems show ?thesis by auto
  next
    case False
    obtain e w' where w': "LocalDelete S r w = (None, w')" "view w' = (view w)(key_of r := e)" "gone_from e"
      using assms(1) Cons.prems(2) unfolding delete_law_def by (metis list.set_intros(1))
    have rest: "\<forall>r \<in> set items. view w' (key_of r) = Some r" using Cons.prems(2) other by (auto simp: w')
    have "distinct items" using Cons.prems(1) by simp
    note IH1 = Cons.IH [OF this rest]
    have IH: "if \<exists>r \<in> set items. key_of r = k \<and> \<not> placed_on_cluster cluster adminItems (mrName r) (mrNamespace r)
      then gone_from (view (delete_unplaced S cluster adminItems items w') k)
      else view (delete_unplaced S cluster adminItems items w') k = view w' k" for k using IH1 by (rule spec)
    show ?thesis
    proof
      fix k
      show "if \<exists>x \<in> set (r # items). key_of x = k \<and> \<not> placed_on_cluster cluster adminItems (mrName x) (mrNamespace x)
        then gone_from (view (delete_unplaced S cluster adminItems (r # items) w) k)
        else view (delete_unplaced S cluster adminItems (r # items) w) k = view w k"
        using IH [of k] other False w' by (cases "k = key_of r") (auto split: if_splits)
    qed
  qed
qed simp

lemma placed_on_cluster_iff:
  assumes "\<forall>i \<in> set items. mrNamespace i = ns" "distinct (map mrName items)"
  shows "placed_on_cluster cluster items n ns \<longleftrightarrow> placed_item cluster items n \<noteq> None"
  using assms
proof (induction items)
  case (Cons i items)
  then have "mrName i = n \<Longrightarrow> placed_item cluster items n = None" by (intro placed_item_None) auto
  with Cons show ?case by (auto simp: placed_on_cluster_def placed_item_Cons isThisCluster_iff)
qed (simp add: placed_on_cluster_def placed_item_def)

lemma listed_iff:
  assumes "\<forall>w k r. view w k = Some r \<longrightarrow> key_of r = k"
  shows "(\<exists>r \<in> {r. mrNamespace r = ns \<and> view w (key_of r) = Some r}. key_of r = k \<and> P (mrName r) (mrNamespace r)) \<longleftrightarrow>
    fst k = ns \<and> view w k \<noteq> None \<and> P (snd k) ns"
proof
  assume "fst k = ns \<and> view w k \<noteq> None \<and> P (snd k) ns"
  moreover from this obtain r where r: "view w k = Some r" by blast
  moreover have "key_of r = k" using assms r by blast
  ultimately show "\<exists>r \<in> {r. mrNamespace r = ns \<and> view w (key_of r) = Some r}. key_of r = k \<and> P (mrName r) (mrNamespace r)"
    by (intro bexI [of _ r]) auto
qed auto

lemma sync_kind_mirrors:
  assumes "local_cluster S view fresh" "\<And>i. keeps_key (f i)"
    and "AdminList S ns w = (Inr items, w1)" "view w1 = view w"
    and "\<forall>i \<in> set items. mrNamespace i = ns" "distinct (map mrName items)"
  shows "\<exists>w'. sync_kind S cluster (\<lambda>i w. snd (copy_resource S f i w)) (\<lambda>w. w) ns w = (None, w')
    \<and> (\<forall>k. fst k \<noteq> ns \<longrightarrow> view w' k = view w k)
    \<and> (\<forall>n. case placed_item cluster items n of
          Some i \<Rightarrow> view w' (ns, n) = Some (f i (current (view w (ns, n)) (fresh (ns, n))))
        | None \<Rightarrow> gone_from (view w' (ns, n)))"
proof -
  let ?w2 = "copy_placed (\<lambda>i w. snd (copy_resource S f i w)) cluster items w1"
  have laws: "list_law S view" "write_law S view fresh" "delete_law S view" "\<forall>w k r. view w k = Some r \<longrightarrow> key_of r = k"
    using assms(1) by (simp_all add: local_cluster_def)
  obtain ls where ls: "LocalList S ns ?w2 = (Inr ls, ?w2)" "distinct ls"
    "set ls = {r. mrNamespace r = ns \<and> view ?w2 (key_of r) = Some r}"
    using spec [OF spec [OF laws(1) [unfolded list_law_def], of ns], of ?w2] by blast
  let ?w3 = "delete_unplaced S cluster items ls ?w2"
  have copied: "view ?w2 k = (case (if fst k = ns then placed_item cluster items (snd k) else None) of
      Some i \<Rightarrow> Some (f i (current (view w k) (fresh k))) | None \<Rightarrow> view w k)" for k
    unfolding copy_placed_view [where f = f, OF laws(2) assms(2) assms(5,6)] assms(4) ..
  have "\<forall>r \<in> set ls. view ?w2 (key_of r) = Some r" unfolding ls(3) by blast
  from delete_unplaced_view [OF laws(3,4) ls(2) this]
  have deleted: "if \<exists>r \<in> set ls. key_of r = k \<and> \<not> placed_on_cluster cluster items (mrName r) (mrNamespace r)
      then gone_from (view ?w3 k) else view ?w3 k = view ?w2 k" for k by (rule spec)
  have listed: "(\<exists>r \<in> set ls. key_of r = k \<and> \<not> placed_on_cluster cluster items (mrName r) (mrNamespace r)) \<longleftrightarrow>
      fst k = ns \<and> view ?w2 k \<noteq> None \<and> placed_item cluster items (snd k) = None" for k
    unfolding ls(3) listed_iff [OF laws(4), where P = "\<lambda>n ns. \<not> placed_on_cluster cluster items n ns"]
    by (simp only: placed_on_cluster_iff [OF assms(5,6)] not_not)
  have view: "if fst k = ns \<and> view ?w2 k \<noteq> None \<and> placed_item cluster items (snd k) = None
      then gone_from (view ?w3 k) else view ?w3 k = view ?w2 k" for k
    using deleted [of k] unfolding listed .
  have "sync_kind S cluster (\<lambda>i w. snd (copy_resource S f i w)) (\<lambda>w. w) ns w = (None, ?w3)"
    by (simp add: sync_kind_def assms(3) admin_items_def ls(1))
  moreover have "fst k \<noteq> ns \<longrightarrow> view ?w3 k = view w k" for k using view [of k] copied [of k] by auto
  moreover have "case placed_item cluster items n of
      Some i \<Rightarrow> view ?w3 (ns, n) = Some (f i (current (view w (ns, n)) (fresh (ns, n))))
    | None \<Rightarrow> gone_from (view ?w3 (ns, n))" for n
    using view [of "(ns, n)"] copied [of "(ns, n)"] by (auto simp: gone_from_def split: option.splits if_splits)
  ultimately show ?thesis by blast
qed

lemma mutate_keeps_key:
  "keeps_key (mutateMCSecret i)" "keeps_key (mutateMCConfigMap i)" "keeps_key (mutateMCComponent i)"
  by (simp_all add: keeps_key_def mutateMCSecret_def mutateMCConfigMap_def mutateMCComponent_def)

text \<open>C14. Where no call of the local cluster fails, one pass of the agent over a namespace leaves there a
  mirror of the admin cluster: under each name for which a resource is placed on this cluster the
  placement, template and labels of that resource, over what else was there; every other resource of
  the namespace is gone or marked as deleted, and the other namespaces are as they were.  An answer of
  the admin cluster with nothing in it is enough to delete everything.\<close>

theorem sync_mirrors_admin:
  assumes "(sync, mutation) \<in> {(syncMCSecretObjects, mutateMCSecret), (syncMCConfigMapObjects, mutateMCConfigMap),
      (syncMCComponentObjects, mutateMCComponent)}"
    and "local_cluster S view fresh"
    and "AdminList S ns w = (Inr items, w1)" "view w1 = view w"
    and "\<forall>i \<in> set items. mrNamespace i = ns" "distinct (map mrName items)"
  shows "\<exists>w'. sync S cluster ns w = (None, w')
    \<and> (\<forall>k. fst k \<noteq> ns \<longrightarrow> view w' k = view w k)
    \<and> (\<forall>n. case placed_item cluster items n of
          Some i \<Rightarrow> view w' (ns, n) = Some (mutation i (current (view w (ns, n)) (fresh (ns, n))))
        | None \<Rightarrow> gone_from (view w' (ns, n)))"
proof -
  have "sync S cluster = sync_kind S cluster (\<lambda>i w. snd (copy_resource S mutation i w)) (\<lambda>w. w)"
    using assms(1) by (auto simp: syncMCSecretObjects_def syncMCConfigMapObjects_def syncMCComponentObjects_def)
  moreover have "keeps_key (mutation i)" for i using assms(1) mutate_keeps_key by auto
  ultimately show ?thesis using sync_kind_mirrors [where f = mutation, OF assms(2) _ assms(3-6)] by simp
qed

section \<open>A concrete cluster\<close>

text \<open>A cluster that is the list of its resources, and an admin cluster that has one secret.\<close>

definition blank :: "string \<times> string \<Rightarrow> unit mc_resource" where
  "blank k = \<lparr>mrNamespace = fst k, mrName = snd k, mrLabels = Map.empty, mrAnnotations = Map.empty, mrFinalizers = [],
     mrDeletionTimestamp = None, mrPlacement = [], mrTemplate = (),
     mrStatus = \<lparr>mcsClusters = [], mcsConditions = [], mcsState = StateUnset\<rparr>\<rparr>"

definition list_view :: "'t mc_resource list \<Rightarrow> string \<times> string \<Rightarrow> 't mc_resource option" where
  "list_view w k = find (\<lambda>r. key_of r = k) w"

definition list_cluster :: "'t mc_resource list \<Rightarrow> (string \<times> string \<Rightarrow> 't mc_resource) \<Rightarrow> ('t, 't mc_resource list) sync_calls" where
  "list_cluster admin fresh = \<lparr>AdminList = (\<lambda>ns w. (Inr (filter (\<lambda>r. mrNamespace r = ns) admin), w)),
     AdminGet = (\<lambda>ns n w. (Inl (NotFoundErr n), w)), AdminStatusUpdate = (\<lambda>r w. (None, w)),
     LocalList = (\<lambda>ns w. (Inr (remdups (filter (\<lambda>r. mrNamespace r = ns \<and> list_view w (key_of r) = Some r) w)), w)),
     LocalGet = (\<lambda>ns n w. (case list_view w (ns, n) of None \<Rightarrow> Inl (NotFoundErr n) | Some r \<Rightarrow> Inr r, w)),
     LocalDelete = (\<lambda>r w. (None, filter (\<lambda>r'. key_of r' \<noteq> key_of r) w)),
     LocalCreateOrUpdate = (\<lambda>k f w. ((OperationResultUpdated, None), f (current (list_view w k) (fresh k)) # w))\<rparr>"

lemma list_view_key: "list_view w k = Some r \<Longrightarrow> key_of r = k"
  by (auto simp: list_view_def find_Some_iff)

lemma list_view_mem: "list_view w k = Some r \<Longrightarrow> r \<in> set w"
  by (auto simp: list_view_def find_Some_iff)

lemma list_view_remove:
  "list_view (filter (\<lambda>r'. mrNamespace r' = a \<longrightarrow> mrName r' \<noteq> b) w) = (list_view w)((a, b) := None)"
  by (induction w) (auto simp: list_view_def fun_eq_iff find_None_iff)

lemma list_cluster_local:
  fixes fresh :: "string \<times> string \<Rightarrow> 't mc_resource"
  assumes "\<And>k. key_of (fresh k) = k"
  shows "local_cluster (list_cluster admin fresh) list_view fresh"
proof -
  have "list_law (list_cluster admin fresh) list_view"
    by (auto simp: list_law_def list_cluster_def dest: list_view_mem)
  moreover have "write_law (list_cluster admin fresh) list_view fresh"
  proof -
    have "key_of (f (current (list_view w k) (fresh k))) = k" if "keeps_key f" for f w k
      using that assms [of k] list_view_key [of w k]
      by (auto simp: keeps_key_def current_def split: option.split)
    then show ?thesis by (auto simp: write_law_def list_cluster_def fun_eq_iff list_view_def)
  qed
  moreover have "delete_law (list_cluster admin fresh) list_view"
    unfolding delete_law_def
  proof (intro allI impI exI conjI)
    fix r :: "'t mc_resource" and w
    show "LocalDelete (list_cluster admin fresh) r w = (None, filter (\<lambda>r'. key_of r' \<noteq> key_of r) w)"
      by (simp add: list_cluster_def)
    show "list_view (filter (\<lambda>r'. key_of r' \<noteq> key_of r) w) = (list_view w)(key_of r := None)"
      using list_view_remove [of "mrNamespace r" "mrName r" w] by simp
    show "gone_from None" by (simp add: gone_from_def)
  qed
  ultimately show ?thesis using list_view_key by (auto simp: local_cluster_def)
qed

definition secret_on :: "string \<Rightarrow> string list \<Rightarrow> unit mc_resource" where
  "secret_on n clusters = (blank (''ns'', n))\<lparr>mrPlacement := clusters\<rparr>"

theorem sync_mirrors_admin_witness:
  "\<exists>w'. syncMCSecretObjects (list_cluster [secret_on ''a'' [''here'']] blank) ''here'' ''ns'' [secret_on ''b'' [''here'']] = (None, w')
    \<and> list_view w' (''ns'', ''a'') = Some (secret_on ''a'' [''here'']) \<and> gone_from (list_view w' (''ns'', ''b''))"
proof -
  let ?S = "list_cluster [secret_on ''a'' [''here'']] blank" and ?w = "[secret_on ''b'' [''here'']]"
  have "local_cluster ?S list_view blank" by (rule list_cluster_local) (simp add: blank_def)
  moreover have "AdminList ?S ''ns'' ?w = (Inr [secret_on ''a'' [''here'']], ?w)"
    by (simp add: list_cluster_def secret_on_def blank_def)
  ultimately obtain w' where w': "syncMCSecretObjects ?S ''here'' ''ns'' ?w = (None, w')"
    "\<forall>n. case placed_item ''here'' [secret_on ''a'' [''here'']] n of
        Some i \<Rightarrow> list_view w' (''ns'', n) = Some (mutateMCSecret i (current (list_view ?w (''ns'', n)) (blank (''ns'', n))))
      | None \<Rightarrow> gone_from (list_view w' (''ns'', n))"
    using sync_mirrors_admin [of syncMCSecretObjects mutateMCSecret ?S list_view blank "''ns''" ?w "[secret_on ''a'' [''here'']]" ?w "''here''"]
    by (auto simp: secret_on_def blank_def)
  show ?thesis using w'(1) w'(2) [rule_format, of "''a''"] w'(2) [rule_format, of "''b''"]
    by (simp add: placed_item_def secret_on_def blank_def list_view_def current_def mutateMCSecret_def)
qed

end
