(* ===== verification/Mc_Project.thy ===== *)
theory Mc_Project imports Mc_Resource begin

text \<open>
  The controller of projects (\<open>controllers/clusters/verrazzanoproject/verrazzanoproject_controller.go\<close>):
  a project's namespaces with their role bindings and network policies.
\<close>

record namespace_template =
  ntName :: string
  ntLabels :: "(string \<times> string) list"
  ntAnnotations :: labels
  ntSpec :: foreign

record network_policy =
  npNamespace :: string
  npName :: string
  npContent :: foreign

record subject =
  subjKind :: string
  subjName :: string
  subjNamespace :: string

record project_template =
  ptNamespaces :: "namespace_template list"
  ptNetworkPolicies :: "network_policy list"
  ptAdminSubjects :: "subject list"
  ptMonitorSubjects :: "subject list"

record namespace_object =
  noName :: string
  noLabels :: labels
  noAnnotations :: labels
  noSpec :: foreign

record project_binding =
  pbNamespace :: string
  pbName :: string
  pbRole :: string
  pbSubjects :: "subject list"

type_synonym project = "project_template mc_resource"

text \<open>The calls; those that create or update apply a function to the object there is, as before.\<close>

record 'w project_calls =
  GetProject :: "string \<Rightarrow> string \<Rightarrow> 'w \<Rightarrow> (go_error + project) \<times> 'w"
  UpdateProject :: "project \<Rightarrow> 'w \<Rightarrow> go_error option \<times> 'w"
  UpdateProjectStatus :: "project \<Rightarrow> 'w \<Rightarrow> go_error option \<times> 'w"
  ListProjects :: "string \<Rightarrow> 'w \<Rightarrow> (go_error + project list) \<times> 'w"
  ListManagedClusters :: "string \<Rightarrow> 'w \<Rightarrow> (go_error + string list) \<times> 'w"
  GetNamespaceLabels :: "string \<Rightarrow> 'w \<Rightarrow> (go_error + labels) \<times> 'w"
  CreateOrUpdateNamespace :: "string \<Rightarrow> (namespace_object \<Rightarrow> namespace_object) \<Rightarrow> 'w \<Rightarrow> go_error option \<times> 'w"
  GetBinding :: "string \<Rightarrow> string \<Rightarrow> 'w \<Rightarrow> (go_error + project_binding) \<times> 'w"
  DeleteBinding :: "project_binding \<Rightarrow> 'w \<Rightarrow> go_error option \<times> 'w"
  CreateOrUpdateBinding :: "string \<times> string \<Rightarrow> (project_binding \<Rightarrow> project_binding) \<Rightarrow> 'w \<Rightarrow> go_error option \<times> 'w"
  ListNetworkPolicies :: "string \<Rightarrow> 'w \<Rightarrow> (go_error + network_policy list) \<times> 'w"
  DeleteNetworkPolicy :: "network_policy \<Rightarrow> 'w \<Rightarrow> go_error option \<times> 'w"
  CreateOrUpdateNetworkPolicy :: "string \<times> string \<Rightarrow> (network_policy \<Rightarrow> network_policy) \<Rightarrow> 'w \<Rightarrow> go_error option \<times> 'w"

section \<open>Role bindings\<close>

definition newRoleBinding :: "string \<Rightarrow> string \<Rightarrow> subject list \<Rightarrow> project_binding" where
  "newRoleBinding namespace roleName subjects =
     \<lparr>pbNamespace = namespace, pbName = roleName, pbRole = roleName, pbSubjects = subjects\<rparr>"

definition generateRoleBindingManagedClusterRef :: "string \<Rightarrow> string" where
  "generateRoleBindingManagedClusterRef name = ''verrazzano-cluster-'' @ name"

definition newRoleBindingManagedCluster :: "string \<Rightarrow> string \<Rightarrow> project_binding" where
  "newRoleBindingManagedCluster namespace name =
     (let clusterNameRef = generateRoleBindingManagedClusterRef name in
      \<lparr>pbNamespace = namespace, pbName = clusterNameRef, pbRole = ''verrazzano-managed-cluster'',
       pbSubjects = [\<lparr>subjKind = ''ServiceAccount'', subjName = clusterNameRef, subjNamespace = ''verrazzano-mc''\<rparr>]\<rparr>)"

definition createOrUpdateRoleBinding :: "'w project_calls \<Rightarrow> project_binding \<Rightarrow> 'w \<Rightarrow> go_error option \<times> 'w" where
  "createOrUpdateRoleBinding P roleBinding =
     CreateOrUpdateBinding P (pbNamespace roleBinding, pbName roleBinding)
       (\<lambda>rb. rb\<lparr>pbRole := pbRole roleBinding, pbSubjects := pbSubjects roleBinding\<rparr>)"

definition getDefaultRoleBindingSubjects :: "project \<Rightarrow> subject list \<times> subject list" where
  "getDefaultRoleBindingSubjects vp =
     ([\<lparr>subjKind = ''Group'', subjName = ''verrazzano-project-'' @ mrName vp @ ''-admins'', subjNamespace = []\<rparr>],
      [\<lparr>subjKind = ''Group'', subjName = ''verrazzano-project-'' @ mrName vp @ ''-monitors'', subjNamespace = []\<rparr>])"

text \<open>The bindings of a namespace, in the order they are written.\<close>

definition project_bindings :: "string \<Rightarrow> project \<Rightarrow> project_binding list" where
  "project_bindings namespace vp =
     (let (defaultAdmins, defaultMonitors) = getDefaultRoleBindingSubjects vp; t = mrTemplate vp;
          adminSubjects = (if length (ptAdminSubjects t) > 0 then ptAdminSubjects t else defaultAdmins);
          monitorSubjects = (if length (ptMonitorSubjects t) > 0 then ptMonitorSubjects t else defaultMonitors)
      in (if length adminSubjects > 0
          then [newRoleBinding namespace ''verrazzano-project-admin'' adminSubjects, newRoleBinding namespace ''admin'' adminSubjects]
          else [])
       @ (if length monitorSubjects > 0
          then [newRoleBinding namespace ''verrazzano-project-monitor'' monitorSubjects, newRoleBinding namespace ''view'' monitorSubjects]
          else [])
       @ map (newRoleBindingManagedCluster namespace) (filter (\<lambda>cluster. cluster \<noteq> ''local'') (mrPlacement vp)))"

definition createOrUpdateRoleBindings :: "'w project_calls \<Rightarrow> string \<Rightarrow> project \<Rightarrow> 'w \<Rightarrow> go_error option \<times> 'w" where
  "createOrUpdateRoleBindings P namespace vp = each (createOrUpdateRoleBinding P) (project_bindings namespace vp)"

text \<open>The pairs of a namespace and a cluster that some project has, each as one string.\<close>

definition expected_pairs :: "string option \<Rightarrow> project list \<Rightarrow> string set" where
  "expected_pairs except vps = set (concat (map (\<lambda>vp. if except = Some (mrName vp) then []
     else concat (map (\<lambda>ns. map (\<lambda>cluster. ntName ns @ cluster) (mrPlacement vp)) (ptNamespaces (mrTemplate vp)))) vps))"

definition delete_binding :: "'w project_calls \<Rightarrow> string set \<Rightarrow> string \<Rightarrow> string \<Rightarrow> 'w \<Rightarrow> go_error option \<times> 'w" where
  "delete_binding P expectedPairs vmc ns w =
     (if ns @ vmc \<in> expectedPairs then (None, w)
      else (case GetBinding P ns (generateRoleBindingManagedClusterRef vmc) w of
          (Inl err, w1) \<Rightarrow> (None, w1)
        | (Inr rb, w1) \<Rightarrow> DeleteBinding P rb w1))"

text \<open>With no project given (\<open>None\<close>) all projects count; a project that is deleted does not.\<close>

definition deleteRoleBindings :: "'w project_calls \<Rightarrow> string option \<Rightarrow> 'w \<Rightarrow> go_error option \<times> 'w" where
  "deleteRoleBindings P project w = (case ListProjects P ''verrazzano-mc'' w of
       (Inl err, w1) \<Rightarrow> (Some err, w1)
     | (Inr vps, w1) \<Rightarrow>
         (let expectedPairs = expected_pairs project vps in
          case ListManagedClusters P ''verrazzano-mc'' w1 of
            (Inl err, w2) \<Rightarrow> (Some err, w2)
          | (Inr vmcs, w2) \<Rightarrow>
              each (\<lambda>vmc. each (\<lambda>vp. each (\<lambda>ns. delete_binding P expectedPairs vmc (ntName ns)) (ptNamespaces (mrTemplate vp))) vps)
                vmcs w2))"

section \<open>Namespaces\<close>

definition mutateNamespace :: "namespace_template \<Rightarrow> string \<Rightarrow> namespace_object \<Rightarrow> namespace_object" where
  "mutateNamespace nsTemplate istioInjection namespace =
     namespace\<lparr>noAnnotations := ntAnnotations nsTemplate, noSpec := ntSpec nsTemplate,
       noLabels := fold (\<lambda>(label, value) l. l(label \<mapsto> value)) (ntLabels nsTemplate)
         ((managed_label (noLabels namespace))(''istio-injection'' \<mapsto> istioInjection))\<rparr>"

definition createOrUpdateNamespaces :: "'w project_calls \<Rightarrow> project \<Rightarrow> 'w \<Rightarrow> go_error option \<times> 'w" where
  "createOrUpdateNamespaces P vp =
     (if mrNamespace vp = ''verrazzano-mc'' then
        each (\<lambda>nsTemplate w. case GetNamespaceLabels P ''verrazzano-system'' w of
            (Inl err, w1) \<Rightarrow> (Some err, w1)
          | (Inr l, w1) \<Rightarrow>
              (let istioInjection = (case l ''istio-injection'' of Some val \<Rightarrow> val | None \<Rightarrow> ''enabled'') in
               followed_by (CreateOrUpdateNamespace P (ntName nsTemplate) (mutateNamespace nsTemplate istioInjection))
                 (followed_by (createOrUpdateRoleBindings P (ntName nsTemplate) vp) (deleteRoleBindings P None)) w1))
          (ptNamespaces (mrTemplate vp))
      else (\<lambda>w. (None, w)))"

section \<open>Network policies\<close>

definition createOrUpdateNetworkPolicy :: "'w project_calls \<Rightarrow> network_policy \<Rightarrow> 'w \<Rightarrow> go_error option \<times> 'w" where
  "createOrUpdateNetworkPolicy P desiredPolicy =
     CreateOrUpdateNetworkPolicy P (npNamespace desiredPolicy, npName desiredPolicy) (\<lambda>policy. desiredPolicy)"

text \<open>An error of deleting a policy is logged.\<close>

fun delete_network_policies :: "'w project_calls \<Rightarrow> string set option \<Rightarrow> network_policy list \<Rightarrow> 'w \<Rightarrow> 'w" where
  "delete_network_policies P desired [] w = w"
| "delete_network_policies P desired (policy # policies) w = delete_network_policies P desired policies
     (case desired of
        Some s \<Rightarrow> (if npNamespace policy @ npName policy \<in> s then w else snd (DeleteNetworkPolicy P policy w))
      | None \<Rightarrow> snd (DeleteNetworkPolicy P policy w))"

definition deleteNetworkPolicies :: "'w project_calls \<Rightarrow> project \<Rightarrow> string set option \<Rightarrow> 'w \<Rightarrow> go_error option \<times> 'w" where
  "deleteNetworkPolicies P project desiredPolicySet =
     each (\<lambda>ns w. case ListNetworkPolicies P (ntName ns) w of
         (Inl err, w1) \<Rightarrow> (Some err, w1)
       | (Inr policies, w1) \<Rightarrow> (None, delete_network_policies P desiredPolicySet policies w1)) (ptNamespaces (mrTemplate project))"

definition syncNetworkPolicies :: "'w project_calls \<Rightarrow> project \<Rightarrow> 'w \<Rightarrow> go_error option \<times> 'w" where
  "syncNetworkPolicies P project =
     (let policies = ptNetworkPolicies (mrTemplate project) in
      followed_by (each (createOrUpdateNetworkPolicy P) policies)
        (deleteNetworkPolicies P project (Some (set (map (\<lambda>p. npNamespace p @ npName p) policies)))))"

section \<open>Reconciling\<close>

definition syncAll :: "'w project_calls \<Rightarrow> project \<Rightarrow> 'w \<Rightarrow> go_error option \<times> 'w" where
  "syncAll P vp = followed_by (createOrUpdateNamespaces P vp) (syncNetworkPolicies P vp)"

definition projectFinalizer :: string where "projectFinalizer = ''project.verrazzano.io''"

definition project_updateStatus ::
  "'w cluster_client \<Rightarrow> 'w project_calls \<Rightarrow> project \<Rightarrow> operation_result \<Rightarrow> go_error option \<Rightarrow> 'w
    \<Rightarrow> ((ctrl_result \<times> go_error option) \<times> project) \<times> 'w" where
  "project_updateStatus C P vp opResult err w = (case GetClusterName C w of (clusterName, w1) \<Rightarrow>
     UpdateStatus C ProjectKind vp (GetConditionFromResult (NowRFC3339 C w1) err opResult ''VerrazzanoProject'') clusterName
       (UpdateProjectStatus P) w1)"

definition delete_project :: "'w project_calls \<Rightarrow> project \<Rightarrow> 'w \<Rightarrow> (ctrl_result \<times> go_error option) \<times> 'w" where
  "delete_project P vp w =
     (if SliceContainsString (mrFinalizers vp) projectFinalizer then
        (case followed_by (deleteNetworkPolicies P vp None) (followed_by (deleteRoleBindings P (Some (mrName vp)))
            (UpdateProject P (vp\<lparr>mrFinalizers := RemoveStringFromSlice (mrFinalizers vp) projectFinalizer\<rparr>))) w of
           (err, w1) \<Rightarrow> ((no_requeue, err), w1))
      else ((no_requeue, None), w))"

definition project_doReconcile ::
  "'w cluster_client \<Rightarrow> 'w project_calls \<Rightarrow> project \<Rightarrow> 'w \<Rightarrow> (ctrl_result \<times> go_error option) \<times> 'w" where
  "project_doReconcile C P vp w =
     (if mrDeletionTimestamp vp \<noteq> None then delete_project P vp w
      else
        (let add = \<not> SliceContainsString (mrFinalizers vp) projectFinalizer;
             vp1 = (if add then vp\<lparr>mrFinalizers := mrFinalizers vp @ [projectFinalizer]\<rparr> else vp)
         in case (if add then UpdateProject P vp1 w else (None, w)) of
              (Some err, w1) \<Rightarrow> ((no_requeue, Some err), w1)
            | (None, w1) \<Rightarrow> (case syncAll P vp1 w1 of (err, w2) \<Rightarrow>
                (case project_updateStatus C P vp1 (if err \<noteq> None then OperationResultNone else OperationResultCreated) err w2 of
                   (((_, Some statusErr), vp2), w3) \<Rightarrow> ((no_requeue, Some statusErr), w3)
                 | (((_, None), vp2), w3) \<Rightarrow>
                     (case SetEffectiveStateIfChanged vp2 of (oldState, vp3) \<Rightarrow>
                       (case (if oldState \<noteq> mcsState (mrStatus vp3) then UpdateProjectStatus P vp3 w3 else (None, w3)) of
                          (Some stateErr, w4) \<Rightarrow> ((no_requeue, Some stateErr), w4)
                        | (None, w4) \<Rightarrow>
                            (if err \<noteq> None
                             then ((\<lparr>Requeue = True, RequeueAfter = GetRandomRequeueDelay (DelayIntn C)\<rparr>, err), w4)
                             else ((no_requeue, None), w4))))))))"

definition project_Reconcile :: "'w cluster_client \<Rightarrow> 'w project_calls \<Rightarrow> string \<Rightarrow> string \<Rightarrow> 'w \<Rightarrow> ctrl_result \<times> 'w" where
  "project_Reconcile C P namespace name w =
     (if namespace = ''kube-system'' then (no_requeue, w)
      else (case GetProject P namespace name w of
          (Inl err, w1) \<Rightarrow> (IgnoreNotFoundWithLog (DelayIntn C) (Some err), w1)
        | (Inr vp, w1) \<Rightarrow> (case project_doReconcile C P vp w1 of ((res, err), w2) \<Rightarrow>
            (if ShouldRequeue res then res
             else if err \<noteq> None then newRequeueWithDelay (DelayIntn C)
             else no_requeue, w2))))"

end
