(* ===== verification/Mc_Laws.thy ===== *)
theory Mc_Laws imports Mc_Project begin

text \<open>
  What holds of multi-cluster resources: how their state is computed and when it is written, what a
  controller makes of the object of a resource, and which role bindings of projects are deleted.
\<close>

section \<open>Status\<close>

text \<open>The state each cluster reports.\<close>

definition state_of :: "mc_status \<Rightarrow> string \<Rightarrow> state_type option" where
  "state_of status = map_of (map (\<lambda>s. (clName s, clState s)) (mcsClusters status))"

lemma state_of_mem:
  assumes "distinct (map clName (mcsClusters status))"
  shows "state_of status c = Some st \<longleftrightarrow> (\<exists>s \<in> set (mcsClusters status). clName s = c \<and> clState s = st)"
proof -
  have "distinct (map fst (map (\<lambda>s. (clName s, clState s)) (mcsClusters status)))" using assms by (simp add: comp_def)
  then show ?thesis unfolding state_of_def by (auto simp: map_of_eq_Some_iff)
qed

lemma reported_states_iff:
  assumes "distinct (map clName (mcsClusters status))"
  shows "filter (\<lambda>st. st = x) (reported_states status placement) \<noteq> [] \<longleftrightarrow> (\<exists>c \<in> set placement. state_of status c = Some x)"
  unfolding state_of_mem [OF assms] by (auto simp: reported_states_def filter_empty_conv)

lemma one_state:
  assumes "distinct (map clName ss)"
  shows "length (filter (\<lambda>st. st = x) (map clState (filter (\<lambda>s. clName s = c) ss))) =
    (if map_of (map (\<lambda>s. (clName s, clState s)) ss) c = Some x then 1 else 0)"
  using assms
proof (induction ss)
  case (Cons s ss)
  show ?case
  proof (cases "clName s = c")
    case True
    then have e: "filter (\<lambda>s. clName s = c) ss = []" using Cons.prems by (auto simp: filter_empty_conv image_iff)
    show ?thesis using True unfolding filter.simps e by simp
  next
    case False
    with Cons show ?thesis by auto
  qed
qed simp

lemma count_states:
  assumes "distinct (map clName (mcsClusters status))"
  shows "length (filter (\<lambda>st. st = x) (reported_states status placement)) = length (filter (\<lambda>c. state_of status c = Some x) placement)"
  using one_state [OF assms, of x]
  by (induction placement) (simp_all add: reported_states_def state_of_def)

text \<open>C38. The state of a resource is computed by counting; with one status for each cluster it is Failed exactly
  when a placed cluster reports a failure, else Pending when one is pending, else Succeeded when
  every placed cluster reports success, and Pending while one has not reported.\<close>

theorem effective_state_iff:
  assumes "distinct (map clName (mcsClusters status))"
  shows "ComputeEffectiveState status placement =
    (if \<exists>c \<in> set placement. state_of status c = Some Failed then Failed
     else if \<exists>c \<in> set placement. state_of status c = Some Pending then Pending
     else if \<forall>c \<in> set placement. state_of status c = Some Succeeded then Succeeded
     else Pending)"
proof -
  have "length placement \<le> length (filter (\<lambda>c. state_of status c = Some Succeeded) placement) \<longleftrightarrow>
      (\<forall>c \<in> set placement. state_of status c = Some Succeeded)"
    (is "?n \<longleftrightarrow> ?all")
  proof
    show "?n \<Longrightarrow> ?all" using length_filter_less [of _ placement "\<lambda>c. state_of status c = Some Succeeded"] by fastforce
    show "?all \<Longrightarrow> ?n" by (simp add: filter_id_conv [THEN iffD2])
  qed
  then show ?thesis
    using reported_states_iff [OF assms] by (simp add: ComputeEffectiveState_def Let_def count_states [OF assms])
qed

definition status_of :: "string \<Rightarrow> state_type \<Rightarrow> cluster_level_status" where
  "status_of name st = \<lparr>clTime = [], clMessage = [], clName = name, clState = st\<rparr>"

theorem effective_state_iff_witness:
  "ComputeEffectiveState \<lparr>mcsClusters = [status_of ''a'' Succeeded, status_of ''c'' Failed], mcsConditions = [], mcsState = StateUnset\<rparr>
     [''a'', ''b''] = Pending"
proof -
  have "distinct (map clName (mcsClusters \<lparr>mcsClusters = [status_of ''a'' Succeeded, status_of ''c'' Failed],
      mcsConditions = [], mcsState = StateUnset\<rparr>))"
    by (simp add: status_of_def)
  from effective_state_iff [OF this, of "[''a'', ''b'']"] show ?thesis by (simp add: state_of_def status_of_def)
qed

lemma last_index_None: "last_index i found name ss = None \<longleftrightarrow> found = None \<and> name \<notin> set (map clName ss)"
  by (induction i found name ss rule: last_index.induct) auto

lemma last_index_Some:
  "last_index i found name ss = Some k \<Longrightarrow> found = Some k \<or> i \<le> k \<and> k - i < length ss \<and> clName (ss ! (k - i)) = name"
proof (induction i found name ss rule: last_index.induct)
  case (2 i found name s ss)
  from 2(1) [OF 2(2) [unfolded last_index.simps]] show ?case
    by (auto simp: nth_Cons' Suc_diff_le split: if_splits)
qed auto

lemma set_cluster_status_mem:
  "\<exists>s \<in> set (mcsClusters (SetClusterLevelStatus now status new)). clName s = clName new \<and> clState s = clState new"
proof (cases "last_index 0 None (clName new) (mcsClusters status)")
  case (Some i)
  then have "i < length (mcsClusters status)" using last_index_Some [OF Some] by simp
  then have "new\<lparr>clTime := now\<rparr> \<in> set ((mcsClusters status)[i := new\<lparr>clTime := now\<rparr>])" by (rule set_update_memI)
  with Some show ?thesis by (auto simp: SetClusterLevelStatus_def intro!: bexI [of _ "new\<lparr>clTime := now\<rparr>"])
qed (simp add: SetClusterLevelStatus_def)

lemma set_cluster_status_distinct:
  assumes "distinct (map clName (mcsClusters status))"
  shows "distinct (map clName (mcsClusters (SetClusterLevelStatus now status new)))"
proof (cases "last_index 0 None (clName new) (mcsClusters status)")
  case None
  then have "clName new \<notin> set (map clName (mcsClusters status))" by (simp add: last_index_None)
  with None assms show ?thesis by (simp add: SetClusterLevelStatus_def)
next
  case (Some i)
  with last_index_Some [OF Some] have "i < length (mcsClusters status)" "clName (mcsClusters status ! i) = clName new" by simp_all
  then have "map clName ((mcsClusters status)[i := new\<lparr>clTime := now\<rparr>]) = map clName (mcsClusters status)"
    by (simp add: map_update list_update_same_conv)
  with Some assms show ?thesis by (simp add: SetClusterLevelStatus_def)
qed

lemma put_condition_mem:
  "\<exists>c \<in> set (put_condition new cs). mcdType c = mcdType new \<and> mcdStatus c = mcdStatus new \<and> mcdMessage c = mcdMessage new"
  by (induction new cs rule: put_condition.induct) auto

text \<open>C39. A status is written once: after a status was written for what an operation gave, the same outcome, at
  whatever later time, writes nothing and sends the agent nothing, and the cluster's statuses keep
  distinct names.  So a message that is lost on its way to the admin cluster is not sent again.\<close>

theorem status_update_settles:
  assumes "UpdateStatus C kind r cond name upd w = (((res, None), r'), w')"
    and "mcdType cond' = mcdType cond" "mcdStatus cond' = mcdStatus cond" "mcdMessage cond' = mcdMessage cond"
  shows "UpdateStatus C kind r' cond' name upd w2 = (((no_requeue, None), r'), w2)
    \<and> (distinct (map clName (mcsClusters (mrStatus r))) \<longrightarrow> distinct (map clName (mcsClusters (mrStatus r'))))"
proof -
  let ?l = "CreateClusterLevelStatus cond name" and ?l' = "CreateClusterLevelStatus cond' name"
  have l: "clName ?l' = clName ?l" "clState ?l' = clState ?l" using assms(2) by (simp_all add: CreateClusterLevelStatus_def)
  have "\<not> StatusNeedsUpdate (mrStatus r') cond' ?l' \<and>
      (distinct (map clName (mcsClusters (mrStatus r))) \<longrightarrow> distinct (map clName (mcsClusters (mrStatus r'))))"
  proof (cases "StatusNeedsUpdate (mrStatus r) cond ?l")
    case False
    with assms(1) have "r' = r" by (simp add: UpdateStatus_def Let_def)
    with False l assms(2-4) show ?thesis by (simp add: StatusNeedsUpdate_def split: if_splits)
  next
    case True
    let ?st = "SetClusterLevelStatus (NowRFC3339 C w) (addOrUpdateCondition (mrStatus r) cond) ?l"
    from True assms(1) have r: "mrStatus r' = ?st\<lparr>mcsState := ComputeEffectiveState ?st (mrPlacement r)\<rparr>"
      by (auto simp: UpdateStatus_def Let_def split: prod.splits option.splits)
    have c: "mcsConditions ?st = put_condition cond (mcsConditions (mrStatus r))"
      by (simp add: SetClusterLevelStatus_def addOrUpdateCondition_def split: option.splits)
    have "\<not> StatusNeedsUpdate (mrStatus r') cond' ?l'"
      using set_cluster_status_mem [of "NowRFC3339 C w" "addOrUpdateCondition (mrStatus r) cond" ?l]
        put_condition_mem [of cond "mcsConditions (mrStatus r)"] l assms(2-4)
      by (auto simp: StatusNeedsUpdate_def r c list_ex_iff)
    moreover have "distinct (map clName (mcsClusters (mrStatus r))) \<Longrightarrow> distinct (map clName (mcsClusters ?st))"
      by (rule set_cluster_status_distinct) (simp add: addOrUpdateCondition_def)
    ultimately show ?thesis by (simp add: r)
  qed
  then show ?thesis by (simp add: UpdateStatus_def Let_def)
qed

definition sample_client :: "nat cluster_client" where
  "sample_client = \<lparr>GetSecretData = (\<lambda>ns n w. (Inr [''managed-cluster-name'' \<mapsto> ''here''], w)), NowRFC3339 = (\<lambda>w. ''now''),
     DelayIntn = (\<lambda>lo hi. lo), AgentSend = Some (\<lambda>m w. w + 1)\<rparr>"

definition sample_condition :: mc_condition where
  "sample_condition = \<lparr>mcdTime = ''now'', mcdMessage = ''Secret created'', mcdStatus = ''True'', mcdType = DeployComplete\<rparr>"

definition sample_resource :: "mc_template mc_resource" where
  "sample_resource = \<lparr>mrNamespace = ''ns'', mrName = ''s'', mrLabels = Map.empty, mrAnnotations = Map.empty, mrFinalizers = [],
     mrDeletionTimestamp = None, mrPlacement = [''here''],
     mrTemplate = \<lparr>tpLabels = Map.empty, tpAnnotations = Map.empty, tpContent = undefined\<rparr>,
     mrStatus = \<lparr>mcsClusters = [], mcsConditions = [], mcsState = StateUnset\<rparr>\<rparr>"

theorem status_update_settles_witness:
  "\<exists>r'. UpdateStatus sample_client SecretKind sample_resource sample_condition ''here'' (\<lambda>r w. (None, w)) 0 = (((no_requeue, None), r'), 1)
    \<and> UpdateStatus sample_client SecretKind r' (sample_condition\<lparr>mcdTime := ''later''\<rparr>) ''here'' (\<lambda>r w. (None, w)) 7 = (((no_requeue, None), r'), 7)"
proof -
  obtain r' where u: "UpdateStatus sample_client SecretKind sample_resource sample_condition ''here'' (\<lambda>r w. (None, w)) 0 =
      (((no_requeue, None), r'), 1)"
    by (simp add: UpdateStatus_def StatusNeedsUpdate_def sample_resource_def sample_client_def Let_def)
  have "UpdateStatus sample_client SecretKind r' (sample_condition\<lparr>mcdTime := ''later''\<rparr>) ''here'' (\<lambda>r w. (None, w)) 7 =
      (((no_requeue, None), r'), 7)"
    by (rule conjunct1 [OF status_update_settles [OF u]]) simp_all
  with u show ?thesis by auto
qed

section \<open>The object of a resource\<close>

abbreviation wrapped_key :: "wrapped \<Rightarrow> string \<times> string" where
  "wrapped_key obj \<equiv> (woNamespace obj, woName obj)"

text \<open>
  The objects of a kind as a map; no call fails, and only the calls on objects change it.
\<close>

definition objects_read :: "'w cluster_client \<Rightarrow> 'w mc_calls \<Rightarrow> ('w \<Rightarrow> string \<times> string \<Rightarrow> wrapped option) \<Rightarrow> bool" where
  "objects_read C K objs \<longleftrightarrow> (\<forall>ns n w. objs (snd (GetSecretData C ns n w)) = objs w)
     \<and> (\<forall>ns n w. objs (snd (McGet K ns n w)) = objs w)
     \<and> (\<forall>r w. \<exists>w'. McUpdate K r w = (None, w') \<and> objs w' = objs w)
     \<and> (\<forall>r w. \<exists>w'. McStatusUpdate K r w = (None, w') \<and> objs w' = objs w)
     \<and> (\<forall>send m w. AgentSend C = Some send \<longrightarrow> objs (send m w) = objs w)"

definition objects_write ::
  "'w mc_calls \<Rightarrow> ('w \<Rightarrow> string \<times> string \<Rightarrow> wrapped option) \<Rightarrow> (string \<times> string \<Rightarrow> wrapped) \<Rightarrow> bool" where
  "objects_write K objs fresh \<longleftrightarrow>
     (\<forall>ns n w. GetWrapped K ns n w = (case objs w (ns, n) of None \<Rightarrow> Inl (NotFoundErr n) | Some obj \<Rightarrow> Inr obj, w))
     \<and> (\<forall>k obj w. objs w k = Some obj \<longrightarrow> (\<exists>w'. DeleteWrapped K obj w = (None, w') \<and> objs w' = (objs w)(k := None)))
     \<and> (\<forall>k f w. (\<forall>obj. wrapped_key (f obj) = wrapped_key obj) \<longrightarrow> (\<exists>res w'. CreateOrUpdateWrapped K k f w = ((res, None), w')
          \<and> objs w' = (objs w)(k \<mapsto> f (case objs w k of Some obj \<Rightarrow> obj | None \<Rightarrow> fresh k))))"

lemma fetch_reads:
  assumes "objects_read C K objs"
  shows "objs (snd (fetchClusterSecret C w)) = objs w"
proof -
  have g: "objs w' = objs w" if "GetSecretData C ns n w = (x, w')" for ns n w x w'
    using assms that unfolding objects_read_def by (metis snd_conv)
  show ?thesis by (auto simp: fetchClusterSecret_def g [OF surjective_pairing] dest: g split: prod.splits sum.splits)
qed

lemma placed_reads:
  assumes "objects_read C K objs"
  shows "objs (snd (IsPlacedInThisCluster C p w)) = objs w" "objs (snd (GetClusterName C w)) = objs w"
  using fetch_reads [OF assms, of w]
  by (auto simp: IsPlacedInThisCluster_def GetClusterName_def split: prod.splits sum.splits)

lemma delete_associated:
  assumes "objects_read C K objs" "objects_write K objs fresh"
  shows "\<exists>w'. DeleteAssociatedResource K r w = (None, w') \<and> objs w' = (objs w)((mrNamespace r, mrName r) := None)"
proof (cases "objs w (mrNamespace r, mrName r)")
  case None
  then have "objs w = (objs w)((mrNamespace r, mrName r) := None)" by auto
  with None assms show ?thesis
    unfolding objects_read_def objects_write_def by (auto simp: DeleteAssociatedResource_def Let_def IsNotFound_def)
next
  case (Some obj)
  then obtain w1 where w1: "DeleteWrapped K obj w = (None, w1)" "objs w1 = (objs w)((mrNamespace r, mrName r) := None)"
    using assms(2) unfolding objects_write_def by blast
  have "GetWrapped K (mrNamespace r) (mrName r) w = (Inr obj, w)" using assms(2) Some by (simp add: objects_write_def)
  moreover obtain w2 where "McUpdate K (r\<lparr>mrFinalizers := filter (\<lambda>f. f \<noteq> McFinalizer K) (mrFinalizers r)\<rparr>) w1 = (None, w2)"
    "objs w2 = objs w1" using assms(1) unfolding objects_read_def by blast
  ultimately show ?thesis using w1 by (simp add: DeleteAssociatedResource_def Let_def)
qed

lemma placed_pass:
  assumes "objects_read C K objs" "objects_write K objs fresh"
  shows "\<exists>r2 res w'. createOrUpdateWrapped K r w = ((r2, res, None), w')
    \<and> objs w' = (objs w)((mrNamespace r, mrName r) \<mapsto>
        mutate_wrapped r (case objs w (mrNamespace r, mrName r) of Some obj \<Rightarrow> obj | None \<Rightarrow> fresh (mrNamespace r, mrName r)))"
proof -
  let ?k = "(mrNamespace r, mrName r)"
  have "\<forall>obj. wrapped_key (mutate_wrapped r obj) = wrapped_key obj" by (simp add: mutate_wrapped_def)
  then obtain res w' where "CreateOrUpdateWrapped K ?k (mutate_wrapped r) w = ((res, None), w')"
    "objs w' = (objs w)(?k \<mapsto> mutate_wrapped r (case objs w ?k of Some obj \<Rightarrow> obj | None \<Rightarrow> fresh ?k))"
    using assms(2) unfolding objects_write_def by metis
  then show ?thesis by (simp add: createOrUpdateWrapped_def)
qed

lemma add_finalizer_reads:
  assumes "objects_read C K objs"
  shows "\<exists>r3 w'. AddFinalizer K r w = ((r3, None), w') \<and> objs w' = objs w"
proof -
  obtain w' where "McUpdate K (r\<lparr>mrFinalizers := mrFinalizers r @ [McFinalizer K]\<rparr>) w = (None, w')" "objs w' = objs w"
    using assms unfolding objects_read_def by blast
  then show ?thesis by (simp add: AddFinalizer_def Let_def)
qed

lemma update_status_reads:
  assumes "objects_read C K objs"
  shows "\<exists>r4 w'. mc_updateStatus C K r res err w = (((no_requeue, None), r4), w') \<and> objs w' = objs w"
proof -
  have upd: "\<exists>w'. McStatusUpdate K r' w = (None, w') \<and> objs w' = objs w" for r' w using assms unfolding objects_read_def by blast
  have send: "objs (send m w) = objs w" if "AgentSend C = Some send" for send m w
    using assms that unfolding objects_read_def by blast
  have "\<exists>r4 w'. UpdateStatus C k r cond n (McStatusUpdate K) w = (((no_requeue, None), r4), w') \<and> objs w' = objs w" for k cond n w
  proof (cases "StatusNeedsUpdate (mrStatus r) cond (CreateClusterLevelStatus cond n)")
    case True
    let ?st = "SetClusterLevelStatus (NowRFC3339 C w) (addOrUpdateCondition (mrStatus r) cond) (CreateClusterLevelStatus cond n)"
    obtain w' where "McStatusUpdate K (r\<lparr>mrStatus := ?st\<lparr>mcsState := ComputeEffectiveState ?st (mrPlacement r)\<rparr>\<rparr>) w = (None, w')"
      "objs w' = objs w" using upd by blast
    with True show ?thesis by (auto simp: UpdateStatus_def Let_def send split: option.splits)
  qed (simp add: UpdateStatus_def Let_def)
  moreover obtain n w1 where "GetClusterName C w = (n, w1)" "objs w1 = objs w"
    using placed_reads(2) [OF assms, of w] by (metis surjective_pairing)
  ultimately show ?thesis by (simp add: mc_updateStatus_def) metis
qed

lemma set_effective_state:
  "\<exists>old r1. SetEffectiveStateIfChanged r = (old, r1) \<and> mrNamespace r1 = mrNamespace r \<and> mrName r1 = mrName r
     \<and> mrPlacement r1 = mrPlacement r \<and> mrTemplate r1 = mrTemplate r"
  by (simp add: SetEffectiveStateIfChanged_def Let_def)

text \<open>The object that a resource asks for on this cluster.\<close>

definition wanted_object ::
  "'w cluster_client \<Rightarrow> (string \<times> string \<Rightarrow> wrapped) \<Rightarrow> mc_template mc_resource \<Rightarrow> 'w \<Rightarrow> wrapped option \<Rightarrow> wrapped option" where
  "wanted_object C fresh r w old =
     (if mrDeletionTimestamp r = None \<and> fst (IsPlacedInThisCluster C (mrPlacement r) w)
      then Some (mutate_wrapped r (case old of Some obj \<Rightarrow> obj | None \<Rightarrow> fresh (mrNamespace r, mrName r)))
      else None)"

lemma do_reconcile_object:
  assumes "objects_read C K objs" "objects_write K objs fresh"
  shows "\<exists>w'. mc_doReconcile C K r w = ((no_requeue, None), w')
    \<and> objs w' = (objs w)((mrNamespace r, mrName r) := wanted_object C fresh r w (objs w (mrNamespace r, mrName r)))"
proof (cases "mrDeletionTimestamp r")
  case (Some t)
  then show ?thesis using delete_associated [OF assms, of r w] by (auto simp: mc_doReconcile_def wanted_object_def)
next
  case None
  obtain old r1 where r1: "SetEffectiveStateIfChanged r = (old, r1)" "mrNamespace r1 = mrNamespace r" "mrName r1 = mrName r"
    "mrPlacement r1 = mrPlacement r" "mrTemplate r1 = mrTemplate r" using set_effective_state [of r] by blast
  obtain here w1 where w1: "IsPlacedInThisCluster C (mrPlacement r) w = (here, w1)" "objs w1 = objs w"
    using placed_reads(1) [OF assms(1), of "mrPlacement r" w] by (metis surjective_pairing)
  have upd: "\<exists>w'. McStatusUpdate K r' w = (None, w') \<and> objs w' = objs w" for r' w
    using assms(1) unfolding objects_read_def by blast
  show ?thesis
  proof (cases here)
    case False
    obtain w2 where "(if old \<noteq> mcsState (mrStatus r1) then McStatusUpdate K r1 w1 else (None, w1)) = (None, w2)" "objs w2 = objs w1"
      using upd [of r1 w1] by (cases "old \<noteq> mcsState (mrStatus r1)") auto
    with delete_associated [OF assms, of r1 w2] show ?thesis using None False r1 w1
      by (auto simp: mc_doReconcile_def wanted_object_def)
  next
    case True
    obtain r2 res w2 where r2: "createOrUpdateWrapped K r1 w1 = ((r2, res, None), w2)"
      "objs w2 = (objs w1)((mrNamespace r1, mrName r1) \<mapsto>
        mutate_wrapped r1 (case objs w1 (mrNamespace r1, mrName r1) of Some obj \<Rightarrow> obj | None \<Rightarrow> fresh (mrNamespace r1, mrName r1)))"
      using placed_pass [OF assms] by blast
    obtain r3 w3 where r3: "AddFinalizer K r2 w2 = ((r3, None), w3)" "objs w3 = objs w2"
      using add_finalizer_reads [OF assms(1)] by blast
    obtain r4 w4 where r4: "mc_updateStatus C K r3 res None w3 = (((no_requeue, None), r4), w4)" "objs w4 = objs w3"
      using update_status_reads [OF assms(1)] by blast
    show ?thesis using None True r1 w1 r2 r3 r4
      by (simp add: mc_doReconcile_def wanted_object_def mutate_wrapped_def cong: option.case_cong)
  qed
qed

lemma reconcile_object:
  assumes "objects_read C K objs" "objects_write K objs fresh" "ns \<noteq> ''kube-system''" "McGet K ns n w = (Inr r, w1)"
    and "mrNamespace r = ns" "mrName r = n"
  shows "\<exists>w'. mc_Reconcile C K ns n w = (no_requeue, w') \<and> objs w' = (objs w)((ns, n) := wanted_object C fresh r w1 (objs w (ns, n)))"
proof -
  have "objs w1 = objs w" using assms(1,4) unfolding objects_read_def by (metis snd_conv)
  with do_reconcile_object [OF assms(1,2), of r w1] assms(3-6) show ?thesis
    by (auto simp: mc_Reconcile_def ShouldRequeue_def)
qed

lemma kind_calls:
  assumes "objects_read C K objs" "objects_write K objs fresh"
  shows "objects_read C (K\<lparr>McKind := a, McFinalizer := f, McPrefix := p\<rparr>) objs"
    "objects_write (K\<lparr>McKind := a, McFinalizer := f, McPrefix := p\<rparr>) objs fresh"
  using assms by (simp_all add: objects_read_def objects_write_def)

text \<open>C13. Where no call fails, reconciling a resource of any kind leaves the object of its namespace and name as the
  template says when the resource is placed on this cluster, and no object of that name otherwise; no
  other object changes.  Nothing is asked of the object there was: one that somebody else made is
  overwritten, or deleted when the resource is placed elsewhere or deleted.\<close>

theorem reconcile_owns_name:
  assumes "reconcile \<in> {ReconcileSecret, ReconcileConfigMap, ReconcileComponent, ReconcileAppConfig}"
    and "objects_read C K objs" "objects_write K objs fresh"
    and "ns \<noteq> ''kube-system''" "McGet K ns n w = (Inr r, w1)" "mrNamespace r = ns" "mrName r = n"
  shows "\<exists>w'. reconcile C K ns n w = (no_requeue, w') \<and> objs w' = (objs w)((ns, n) := wanted_object C fresh r w1 (objs w (ns, n)))"
proof -
  obtain a f p where "reconcile C K = mc_Reconcile C (K\<lparr>McKind := a, McFinalizer := f, McPrefix := p\<rparr>)"
    using assms(1) by (auto simp: ReconcileSecret_def secret_kind_def ReconcileConfigMap_def config_map_kind_def
      ReconcileComponent_def component_kind_def ReconcileAppConfig_def app_config_kind_def)
  with reconcile_object [OF kind_calls [OF assms(2,3)] assms(4)] assms(5-7) show ?thesis by simp
qed

text \<open>A cluster that is its map of objects, and that has one resource, placed on another cluster.\<close>

type_synonym object_world = "string \<times> string \<Rightarrow> wrapped option"

definition map_client :: "object_world cluster_client" where
  "map_client = \<lparr>GetSecretData = (\<lambda>ns n w. (Inr [''managed-cluster-name'' \<mapsto> ''here''], w)), NowRFC3339 = (\<lambda>w. ''now''),
     DelayIntn = (\<lambda>lo hi. lo), AgentSend = None\<rparr>"

definition blank_object :: "string \<times> string \<Rightarrow> wrapped" where
  "blank_object k = \<lparr>woNamespace = fst k, woName = snd k, woLabels = Map.empty, woAnnotations = Map.empty, woContent = undefined\<rparr>"

definition object_view :: "object_world \<Rightarrow> string \<times> string \<Rightarrow> wrapped option" where
  "object_view w k = map_option (\<lambda>obj. obj\<lparr>woNamespace := fst k, woName := snd k\<rparr>) (w k)"

definition map_calls :: "mc_template mc_resource \<Rightarrow> object_world mc_calls" where
  "map_calls r = \<lparr>McKind = SecretKind, McFinalizer = [], McPrefix = [], McGet = (\<lambda>ns n w. (Inr r, w)),
     McUpdate = (\<lambda>r w. (None, w)), McStatusUpdate = (\<lambda>r w. (None, w)),
     GetWrapped = (\<lambda>ns n w. (case object_view w (ns, n) of None \<Rightarrow> Inl (NotFoundErr n) | Some obj \<Rightarrow> Inr obj, w)),
     DeleteWrapped = (\<lambda>obj w. (None, w(wrapped_key obj := None))),
     CreateOrUpdateWrapped = (\<lambda>k f w. ((OperationResultUpdated, None), w(k \<mapsto> f (case object_view w k of Some obj \<Rightarrow> obj | None \<Rightarrow> blank_object k))))\<rparr>"

lemma map_calls_laws: "objects_read map_client (map_calls r) object_view" "objects_write (map_calls r) object_view blank_object"
proof -
  show "objects_read map_client (map_calls r) object_view"
    by (simp add: objects_read_def map_client_def map_calls_def)
  have del: "object_view (w(k := None)) = (object_view w)(k := None)" for w k by (auto simp: object_view_def)
  have put: "object_view (w(k \<mapsto> obj)) = (object_view w)(k \<mapsto> obj)" if "wrapped_key obj = k" for w k obj
    using that by (auto simp: object_view_def fun_eq_iff)
  have key: "wrapped_key obj = k" if "object_view w k = Some obj" for w k obj
    using that by (auto simp: object_view_def)
  have "wrapped_key (case object_view w k of Some obj \<Rightarrow> obj | None \<Rightarrow> blank_object k) = k" for w k
    using key [of w k] by (auto simp: blank_object_def split: option.split)
  then have new: "object_view (w(k \<mapsto> f (case object_view w k of Some obj \<Rightarrow> obj | None \<Rightarrow> blank_object k))) =
      (object_view w)(k \<mapsto> f (case object_view w k of Some obj \<Rightarrow> obj | None \<Rightarrow> blank_object k))"
    if "\<forall>obj. wrapped_key (f obj) = wrapped_key obj" for f w k by (intro put trans [OF that [rule_format]])
  show "objects_write (map_calls r) object_view blank_object"
    unfolding objects_write_def
  proof (intro conjI allI impI)
    fix k obj and w :: object_world
    assume "object_view w k = Some obj"
    from key [OF this] show "\<exists>w'. DeleteWrapped (map_calls r) obj w = (None, w') \<and> object_view w' = (object_view w)(k := None)"
      by (simp add: map_calls_def del)
  next
    fix k and f :: "wrapped \<Rightarrow> wrapped" and w :: object_world
    assume "\<forall>obj. wrapped_key (f obj) = wrapped_key obj"
    from new [OF this, of w k]
    show "\<exists>res w'. CreateOrUpdateWrapped (map_calls r) k f w = ((res, None), w')
        \<and> object_view w' = (object_view w)(k \<mapsto> f (case object_view w k of Some obj \<Rightarrow> obj | None \<Rightarrow> blank_object k))"
      by (simp add: map_calls_def)
  qed (simp add: map_calls_def)
qed

text \<open>An object of another team is deleted by a resource of its name that is placed elsewhere.\<close>

theorem reconcile_owns_name_witness:
  "\<exists>w'. ReconcileSecret map_client (map_calls (sample_resource\<lparr>mrPlacement := [''there'']\<rparr>)) ''ns'' ''s''
      [(''ns'', ''s'') \<mapsto> blank_object (''ns'', ''s'')] = (no_requeue, w') \<and> object_view w' (''ns'', ''s'') = None"
proof -
  let ?r = "sample_resource\<lparr>mrPlacement := [''there'']\<rparr>" and ?w = "[(''ns'', ''s'') \<mapsto> blank_object (''ns'', ''s'')]"
  have "McGet (map_calls ?r) ''ns'' ''s'' ?w = (Inr ?r, ?w)" "mrNamespace ?r = ''ns''" "mrName ?r = ''s''"
    by (simp_all add: map_calls_def sample_resource_def)
  from reconcile_owns_name [OF _ map_calls_laws _ this, of ReconcileSecret] show ?thesis
    by (auto simp: wanted_object_def IsPlacedInThisCluster_def fetchClusterSecret_def cluster_name_of_def map_client_def)
qed

section \<open>Role bindings of projects\<close>

text \<open>The role bindings as a map; no call fails.\<close>

definition bindings_law :: "'w project_calls \<Rightarrow> ('w \<Rightarrow> string \<times> string \<Rightarrow> project_binding option) \<Rightarrow> bool" where
  "bindings_law P bs \<longleftrightarrow>
     (\<forall>ns n w. GetBinding P ns n w = (case bs w (ns, n) of None \<Rightarrow> Inl (NotFoundErr n) | Some b \<Rightarrow> Inr b, w))
     \<and> (\<forall>k b w. bs w k = Some b \<longrightarrow> (\<exists>w'. DeleteBinding P b w = (None, w') \<and> bs w' = (bs w)(k := None)))"

definition without :: "'k set \<Rightarrow> ('k \<Rightarrow> 'v option) \<Rightarrow> 'k \<Rightarrow> 'v option" where
  "without D m k = (if k \<in> D then None else m k)"

lemma without_without: "without A (without B m) = without (A \<union> B) m"
  by (auto simp: without_def fun_eq_iff)

lemma each_without:
  assumes "\<And>x w. \<exists>w'. f x w = (None, w') \<and> bs w' = without (D x) (bs w)"
  shows "\<exists>w'. each f xs w = (None, w') \<and> bs w' = without (\<Union>x \<in> set xs. D x) (bs w)"
proof (induction xs arbitrary: w)
  case (Cons x xs)
  obtain w1 where w1: "f x w = (None, w1)" "bs w1 = without (D x) (bs w)" using assms by blast
  obtain w2 where "each f xs w1 = (None, w2)" "bs w2 = without (\<Union>x \<in> set xs. D x) (bs w1)" using Cons.IH by blast
  with w1 show ?case by (simp add: without_without Un_commute)
qed (simp add: without_def fun_eq_iff)

lemma delete_binding_without:
  assumes "bindings_law P bs"
  shows "\<exists>w'. delete_binding P pairs vmc ns w = (None, w')
    \<and> bs w' = without (if ns @ vmc \<in> pairs then {} else {(ns, generateRoleBindingManagedClusterRef vmc)}) (bs w)"
proof (cases "bs w (ns, generateRoleBindingManagedClusterRef vmc)")
  case None
  then show ?thesis using assms by (auto simp: bindings_law_def delete_binding_def without_def fun_eq_iff)
next
  case (Some b)
  moreover from this obtain w' where "DeleteBinding P b w = (None, w')"
    "bs w' = (bs w)((ns, generateRoleBindingManagedClusterRef vmc) := None)" using assms unfolding bindings_law_def by blast
  ultimately show ?thesis using assms by (auto simp: bindings_law_def delete_binding_def without_def fun_eq_iff)
qed

text \<open>Some project that counts has a namespace and a cluster that make this text together.\<close>

definition pair_expected :: "string option \<Rightarrow> project list \<Rightarrow> string \<Rightarrow> bool" where
  "pair_expected except vps pair \<longleftrightarrow> (\<exists>vp \<in> set vps. except \<noteq> Some (mrName vp)
     \<and> (\<exists>ns \<in> ntName ` set (ptNamespaces (mrTemplate vp)). \<exists>cluster \<in> set (mrPlacement vp). ns @ cluster = pair))"

lemma expected_pairs_iff: "pair \<in> expected_pairs except vps \<longleftrightarrow> pair_expected except vps pair"
  by (auto simp: expected_pairs_def pair_expected_def split: if_splits)

text \<open>C40. Where no call fails, deleteRoleBindings deletes of every namespace of a project the binding of each
  registered cluster unless some project (other than the one that is deleted) has a namespace and a
  cluster whose names, written one after the other, are the same text, and no other binding.  So every
  binding that is still wanted stays, but one of namespace \<open>a\<close> and cluster \<open>bc\<close> also stays because of a
  project with namespace \<open>ab\<close> on cluster \<open>c\<close>.\<close>

theorem orphaned_bindings_deleted:
  assumes "bindings_law P bs"
    and "ListProjects P ''verrazzano-mc'' w = (Inr vps, w1)" "bs w1 = bs w"
    and "ListManagedClusters P ''verrazzano-mc'' w1 = (Inr vmcs, w2)" "bs w2 = bs w"
  shows "\<exists>w'. deleteRoleBindings P project w = (None, w') \<and> (\<forall>ns n. bs w' (ns, n) =
    (if (\<exists>vmc \<in> set vmcs. n = generateRoleBindingManagedClusterRef vmc \<and> \<not> pair_expected project vps (ns @ vmc))
        \<and> (\<exists>vp \<in> set vps. ns \<in> ntName ` set (ptNamespaces (mrTemplate vp)))
     then None else bs w (ns, n)))"
proof -
  let ?p = "expected_pairs project vps"
  let ?D = "\<lambda>vmc ns. if ns @ vmc \<in> ?p then {} else {(ns, generateRoleBindingManagedClusterRef vmc)}"
  have "\<exists>w'. each (\<lambda>vmc. each (\<lambda>vp. each (\<lambda>ns. delete_binding P ?p vmc (ntName ns)) (ptNamespaces (mrTemplate vp))) vps) vmcs w2 = (None, w')
      \<and> bs w' = without (\<Union>vmc \<in> set vmcs. \<Union>vp \<in> set vps. \<Union>ns \<in> set (ptNamespaces (mrTemplate vp)). ?D vmc (ntName ns)) (bs w2)"
    by (intro each_without delete_binding_without [OF assms(1)])
  then obtain w' where w': "deleteRoleBindings P project w = (None, w')"
    "bs w' = without (\<Union>vmc \<in> set vmcs. \<Union>vp \<in> set vps. \<Union>ns \<in> set (ptNamespaces (mrTemplate vp)). ?D vmc (ntName ns)) (bs w)"
    using assms(2-5) by (auto simp: deleteRoleBindings_def Let_def)
  show ?thesis
    by (intro exI [of _ w'] conjI allI w'(1)) (auto simp: w'(2) without_def expected_pairs_iff split: if_splits)
qed

definition sample_project :: "string \<Rightarrow> string \<Rightarrow> string list \<Rightarrow> project" where
  "sample_project n ns clusters = \<lparr>mrNamespace = ''verrazzano-mc'', mrName = n, mrLabels = Map.empty, mrAnnotations = Map.empty,
     mrFinalizers = [], mrDeletionTimestamp = None, mrPlacement = clusters,
     mrTemplate = \<lparr>ptNamespaces = [\<lparr>ntName = ns, ntLabels = [], ntAnnotations = Map.empty, ntSpec = undefined\<rparr>],
       ptNetworkPolicies = [], ptAdminSubjects = [], ptMonitorSubjects = []\<rparr>,
     mrStatus = \<lparr>mcsClusters = [], mcsConditions = [], mcsState = StateUnset\<rparr>\<rparr>"

type_synonym binding_world = "string \<times> string \<Rightarrow> project_binding option"

definition binding_view :: "binding_world \<Rightarrow> string \<times> string \<Rightarrow> project_binding option" where
  "binding_view w k = map_option (\<lambda>b. b\<lparr>pbNamespace := fst k, pbName := snd k\<rparr>) (w k)"

definition sample_calls :: "project list \<Rightarrow> string list \<Rightarrow> binding_world project_calls" where
  "sample_calls vps vmcs = \<lparr>GetProject = (\<lambda>ns n w. (Inl (NotFoundErr n), w)), UpdateProject = (\<lambda>p w. (None, w)),
     UpdateProjectStatus = (\<lambda>p w. (None, w)), ListProjects = (\<lambda>ns w. (Inr vps, w)), ListManagedClusters = (\<lambda>ns w. (Inr vmcs, w)),
     GetNamespaceLabels = (\<lambda>ns w. (Inr Map.empty, w)), CreateOrUpdateNamespace = (\<lambda>ns f w. (None, w)),
     GetBinding = (\<lambda>ns n w. (case binding_view w (ns, n) of None \<Rightarrow> Inl (NotFoundErr n) | Some b \<Rightarrow> Inr b, w)),
     DeleteBinding = (\<lambda>b w. (None, w((pbNamespace b, pbName b) := None))), CreateOrUpdateBinding = (\<lambda>k f w. (None, w)),
     ListNetworkPolicies = (\<lambda>ns w. (Inr [], w)), DeleteNetworkPolicy = (\<lambda>p w. (None, w)),
     CreateOrUpdateNetworkPolicy = (\<lambda>k f w. (None, w))\<rparr>"

lemma sample_calls_law: "bindings_law (sample_calls vps vmcs) binding_view"
  unfolding bindings_law_def
proof (intro conjI allI impI)
  fix k b and w :: binding_world
  assume "binding_view w k = Some b"
  then have "(pbNamespace b, pbName b) = k" by (auto simp: binding_view_def)
  then show "\<exists>w'. DeleteBinding (sample_calls vps vmcs) b w = (None, w') \<and> binding_view w' = (binding_view w)(k := None)"
    by (intro exI [of _ "w(k := None)"]) (simp add: sample_calls_def binding_view_def fun_eq_iff)
qed (simp add: sample_calls_def)

text \<open>Of two bindings nobody wants one is deleted, and the one of namespace \<open>a\<close> and cluster \<open>bc\<close> is not.\<close>

theorem orphaned_bindings_deleted_witness:
  "\<exists>w'. deleteRoleBindings (sample_calls [sample_project ''p'' ''a'' [], sample_project ''q'' ''ab'' [''c'']] [''bc'', ''d'']) None
      [(''a'', ''verrazzano-cluster-bc'') \<mapsto> newRoleBindingManagedCluster ''a'' ''bc'',
       (''a'', ''verrazzano-cluster-d'') \<mapsto> newRoleBindingManagedCluster ''a'' ''d''] = (None, w')
    \<and> binding_view w' (''a'', ''verrazzano-cluster-d'') = None
    \<and> binding_view w' (''a'', ''verrazzano-cluster-bc'') \<noteq> None"
proof -
  let ?vps = "[sample_project ''p'' ''a'' [], sample_project ''q'' ''ab'' [''c'']]" and ?vmcs = "[''bc'', ''d'']"
  let ?P = "sample_calls ?vps ?vmcs"
  let ?w = "[(''a'', ''verrazzano-cluster-bc'') \<mapsto> newRoleBindingManagedCluster ''a'' ''bc'',
       (''a'', ''verrazzano-cluster-d'') \<mapsto> newRoleBindingManagedCluster ''a'' ''d'']"
  have "ListProjects ?P ''verrazzano-mc'' ?w = (Inr ?vps, ?w)" "ListManagedClusters ?P ''verrazzano-mc'' ?w = (Inr ?vmcs, ?w)"
    by (simp_all add: sample_calls_def)
  from orphaned_bindings_deleted [OF sample_calls_law this(1) refl this(2) refl, of None]
  obtain w' where w': "deleteRoleBindings ?P None ?w = (None, w')"
    "\<And>ns n. binding_view w' (ns, n) =
      (if (\<exists>vmc \<in> set ?vmcs. n = generateRoleBindingManagedClusterRef vmc \<and> \<not> pair_expected None ?vps (ns @ vmc))
          \<and> (\<exists>vp \<in> set ?vps. ns \<in> ntName ` set (ptNamespaces (mrTemplate vp)))
       then None else binding_view ?w (ns, n))" by blast
  show ?thesis
    unfolding w'(1) Pair_inject
  proof (intro exI [of _ w'] conjI)
    show "binding_view w' (''a'', ''verrazzano-cluster-d'') = None"
      unfolding w'(2) by (simp add: pair_expected_def sample_project_def generateRoleBindingManagedClusterRef_def)
    show "binding_view w' (''a'', ''verrazzano-cluster-bc'') \<noteq> None"
      unfolding w'(2) by (simp add: pair_expected_def sample_project_def generateRoleBindingManagedClusterRef_def binding_view_def)
  qed simp_all
qed

end
