(* ===== verification/Spec2Isabelle.thy ===== *)
theory Spec2Isabelle
  imports Vz_Prelude Go_Strings Semver Vz_Api Enabled Profiles Component Registry Status_Ops Health
    Uninstall_Component Install_Component Upgrade_Component Reconcile_Install Reconcile_Upgrade
    Cluster_Ops Reconcile_Uninstall Controller Process Bom Validators Webhook Ready
    Yaml_Ops Go_Scan Conversion Conversion_Laws
    Helm_Client Helm_Overrides Helm_Component Helm_Laws
    Nav_Workload Ingress_Hosts Ingress_Routes Ingress_Trait Ingress_Laws Ingress_Webhook
    Mc_Status Mc_Resource Mc_Sync Mc_Agent Mc_Mirror Mc_Project Mc_Laws
begin

text \<open>
  Verrazzano's platform operator, the controller that installs, updates, upgrades and
  uninstalls a platform made of some forty components, as the \<open>Verrazzano\<close> custom resource asks;
  and of its application operator: the controller that gives applications their ingress, the
  controllers of the resources and projects that an admin cluster places on managed clusters, and the
  agent that brings them there.

  What talks to what.  A reconcile call holds the resource, computes the effective resource
  from it and the profile files, and runs a flow (install, upgrade or uninstall of the whole
  product) whose position is kept in a tracker of the process; the flow runs one state machine
  per registered component, whose methods work on the cluster.  What a call wants to write to
  the resource's status it puts on a channel as an event; the status updater applies the events
  to the stored resource, and the availability checker adds its own.

  The theories, bottom up.
  \<^item> \<open>Vz_Prelude\<close>: outcomes of Go calls, errors, loops, requeue results, and the locales
    \<open>ranked_loop\<close> and \<open>ranked_res_loop\<close>, which every flow and every machine interprets.
  \<^item> \<open>Go_Strings\<close>: \<open>pkg/string\<close>.  \<open>Semver\<close>: \<open>pkg/semver/semver.go\<close>.
  \<^item> \<open>Vz_Api\<close>: the resource's types.  \<open>Enabled\<close>: the issuer predicates and \<open>pkg/vzcr/enabled.go\<close>.
  \<^item> \<open>Profiles\<close>: \<open>pkg/profiles/merge.go\<close>, \<open>transform/merge.go\<close>, \<open>transform/convert_certificate.go\<close>
    and \<open>pkg/yaml/strategic_merge.go\<close>, up to \<open>GetEffectiveCR\<close>.
  \<^item> \<open>Component\<close>: the component interface \<open>spi.Component\<close>, the process state \<open>sys\<close> and the
    surroundings \<open>env\<close>.  \<open>Registry\<close>: \<open>registry.go\<close> and \<open>vzinstance\<close>.
  \<^item> \<open>Status_Ops\<close>: \<open>reconcile/status.go\<close>.  \<open>Health\<close>: the package \<open>healthcheck\<close>.
  \<^item> \<open>Uninstall_Component\<close>, \<open>Install_Component\<close>, \<open>Upgrade_Component\<close>: the machines of one
    component and the passes over all of them (\<open>reconcile/*_component.go\<close>).
  \<^item> \<open>Reconcile_Install\<close>, \<open>Reconcile_Upgrade\<close>, \<open>Reconcile_Uninstall\<close>: the flows of
    \<open>reconcile/install.go\<close>, \<open>reconcile/upgrade.go\<close> and \<open>reconcile/uninstall.go\<close>, each an instance
    of \<open>ranked_loop\<close>; the last one on the API operations of \<open>Cluster_Ops\<close>
    (\<open>pkg/k8s/resource/resource.go\<close>).
  \<^item> \<open>Controller\<close>: \<open>reconcile/controller.go\<close>, what a call does in each state of the resource,
    the finalizer and the predicates of the watches.
  \<^item> \<open>Bom\<close>: \<open>pkg/bom/bom.go\<close>, the bill of materials.  \<open>Ready\<close>: the package \<open>pkg/k8s/ready\<close>.
  \<^item> \<open>Validators\<close> and \<open>Webhook\<close>: \<open>validators/validate.go\<close> and the admission webhooks of both API versions
    (\<open>v1alpha1\<close> and \<open>v1beta1\<close>: \<open>verrazzano_webhook.go\<close>, \<open>validate.go\<close>; \<open>ComponentValidatorImpl.go\<close>).
  \<^item> \<open>Yaml_Ops\<close>: \<open>pkg/yaml/expand.go\<close> and \<open>replace_merge.go\<close>.  \<open>Go_Scan\<close>: what \<open>fmt.Sscan\<close> reads as a
    number.  \<open>Conversion\<close>: \<open>convert_to.go\<close>, \<open>convert_from.go\<close> and \<open>convert_istio_to.go\<close>, every section in both
    directions; \<open>Conversion_Laws\<close>: what survives a conversion and what does not.
  \<^item> \<open>Helm_Client\<close>: \<open>pkg/helm\<close> and \<open>pkg/yaml/helm.go\<close>.  \<open>Helm_Overrides\<close>: override references, pull
    secrets, temporary files.  \<open>Helm_Component\<close>: \<open>component/helm/helm_component.go\<close>, whose \<open>as_component\<close>
    is a component of the reconciler.  \<open>Helm_Laws\<close>: the order of overrides, lost arguments, releases
    that are left behind.
  \<^item> The application operator: \<open>Nav_Workload\<close> (\<open>controllers/navigation\<close>), \<open>Ingress_Hosts\<close> and
    \<open>Ingress_Routes\<close> (the ingress trait, its hosts, destinations, gateway servers and policy rules),
    \<open>Ingress_Trait\<close> (\<open>controllers/ingresstrait\<close>, a reconcile call on one trait), \<open>Ingress_Webhook\<close>
    (\<open>ingresstrait_webhook.go\<close>).  \<open>Ingress_Laws\<close>: hosts, servers of a shared gateway, policies, deletion.
  \<^item> Multi-cluster: \<open>Mc_Status\<close> (\<open>controllers/clusters/cluster_utils.go\<close>, what all kinds share),
    \<open>Mc_Resource\<close> (the four controllers \<open>controllers/clusters/multicluster*\<close>, which are one text over a kind),
    \<open>Mc_Project\<close> (\<open>verrazzanoproject_controller.go\<close>), \<open>Mc_Sync\<close> (the agent's copying of one kind) and
    \<open>Mc_Agent\<close> (one iteration of the agent, \<open>mcagent\<close>).  \<open>Mc_Laws\<close>: states, statuses, wrapped objects, role
    bindings; \<open>Mc_Mirror\<close>: what a pass of the agent leaves on its cluster.
  \<^item> \<open>Process\<close>: the operator process as the sequence of its calls, the invariant of its trackers
    and what holds over every history.

  How state corresponds to the code.  \<open>sys\<close> holds the resource of the current call (mutated in
  place by the code), the events sent so far, the package-level maps, and the cluster as an
  abstract value \<open>'w\<close> that every call reaching it may change.  \<open>env\<close> holds what is not under the
  reconciler: registered components, YAML library, files, clock, random numbers, and the
  operations on the cluster of other packages.  Both are arguments, so every theorem holds for
  every component list and every behaviour of the cluster.

  Loops.  An unbounded \<open>for\<close> loop is \<open>go_loop\<close>, a partial function whose non-termination is
  \<open>Spin\<close>; that the machines and flows never spin is proved by a rank on their states, with no
  fuel involved.

  What is shown.  The machines: which calls a component gets and in which order, what its
  details say at the end, and that it comes back.  The flows: that they come back, keep the
  trackers usable and finish only with every component at its end.  The controller: what each
  state does with a resource, that the finalizer goes last, and that no history of calls leads
  to a call that hangs.  The webhooks: what an admitted update has passed, and that the operator runs
  it.  Conversion: the stored resource survives the old API version, and the enabled checks agree
  (that of kube-state-metrics where its flag is set).
  Helm: which override decides a value.  Ingress traits: which hosts, destination and server a trait
  gets, what deleting it leaves, what its policies admit, and where the webhook and the controller
  differ.  Multi-cluster resources: what reconciling one leaves of its object, what the agent leaves on
  its cluster, how states are computed and when they are sent, which role bindings are deleted.  The
  pure parts: round trips, orders and equivalences.

  Events carry a copy of the details they are sent with; the code sends pointers that the same
  call may still change before the updater reads them.

  Not modelled: logging and metrics counters; the functions a single component adds to the Helm
  component (overrides it appends, objects it creates), which are reached through the interface;
  the controllers of metrics traits, logging traits and workloads and the cluster operator, which are
  programs of their own beside the ones modelled here; the agent's deployment of the Rancher agent, which
  works on JSON of a library; and the command line tool.
\<close>

section \<open>The webhook and the reconciler\<close>

lemma TrimSpace_Cons: "is_space c \<Longrightarrow> TrimSpace (c # s) = TrimSpace s"
  by (simp add: TrimSpace_def)

lemma space_no_version:
  assumes "is_space c"
  shows "NewSemVersion (c # v) = Inl (invalidVersionError (c # v))"
proof -
  have "\<forall>d \<in> set [CHR 0x09, CHR 0x0A, CHR 0x0B, CHR 0x0C, CHR 0x0D, CHR 0x20].
      \<not> is_digit d \<and> d \<noteq> CHR ''v'' \<and> d \<noteq> CHR ''V''"
    by code_simp
  with assms have "\<not> is_digit c" "c \<noteq> CHR ''v''" "c \<noteq> CHR ''V''" unfolding is_space_def by blast+
  then show ?thesis by (simp add: NewSemVersion_def)
qed

text \<open>C10. An upgrade that the webhook admits is one its operator runs: when the webhook and the reconciler
  use the same bill of materials and the version asked for has no blanks around it, the reconciler
  never finds itself newer than that version, and a resource that is paused with it resumes.\<close>

theorem admitted_upgrade_runs:
  assumes "ValidateUpdate W V v old w = (None, w')" and "WebhookValidationEnabled (Config W)"
    and "VersionCheckEnabled (Config W)" and "CurrentBomVersion E = GetCurrentBomVersion (BomLib W) (DefaultBOMFilePath W)"
    and "CurrentBomVersion E = Inr b" and "SpecVersion v \<noteq> []" and "TrimSpace (SpecVersion v) = SpecVersion v"
    and "SpecVersion (CR s) = SpecVersion v" and "DeletionTimestamp (CR s) = None"
  shows "\<not> snd (isOperatorNewerVersionThanCR E (SpecVersion v))
    \<and> ProcPausedUpgradeState E H s = delayed E None (updateVzState VzStateReady s)"
proof -
  have b: "GetCurrentBomVersion (BomLib W) (DefaultBOMFilePath W) = Inr b" using assms(4,5) by simp
  have "NewSemVersion (SpecVersion v) = Inr b"
    using ValidateUpdate_None [OF assms(1,2)] ValidateUpgradeRequest_iff [OF assms(3) b] assms(6,7) by simp
  with assms(5,8,9) show ?thesis
    by (simp add: isOperatorNewerVersionThanCR_def isOperatorSameVersionAsCR_def getVzAndOperatorVersions_def
        ProcPausedUpgradeState_def)
qed

theorem admitted_upgrade_runs_witness:
  "\<exists>b. CurrentBomVersion bom_env = Inr b \<and> \<not> snd (isOperatorNewerVersionThanCR bom_env ''v1.6.0'')
     \<and> ProcPausedUpgradeState bom_env (plain_controller log_client) (installed_sys ''v1.6.0'') =
         delayed bom_env None (updateVzState VzStateReady (installed_sys ''v1.6.0''))"
proof -
  obtain b where b: "GetCurrentBomVersion (BomLib sample_webhook) (DefaultBOMFilePath sample_webhook) = Inr b"
    "NewSemVersion ''1.6.0'' = Inr b" using sample_bom_version by blast
  have e: "CurrentBomVersion bom_env = Inr b" by (simp add: bom_env_def b)
  have t: "TrimSpace ''v1.6.0'' = ''v1.6.0''" by code_simp
  show ?thesis
    using admitted_upgrade_runs [OF sample_update_admitted sample_config, of bom_env b "installed_sys ''v1.6.0''"
        "plain_controller log_client"] b e t
    by (simp add: asking_for_def installed_sys_def sample_sys_def sample_cr_def zero_cr_def)
qed

text \<open>C31. A blank in front of the version stops the product: the webhook trims the version before it
  checks it, so its validation of an update (of which the component checks do not read the version)
  gives the same answer with the blank as without it, but the
  reconciler parses the version as it is, and every call on the installed product from then on
  ends with the parser's error and does nothing else.\<close>

theorem blank_before_version_blocks:
  assumes "nothing_first E s" and "NewContext E (CR s) = Inr eff" and "vzState (Status (CR s)) = VzStateReady"
    and "isInstalled (Status (CR s))" and "SpecVersion (CR s) = c # v" and "is_space c"
    and "\<And>k. V = Some k \<Longrightarrow> ValidateUpdateOf k old (CR s) = ValidateUpdateOf k old ((CR s)\<lparr>SpecVersion := v\<rparr>)"
  shows "doReconcile E H s = Ret ((newRequeueWithDelay (IntnRange E), Some (invalidVersionError (c # v))), s)
    \<and> ValidateUpdate W V (CR s) old w = ValidateUpdate W V ((CR s)\<lparr>SpecVersion := v\<rparr>) old w"
proof
  have "initializeComponentStatus E s = ((no_requeue, None), s)"
    using assms(1,2) by (simp add: initializeComponentStatus_def nothing_first_def init_components_quiet)
  with assms(3-5) space_no_version [OF assms(6), of v]
  show "doReconcile E H s = Ret ((newRequeueWithDelay (IntnRange E), Some (invalidVersionError (c # v))), s)"
    by (simp add: doReconcile_state [OF assms(1)] ProcReadyState_def or_requeue_def ready_installed_def
        delayed_def)
  show "ValidateUpdate W V (CR s) old w = ValidateUpdate W V ((CR s)\<lparr>SpecVersion := v\<rparr>) old w"
    using assms(7) by (cases V) (simp_all add: ValidateUpdate_def validateProfile_def assms(5) TrimSpace_Cons [OF assms(6)])
qed

theorem blank_before_version_blocks_witness:
  "\<exists>err. doReconcile (sample_env [sample_component ''istio'']) (plain_controller log_client) (installed_sys '' 1.6.0'')
      = Ret ((newRequeueWithDelay (\<lambda>lo hi. lo), Some err), installed_sys '' 1.6.0'')
    \<and> ValidateUpdate sample_webhook None (CR (installed_sys '' 1.6.0'')) (CR (installed_sys ''1.5.0'')) () = (None, ())"
proof -
  have s: "SpecVersion (CR (installed_sys '' 1.6.0'')) = CHR '' '' # ''1.6.0''"
    "vzState (Status (CR (installed_sys '' 1.6.0''))) = VzStateReady" "isInstalled (Status (CR (installed_sys '' 1.6.0'')))"
    "Profile (CR (installed_sys '' 1.6.0'')) = []"
    by (simp_all add: installed_sys_def sample_sys_def sample_cr_def zero_cr_def isInstalled_def)
  have i: "IntnRange (sample_env [sample_component ''istio'']) = (\<lambda>lo hi. lo)" by (simp add: sample_env_def)
  have sp: "is_space CHR '' ''" by (simp add: is_space_def)
  have a: "ValidateUpdate sample_webhook None ((CR (installed_sys '' 1.6.0''))\<lparr>SpecVersion := ''1.6.0''\<rparr>)
      (CR (installed_sys ''1.5.0'')) () = (None, ())" by code_simp
  from blank_before_version_blocks [OF installed_sys_first NewContext_sample [OF s(4)] s(2,3,1) sp,
      of None "CR (installed_sys ''1.5.0'')" "plain_controller log_client" sample_webhook "()"] i a
  show ?thesis by simp
qed

end
